(* ===== verification/PerGo_Prelude.thy ===== *)
theory PerGo_Prelude
  imports Main
begin

text \<open>
  Shared material of the development: the collections of simplification rules the component
  theories extend, the result type of fallible code, and generic facts on lists, options and
  maps that several components use.
\<close>

named_theorems frame_simps \<open>which fields an operation leaves unchanged\<close>
named_theorems pos_simps \<open>how an operation moves the reading position\<close>
named_theorems trace_simps \<open>the actions an effectful computation performs\<close>

section \<open>Results of fallible code\<close>

text \<open>A computation that may throw returns \<open>Inl\<close> of the error or \<open>Inr\<close> of its value.\<close>

type_synonym ('e, 'a) result = "'e + 'a"

section \<open>String operations of the JavaScript standard library on \<open>string\<close>\<close>

text \<open>\<open>s.startsWith(p)\<close>.\<close>

definition startsWith :: "'a list \<Rightarrow> 'a list \<Rightarrow> bool" where
  "startsWith s p \<longleftrightarrow> take (length p) s = p"

text \<open>\<open>s.split(c)[0]\<close> for a one-character separator: what stands before the first \<open>c\<close>.\<close>

definition split_first :: "'a \<Rightarrow> 'a list \<Rightarrow> 'a list" where
  "split_first c s = takeWhile (\<lambda>x. x \<noteq> c) s"

text \<open>\<open>s.replace(p, '')\<close> for a string \<open>p\<close>: the first occurrence of \<open>p\<close> is removed.\<close>

fun remove_first_occurrence :: "'a list \<Rightarrow> 'a list \<Rightarrow> 'a list" where
  "remove_first_occurrence p s =
     (if startsWith s p then drop (length p) s
      else case s of [] \<Rightarrow> [] | c # s' \<Rightarrow> c # remove_first_occurrence p s')"

declare remove_first_occurrence.simps [simp del]

text \<open>\<open>s.includes(p)\<close>.\<close>

fun str_includes :: "'a list \<Rightarrow> 'a list \<Rightarrow> bool" where
  "str_includes [] p = (p = [])"
| "str_includes (c # s) p = (startsWith (c # s) p \<or> str_includes s p)"

text \<open>\<open>xs.find(P)\<close> is \<^const>\<open>List.find\<close> of the library.\<close>

text \<open>Decimal notation of a number, as a template literal prints it.\<close>

fun show_nat :: "nat \<Rightarrow> string" where
  "show_nat n = (if n < 10 then [char_of (48 + n)]
     else show_nat (n div 10) @ [char_of (48 + n mod 10)])"

declare show_nat.simps [simp del]

text \<open>\<open>a || b\<close> on an optional string: an undefined or empty string is falsy.\<close>

definition or_default :: "string option \<Rightarrow> string \<Rightarrow> string" where
  "or_default a b = (case a of Some s \<Rightarrow> if s \<noteq> [] then s else b | None \<Rightarrow> b)"

lemma startsWith_append [simp]: "startsWith (p @ s) p"
  by (simp add: startsWith_def)

lemma startsWith_iff: "startsWith s p \<longleftrightarrow> (\<exists>r. s = p @ r)"
proof
  assume "startsWith s p"
  then have "s = p @ drop (length p) s"
    using append_take_drop_id [of "length p" s] by (simp add: startsWith_def)
  then show "\<exists>r. s = p @ r" ..
qed auto

lemma remove_first_occurrence_prefix [simp]: "remove_first_occurrence p (p @ s) = s"
  by (simp add: remove_first_occurrence.simps)

lemma split_first_append:
  assumes "c \<notin> set v"
  shows "split_first c (v @ c # r) = v" and "split_first c v = v"
  using assms by (induction v) (auto simp: split_first_def)

lemma str_includes_iff: "str_includes s p \<longleftrightarrow> (\<exists>a b. s = a @ p @ b)"
proof (induction s)
  case (Cons c s)
  show ?case
  proof
    assume "str_includes (c # s) p"
    then show "\<exists>a b. c # s = a @ p @ b"
    proof (cases "startsWith (c # s) p")
      case True
      then obtain r where "c # s = [] @ p @ r" by (auto simp: startsWith_iff)
      then show ?thesis by blast
    next
      case False
      with \<open>str_includes (c # s) p\<close> Cons.IH obtain a b where "s = a @ p @ b" by auto
      then have "c # s = (c # a) @ p @ b" by simp
      then show ?thesis by blast
    qed
  next
    assume "\<exists>a b. c # s = a @ p @ b"
    then obtain a b where ab: "c # s = a @ p @ b" by blast
    show "str_includes (c # s) p"
    proof (cases a)
      case Nil
      with ab have "startsWith (c # s) p" by (auto simp: startsWith_iff)
      then show ?thesis by simp
    next
      case (Cons d a')
      with ab have "s = a' @ p @ b" by simp
      with Cons.IH show ?thesis by auto
    qed
  qed
qed auto

section \<open>Lists\<close>

lemma find_Some_split:
  assumes "List.find P xs = Some x"
  obtains ys zs where "xs = ys @ x # zs" and "P x" and "\<forall>y \<in> set ys. \<not> P y"
proof -
  from assms obtain i where i: "i < length xs" "P (xs ! i)" "x = xs ! i"
    "\<forall>j<i. \<not> P (xs ! j)" by (auto simp: find_Some_iff)
  show ?thesis
  proof
    show "xs = take i xs @ x # drop (Suc i) xs"
      using i by (simp add: id_take_nth_drop)
    show "P x" using i by simp
    show "\<forall>y \<in> set (take i xs). \<not> P y"
      using i by (auto simp: in_set_conv_nth)
  qed
qed

lemma upt_Suc_map: "[1..<Suc (Suc n)] = [1..<Suc n] @ [Suc n]"
  by simp

end
