(* ===== verification/Cdp_Client.thy ===== *)
theory Cdp_Client
  imports PerGo_Prelude
begin

text \<open>
  The helpers of \<^verbatim>\<open>src/scripts/capture_screenshots.js\<close> that talk to the network: \<open>waitHttp\<close>
  (poll a URL until it answers or a deadline passes), \<open>getJson\<close> (collect a response body and
  parse it) and \<open>createCDPClient\<close> (correlate Chrome DevTools Protocol requests with their
  responses over one WebSocket).
\<close>

section \<open>Polling a URL: \<open>sleep\<close> and \<open>waitHttp\<close>\<close>

text \<open>
  What one \<open>http.get\<close> does: it answers with a status after a latency in milliseconds, it
  fails after a latency (the \<open>error\<close> event), or it never settles. The \<open>i\<close>-th attempt of a
  run is \<open>net i\<close>; \<open>slack i\<close> is how much longer than asked the \<open>i\<close>-th \<open>setTimeout\<close> takes.
\<close>

datatype http_outcome = Responds nat nat | Fails nat | Hangs

datatype wait_result = Ready nat | TimedOut nat | NeverSettles

definition http_ok :: "nat \<Rightarrow> bool" where
  "http_ok status \<longleftrightarrow> 200 \<le> status \<and> status < 400"

definition sleep :: "nat \<Rightarrow> nat \<Rightarrow> nat \<Rightarrow> nat" where
  "sleep ms slack now = now + ms + slack"

text \<open>
  The loop of \<open>waitHttp\<close>: \<open>i\<close> attempts have been made and the clock reads \<open>now\<close>. The result
  carries the number of attempts made in all.
\<close>

function wait_loop ::
  "(nat \<Rightarrow> http_outcome) \<Rightarrow> (nat \<Rightarrow> nat) \<Rightarrow> nat \<Rightarrow> nat \<Rightarrow> nat \<Rightarrow> nat \<Rightarrow> wait_result \<times> nat"
where
  "wait_loop net slack start timeout i now =
     (if now - start < timeout then
        (case net i of
           Responds status lat \<Rightarrow>
             if http_ok status then (Ready (now + lat), Suc i)
             else wait_loop net slack start timeout (Suc i) (sleep 250 (slack i) (now + lat))
         | Fails lat \<Rightarrow>
             wait_loop net slack start timeout (Suc i) (sleep 250 (slack i) (now + lat))
         | Hangs \<Rightarrow> (NeverSettles, Suc i))
      else (TimedOut now, i))"
  by pat_completeness auto
termination
  by (relation "measure (\<lambda>(net, slack, start, timeout, i, now). start + timeout - now)")
     (auto simp: sleep_def)

declare wait_loop.simps [simp del]

definition waitHttp :: "(nat \<Rightarrow> http_outcome) \<Rightarrow> (nat \<Rightarrow> nat) \<Rightarrow> nat \<Rightarrow> nat \<Rightarrow> wait_result \<times> nat"
where
  "waitHttp net slack timeout now = wait_loop net slack now timeout 0 now"

text \<open>The clock at the start of attempt \<open>k\<close>, when no earlier attempt ended the loop.\<close>

fun latency :: "http_outcome \<Rightarrow> nat" where
  "latency (Responds _ lat) = lat"
| "latency (Fails lat) = lat"
| "latency Hangs = 0"

fun retries :: "http_outcome \<Rightarrow> bool" where
  "retries (Responds status _) = (\<not> http_ok status)"
| "retries (Fails _) = True"
| "retries Hangs = False"

fun attempt_time :: "(nat \<Rightarrow> http_outcome) \<Rightarrow> (nat \<Rightarrow> nat) \<Rightarrow> nat \<Rightarrow> nat \<Rightarrow> nat" where
  "attempt_time net slack now 0 = now"
| "attempt_time net slack now (Suc k) =
     sleep 250 (slack k) (attempt_time net slack now k + latency (net k))"

section \<open>Reading a JSON document: \<open>getJson\<close>\<close>

text \<open>
  The \<open>data\<close> events append their chunks; the \<open>end\<close> event parses what was collected, and a
  parse error rejects the promise; an \<open>error\<close> event of the request rejects it too.
  \<open>parse\<close> stands for \<open>JSON.parse\<close>.
\<close>

datatype 'e http_event = Data string | End | HttpError 'e

fun getJson :: "(string \<Rightarrow> 'e + 'j) \<Rightarrow> string \<Rightarrow> 'e http_event list \<Rightarrow> ('e + 'j) option" where
  "getJson parse acc [] = None"
| "getJson parse acc (Data chunk # evs) = getJson parse (acc @ chunk) evs"
| "getJson parse acc (End # evs) = Some (parse acc)"
| "getJson parse acc (HttpError e # evs) = Some (Inl e)"

section \<open>The DevTools client: \<open>createCDPClient\<close>\<close>

text \<open>
  The promises the client has handed out, in the order of the calls of \<open>send\<close>. \<open>callbacks\<close>
  maps a call id to the promise whose \<open>resolve\<close> and \<open>reject\<close> the code stored under it, and
  \<open>wire\<close> is what was written to the socket.
\<close>

datatype 'v promise = Pending | Resolved "'v option" | Rejected string

record 'p cdp_request =
  req_id :: nat
  req_method :: string
  req_params :: 'p

text \<open>The \<open>error\<close> member of a response: its \<open>message\<close>, if any, and its JSON text.\<close>

record cdp_error =
  err_message :: "string option"
  err_json :: string

record 'v cdp_message =
  msg_id :: "nat option"
  msg_error :: "cdp_error option"
  msg_result :: "'v option"

record ('p, 'v) cdp_client =
  next_id :: nat
  callbacks :: "nat \<rightharpoonup> nat"
  promises :: "'v promise list"
  wire :: "'p cdp_request list"

definition createCDPClient :: "('p, 'v) cdp_client" where
  "createCDPClient =
     \<lparr>next_id = 1, callbacks = Map.empty, promises = [], wire = []\<rparr>"

text \<open>\<open>send\<close> returns the promise as its index in \<open>promises\<close>.\<close>

definition send :: "string \<Rightarrow> 'p \<Rightarrow> ('p, 'v) cdp_client \<Rightarrow> nat \<times> ('p, 'v) cdp_client" where
  "send meth params c =
     (let callId = next_id c; p = length (promises c)
      in (p, c\<lparr>next_id := callId + 1,
               promises := promises c @ [Pending],
               callbacks := (callbacks c)(callId \<mapsto> p),
               wire := wire c @ [\<lparr>req_id = callId, req_method = meth, req_params = params\<rparr>]\<rparr>))"

definition error_text :: "cdp_error \<Rightarrow> string" where
  "error_text e = (case err_message e of
     Some m \<Rightarrow> if m \<noteq> [] then m else err_json e
   | None \<Rightarrow> err_json e)"

text \<open>
  \<open>ws.onmessage\<close>: \<open>data\<close> is \<open>None\<close> when \<open>JSON.parse\<close> throws, which leaves the client as it
  was. An \<open>id\<close> of 0 is falsy.
\<close>

definition onmessage :: "'v cdp_message option \<Rightarrow> ('p, 'v) cdp_client \<Rightarrow> ('p, 'v) cdp_client" where
  "onmessage data c = (case data of
     None \<Rightarrow> c
   | Some msg \<Rightarrow>
     (case msg_id msg of
        None \<Rightarrow> c
      | Some i \<Rightarrow>
        if i \<noteq> 0 then
          (case callbacks c i of
             None \<Rightarrow> c
           | Some p \<Rightarrow>
             let c' = c\<lparr>callbacks := (callbacks c)(i := None)\<rparr>
             in (case msg_error msg of
                   Some e \<Rightarrow> c'\<lparr>promises := (promises c')[p := Rejected (error_text e)]\<rparr>
                 | None \<Rightarrow> c'\<lparr>promises := (promises c')[p := Resolved (msg_result msg)]\<rparr>))
        else c))"

text \<open>What can happen to a client, and its runs.\<close>

datatype ('p, 'v) cdp_event = Send string 'p | Message "'v cdp_message option"

fun cdp_step :: "('p, 'v) cdp_client \<Rightarrow> ('p, 'v) cdp_event \<Rightarrow> ('p, 'v) cdp_client" where
  "cdp_step c (Send meth params) = snd (send meth params c)"
| "cdp_step c (Message m) = onmessage m c"

definition cdp_run :: "('p, 'v) cdp_client \<Rightarrow> ('p, 'v) cdp_event list \<Rightarrow> ('p, 'v) cdp_client" where
  "cdp_run c es = foldl cdp_step c es"

section \<open>Specification of the client\<close>

text \<open>
  What the code promises to a caller, over the history of the socket: the call with id \<open>i\<close> is
  settled by the first message with that id which arrives after the \<open>i\<close>-th call of \<open>send\<close>.
\<close>

fun after_sends :: "nat \<Rightarrow> ('p, 'v) cdp_event list \<Rightarrow> ('p, 'v) cdp_event list" where
  "after_sends 0 es = es"
| "after_sends (Suc n) [] = []"
| "after_sends (Suc n) (Send m ps # es) = after_sends n es"
| "after_sends (Suc n) (Message d # es) = after_sends (Suc n) es"

fun reply_to :: "nat \<Rightarrow> ('p, 'v) cdp_event list \<Rightarrow> 'v cdp_message option" where
  "reply_to i [] = None"
| "reply_to i (Send m ps # es) = reply_to i es"
| "reply_to i (Message None # es) = reply_to i es"
| "reply_to i (Message (Some msg) # es) =
     (if msg_id msg = Some i then Some msg else reply_to i es)"

definition settlement :: "'v cdp_message option \<Rightarrow> 'v promise" where
  "settlement r = (case r of
     None \<Rightarrow> Pending
   | Some msg \<Rightarrow> (case msg_error msg of
       Some e \<Rightarrow> Rejected (error_text e)
     | None \<Rightarrow> Resolved (msg_result msg)))"

fun is_send :: "('p, 'v) cdp_event \<Rightarrow> bool" where
  "is_send (Send _ _) = True"
| "is_send (Message _) = False"

definition n_sends :: "('p, 'v) cdp_event list \<Rightarrow> nat" where
  "n_sends es = length (filter is_send es)"

section \<open>Invariant of the client\<close>

definition cdp_inv :: "('p, 'v) cdp_client \<Rightarrow> bool" where
  "cdp_inv c \<longleftrightarrow>
     next_id c = Suc (length (promises c)) \<and>
     map req_id (wire c) = [1..<next_id c] \<and>
     (\<forall>k p. callbacks c k = Some p \<longrightarrow> k = Suc p \<and> p < length (promises c)) \<and>
     (\<forall>p < length (promises c). promises c ! p = Pending \<longleftrightarrow> callbacks c (Suc p) = Some p)"

lemma cdp_invD:
  assumes "cdp_inv c"
  shows "next_id c = Suc (length (promises c))"
    and "map req_id (wire c) = [1..<next_id c]"
    and "callbacks c k = Some p \<Longrightarrow> k = Suc p"
    and "callbacks c k = Some p \<Longrightarrow> p < length (promises c)"
    and "p < length (promises c) \<Longrightarrow> promises c ! p = Pending \<longleftrightarrow> callbacks c (Suc p) = Some p"
  using assms unfolding cdp_inv_def by blast+

lemma cdp_invI:
  assumes "next_id c = Suc (length (promises c))"
    and "map req_id (wire c) = [1..<next_id c]"
    and "\<And>k p. callbacks c k = Some p \<Longrightarrow> k = Suc p \<and> p < length (promises c)"
    and "\<And>p. p < length (promises c) \<Longrightarrow>
           promises c ! p = Pending \<longleftrightarrow> callbacks c (Suc p) = Some p"
  shows "cdp_inv c"
  using assms unfolding cdp_inv_def by blast

lemma cdp_inv_create: "cdp_inv createCDPClient"
  by (simp add: cdp_inv_def createCDPClient_def)

lemma cdp_inv_send:
  assumes "cdp_inv c"
  shows "cdp_inv (snd (send meth params c))"
  using assms by (auto simp: cdp_inv_def send_def Let_def nth_append less_Suc_eq dest: spec)

text \<open>A message for an outstanding call settles that call and forgets its callbacks.\<close>

lemma onmessage_hit:
  assumes "callbacks c i = Some p" and "i \<noteq> 0" and "msg_id msg = Some i"
  shows "onmessage (Some msg) c =
     c\<lparr>callbacks := (callbacks c)(i := None),
       promises := (promises c)[p := settlement (Some msg)]\<rparr>"
  using assms by (simp add: onmessage_def settlement_def Let_def split: option.splits)

lemma onmessage_miss:
  assumes "\<And>i. msg_id msg = Some i \<Longrightarrow> i = 0 \<or> callbacks c i = None"
  shows "onmessage (Some msg) c = c"
  using assms by (auto simp: onmessage_def split: option.splits)

lemma onmessage_cases [consumes 1]:
  assumes "cdp_inv c"
  obtains (noop) "onmessage m c = c"
      "\<And>msg p. m = Some msg \<Longrightarrow> msg_id msg = Some (Suc p) \<Longrightarrow> callbacks c (Suc p) = None"
    | (hit) p msg where "m = Some msg" and "msg_id msg = Some (Suc p)"
        and "callbacks c (Suc p) = Some p"
        and "p < length (promises c)"
        and "onmessage m c = c\<lparr>callbacks := (callbacks c)(Suc p := None),
               promises := (promises c)[p := settlement (Some msg)]\<rparr>"
proof (cases m)
  case None
  then show ?thesis using noop by (simp add: onmessage_def)
next
  case (Some msg)
  show ?thesis
  proof (cases "\<exists>i. msg_id msg = Some i \<and> i \<noteq> 0 \<and> callbacks c i \<noteq> None")
    case True
    then obtain i p where i: "msg_id msg = Some i" "i \<noteq> 0" "callbacks c i = Some p" by blast
    then have "i = Suc p" "p < length (promises c)" using cdp_invD(3,4) [OF assms i(3)] by simp_all
    with i Some show ?thesis using hit onmessage_hit [OF i(3,2,1)] by simp
  next
    case False
    with Some show ?thesis using noop onmessage_miss [of msg] by auto
  qed
qed

lemma settlement_not_Pending [simp]: "settlement (Some msg) \<noteq> Pending"
  by (simp add: settlement_def split: option.splits)

lemma cdp_inv_onmessage:
  assumes "cdp_inv c"
  shows "cdp_inv (onmessage m c)"
  using assms
proof (cases rule: onmessage_cases [where m = m])
  case noop
  then show ?thesis using assms by simp
next
  case (hit p msg)
  show ?thesis
  proof (rule cdp_invI)
    show "next_id (onmessage m c) = Suc (length (promises (onmessage m c)))"
      and "map req_id (wire (onmessage m c)) = [1..<next_id (onmessage m c)]"
      using cdp_invD(1,2) [OF assms] by (simp_all add: hit(5))
  next
    fix k q
    assume "callbacks (onmessage m c) k = Some q"
    then have "callbacks c k = Some q" by (simp add: hit(5) split: if_splits)
    then show "k = Suc q \<and> q < length (promises (onmessage m c))"
      using cdp_invD(3,4) [OF assms, of k q] by (simp add: hit(5))
  next
    fix q
    assume "q < length (promises (onmessage m c))"
    then have "q < length (promises c)" by (simp add: hit(5))
    from cdp_invD(5) [OF assms this] hit(4)
    show "promises (onmessage m c) ! q = Pending \<longleftrightarrow> callbacks (onmessage m c) (Suc q) = Some q"
      by (cases "q = p") (simp_all add: hit(5))
  qed
qed

lemma cdp_inv_step: "cdp_inv c \<Longrightarrow> cdp_inv (cdp_step c e)"
  by (cases e) (simp_all add: cdp_inv_send cdp_inv_onmessage)

lemma cdp_inv_run: "cdp_inv c \<Longrightarrow> cdp_inv (cdp_run c es)"
  unfolding cdp_run_def by (induction es arbitrary: c) (simp_all add: cdp_inv_step)

lemma cdp_run_snoc: "cdp_run c (es @ [e]) = cdp_step (cdp_run c es) e"
  by (simp add: cdp_run_def)

lemma cdp_run_append: "cdp_run c (es @ fs) = cdp_run (cdp_run c es) fs"
  by (simp add: cdp_run_def)

lemma n_sends_snoc: "n_sends (es @ [e]) = n_sends es + (if is_send e then 1 else 0)"
  by (simp add: n_sends_def)

lemma length_promises_step:
  assumes "cdp_inv c"
  shows "length (promises (cdp_step c e)) = length (promises c) + (if is_send e then 1 else 0)"
proof (cases e)
  case (Send meth params)
  then show ?thesis by (simp add: send_def Let_def)
next
  case (Message m)
  from assms show ?thesis
    by (cases rule: onmessage_cases [where m = m]) (simp_all add: Message)
qed

lemma length_promises_run: "length (promises (cdp_run createCDPClient es)) = n_sends es"
proof (induction es rule: rev_induct)
  case Nil
  then show ?case by (simp add: cdp_run_def createCDPClient_def n_sends_def)
next
  case (snoc e es)
  then show ?case
    by (simp add: cdp_run_snoc n_sends_snoc length_promises_step cdp_inv_run cdp_inv_create)
qed

lemma after_sends_snoc:
  "n \<le> n_sends es \<Longrightarrow> after_sends n (es @ [e]) = after_sends n es @ [e]"
  by (induction n es rule: after_sends.induct) (auto simp: n_sends_def)

lemma after_sends_short:
  "n = Suc (n_sends es) \<Longrightarrow> after_sends n (es @ [Send m ps]) = []"
  by (induction n es rule: after_sends.induct) (auto simp: n_sends_def)

lemma reply_to_snoc:
  "reply_to i (es @ [e]) = (case reply_to i es of
     Some m \<Rightarrow> Some m
   | None \<Rightarrow> (case e of Message (Some msg) \<Rightarrow> if msg_id msg = Some i then Some msg else None
              | _ \<Rightarrow> None))"
  by (induction i es rule: reply_to.induct)
     (auto split: option.splits cdp_event.splits)

text \<open>
  The refinement: the promise table of the running client is the one the specification reads
  off the history.
\<close>

lemma promise_of_history:
  "p < n_sends es \<Longrightarrow>
     promises (cdp_run createCDPClient es) ! p =
       settlement (reply_to (Suc p) (after_sends (Suc p) es))"
proof (induction es arbitrary: p rule: rev_induct)
  case Nil
  then show ?case by (simp add: n_sends_def)
next
  case (snoc e es)
  let ?c = "cdp_run createCDPClient es :: ('a, 'b) cdp_client"
  have inv: "cdp_inv ?c" by (rule cdp_inv_run [OF cdp_inv_create])
  note len = length_promises_run [of es]
  show ?case
  proof (cases e)
    case (Send meth params)
    show ?thesis
    proof (cases "p < n_sends es")
      case True
      then show ?thesis
        using snoc.IH [of p] Send len
        by (simp add: cdp_run_snoc send_def Let_def nth_append after_sends_snoc reply_to_snoc
            split: option.splits)
    next
      case False
      with snoc.prems Send have "p = n_sends es" by (simp add: n_sends_snoc)
      with Send show ?thesis
        using len by (simp add: cdp_run_snoc send_def Let_def nth_append after_sends_short
            settlement_def)
    qed
  next
    case (Message m)
    with snoc.prems have p: "p < n_sends es" by (simp add: n_sends_snoc)
    let ?r = "reply_to (Suc p) (after_sends (Suc p) es)"
    have IH: "promises ?c ! p = settlement ?r" by (rule snoc.IH [OF p])
    have pend: "?r = None \<longleftrightarrow> callbacks ?c (Suc p) = Some p"
      using IH cdp_invD(5) [OF inv, of p] p len
      by (cases ?r) (auto simp: settlement_def split: option.splits)
    have upd: "after_sends (Suc p) (es @ [f]) = after_sends (Suc p) es @ [f]" for f
      using p by (simp add: after_sends_snoc)
    from inv show ?thesis
    proof (cases rule: onmessage_cases [where m = m])
      case noop
      then show ?thesis
        using IH pend Message
        by (auto simp: cdp_run_snoc upd reply_to_snoc split: option.splits)
    next
      case (hit q msg)
      then show ?thesis
        using IH pend Message len p
        by (auto simp: cdp_run_snoc upd reply_to_snoc nth_list_update split: option.splits)
    qed
  qed
qed

section \<open>Behaviour of \<open>waitHttp\<close>\<close>

lemma attempt_time_ge: "now + 250 * k \<le> attempt_time net slack now k"
  by (induction k) (auto simp: sleep_def)

lemma attempt_time_mono: "j \<le> k \<Longrightarrow> attempt_time net slack now j \<le> attempt_time net slack now k"
  by (rule lift_Suc_mono_le) (auto simp: sleep_def)

lemma wait_loop_retry:
  assumes "now - start < timeout" and "retries (net i)"
  shows "wait_loop net slack start timeout i now =
    wait_loop net slack start timeout (Suc i) (sleep 250 (slack i) (now + latency (net i)))"
  using assms by (subst wait_loop.simps) (cases "net i"; simp)

text \<open>While attempts fail before the deadline, the loop is where the attempt times say.\<close>

lemma wait_loop_unroll:
  assumes "\<forall>j<k. retries (net j) \<and> attempt_time net slack t0 j - t0 < T"
  shows "waitHttp net slack T t0 = wait_loop net slack t0 T k (attempt_time net slack t0 k)"
  using assms
proof (induction k)
  case 0
  then show ?case by (simp add: waitHttp_def)
next
  case (Suc k)
  then show ?case by (simp add: wait_loop_retry)
qed

lemma wait_stop_exists:
  "\<exists>k. (\<forall>j<k. retries (net j) \<and> attempt_time net slack t0 j - t0 < T) \<and>
       (\<not> retries (net k) \<or> T \<le> attempt_time net slack t0 k - t0)"
proof -
  let ?stop = "\<lambda>k. \<not> retries (net k) \<or> T \<le> attempt_time net slack t0 k - t0"
  have "?stop T" using attempt_time_ge [of t0 T net slack] by auto
  then have "?stop (LEAST k. ?stop k)" by (rule LeastI)
  moreover have "\<forall>j < (LEAST k. ?stop k). \<not> ?stop j" using not_less_Least by blast
  ultimately show ?thesis by (meson not_le)
qed

lemma wait_loop_stop:
  assumes "\<not> retries (net k) \<or> T \<le> now - t0"
  shows "wait_loop net slack t0 T k now =
    (if now - t0 < T then
       (case net k of Responds st lat \<Rightarrow> (Ready (now + lat), Suc k)
        | _ \<Rightarrow> (NeverSettles, Suc k))
     else (TimedOut now, k))"
  using assms by (subst wait_loop.simps) (cases "net k"; auto)

section \<open>Properties\<close>

text \<open>
  C2. Correlation of requests and responses: after any history of calls and incoming messages,
  the promise of the call with id \<open>Suc p\<close> is settled by exactly the first message with that id
  that arrived after the call, with the result or the error text of that message, and it is
  pending when there is none. Messages with unknown ids, with id 0 or that do not parse, and
  second responses to the same id have no effect on any promise.
\<close>

theorem cdp_settles_by_first_reply:
  assumes "p < n_sends es"
  shows "promises (cdp_run createCDPClient es) ! p =
    settlement (reply_to (Suc p) (after_sends (Suc p) es))"
  using assms by (rule promise_of_history)

theorem cdp_settles_by_first_reply_witness:
  "let es = [Send ''Page.enable'' (), Send ''DOM.enable'' (),
             Message (Some \<lparr>msg_id = Some 2, msg_error = None, msg_result = Some (7::int)\<rparr>),
             Message (Some \<lparr>msg_id = Some 2, msg_error = None, msg_result = Some 8\<rparr>)]
   in 1 < n_sends es \<and> promises (cdp_run createCDPClient es) ! 1 = Resolved (Some 7)"
  using cdp_settles_by_first_reply [of 1 "[Send ''Page.enable'' (), Send ''DOM.enable'' (),
             Message (Some \<lparr>msg_id = Some 2, msg_error = None, msg_result = Some (7::int)\<rparr>),
             Message (Some \<lparr>msg_id = Some 2, msg_error = None, msg_result = Some 8\<rparr>)]"]
  by (simp add: n_sends_def settlement_def numeral_2_eq_2)

text \<open>
  C35. The state of the client is consistent after any history: the ids written to the socket
  are 1, 2, 3, ... without gap or repetition, one per call, and the callback table holds exactly
  the ids of the calls whose promise is still pending.
\<close>

theorem cdp_ids_and_callbacks:
  fixes es :: "('p, 'v) cdp_event list"
  defines "c \<equiv> cdp_run createCDPClient es"
  shows "map req_id (wire c) = [1..<Suc (n_sends es)] \<and>
    dom (callbacks c) = Suc ` {p. p < n_sends es \<and> promises c ! p = Pending}"
proof -
  have inv: "cdp_inv c" unfolding c_def by (rule cdp_inv_run [OF cdp_inv_create])
  have len: "length (promises c) = n_sends es"
    unfolding c_def by (rule length_promises_run)
  have "k \<in> dom (callbacks c) \<longleftrightarrow> k \<in> Suc ` {p. p < n_sends es \<and> promises c ! p = Pending}" for k
  proof
    assume "k \<in> dom (callbacks c)"
    then obtain p where p: "callbacks c k = Some p" by auto
    then have k: "k = Suc p" "p < n_sends es"
      using cdp_invD(3,4) [OF inv p] len by simp_all
    then have "promises c ! p = Pending" using cdp_invD(5) [OF inv, of p] p len by simp
    with k show "k \<in> Suc ` {p. p < n_sends es \<and> promises c ! p = Pending}" by blast
  next
    assume "k \<in> Suc ` {p. p < n_sends es \<and> promises c ! p = Pending}"
    then obtain p where "k = Suc p" "p < length (promises c)" "promises c ! p = Pending"
      using len by auto
    then show "k \<in> dom (callbacks c)" using cdp_invD(5) [OF inv, of p] by blast
  qed
  then have "dom (callbacks c) = Suc ` {p. p < n_sends es \<and> promises c ! p = Pending}"
    by (rule set_eqI)
  moreover have "map req_id (wire c) = [1..<Suc (n_sends es)]"
    using cdp_invD(2) [OF inv] cdp_invD(1) [OF inv] len by simp
  ultimately show ?thesis by (rule conjI [rotated])
qed

text \<open>
  C37. Outcome of \<open>waitHttp\<close>: it polls until the first attempt that is answered with a status
  from 200 to 399 or hangs, or until an attempt would start at or after the deadline; the
  attempts start 250 ms and the latency of the attempt before apart. It then returns, throws the
  timeout error, or stays pending forever; the deadline is looked at between attempts only, so
  one request that never settles keeps it pending whatever the timeout.
\<close>

theorem waitHttp_outcome:
  assumes "\<forall>j<k. retries (net j) \<and> attempt_time net slack t0 j - t0 < T"
    and "\<not> retries (net k) \<or> T \<le> attempt_time net slack t0 k - t0"
  shows "waitHttp net slack T t0 =
    (if attempt_time net slack t0 k - t0 < T then
       (case net k of Responds st lat \<Rightarrow> (Ready (attempt_time net slack t0 k + lat), Suc k)
        | _ \<Rightarrow> (NeverSettles, Suc k))
     else (TimedOut (attempt_time net slack t0 k), k))"
  using wait_loop_unroll [OF assms(1)] 
    wait_loop_stop [where net = net and k = k and slack = slack, OF assms(2)] by simp

theorem waitHttp_outcome_witness:
  "let net = (\<lambda>i. if i = 0 then Fails 5 else if i = 1 then Responds 503 20 else Responds 200 30)
   in (\<forall>j<2. retries (net j) \<and> attempt_time net (\<lambda>_. 0) 0 j - 0 < 10000) \<and>
      waitHttp net (\<lambda>_. 0) 10000 0 = (Ready 555, 3)"
proof -
  let ?net = "\<lambda>i::nat. if i = 0 then Fails 5 else if i = 1 then Responds 503 20 else Responds 200 30"
  have *: "\<forall>j<2. retries (?net j) \<and> attempt_time ?net (\<lambda>_. 0) 0 j - 0 < 10000"
    by (auto simp: less_2_cases_iff http_ok_def sleep_def)
  show ?thesis
    using * waitHttp_outcome [of 2 ?net "\<lambda>_. 0" 0 10000]
    by (simp add: http_ok_def sleep_def numeral_2_eq_2)
qed

text \<open>
  C38. \<open>waitHttp\<close> makes at most one attempt per started 250 ms of its timeout, whatever the
  network does: 40 attempts for the default timeout of 10000 ms.
\<close>

theorem waitHttp_attempts_bound: "snd (waitHttp net slack T t0) \<le> (T + 249) div 250"
proof -
  obtain k where k: "\<forall>j<k. retries (net j) \<and> attempt_time net slack t0 j - t0 < T"
    "\<not> retries (net k) \<or> T \<le> attempt_time net slack t0 k - t0"
    using wait_stop_exists by blast
  have started: "Suc j \<le> (T + 249) div 250" if "attempt_time net slack t0 j - t0 < T" for j
    using that attempt_time_ge [of t0 j net slack] by linarith
  have before: "k \<le> (T + 249) div 250"
    using k(1) started by (cases k) auto
  show ?thesis
    using before started [of k] wait_loop_unroll [OF k(1)] 
      wait_loop_stop [where net = net and k = k and slack = slack, OF k(2)]
    by (auto split: http_outcome.splits)
qed

end
