(* ===== verification/Script_Effects.thy ===== *)
theory Script_Effects
  imports PerGo_Prelude
begin

text \<open>
  The effects of \<^verbatim>\<open>src/scripts/capture_screenshots.js\<close>: what the script does to the world is a
  list of actions, and an \<open>io\<close> computation appends to it and returns or throws. The answers of
  the world (the environment, the file system, the HTTP server, Chrome) are an argument, one
  function per kind of question, each of the actions performed so far; the theorems hold for
  every such world. An awaited call settles: a promise that stays pending forever ends the run
  at that point and is not a result of an \<open>io\<close> computation.
\<close>

section \<open>Actions and worlds\<close>

datatype page_script =
  OpenConversation | OpenPairForm | ShowQr | OpenCampaignForm | FillCampaignForm

datatype jval = JStr string | JNum nat | JBool bool | JObj "(string \<times> jval) list" | JScript page_script

datatype action =
    MkdirP string
  | HttpWait string
  | HttpPost string string
  | Spawn string "string list"
  | GetJson string
  | Connect string
  | CdpSend string "(string \<times> jval) list"
  | Sleep nat
  | WriteBase64 string string
  | CloseSocket
  | KillChrome
  | RmRecursive string
  | Exec string
  | CopyFile string string
  | StatSize string
  | Exit nat

record target =
  target_type :: string
  target_ws_url :: string

text \<open>What a settled \<open>send\<close> returns, as far as the script looks at it.\<close>

record cdp_value =
  val_exception :: "string option"
  val_data :: string

record world =
  getenv :: "string \<Rightarrow> string option"
  exists_file :: "action list \<Rightarrow> string \<Rightarrow> bool"
  clock :: "action list \<Rightarrow> nat"
  set_cookie :: "action list \<Rightarrow> string list option"
  targets :: "action list \<Rightarrow> target list"
  cdp_reply :: "action list \<Rightarrow> cdp_value"
  throws :: "action list \<Rightarrow> action \<Rightarrow> string option"

section \<open>Computations\<close>

type_synonym 'a io = "world \<Rightarrow> action list \<Rightarrow> (string, 'a) result \<times> action list"

definition ret :: "'a \<Rightarrow> 'a io" where
  "ret x = (\<lambda>w h. (Inr x, h))"

definition throw :: "string \<Rightarrow> 'a io" where
  "throw e = (\<lambda>w h. (Inl e, h))"

definition bnd :: "'a io \<Rightarrow> ('a \<Rightarrow> 'b io) \<Rightarrow> 'b io" where
  "bnd m k = (\<lambda>w h. case m w h of (Inl e, h') \<Rightarrow> (Inl e, h') | (Inr x, h') \<Rightarrow> k x w h')"

definition act :: "action \<Rightarrow> unit io" where
  "act a = (\<lambda>w h. (case throws w h a of Some e \<Rightarrow> Inl e | None \<Rightarrow> Inr (), h @ [a]))"

text \<open>An action that cannot throw: a timer, the end of the process.\<close>

definition tell :: "action \<Rightarrow> unit io" where
  "tell a = (\<lambda>w h. (Inr (), h @ [a]))"

definition ask :: "(world \<Rightarrow> action list \<Rightarrow> 'a) \<Rightarrow> 'a io" where
  "ask f = (\<lambda>w h. (Inr (f w h), h))"

text \<open>\<open>try { m } finally { f }\<close>: an exception of \<open>f\<close> replaces the outcome of \<open>m\<close>.\<close>

definition try_finally :: "'a io \<Rightarrow> unit io \<Rightarrow> 'a io" where
  "try_finally m f = (\<lambda>w h. case m w h of (r, h') \<Rightarrow>
     (case f w h' of (Inl e, h'') \<Rightarrow> (Inl e, h'') | (Inr _, h'') \<Rightarrow> (r, h'')))"

text \<open>\<open>try { m } catch (e) {}\<close>.\<close>

definition swallow :: "unit io \<Rightarrow> unit io" where
  "swallow m = (\<lambda>w h. (Inr (), snd (m w h)))"

text \<open>Statements in sequence, and a \<open>for ... of\<close> loop.\<close>

fun seqs :: "unit io list \<Rightarrow> unit io" where
  "seqs [] = ret ()"
| "seqs (m # ms) = bnd m (\<lambda>_. seqs ms)"

definition for_each :: "'a list \<Rightarrow> ('a \<Rightarrow> unit io) \<Rightarrow> unit io" where
  "for_each xs f = seqs (map f xs)"

section \<open>Observing a computation\<close>

text \<open>
  \<open>obs\<close> picks the actions of interest and what to record of them. A computation
  \<open>emits obs m ws\<close> when it appends actions only, its observed actions are always a prefix of
  \<open>ws\<close>, and they are all of \<open>ws\<close> when it returns.
\<close>

definition emits :: "(action \<Rightarrow> 'b option) \<Rightarrow> 'a io \<Rightarrow> 'b list \<Rightarrow> bool" where
  "emits obs m ws \<longleftrightarrow> (\<forall>w h. \<exists>s. snd (m w h) = h @ s \<and>
     (\<exists>rest. ws = List.map_filter obs s @ rest \<and> (\<forall>x. fst (m w h) = Inr x \<longrightarrow> rest = [])))"

lemma emitsI:
  assumes "\<And>w h. \<exists>s rest. snd (m w h) = h @ s \<and> ws = List.map_filter obs s @ rest \<and>
    (\<forall>x. fst (m w h) = Inr x \<longrightarrow> rest = [])"
  shows "emits obs m ws"
  unfolding emits_def using assms by blast

lemma emitsE:
  assumes "emits obs m ws"
  obtains s rest where "snd (m w h) = h @ s" and "ws = List.map_filter obs s @ rest"
    and "\<And>x. fst (m w h) = Inr x \<Longrightarrow> rest = []"
  using assms unfolding emits_def by blast

lemma emits_ret [trace_simps]: "emits obs (ret x) []"
  by (rule emitsI) (simp add: ret_def)

lemma emits_throw [trace_simps]: "emits obs (throw e) ws"
  by (rule emitsI) (auto simp: throw_def)

lemma emits_ask [trace_simps]: "emits obs (ask f) []"
  by (rule emitsI) (simp add: ask_def)

lemma map_filter_single:
  "List.map_filter f [a] = (case f a of None \<Rightarrow> [] | Some b \<Rightarrow> [b])"
  by (simp add: List.map_filter_simps split: option.splits)

lemma map_filter_append:
  "List.map_filter f (xs @ ys) = List.map_filter f xs @ List.map_filter f ys"
  by (simp add: List.map_filter_def)

lemma emits_act [trace_simps]:
  "emits obs (act a) (case obs a of None \<Rightarrow> [] | Some b \<Rightarrow> [b])"
  by (rule emitsI) (simp add: act_def map_filter_single split: option.splits)

lemma emits_tell [trace_simps]:
  "emits obs (tell a) (case obs a of None \<Rightarrow> [] | Some b \<Rightarrow> [b])"
  by (rule emitsI) (simp add: tell_def map_filter_single split: option.splits)

lemma emits_bnd:
  assumes m: "emits obs m as" and k: "\<And>x. emits obs (k x) bs"
  shows "emits obs (bnd m k) (as @ bs)"
proof (rule emitsI)
  fix w h
  obtain r h1 where mh: "m w h = (r, h1)" by fastforce
  obtain s rest where s: "h1 = h @ s" "as = List.map_filter obs s @ rest"
    "\<And>x. r = Inr x \<Longrightarrow> rest = []"
    using emitsE [OF m, of w h] mh by (metis fst_conv snd_conv)
  show "\<exists>s rest. snd (bnd m k w h) = h @ s \<and> as @ bs = List.map_filter obs s @ rest \<and>
    (\<forall>x. fst (bnd m k w h) = Inr x \<longrightarrow> rest = [])"
  proof (cases r)
    case (Inl e)
    then show ?thesis using mh s by (auto simp: bnd_def)
  next
    case (Inr x)
    obtain s' rest' where s': "snd (k x w h1) = h1 @ s'" "bs = List.map_filter obs s' @ rest'"
      "\<And>y. fst (k x w h1) = Inr y \<Longrightarrow> rest' = []"
      using emitsE [OF k [of x], of w h1] by blast
    have "snd (bnd m k w h) = h @ (s @ s') \<and>
        as @ bs = List.map_filter obs (s @ s') @ rest' \<and>
        (\<forall>y. fst (bnd m k w h) = Inr y \<longrightarrow> rest' = [])"
      using mh s s' Inr by (simp add: bnd_def map_filter_append)
    then show ?thesis by blast
  qed
qed

lemma emits_seqs:
  assumes "list_all2 (emits obs) ms wss"
  shows "emits obs (seqs ms) (concat wss)"
  using assms
proof (induction rule: list_all2_induct)
  case Nil
  then show ?case by (simp add: emits_ret)
next
  case (Cons m ms ws wss)
  then show ?case by (simp add: emits_bnd)
qed

lemma emits_for_each:
  assumes "\<And>x. x \<in> set xs \<Longrightarrow> emits obs (f x) (g x)"
  shows "emits obs (for_each xs f) (concat (map g xs))"
  unfolding for_each_def
  by (rule emits_seqs) (simp add: list_all2_map1 list_all2_map2 list_all2_same assms)

lemma emits_swallow:
  assumes "emits obs m []"
  shows "emits obs (swallow m) []"
  using assms by (simp add: emits_def swallow_def)

text \<open>\<open>finally\<close> runs whatever the body did, and its actions come last.\<close>

lemma try_finally_trace:
  "snd (try_finally m f w h) = snd (f w (snd (m w h)))"
  by (simp add: try_finally_def split: prod.splits sum.splits)

lemma emits_try_finally:
  assumes m: "emits obs m ws" and f: "emits obs f []"
  shows "emits obs (try_finally m f) ws"
proof (rule emitsI)
  fix w h
  obtain s rest where s: "snd (m w h) = h @ s" "ws = List.map_filter obs s @ rest"
    "\<And>x. fst (m w h) = Inr x \<Longrightarrow> rest = []"
    using emitsE [OF m, of w h] by blast
  obtain s' where s': "snd (f w (h @ s)) = h @ s @ s'" "List.map_filter obs s' = []"
    using emitsE [OF f, of w "h @ s"] by (metis append_assoc append_is_Nil_conv)
  have "snd (try_finally m f w h) = h @ (s @ s')"
    using s(1) s'(1) by (simp add: try_finally_trace)
  moreover have "ws = List.map_filter obs (s @ s') @ rest"
    using s(2) s'(2) by (simp add: map_filter_append)
  moreover have "rest = []" if "fst (try_finally m f w h) = Inr x" for x
    using that s(3) by (auto simp: try_finally_def split: prod.splits sum.splits)
  ultimately show "\<exists>s rest. snd (try_finally m f w h) = h @ s \<and>
      ws = List.map_filter obs s @ rest \<and>
      (\<forall>x. fst (try_finally m f w h) = Inr x \<longrightarrow> rest = [])"
    by blast
qed

text \<open>A computation that performs none of the observed actions.\<close>

definition silent :: "(action \<Rightarrow> bool) \<Rightarrow> 'a io \<Rightarrow> bool" where
  "silent P m \<longleftrightarrow> (\<forall>w h. \<exists>s. snd (m w h) = h @ s \<and> (\<forall>a \<in> set s. \<not> P a))"

lemma silentE:
  assumes "silent P m"
  obtains s where "snd (m w h) = h @ s" and "\<forall>a \<in> set s. \<not> P a"
  using assms unfolding silent_def by blast

lemma silent_ret [trace_simps]: "silent P (ret x)"
  by (simp add: silent_def ret_def)

lemma silent_throw [trace_simps]: "silent P (throw e)"
  by (simp add: silent_def throw_def)

lemma silent_ask [trace_simps]: "silent P (ask f)"
  by (simp add: silent_def ask_def)

lemma silent_act [trace_simps]: "silent P (act a) \<longleftrightarrow> \<not> P a"
  by (simp add: silent_def act_def)

lemma silent_tell [trace_simps]: "silent P (tell a) \<longleftrightarrow> \<not> P a"
  by (simp add: silent_def tell_def)

lemma silent_bnd [trace_simps]:
  assumes m: "silent P m" and k: "\<And>x. silent P (k x)"
  shows "silent P (bnd m k)"
  unfolding silent_def
proof (intro allI)
  fix w h
  obtain r h1 where mh: "m w h = (r, h1)" by fastforce
  with silentE [OF m, of w h] obtain s where s: "h1 = h @ s" "\<forall>a \<in> set s. \<not> P a"
    by (metis snd_conv)
  show "\<exists>s. snd (bnd m k w h) = h @ s \<and> (\<forall>a \<in> set s. \<not> P a)"
  proof (cases r)
    case (Inl e)
    then show ?thesis using mh s by (auto simp: bnd_def)
  next
    case (Inr x)
    obtain s' where "snd (k x w h1) = h1 @ s'" "\<forall>a \<in> set s'. \<not> P a"
      using silentE [OF k [of x], of w h1] by blast
    then have "snd (bnd m k w h) = h @ (s @ s') \<and> (\<forall>a \<in> set (s @ s'). \<not> P a)"
      using mh s Inr by (auto simp: bnd_def)
    then show ?thesis by blast
  qed
qed

lemma silent_seqs [trace_simps]: "list_all (silent P) ms \<Longrightarrow> silent P (seqs ms)"
  by (induction ms) (auto intro: silent_ret silent_bnd)

lemma silent_swallow [trace_simps]: "silent P m \<Longrightarrow> silent P (swallow m)"
  by (simp add: silent_def swallow_def)

lemma try_finally_result:
  assumes "fst (f w (snd (m w h))) = Inr u"
  shows "fst (try_finally m f w h) = fst (m w h)"
  using assms by (auto simp: try_finally_def split: prod.splits sum.splits)

text \<open>A computation that returns in a given world, whatever was done before.\<close>

definition returns_in :: "world \<Rightarrow> 'a io \<Rightarrow> bool" where
  "returns_in w m \<longleftrightarrow> (\<forall>h. \<exists>x. fst (m w h) = Inr x)"

lemma returns_in_basic:
  "returns_in w (ret x)" "returns_in w (tell a)" "returns_in w (ask f)" "returns_in w (swallow m)"
  by (simp_all add: returns_in_def ret_def tell_def ask_def swallow_def)

lemma returns_in_act: "(\<And>h. throws w h a = None) \<Longrightarrow> returns_in w (act a)"
  by (simp add: returns_in_def act_def)

lemma returns_in_bnd:
  assumes "returns_in w m" and "\<And>x. returns_in w (k x)"
  shows "returns_in w (bnd m k)"
  unfolding returns_in_def
proof
  fix h
  obtain r h' where "m w h = (r, h')" by fastforce
  moreover then obtain x where "r = Inr x" using assms(1) unfolding returns_in_def by (metis fst_conv)
  ultimately show "\<exists>x. fst (bnd m k w h) = Inr x"
    using assms(2) unfolding returns_in_def by (simp add: bnd_def)
qed

lemma returns_in_seqs: "(\<And>m. m \<in> set ms \<Longrightarrow> returns_in w m) \<Longrightarrow> returns_in w (seqs ms)"
  by (induction ms) (auto intro: returns_in_basic returns_in_bnd)

lemma returns_in_try_finally:
  assumes "returns_in w m" and "returns_in w f"
  shows "returns_in w (try_finally m f)"
  unfolding returns_in_def
proof
  fix h
  obtain u where "fst (f w (snd (m w h))) = Inr u" using assms(2) unfolding returns_in_def by blast
  then show "\<exists>x. fst (try_finally m f w h) = Inr x"
    using assms(1) unfolding returns_in_def by (simp add: try_finally_result)
qed

end
