(* ===== verification/Capture_Main.thy ===== *)
theory Capture_Main
  imports Script_Effects
begin

text \<open>
  \<open>main\<close> of \<^verbatim>\<open>src/scripts/capture_screenshots.js\<close>: log in, start a headless Chrome, take the five
  documentation screenshots through the DevTools protocol, always stop Chrome and remove its
  profile, then derive the WebP files. Console output is left out. The page scripts the code
  evaluates inside the browser are modelled on the elements they look up.
\<close>

section \<open>Constants and string helpers\<close>

definition BASE_URL :: string where "BASE_URL = ''http://localhost:8080''"

definition CDP_URL :: string where "CDP_URL = ''http://127.0.0.1:9222''"

text \<open>\<open>path.join(dir, name)\<close> for a plain file name.\<close>

definition path_join :: "string \<Rightarrow> string \<Rightarrow> string" where
  "path_join dir name = dir @ ''/'' @ name"

text \<open>
  \<open>encodeURIComponent\<close> on the UTF-8 bytes of its argument: the unreserved characters stay, every
  other byte becomes a percent sign and two upper-case hexadecimal digits.
\<close>

definition is_unreserved :: "char \<Rightarrow> bool" where
  "is_unreserved c \<longleftrightarrow>
     (let n = of_char c :: nat in
      (65 \<le> n \<and> n \<le> 90) \<or> (97 \<le> n \<and> n \<le> 122) \<or> (48 \<le> n \<and> n \<le> 57) \<or>
      c \<in> {CHR ''-'', CHR ''_'', CHR ''.'', CHR ''!'', CHR ''~'', CHR ''*'', CHR 0x27,
            CHR ''('', CHR '')''})"

definition hex_digit :: "nat \<Rightarrow> char" where
  "hex_digit d = char_of (if d < 10 then 48 + d else 55 + d)"

definition encode_char :: "char \<Rightarrow> string" where
  "encode_char c = (if is_unreserved c then [c]
     else [CHR ''%'', hex_digit (of_char c div 16), hex_digit (of_char c mod 16)])"

definition encodeURIComponent :: "string \<Rightarrow> string" where
  "encodeURIComponent s = concat (map encode_char s)"

text \<open>The value of the session cookie among the \<open>set-cookie\<close> headers of the login response.\<close>

definition session_value :: "string list \<Rightarrow> string" where
  "session_value cookies =
     (case List.find (\<lambda>c. startsWith c ''pergo-session='') cookies of
        Some c \<Rightarrow> remove_first_occurrence ''pergo-session='' (split_first (CHR '';'') c)
      | None \<Rightarrow> [])"

definition chrome_candidates :: "string list" where
  "chrome_candidates = [''/usr/bin/google-chrome'', ''/usr/bin/chromium-browser'',
     ''/usr/bin/chromium'', ''/Applications/Google Chrome.app/Contents/MacOS/Google Chrome'']"

definition chrome_binary :: "string option \<Rightarrow> (string \<Rightarrow> bool) \<Rightarrow> string" where
  "chrome_binary chrome_bin existsSync =
     or_default chrome_bin (or_default (List.find existsSync chrome_candidates) ''google-chrome'')"

definition chrome_args :: "string \<Rightarrow> string list" where
  "chrome_args profileDir =
     [''--headless=new'', ''--remote-debugging-port=9222'', ''--no-sandbox'', ''--disable-gpu'',
      ''--user-data-dir='' @ profileDir, ''--no-first-run'', ''--no-default-browser-check'',
      ''--disable-extensions'', ''--disable-sync'', ''--window-size=1440,900'',
      ''--hide-scrollbars'', ''about:blank'']"

section \<open>The browser session\<close>

text \<open>\<open>send\<close> awaits the reply of Chrome.\<close>

definition cdp_send :: "string \<Rightarrow> (string \<times> jval) list \<Rightarrow> cdp_value io" where
  "cdp_send meth params = bnd (act (CdpSend meth params)) (\<lambda>_. ask cdp_reply)"

definition cdp_do :: "string \<Rightarrow> (string \<times> jval) list \<Rightarrow> unit io" where
  "cdp_do meth params = bnd (cdp_send meth params) (\<lambda>_. ret ())"

definition evaluate :: "page_script \<Rightarrow> unit io" where
  "evaluate expression =
     bnd (cdp_send ''Runtime.evaluate''
            [(''expression'', JScript expression), (''returnByValue'', JBool True),
             (''awaitPromise'', JBool True)])
         (\<lambda>res. case val_exception res of Some e \<Rightarrow> throw e | None \<Rightarrow> ret ())"

definition capture :: "string \<Rightarrow> string \<Rightarrow> unit io" where
  "capture outputDir filename =
     bnd (cdp_send ''Page.captureScreenshot''
            [(''format'', JStr ''png''),
             (''clip'', JObj [(''x'', JNum 0), (''y'', JNum 0), (''width'', JNum 1440),
                              (''height'', JNum 900), (''scale'', JNum 1)])])
         (\<lambda>res. act (WriteBase64 (path_join outputDir filename) (val_data res)))"

definition navigate :: "string \<Rightarrow> unit io" where
  "navigate url = cdp_do ''Page.navigate'' [(''url'', JStr url)]"

definition set_auth_cookie :: "string \<Rightarrow> string \<Rightarrow> unit io" where
  "set_auth_cookie name v = cdp_do ''Network.setCookie''
     [(''name'', JStr name), (''value'', JStr v), (''domain'', JStr ''localhost''), (''path'', JStr ''/'')]"

definition prepare_page :: "string \<Rightarrow> string \<Rightarrow> unit io" where
  "prepare_page sessionVal workspaceID = seqs
     [cdp_do ''Page.enable'' [], cdp_do ''DOM.enable'' [], cdp_do ''Network.enable'' [],
      cdp_do ''Emulation.setDeviceMetricsOverride''
        [(''width'', JNum 1440), (''height'', JNum 900), (''deviceScaleFactor'', JNum 1),
         (''mobile'', JBool False), (''fitWindow'', JBool False)],
      set_auth_cookie ''pergo-session'' sessionVal,
      set_auth_cookie ''pergo-active-workspace'' workspaceID]"

definition take_screenshots :: "string \<Rightarrow> unit io" where
  "take_screenshots outputDir = seqs
     [navigate (BASE_URL @ ''/admin/inbox''), tell (Sleep 1500),
      evaluate OpenConversation, tell (Sleep 1200), capture outputDir ''inbox-hero.png'',
      navigate (BASE_URL @ ''/admin/''), tell (Sleep 1500), capture outputDir ''dashboard.png'',
      navigate (BASE_URL @ ''/admin/connections''), tell (Sleep 1500),
      evaluate OpenPairForm, tell (Sleep 800), evaluate ShowQr, tell (Sleep 600),
      capture outputDir ''devices-qr.png'',
      navigate (BASE_URL @ ''/admin/campaigns''), tell (Sleep 1500),
      evaluate OpenCampaignForm, tell (Sleep 800), evaluate FillCampaignForm, tell (Sleep 600),
      capture outputDir ''campaigns.png'',
      navigate (BASE_URL @ ''/docs''), tell (Sleep 3500), capture outputDir ''api-docs.png'']"

text \<open>The body of the \<open>try\<close> block.\<close>

definition browser_session :: "string \<Rightarrow> string \<Rightarrow> string \<Rightarrow> unit io" where
  "browser_session outputDir sessionVal workspaceID =
     bnd (act (HttpWait (CDP_URL @ ''/json/version''))) (\<lambda>_.
     bnd (act (GetJson (CDP_URL @ ''/json/list''))) (\<lambda>_.
     bnd (ask targets) (\<lambda>ts.
       case List.find (\<lambda>t. target_type t = ''page'') ts of
         None \<Rightarrow> throw ''No page target found''
       | Some pageTarget \<Rightarrow>
           bnd (act (Connect (target_ws_url pageTarget))) (\<lambda>_.
           bnd (prepare_page sessionVal workspaceID) (\<lambda>_.
           bnd (take_screenshots outputDir) (\<lambda>_.
           act CloseSocket))))))"

text \<open>The \<open>finally\<close> block: both clean-up steps swallow their own errors.\<close>

definition stop_chrome :: "string \<Rightarrow> unit io" where
  "stop_chrome profileDir = seqs
     [swallow (act KillChrome), tell (Sleep 500), swallow (act (RmRecursive profileDir))]"

section \<open>The page scripts\<close>

text \<open>
  What the strings given to \<open>evaluate\<close> do in the page. \<open>OpenConversation\<close>: of the conversation
  items (their texts in document order) the index that is clicked.
\<close>

fun first_index :: "('a \<Rightarrow> bool) \<Rightarrow> 'a list \<Rightarrow> nat option" where
  "first_index P [] = None"
| "first_index P (x # xs) = (if P x then Some 0 else map_option Suc (first_index P xs))"

definition open_conversation :: "string list \<Rightarrow> nat option" where
  "open_conversation items =
     (case first_index (\<lambda>t. str_includes t ''Ana Clara'') items of
        Some i \<Rightarrow> Some i
      | None \<Rightarrow> if length items > 0 then Some 0 else None)"

text \<open>
  \<open>ShowQr\<close>: the modal backdrop's style, the content of \<open>#qr-area\<close> and the \<open>display\<close> of the
  submit button; \<open>None\<close> when the element is not in the page.
\<close>

datatype qr_content = Original string | QrFragment string

record pair_modal =
  backdrop :: "(string \<times> string) list option"
  qr_area :: "qr_content option"
  submit_display :: "string option"

definition show_qr :: "string \<Rightarrow> pair_modal \<Rightarrow> pair_modal" where
  "show_qr mockQRPNG m =
     (let m1 = (case backdrop m of
                  Some style \<Rightarrow> m\<lparr>backdrop := Some ((''backgroundColor'', ''rgba(15, 23, 42, 0.4)'')
                                  # (''backdropFilter'', ''blur(2px)'') # style)\<rparr>
                | None \<Rightarrow> m)
      in (case qr_area m1 of
            Some _ \<Rightarrow>
              (let m2 = m1\<lparr>qr_area := Some (QrFragment mockQRPNG)\<rparr>
               in (case submit_display m2 of
                     Some _ \<Rightarrow> m2\<lparr>submit_display := Some ''none''\<rparr>
                   | None \<Rightarrow> m2))
          | None \<Rightarrow> m1))"

text \<open>
  \<open>FillCampaignForm\<close>: the fields of the campaign form. A select is its number of options, the
  selected index and the \<open>change\<close> events dispatched on it; a tag checkbox is its state and the
  events dispatched on it. Texts are UTF-8 byte strings.
\<close>

record campaign_form =
  f_name :: "string option"
  f_channel :: "(nat \<times> nat \<times> nat) option"
  f_tags :: "(bool \<times> nat) list"
  f_batch :: "string option"
  f_delay :: "string option"
  f_template :: "string option"
  f_duration :: "string option"
  f_badge :: "(string \<times> string) option"

definition campaign_text :: string where
  "campaign_text = ''Ol'' @ [CHR 0xC3, CHR 0xA1] @ '' {{nome}}, seja bem-vindo ao PerGo! Estamos muito felizes em ter voc'' @
     [CHR 0xC3, CHR 0xAA] @ '' a bordo. Seu acesso '' @ [CHR 0xC3, CHR 0xA0] @ '' documenta'' @
     [CHR 0xC3, CHR 0xA7, CHR 0xC3, CHR 0xA3] @ ''o unificada e APIs est'' @ [CHR 0xC3, CHR 0xA1] @
     '' dispon'' @ [CHR 0xC3, CHR 0xAD] @ ''vel em https://docs.pergo.io.''"

definition fill_campaign_form :: "campaign_form \<Rightarrow> campaign_form" where
  "fill_campaign_form f =
     f\<lparr>f_name := map_option (\<lambda>_. ''Campanha Boas-Vindas & Onboarding Q4'') (f_name f),
       f_channel := map_option (\<lambda>(n, sel, evs). if n > 1 then (n, 1, Suc evs) else (n, sel, evs)) (f_channel f),
       f_tags := map (\<lambda>(idx, checked, evs). if idx < 3 then (True, Suc evs) else (checked, evs))
                   (enumerate 0 (f_tags f)),
       f_batch := map_option (\<lambda>_. ''10'') (f_batch f),
       f_delay := map_option (\<lambda>_. ''5'') (f_delay f),
       f_template := map_option (\<lambda>_. campaign_text) (f_template f),
       f_duration := map_option (\<lambda>_. ''15'') (f_duration f),
       f_badge := map_option (\<lambda>_. (''5 contatos v'' @ [CHR 0xC3, CHR 0xA1] @ ''lidos'',
          ''badge badge-sm bg-emerald-100 text-emerald-800 border-emerald-300 px-2 py-0.5 text-xs font-semibold''))
          (f_badge f)\<rparr>"

section \<open>Deriving the WebP files\<close>

record asset =
  png :: string
  webp :: string
  canonicalWebp :: string

definition assets :: "asset list" where
  "assets =
     [\<lparr>png = ''inbox-hero.png'', webp = ''inbox-hero.webp'', canonicalWebp = ''inbox.webp''\<rparr>,
      \<lparr>png = ''dashboard.png'', webp = ''dashboard.webp'', canonicalWebp = ''dashboard.webp''\<rparr>,
      \<lparr>png = ''devices-qr.png'', webp = ''devices-qr.webp'', canonicalWebp = ''connections.webp''\<rparr>,
      \<lparr>png = ''campaigns.png'', webp = ''campaigns.webp'', canonicalWebp = ''campaigns.webp''\<rparr>,
      \<lparr>png = ''api-docs.png'', webp = ''api-docs.webp'', canonicalWebp = ''scalar-docs.webp''\<rparr>]"

definition quoted :: "string \<Rightarrow> string" where
  "quoted s = [CHR 0x22] @ s @ [CHR 0x22]"

definition ffmpeg_command :: "string \<Rightarrow> string \<Rightarrow> string" where
  "ffmpeg_command src dest =
     ''ffmpeg -y -i '' @ quoted src @ '' -c:v libwebp -quality 85 '' @ quoted dest"

definition ffprobe_command :: "string \<Rightarrow> string" where
  "ffprobe_command src =
     ''ffprobe -v error -select_streams v:0 -show_entries stream=width,height -of csv=s=x:p=0 ''
       @ quoted src"

definition convert_asset :: "string \<Rightarrow> asset \<Rightarrow> unit io" where
  "convert_asset outputDir a =
     (let src = path_join outputDir (png a); dest = path_join outputDir (webp a) in
      seqs ([act (Exec (ffmpeg_command src dest))] @
        (if canonicalWebp a \<noteq> webp a
         then [act (CopyFile dest (path_join outputDir (canonicalWebp a)))] else []) @
        [act (StatSize src), act (StatSize dest), act (Exec (ffprobe_command src))]))"

section \<open>\<open>main\<close> and the script\<close>

definition main :: "string \<Rightarrow> unit io" where
  "main outputDir =
     bnd (act (HttpWait (BASE_URL @ ''/healthz''))) (\<lambda>_.
     bnd (ask (\<lambda>w h. or_default (getenv w ''PERGO_ADMIN_PASSWORD'') ''pergo-dev-2026'')) (\<lambda>adminPassword.
     bnd (act (HttpPost (BASE_URL @ ''/admin/login'')
            (''password='' @ encodeURIComponent adminPassword))) (\<lambda>_.
     bnd (ask (\<lambda>w h. session_value (case set_cookie w h of Some cs \<Rightarrow> cs | None \<Rightarrow> []))) (\<lambda>sessionVal.
     bnd (ask (\<lambda>w h. or_default (getenv w ''PERGO_WORKSPACE_ID'')
            ''15fc10cb-0c9c-40dc-b6a9-503cef8ef04b'')) (\<lambda>workspaceID.
     bnd (ask (\<lambda>w h. ''/tmp/pergo-chrome-profile-'' @ show_nat (clock w h))) (\<lambda>profileDir.
     bnd (ask (\<lambda>w h. chrome_binary (getenv w ''CHROME_BIN'') (exists_file w h))) (\<lambda>chromeBinary.
     bnd (act (Spawn chromeBinary (chrome_args profileDir))) (\<lambda>_.
     bnd (try_finally (browser_session outputDir sessionVal workspaceID) (stop_chrome profileDir)) (\<lambda>_.
     bnd (for_each assets (convert_asset outputDir)) (\<lambda>_.
     tell (Exit 0)))))))))))"

text \<open>
  The whole script: create the output directory, run \<open>main\<close>, and exit with 1 when its promise
  is rejected. An exception of the first statement ends the process before \<open>main\<close> is called.
\<close>

definition script :: "string \<Rightarrow> world \<Rightarrow> action list" where
  "script outputDir w =
     (case act (MkdirP outputDir) w [] of
        (Inl e, h) \<Rightarrow> h
      | (Inr _, h) \<Rightarrow>
          (case main outputDir w h of
             (Inr _, h') \<Rightarrow> h'
           | (Inl e, h') \<Rightarrow> h' @ [Exit 1]))"

section \<open>Percent encoding\<close>

text \<open>
  The other side of the login request: how \<^verbatim>\<open>application/x-www-form-urlencoded\<close> reads a value.
\<close>

definition hex_value :: "char \<Rightarrow> nat" where
  "hex_value c = (let n = of_char c in
     if 48 \<le> n \<and> n \<le> 57 then n - 48 else if 65 \<le> n \<and> n \<le> 70 then n - 55 else n - 87)"

fun form_decode :: "string \<Rightarrow> string" where
  "form_decode [] = []"
| "form_decode (c # s) =
     (if c = CHR ''+'' then CHR '' '' # form_decode s
      else if c = CHR ''%'' then
        (case s of a # b # s' \<Rightarrow> char_of (16 * hex_value a + hex_value b) # form_decode s'
         | _ \<Rightarrow> c # form_decode s)
      else c # form_decode s)"

lemma hex_value_digit: "d < 16 \<Longrightarrow> hex_value (hex_digit d) = d"
  by (auto simp: hex_value_def hex_digit_def)

lemma of_char_bound: "(of_char c :: nat) < 256"
  by (metis nat_of_char_less_256)

lemma form_decode_encode_char: "form_decode (encode_char c @ s) = c # form_decode s"
proof (cases "is_unreserved c")
  case True
  then have "c \<noteq> CHR ''+''" and "c \<noteq> CHR ''%''"
    by (auto simp: is_unreserved_def)
  with True show ?thesis by (simp add: encode_char_def)
next
  case False
  have "(of_char c :: nat) div 16 < 16" using of_char_bound [of c] by linarith
  then show ?thesis
    using False by (simp add: encode_char_def hex_value_digit)
qed

lemma hex_digit_safe:
  assumes "d < 16"
  shows "hex_digit d \<noteq> CHR ''&''" and "hex_digit d \<noteq> CHR ''=''"
proof -
  have "(of_char (hex_digit d) :: nat) \<noteq> 38" and "(of_char (hex_digit d) :: nat) \<noteq> 61"
    using assms by (auto simp: hex_digit_def)
  then show "hex_digit d \<noteq> CHR ''&''" and "hex_digit d \<noteq> CHR ''=''" by auto
qed

lemma encode_char_safe: "CHR ''&'' \<notin> set (encode_char c) \<and> CHR ''='' \<notin> set (encode_char c)"
proof (cases "is_unreserved c")
  case True
  then have "c \<noteq> CHR ''&''" and "c \<noteq> CHR ''=''" by (auto simp: is_unreserved_def)
  with True show ?thesis by (simp add: encode_char_def)
next
  case False
  have "(of_char c :: nat) div 16 < 16" using of_char_bound [of c] by linarith
  then show ?thesis
    using False hex_digit_safe [of "of_char c div 16"] hex_digit_safe [of "of_char c mod 16"]
    by (simp add: encode_char_def eq_commute)
qed

section \<open>What the parts of \<open>main\<close> do\<close>

text \<open>The actions that start and stop Chrome.\<close>

fun is_lifecycle :: "action \<Rightarrow> bool" where
  "is_lifecycle (Spawn _ _) = True"
| "is_lifecycle KillChrome = True"
| "is_lifecycle (RmRecursive _) = True"
| "is_lifecycle _ = False"

fun is_exit :: "action \<Rightarrow> bool" where
  "is_exit (Exit _) = True"
| "is_exit _ = False"

text \<open>The actions that produce the documentation assets.\<close>

datatype deliverable = PngWritten string | CommandRun string | Copied string string

fun deliverable_of :: "action \<Rightarrow> deliverable option" where
  "deliverable_of (WriteBase64 p d) = Some (PngWritten p)"
| "deliverable_of (Exec c) = Some (CommandRun c)"
| "deliverable_of (CopyFile a b) = Some (Copied a b)"
| "deliverable_of _ = None"

definition conversion :: "string \<Rightarrow> asset \<Rightarrow> deliverable list" where
  "conversion d a =
     (let src = path_join d (png a); dest = path_join d (webp a) in
      [CommandRun (ffmpeg_command src dest)] @
      (if canonicalWebp a \<noteq> webp a then [Copied dest (path_join d (canonicalWebp a))] else []) @
      [CommandRun (ffprobe_command src)])"

definition all_deliverables :: "string \<Rightarrow> deliverable list" where
  "all_deliverables d =
     map (\<lambda>a. PngWritten (path_join d (png a))) assets @ concat (map (conversion d) assets)"

lemmas session_defs =
  cdp_send_def cdp_do_def evaluate_def capture_def navigate_def set_auth_cookie_def

lemma silent_cdp_send:
  "\<not> P (CdpSend m ps) \<Longrightarrow> silent P (cdp_send m ps)"
  unfolding cdp_send_def by (intro trace_simps) (simp add: trace_simps)

lemma silent_evaluate:
  assumes "\<And>m ps. \<not> P (CdpSend m ps)"
  shows "silent P (evaluate x)"
  unfolding evaluate_def
  by (intro silent_bnd silent_cdp_send assms) (simp add: trace_simps split: option.splits)

lemma silent_capture:
  assumes "\<And>m ps. \<not> P (CdpSend m ps)" and "\<And>p d. \<not> P (WriteBase64 p d)"
  shows "silent P (capture d f)"
  unfolding capture_def by (intro silent_bnd silent_cdp_send assms) (simp add: trace_simps assms)

lemma silent_cdp_do:
  assumes "\<And>m ps. \<not> P (CdpSend m ps)"
  shows "silent P (cdp_do m ps)"
  unfolding cdp_do_def by (intro silent_bnd silent_cdp_send assms) (simp add: trace_simps)

lemma silent_browser_session:
  assumes "\<And>m ps. \<not> P (CdpSend m ps)" and "\<And>p d. \<not> P (WriteBase64 p d)"
    and "\<And>n. \<not> P (Sleep n)" and "\<And>u. \<not> P (HttpWait u)" and "\<And>u. \<not> P (GetJson u)"
    and "\<And>u. \<not> P (Connect u)" and "\<not> P CloseSocket"
  shows "silent P (browser_session d s wid)"
proof -
  have "silent P (prepare_page s wid)"
    unfolding prepare_page_def set_auth_cookie_def
    by (rule silent_seqs) (simp add: silent_cdp_do assms)
  moreover have "silent P (take_screenshots d)"
    unfolding take_screenshots_def navigate_def
    by (rule silent_seqs)
       (simp add: silent_cdp_do silent_evaluate silent_capture trace_simps assms)
  ultimately show ?thesis
    unfolding browser_session_def
    by (auto intro!: silent_bnd silent_ask silent_throw simp: trace_simps assms
        split: option.splits)
qed

lemma silent_convert:
  assumes "\<And>c. \<not> P (Exec c)" and "\<And>a b. \<not> P (CopyFile a b)" and "\<And>p. \<not> P (StatSize p)"
  shows "silent P (for_each xs (convert_asset d))"
  unfolding for_each_def convert_asset_def Let_def
  by (rule silent_seqs) (auto simp: list_all_iff trace_simps assms intro!: silent_seqs)

lemma stop_chrome_run: "stop_chrome p w h = (Inr (), h @ [KillChrome, Sleep 500, RmRecursive p])"
  by (simp add: stop_chrome_def bnd_def swallow_def act_def tell_def ret_def)

text \<open>The structure of a run of \<open>main\<close>, up to the Chrome process.\<close>

lemma bnd_act: "bnd (act a) k w h =
    (case throws w h a of Some e \<Rightarrow> (Inl e, h @ [a]) | None \<Rightarrow> k () w (h @ [a]))"
  by (simp add: bnd_def act_def split: option.splits)

lemma bnd_ask: "bnd (ask f) k w h = k (f w h) w h"
  by (simp add: bnd_def ask_def)

definition after_spawn :: "string \<Rightarrow> string \<Rightarrow> string \<Rightarrow> string \<Rightarrow> unit io" where
  "after_spawn d sessionVal workspaceID profileDir =
     bnd (try_finally (browser_session d sessionVal workspaceID) (stop_chrome profileDir)) (\<lambda>_.
     bnd (for_each assets (convert_asset d)) (\<lambda>_. tell (Exit 0)))"

lemma main_cases:
  obtains (early) e s where "main d w h = (Inl e, h @ s)"
      and "s = [HttpWait (BASE_URL @ ''/healthz'')] \<or>
           (\<exists>b. s = [HttpWait (BASE_URL @ ''/healthz''), HttpPost (BASE_URL @ ''/admin/login'') b])"
    | (spawn_throws) e s b p where "main d w h = (Inl e, h @ s @ [Spawn b (chrome_args p)])"
      and "\<forall>a \<in> set s. \<not> is_lifecycle a \<and> \<not> is_exit a \<and> deliverable_of a = None"
      and "throws w (h @ s) (Spawn b (chrome_args p)) = Some e"
    | (spawned) s b p sv wid where
        "main d w h = after_spawn d sv wid p w (h @ s @ [Spawn b (chrome_args p)])"
      and "\<forall>a \<in> set s. \<not> is_lifecycle a \<and> \<not> is_exit a \<and> deliverable_of a = None"
proof -
  let ?a1 = "HttpWait (BASE_URL @ ''/healthz'')"
  let ?pw = "or_default (getenv w ''PERGO_ADMIN_PASSWORD'') ''pergo-dev-2026''"
  let ?a2 = "HttpPost (BASE_URL @ ''/admin/login'') (''password='' @ encodeURIComponent ?pw)"
  let ?h2 = "h @ [?a1, ?a2]"
  let ?p = "''/tmp/pergo-chrome-profile-'' @ show_nat (clock w ?h2)"
  let ?b = "chrome_binary (getenv w ''CHROME_BIN'') (exists_file w ?h2)"
  let ?a3 = "Spawn ?b (chrome_args ?p)"
  note unf = main_def bnd_act bnd_ask after_spawn_def
  show ?thesis
  proof (cases "throws w h ?a1")
    case (Some e)
    then show ?thesis using early [of e "[?a1]"] by (simp add: unf)
  next
    case None
    note n1 = this
    show ?thesis
    proof (cases "throws w (h @ [?a1]) ?a2")
      case (Some e)
      then show ?thesis using n1 early [of e "[?a1, ?a2]"] by (simp add: unf)
    next
      case None
      note n2 = this
      show ?thesis
      proof (cases "throws w ?h2 ?a3")
        case (Some e)
        then show ?thesis using n1 n2 spawn_throws [of e "[?a1, ?a2]" ?b ?p] by (simp add: unf)
      next
        case None
        then show ?thesis
          using n1 n2 spawned [of
              "session_value (case set_cookie w ?h2 of Some cs \<Rightarrow> cs | None \<Rightarrow> [])"
              "or_default (getenv w ''PERGO_WORKSPACE_ID'') ''15fc10cb-0c9c-40dc-b6a9-503cef8ef04b''"
              ?p "[?a1, ?a2]" ?b]
          by (simp add: unf)
      qed
    qed
  qed
qed

text \<open>After the start of Chrome: the session, the clean-up, and only then the conversions.\<close>

lemma after_spawn_cases:
  obtains (failed) e s where
      "after_spawn d sv wid p w h = (Inl e, h @ s @ [KillChrome, Sleep 500, RmRecursive p])"
      and "\<forall>a \<in> set s. \<not> is_lifecycle a \<and> \<not> is_exit a"
    | (convert_failed) e s s' where
      "after_spawn d sv wid p w h = (Inl e, h @ s @ [KillChrome, Sleep 500, RmRecursive p] @ s')"
      and "\<forall>a \<in> set (s @ s'). \<not> is_lifecycle a \<and> \<not> is_exit a"
    | (finished) s s' where
      "after_spawn d sv wid p w h =
         (Inr (), h @ s @ [KillChrome, Sleep 500, RmRecursive p] @ s' @ [Exit 0])"
      and "\<forall>a \<in> set (s @ s'). \<not> is_lifecycle a \<and> \<not> is_exit a"
proof -
  let ?P = "\<lambda>a. is_lifecycle a \<or> is_exit a"
  obtain r h1 where bs: "browser_session d sv wid w h = (r, h1)" by fastforce
  have "silent ?P (browser_session d sv wid)" by (rule silent_browser_session) simp_all
  then obtain s where s: "h1 = h @ s" "\<forall>a \<in> set s. \<not> ?P a"
    using silentE [of ?P "browser_session d sv wid" w h] bs by (metis snd_conv)
  have tf: "try_finally (browser_session d sv wid) (stop_chrome p) w h =
      (r, h @ s @ [KillChrome, Sleep 500, RmRecursive p])"
    using bs s(1) by (simp add: try_finally_def stop_chrome_run)
  let ?h2 = "h @ s @ [KillChrome, Sleep 500, RmRecursive p]"
  show ?thesis
  proof (cases r)
    case (Inl e)
    then show ?thesis using tf s(2) failed [of e s] by (simp add: after_spawn_def bnd_def)
  next
    case (Inr u)
    obtain r2 h3 where fe: "for_each assets (convert_asset d) w ?h2 = (r2, h3)" by fastforce
    have "silent ?P (for_each assets (convert_asset d))" by (rule silent_convert) simp_all
    then obtain s' where s': "h3 = ?h2 @ s'" "\<forall>a \<in> set s'. \<not> ?P a"
      using silentE [of ?P "for_each assets (convert_asset d)" w ?h2] fe by (metis snd_conv)
    show ?thesis
    proof (cases r2)
      case (Inl e)
      then show ?thesis
        using Inr tf fe s s' convert_failed [of e s s'] by (auto simp: after_spawn_def bnd_def)
    next
      case (Inr u2)
      then show ?thesis
        using \<open>r = Inr u\<close> tf fe s s' finished [of s s'] by (auto simp: after_spawn_def bnd_def tell_def)
    qed
  qed
qed

lemma after_spawn_trace:
  obtains v z where
    "(case after_spawn d sv wid p w h of (Inr _, h') \<Rightarrow> h' | (Inl e, h') \<Rightarrow> h' @ [Exit 1]) =
       h @ v @ [KillChrome, Sleep 500, RmRecursive p] @ z"
    and "\<forall>a \<in> set (v @ z). \<not> is_lifecycle a"
proof (cases rule: after_spawn_cases [of d sv wid p w h])
  case (failed e s)
  then show thesis using that [of s "[Exit 1]"] by auto
next
  case (convert_failed e s s')
  then show thesis using that [of s "s' @ [Exit 1]"] by auto
next
  case (finished s s')
  then show thesis using that [of s "s' @ [Exit 0]"] by auto
qed

section \<open>Properties\<close>


definition no_page_world :: world where
  "no_page_world = \<lparr>getenv = (\<lambda>_. None), exists_file = (\<lambda>_ _. False), clock = (\<lambda>_. 7),
     set_cookie = (\<lambda>_. None), targets = (\<lambda>_. []),
     cdp_reply = (\<lambda>_. \<lparr>val_exception = None, val_data = []\<rparr>), throws = (\<lambda>_ _. None)\<rparr>"

lemma no_page_script:
  "script d no_page_world =
     [MkdirP d, HttpWait (BASE_URL @ ''/healthz''),
      HttpPost (BASE_URL @ ''/admin/login'') (''password='' @ encodeURIComponent ''pergo-dev-2026''),
      Spawn ''google-chrome'' (chrome_args (''/tmp/pergo-chrome-profile-'' @ show_nat 7)),
      HttpWait (CDP_URL @ ''/json/version''), GetJson (CDP_URL @ ''/json/list''),
      KillChrome, Sleep 500, RmRecursive (''/tmp/pergo-chrome-profile-'' @ show_nat 7), Exit 1]"
proof -
  let ?w = no_page_world
  have w: "getenv ?w v = None" "exists_file ?w h f = False" "clock ?w h = 7" "set_cookie ?w h = None"
    "targets ?w h = []" "throws ?w h a = None" for v h f a
    by (simp_all add: no_page_world_def)
  have m: "act (MkdirP d) ?w [] = (Inr (), [MkdirP d])" by (simp add: act_def w)
  have bs: "browser_session d sv wid ?w h = (Inl ''No page target found'',
      h @ [HttpWait (CDP_URL @ ''/json/version''), GetJson (CDP_URL @ ''/json/list'')])" for sv wid h
    by (simp add: browser_session_def bnd_act bnd_ask w throw_def)
  have as: "after_spawn d sv wid p ?w h = (Inl ''No page target found'',
      h @ [HttpWait (CDP_URL @ ''/json/version''), GetJson (CDP_URL @ ''/json/list''),
           KillChrome, Sleep 500, RmRecursive p])" for sv wid p h
    by (simp add: after_spawn_def bnd_def try_finally_def bs stop_chrome_run)
  show ?thesis
    by (simp add: script_def m main_def bnd_act bnd_ask w after_spawn_def [symmetric] as
        or_default_def chrome_binary_def chrome_candidates_def)
qed


lemma script_exit_form:
  assumes "throws w [] (MkdirP d) = None"
  shows "\<exists>u. script d w = u @ [Exit (case main d w [MkdirP d] of (Inr _, _) \<Rightarrow> 0 | (Inl _, _) \<Rightarrow> 1)] \<and>
    (\<forall>a \<in> set u. \<not> is_exit a)"
proof -
  let ?h = "[MkdirP d]"
  have sc: "script d w = (case main d w ?h of (Inr _, h') \<Rightarrow> h' | (Inl e, h') \<Rightarrow> h' @ [Exit 1])"
    using assms by (simp add: script_def act_def)
  show ?thesis
  proof (cases rule: main_cases [of d w ?h])
    case (early e s)
    then show ?thesis by (auto simp: sc)
  next
    case (spawn_throws e s b p)
    then show ?thesis by (auto simp: sc)
  next
    case (spawned s b p sv wid)
    let ?h3 = "?h @ s @ [Spawn b (chrome_args p)]"
    show ?thesis
      by (cases rule: after_spawn_cases [of d sv wid p w ?h3])
         (use spawned in \<open>auto simp: sc\<close>)
  qed
qed



section \<open>The assets a run produces\<close>

lemma emits_cdp_send: "emits deliverable_of (cdp_send m ps) []"
  unfolding cdp_send_def
  using emits_bnd [OF emits_act emits_ask, of deliverable_of "CdpSend m ps"] by simp

lemma emits_cdp_do: "emits deliverable_of (cdp_do m ps) []"
  unfolding cdp_do_def using emits_bnd [OF emits_cdp_send emits_ret] by simp

lemma emits_evaluate: "emits deliverable_of (evaluate x) []"
  unfolding evaluate_def
  using emits_bnd [OF emits_cdp_send, where k = "\<lambda>res. case val_exception res of
      Some e \<Rightarrow> throw e | None \<Rightarrow> ret ()" and bs = "[]"]
  by (simp add: emits_ret emits_throw split: option.splits)

lemma emits_capture: "emits deliverable_of (capture d f) [PngWritten (path_join d f)]"
  unfolding capture_def
  using emits_bnd [OF emits_cdp_send, where k = "\<lambda>res. act (WriteBase64 (path_join d f) (val_data res))"
      and bs = "[PngWritten (path_join d f)]"]
    emits_act [of deliverable_of "WriteBase64 (path_join d f) _"]
  by simp

lemma emits_quiet_act: "deliverable_of a = None \<Longrightarrow> emits deliverable_of (act a) []"
  using emits_act [of deliverable_of a] by simp

lemma emits_quiet_tell: "deliverable_of a = None \<Longrightarrow> emits deliverable_of (tell a) []"
  using emits_tell [of deliverable_of a] by simp

lemmas emits_parts = emits_cdp_do emits_evaluate emits_capture emits_quiet_act emits_quiet_tell

lemma emits_take_screenshots:
  "emits deliverable_of (take_screenshots d) (map (\<lambda>a. PngWritten (path_join d (png a))) assets)"
proof -
  let ?c = "\<lambda>f. [PngWritten (path_join d f)]"
  have "emits deliverable_of (take_screenshots d)
      (concat [[], [], [], [], ?c ''inbox-hero.png'', [], [], ?c ''dashboard.png'',
        [], [], [], [], [], [], ?c ''devices-qr.png'', [], [], [], [], [], [],
        ?c ''campaigns.png'', [], [], ?c ''api-docs.png''])"
    unfolding take_screenshots_def navigate_def
    by (rule emits_seqs) (simp add: emits_parts)
  then show ?thesis by (simp add: assets_def)
qed

lemma emits_prepare_page: "emits deliverable_of (prepare_page s wid) []"
proof -
  have "emits deliverable_of (prepare_page s wid) (concat [[], [], [], [], [], []])"
    unfolding prepare_page_def set_auth_cookie_def by (rule emits_seqs) (simp add: emits_parts)
  then show ?thesis by simp
qed

lemma emits_bnd_quiet:
  assumes "emits obs m []" and "\<And>x. emits obs (k x) ws"
  shows "emits obs (bnd m k) ws"
  using emits_bnd [OF assms] by simp

lemma emits_browser_session:
  "emits deliverable_of (browser_session d s wid)
     (map (\<lambda>a. PngWritten (path_join d (png a))) assets)" (is "emits _ _ ?ws")
proof -
  have "emits deliverable_of (bnd (take_screenshots d) (\<lambda>_. act CloseSocket)) ?ws"
    using emits_bnd [OF emits_take_screenshots, where k = "\<lambda>_. act CloseSocket" and bs = "[]"]
    by (simp add: emits_quiet_act)
  then show ?thesis
    unfolding browser_session_def
    by (auto intro!: emits_bnd_quiet emits_quiet_act emits_ask emits_prepare_page emits_throw
        split: option.splits)
qed

lemma emits_stop_chrome: "emits deliverable_of (stop_chrome p) []"
  by (rule emitsI) (simp add: stop_chrome_run List.map_filter_simps)

lemma emits_convert_asset: "emits deliverable_of (convert_asset d a) (conversion d a)"
proof -
  let ?src = "path_join d (png a)" and ?dest = "path_join d (webp a)"
  let ?cp = "if canonicalWebp a \<noteq> webp a
    then [act (CopyFile ?dest (path_join d (canonicalWebp a)))] else []"
  let ?cps = "if canonicalWebp a \<noteq> webp a
    then [[Copied ?dest (path_join d (canonicalWebp a))]] else []"
  have ex: "emits deliverable_of (act (Exec c)) [CommandRun c]" for c
    using emits_act [of deliverable_of "Exec c"] by simp
  have cp: "emits deliverable_of (act (CopyFile x y)) [Copied x y]" for x y
    using emits_act [of deliverable_of "CopyFile x y"] by simp
  have "emits deliverable_of (convert_asset d a)
      (concat ([[CommandRun (ffmpeg_command ?src ?dest)]] @ ?cps @
               [[], [], [CommandRun (ffprobe_command ?src)]]))"
    unfolding convert_asset_def Let_def
    by (rule emits_seqs) (simp add: ex cp emits_quiet_act)
  then show ?thesis by (simp add: conversion_def Let_def split: if_splits)
qed

lemma emits_main: "emits deliverable_of (main d) (all_deliverables d)"
proof -
  let ?pngs = "map (\<lambda>a. PngWritten (path_join d (png a))) assets"
  have conv: "emits deliverable_of (bnd (for_each assets (convert_asset d)) (\<lambda>_. tell (Exit 0)))
      (concat (map (conversion d) assets))"
    using emits_bnd [OF emits_for_each, where k = "\<lambda>_. tell (Exit 0)" and bs = "[]",
        OF emits_convert_asset]
    by (simp add: emits_quiet_tell)
  have "emits deliverable_of (after_spawn d sv wid p) (all_deliverables d)" for sv wid p
    unfolding after_spawn_def all_deliverables_def
    by (rule emits_bnd [OF emits_try_finally [OF emits_browser_session emits_stop_chrome] conv])
  then show ?thesis
    unfolding main_def after_spawn_def [symmetric]
    by (intro emits_bnd_quiet emits_quiet_act emits_ask) simp_all
qed

text \<open>
  C36. The assets are produced in order and none is derived from a missing screenshot: in every
  run the PNG files written, the commands run and the files copied are a prefix of one fixed
  sequence, the five screenshots in the order of the asset table followed by the conversion, the
  copy under the canonical name where it differs, and the size check of each asset; a run that
  exits with 0 has produced all of them.
\<close>

theorem assets_in_order:
  "\<exists>rest. all_deliverables d = List.map_filter deliverable_of (script d w) @ rest \<and>
     (Exit 0 \<in> set (script d w) \<longrightarrow> rest = [])"
proof (cases "throws w [] (MkdirP d)")
  case (Some e)
  then show ?thesis by (simp add: script_def act_def List.map_filter_simps)
next
  case None
  let ?h = "[MkdirP d]"
  have sc: "script d w = (case main d w ?h of (Inr _, h') \<Rightarrow> h' | (Inl e, h') \<Rightarrow> h' @ [Exit 1])"
    using None by (simp add: script_def act_def)
  obtain s rest where s: "snd (main d w ?h) = ?h @ s"
    "all_deliverables d = List.map_filter deliverable_of s @ rest"
    "\<And>x. fst (main d w ?h) = Inr x \<Longrightarrow> rest = []"
    using emitsE [OF emits_main [of d], of w ?h] by blast
  have obs: "List.map_filter deliverable_of (script d w) = List.map_filter deliverable_of s"
    using s(1) by (auto simp: sc map_filter_append List.map_filter_simps split: prod.splits sum.splits)
  have "rest = []" if "Exit 0 \<in> set (script d w)"
  proof -
    obtain u where u: "script d w =
        u @ [Exit (case main d w [MkdirP d] of (Inr _, _) \<Rightarrow> 0 | (Inl _, _) \<Rightarrow> 1)]"
      "\<forall>a \<in> set u. \<not> is_exit a"
      using script_exit_form [OF None] by blast
    with that have "(case main d w [MkdirP d] of (Inr _, _) \<Rightarrow> 0 | (Inl _, _) \<Rightarrow> 1) = (0::nat)"
      by (auto split: prod.splits sum.splits)
    then obtain x where "fst (main d w ?h) = Inr x" by (auto split: prod.splits sum.splits)
    then show ?thesis by (rule s(3))
  qed
  with s(2) obs show ?thesis by auto
qed

definition happy_world :: world where
  "happy_world = no_page_world\<lparr>targets :=
     (\<lambda>_. [\<lparr>target_type = ''page'', target_ws_url = ''ws://127.0.0.1:9222/devtools/page/1''\<rparr>])\<rparr>"

lemma happy_main_returns: "returns_in happy_world (main d)"
proof -
  have t: "throws happy_world h a = None" for h a
    by (simp add: happy_world_def no_page_world_def)
  note basics = returns_in_basic returns_in_act [OF t]
  have send: "returns_in happy_world (cdp_do m ps)" "returns_in happy_world (capture d f)" for m ps f
    unfolding cdp_do_def capture_def cdp_send_def by (intro returns_in_bnd basics)+
  have ev: "returns_in happy_world (evaluate x)" for x
    by (simp add: returns_in_def evaluate_def cdp_send_def bnd_def act_def ask_def ret_def
        happy_world_def no_page_world_def)
  have "returns_in happy_world (take_screenshots d)"
    unfolding take_screenshots_def navigate_def
    by (rule returns_in_seqs) (auto simp: send ev basics)
  moreover have "returns_in happy_world (prepare_page s wid)" for s wid
    unfolding prepare_page_def set_auth_cookie_def
    by (rule returns_in_seqs) (auto simp: send)
  ultimately have tail: "returns_in happy_world (bnd (prepare_page s wid) (\<lambda>_.
      bnd (take_screenshots d) (\<lambda>_. act CloseSocket)))" for s wid
    by (intro returns_in_bnd basics)
  have tg: "targets happy_world h = [\<lparr>target_type = ''page'',
      target_ws_url = ''ws://127.0.0.1:9222/devtools/page/1''\<rparr>]" for h
    by (simp add: happy_world_def)
  have "returns_in happy_world (browser_session d s wid)" for s wid
    using tail [of s wid] by (simp add: returns_in_def browser_session_def bnd_act bnd_ask t tg)
  then show ?thesis
    unfolding main_def for_each_def convert_asset_def Let_def stop_chrome_def
    by (intro returns_in_bnd returns_in_try_finally basics returns_in_seqs)
       (auto intro!: basics returns_in_bnd split: if_splits)
qed

theorem assets_in_order_witness:
  "Exit 0 \<in> set (script ''out'' happy_world) \<and>
   List.map_filter deliverable_of (script ''out'' happy_world) = all_deliverables ''out''"
proof -
  obtain x where "fst (main ''out'' happy_world [MkdirP ''out'']) = Inr x"
    using happy_main_returns unfolding returns_in_def by blast
  moreover have "throws happy_world [] (MkdirP ''out'') = None"
    by (simp add: happy_world_def no_page_world_def)
  ultimately have "Exit 0 \<in> set (script ''out'' happy_world)"
    using script_exit_form [of happy_world "''out''"] by (auto split: prod.splits)
  with assets_in_order [of "''out''" happy_world] show ?thesis by auto
qed


text \<open>
  The session cookie handed to Chrome is the value of the first \<^verbatim>\<open>pergo-session\<close> cookie the
  login response sets, without its name and its attributes.
\<close>

theorem session_cookie_value:
  assumes "\<forall>c \<in> set before. \<not> startsWith c ''pergo-session=''"
    and "CHR '';'' \<notin> set v"
    and "attrs = [] \<or> hd attrs = CHR '';''"
  shows "session_value (before @ (''pergo-session='' @ v @ attrs) # rest) = v"
proof -
  have "List.find (\<lambda>c. startsWith c ''pergo-session='')
      (before @ (''pergo-session='' @ v @ attrs) # rest) = Some (''pergo-session='' @ v @ attrs)"
    using assms(1) by (induction before) (auto simp: startsWith_def)
  moreover have "split_first (CHR '';'') (''pergo-session='' @ v @ attrs) = ''pergo-session='' @ v"
    using assms(2,3) split_first_append [of "CHR '';''" "''pergo-session='' @ v"]
    by (cases attrs) auto
  ultimately show ?thesis
    using remove_first_occurrence_prefix [of "''pergo-session=''" v]
    by (simp add: session_value_def)
qed

theorem session_cookie_value_witness:
  "\<not> startsWith ''lang=pt'' ''pergo-session='' \<and>
   CHR '';'' \<notin> set ''abc.def'' \<and>
   session_value ([''lang=pt''] @ (''pergo-session='' @ ''abc.def'' @ ''; Path=/; HttpOnly'') # []) = ''abc.def''"
  using session_cookie_value [of "[''lang=pt'']" "''abc.def''" "''; Path=/; HttpOnly''" "[]"]
  by (simp add: startsWith_def)

end
