(* ===== verification/Html_Codes.thy ===== *)
theory Html_Codes
  imports PerGo_Prelude
begin

text \<open>
  Constants and data of the HTML parser that the documentation portal embeds
  (\<^verbatim>\<open>src/api/scalar.standalone.js\<close>): code points, the states of the tokenizer, tag ids, tokens.
  JavaScript strings are lists of UTF-16 code units; code points are integers, with \<open>-1\<close> for the
  end of the input. The enumerations of the source are numbers there, and are numbers here.
\<close>

type_synonym jsstr = "nat list"
type_synonym cp = int
type_synonym tok_state = nat
type_synonym err_code = string

text \<open>A string literal of the source, as code units.\<close>

definition js :: "string \<Rightarrow> jsstr" where
  "js s = map of_char s"

section \<open>Code points: \<open>Om\<close>\<close>

abbreviation (input) EOF :: cp where "EOF \<equiv> - 1"
abbreviation (input) NULL :: cp where "NULL \<equiv> 0"
abbreviation (input) TABULATION :: cp where "TABULATION \<equiv> 9"
abbreviation (input) CARRIAGE_RETURN :: cp where "CARRIAGE_RETURN \<equiv> 13"
abbreviation (input) LINE_FEED :: cp where "LINE_FEED \<equiv> 10"
abbreviation (input) FORM_FEED :: cp where "FORM_FEED \<equiv> 12"
abbreviation (input) SPACE :: cp where "SPACE \<equiv> 32"
abbreviation (input) EXCLAMATION_MARK :: cp where "EXCLAMATION_MARK \<equiv> 33"
abbreviation (input) QUOTATION_MARK :: cp where "QUOTATION_MARK \<equiv> 34"
abbreviation (input) NUMBER_SIGN :: cp where "NUMBER_SIGN \<equiv> 35"
abbreviation (input) AMPERSAND :: cp where "AMPERSAND \<equiv> 38"
abbreviation (input) APOSTROPHE :: cp where "APOSTROPHE \<equiv> 39"
abbreviation (input) HYPHEN_MINUS :: cp where "HYPHEN_MINUS \<equiv> 45"
abbreviation (input) SOLIDUS :: cp where "SOLIDUS \<equiv> 47"
abbreviation (input) DIGIT_0 :: cp where "DIGIT_0 \<equiv> 48"
abbreviation (input) DIGIT_9 :: cp where "DIGIT_9 \<equiv> 57"
abbreviation (input) SEMICOLON :: cp where "SEMICOLON \<equiv> 59"
abbreviation (input) LESS_THAN_SIGN :: cp where "LESS_THAN_SIGN \<equiv> 60"
abbreviation (input) EQUALS_SIGN :: cp where "EQUALS_SIGN \<equiv> 61"
abbreviation (input) GREATER_THAN_SIGN :: cp where "GREATER_THAN_SIGN \<equiv> 62"
abbreviation (input) QUESTION_MARK :: cp where "QUESTION_MARK \<equiv> 63"
abbreviation (input) LATIN_CAPITAL_A :: cp where "LATIN_CAPITAL_A \<equiv> 65"
abbreviation (input) LATIN_CAPITAL_F :: cp where "LATIN_CAPITAL_F \<equiv> 70"
abbreviation (input) LATIN_CAPITAL_X :: cp where "LATIN_CAPITAL_X \<equiv> 88"
abbreviation (input) LATIN_CAPITAL_Z :: cp where "LATIN_CAPITAL_Z \<equiv> 90"
abbreviation (input) RIGHT_SQUARE_BRACKET :: cp where "RIGHT_SQUARE_BRACKET \<equiv> 93"
abbreviation (input) GRAVE_ACCENT :: cp where "GRAVE_ACCENT \<equiv> 96"
abbreviation (input) LATIN_SMALL_A :: cp where "LATIN_SMALL_A \<equiv> 97"
abbreviation (input) LATIN_SMALL_F :: cp where "LATIN_SMALL_F \<equiv> 102"
abbreviation (input) LATIN_SMALL_X :: cp where "LATIN_SMALL_X \<equiv> 120"
abbreviation (input) LATIN_SMALL_Z :: cp where "LATIN_SMALL_Z \<equiv> 122"
abbreviation (input) REPLACEMENT_CHARACTER :: cp where "REPLACEMENT_CHARACTER \<equiv> 65533"

section \<open>States of the tokenizer: \<open>vg\<close>\<close>

abbreviation (input) DATA :: tok_state where "DATA \<equiv> 0"
abbreviation (input) RCDATA :: tok_state where "RCDATA \<equiv> 1"
abbreviation (input) RAWTEXT :: tok_state where "RAWTEXT \<equiv> 2"
abbreviation (input) SCRIPT_DATA :: tok_state where "SCRIPT_DATA \<equiv> 3"
abbreviation (input) PLAINTEXT :: tok_state where "PLAINTEXT \<equiv> 4"
abbreviation (input) TAG_OPEN :: tok_state where "TAG_OPEN \<equiv> 5"
abbreviation (input) END_TAG_OPEN :: tok_state where "END_TAG_OPEN \<equiv> 6"
abbreviation (input) TAG_NAME :: tok_state where "TAG_NAME \<equiv> 7"
abbreviation (input) RCDATA_LESS_THAN_SIGN :: tok_state where "RCDATA_LESS_THAN_SIGN \<equiv> 8"
abbreviation (input) RCDATA_END_TAG_OPEN :: tok_state where "RCDATA_END_TAG_OPEN \<equiv> 9"
abbreviation (input) RCDATA_END_TAG_NAME :: tok_state where "RCDATA_END_TAG_NAME \<equiv> 10"
abbreviation (input) RAWTEXT_LESS_THAN_SIGN :: tok_state where "RAWTEXT_LESS_THAN_SIGN \<equiv> 11"
abbreviation (input) RAWTEXT_END_TAG_OPEN :: tok_state where "RAWTEXT_END_TAG_OPEN \<equiv> 12"
abbreviation (input) RAWTEXT_END_TAG_NAME :: tok_state where "RAWTEXT_END_TAG_NAME \<equiv> 13"
abbreviation (input) SCRIPT_DATA_LESS_THAN_SIGN :: tok_state where "SCRIPT_DATA_LESS_THAN_SIGN \<equiv> 14"
abbreviation (input) SCRIPT_DATA_END_TAG_OPEN :: tok_state where "SCRIPT_DATA_END_TAG_OPEN \<equiv> 15"
abbreviation (input) SCRIPT_DATA_END_TAG_NAME :: tok_state where "SCRIPT_DATA_END_TAG_NAME \<equiv> 16"
abbreviation (input) SCRIPT_DATA_ESCAPE_START :: tok_state where "SCRIPT_DATA_ESCAPE_START \<equiv> 17"
abbreviation (input) SCRIPT_DATA_ESCAPE_START_DASH :: tok_state where "SCRIPT_DATA_ESCAPE_START_DASH \<equiv> 18"
abbreviation (input) SCRIPT_DATA_ESCAPED :: tok_state where "SCRIPT_DATA_ESCAPED \<equiv> 19"
abbreviation (input) SCRIPT_DATA_ESCAPED_DASH :: tok_state where "SCRIPT_DATA_ESCAPED_DASH \<equiv> 20"
abbreviation (input) SCRIPT_DATA_ESCAPED_DASH_DASH :: tok_state where "SCRIPT_DATA_ESCAPED_DASH_DASH \<equiv> 21"
abbreviation (input) SCRIPT_DATA_ESCAPED_LESS_THAN_SIGN :: tok_state where "SCRIPT_DATA_ESCAPED_LESS_THAN_SIGN \<equiv> 22"
abbreviation (input) SCRIPT_DATA_ESCAPED_END_TAG_OPEN :: tok_state where "SCRIPT_DATA_ESCAPED_END_TAG_OPEN \<equiv> 23"
abbreviation (input) SCRIPT_DATA_ESCAPED_END_TAG_NAME :: tok_state where "SCRIPT_DATA_ESCAPED_END_TAG_NAME \<equiv> 24"
abbreviation (input) SCRIPT_DATA_DOUBLE_ESCAPE_START :: tok_state where "SCRIPT_DATA_DOUBLE_ESCAPE_START \<equiv> 25"
abbreviation (input) SCRIPT_DATA_DOUBLE_ESCAPED :: tok_state where "SCRIPT_DATA_DOUBLE_ESCAPED \<equiv> 26"
abbreviation (input) SCRIPT_DATA_DOUBLE_ESCAPED_DASH :: tok_state where "SCRIPT_DATA_DOUBLE_ESCAPED_DASH \<equiv> 27"
abbreviation (input) SCRIPT_DATA_DOUBLE_ESCAPED_DASH_DASH :: tok_state where "SCRIPT_DATA_DOUBLE_ESCAPED_DASH_DASH \<equiv> 28"
abbreviation (input) SCRIPT_DATA_DOUBLE_ESCAPED_LESS_THAN_SIGN :: tok_state where "SCRIPT_DATA_DOUBLE_ESCAPED_LESS_THAN_SIGN \<equiv> 29"
abbreviation (input) SCRIPT_DATA_DOUBLE_ESCAPE_END :: tok_state where "SCRIPT_DATA_DOUBLE_ESCAPE_END \<equiv> 30"
abbreviation (input) BEFORE_ATTRIBUTE_NAME :: tok_state where "BEFORE_ATTRIBUTE_NAME \<equiv> 31"
abbreviation (input) ATTRIBUTE_NAME :: tok_state where "ATTRIBUTE_NAME \<equiv> 32"
abbreviation (input) AFTER_ATTRIBUTE_NAME :: tok_state where "AFTER_ATTRIBUTE_NAME \<equiv> 33"
abbreviation (input) BEFORE_ATTRIBUTE_VALUE :: tok_state where "BEFORE_ATTRIBUTE_VALUE \<equiv> 34"
abbreviation (input) ATTRIBUTE_VALUE_DOUBLE_QUOTED :: tok_state where "ATTRIBUTE_VALUE_DOUBLE_QUOTED \<equiv> 35"
abbreviation (input) ATTRIBUTE_VALUE_SINGLE_QUOTED :: tok_state where "ATTRIBUTE_VALUE_SINGLE_QUOTED \<equiv> 36"
abbreviation (input) ATTRIBUTE_VALUE_UNQUOTED :: tok_state where "ATTRIBUTE_VALUE_UNQUOTED \<equiv> 37"
abbreviation (input) AFTER_ATTRIBUTE_VALUE_QUOTED :: tok_state where "AFTER_ATTRIBUTE_VALUE_QUOTED \<equiv> 38"
abbreviation (input) SELF_CLOSING_START_TAG :: tok_state where "SELF_CLOSING_START_TAG \<equiv> 39"
abbreviation (input) BOGUS_COMMENT :: tok_state where "BOGUS_COMMENT \<equiv> 40"
abbreviation (input) MARKUP_DECLARATION_OPEN :: tok_state where "MARKUP_DECLARATION_OPEN \<equiv> 41"
abbreviation (input) COMMENT_START :: tok_state where "COMMENT_START \<equiv> 42"
abbreviation (input) COMMENT_START_DASH :: tok_state where "COMMENT_START_DASH \<equiv> 43"
abbreviation (input) COMMENT :: tok_state where "COMMENT \<equiv> 44"
abbreviation (input) COMMENT_LESS_THAN_SIGN :: tok_state where "COMMENT_LESS_THAN_SIGN \<equiv> 45"
abbreviation (input) COMMENT_LESS_THAN_SIGN_BANG :: tok_state where "COMMENT_LESS_THAN_SIGN_BANG \<equiv> 46"
abbreviation (input) COMMENT_LESS_THAN_SIGN_BANG_DASH :: tok_state where "COMMENT_LESS_THAN_SIGN_BANG_DASH \<equiv> 47"
abbreviation (input) COMMENT_LESS_THAN_SIGN_BANG_DASH_DASH :: tok_state where "COMMENT_LESS_THAN_SIGN_BANG_DASH_DASH \<equiv> 48"
abbreviation (input) COMMENT_END_DASH :: tok_state where "COMMENT_END_DASH \<equiv> 49"
abbreviation (input) COMMENT_END :: tok_state where "COMMENT_END \<equiv> 50"
abbreviation (input) COMMENT_END_BANG :: tok_state where "COMMENT_END_BANG \<equiv> 51"
abbreviation (input) DOCTYPE :: tok_state where "DOCTYPE \<equiv> 52"
abbreviation (input) BEFORE_DOCTYPE_NAME :: tok_state where "BEFORE_DOCTYPE_NAME \<equiv> 53"
abbreviation (input) DOCTYPE_NAME :: tok_state where "DOCTYPE_NAME \<equiv> 54"
abbreviation (input) AFTER_DOCTYPE_NAME :: tok_state where "AFTER_DOCTYPE_NAME \<equiv> 55"
abbreviation (input) AFTER_DOCTYPE_PUBLIC_KEYWORD :: tok_state where "AFTER_DOCTYPE_PUBLIC_KEYWORD \<equiv> 56"
abbreviation (input) BEFORE_DOCTYPE_PUBLIC_IDENTIFIER :: tok_state where "BEFORE_DOCTYPE_PUBLIC_IDENTIFIER \<equiv> 57"
abbreviation (input) DOCTYPE_PUBLIC_IDENTIFIER_DOUBLE_QUOTED :: tok_state where "DOCTYPE_PUBLIC_IDENTIFIER_DOUBLE_QUOTED \<equiv> 58"
abbreviation (input) DOCTYPE_PUBLIC_IDENTIFIER_SINGLE_QUOTED :: tok_state where "DOCTYPE_PUBLIC_IDENTIFIER_SINGLE_QUOTED \<equiv> 59"
abbreviation (input) AFTER_DOCTYPE_PUBLIC_IDENTIFIER :: tok_state where "AFTER_DOCTYPE_PUBLIC_IDENTIFIER \<equiv> 60"
abbreviation (input) BETWEEN_DOCTYPE_PUBLIC_AND_SYSTEM_IDENTIFIERS :: tok_state where "BETWEEN_DOCTYPE_PUBLIC_AND_SYSTEM_IDENTIFIERS \<equiv> 61"
abbreviation (input) AFTER_DOCTYPE_SYSTEM_KEYWORD :: tok_state where "AFTER_DOCTYPE_SYSTEM_KEYWORD \<equiv> 62"
abbreviation (input) BEFORE_DOCTYPE_SYSTEM_IDENTIFIER :: tok_state where "BEFORE_DOCTYPE_SYSTEM_IDENTIFIER \<equiv> 63"
abbreviation (input) DOCTYPE_SYSTEM_IDENTIFIER_DOUBLE_QUOTED :: tok_state where "DOCTYPE_SYSTEM_IDENTIFIER_DOUBLE_QUOTED \<equiv> 64"
abbreviation (input) DOCTYPE_SYSTEM_IDENTIFIER_SINGLE_QUOTED :: tok_state where "DOCTYPE_SYSTEM_IDENTIFIER_SINGLE_QUOTED \<equiv> 65"
abbreviation (input) AFTER_DOCTYPE_SYSTEM_IDENTIFIER :: tok_state where "AFTER_DOCTYPE_SYSTEM_IDENTIFIER \<equiv> 66"
abbreviation (input) BOGUS_DOCTYPE :: tok_state where "BOGUS_DOCTYPE \<equiv> 67"
abbreviation (input) CDATA_SECTION :: tok_state where "CDATA_SECTION \<equiv> 68"
abbreviation (input) CDATA_SECTION_BRACKET :: tok_state where "CDATA_SECTION_BRACKET \<equiv> 69"
abbreviation (input) CDATA_SECTION_END :: tok_state where "CDATA_SECTION_END \<equiv> 70"
abbreviation (input) CHARACTER_REFERENCE :: tok_state where "CHARACTER_REFERENCE \<equiv> 71"
abbreviation (input) NAMED_CHARACTER_REFERENCE :: tok_state where "NAMED_CHARACTER_REFERENCE \<equiv> 72"
abbreviation (input) AMBIGUOUS_AMPERSAND :: tok_state where "AMBIGUOUS_AMPERSAND \<equiv> 73"
abbreviation (input) NUMERIC_CHARACTER_REFERENCE :: tok_state where "NUMERIC_CHARACTER_REFERENCE \<equiv> 74"
abbreviation (input) HEXADEMICAL_CHARACTER_REFERENCE_START :: tok_state where "HEXADEMICAL_CHARACTER_REFERENCE_START \<equiv> 75"
abbreviation (input) HEXADEMICAL_CHARACTER_REFERENCE :: tok_state where "HEXADEMICAL_CHARACTER_REFERENCE \<equiv> 76"
abbreviation (input) DECIMAL_CHARACTER_REFERENCE :: tok_state where "DECIMAL_CHARACTER_REFERENCE \<equiv> 77"
abbreviation (input) NUMERIC_CHARACTER_REFERENCE_END :: tok_state where "NUMERIC_CHARACTER_REFERENCE_END \<equiv> 78"

section \<open>Parse errors: \<open>Dm\<close>\<close>

abbreviation (input) controlCharacterInInputStream :: err_code where "controlCharacterInInputStream \<equiv> ''control-character-in-input-stream''"
abbreviation (input) noncharacterInInputStream :: err_code where "noncharacterInInputStream \<equiv> ''noncharacter-in-input-stream''"
abbreviation (input) surrogateInInputStream :: err_code where "surrogateInInputStream \<equiv> ''surrogate-in-input-stream''"
abbreviation (input) nonVoidHtmlElementStartTagWithTrailingSolidus :: err_code where "nonVoidHtmlElementStartTagWithTrailingSolidus \<equiv> ''non-void-html-element-start-tag-with-trailing-solidus''"
abbreviation (input) endTagWithAttributes :: err_code where "endTagWithAttributes \<equiv> ''end-tag-with-attributes''"
abbreviation (input) endTagWithTrailingSolidus :: err_code where "endTagWithTrailingSolidus \<equiv> ''end-tag-with-trailing-solidus''"
abbreviation (input) unexpectedSolidusInTag :: err_code where "unexpectedSolidusInTag \<equiv> ''unexpected-solidus-in-tag''"
abbreviation (input) unexpectedNullCharacter :: err_code where "unexpectedNullCharacter \<equiv> ''unexpected-null-character''"
abbreviation (input) unexpectedQuestionMarkInsteadOfTagName :: err_code where "unexpectedQuestionMarkInsteadOfTagName \<equiv> ''unexpected-question-mark-instead-of-tag-name''"
abbreviation (input) invalidFirstCharacterOfTagName :: err_code where "invalidFirstCharacterOfTagName \<equiv> ''invalid-first-character-of-tag-name''"
abbreviation (input) unexpectedEqualsSignBeforeAttributeName :: err_code where "unexpectedEqualsSignBeforeAttributeName \<equiv> ''unexpected-equals-sign-before-attribute-name''"
abbreviation (input) missingEndTagName :: err_code where "missingEndTagName \<equiv> ''missing-end-tag-name''"
abbreviation (input) unexpectedCharacterInAttributeName :: err_code where "unexpectedCharacterInAttributeName \<equiv> ''unexpected-character-in-attribute-name''"
abbreviation (input) unknownNamedCharacterReference :: err_code where "unknownNamedCharacterReference \<equiv> ''unknown-named-character-reference''"
abbreviation (input) missingSemicolonAfterCharacterReference :: err_code where "missingSemicolonAfterCharacterReference \<equiv> ''missing-semicolon-after-character-reference''"
abbreviation (input) unexpectedCharacterAfterDoctypeSystemIdentifier :: err_code where "unexpectedCharacterAfterDoctypeSystemIdentifier \<equiv> ''unexpected-character-after-doctype-system-identifier''"
abbreviation (input) unexpectedCharacterInUnquotedAttributeValue :: err_code where "unexpectedCharacterInUnquotedAttributeValue \<equiv> ''unexpected-character-in-unquoted-attribute-value''"
abbreviation (input) eofBeforeTagName :: err_code where "eofBeforeTagName \<equiv> ''eof-before-tag-name''"
abbreviation (input) eofInTag :: err_code where "eofInTag \<equiv> ''eof-in-tag''"
abbreviation (input) missingAttributeValue :: err_code where "missingAttributeValue \<equiv> ''missing-attribute-value''"
abbreviation (input) missingWhitespaceBetweenAttributes :: err_code where "missingWhitespaceBetweenAttributes \<equiv> ''missing-whitespace-between-attributes''"
abbreviation (input) missingWhitespaceAfterDoctypePublicKeyword :: err_code where "missingWhitespaceAfterDoctypePublicKeyword \<equiv> ''missing-whitespace-after-doctype-public-keyword''"
abbreviation (input) missingWhitespaceBetweenDoctypePublicAndSystemIdentifiers :: err_code where "missingWhitespaceBetweenDoctypePublicAndSystemIdentifiers \<equiv> ''missing-whitespace-between-doctype-public-and-system-identifiers''"
abbreviation (input) missingWhitespaceAfterDoctypeSystemKeyword :: err_code where "missingWhitespaceAfterDoctypeSystemKeyword \<equiv> ''missing-whitespace-after-doctype-system-keyword''"
abbreviation (input) missingQuoteBeforeDoctypePublicIdentifier :: err_code where "missingQuoteBeforeDoctypePublicIdentifier \<equiv> ''missing-quote-before-doctype-public-identifier''"
abbreviation (input) missingQuoteBeforeDoctypeSystemIdentifier :: err_code where "missingQuoteBeforeDoctypeSystemIdentifier \<equiv> ''missing-quote-before-doctype-system-identifier''"
abbreviation (input) missingDoctypePublicIdentifier :: err_code where "missingDoctypePublicIdentifier \<equiv> ''missing-doctype-public-identifier''"
abbreviation (input) missingDoctypeSystemIdentifier :: err_code where "missingDoctypeSystemIdentifier \<equiv> ''missing-doctype-system-identifier''"
abbreviation (input) abruptDoctypePublicIdentifier :: err_code where "abruptDoctypePublicIdentifier \<equiv> ''abrupt-doctype-public-identifier''"
abbreviation (input) abruptDoctypeSystemIdentifier :: err_code where "abruptDoctypeSystemIdentifier \<equiv> ''abrupt-doctype-system-identifier''"
abbreviation (input) cdataInHtmlContent :: err_code where "cdataInHtmlContent \<equiv> ''cdata-in-html-content''"
abbreviation (input) incorrectlyOpenedComment :: err_code where "incorrectlyOpenedComment \<equiv> ''incorrectly-opened-comment''"
abbreviation (input) eofInScriptHtmlCommentLikeText :: err_code where "eofInScriptHtmlCommentLikeText \<equiv> ''eof-in-script-html-comment-like-text''"
abbreviation (input) eofInDoctype :: err_code where "eofInDoctype \<equiv> ''eof-in-doctype''"
abbreviation (input) nestedComment :: err_code where "nestedComment \<equiv> ''nested-comment''"
abbreviation (input) abruptClosingOfEmptyComment :: err_code where "abruptClosingOfEmptyComment \<equiv> ''abrupt-closing-of-empty-comment''"
abbreviation (input) eofInComment :: err_code where "eofInComment \<equiv> ''eof-in-comment''"
abbreviation (input) incorrectlyClosedComment :: err_code where "incorrectlyClosedComment \<equiv> ''incorrectly-closed-comment''"
abbreviation (input) eofInCdata :: err_code where "eofInCdata \<equiv> ''eof-in-cdata''"
abbreviation (input) absenceOfDigitsInNumericCharacterReference :: err_code where "absenceOfDigitsInNumericCharacterReference \<equiv> ''absence-of-digits-in-numeric-character-reference''"
abbreviation (input) nullCharacterReference :: err_code where "nullCharacterReference \<equiv> ''null-character-reference''"
abbreviation (input) surrogateCharacterReference :: err_code where "surrogateCharacterReference \<equiv> ''surrogate-character-reference''"
abbreviation (input) characterReferenceOutsideUnicodeRange :: err_code where "characterReferenceOutsideUnicodeRange \<equiv> ''character-reference-outside-unicode-range''"
abbreviation (input) controlCharacterReference :: err_code where "controlCharacterReference \<equiv> ''control-character-reference''"
abbreviation (input) noncharacterCharacterReference :: err_code where "noncharacterCharacterReference \<equiv> ''noncharacter-character-reference''"
abbreviation (input) missingWhitespaceBeforeDoctypeName :: err_code where "missingWhitespaceBeforeDoctypeName \<equiv> ''missing-whitespace-before-doctype-name''"
abbreviation (input) missingDoctypeName :: err_code where "missingDoctypeName \<equiv> ''missing-doctype-name''"
abbreviation (input) invalidCharacterSequenceAfterDoctypeName :: err_code where "invalidCharacterSequenceAfterDoctypeName \<equiv> ''invalid-character-sequence-after-doctype-name''"
abbreviation (input) duplicateAttribute :: err_code where "duplicateAttribute \<equiv> ''duplicate-attribute''"
abbreviation (input) nonConformingDoctype :: err_code where "nonConformingDoctype \<equiv> ''non-conforming-doctype''"
abbreviation (input) missingDoctype :: err_code where "missingDoctype \<equiv> ''missing-doctype''"
abbreviation (input) misplacedDoctype :: err_code where "misplacedDoctype \<equiv> ''misplaced-doctype''"
abbreviation (input) endTagWithoutMatchingOpenElement :: err_code where "endTagWithoutMatchingOpenElement \<equiv> ''end-tag-without-matching-open-element''"
abbreviation (input) closingOfElementWithOpenChildElements :: err_code where "closingOfElementWithOpenChildElements \<equiv> ''closing-of-element-with-open-child-elements''"
abbreviation (input) disallowedContentInNoscriptInHead :: err_code where "disallowedContentInNoscriptInHead \<equiv> ''disallowed-content-in-noscript-in-head''"
abbreviation (input) openElementsLeftAfterEof :: err_code where "openElementsLeftAfterEof \<equiv> ''open-elements-left-after-eof''"
abbreviation (input) abandonedHeadElementChild :: err_code where "abandonedHeadElementChild \<equiv> ''abandoned-head-element-child''"
abbreviation (input) misplacedStartTagForHeadElement :: err_code where "misplacedStartTagForHeadElement \<equiv> ''misplaced-start-tag-for-head-element''"
abbreviation (input) nestedNoscriptInHead :: err_code where "nestedNoscriptInHead \<equiv> ''nested-noscript-in-head''"
abbreviation (input) eofInElementThatCanContainOnlyText :: err_code where "eofInElementThatCanContainOnlyText \<equiv> ''eof-in-element-that-can-contain-only-text''"

section \<open>Tag names and ids: \<open>ng\<close>, \<open>og\<close>, \<open>dg\<close> and \<open>pg\<close>\<close>

definition tag_table :: "(string \<times> nat) list" where
  "tag_table = [
    (''a'', 1), (''address'', 2), (''annotation-xml'', 3), (''applet'', 4), (''area'', 5),
    (''article'', 6), (''aside'', 7), (''b'', 8), (''base'', 9), (''basefont'', 10),
    (''bgsound'', 11), (''big'', 12), (''blockquote'', 13), (''body'', 14), (''br'', 15),
    (''button'', 16), (''caption'', 17), (''center'', 18), (''code'', 19), (''col'', 20),
    (''colgroup'', 21), (''dd'', 22), (''desc'', 23), (''details'', 24), (''dialog'', 25),
    (''dir'', 26), (''div'', 27), (''dl'', 28), (''dt'', 29), (''em'', 30), (''embed'', 31),
    (''fieldset'', 32), (''figcaption'', 33), (''figure'', 34), (''font'', 35),
    (''footer'', 36), (''foreignObject'', 37), (''form'', 38), (''frame'', 39),
    (''frameset'', 40), (''h1'', 41), (''h2'', 42), (''h3'', 43), (''h4'', 44), (''h5'', 45),
    (''h6'', 46), (''head'', 47), (''header'', 48), (''hgroup'', 49), (''hr'', 50),
    (''html'', 51), (''i'', 52), (''img'', 53), (''image'', 54), (''input'', 55),
    (''iframe'', 56), (''keygen'', 57), (''label'', 58), (''li'', 59), (''link'', 60),
    (''listing'', 61), (''main'', 62), (''malignmark'', 63), (''marquee'', 64), (''math'', 65),
    (''menu'', 66), (''meta'', 67), (''mglyph'', 68), (''mi'', 69), (''mo'', 70), (''mn'', 71),
    (''ms'', 72), (''mtext'', 73), (''nav'', 74), (''nobr'', 75), (''noframes'', 76),
    (''noembed'', 77), (''noscript'', 78), (''object'', 79), (''ol'', 80), (''optgroup'', 81),
    (''option'', 82), (''p'', 83), (''param'', 84), (''plaintext'', 85), (''pre'', 86),
    (''rb'', 87), (''rp'', 88), (''rt'', 89), (''rtc'', 90), (''ruby'', 91), (''s'', 92),
    (''script'', 93), (''section'', 94), (''select'', 95), (''source'', 96), (''small'', 97),
    (''span'', 98), (''strike'', 99), (''strong'', 100), (''style'', 101), (''sub'', 102),
    (''summary'', 103), (''sup'', 104), (''table'', 105), (''tbody'', 106),
    (''template'', 107), (''textarea'', 108), (''tfoot'', 109), (''td'', 110), (''th'', 111),
    (''thead'', 112), (''title'', 113), (''tr'', 114), (''track'', 115), (''tt'', 116),
    (''u'', 117), (''ul'', 118), (''svg'', 119), (''var'', 120), (''wbr'', 121),
    (''xmp'', 122)]"

definition getTagID :: "jsstr \<Rightarrow> nat" where
  "getTagID name = (case map_of (map (\<lambda>(s, i). (js s, i)) tag_table) name of
     Some i \<Rightarrow> i | None \<Rightarrow> 0)"

section \<open>Character classes\<close>

definition is_surrogate :: "cp \<Rightarrow> bool" where
  "is_surrogate c \<longleftrightarrow> 55296 \<le> c \<and> c \<le> 57343"

definition is_surrogate_pair_tail :: "cp \<Rightarrow> bool" where
  "is_surrogate_pair_tail c \<longleftrightarrow> 56320 \<le> c \<and> c \<le> 57343"

definition surrogate_pair_code_point :: "cp \<Rightarrow> cp \<Rightarrow> cp" where
  "surrogate_pair_code_point hi lo = 1024 * (hi - 55296) + 9216 + lo"

definition is_control_code_point :: "cp \<Rightarrow> bool" where
  "is_control_code_point c \<longleftrightarrow>
     (c \<noteq> 32 \<and> c \<noteq> 10 \<and> c \<noteq> 13 \<and> c \<noteq> 9 \<and> c \<noteq> 12 \<and> 1 \<le> c \<and> c \<le> 31) \<or> (127 \<le> c \<and> c \<le> 159)"

definition undefined_code_points :: "cp list" where
  "undefined_code_points =
     [65534, 65535, 131070, 131071, 196606, 196607, 262142, 262143, 327678, 327679, 393214,
      393215, 458750, 458751, 524286, 524287, 589822, 589823, 655358, 655359, 720894, 720895,
      786430, 786431, 851966, 851967, 917502, 917503, 983038, 983039, 1048574, 1048575,
      1114110, 1114111]"

definition is_undefined_code_point :: "cp \<Rightarrow> bool" where
  "is_undefined_code_point c \<longleftrightarrow>
     (64976 \<le> c \<and> c \<le> 65007) \<or> c \<in> set undefined_code_points"

definition is_ascii_digit :: "cp \<Rightarrow> bool" where
  "is_ascii_digit c \<longleftrightarrow> DIGIT_0 \<le> c \<and> c \<le> DIGIT_9"

definition is_ascii_upper :: "cp \<Rightarrow> bool" where
  "is_ascii_upper c \<longleftrightarrow> LATIN_CAPITAL_A \<le> c \<and> c \<le> LATIN_CAPITAL_Z"

definition is_ascii_letter :: "cp \<Rightarrow> bool" where
  "is_ascii_letter c \<longleftrightarrow> (LATIN_SMALL_A \<le> c \<and> c \<le> LATIN_SMALL_Z) \<or> is_ascii_upper c"

definition is_ascii_alnum :: "cp \<Rightarrow> bool" where
  "is_ascii_alnum c \<longleftrightarrow> is_ascii_letter c \<or> is_ascii_digit c"

definition is_upper_hex :: "cp \<Rightarrow> bool" where
  "is_upper_hex c \<longleftrightarrow> LATIN_CAPITAL_A \<le> c \<and> c \<le> LATIN_CAPITAL_F"

definition is_lower_hex :: "cp \<Rightarrow> bool" where
  "is_lower_hex c \<longleftrightarrow> LATIN_SMALL_A \<le> c \<and> c \<le> LATIN_SMALL_F"

definition to_ascii_lower :: "cp \<Rightarrow> cp" where
  "to_ascii_lower c = c + 32"

definition is_whitespace :: "cp \<Rightarrow> bool" where
  "is_whitespace c \<longleftrightarrow> c = SPACE \<or> c = LINE_FEED \<or> c = TABULATION \<or> c = FORM_FEED"

definition is_script_data_double_escape_end :: "cp \<Rightarrow> bool" where
  "is_script_data_double_escape_end c \<longleftrightarrow> is_whitespace c \<or> c = SOLIDUS \<or> c = GREATER_THAN_SIGN"

lemma classes_eof [simp]:
  "\<not> is_whitespace EOF" "\<not> is_ascii_letter EOF" "\<not> is_ascii_upper EOF" "\<not> is_ascii_digit EOF"
  "\<not> is_ascii_alnum EOF" "\<not> is_upper_hex EOF" "\<not> is_lower_hex EOF"
  "\<not> is_script_data_double_escape_end EOF"
  by (simp_all add: is_whitespace_def is_ascii_letter_def is_ascii_upper_def is_ascii_digit_def
      is_ascii_alnum_def is_upper_hex_def is_lower_hex_def is_script_data_double_escape_end_def)

text \<open>
  \<open>String.fromCodePoint\<close>: one code unit, or a surrogate pair beyond the basic plane. It throws a
  \<open>RangeError\<close> outside 0 to 0x10FFFF, which the callers model.
\<close>

definition fromCodePoint :: "cp \<Rightarrow> jsstr" where
  "fromCodePoint c =
     (if c \<le> 65535 then [nat c]
      else [nat (55296 + (c - 65536) div 1024), nat (56320 + (c - 65536) mod 1024)])"

section \<open>Tokens\<close>

record attr =
  attr_name :: jsstr
  attr_value :: jsstr

datatype tag_type = START_TAG | END_TAG

datatype char_type = CHARACTER | NULL_CHARACTER | WHITESPACE_CHARACTER

record tag_token =
  tag_type :: tag_type
  tagName :: jsstr
  tagID :: nat
  selfClosing :: bool
  ackSelfClosing :: bool
  attrs :: "attr list"

record doctype_token =
  doctype_name :: "jsstr option"
  forceQuirks :: bool
  publicId :: "jsstr option"
  systemId :: "jsstr option"

datatype token = Tag tag_token | Comment jsstr | Doctype doctype_token

text \<open>The calls the tokenizer makes on its handler.\<close>

datatype token_event =
    OnStartTag tag_token
  | OnEndTag tag_token
  | OnComment jsstr
  | OnDoctype doctype_token
  | OnCharacter jsstr
  | OnNullCharacter jsstr
  | OnWhitespaceCharacter jsstr
  | OnEof

text \<open>\<open>Im\<close>: the value of an attribute of a token, the last one of that name.\<close>

definition getTokenAttr :: "tag_token \<Rightarrow> jsstr \<Rightarrow> jsstr option" where
  "getTokenAttr t n = map_of (rev (map (\<lambda>a. (attr_name a, attr_value a)) (attrs t))) n"

end
