(* ===== verification/Html_Preprocessor.thy ===== *)
theory Html_Preprocessor
  imports Html_Codes
begin

text \<open>
  The input stream of the HTML tokenizer: class \<open>$m\<close> (\<open>Preprocessor\<close>) of
  \<^verbatim>\<open>src/api/scalar.standalone.js\<close>. It turns the UTF-16 text into code points, normalises line
  ends, joins surrogate pairs, counts lines and columns, and lets the tokenizer step back over
  what it has read. \<open>gapStack\<close> is kept with its top first. \<open>report\<close> says whether the handler has
  an \<open>onParseError\<close> function, and \<open>errors\<close> are the calls made on it, latest first.
\<close>

section \<open>State and operations\<close>

record parse_error =
  err_code :: err_code
  err_line :: int
  err_col :: int
  err_offset :: int

record preprocessor =
  report :: bool
  html :: jsstr
  pos :: int
  lastGapPos :: int
  gapStack :: "int list"
  skipNextNewLine :: bool
  lastChunkWritten :: bool
  endOfChunkHit :: bool
  bufferWaterline :: int
  isEol :: bool
  lineStartPos :: int
  droppedBufferSize :: int
  line :: int
  lastErrOffset :: int
  errors :: "parse_error list"

definition new_preprocessor :: "bool \<Rightarrow> preprocessor" where
  "new_preprocessor rep =
     \<lparr>report = rep, html = [], pos = -1, lastGapPos = -2, gapStack = [], skipNextNewLine = False,
      lastChunkWritten = False, endOfChunkHit = False, bufferWaterline = 65536, isEol = False,
      lineStartPos = 0, droppedBufferSize = 0, line = 1, lastErrOffset = -1, errors = []\<rparr>"

text \<open>\<open>charCodeAt\<close> gives \<open>NaN\<close> outside the string, which equals no code unit.\<close>

definition charCodeAt :: "jsstr \<Rightarrow> int \<Rightarrow> cp" where
  "charCodeAt s i = (if 0 \<le> i \<and> i < int (length s) then int (s ! nat i) else -2)"

definition col :: "preprocessor \<Rightarrow> int" where
  "col p = pos p - lineStartPos p + (if lastGapPos p \<noteq> pos p then 1 else 0)"

definition offset :: "preprocessor \<Rightarrow> int" where
  "offset p = droppedBufferSize p + pos p"

definition getError :: "err_code \<Rightarrow> preprocessor \<Rightarrow> parse_error" where
  "getError code p =
     \<lparr>err_code = code, err_line = line p, err_col = col p, err_offset = offset p\<rparr>"

definition pp_err :: "err_code \<Rightarrow> preprocessor \<Rightarrow> preprocessor" where
  "pp_err code p =
     (if report p \<and> lastErrOffset p \<noteq> offset p
      then p\<lparr>lastErrOffset := offset p, errors := getError code p # errors p\<rparr> else p)"

definition addGap :: "preprocessor \<Rightarrow> preprocessor" where
  "addGap p = p\<lparr>gapStack := lastGapPos p # gapStack p, lastGapPos := pos p\<rparr>"

definition processSurrogate :: "cp \<Rightarrow> preprocessor \<Rightarrow> cp \<times> preprocessor" where
  "processSurrogate e p =
     (if pos p \<noteq> int (length (html p)) - 1 then
        (let t = charCodeAt (html p) (pos p + 1) in
         if is_surrogate_pair_tail t
         then (surrogate_pair_code_point e t, addGap (p\<lparr>pos := pos p + 1\<rparr>))
         else (e, pp_err surrogateInInputStream p))
      else if \<not> lastChunkWritten p then (EOF, p\<lparr>endOfChunkHit := True\<rparr>)
      else (e, pp_err surrogateInInputStream p))"

definition willDropParsedChunk :: "preprocessor \<Rightarrow> bool" where
  "willDropParsedChunk p \<longleftrightarrow> pos p > bufferWaterline p"

definition dropParsedChunk :: "preprocessor \<Rightarrow> preprocessor" where
  "dropParsedChunk p =
     (if willDropParsedChunk p
      then p\<lparr>html := drop (nat (pos p)) (html p), lineStartPos := lineStartPos p - pos p,
             droppedBufferSize := droppedBufferSize p + pos p, pos := 0, lastGapPos := -2,
             gapStack := []\<rparr>
      else p)"

definition pp_write :: "jsstr \<Rightarrow> bool \<Rightarrow> preprocessor \<Rightarrow> preprocessor" where
  "pp_write chunk isLastChunk p =
     p\<lparr>html := (if length (html p) > 0 then html p @ chunk else chunk),
       endOfChunkHit := False, lastChunkWritten := isLastChunk\<rparr>"

definition pp_insertHtmlAtCurrentPos :: "jsstr \<Rightarrow> preprocessor \<Rightarrow> preprocessor" where
  "pp_insertHtmlAtCurrentPos chunk p =
     p\<lparr>html := take (nat (pos p + 1)) (html p) @ chunk @ drop (nat (pos p + 1)) (html p),
       endOfChunkHit := False\<rparr>"

text \<open>\<open>32 | c\<close> on a code unit.\<close>

definition or32 :: "cp \<Rightarrow> cp" where
  "or32 c = (if (c div 32) mod 2 = 0 then c + 32 else c)"

definition pp_startsWith :: "jsstr \<Rightarrow> bool \<Rightarrow> preprocessor \<Rightarrow> bool \<times> preprocessor" where
  "pp_startsWith pattern caseSensitive p =
     (if pos p + int (length pattern) > int (length (html p))
      then (False, p\<lparr>endOfChunkHit := \<not> lastChunkWritten p\<rparr>)
      else if caseSensitive
      then (take (length pattern) (drop (nat (pos p)) (html p)) = pattern, p)
      else (list_all (\<lambda>n. or32 (charCodeAt (html p) (pos p + int n)) = int (pattern ! n))
              [0..<length pattern], p))"

definition peek :: "nat \<Rightarrow> preprocessor \<Rightarrow> cp \<times> preprocessor" where
  "peek d p =
     (let t = pos p + int d in
      if t \<ge> int (length (html p)) then (EOF, p\<lparr>endOfChunkHit := \<not> lastChunkWritten p\<rparr>)
      else let n = charCodeAt (html p) t
           in (if n = CARRIAGE_RETURN then LINE_FEED else n, p))"

definition checkForProblematicCharacters :: "cp \<Rightarrow> preprocessor \<Rightarrow> preprocessor" where
  "checkForProblematicCharacters c p =
     (if is_control_code_point c then pp_err controlCharacterInInputStream p
      else if is_undefined_code_point c then pp_err noncharacterInInputStream p
      else p)"

definition no_check_needed :: "cp \<Rightarrow> bool" where
  "no_check_needed c \<longleftrightarrow> (31 < c \<and> c < 127) \<or> c = LINE_FEED \<or> c = CARRIAGE_RETURN \<or> (159 < c \<and> c < 64976)"

text \<open>The first statement of \<open>advance\<close>: move on and start a new line after a line end.\<close>

definition advance_pos :: "preprocessor \<Rightarrow> preprocessor" where
  "advance_pos p =
     (let p1 = p\<lparr>pos := pos p + 1\<rparr>
      in if isEol p1 then p1\<lparr>isEol := False, line := line p1 + 1, lineStartPos := pos p1\<rparr> else p1)"

text \<open>The last statements of \<open>advance\<close>: a code point that is no line end of its own.\<close>

definition advance_read :: "cp \<Rightarrow> preprocessor \<Rightarrow> cp \<times> preprocessor" where
  "advance_read e p =
     (let p1 = p\<lparr>skipNextNewLine := False\<rparr>;
          (e', p2) = (if is_surrogate e then processSurrogate e p1 else (e, p1))
      in (e', if \<not> report p2 \<or> no_check_needed e' then p2
              else checkForProblematicCharacters e' p2))"

function advance :: "preprocessor \<Rightarrow> cp \<times> preprocessor" where
  "advance p =
     (let p2 = advance_pos p in
      if pos p2 \<ge> int (length (html p2)) then (EOF, p2\<lparr>endOfChunkHit := \<not> lastChunkWritten p2\<rparr>)
      else
        let e = charCodeAt (html p2) (pos p2) in
        if e = CARRIAGE_RETURN then (LINE_FEED, p2\<lparr>isEol := True, skipNextNewLine := True\<rparr>)
        else if e = LINE_FEED \<and> skipNextNewLine p2
        then advance (addGap (p2\<lparr>isEol := True, line := line p2 - 1, skipNextNewLine := False\<rparr>))
        else advance_read e (if e = LINE_FEED then p2\<lparr>isEol := True\<rparr> else p2))"
  by pat_completeness auto
termination
  by (relation "measure (\<lambda>p. if skipNextNewLine p then 1 else 0)")
     (auto simp: advance_pos_def addGap_def Let_def split: if_splits)

declare advance.simps [simp del]

text \<open>The loop of \<open>retreat\<close>; \<open>pop\<close> on the empty array is never reached from a consistent state.\<close>

fun unwind_gaps :: "int \<Rightarrow> int \<Rightarrow> int list \<Rightarrow> int \<times> int \<times> int list" where
  "unwind_gaps i g [] = (if i < g then (i - 1, -2, []) else (i, g, []))"
| "unwind_gaps i g (g' # gs) = (if i < g then unwind_gaps (i - 1) g' gs else (i, g, g' # gs))"

definition retreat :: "int \<Rightarrow> preprocessor \<Rightarrow> preprocessor" where
  "retreat n p =
     (case unwind_gaps (pos p - n) (lastGapPos p) (gapStack p) of
        (i, g, gs) \<Rightarrow> p\<lparr>pos := i, lastGapPos := g, gapStack := gs, isEol := False\<rparr>)"

section \<open>The contract of a rewindable source\<close>

text \<open>
  What the tokenizer relies on: a read moves forward, and stepping back undoes reads.
  \<open>moved m s s'\<close> says that \<open>s'\<close> is \<open>s\<close> after \<open>m\<close> reads that have not been undone.
\<close>

locale rewindable_source =
  fixes next_char :: "'s \<Rightarrow> 'c \<times> 's"
    and step_back :: "int \<Rightarrow> 's \<Rightarrow> 's"
    and left :: "'s \<Rightarrow> int"
    and consistent :: "'s \<Rightarrow> bool"
    and moved :: "nat \<Rightarrow> 's \<Rightarrow> 's \<Rightarrow> bool"
  assumes moved_refl: "moved 0 s s"
    and moved_next: "moved m s s' \<Longrightarrow> moved (Suc m) s (snd (next_char s'))"
    and moved_left: "moved m s s' \<Longrightarrow> left s' \<le> left s - int m"
    and moved_consistent: "moved m s s' \<Longrightarrow> consistent s \<Longrightarrow> consistent s'"
    and moved_back: "moved (m + k) s s' \<Longrightarrow> consistent s \<Longrightarrow> moved m s (step_back (int k) s')"
begin

lemma next_left: "left (snd (next_char s)) < left s"
  using moved_left [OF moved_next [OF moved_refl], of s] by simp

lemma next_consistent: "consistent s \<Longrightarrow> consistent (snd (next_char s))"
  using moved_consistent [OF moved_next [OF moved_refl], of s] by simp

lemma nexts_left: "left (((\<lambda>s. snd (next_char s)) ^^ n) s) \<le> left s - int n"
proof (induction n)
  case (Suc n)
  then show ?case using next_left [of "((\<lambda>s. snd (next_char s)) ^^ n) s"] by simp
qed simp

lemma nexts_consistent: "consistent s \<Longrightarrow> consistent (((\<lambda>s. snd (next_char s)) ^^ n) s)"
  by (induction n) (simp_all add: next_consistent)

text \<open>Stepping back over everything that was read comes back to the start.\<close>

lemma moved_all_back:
  assumes "moved m s s'" and "consistent s"
  shows "moved 0 s (step_back (int m) s')" and "consistent (step_back (int m) s')"
    and "left (step_back (int m) s') \<le> left s"
proof -
  show m: "moved 0 s (step_back (int m) s')" using moved_back [of 0 m s s'] assms by simp
  show "consistent (step_back (int m) s')" using moved_consistent [OF m assms(2)] .
  show "left (step_back (int m) s') \<le> left s" using moved_left [OF m] by simp
qed

end

section \<open>Positions\<close>

definition remaining :: "preprocessor \<Rightarrow> int" where
  "remaining p = int (length (html p)) - pos p"

definition gaps :: "preprocessor \<Rightarrow> int list" where
  "gaps p = lastGapPos p # gapStack p"

text \<open>After the last chunk no further text is waited for.\<close>

definition chunk_ok :: "preprocessor \<Rightarrow> bool" where
  "chunk_ok p \<longleftrightarrow> \<not> (lastChunkWritten p \<and> endOfChunkHit p)"

lemma chunk_ok_update [simp]:
  "chunk_ok (p\<lparr>pos := i\<rparr>) = chunk_ok p" "chunk_ok (p\<lparr>lastGapPos := i\<rparr>) = chunk_ok p"
  "chunk_ok (p\<lparr>gapStack := gs\<rparr>) = chunk_ok p" "chunk_ok (p\<lparr>skipNextNewLine := b\<rparr>) = chunk_ok p"
  "chunk_ok (p\<lparr>isEol := b\<rparr>) = chunk_ok p" "chunk_ok (p\<lparr>line := i\<rparr>) = chunk_ok p"
  "chunk_ok (p\<lparr>errors := es\<rparr>) = chunk_ok p" "chunk_ok (advance_pos p) = chunk_ok p"
  by (simp_all add: chunk_ok_def advance_pos_def Let_def)

text \<open>No gap lies ahead of the position; \<open>bufferWaterline\<close> is a constant of the class.\<close>

definition gaps_ok :: "preprocessor \<Rightarrow> bool" where
  "gaps_ok p \<longleftrightarrow> lastGapPos p \<le> pos p \<and> bufferWaterline p = 65536 \<and> chunk_ok p"

definition moved :: "nat \<Rightarrow> preprocessor \<Rightarrow> preprocessor \<Rightarrow> bool" where
  "moved m p p' \<longleftrightarrow> html p' = html p \<and> bufferWaterline p' = bufferWaterline p \<and>
     lastChunkWritten p' = lastChunkWritten p \<and> (chunk_ok p \<longrightarrow> chunk_ok p') \<and>
     (\<exists>new. gaps p' = new @ gaps p \<and> pos p' = pos p + int m + int (length new) \<and>
            (new = [] \<or> hd new \<le> pos p'))"

lemma moved_refl: "moved 0 p p"
  by (simp add: moved_def)

lemma moved_trans:
  assumes "moved m p q" and "moved n q r"
  shows "moved (m + n) p r"
proof -
  have bw: "bufferWaterline r = bufferWaterline p" "lastChunkWritten r = lastChunkWritten p"
    "chunk_ok p \<longrightarrow> chunk_ok r" using assms unfolding moved_def by simp_all
  obtain new1 where 1: "html q = html p" "gaps q = new1 @ gaps p"
    "pos q = pos p + int m + int (length new1)" "new1 = [] \<or> hd new1 \<le> pos q"
    using assms(1) unfolding moved_def by blast
  obtain new2 where 2: "html r = html q" "gaps r = new2 @ gaps q"
    "pos r = pos q + int n + int (length new2)" "new2 = [] \<or> hd new2 \<le> pos r"
    using assms(2) unfolding moved_def by blast
  have "gaps r = (new2 @ new1) @ gaps p" using 1 2 by simp
  moreover have "pos r = pos p + int (m + n) + int (length (new2 @ new1))" using 1 2 by simp
  moreover have "new2 @ new1 = [] \<or> hd (new2 @ new1) \<le> pos r"
    using 1(4) 2(3,4) by (cases new2) auto
  ultimately show ?thesis unfolding moved_def using 1(1) 2(1) bw by metis
qed

text \<open>Changes that touch neither the text nor the position.\<close>

lemma moved_same_pos:
  assumes "html p' = html p" and "pos p' = pos p" and "lastGapPos p' = lastGapPos p"
    and "gapStack p' = gapStack p" and "bufferWaterline p' = bufferWaterline p"
    and "lastChunkWritten p' = lastChunkWritten p" and "chunk_ok p \<longrightarrow> chunk_ok p'"
  shows "moved 0 p p'"
  using assms by (simp add: moved_def gaps_def)

lemma pp_err_frame [frame_simps]:
  "html (pp_err c p) = html p" "bufferWaterline (pp_err c p) = bufferWaterline p" "pos (pp_err c p) = pos p" "lastGapPos (pp_err c p) = lastGapPos p"
  "gapStack (pp_err c p) = gapStack p" "lastChunkWritten (pp_err c p) = lastChunkWritten p"
  "endOfChunkHit (pp_err c p) = endOfChunkHit p" "report (pp_err c p) = report p"
  "skipNextNewLine (pp_err c p) = skipNextNewLine p" "isEol (pp_err c p) = isEol p"
  by (simp_all add: pp_err_def)

lemma check_frame [frame_simps]:
  "html (checkForProblematicCharacters c p) = html p" "bufferWaterline (checkForProblematicCharacters c p) = bufferWaterline p"
  "pos (checkForProblematicCharacters c p) = pos p"
  "lastGapPos (checkForProblematicCharacters c p) = lastGapPos p"
  "gapStack (checkForProblematicCharacters c p) = gapStack p"
  "lastChunkWritten (checkForProblematicCharacters c p) = lastChunkWritten p"
  "endOfChunkHit (checkForProblematicCharacters c p) = endOfChunkHit p"
  "skipNextNewLine (checkForProblematicCharacters c p) = skipNextNewLine p"
  "isEol (checkForProblematicCharacters c p) = isEol p"
  by (simp_all add: checkForProblematicCharacters_def frame_simps)

lemma moved_addGap:
  assumes "html q = html p" "bufferWaterline q = bufferWaterline p"
    "lastChunkWritten q = lastChunkWritten p" "endOfChunkHit q = endOfChunkHit p"
    "pos q = pos p + int (Suc m)" "lastGapPos q = lastGapPos p"
    "gapStack q = gapStack p"
  shows "moved m p (addGap q)"
  using assms by (auto simp: moved_def gaps_def addGap_def chunk_ok_def intro!: exI [of _ "[pos q]"])

lemma advance_pos_frame:
  "html (advance_pos p) = html p" "bufferWaterline (advance_pos p) = bufferWaterline p" "pos (advance_pos p) = pos p + 1"
  "lastGapPos (advance_pos p) = lastGapPos p" "gapStack (advance_pos p) = gapStack p"
  "lastChunkWritten (advance_pos p) = lastChunkWritten p"
  "endOfChunkHit (advance_pos p) = endOfChunkHit p"
  "skipNextNewLine (advance_pos p) = skipNextNewLine p" "report (advance_pos p) = report p"
  by (simp_all add: advance_pos_def Let_def)

lemma advance_at_end:
  assumes "remaining p \<le> 1"
  shows "fst (advance p) = EOF"
  using assms by (subst advance.simps) (simp add: remaining_def advance_pos_frame Let_def)

text \<open>One read: either the position moves by one, or by two over a gap.\<close>

definition read_one :: "preprocessor \<Rightarrow> preprocessor \<Rightarrow> bool" where
  "read_one q r \<longleftrightarrow> html r = html q \<and> bufferWaterline r = bufferWaterline q \<and>
     lastChunkWritten r = lastChunkWritten q \<and> (chunk_ok q \<longrightarrow> chunk_ok r) \<and>
     (pos r = pos q \<and> lastGapPos r = lastGapPos q \<and> gapStack r = gapStack q \<or>
      pos r = pos q + 1 \<and> lastGapPos r = pos q + 1 \<and> gapStack r = lastGapPos q # gapStack q)"

lemma read_one_moved:
  assumes "html q = html p" "bufferWaterline q = bufferWaterline p"
    "lastChunkWritten q = lastChunkWritten p" "endOfChunkHit q = endOfChunkHit p"
    "pos q = pos p + 1" "lastGapPos q = lastGapPos p"
    "gapStack q = gapStack p" and "read_one q r"
  shows "moved 1 p r"
  using assms
  by (auto simp: moved_def gaps_def read_one_def chunk_ok_def intro: exI [of _ "[]"] exI [of _ "[pos q + 1]"])

lemma processSurrogate_read_one: "read_one q (snd (processSurrogate e q))"
  by (auto simp: processSurrogate_def addGap_def frame_simps Let_def read_one_def chunk_ok_def)

lemma check_read_one: "read_one q (checkForProblematicCharacters c r) = read_one q r"
  by (simp add: read_one_def frame_simps chunk_ok_def)

lemma skip_read_one: "read_one (q\<lparr>skipNextNewLine := b\<rparr>) r = read_one q r"
  by (simp add: read_one_def chunk_ok_def)

lemma advance_read_read_one: "read_one q (snd (advance_read e q))"
proof -
  have "read_one q (snd (processSurrogate e (q\<lparr>skipNextNewLine := False\<rparr>)))"
    using processSurrogate_read_one [of "q\<lparr>skipNextNewLine := False\<rparr>" e] by (simp add: skip_read_one)
  moreover have "read_one q (q\<lparr>skipNextNewLine := False\<rparr>)"
    by (simp add: read_one_def chunk_ok_def)
  ultimately show ?thesis
    by (cases "processSurrogate e (q\<lparr>skipNextNewLine := False\<rparr>)")
       (simp add: advance_read_def Let_def check_read_one)
qed

lemma advance_moved: "moved 1 p (snd (advance p))"
proof (induction p rule: advance.induct)
  case (1 p)
  let ?p2 = "advance_pos p"
  let ?e = "charCodeAt (html ?p2) (pos ?p2)"
  let ?q = "addGap (?p2\<lparr>isEol := True, line := line ?p2 - 1, skipNextNewLine := False\<rparr>)"
  note fr = advance_pos_frame [of p]
  have one: "moved 1 p r" if "html r = html p" "bufferWaterline r = bufferWaterline p"
    "lastChunkWritten r = lastChunkWritten p" "chunk_ok p \<longrightarrow> chunk_ok r" "pos r = pos p + 1" "lastGapPos r = lastGapPos p"
    "gapStack r = gapStack p" for r
    using that by (simp add: moved_def gaps_def)
  consider (eof) "pos ?p2 \<ge> int (length (html ?p2))"
    | (cr) "\<not> pos ?p2 \<ge> int (length (html ?p2))" "?e = CARRIAGE_RETURN"
    | (skip) "\<not> pos ?p2 \<ge> int (length (html ?p2))" "?e \<noteq> CARRIAGE_RETURN"
        "?e = LINE_FEED \<and> skipNextNewLine ?p2"
    | (read) "\<not> pos ?p2 \<ge> int (length (html ?p2))" "?e \<noteq> CARRIAGE_RETURN"
        "\<not> (?e = LINE_FEED \<and> skipNextNewLine ?p2)" by blast
  then show ?case
  proof cases
    case eof
    then have eq: "snd (advance p) = ?p2\<lparr>endOfChunkHit := \<not> lastChunkWritten ?p2\<rparr>"
      by (subst advance.simps) (simp add: Let_def)
    show ?thesis unfolding eq by (rule one) (simp_all add: fr chunk_ok_def)
  next
    case cr
    then have eq: "snd (advance p) = ?p2\<lparr>isEol := True, skipNextNewLine := True\<rparr>"
      by (subst advance.simps) (simp add: Let_def)
    show ?thesis unfolding eq by (rule one) (simp_all add: fr chunk_ok_def)
  next
    case skip
    have "moved 0 p ?q" by (rule moved_addGap) (simp_all add: fr)
    moreover have "moved 1 ?q (snd (advance ?q))"
      using "1.IH" [OF refl skip(1) refl skip(2,3)] .
    ultimately have "moved 1 p (snd (advance ?q))" using moved_trans by fastforce
    with skip show ?thesis by (subst advance.simps) (simp add: Let_def)
  next
    case read
    have "moved 1 p (snd (advance_read ?e (if ?e = LINE_FEED then ?p2\<lparr>isEol := True\<rparr> else ?p2)))"
      by (rule read_one_moved [OF _ _ _ _ _ _ _ advance_read_read_one]) (simp_all add: fr)
    with read show ?thesis by (subst advance.simps) (auto simp: Let_def)
  qed
qed

text \<open>Stepping back pops the gaps it crosses, and moves one further for each.\<close>

lemma unwind_gaps_new:
  assumes "g # gs = new @ g0 # gs0" and "g0 \<le> b" and "i = b + int m + int (length new)"
  shows "\<exists>new' g' gs'. unwind_gaps i g gs = (b + int m + int (length new'), g', gs') \<and>
           g' # gs' = new' @ g0 # gs0 \<and> g' \<le> b + int m + int (length new')"
  using assms
proof (induction i g gs arbitrary: new rule: unwind_gaps.induct)
  case (1 i g)
  then have "new = []" by (cases new) auto
  then show ?case using 1 by auto
next
  case (2 i g g' gs)
  show ?case
  proof (cases "i < g")
    case True
    then obtain new' where new: "new = g # new'" using 2 by (cases new) auto
    have u: "unwind_gaps i g (g' # gs) = unwind_gaps (i - 1) g' gs" using True by simp
    have "g' # gs = new' @ g0 # gs0" "i - 1 = b + int m + int (length new')"
      using 2(2,4) new by simp_all
    from 2(1) [OF True this(1) 2(3) this(2)] show ?thesis unfolding u .
  next
    case False
    then have u: "unwind_gaps i g (g' # gs) = (i, g, g' # gs)" by simp
    show ?thesis unfolding u using 2(2,4) False by (intro exI [of _ new]) auto
  qed
qed

lemma retreat_frame [frame_simps]:
  "html (retreat n p) = html p" "bufferWaterline (retreat n p) = bufferWaterline p" "lastChunkWritten (retreat n p) = lastChunkWritten p"
  "endOfChunkHit (retreat n p) = endOfChunkHit p" "report (retreat n p) = report p"
  by (simp_all add: retreat_def split: prod.splits)

lemma moved_retreat:
  assumes "moved (m + k) p p'" and "gaps_ok p"
  shows "moved m p (retreat (int k) p')"
proof -
  have bw: "bufferWaterline p' = bufferWaterline p" "lastChunkWritten p' = lastChunkWritten p"
    "chunk_ok p'" using assms unfolding moved_def gaps_ok_def by simp_all
  obtain new where new: "html p' = html p" "gaps p' = new @ gaps p"
    "pos p' = pos p + int (m + k) + int (length new)"
    using assms(1) unfolding moved_def by blast
  have "lastGapPos p' # gapStack p' = new @ lastGapPos p # gapStack p"
    using new(2) by (simp add: gaps_def)
  from unwind_gaps_new [OF this, of "pos p" "pos p' - int k" m] new(3) assms(2)
  obtain new' g' gs' where
    u: "unwind_gaps (pos p' - int k) (lastGapPos p') (gapStack p') =
        (pos p + int m + int (length new'), g', gs')"
    and g: "g' # gs' = new' @ lastGapPos p # gapStack p" "g' \<le> pos p + int m + int (length new')"
    by (auto simp: gaps_ok_def)
  have "new' = [] \<or> hd new' \<le> pos p + int m + int (length new')" using g by (cases new') auto
  then show ?thesis
    using u g(1) new(1) bw by (auto simp: retreat_def moved_def gaps_def chunk_ok_def intro!: exI [of _ new'])
qed

lemma moved_gaps_ok:
  assumes "moved m p p'" and "gaps_ok p"
  shows "gaps_ok p'"
proof -
  obtain new where new: "gaps p' = new @ gaps p" "pos p' = pos p + int m + int (length new)"
    "new = [] \<or> hd new \<le> pos p'"
    using assms(1) unfolding moved_def by blast
  have "lastGapPos p' = hd (new @ gaps p)" using new(1) by (metis gaps_def list.sel(1))
  moreover have "bufferWaterline p' = bufferWaterline p" "chunk_ok p'"
    using assms unfolding moved_def gaps_ok_def by simp_all
  ultimately show ?thesis using assms(2) new(2,3) by (cases new) (auto simp: gaps_ok_def gaps_def)
qed

lemma moved_remaining: "moved m p p' \<Longrightarrow> remaining p' \<le> remaining p - int m"
  by (auto simp: moved_def remaining_def)

interpretation src: rewindable_source advance retreat remaining gaps_ok moved
proof
  fix s s' :: preprocessor and m :: nat
  show "moved 0 s s" by (rule moved_refl)
  show "moved (Suc m) s (snd (advance s'))" if "moved m s s'"
    using moved_trans [OF that advance_moved] by simp
  show "remaining s' \<le> remaining s - int m" if "moved m s s'"
    using that by (rule moved_remaining)
  show "gaps_ok s'" if "moved m s s'" "gaps_ok s" using that by (rule moved_gaps_ok)
  show "moved m s (retreat (int k) s')" if "moved (m + k) s s'" "gaps_ok s" for k
    using that by (rule moved_retreat)
qed

lemma advance_frame [simp]:
  "html (snd (advance p)) = html p" "lastChunkWritten (snd (advance p)) = lastChunkWritten p"
  using advance_moved [of p] by (simp_all add: moved_def)

lemma advances_last [simp]:
  "lastChunkWritten (((\<lambda>p. snd (advance p)) ^^ n) p) = lastChunkWritten p"
  by (induction n) simp_all

lemma dropParsedChunk_last [simp]: "lastChunkWritten (dropParsedChunk p) = lastChunkWritten p"
  by (simp add: dropParsedChunk_def)

end
