(* ===== verification/Html_Decode.thy ===== *)
theory Html_Decode
  imports Html_Codes
begin

text \<open>
  Looking up the next character of a named character reference: function \<open>ug\<close> (determineBranch)
  of \<^verbatim>\<open>src/api/scalar.standalone.js\<close>, with its binary search over the sorted keys of a node. The
  decode tree is an argument. A read outside it is \<open>undefined\<close> in the source and \<open>None\<close> here.
\<close>

section \<open>The decode tree\<close>

type_synonym decode_tree = "nat list"

definition tree_at :: "decode_tree \<Rightarrow> int \<Rightarrow> int option" where
  "tree_at lm a = (if 0 \<le> a \<and> a < int (length lm) then Some (int (lm ! nat a)) else None)"

text \<open>\<open>x & mask\<close> is 0 for \<open>undefined\<close>; the three fields of a node are bit fields of its word.\<close>

definition node_word :: "decode_tree \<Rightarrow> int \<Rightarrow> int" where
  "node_word lm a = (case tree_at lm a of Some w \<Rightarrow> w | None \<Rightarrow> 0)"

definition VALUE_LENGTH :: "int \<Rightarrow> int" where "VALUE_LENGTH w = (w div 16384) mod 4"
definition BRANCH_LENGTH :: "int \<Rightarrow> int" where "BRANCH_LENGTH w = (w div 128) mod 128"
definition JUMP_TABLE :: "int \<Rightarrow> int" where "JUMP_TABLE w = w mod 128"

text \<open>The loop of \<open>ug\<close>: keys at \<open>lo..hi\<close>, the target of a key \<open>o\<close> words behind it.\<close>

function search_keys :: "decode_tree \<Rightarrow> int \<Rightarrow> cp \<Rightarrow> int \<Rightarrow> int \<Rightarrow> int option" where
  "search_keys lm off r lo hi =
     (if lo \<le> hi then
        (let t = (lo + hi) div 2 in
         case tree_at lm t of
           None \<Rightarrow> tree_at lm (t + off)
         | Some n \<Rightarrow>
             if n < r then search_keys lm off r (t + 1) hi
             else if n > r then search_keys lm off r lo (t - 1)
             else tree_at lm (t + off))
      else Some (-1))"
  by pat_completeness auto
termination
  by (relation "measure (\<lambda>(lm, off, r, lo, hi). nat (hi - lo + 1))") auto

declare search_keys.simps [simp del]

text \<open>\<open>ug(e, t, n, r)\<close>: the node reached from the node with word \<open>t\<close> by \<open>r\<close>.\<close>

definition determineBranch :: "decode_tree \<Rightarrow> int \<Rightarrow> int \<Rightarrow> cp \<Rightarrow> int option" where
  "determineBranch lm t n r =
     (let off = BRANCH_LENGTH t; a = JUMP_TABLE t in
      if off = 0 then (if a \<noteq> 0 \<and> r = a then Some n else Some (-1))
      else if a \<noteq> 0 then
        (let d = r - a in
         if d < 0 \<or> d \<ge> off then Some (-1) else map_option (\<lambda>v. v - 1) (tree_at lm (n + d)))
      else search_keys lm off r n (n + off - 1))"

section \<open>The search finds exactly the keys\<close>

text \<open>Reference: the target of the first key equal to \<open>r\<close>, by a linear scan.\<close>

definition lookup_key :: "decode_tree \<Rightarrow> int \<Rightarrow> cp \<Rightarrow> int \<Rightarrow> int \<Rightarrow> int option" where
  "lookup_key lm off r lo hi =
     (case find (\<lambda>t. tree_at lm t = Some r) [lo..hi] of
        Some t \<Rightarrow> tree_at lm (t + off) | None \<Rightarrow> Some (-1))"

definition sorted_keys :: "decode_tree \<Rightarrow> int \<Rightarrow> int \<Rightarrow> bool" where
  "sorted_keys lm lo hi \<longleftrightarrow>
     (lo \<le> hi \<longrightarrow> 0 \<le> lo \<and> hi < int (length lm)) \<and>
     list_all (\<lambda>t. lm ! nat t < lm ! nat (t + 1)) [lo..hi - 1]"

lemma sorted_keys_less:
  assumes "sorted_keys lm lo hi" and "lo \<le> s" and "s < t" and "t \<le> hi"
  shows "lm ! nat s < lm ! nat t"
proof -
  have step: "lm ! nat u < lm ! nat (u + 1)" if "lo \<le> u" "u < hi" for u
    using assms(1) that by (auto simp: sorted_keys_def list_all_iff)
  have "int m + 1 + s \<le> hi \<Longrightarrow> lm ! nat s < lm ! nat (int m + 1 + s)" for m
  proof (induction m)
    case 0
    then show ?case using step [of s] assms(2) by (simp add: add.commute)
  next
    case (Suc m)
    have "lm ! nat (int m + 1 + s) < lm ! nat (int m + 1 + s + 1)"
      using Suc.prems assms(2) by (intro step) auto
    moreover have "int m + 1 + s + 1 = int (Suc m) + 1 + s" by simp
    ultimately show ?case using Suc by fastforce
  qed
  from this [of "nat (t - s - 1)"] show ?thesis using assms(3,4) by simp
qed

lemma sorted_keys_sub:
  assumes "sorted_keys lm lo hi" and "lo \<le> lo'" and "hi' \<le> hi"
  shows "sorted_keys lm lo' hi'"
  using assms by (auto simp: sorted_keys_def list_all_iff)

lemma tree_at_sorted:
  assumes "sorted_keys lm lo hi" and "lo \<le> t" and "t \<le> hi"
  shows "tree_at lm t = Some (int (lm ! nat t))"
  using assms by (auto simp: sorted_keys_def tree_at_def)

lemma find_unique:
  assumes "t \<in> set xs" and "P t" and "\<And>s. s \<in> set xs \<Longrightarrow> P s \<Longrightarrow> s = t"
  shows "find P xs = Some t"
  using assms(1,3)
proof (induction xs)
  case (Cons x xs)
  show ?case
  proof (cases "P x")
    case True
    then have "x = t" using Cons.prems(2) [of x] by simp
    then show ?thesis using True by simp
  next
    case False
    then have "t \<in> set xs" using Cons.prems(1) assms(2) by auto
    then show ?thesis using False Cons.IH Cons.prems(2) by simp
  qed
qed simp

lemma lookup_key_hit:
  assumes "sorted_keys lm lo hi" and "lo \<le> t" and "t \<le> hi" and "tree_at lm t = Some r"
  shows "lookup_key lm off r lo hi = tree_at lm (t + off)"
proof -
  have "s = t" if "s \<in> set [lo..hi]" "tree_at lm s = Some r" for s
  proof (rule ccontr)
    assume "s \<noteq> t"
    then have "lm ! nat s \<noteq> lm ! nat t"
      using sorted_keys_less [OF assms(1), of s t] sorted_keys_less [OF assms(1), of t s]
        that(1) assms(2,3) by (cases "s < t") auto
    then show False
      using tree_at_sorted [OF assms(1), of s] tree_at_sorted [OF assms(1-3)] that assms(4) by simp
  qed
  moreover have "t \<in> set [lo..hi]" using assms(2,3) by simp
  ultimately have "find (\<lambda>t. tree_at lm t = Some r) [lo..hi] = Some t"
    using find_unique [where P = "\<lambda>t. tree_at lm t = Some r", OF _ assms(4)] by blast
  then show ?thesis by (simp add: lookup_key_def)
qed

lemma lookup_key_narrow:
  assumes "\<And>s. lo \<le> s \<Longrightarrow> s \<le> hi \<Longrightarrow> tree_at lm s = Some r \<Longrightarrow> lo' \<le> s \<and> s \<le> hi'"
    and "sorted_keys lm lo hi" and "lo \<le> lo'" and "hi' \<le> hi"
  shows "lookup_key lm off r lo hi = lookup_key lm off r lo' hi'"
proof (cases "\<exists>s. lo \<le> s \<and> s \<le> hi \<and> tree_at lm s = Some r")
  case True
  then obtain s where s: "lo \<le> s" "s \<le> hi" "tree_at lm s = Some r" by blast
  then have "lo' \<le> s" "s \<le> hi'" using assms(1) by blast+
  then show ?thesis
    using lookup_key_hit [OF assms(2) s]
      lookup_key_hit [OF sorted_keys_sub [OF assms(2-4)] _ _ s(3)] by simp
next
  case False
  then have "find (\<lambda>t. tree_at lm t = Some r) [lo..hi] = None"
    "find (\<lambda>t. tree_at lm t = Some r) [lo'..hi'] = None"
    using assms(3,4) by (force simp: find_None_iff)+
  then show ?thesis by (simp add: lookup_key_def)
qed

text \<open>
  C32. The binary search of \<open>determineBranch\<close> agrees with a linear search: where the keys
  between the two bounds are strictly increasing and inside the table, it returns the entry that
  stands at the offset behind the key looked for, and -1 exactly when no key is equal to it.
\<close>

theorem search_keys_lookup:
  "sorted_keys lm lo hi \<Longrightarrow> search_keys lm off r lo hi = lookup_key lm off r lo hi"
proof (induction lm off r lo hi rule: search_keys.induct)
  case (1 lm off r lo hi)
  show ?case
  proof (cases "lo \<le> hi")
    case False
    then show ?thesis by (simp add: search_keys.simps [of lm off r lo hi] lookup_key_def)
  next
    case True
    let ?t = "(lo + hi) div 2"
    let ?n = "int (lm ! nat ?t)"
    have t: "lo \<le> ?t" "?t \<le> hi" using True by auto
    have at: "tree_at lm ?t = Some ?n" using tree_at_sorted [OF "1.prems" t] .
    have key: "tree_at lm s = Some (int (lm ! nat s))" if "lo \<le> s" "s \<le> hi" for s
      using tree_at_sorted [OF "1.prems" that] .
    have less: "int (lm ! nat s) < int (lm ! nat u)" if "lo \<le> s" "s < u" "u \<le> hi" for s u
      using sorted_keys_less [OF "1.prems" that] by simp
    consider "?n < r" | "?n > r" | "?n = r" by linarith
    then show ?thesis
    proof cases
      case 1
      have up: "s > ?t" if "lo \<le> s" "s \<le> hi" "tree_at lm s = Some r" for s
        using key [OF that(1,2)] that 1 less [of s ?t] t by (cases "s < ?t"; cases "s = ?t") auto
      have "lookup_key lm off r lo hi = lookup_key lm off r (?t + 1) hi"
        using up t by (intro lookup_key_narrow [OF _ "1.prems"]) force+
      moreover have "sorted_keys lm (?t + 1) hi" using "1.prems" t by (auto intro: sorted_keys_sub)
      ultimately show ?thesis
        using "1.IH"(1) [OF True refl at 1] True at 1
        by (simp add: search_keys.simps [of lm off r lo hi] Let_def)
    next
      case 2
      have down: "s < ?t" if "lo \<le> s" "s \<le> hi" "tree_at lm s = Some r" for s
        using key [OF that(1,2)] that 2 less [of ?t s] t by (cases "?t < s"; cases "s = ?t") auto
      have "lookup_key lm off r lo hi = lookup_key lm off r lo (?t - 1)"
        using down t by (intro lookup_key_narrow [OF _ "1.prems"]) force+
      moreover have "sorted_keys lm lo (?t - 1)" using "1.prems" t by (auto intro: sorted_keys_sub)
      ultimately show ?thesis
        using "1.IH"(2) [OF True refl at _ 2] True at 2
        by (simp add: search_keys.simps [of lm off r lo hi] Let_def)
    next
      case 3
      then show ?thesis
        using lookup_key_hit [OF "1.prems" t, of r off] True at
        by (simp add: search_keys.simps [of lm off r lo hi] Let_def)
    qed
  qed
qed

theorem search_keys_lookup_witness:
  "sorted_keys [5, 97, 99, 120, 10, 20, 30] 1 3 \<and>
   search_keys [5, 97, 99, 120, 10, 20, 30] 3 99 1 3 = lookup_key [5, 97, 99, 120, 10, 20, 30] 3 99 1 3 \<and>
   lookup_key [5, 97, 99, 120, 10, 20, 30] 3 99 1 3 = Some 20"
proof -
  have "sorted_keys [5, 97, 99, 120, 10, 20, 30] 1 3" by code_simp
  moreover have "lookup_key [5, 97, 99, 120, 10, 20, 30] 3 99 1 3 = Some 20" by code_simp
  ultimately show ?thesis using search_keys_lookup [of "[5, 97, 99, 120, 10, 20, 30]" 1 3 3 99] by blast
qed

section \<open>Shape of a lookup\<close>

text \<open>The end of the input matches no key.\<close>

lemma search_keys_eof:
  assumes "0 \<le> lo" and "0 \<le> off" and "search_keys lm off r lo hi = Some a" and "r = EOF"
  shows "a = -1"
  using assms
proof (induction lm off r lo hi rule: search_keys.induct)
  case (1 lm off r lo hi)
  let ?t = "(lo + hi) div 2"
  show ?case
  proof (cases "lo \<le> hi")
    case False
    then show ?thesis using "1.prems"(3) by (simp add: search_keys.simps [of lm off r lo hi])
  next
    case True
    then have t: "0 \<le> ?t" using "1.prems"(1) by simp
    show ?thesis
    proof (cases "tree_at lm ?t")
      case None
      then have "tree_at lm (?t + off) = None" using t "1.prems"(2) by (auto simp: tree_at_def)
      then show ?thesis using None True "1.prems"(3)
        by (simp add: search_keys.simps [of lm off r lo hi] Let_def)
    next
      case (Some n)
      then have "n > r" using "1.prems"(4) by (auto simp: tree_at_def split: if_splits)
      moreover from this have "search_keys lm off r lo (?t - 1) = Some a"
        using Some True "1.prems"(3) by (simp add: search_keys.simps [of lm off r lo hi] Let_def)
      ultimately show ?thesis
        using "1.IH"(2) [OF True refl Some] "1.prems"(1,2,4) by simp
    qed
  qed
qed

lemma determineBranch_eof:
  assumes "0 \<le> n" and "determineBranch lm t n EOF = Some a"
  shows "a = -1"
proof -
  have "0 \<le> BRANCH_LENGTH t" "0 \<le> JUMP_TABLE t"
    by (simp_all add: BRANCH_LENGTH_def JUMP_TABLE_def)
  then show ?thesis
    using assms search_keys_eof [OF assms(1), of "BRANCH_LENGTH t" lm EOF "n + BRANCH_LENGTH t - 1" a]
    by (auto simp: determineBranch_def Let_def split: if_splits)
qed

end
