(* ===== verification/Html_Token_Core.thy ===== *)
theory Html_Token_Core
  imports Html_Preprocessor Html_Decode
begin

text \<open>
  The tokenizer of the HTML parser: class \<open>Ag\<close> of \<^verbatim>\<open>src/api/scalar.standalone.js\<close>, its fields and
  the operations its states share. The handler it reports tokens to (the tree constructor) is an
  argument: a function of the event and of the handler's own state that may switch the tokenizer
  to another content mode and set \<open>inForeignNode\<close>, which is all the tree constructor does to it.
  Source locations are left out: the tokenizer writes them into tokens and never reads them back.

  \<open>stuck\<close> is set where the source throws (a \<open>RangeError\<close> of \<open>String.fromCodePoint\<close>, a \<open>TypeError\<close>
  for a missing token, an unknown state) or would write to a token of another kind. The rest of
  a stuck state has no meaning.
\<close>

section \<open>State\<close>

datatype tokenizer_mode =
  Mode_DATA | Mode_RCDATA | Mode_RAWTEXT | Mode_SCRIPT_DATA | Mode_PLAINTEXT | Mode_CDATA_SECTION

fun mode_state :: "tokenizer_mode \<Rightarrow> tok_state" where
  "mode_state Mode_DATA = DATA"
| "mode_state Mode_RCDATA = RCDATA"
| "mode_state Mode_RAWTEXT = RAWTEXT"
| "mode_state Mode_SCRIPT_DATA = SCRIPT_DATA"
| "mode_state Mode_PLAINTEXT = PLAINTEXT"
| "mode_state Mode_CDATA_SECTION = CDATA_SECTION"

type_synonym 'h handler = "token_event \<Rightarrow> 'h \<Rightarrow> 'h \<times> tokenizer_mode option \<times> bool option"

record 'h tokenizer =
  pp :: preprocessor
  paused :: bool
  inLoop :: bool
  inForeignNode :: bool
  lastStartTagName :: jsstr
  active :: bool
  tstate :: tok_state
  returnState :: tok_state
  charRefCode :: int
  consumedAfterSnapshot :: int
  currentCharacterToken :: "(char_type \<times> jsstr) option"
  currentToken :: "token option"
  currentAttr :: attr
  attrLinked :: bool
  stuck :: bool
  out :: "token_event list"
  hstate :: 'h

text \<open>
  \<open>attrLinked\<close>: \<open>currentAttr\<close> is the object at the end of \<open>currentToken.attrs\<close>, so that a change of
  one is a change of the other. \<open>out\<close> is the history of the calls on the handler, latest first.
\<close>

definition new_tokenizer :: "bool \<Rightarrow> 'h \<Rightarrow> 'h tokenizer" where
  "new_tokenizer rep h =
     \<lparr>pp = new_preprocessor rep, paused = False, inLoop = False, inForeignNode = False,
      lastStartTagName = [], active = False, tstate = DATA, returnState = DATA,
      charRefCode = -1, consumedAfterSnapshot = -1, currentCharacterToken = None,
      currentToken = None, currentAttr = \<lparr>attr_name = [], attr_value = []\<rparr>, attrLinked = False,
      stuck = False, out = [], hstate = h\<rparr>"

definition throw :: "'h tokenizer \<Rightarrow> 'h tokenizer" where
  "throw t = t\<lparr>stuck := True\<rparr>"

definition set_state :: "tok_state \<Rightarrow> 'h tokenizer \<Rightarrow> 'h tokenizer" where
  "set_state s t = t\<lparr>tstate := s\<rparr>"

definition set_return :: "tok_state \<Rightarrow> 'h tokenizer \<Rightarrow> 'h tokenizer" where
  "set_return s t = t\<lparr>returnState := s\<rparr>"

section \<open>Errors, reading and stepping back\<close>

definition tok_err :: "err_code \<Rightarrow> 'h tokenizer \<Rightarrow> 'h tokenizer" where
  "tok_err code t =
     (if report (pp t) then t\<lparr>pp := (pp t)\<lparr>errors := getError code (pp t) # errors (pp t)\<rparr>\<rparr> else t)"

definition consume :: "'h tokenizer \<Rightarrow> cp \<times> 'h tokenizer" where
  "consume t = (case advance (pp t) of
     (c, p) \<Rightarrow> (c, t\<lparr>consumedAfterSnapshot := consumedAfterSnapshot t + 1, pp := p\<rparr>))"

definition unconsume :: "int \<Rightarrow> 'h tokenizer \<Rightarrow> 'h tokenizer" where
  "unconsume n t =
     t\<lparr>consumedAfterSnapshot := consumedAfterSnapshot t - n, pp := retreat n (pp t)\<rparr>"

definition ensureHibernation :: "'h tokenizer \<Rightarrow> bool \<times> 'h tokenizer" where
  "ensureHibernation t =
     (if endOfChunkHit (pp t)
      then (True, (unconsume (consumedAfterSnapshot t) t)\<lparr>active := False\<rparr>)
      else (False, t))"

definition advanceBy :: "nat \<Rightarrow> 'h tokenizer \<Rightarrow> 'h tokenizer" where
  "advanceBy n t =
     t\<lparr>consumedAfterSnapshot := consumedAfterSnapshot t + int n,
       pp := ((\<lambda>p. snd (advance p)) ^^ n) (pp t)\<rparr>"

definition consumeSequenceIfMatch :: "jsstr \<Rightarrow> bool \<Rightarrow> 'h tokenizer \<Rightarrow> bool \<times> 'h tokenizer" where
  "consumeSequenceIfMatch pattern caseSensitive t =
     (case pp_startsWith pattern caseSensitive (pp t) of
        (m, p) \<Rightarrow> if m then (True, advanceBy (length pattern - 1) (t\<lparr>pp := p\<rparr>))
                  else (False, t\<lparr>pp := p\<rparr>))"

section \<open>Creating tokens and attributes\<close>

definition set_token :: "token \<Rightarrow> 'h tokenizer \<Rightarrow> 'h tokenizer" where
  "set_token k t = t\<lparr>currentToken := Some k, attrLinked := False\<rparr>"

definition new_tag :: "tag_type \<Rightarrow> tag_token" where
  "new_tag ty = \<lparr>tag_type = ty, tagName = [], tagID = 0, selfClosing = False,
                 ackSelfClosing = False, attrs = []\<rparr>"

definition createStartTagToken :: "'h tokenizer \<Rightarrow> 'h tokenizer" where
  "createStartTagToken t = set_token (Tag (new_tag START_TAG)) t"

definition createEndTagToken :: "'h tokenizer \<Rightarrow> 'h tokenizer" where
  "createEndTagToken t = set_token (Tag (new_tag END_TAG)) t"

definition createCommentToken :: "'h tokenizer \<Rightarrow> 'h tokenizer" where
  "createCommentToken t = set_token (Comment []) t"

definition createDoctypeToken :: "jsstr option \<Rightarrow> 'h tokenizer \<Rightarrow> 'h tokenizer" where
  "createDoctypeToken name t =
     set_token (Doctype \<lparr>doctype_name = name, forceQuirks = False, publicId = None,
                         systemId = None\<rparr>) t"

definition createCharacterToken :: "char_type \<Rightarrow> jsstr \<Rightarrow> 'h tokenizer \<Rightarrow> 'h tokenizer" where
  "createCharacterToken ty chars t = t\<lparr>currentCharacterToken := Some (ty, chars)\<rparr>"

definition createAttr :: "jsstr \<Rightarrow> 'h tokenizer \<Rightarrow> 'h tokenizer" where
  "createAttr name t =
     t\<lparr>currentAttr := \<lparr>attr_name = name, attr_value = []\<rparr>, attrLinked := False\<rparr>"

definition leaveAttrName :: "'h tokenizer \<Rightarrow> 'h tokenizer" where
  "leaveAttrName t =
     (case currentToken t of
        Some (Tag g) \<Rightarrow>
          if getTokenAttr g (attr_name (currentAttr t)) = None
          then t\<lparr>currentToken := Some (Tag (g\<lparr>attrs := attrs g @ [currentAttr t]\<rparr>)),
                 attrLinked := True\<rparr>
          else tok_err duplicateAttribute t
      | _ \<Rightarrow> throw t)"

section \<open>Appending to the current token and attribute\<close>

definition valid_code_point :: "cp \<Rightarrow> bool" where
  "valid_code_point c \<longleftrightarrow> 0 \<le> c \<and> c \<le> 1114111"

text \<open>\<open>x += String.fromCodePoint(c)\<close>, where \<open>app\<close> is the assignment to \<open>x\<close>.\<close>

definition with_code_point ::
  "cp \<Rightarrow> (jsstr \<Rightarrow> 'h tokenizer \<Rightarrow> 'h tokenizer) \<Rightarrow> 'h tokenizer \<Rightarrow> 'h tokenizer" where
  "with_code_point c app t = (if valid_code_point c then app (fromCodePoint c) t else throw t)"

definition add_tagName :: "jsstr \<Rightarrow> 'h tokenizer \<Rightarrow> 'h tokenizer" where
  "add_tagName s t = (case currentToken t of
     Some (Tag g) \<Rightarrow> t\<lparr>currentToken := Some (Tag (g\<lparr>tagName := tagName g @ s\<rparr>))\<rparr>
   | _ \<Rightarrow> throw t)"

definition add_comment :: "jsstr \<Rightarrow> 'h tokenizer \<Rightarrow> 'h tokenizer" where
  "add_comment s t = (case currentToken t of
     Some (Comment d) \<Rightarrow> t\<lparr>currentToken := Some (Comment (d @ s))\<rparr>
   | _ \<Rightarrow> throw t)"

definition map_doctype :: "(doctype_token \<Rightarrow> doctype_token option) \<Rightarrow> 'h tokenizer \<Rightarrow> 'h tokenizer" where
  "map_doctype f t = (case currentToken t of
     Some (Doctype d) \<Rightarrow>
       (case f d of Some d' \<Rightarrow> t\<lparr>currentToken := Some (Doctype d')\<rparr> | None \<Rightarrow> throw t)
   | _ \<Rightarrow> throw t)"

text \<open>Adding to a name or an identifier that is still \<open>null\<close> would make it start with \<open>null\<close>.\<close>

definition add_doctype_name :: "jsstr \<Rightarrow> 'h tokenizer \<Rightarrow> 'h tokenizer" where
  "add_doctype_name s =
     map_doctype (\<lambda>d. map_option (\<lambda>n. d\<lparr>doctype_name := Some (n @ s)\<rparr>) (doctype_name d))"

definition add_publicId :: "jsstr \<Rightarrow> 'h tokenizer \<Rightarrow> 'h tokenizer" where
  "add_publicId s = map_doctype (\<lambda>d. map_option (\<lambda>n. d\<lparr>publicId := Some (n @ s)\<rparr>) (publicId d))"

definition add_systemId :: "jsstr \<Rightarrow> 'h tokenizer \<Rightarrow> 'h tokenizer" where
  "add_systemId s = map_doctype (\<lambda>d. map_option (\<lambda>n. d\<lparr>systemId := Some (n @ s)\<rparr>) (systemId d))"

definition set_forceQuirks :: "'h tokenizer \<Rightarrow> 'h tokenizer" where
  "set_forceQuirks = map_doctype (\<lambda>d. Some (d\<lparr>forceQuirks := True\<rparr>))"

definition start_publicId :: "'h tokenizer \<Rightarrow> 'h tokenizer" where
  "start_publicId = map_doctype (\<lambda>d. Some (d\<lparr>publicId := Some []\<rparr>))"

definition start_systemId :: "'h tokenizer \<Rightarrow> 'h tokenizer" where
  "start_systemId = map_doctype (\<lambda>d. Some (d\<lparr>systemId := Some []\<rparr>))"

definition set_selfClosing :: "'h tokenizer \<Rightarrow> 'h tokenizer" where
  "set_selfClosing t = (case currentToken t of
     Some (Tag g) \<Rightarrow> t\<lparr>currentToken := Some (Tag (g\<lparr>selfClosing := True\<rparr>))\<rparr>
   | _ \<Rightarrow> throw t)"

text \<open>\<open>this.currentToken.tagName = name\<close>.\<close>

definition set_tagName :: "jsstr \<Rightarrow> 'h tokenizer \<Rightarrow> 'h tokenizer" where
  "set_tagName name t = (case currentToken t of
     Some (Tag g) \<Rightarrow> t\<lparr>currentToken := Some (Tag (g\<lparr>tagName := name\<rparr>))\<rparr>
   | _ \<Rightarrow> throw t)"

text \<open>The attribute object: while it is linked, the last attribute of the token follows it.\<close>

definition set_attr :: "attr \<Rightarrow> 'h tokenizer \<Rightarrow> 'h tokenizer" where
  "set_attr a t =
     (let t1 = t\<lparr>currentAttr := a\<rparr> in
      case currentToken t of
        Some (Tag g) \<Rightarrow>
          if attrLinked t
          then t1\<lparr>currentToken := Some (Tag (g\<lparr>attrs := butlast (attrs g) @ [a]\<rparr>))\<rparr> else t1
      | _ \<Rightarrow> t1)"

definition add_attr_name :: "jsstr \<Rightarrow> 'h tokenizer \<Rightarrow> 'h tokenizer" where
  "add_attr_name s t =
     set_attr ((currentAttr t)\<lparr>attr_name := attr_name (currentAttr t) @ s\<rparr>) t"

definition add_attr_value :: "jsstr \<Rightarrow> 'h tokenizer \<Rightarrow> 'h tokenizer" where
  "add_attr_value s t =
     set_attr ((currentAttr t)\<lparr>attr_value := attr_value (currentAttr t) @ s\<rparr>) t"

section \<open>Emitting tokens\<close>

definition notify :: "'h handler \<Rightarrow> token_event \<Rightarrow> 'h tokenizer \<Rightarrow> 'h tokenizer" where
  "notify on ev t =
     (case on ev (hstate t) of (h, mode, foreign) \<Rightarrow>
        t\<lparr>hstate := h, out := ev # out t,
          tstate := (case mode of Some m \<Rightarrow> mode_state m | None \<Rightarrow> tstate t),
          inForeignNode := (case foreign of Some b \<Rightarrow> b | None \<Rightarrow> inForeignNode t)\<rparr>)"

fun char_event :: "char_type \<times> jsstr \<Rightarrow> token_event" where
  "char_event (CHARACTER, s) = OnCharacter s"
| "char_event (NULL_CHARACTER, s) = OnNullCharacter s"
| "char_event (WHITESPACE_CHARACTER, s) = OnWhitespaceCharacter s"

definition emitCurrentCharacterToken :: "'h handler \<Rightarrow> 'h tokenizer \<Rightarrow> 'h tokenizer" where
  "emitCurrentCharacterToken on t = (case currentCharacterToken t of
     Some k \<Rightarrow> (notify on (char_event k) t)\<lparr>currentCharacterToken := None\<rparr>
   | None \<Rightarrow> t)"

definition drop_chunk :: "'h tokenizer \<Rightarrow> 'h tokenizer" where
  "drop_chunk t = t\<lparr>pp := dropParsedChunk (pp t)\<rparr>"

definition prepareToken :: "'h handler \<Rightarrow> 'h tokenizer \<Rightarrow> 'h tokenizer" where
  "prepareToken on t =
     (emitCurrentCharacterToken on t)\<lparr>currentToken := None, attrLinked := False\<rparr>"

definition emitCurrentTagToken :: "'h handler \<Rightarrow> 'h tokenizer \<Rightarrow> 'h tokenizer" where
  "emitCurrentTagToken on t = (case currentToken t of
     Some (Tag g0) \<Rightarrow>
       (let t1 = prepareToken on t;
            g = g0\<lparr>tagID := getTagID (tagName g0)\<rparr>
        in drop_chunk
             (if tag_type g = START_TAG
              then notify on (OnStartTag g) (t1\<lparr>lastStartTagName := tagName g\<rparr>)
              else let t2 = (if attrs g \<noteq> [] then tok_err endTagWithAttributes t1 else t1);
                       t3 = (if selfClosing g then tok_err endTagWithTrailingSolidus t2 else t2)
                   in notify on (OnEndTag g) t3))
   | _ \<Rightarrow> throw t)"

definition emitCurrentComment :: "'h handler \<Rightarrow> 'h tokenizer \<Rightarrow> 'h tokenizer" where
  "emitCurrentComment on t = (case currentToken t of
     Some (Comment d) \<Rightarrow> drop_chunk (notify on (OnComment d) (prepareToken on t))
   | _ \<Rightarrow> throw t)"

definition emitCurrentDoctype :: "'h handler \<Rightarrow> 'h tokenizer \<Rightarrow> 'h tokenizer" where
  "emitCurrentDoctype on t = (case currentToken t of
     Some (Doctype d) \<Rightarrow> drop_chunk (notify on (OnDoctype d) (prepareToken on t))
   | _ \<Rightarrow> throw t)"

definition emitEOFToken :: "'h handler \<Rightarrow> 'h tokenizer \<Rightarrow> 'h tokenizer" where
  "emitEOFToken on t = (notify on OnEof (emitCurrentCharacterToken on t))\<lparr>active := False\<rparr>"

definition appendCharToCurrentCharacterToken ::
  "'h handler \<Rightarrow> char_type \<Rightarrow> jsstr \<Rightarrow> 'h tokenizer \<Rightarrow> 'h tokenizer" where
  "appendCharToCurrentCharacterToken on ty s t = (case currentCharacterToken t of
     Some (ty', chars) \<Rightarrow>
       if ty' = ty then t\<lparr>currentCharacterToken := Some (ty', chars @ s)\<rparr>
       else createCharacterToken ty s (drop_chunk (emitCurrentCharacterToken on t))
   | None \<Rightarrow> createCharacterToken ty s t)"

definition char_type_of :: "cp \<Rightarrow> char_type" where
  "char_type_of c = (if is_whitespace c then WHITESPACE_CHARACTER
                     else if c = NULL then NULL_CHARACTER else CHARACTER)"

definition emitCodePoint :: "'h handler \<Rightarrow> cp \<Rightarrow> 'h tokenizer \<Rightarrow> 'h tokenizer" where
  "emitCodePoint on c = with_code_point c (appendCharToCurrentCharacterToken on (char_type_of c))"

definition emitChars :: "'h handler \<Rightarrow> jsstr \<Rightarrow> 'h tokenizer \<Rightarrow> 'h tokenizer" where
  "emitChars on s = appendCharToCurrentCharacterToken on CHARACTER s"

end
