(* ===== verification/Html_States.thy ===== *)
theory Html_States
  imports Html_Token_Core
begin

text \<open>
  The states of the tokenizer, one function per \<open>_state...\<close> method of class \<open>Ag\<close> in
  \<^verbatim>\<open>src/api/scalar.standalone.js\<close>, in the order a state calls another one. \<open>on\<close> is the handler and
  \<open>lm\<close> the decode tree of the named character references.
\<close>

abbreviation (input) REPLACEMENT :: jsstr where "REPLACEMENT \<equiv> [65533]"

section \<open>Text states\<close>

definition stateData :: "'h handler \<Rightarrow> cp \<Rightarrow> 'h tokenizer \<Rightarrow> 'h tokenizer" where
  "stateData on e t =
     (if e = LESS_THAN_SIGN then set_state TAG_OPEN t
      else if e = AMPERSAND then set_state CHARACTER_REFERENCE (set_return DATA t)
      else if e = NULL then emitCodePoint on e (tok_err unexpectedNullCharacter t)
      else if e = EOF then emitEOFToken on t
      else emitCodePoint on e t)"

definition stateRcdata :: "'h handler \<Rightarrow> cp \<Rightarrow> 'h tokenizer \<Rightarrow> 'h tokenizer" where
  "stateRcdata on e t =
     (if e = AMPERSAND then set_state CHARACTER_REFERENCE (set_return RCDATA t)
      else if e = LESS_THAN_SIGN then set_state RCDATA_LESS_THAN_SIGN t
      else if e = NULL then emitChars on REPLACEMENT (tok_err unexpectedNullCharacter t)
      else if e = EOF then emitEOFToken on t
      else emitCodePoint on e t)"

definition stateRawtext :: "'h handler \<Rightarrow> cp \<Rightarrow> 'h tokenizer \<Rightarrow> 'h tokenizer" where
  "stateRawtext on e t =
     (if e = LESS_THAN_SIGN then set_state RAWTEXT_LESS_THAN_SIGN t
      else if e = NULL then emitChars on REPLACEMENT (tok_err unexpectedNullCharacter t)
      else if e = EOF then emitEOFToken on t
      else emitCodePoint on e t)"

definition stateScriptData :: "'h handler \<Rightarrow> cp \<Rightarrow> 'h tokenizer \<Rightarrow> 'h tokenizer" where
  "stateScriptData on e t =
     (if e = LESS_THAN_SIGN then set_state SCRIPT_DATA_LESS_THAN_SIGN t
      else if e = NULL then emitChars on REPLACEMENT (tok_err unexpectedNullCharacter t)
      else if e = EOF then emitEOFToken on t
      else emitCodePoint on e t)"

definition statePlaintext :: "'h handler \<Rightarrow> cp \<Rightarrow> 'h tokenizer \<Rightarrow> 'h tokenizer" where
  "statePlaintext on e t =
     (if e = NULL then emitChars on REPLACEMENT (tok_err unexpectedNullCharacter t)
      else if e = EOF then emitEOFToken on t
      else emitCodePoint on e t)"

section \<open>Comments\<close>

definition stateBogusComment :: "'h handler \<Rightarrow> cp \<Rightarrow> 'h tokenizer \<Rightarrow> 'h tokenizer" where
  "stateBogusComment on e t =
     (if e = GREATER_THAN_SIGN then emitCurrentComment on (set_state DATA t)
      else if e = EOF then emitEOFToken on (emitCurrentComment on t)
      else if e = NULL then add_comment REPLACEMENT (tok_err unexpectedNullCharacter t)
      else with_code_point e add_comment t)"

definition stateComment :: "'h handler \<Rightarrow> cp \<Rightarrow> 'h tokenizer \<Rightarrow> 'h tokenizer" where
  "stateComment on e t =
     (if e = HYPHEN_MINUS then set_state COMMENT_END_DASH t
      else if e = LESS_THAN_SIGN then set_state COMMENT_LESS_THAN_SIGN (add_comment (js ''<'') t)
      else if e = NULL then add_comment REPLACEMENT (tok_err unexpectedNullCharacter t)
      else if e = EOF then emitEOFToken on (emitCurrentComment on (tok_err eofInComment t))
      else with_code_point e add_comment t)"

definition stateCommentStartDash :: "'h handler \<Rightarrow> cp \<Rightarrow> 'h tokenizer \<Rightarrow> 'h tokenizer" where
  "stateCommentStartDash on e t =
     (if e = HYPHEN_MINUS then set_state COMMENT_END t
      else if e = GREATER_THAN_SIGN
      then emitCurrentComment on (set_state DATA (tok_err abruptClosingOfEmptyComment t))
      else if e = EOF then emitEOFToken on (emitCurrentComment on (tok_err eofInComment t))
      else stateComment on e (set_state COMMENT (add_comment (js ''-'') t)))"

definition stateCommentStart :: "'h handler \<Rightarrow> cp \<Rightarrow> 'h tokenizer \<Rightarrow> 'h tokenizer" where
  "stateCommentStart on e t =
     (if e = HYPHEN_MINUS then set_state COMMENT_START_DASH t
      else if e = GREATER_THAN_SIGN
      then emitCurrentComment on (set_state DATA (tok_err abruptClosingOfEmptyComment t))
      else stateComment on e (set_state COMMENT t))"

definition stateCommentLessThanSign :: "'h handler \<Rightarrow> cp \<Rightarrow> 'h tokenizer \<Rightarrow> 'h tokenizer" where
  "stateCommentLessThanSign on e t =
     (if e = EXCLAMATION_MARK
      then set_state COMMENT_LESS_THAN_SIGN_BANG (add_comment (js ''!'') t)
      else if e = LESS_THAN_SIGN then add_comment (js ''<'') t
      else stateComment on e (set_state COMMENT t))"

definition stateCommentLessThanSignBang :: "'h handler \<Rightarrow> cp \<Rightarrow> 'h tokenizer \<Rightarrow> 'h tokenizer" where
  "stateCommentLessThanSignBang on e t =
     (if e = HYPHEN_MINUS then set_state COMMENT_LESS_THAN_SIGN_BANG_DASH t
      else stateComment on e (set_state COMMENT t))"

definition stateCommentEndDash :: "'h handler \<Rightarrow> cp \<Rightarrow> 'h tokenizer \<Rightarrow> 'h tokenizer" where
  "stateCommentEndDash on e t =
     (if e = HYPHEN_MINUS then set_state COMMENT_END t
      else if e = EOF then emitEOFToken on (emitCurrentComment on (tok_err eofInComment t))
      else stateComment on e (set_state COMMENT (add_comment (js ''-'') t)))"

definition stateCommentLessThanSignBangDash :: "'h handler \<Rightarrow> cp \<Rightarrow> 'h tokenizer \<Rightarrow> 'h tokenizer" where
  "stateCommentLessThanSignBangDash on e t =
     (if e = HYPHEN_MINUS then set_state COMMENT_LESS_THAN_SIGN_BANG_DASH_DASH t
      else stateCommentEndDash on e (set_state COMMENT_END_DASH t))"

definition stateCommentEnd :: "'h handler \<Rightarrow> cp \<Rightarrow> 'h tokenizer \<Rightarrow> 'h tokenizer" where
  "stateCommentEnd on e t =
     (if e = GREATER_THAN_SIGN then emitCurrentComment on (set_state DATA t)
      else if e = EXCLAMATION_MARK then set_state COMMENT_END_BANG t
      else if e = HYPHEN_MINUS then add_comment (js ''-'') t
      else if e = EOF then emitEOFToken on (emitCurrentComment on (tok_err eofInComment t))
      else stateComment on e (set_state COMMENT (add_comment (js ''--'') t)))"

definition stateCommentLessThanSignBangDashDash ::
  "'h handler \<Rightarrow> cp \<Rightarrow> 'h tokenizer \<Rightarrow> 'h tokenizer" where
  "stateCommentLessThanSignBangDashDash on e t =
     stateCommentEnd on e (set_state COMMENT_END
       (if e \<noteq> GREATER_THAN_SIGN \<and> e \<noteq> EOF then tok_err nestedComment t else t))"

definition stateCommentEndBang :: "'h handler \<Rightarrow> cp \<Rightarrow> 'h tokenizer \<Rightarrow> 'h tokenizer" where
  "stateCommentEndBang on e t =
     (if e = HYPHEN_MINUS then set_state COMMENT_END_DASH (add_comment (js ''--!'') t)
      else if e = GREATER_THAN_SIGN
      then emitCurrentComment on (set_state DATA (tok_err incorrectlyClosedComment t))
      else if e = EOF then emitEOFToken on (emitCurrentComment on (tok_err eofInComment t))
      else stateComment on e (set_state COMMENT (add_comment (js ''--!'') t)))"

section \<open>Attributes\<close>

text \<open>
  The cases of \<open>_stateAttributeName\<close> that do not leave the name; \<open>_stateAfterAttributeName\<close> reaches
  only these when it calls \<open>_stateAttributeName\<close>.
\<close>

definition attributeNameChar :: "cp \<Rightarrow> 'h tokenizer \<Rightarrow> 'h tokenizer" where
  "attributeNameChar e t =
     (if e = QUOTATION_MARK \<or> e = APOSTROPHE \<or> e = LESS_THAN_SIGN
      then with_code_point e add_attr_name (tok_err unexpectedCharacterInAttributeName t)
      else if e = NULL then add_attr_name REPLACEMENT (tok_err unexpectedNullCharacter t)
      else with_code_point (if is_ascii_upper e then to_ascii_lower e else e) add_attr_name t)"

definition stateAfterAttributeName :: "'h handler \<Rightarrow> cp \<Rightarrow> 'h tokenizer \<Rightarrow> 'h tokenizer" where
  "stateAfterAttributeName on e t =
     (if is_whitespace e then t
      else if e = SOLIDUS then set_state SELF_CLOSING_START_TAG t
      else if e = EQUALS_SIGN then set_state BEFORE_ATTRIBUTE_VALUE t
      else if e = GREATER_THAN_SIGN then emitCurrentTagToken on (set_state DATA t)
      else if e = EOF then emitEOFToken on (tok_err eofInTag t)
      else attributeNameChar e (set_state ATTRIBUTE_NAME (createAttr [] t)))"

definition stateAttributeName :: "'h handler \<Rightarrow> cp \<Rightarrow> 'h tokenizer \<Rightarrow> 'h tokenizer" where
  "stateAttributeName on e t =
     (if is_whitespace e \<or> e = SOLIDUS \<or> e = GREATER_THAN_SIGN \<or> e = EOF
      then stateAfterAttributeName on e (set_state AFTER_ATTRIBUTE_NAME (leaveAttrName t))
      else if e = EQUALS_SIGN then set_state BEFORE_ATTRIBUTE_VALUE (leaveAttrName t)
      else attributeNameChar e t)"

lemma stateAfterAttributeName_calls:
  assumes "\<not> is_whitespace e" "e \<noteq> SOLIDUS" "e \<noteq> EQUALS_SIGN" "e \<noteq> GREATER_THAN_SIGN" "e \<noteq> EOF"
  shows "stateAfterAttributeName on e t =
           stateAttributeName on e (set_state ATTRIBUTE_NAME (createAttr [] t))"
  using assms by (simp add: stateAfterAttributeName_def stateAttributeName_def)

definition stateBeforeAttributeName :: "'h handler \<Rightarrow> cp \<Rightarrow> 'h tokenizer \<Rightarrow> 'h tokenizer" where
  "stateBeforeAttributeName on e t =
     (if is_whitespace e then t
      else if e = SOLIDUS \<or> e = GREATER_THAN_SIGN \<or> e = EOF
      then stateAfterAttributeName on e (set_state AFTER_ATTRIBUTE_NAME t)
      else if e = EQUALS_SIGN
      then set_state ATTRIBUTE_NAME
             (createAttr (js ''='') (tok_err unexpectedEqualsSignBeforeAttributeName t))
      else stateAttributeName on e (set_state ATTRIBUTE_NAME (createAttr [] t)))"

definition stateAttributeValueDoubleQuoted :: "'h handler \<Rightarrow> cp \<Rightarrow> 'h tokenizer \<Rightarrow> 'h tokenizer" where
  "stateAttributeValueDoubleQuoted on e t =
     (if e = QUOTATION_MARK then set_state AFTER_ATTRIBUTE_VALUE_QUOTED t
      else if e = AMPERSAND
      then set_state CHARACTER_REFERENCE (set_return ATTRIBUTE_VALUE_DOUBLE_QUOTED t)
      else if e = NULL then add_attr_value REPLACEMENT (tok_err unexpectedNullCharacter t)
      else if e = EOF then emitEOFToken on (tok_err eofInTag t)
      else with_code_point e add_attr_value t)"

definition stateAttributeValueSingleQuoted :: "'h handler \<Rightarrow> cp \<Rightarrow> 'h tokenizer \<Rightarrow> 'h tokenizer" where
  "stateAttributeValueSingleQuoted on e t =
     (if e = APOSTROPHE then set_state AFTER_ATTRIBUTE_VALUE_QUOTED t
      else if e = AMPERSAND
      then set_state CHARACTER_REFERENCE (set_return ATTRIBUTE_VALUE_SINGLE_QUOTED t)
      else if e = NULL then add_attr_value REPLACEMENT (tok_err unexpectedNullCharacter t)
      else if e = EOF then emitEOFToken on (tok_err eofInTag t)
      else with_code_point e add_attr_value t)"

definition stateAttributeValueUnquoted :: "'h handler \<Rightarrow> cp \<Rightarrow> 'h tokenizer \<Rightarrow> 'h tokenizer" where
  "stateAttributeValueUnquoted on e t =
     (if is_whitespace e then set_state BEFORE_ATTRIBUTE_NAME t
      else if e = AMPERSAND
      then set_state CHARACTER_REFERENCE (set_return ATTRIBUTE_VALUE_UNQUOTED t)
      else if e = GREATER_THAN_SIGN then emitCurrentTagToken on (set_state DATA t)
      else if e = NULL then add_attr_value REPLACEMENT (tok_err unexpectedNullCharacter t)
      else if e = QUOTATION_MARK \<or> e = APOSTROPHE \<or> e = LESS_THAN_SIGN \<or> e = EQUALS_SIGN \<or>
              e = GRAVE_ACCENT
      then with_code_point e add_attr_value (tok_err unexpectedCharacterInUnquotedAttributeValue t)
      else if e = EOF then emitEOFToken on (tok_err eofInTag t)
      else with_code_point e add_attr_value t)"

definition stateBeforeAttributeValue :: "'h handler \<Rightarrow> cp \<Rightarrow> 'h tokenizer \<Rightarrow> 'h tokenizer" where
  "stateBeforeAttributeValue on e t =
     (if is_whitespace e then t
      else if e = QUOTATION_MARK then set_state ATTRIBUTE_VALUE_DOUBLE_QUOTED t
      else if e = APOSTROPHE then set_state ATTRIBUTE_VALUE_SINGLE_QUOTED t
      else if e = GREATER_THAN_SIGN
      then emitCurrentTagToken on (set_state DATA (tok_err missingAttributeValue t))
      else stateAttributeValueUnquoted on e (set_state ATTRIBUTE_VALUE_UNQUOTED t))"

definition stateAfterAttributeValueQuoted :: "'h handler \<Rightarrow> cp \<Rightarrow> 'h tokenizer \<Rightarrow> 'h tokenizer" where
  "stateAfterAttributeValueQuoted on e t =
     (if is_whitespace e then set_state BEFORE_ATTRIBUTE_NAME t
      else if e = SOLIDUS then set_state SELF_CLOSING_START_TAG t
      else if e = GREATER_THAN_SIGN then emitCurrentTagToken on (set_state DATA t)
      else if e = EOF then emitEOFToken on (tok_err eofInTag t)
      else stateBeforeAttributeName on e
             (set_state BEFORE_ATTRIBUTE_NAME (tok_err missingWhitespaceBetweenAttributes t)))"

definition stateSelfClosingStartTag :: "'h handler \<Rightarrow> cp \<Rightarrow> 'h tokenizer \<Rightarrow> 'h tokenizer" where
  "stateSelfClosingStartTag on e t =
     (if e = GREATER_THAN_SIGN then emitCurrentTagToken on (set_state DATA (set_selfClosing t))
      else if e = EOF then emitEOFToken on (tok_err eofInTag t)
      else stateBeforeAttributeName on e
             (set_state BEFORE_ATTRIBUTE_NAME (tok_err unexpectedSolidusInTag t)))"

section \<open>Tags\<close>

definition stateTagName :: "'h handler \<Rightarrow> cp \<Rightarrow> 'h tokenizer \<Rightarrow> 'h tokenizer" where
  "stateTagName on e t =
     (if is_whitespace e then set_state BEFORE_ATTRIBUTE_NAME t
      else if e = SOLIDUS then set_state SELF_CLOSING_START_TAG t
      else if e = GREATER_THAN_SIGN then emitCurrentTagToken on (set_state DATA t)
      else if e = NULL then add_tagName REPLACEMENT (tok_err unexpectedNullCharacter t)
      else if e = EOF then emitEOFToken on (tok_err eofInTag t)
      else with_code_point (if is_ascii_upper e then to_ascii_lower e else e) add_tagName t)"

definition stateTagOpen :: "'h handler \<Rightarrow> cp \<Rightarrow> 'h tokenizer \<Rightarrow> 'h tokenizer" where
  "stateTagOpen on e t =
     (if is_ascii_letter e then stateTagName on e (set_state TAG_NAME (createStartTagToken t))
      else if e = EXCLAMATION_MARK then set_state MARKUP_DECLARATION_OPEN t
      else if e = SOLIDUS then set_state END_TAG_OPEN t
      else if e = QUESTION_MARK
      then stateBogusComment on e (set_state BOGUS_COMMENT
             (createCommentToken (tok_err unexpectedQuestionMarkInsteadOfTagName t)))
      else if e = EOF then emitEOFToken on (emitChars on (js ''<'') (tok_err eofBeforeTagName t))
      else stateData on e (set_state DATA
             (emitChars on (js ''<'') (tok_err invalidFirstCharacterOfTagName t))))"

definition stateEndTagOpen :: "'h handler \<Rightarrow> cp \<Rightarrow> 'h tokenizer \<Rightarrow> 'h tokenizer" where
  "stateEndTagOpen on e t =
     (if is_ascii_letter e then stateTagName on e (set_state TAG_NAME (createEndTagToken t))
      else if e = GREATER_THAN_SIGN then set_state DATA (tok_err missingEndTagName t)
      else if e = EOF then emitEOFToken on (emitChars on (js ''</'') (tok_err eofBeforeTagName t))
      else stateBogusComment on e (set_state BOGUS_COMMENT
             (createCommentToken (tok_err invalidFirstCharacterOfTagName t))))"

section \<open>Text that ends at its own end tag\<close>

text \<open>The value says whether the characters are text after all.\<close>

definition handleSpecialEndTag :: "'h handler \<Rightarrow> 'h tokenizer \<Rightarrow> bool \<times> 'h tokenizer" where
  "handleSpecialEndTag on t =
     (let name = lastStartTagName t; k = length name;
          (m, p) = pp_startsWith name False (pp t); t0 = t\<lparr>pp := p\<rparr>
      in if \<not> m then (case ensureHibernation t0 of (h, t') \<Rightarrow> (\<not> h, t'))
         else
           let t1 = set_tagName name (createEndTagToken t0);
               (c, p2) = peek k (pp t1); t2 = t1\<lparr>pp := p2\<rparr>
           in if is_whitespace c then (False, set_state BEFORE_ATTRIBUTE_NAME (advanceBy k t2))
              else if c = SOLIDUS then (False, set_state SELF_CLOSING_START_TAG (advanceBy k t2))
              else if c = GREATER_THAN_SIGN
              then (False, set_state DATA (emitCurrentTagToken on (advanceBy k t2)))
              else (case ensureHibernation t2 of (h, t') \<Rightarrow> (\<not> h, t')))"

definition stateRcdataEndTagName :: "'h handler \<Rightarrow> cp \<Rightarrow> 'h tokenizer \<Rightarrow> 'h tokenizer" where
  "stateRcdataEndTagName on e t =
     (case handleSpecialEndTag on t of (text, t1) \<Rightarrow>
        if text then stateRcdata on e (set_state RCDATA (emitChars on (js ''</'') t1)) else t1)"

definition stateRcdataEndTagOpen :: "'h handler \<Rightarrow> cp \<Rightarrow> 'h tokenizer \<Rightarrow> 'h tokenizer" where
  "stateRcdataEndTagOpen on e t =
     (if is_ascii_letter e then stateRcdataEndTagName on e (set_state RCDATA_END_TAG_NAME t)
      else stateRcdata on e (set_state RCDATA (emitChars on (js ''</'') t)))"

definition stateRcdataLessThanSign :: "'h handler \<Rightarrow> cp \<Rightarrow> 'h tokenizer \<Rightarrow> 'h tokenizer" where
  "stateRcdataLessThanSign on e t =
     (if e = SOLIDUS then set_state RCDATA_END_TAG_OPEN t
      else stateRcdata on e (set_state RCDATA (emitChars on (js ''<'') t)))"

definition stateRawtextEndTagName :: "'h handler \<Rightarrow> cp \<Rightarrow> 'h tokenizer \<Rightarrow> 'h tokenizer" where
  "stateRawtextEndTagName on e t =
     (case handleSpecialEndTag on t of (text, t1) \<Rightarrow>
        if text then stateRawtext on e (set_state RAWTEXT (emitChars on (js ''</'') t1)) else t1)"

definition stateRawtextEndTagOpen :: "'h handler \<Rightarrow> cp \<Rightarrow> 'h tokenizer \<Rightarrow> 'h tokenizer" where
  "stateRawtextEndTagOpen on e t =
     (if is_ascii_letter e then stateRawtextEndTagName on e (set_state RAWTEXT_END_TAG_NAME t)
      else stateRawtext on e (set_state RAWTEXT (emitChars on (js ''</'') t)))"

definition stateRawtextLessThanSign :: "'h handler \<Rightarrow> cp \<Rightarrow> 'h tokenizer \<Rightarrow> 'h tokenizer" where
  "stateRawtextLessThanSign on e t =
     (if e = SOLIDUS then set_state RAWTEXT_END_TAG_OPEN t
      else stateRawtext on e (set_state RAWTEXT (emitChars on (js ''<'') t)))"

section \<open>Scripts\<close>

definition stateScriptDataEndTagName :: "'h handler \<Rightarrow> cp \<Rightarrow> 'h tokenizer \<Rightarrow> 'h tokenizer" where
  "stateScriptDataEndTagName on e t =
     (case handleSpecialEndTag on t of (text, t1) \<Rightarrow>
        if text then stateScriptData on e (set_state SCRIPT_DATA (emitChars on (js ''</'') t1))
        else t1)"

definition stateScriptDataEndTagOpen :: "'h handler \<Rightarrow> cp \<Rightarrow> 'h tokenizer \<Rightarrow> 'h tokenizer" where
  "stateScriptDataEndTagOpen on e t =
     (if is_ascii_letter e
      then stateScriptDataEndTagName on e (set_state SCRIPT_DATA_END_TAG_NAME t)
      else stateScriptData on e (set_state SCRIPT_DATA (emitChars on (js ''</'') t)))"

definition stateScriptDataLessThanSign :: "'h handler \<Rightarrow> cp \<Rightarrow> 'h tokenizer \<Rightarrow> 'h tokenizer" where
  "stateScriptDataLessThanSign on e t =
     (if e = SOLIDUS then set_state SCRIPT_DATA_END_TAG_OPEN t
      else if e = EXCLAMATION_MARK
      then emitChars on (js ''<!'') (set_state SCRIPT_DATA_ESCAPE_START t)
      else stateScriptData on e (set_state SCRIPT_DATA (emitChars on (js ''<'') t)))"

definition stateScriptDataEscapeStart :: "'h handler \<Rightarrow> cp \<Rightarrow> 'h tokenizer \<Rightarrow> 'h tokenizer" where
  "stateScriptDataEscapeStart on e t =
     (if e = HYPHEN_MINUS
      then emitChars on (js ''-'') (set_state SCRIPT_DATA_ESCAPE_START_DASH t)
      else stateScriptData on e (set_state SCRIPT_DATA t))"

definition stateScriptDataEscapeStartDash :: "'h handler \<Rightarrow> cp \<Rightarrow> 'h tokenizer \<Rightarrow> 'h tokenizer" where
  "stateScriptDataEscapeStartDash on e t =
     (if e = HYPHEN_MINUS
      then emitChars on (js ''-'') (set_state SCRIPT_DATA_ESCAPED_DASH_DASH t)
      else stateScriptData on e (set_state SCRIPT_DATA t))"

definition stateScriptDataEscaped :: "'h handler \<Rightarrow> cp \<Rightarrow> 'h tokenizer \<Rightarrow> 'h tokenizer" where
  "stateScriptDataEscaped on e t =
     (if e = HYPHEN_MINUS then emitChars on (js ''-'') (set_state SCRIPT_DATA_ESCAPED_DASH t)
      else if e = LESS_THAN_SIGN then set_state SCRIPT_DATA_ESCAPED_LESS_THAN_SIGN t
      else if e = NULL then emitChars on REPLACEMENT (tok_err unexpectedNullCharacter t)
      else if e = EOF then emitEOFToken on (tok_err eofInScriptHtmlCommentLikeText t)
      else emitCodePoint on e t)"

definition stateScriptDataEscapedDash :: "'h handler \<Rightarrow> cp \<Rightarrow> 'h tokenizer \<Rightarrow> 'h tokenizer" where
  "stateScriptDataEscapedDash on e t =
     (if e = HYPHEN_MINUS then emitChars on (js ''-'') (set_state SCRIPT_DATA_ESCAPED_DASH_DASH t)
      else if e = LESS_THAN_SIGN then set_state SCRIPT_DATA_ESCAPED_LESS_THAN_SIGN t
      else if e = NULL
      then emitChars on REPLACEMENT
             (set_state SCRIPT_DATA_ESCAPED (tok_err unexpectedNullCharacter t))
      else if e = EOF then emitEOFToken on (tok_err eofInScriptHtmlCommentLikeText t)
      else emitCodePoint on e (set_state SCRIPT_DATA_ESCAPED t))"

definition stateScriptDataEscapedDashDash :: "'h handler \<Rightarrow> cp \<Rightarrow> 'h tokenizer \<Rightarrow> 'h tokenizer" where
  "stateScriptDataEscapedDashDash on e t =
     (if e = HYPHEN_MINUS then emitChars on (js ''-'') t
      else if e = LESS_THAN_SIGN then set_state SCRIPT_DATA_ESCAPED_LESS_THAN_SIGN t
      else if e = GREATER_THAN_SIGN then emitChars on (js ''>'') (set_state SCRIPT_DATA t)
      else if e = NULL
      then emitChars on REPLACEMENT
             (set_state SCRIPT_DATA_ESCAPED (tok_err unexpectedNullCharacter t))
      else if e = EOF then emitEOFToken on (tok_err eofInScriptHtmlCommentLikeText t)
      else emitCodePoint on e (set_state SCRIPT_DATA_ESCAPED t))"

definition stateScriptDataEscapedEndTagName :: "'h handler \<Rightarrow> cp \<Rightarrow> 'h tokenizer \<Rightarrow> 'h tokenizer" where
  "stateScriptDataEscapedEndTagName on e t =
     (case handleSpecialEndTag on t of (text, t1) \<Rightarrow>
        if text
        then stateScriptDataEscaped on e
               (set_state SCRIPT_DATA_ESCAPED (emitChars on (js ''</'') t1))
        else t1)"

definition stateScriptDataEscapedEndTagOpen :: "'h handler \<Rightarrow> cp \<Rightarrow> 'h tokenizer \<Rightarrow> 'h tokenizer" where
  "stateScriptDataEscapedEndTagOpen on e t =
     (if is_ascii_letter e
      then stateScriptDataEscapedEndTagName on e (set_state SCRIPT_DATA_ESCAPED_END_TAG_NAME t)
      else stateScriptDataEscaped on e
             (set_state SCRIPT_DATA_ESCAPED (emitChars on (js ''</'') t)))"

text \<open>
  The guard shared by the two double escape states: \<open>script\<close> and a delimiter follow. \<open>&&\<close> peeks
  only when the word matches.
\<close>

definition script_word_ahead :: "'h tokenizer \<Rightarrow> bool \<times> 'h tokenizer" where
  "script_word_ahead t =
     (case pp_startsWith (js ''script'') False (pp t) of (m, p) \<Rightarrow>
        if m then case peek 6 p of
          (c, p2) \<Rightarrow> (is_script_data_double_escape_end c, t\<lparr>pp := p2\<rparr>)
        else (False, t\<lparr>pp := p\<rparr>))"

text \<open>\<open>this._emitCodePoint(this._consume())\<close>, \<open>n\<close> times.\<close>

fun emit_next :: "'h handler \<Rightarrow> nat \<Rightarrow> 'h tokenizer \<Rightarrow> 'h tokenizer" where
  "emit_next on 0 t = t"
| "emit_next on (Suc n) t =
     (case consume t of (c, t1) \<Rightarrow> emit_next on n (emitCodePoint on c t1))"

definition stateScriptDataDoubleEscapeStart :: "'h handler \<Rightarrow> cp \<Rightarrow> 'h tokenizer \<Rightarrow> 'h tokenizer" where
  "stateScriptDataDoubleEscapeStart on e t =
     (case script_word_ahead t of (m, t1) \<Rightarrow>
        if m then set_state SCRIPT_DATA_DOUBLE_ESCAPED (emit_next on 6 (emitCodePoint on e t1))
        else case ensureHibernation t1 of (h, t2) \<Rightarrow>
          if h then t2 else stateScriptDataEscaped on e (set_state SCRIPT_DATA_ESCAPED t2))"

definition stateScriptDataEscapedLessThanSign :: "'h handler \<Rightarrow> cp \<Rightarrow> 'h tokenizer \<Rightarrow> 'h tokenizer" where
  "stateScriptDataEscapedLessThanSign on e t =
     (if e = SOLIDUS then set_state SCRIPT_DATA_ESCAPED_END_TAG_OPEN t
      else if is_ascii_letter e
      then stateScriptDataDoubleEscapeStart on e
             (set_state SCRIPT_DATA_DOUBLE_ESCAPE_START (emitChars on (js ''<'') t))
      else stateScriptDataEscaped on e
             (set_state SCRIPT_DATA_ESCAPED (emitChars on (js ''<'') t)))"

definition stateScriptDataDoubleEscaped :: "'h handler \<Rightarrow> cp \<Rightarrow> 'h tokenizer \<Rightarrow> 'h tokenizer" where
  "stateScriptDataDoubleEscaped on e t =
     (if e = HYPHEN_MINUS
      then emitChars on (js ''-'') (set_state SCRIPT_DATA_DOUBLE_ESCAPED_DASH t)
      else if e = LESS_THAN_SIGN
      then emitChars on (js ''<'') (set_state SCRIPT_DATA_DOUBLE_ESCAPED_LESS_THAN_SIGN t)
      else if e = NULL then emitChars on REPLACEMENT (tok_err unexpectedNullCharacter t)
      else if e = EOF then emitEOFToken on (tok_err eofInScriptHtmlCommentLikeText t)
      else emitCodePoint on e t)"

definition stateScriptDataDoubleEscapedDash :: "'h handler \<Rightarrow> cp \<Rightarrow> 'h tokenizer \<Rightarrow> 'h tokenizer" where
  "stateScriptDataDoubleEscapedDash on e t =
     (if e = HYPHEN_MINUS
      then emitChars on (js ''-'') (set_state SCRIPT_DATA_DOUBLE_ESCAPED_DASH_DASH t)
      else if e = LESS_THAN_SIGN
      then emitChars on (js ''<'') (set_state SCRIPT_DATA_DOUBLE_ESCAPED_LESS_THAN_SIGN t)
      else if e = NULL
      then emitChars on REPLACEMENT
             (set_state SCRIPT_DATA_DOUBLE_ESCAPED (tok_err unexpectedNullCharacter t))
      else if e = EOF then emitEOFToken on (tok_err eofInScriptHtmlCommentLikeText t)
      else emitCodePoint on e (set_state SCRIPT_DATA_DOUBLE_ESCAPED t))"

definition stateScriptDataDoubleEscapedDashDash ::
  "'h handler \<Rightarrow> cp \<Rightarrow> 'h tokenizer \<Rightarrow> 'h tokenizer" where
  "stateScriptDataDoubleEscapedDashDash on e t =
     (if e = HYPHEN_MINUS then emitChars on (js ''-'') t
      else if e = LESS_THAN_SIGN
      then emitChars on (js ''<'') (set_state SCRIPT_DATA_DOUBLE_ESCAPED_LESS_THAN_SIGN t)
      else if e = GREATER_THAN_SIGN then emitChars on (js ''>'') (set_state SCRIPT_DATA t)
      else if e = NULL
      then emitChars on REPLACEMENT
             (set_state SCRIPT_DATA_DOUBLE_ESCAPED (tok_err unexpectedNullCharacter t))
      else if e = EOF then emitEOFToken on (tok_err eofInScriptHtmlCommentLikeText t)
      else emitCodePoint on e (set_state SCRIPT_DATA_DOUBLE_ESCAPED t))"

definition stateScriptDataDoubleEscapedLessThanSign ::
  "'h handler \<Rightarrow> cp \<Rightarrow> 'h tokenizer \<Rightarrow> 'h tokenizer" where
  "stateScriptDataDoubleEscapedLessThanSign on e t =
     (if e = SOLIDUS then emitChars on (js ''/'') (set_state SCRIPT_DATA_DOUBLE_ESCAPE_END t)
      else stateScriptDataDoubleEscaped on e (set_state SCRIPT_DATA_DOUBLE_ESCAPED t))"

definition stateScriptDataDoubleEscapeEnd :: "'h handler \<Rightarrow> cp \<Rightarrow> 'h tokenizer \<Rightarrow> 'h tokenizer" where
  "stateScriptDataDoubleEscapeEnd on e t =
     (case script_word_ahead t of (m, t1) \<Rightarrow>
        if m then set_state SCRIPT_DATA_ESCAPED (emit_next on 6 (emitCodePoint on e t1))
        else case ensureHibernation t1 of (h, t2) \<Rightarrow>
          if h then t2
          else stateScriptDataDoubleEscaped on e (set_state SCRIPT_DATA_DOUBLE_ESCAPED t2))"

end
