(* ===== verification/Html_Doctype_States.thy ===== *)
theory Html_Doctype_States
  imports Html_States
begin

text \<open>
  The states of the tokenizer for markup declarations, document types and CDATA sections, of
  class \<open>Ag\<close> in \<^verbatim>\<open>src/api/scalar.standalone.js\<close>.
\<close>

section \<open>Document types\<close>


definition stateBogusDoctype ::
  "'h handler \<Rightarrow> cp \<Rightarrow> 'h tokenizer \<Rightarrow> 'h tokenizer" where
  "stateBogusDoctype on e t =
     (if e = GREATER_THAN_SIGN then set_state DATA (emitCurrentDoctype on t)
      else if e = NULL then tok_err unexpectedNullCharacter t
      else if e = EOF then emitEOFToken on (emitCurrentDoctype on t)
      else t)"

text \<open>\<open>createDoctypeToken(null)\<close>, \<open>forceQuirks\<close> and \<open>emitCurrentDoctype\<close> in a row.\<close>


definition emitQuirksDoctype ::
  "'h handler \<Rightarrow> 'h tokenizer \<Rightarrow> 'h tokenizer" where
  "emitQuirksDoctype on t =
     emitCurrentDoctype on (set_forceQuirks (createDoctypeToken None t))"

definition stateBeforeDoctypeName ::
  "'h handler \<Rightarrow> cp \<Rightarrow> 'h tokenizer \<Rightarrow> 'h tokenizer" where
  "stateBeforeDoctypeName on e t =
     (if is_ascii_upper e
      then set_state DOCTYPE_NAME (createDoctypeToken (Some [nat (to_ascii_lower e)]) t)
      else if is_whitespace e then t
      else if e = NULL
      then set_state DOCTYPE_NAME
             (createDoctypeToken (Some REPLACEMENT) (tok_err unexpectedNullCharacter t))
      else if e = GREATER_THAN_SIGN
      then set_state DATA (emitQuirksDoctype on (tok_err missingDoctypeName t))
      else if e = EOF then emitEOFToken on (emitQuirksDoctype on (tok_err eofInDoctype t))
      else with_code_point e (\<lambda>s t. set_state DOCTYPE_NAME (createDoctypeToken (Some s) t)) t)"

definition stateDoctype ::
  "'h handler \<Rightarrow> cp \<Rightarrow> 'h tokenizer \<Rightarrow> 'h tokenizer" where
  "stateDoctype on e t =
     (if is_whitespace e then set_state BEFORE_DOCTYPE_NAME t
      else if e = GREATER_THAN_SIGN
      then stateBeforeDoctypeName on e (set_state BEFORE_DOCTYPE_NAME t)
      else if e = EOF then emitEOFToken on (emitQuirksDoctype on (tok_err eofInDoctype t))
      else stateBeforeDoctypeName on e
             (set_state BEFORE_DOCTYPE_NAME (tok_err missingWhitespaceBeforeDoctypeName t)))"

definition stateDoctypeName ::
  "'h handler \<Rightarrow> cp \<Rightarrow> 'h tokenizer \<Rightarrow> 'h tokenizer" where
  "stateDoctypeName on e t =
     (if is_whitespace e then set_state AFTER_DOCTYPE_NAME t
      else if e = GREATER_THAN_SIGN then emitCurrentDoctype on (set_state DATA t)
      else if e = NULL then add_doctype_name REPLACEMENT (tok_err unexpectedNullCharacter t)
      else if e = EOF
      then emitEOFToken on (emitCurrentDoctype on (set_forceQuirks (tok_err eofInDoctype t)))
      else with_code_point (if is_ascii_upper e then to_ascii_lower e else e) add_doctype_name t)"

definition stateAfterDoctypeName ::
  "'h handler \<Rightarrow> cp \<Rightarrow> 'h tokenizer \<Rightarrow> 'h tokenizer" where
  "stateAfterDoctypeName on e t =
     (if is_whitespace e then t
      else if e = GREATER_THAN_SIGN then emitCurrentDoctype on (set_state DATA t)
      else if e = EOF
      then emitEOFToken on (emitCurrentDoctype on (set_forceQuirks (tok_err eofInDoctype t)))
      else
        case consumeSequenceIfMatch (js ''public'') False t of (m1, t1) \<Rightarrow>
          if m1 then set_state AFTER_DOCTYPE_PUBLIC_KEYWORD t1
          else case consumeSequenceIfMatch (js ''system'') False t1 of (m2, t2) \<Rightarrow>
            if m2 then set_state AFTER_DOCTYPE_SYSTEM_KEYWORD t2
            else case ensureHibernation t2 of (h, t3) \<Rightarrow>
              if h then t3
              else stateBogusDoctype on e (set_state BOGUS_DOCTYPE
                     (set_forceQuirks (tok_err invalidCharacterSequenceAfterDoctypeName t3))))"

definition stateAfterDoctypePublicKeyword ::
  "'h handler \<Rightarrow> cp \<Rightarrow> 'h tokenizer \<Rightarrow> 'h tokenizer" where
  "stateAfterDoctypePublicKeyword on e t =
     (if is_whitespace e then set_state BEFORE_DOCTYPE_PUBLIC_IDENTIFIER t
      else if e = QUOTATION_MARK
      then set_state DOCTYPE_PUBLIC_IDENTIFIER_DOUBLE_QUOTED
             (start_publicId (tok_err missingWhitespaceAfterDoctypePublicKeyword t))
      else if e = APOSTROPHE
      then set_state DOCTYPE_PUBLIC_IDENTIFIER_SINGLE_QUOTED
             (start_publicId (tok_err missingWhitespaceAfterDoctypePublicKeyword t))
      else if e = GREATER_THAN_SIGN
      then emitCurrentDoctype on (set_state DATA
             (set_forceQuirks (tok_err missingDoctypePublicIdentifier t)))
      else if e = EOF
      then emitEOFToken on (emitCurrentDoctype on (set_forceQuirks (tok_err eofInDoctype t)))
      else stateBogusDoctype on e (set_state BOGUS_DOCTYPE
             (set_forceQuirks (tok_err missingQuoteBeforeDoctypePublicIdentifier t))))"

definition stateBeforeDoctypePublicIdentifier ::
  "'h handler \<Rightarrow> cp \<Rightarrow> 'h tokenizer \<Rightarrow> 'h tokenizer" where
  "stateBeforeDoctypePublicIdentifier on e t =
     (if is_whitespace e then t
      else if e = QUOTATION_MARK
      then set_state DOCTYPE_PUBLIC_IDENTIFIER_DOUBLE_QUOTED (start_publicId t)
      else if e = APOSTROPHE
      then set_state DOCTYPE_PUBLIC_IDENTIFIER_SINGLE_QUOTED (start_publicId t)
      else if e = GREATER_THAN_SIGN
      then emitCurrentDoctype on (set_state DATA
             (set_forceQuirks (tok_err missingDoctypePublicIdentifier t)))
      else if e = EOF
      then emitEOFToken on (emitCurrentDoctype on (set_forceQuirks (tok_err eofInDoctype t)))
      else stateBogusDoctype on e (set_state BOGUS_DOCTYPE
             (set_forceQuirks (tok_err missingQuoteBeforeDoctypePublicIdentifier t))))"

definition stateDoctypePublicIdentifierDoubleQuoted ::
  "'h handler \<Rightarrow> cp \<Rightarrow> 'h tokenizer \<Rightarrow> 'h tokenizer" where
  "stateDoctypePublicIdentifierDoubleQuoted on e t =
     (if e = QUOTATION_MARK then set_state AFTER_DOCTYPE_PUBLIC_IDENTIFIER t
      else if e = NULL then add_publicId REPLACEMENT (tok_err unexpectedNullCharacter t)
      else if e = GREATER_THAN_SIGN
      then set_state DATA (emitCurrentDoctype on
             (set_forceQuirks (tok_err abruptDoctypePublicIdentifier t)))
      else if e = EOF
      then emitEOFToken on (emitCurrentDoctype on (set_forceQuirks (tok_err eofInDoctype t)))
      else with_code_point e add_publicId t)"

definition stateDoctypePublicIdentifierSingleQuoted ::
  "'h handler \<Rightarrow> cp \<Rightarrow> 'h tokenizer \<Rightarrow> 'h tokenizer" where
  "stateDoctypePublicIdentifierSingleQuoted on e t =
     (if e = APOSTROPHE then set_state AFTER_DOCTYPE_PUBLIC_IDENTIFIER t
      else if e = NULL then add_publicId REPLACEMENT (tok_err unexpectedNullCharacter t)
      else if e = GREATER_THAN_SIGN
      then set_state DATA (emitCurrentDoctype on
             (set_forceQuirks (tok_err abruptDoctypePublicIdentifier t)))
      else if e = EOF
      then emitEOFToken on (emitCurrentDoctype on (set_forceQuirks (tok_err eofInDoctype t)))
      else with_code_point e add_publicId t)"

definition stateAfterDoctypePublicIdentifier ::
  "'h handler \<Rightarrow> cp \<Rightarrow> 'h tokenizer \<Rightarrow> 'h tokenizer" where
  "stateAfterDoctypePublicIdentifier on e t =
     (if is_whitespace e then set_state BETWEEN_DOCTYPE_PUBLIC_AND_SYSTEM_IDENTIFIERS t
      else if e = GREATER_THAN_SIGN then emitCurrentDoctype on (set_state DATA t)
      else if e = QUOTATION_MARK
      then set_state DOCTYPE_SYSTEM_IDENTIFIER_DOUBLE_QUOTED (start_systemId
             (tok_err missingWhitespaceBetweenDoctypePublicAndSystemIdentifiers t))
      else if e = APOSTROPHE
      then set_state DOCTYPE_SYSTEM_IDENTIFIER_SINGLE_QUOTED (start_systemId
             (tok_err missingWhitespaceBetweenDoctypePublicAndSystemIdentifiers t))
      else if e = EOF
      then emitEOFToken on (emitCurrentDoctype on (set_forceQuirks (tok_err eofInDoctype t)))
      else stateBogusDoctype on e (set_state BOGUS_DOCTYPE
             (set_forceQuirks (tok_err missingQuoteBeforeDoctypeSystemIdentifier t))))"

definition stateBetweenDoctypePublicAndSystemIdentifiers ::
  "'h handler \<Rightarrow> cp \<Rightarrow> 'h tokenizer \<Rightarrow> 'h tokenizer" where
  "stateBetweenDoctypePublicAndSystemIdentifiers on e t =
     (if is_whitespace e then t
      else if e = GREATER_THAN_SIGN then set_state DATA (emitCurrentDoctype on t)
      else if e = QUOTATION_MARK
      then set_state DOCTYPE_SYSTEM_IDENTIFIER_DOUBLE_QUOTED (start_systemId t)
      else if e = APOSTROPHE
      then set_state DOCTYPE_SYSTEM_IDENTIFIER_SINGLE_QUOTED (start_systemId t)
      else if e = EOF
      then emitEOFToken on (emitCurrentDoctype on (set_forceQuirks (tok_err eofInDoctype t)))
      else stateBogusDoctype on e (set_state BOGUS_DOCTYPE
             (set_forceQuirks (tok_err missingQuoteBeforeDoctypeSystemIdentifier t))))"

definition stateAfterDoctypeSystemKeyword ::
  "'h handler \<Rightarrow> cp \<Rightarrow> 'h tokenizer \<Rightarrow> 'h tokenizer" where
  "stateAfterDoctypeSystemKeyword on e t =
     (if is_whitespace e then set_state BEFORE_DOCTYPE_SYSTEM_IDENTIFIER t
      else if e = QUOTATION_MARK
      then set_state DOCTYPE_SYSTEM_IDENTIFIER_DOUBLE_QUOTED
             (start_systemId (tok_err missingWhitespaceAfterDoctypeSystemKeyword t))
      else if e = APOSTROPHE
      then set_state DOCTYPE_SYSTEM_IDENTIFIER_SINGLE_QUOTED
             (start_systemId (tok_err missingWhitespaceAfterDoctypeSystemKeyword t))
      else if e = GREATER_THAN_SIGN
      then emitCurrentDoctype on (set_state DATA
             (set_forceQuirks (tok_err missingDoctypeSystemIdentifier t)))
      else if e = EOF
      then emitEOFToken on (emitCurrentDoctype on (set_forceQuirks (tok_err eofInDoctype t)))
      else stateBogusDoctype on e (set_state BOGUS_DOCTYPE
             (set_forceQuirks (tok_err missingQuoteBeforeDoctypeSystemIdentifier t))))"

definition stateBeforeDoctypeSystemIdentifier ::
  "'h handler \<Rightarrow> cp \<Rightarrow> 'h tokenizer \<Rightarrow> 'h tokenizer" where
  "stateBeforeDoctypeSystemIdentifier on e t =
     (if is_whitespace e then t
      else if e = QUOTATION_MARK
      then set_state DOCTYPE_SYSTEM_IDENTIFIER_DOUBLE_QUOTED (start_systemId t)
      else if e = APOSTROPHE
      then set_state DOCTYPE_SYSTEM_IDENTIFIER_SINGLE_QUOTED (start_systemId t)
      else if e = GREATER_THAN_SIGN
      then emitCurrentDoctype on (set_state DATA
             (set_forceQuirks (tok_err missingDoctypeSystemIdentifier t)))
      else if e = EOF
      then emitEOFToken on (emitCurrentDoctype on (set_forceQuirks (tok_err eofInDoctype t)))
      else stateBogusDoctype on e (set_state BOGUS_DOCTYPE
             (set_forceQuirks (tok_err missingQuoteBeforeDoctypeSystemIdentifier t))))"

definition stateDoctypeSystemIdentifierDoubleQuoted ::
  "'h handler \<Rightarrow> cp \<Rightarrow> 'h tokenizer \<Rightarrow> 'h tokenizer" where
  "stateDoctypeSystemIdentifierDoubleQuoted on e t =
     (if e = QUOTATION_MARK then set_state AFTER_DOCTYPE_SYSTEM_IDENTIFIER t
      else if e = NULL then add_systemId REPLACEMENT (tok_err unexpectedNullCharacter t)
      else if e = GREATER_THAN_SIGN
      then set_state DATA (emitCurrentDoctype on
             (set_forceQuirks (tok_err abruptDoctypeSystemIdentifier t)))
      else if e = EOF
      then emitEOFToken on (emitCurrentDoctype on (set_forceQuirks (tok_err eofInDoctype t)))
      else with_code_point e add_systemId t)"

definition stateDoctypeSystemIdentifierSingleQuoted ::
  "'h handler \<Rightarrow> cp \<Rightarrow> 'h tokenizer \<Rightarrow> 'h tokenizer" where
  "stateDoctypeSystemIdentifierSingleQuoted on e t =
     (if e = APOSTROPHE then set_state AFTER_DOCTYPE_SYSTEM_IDENTIFIER t
      else if e = NULL then add_systemId REPLACEMENT (tok_err unexpectedNullCharacter t)
      else if e = GREATER_THAN_SIGN
      then set_state DATA (emitCurrentDoctype on
             (set_forceQuirks (tok_err abruptDoctypeSystemIdentifier t)))
      else if e = EOF
      then emitEOFToken on (emitCurrentDoctype on (set_forceQuirks (tok_err eofInDoctype t)))
      else with_code_point e add_systemId t)"

definition stateAfterDoctypeSystemIdentifier ::
  "'h handler \<Rightarrow> cp \<Rightarrow> 'h tokenizer \<Rightarrow> 'h tokenizer" where
  "stateAfterDoctypeSystemIdentifier on e t =
     (if is_whitespace e then t
      else if e = GREATER_THAN_SIGN then set_state DATA (emitCurrentDoctype on t)
      else if e = EOF
      then emitEOFToken on (emitCurrentDoctype on (set_forceQuirks (tok_err eofInDoctype t)))
      else stateBogusDoctype on e (set_state BOGUS_DOCTYPE
             (tok_err unexpectedCharacterAfterDoctypeSystemIdentifier t)))"

section \<open>Markup declarations and CDATA sections\<close>


definition stateMarkupDeclarationOpen ::
  "'h handler \<Rightarrow> cp \<Rightarrow> 'h tokenizer \<Rightarrow> 'h tokenizer" where
  "stateMarkupDeclarationOpen on e t =
     (case consumeSequenceIfMatch (js ''--'') True t of (m1, t1) \<Rightarrow>
        if m1 then set_state COMMENT_START (createCommentToken t1)
        else case consumeSequenceIfMatch (js ''doctype'') False t1 of (m2, t2) \<Rightarrow>
          if m2 then set_state DOCTYPE t2
          else case consumeSequenceIfMatch (js ''[CDATA['') True t2 of (m3, t3) \<Rightarrow>
            if m3 then
              (if inForeignNode t3 then set_state CDATA_SECTION t3
               else set_state BOGUS_COMMENT (set_token (Comment (js ''[CDATA[''))
                      (createCommentToken (tok_err cdataInHtmlContent t3))))
            else case ensureHibernation t3 of (h, t4) \<Rightarrow>
              if h then t4
              else stateBogusComment on e (set_state BOGUS_COMMENT
                     (createCommentToken (tok_err incorrectlyOpenedComment t4))))"

definition stateCdataSection ::
  "'h handler \<Rightarrow> cp \<Rightarrow> 'h tokenizer \<Rightarrow> 'h tokenizer" where
  "stateCdataSection on e t =
     (if e = RIGHT_SQUARE_BRACKET then set_state CDATA_SECTION_BRACKET t
      else if e = EOF then emitEOFToken on (tok_err eofInCdata t)
      else emitCodePoint on e t)"

definition stateCdataSectionBracket ::
  "'h handler \<Rightarrow> cp \<Rightarrow> 'h tokenizer \<Rightarrow> 'h tokenizer" where
  "stateCdataSectionBracket on e t =
     (if e = RIGHT_SQUARE_BRACKET then set_state CDATA_SECTION_END t
      else stateCdataSection on e (set_state CDATA_SECTION (emitChars on (js '']'') t)))"

definition stateCdataSectionEnd ::
  "'h handler \<Rightarrow> cp \<Rightarrow> 'h tokenizer \<Rightarrow> 'h tokenizer" where
  "stateCdataSectionEnd on e t =
     (if e = GREATER_THAN_SIGN then set_state DATA t
      else if e = RIGHT_SQUARE_BRACKET then emitChars on (js '']'') t
      else stateCdataSection on e (set_state CDATA_SECTION (emitChars on (js '']]'') t)))"

end
