(* ===== verification/Html_Tokenizer.thy ===== *)
theory Html_Tokenizer
  imports Html_Doctype_States
begin

text \<open>
  Character references, the dispatch over the states and the main loop of the tokenizer: class
  \<open>Ag\<close> of \<^verbatim>\<open>src/api/scalar.standalone.js\<close>.
\<close>

section \<open>Named character references\<close>

definition isCharacterReferenceInAttribute :: "'h tokenizer \<Rightarrow> bool" where
  "isCharacterReferenceInAttribute t \<longleftrightarrow>
     returnState t = ATTRIBUTE_VALUE_DOUBLE_QUOTED \<or> returnState t = ATTRIBUTE_VALUE_SINGLE_QUOTED \<or>
     returnState t = ATTRIBUTE_VALUE_UNQUOTED"

definition flushCodePoint :: "'h handler \<Rightarrow> cp \<Rightarrow> 'h tokenizer \<Rightarrow> 'h tokenizer" where
  "flushCodePoint on c t =
     (if isCharacterReferenceInAttribute t then with_code_point c add_attr_value t
      else emitCodePoint on c t)"

text \<open>A value that is \<open>undefined\<close> is no code point.\<close>

definition tree_value :: "decode_tree \<Rightarrow> int \<Rightarrow> cp" where
  "tree_value lm a = (case tree_at lm a of Some v \<Rightarrow> v | None \<Rightarrow> -2)"

definition node_values :: "decode_tree \<Rightarrow> int \<Rightarrow> int \<Rightarrow> cp list" where
  "node_values lm a l =
     (if l = 0 then [node_word lm a mod 16384]
      else if l = 1 then [tree_value lm (a + 1)]
      else [tree_value lm (a + 1), tree_value lm (a + 2)])"

text \<open>The test that keeps \<open>&lt=\<close> in an attribute as it is: the next character is looked at only
  where the reference could end here without a semicolon.\<close>

definition attr_continues :: "cp \<Rightarrow> 'h tokenizer \<Rightarrow> bool \<times> 'h tokenizer" where
  "attr_continues e t =
     (if e \<noteq> SEMICOLON \<and> isCharacterReferenceInAttribute t
      then case peek 1 (pp t) of (o1, p) \<Rightarrow> (o1 = EQUALS_SIGN \<or> is_ascii_alnum o1, t\<lparr>pp := p\<rparr>)
      else (False, t))"

lemma attr_continues_pos [simp]:
  "remaining (pp (snd (attr_continues e t))) = remaining (pp t)"
  by (simp add: attr_continues_def peek_def remaining_def Let_def)

lemma consume_pp [simp]:
  "pp (snd (consume t)) = snd (advance (pp t))" "fst (consume t) = fst (advance (pp t))"
  by (simp_all add: consume_def split: prod.split)

lemma consume_frame [simp]:
  "active (snd (consume t)) = active t" "paused (snd (consume t)) = paused t"
  "tstate (snd (consume t)) = tstate t" "returnState (snd (consume t)) = returnState t"
  "out (snd (consume t)) = out t" "stuck (snd (consume t)) = stuck t"
  "currentToken (snd (consume t)) = currentToken t" "currentAttr (snd (consume t)) = currentAttr t"
  "attrLinked (snd (consume t)) = attrLinked t" "inLoop (snd (consume t)) = inLoop t"
  "currentCharacterToken (snd (consume t)) = currentCharacterToken t"
  "consumedAfterSnapshot (snd (consume t)) = consumedAfterSnapshot t + 1"
  by (simp_all add: consume_def split: prod.split)

text \<open>
  The loop of \<open>_matchNamedCharacterReference\<close>: \<open>a\<close> is the index of the node, \<open>i\<close> its word, \<open>acc\<close> the
  code points of the longest match, \<open>n\<close> the characters read since, \<open>r\<close> whether a semicolon is
  missing. A lookup that is not a number is followed by one read and ends the loop.
\<close>

function match_loop ::
  "decode_tree \<Rightarrow> int \<Rightarrow> int \<Rightarrow> cp \<Rightarrow> cp list option \<Rightarrow> int \<Rightarrow> bool \<Rightarrow> 'h tokenizer \<Rightarrow>
     cp list option \<times> int \<times> bool \<times> 'h tokenizer" where
  "match_loop lm a i e acc n r t =
     (if a < 0 then (acc, n, r, t)
      else case determineBranch lm i (a + 1) e of
        None \<Rightarrow> (acc, n + 1, r, snd (consume t))
      | Some a1 \<Rightarrow>
          if a1 < 0 then (acc, n, r, t)
          else
            let i1 = node_word lm a1; s = VALUE_LENGTH i1 in
            if s = 0 then
              (let c = consume t in match_loop lm a1 i1 (fst c) acc (n + 1) r (snd c))
            else
              let l = s - 1; k = attr_continues e t; t1 = snd k;
                  acc1 = (if fst k then Some [AMPERSAND] else Some (node_values lm a1 l));
                  n1 = (if fst k then n + 1 else 0);
                  r1 = (if fst k then r else e \<noteq> SEMICOLON);
                  c = consume t1
              in if l = 0 then (acc1, n1, r1, snd c)
                 else match_loop lm (a1 + l) i1 (fst c) acc1 n1 r1 (snd c))"
  by pat_completeness auto
termination
proof (relation "measure (\<lambda>(lm, a, i, e, acc, n, r, t). if e = EOF then 0 else Suc (nat (remaining (pp t))))")
  fix lm a i e acc n r and t :: "'h tokenizer" and a1
  assume a: "\<not> a < 0" "determineBranch lm i (a + 1) e = Some a1" "\<not> a1 < 0"
  have e: "e \<noteq> EOF" using determineBranch_eof [of "a + 1" lm i a1] a by auto
  have less: "(if fst (consume u) = EOF then 0 else Suc (nat (remaining (pp (snd (consume u))))))
      < Suc (nat (remaining (pp t)))" if "remaining (pp u) = remaining (pp t)" for u :: "'h tokenizer"
    using that src.next_left [of "pp u"] advance_at_end [of "pp u"]
    by (cases "remaining (pp u) \<le> 1") auto
  show "((lm, a1, i', fst c, acc', n', r', snd c), lm, a, i, e, acc, n, r, t)
      \<in> measure (\<lambda>(lm, a, i, e, acc, n, r, t). if e = EOF then 0 else Suc (nat (remaining (pp t))))"
    if "c = consume t" for i' c acc' n' r'
    using that e less [of t] by simp
  show "((lm, a1 + l, i', fst c, acc', n', r', snd c), lm, a, i, e, acc, n, r, t)
      \<in> measure (\<lambda>(lm, a, i, e, acc, n, r, t). if e = EOF then 0 else Suc (nat (remaining (pp t))))"
    if "k = attr_continues e t" "t1 = snd k" "c = consume t1" for i' c acc' n' r' k t1 l
    using e less [of "snd (attr_continues e t)"] unfolding that by simp
qed simp

declare match_loop.simps [simp del]

definition matchNamedCharacterReference ::
  "decode_tree \<Rightarrow> cp \<Rightarrow> 'h tokenizer \<Rightarrow> cp list option \<times> 'h tokenizer" where
  "matchNamedCharacterReference lm e t =
     (case match_loop lm 0 (node_word lm 0) e None 0 False t of (acc, n, r, t1) \<Rightarrow>
        let t2 = unconsume n t1;
            t3 = (if r \<and> \<not> endOfChunkHit (pp t2)
                  then tok_err missingSemicolonAfterCharacterReference t2 else t2)
        in (acc, unconsume 1 t3))"

section \<open>States of character references\<close>

text \<open>
  \<open>_reconsumeInState(this.returnState, e)\<close>. The return state is one of the five states that start
  a character reference.
\<close>

definition reconsumeInReturnState :: "'h handler \<Rightarrow> cp \<Rightarrow> 'h tokenizer \<Rightarrow> 'h tokenizer" where
  "reconsumeInReturnState on e t =
     (let s = returnState t; t1 = set_state s t in
      if s = DATA then stateData on e t1
      else if s = RCDATA then stateRcdata on e t1
      else if s = ATTRIBUTE_VALUE_DOUBLE_QUOTED then stateAttributeValueDoubleQuoted on e t1
      else if s = ATTRIBUTE_VALUE_SINGLE_QUOTED then stateAttributeValueSingleQuoted on e t1
      else if s = ATTRIBUTE_VALUE_UNQUOTED then stateAttributeValueUnquoted on e t1
      else throw t1)"

definition stateNamedCharacterReference :: "decode_tree \<Rightarrow> 'h handler \<Rightarrow> cp \<Rightarrow> 'h tokenizer \<Rightarrow> 'h tokenizer" where
  "stateNamedCharacterReference lm on e t =
     (case matchNamedCharacterReference lm e t of (m, t1) \<Rightarrow>
      case ensureHibernation t1 of (h, t2) \<Rightarrow>
        if h then t2
        else case m of
          Some cs \<Rightarrow> (let t3 = fold (flushCodePoint on) cs t2 in set_state (returnState t3) t3)
        | None \<Rightarrow> set_state AMBIGUOUS_AMPERSAND (flushCodePoint on AMPERSAND t2))"

definition stateCharacterReference :: "decode_tree \<Rightarrow> 'h handler \<Rightarrow> cp \<Rightarrow> 'h tokenizer \<Rightarrow> 'h tokenizer" where
  "stateCharacterReference lm on e t =
     (if e = NUMBER_SIGN then set_state NUMERIC_CHARACTER_REFERENCE t
      else if is_ascii_alnum e
      then stateNamedCharacterReference lm on e (set_state NAMED_CHARACTER_REFERENCE t)
      else reconsumeInReturnState on e (flushCodePoint on AMPERSAND t))"

definition stateAmbiguousAmpersand :: "'h handler \<Rightarrow> cp \<Rightarrow> 'h tokenizer \<Rightarrow> 'h tokenizer" where
  "stateAmbiguousAmpersand on e t =
     (if is_ascii_alnum e then flushCodePoint on e t
      else reconsumeInReturnState on e
             (if e = SEMICOLON then tok_err unknownNamedCharacterReference t else t))"

text \<open>\<open>gg\<close>: what the control characters of Windows-1252 stand for.\<close>

definition control_replacements :: "(int \<times> int) list" where
  "control_replacements =
     [(128, 8364), (130, 8218), (131, 402), (132, 8222), (133, 8230), (134, 8224), (135, 8225),
      (136, 710), (137, 8240), (138, 352), (139, 8249), (140, 338), (142, 381), (145, 8216),
      (146, 8217), (147, 8220), (148, 8221), (149, 8226), (150, 8211), (151, 8212), (152, 732),
      (153, 8482), (154, 353), (155, 8250), (156, 339), (158, 382), (159, 376)]"

text \<open>The error and the code point a numeric reference to \<open>c\<close> stands for.\<close>

definition numeric_reference :: "int \<Rightarrow> err_code option \<times> cp" where
  "numeric_reference c =
     (if c = NULL then (Some nullCharacterReference, REPLACEMENT_CHARACTER)
      else if c > 1114111 then (Some characterReferenceOutsideUnicodeRange, REPLACEMENT_CHARACTER)
      else if is_surrogate c then (Some surrogateCharacterReference, REPLACEMENT_CHARACTER)
      else if is_undefined_code_point c then (Some noncharacterCharacterReference, c)
      else if is_control_code_point c \<or> c = CARRIAGE_RETURN
      then (Some controlCharacterReference,
            case map_of control_replacements c of Some v \<Rightarrow> v | None \<Rightarrow> c)
      else (None, c))"

text \<open>
  \<open>charRefCode\<close> is a double in the source. It only grows by digits and is then compared with
  constants up to 1114111, below which doubles are exact, so an unbounded integer gives the same.
\<close>

definition stateNumericCharacterReferenceEnd :: "'h handler \<Rightarrow> cp \<Rightarrow> 'h tokenizer \<Rightarrow> 'h tokenizer" where
  "stateNumericCharacterReferenceEnd on e t =
     (case numeric_reference (charRefCode t) of (err, c) \<Rightarrow>
        let t1 = (case err of Some code \<Rightarrow> tok_err code t | None \<Rightarrow> t);
            t2 = t1\<lparr>charRefCode := c\<rparr>
        in reconsumeInReturnState on e (flushCodePoint on c t2))"

definition stateHexademicalCharacterReference :: "'h handler \<Rightarrow> cp \<Rightarrow> 'h tokenizer \<Rightarrow> 'h tokenizer" where
  "stateHexademicalCharacterReference on e t =
     (if is_upper_hex e then t\<lparr>charRefCode := 16 * charRefCode t + e - 55\<rparr>
      else if is_lower_hex e then t\<lparr>charRefCode := 16 * charRefCode t + e - 87\<rparr>
      else if is_ascii_digit e then t\<lparr>charRefCode := 16 * charRefCode t + e - 48\<rparr>
      else if e = SEMICOLON then set_state NUMERIC_CHARACTER_REFERENCE_END t
      else stateNumericCharacterReferenceEnd on e (set_state NUMERIC_CHARACTER_REFERENCE_END
             (tok_err missingSemicolonAfterCharacterReference t)))"

definition stateDecimalCharacterReference :: "'h handler \<Rightarrow> cp \<Rightarrow> 'h tokenizer \<Rightarrow> 'h tokenizer" where
  "stateDecimalCharacterReference on e t =
     (if is_ascii_digit e then t\<lparr>charRefCode := 10 * charRefCode t + e - 48\<rparr>
      else if e = SEMICOLON then set_state NUMERIC_CHARACTER_REFERENCE_END t
      else stateNumericCharacterReferenceEnd on e (set_state NUMERIC_CHARACTER_REFERENCE_END
             (tok_err missingSemicolonAfterCharacterReference t)))"

definition stateHexademicalCharacterReferenceStart :: "'h handler \<Rightarrow> cp \<Rightarrow> 'h tokenizer \<Rightarrow> 'h tokenizer" where
  "stateHexademicalCharacterReferenceStart on e t =
     (if \<not> (is_ascii_digit e \<or> is_upper_hex e \<or> is_lower_hex e)
      then (let t1 = unconsume 2 (flushCodePoint on NUMBER_SIGN (flushCodePoint on AMPERSAND
                       (tok_err absenceOfDigitsInNumericCharacterReference t)))
            in set_state (returnState t1) t1)
      else stateHexademicalCharacterReference on e
             (set_state HEXADEMICAL_CHARACTER_REFERENCE t))"

definition stateNumericCharacterReference :: "'h handler \<Rightarrow> cp \<Rightarrow> 'h tokenizer \<Rightarrow> 'h tokenizer" where
  "stateNumericCharacterReference on e t0 =
     (let t = t0\<lparr>charRefCode := 0\<rparr> in
      if e = LATIN_SMALL_X \<or> e = LATIN_CAPITAL_X
      then set_state HEXADEMICAL_CHARACTER_REFERENCE_START t
      else if is_ascii_digit e
      then stateDecimalCharacterReference on e (set_state DECIMAL_CHARACTER_REFERENCE t)
      else reconsumeInReturnState on e (flushCodePoint on NUMBER_SIGN (flushCodePoint on AMPERSAND
             (tok_err absenceOfDigitsInNumericCharacterReference t))))"

section \<open>Dispatch\<close>

definition callState :: "decode_tree \<Rightarrow> 'h handler \<Rightarrow> cp \<Rightarrow> 'h tokenizer \<Rightarrow> 'h tokenizer" where
  "callState lm on e t =
     (if tstate t = DATA then stateData on e t
      else if tstate t = RCDATA then stateRcdata on e t
      else if tstate t = RAWTEXT then stateRawtext on e t
      else if tstate t = SCRIPT_DATA then stateScriptData on e t
      else if tstate t = PLAINTEXT then statePlaintext on e t
      else if tstate t = TAG_OPEN then stateTagOpen on e t
      else if tstate t = END_TAG_OPEN then stateEndTagOpen on e t
      else if tstate t = TAG_NAME then stateTagName on e t
      else if tstate t = RCDATA_LESS_THAN_SIGN then stateRcdataLessThanSign on e t
      else if tstate t = RCDATA_END_TAG_OPEN then stateRcdataEndTagOpen on e t
      else if tstate t = RCDATA_END_TAG_NAME then stateRcdataEndTagName on e t
      else if tstate t = RAWTEXT_LESS_THAN_SIGN then stateRawtextLessThanSign on e t
      else if tstate t = RAWTEXT_END_TAG_OPEN then stateRawtextEndTagOpen on e t
      else if tstate t = RAWTEXT_END_TAG_NAME then stateRawtextEndTagName on e t
      else if tstate t = SCRIPT_DATA_LESS_THAN_SIGN then stateScriptDataLessThanSign on e t
      else if tstate t = SCRIPT_DATA_END_TAG_OPEN then stateScriptDataEndTagOpen on e t
      else if tstate t = SCRIPT_DATA_END_TAG_NAME then stateScriptDataEndTagName on e t
      else if tstate t = SCRIPT_DATA_ESCAPE_START then stateScriptDataEscapeStart on e t
      else if tstate t = SCRIPT_DATA_ESCAPE_START_DASH then stateScriptDataEscapeStartDash on e t
      else if tstate t = SCRIPT_DATA_ESCAPED then stateScriptDataEscaped on e t
      else if tstate t = SCRIPT_DATA_ESCAPED_DASH then stateScriptDataEscapedDash on e t
      else if tstate t = SCRIPT_DATA_ESCAPED_DASH_DASH then stateScriptDataEscapedDashDash on e t
      else if tstate t = SCRIPT_DATA_ESCAPED_LESS_THAN_SIGN then stateScriptDataEscapedLessThanSign on e t
      else if tstate t = SCRIPT_DATA_ESCAPED_END_TAG_OPEN then stateScriptDataEscapedEndTagOpen on e t
      else if tstate t = SCRIPT_DATA_ESCAPED_END_TAG_NAME then stateScriptDataEscapedEndTagName on e t
      else if tstate t = SCRIPT_DATA_DOUBLE_ESCAPE_START then stateScriptDataDoubleEscapeStart on e t
      else if tstate t = SCRIPT_DATA_DOUBLE_ESCAPED then stateScriptDataDoubleEscaped on e t
      else if tstate t = SCRIPT_DATA_DOUBLE_ESCAPED_DASH then stateScriptDataDoubleEscapedDash on e t
      else if tstate t = SCRIPT_DATA_DOUBLE_ESCAPED_DASH_DASH then stateScriptDataDoubleEscapedDashDash on e t
      else if tstate t = SCRIPT_DATA_DOUBLE_ESCAPED_LESS_THAN_SIGN then stateScriptDataDoubleEscapedLessThanSign on e t
      else if tstate t = SCRIPT_DATA_DOUBLE_ESCAPE_END then stateScriptDataDoubleEscapeEnd on e t
      else if tstate t = BEFORE_ATTRIBUTE_NAME then stateBeforeAttributeName on e t
      else if tstate t = ATTRIBUTE_NAME then stateAttributeName on e t
      else if tstate t = AFTER_ATTRIBUTE_NAME then stateAfterAttributeName on e t
      else if tstate t = BEFORE_ATTRIBUTE_VALUE then stateBeforeAttributeValue on e t
      else if tstate t = ATTRIBUTE_VALUE_DOUBLE_QUOTED then stateAttributeValueDoubleQuoted on e t
      else if tstate t = ATTRIBUTE_VALUE_SINGLE_QUOTED then stateAttributeValueSingleQuoted on e t
      else if tstate t = ATTRIBUTE_VALUE_UNQUOTED then stateAttributeValueUnquoted on e t
      else if tstate t = AFTER_ATTRIBUTE_VALUE_QUOTED then stateAfterAttributeValueQuoted on e t
      else if tstate t = SELF_CLOSING_START_TAG then stateSelfClosingStartTag on e t
      else if tstate t = BOGUS_COMMENT then stateBogusComment on e t
      else if tstate t = MARKUP_DECLARATION_OPEN then stateMarkupDeclarationOpen on e t
      else if tstate t = COMMENT_START then stateCommentStart on e t
      else if tstate t = COMMENT_START_DASH then stateCommentStartDash on e t
      else if tstate t = COMMENT then stateComment on e t
      else if tstate t = COMMENT_LESS_THAN_SIGN then stateCommentLessThanSign on e t
      else if tstate t = COMMENT_LESS_THAN_SIGN_BANG then stateCommentLessThanSignBang on e t
      else if tstate t = COMMENT_LESS_THAN_SIGN_BANG_DASH then stateCommentLessThanSignBangDash on e t
      else if tstate t = COMMENT_LESS_THAN_SIGN_BANG_DASH_DASH then stateCommentLessThanSignBangDashDash on e t
      else if tstate t = COMMENT_END_DASH then stateCommentEndDash on e t
      else if tstate t = COMMENT_END then stateCommentEnd on e t
      else if tstate t = COMMENT_END_BANG then stateCommentEndBang on e t
      else if tstate t = DOCTYPE then stateDoctype on e t
      else if tstate t = BEFORE_DOCTYPE_NAME then stateBeforeDoctypeName on e t
      else if tstate t = DOCTYPE_NAME then stateDoctypeName on e t
      else if tstate t = AFTER_DOCTYPE_NAME then stateAfterDoctypeName on e t
      else if tstate t = AFTER_DOCTYPE_PUBLIC_KEYWORD then stateAfterDoctypePublicKeyword on e t
      else if tstate t = BEFORE_DOCTYPE_PUBLIC_IDENTIFIER then stateBeforeDoctypePublicIdentifier on e t
      else if tstate t = DOCTYPE_PUBLIC_IDENTIFIER_DOUBLE_QUOTED then stateDoctypePublicIdentifierDoubleQuoted on e t
      else if tstate t = DOCTYPE_PUBLIC_IDENTIFIER_SINGLE_QUOTED then stateDoctypePublicIdentifierSingleQuoted on e t
      else if tstate t = AFTER_DOCTYPE_PUBLIC_IDENTIFIER then stateAfterDoctypePublicIdentifier on e t
      else if tstate t = BETWEEN_DOCTYPE_PUBLIC_AND_SYSTEM_IDENTIFIERS then stateBetweenDoctypePublicAndSystemIdentifiers on e t
      else if tstate t = AFTER_DOCTYPE_SYSTEM_KEYWORD then stateAfterDoctypeSystemKeyword on e t
      else if tstate t = BEFORE_DOCTYPE_SYSTEM_IDENTIFIER then stateBeforeDoctypeSystemIdentifier on e t
      else if tstate t = DOCTYPE_SYSTEM_IDENTIFIER_DOUBLE_QUOTED then stateDoctypeSystemIdentifierDoubleQuoted on e t
      else if tstate t = DOCTYPE_SYSTEM_IDENTIFIER_SINGLE_QUOTED then stateDoctypeSystemIdentifierSingleQuoted on e t
      else if tstate t = AFTER_DOCTYPE_SYSTEM_IDENTIFIER then stateAfterDoctypeSystemIdentifier on e t
      else if tstate t = BOGUS_DOCTYPE then stateBogusDoctype on e t
      else if tstate t = CDATA_SECTION then stateCdataSection on e t
      else if tstate t = CDATA_SECTION_BRACKET then stateCdataSectionBracket on e t
      else if tstate t = CDATA_SECTION_END then stateCdataSectionEnd on e t
      else if tstate t = CHARACTER_REFERENCE then stateCharacterReference lm on e t
      else if tstate t = NAMED_CHARACTER_REFERENCE then stateNamedCharacterReference lm on e t
      else if tstate t = AMBIGUOUS_AMPERSAND then stateAmbiguousAmpersand on e t
      else if tstate t = NUMERIC_CHARACTER_REFERENCE then stateNumericCharacterReference on e t
      else if tstate t = HEXADEMICAL_CHARACTER_REFERENCE_START then stateHexademicalCharacterReferenceStart on e t
      else if tstate t = HEXADEMICAL_CHARACTER_REFERENCE then stateHexademicalCharacterReference on e t
      else if tstate t = DECIMAL_CHARACTER_REFERENCE then stateDecimalCharacterReference on e t
      else if tstate t = NUMERIC_CHARACTER_REFERENCE_END then stateNumericCharacterReferenceEnd on e t
      else throw t)"

section \<open>The main loop\<close>

text \<open>One round of \<open>_runParsingLoop\<close>.\<close>

definition loop_step :: "decode_tree \<Rightarrow> 'h handler \<Rightarrow> 'h tokenizer \<Rightarrow> 'h tokenizer" where
  "loop_step lm on t =
     (case consume (t\<lparr>consumedAfterSnapshot := 0\<rparr>) of (e, t1) \<Rightarrow>
      case ensureHibernation t1 of (h, t2) \<Rightarrow> if h then t2 else callState lm on e t2)"

text \<open>\<open>None\<close> is a loop that never ends; an exception leaves it.\<close>

partial_function (option) parsing_loop ::
  "decode_tree \<Rightarrow> 'h handler \<Rightarrow> 'h tokenizer \<Rightarrow> 'h tokenizer option" where
  "parsing_loop lm on t =
     (if active t \<and> \<not> paused t \<and> \<not> stuck t then parsing_loop lm on (loop_step lm on t)
      else Some t)"

definition runParsingLoop :: "decode_tree \<Rightarrow> 'h handler \<Rightarrow> 'h tokenizer \<Rightarrow> 'h tokenizer option" where
  "runParsingLoop lm on t =
     (if inLoop t then Some t
      else map_option (\<lambda>t1. if stuck t1 then t1 else t1\<lparr>inLoop := False\<rparr>)
             (parsing_loop lm on (t\<lparr>inLoop := True\<rparr>)))"

declare parsing_loop.simps [code]

definition pause :: "'h tokenizer \<Rightarrow> 'h tokenizer" where
  "pause t = t\<lparr>paused := True\<rparr>"

text \<open>\<open>resume\<close> throws when the tokenizer is not paused; its callback belongs to the caller.\<close>

definition resume :: "decode_tree \<Rightarrow> 'h handler \<Rightarrow> 'h tokenizer \<Rightarrow> 'h tokenizer option" where
  "resume lm on t =
     (if \<not> paused t then Some (throw t)
      else let t1 = t\<lparr>paused := False\<rparr>
           in if inLoop t1 then Some t1 else runParsingLoop lm on t1)"

definition tok_write :: "decode_tree \<Rightarrow> 'h handler \<Rightarrow> jsstr \<Rightarrow> bool \<Rightarrow> 'h tokenizer \<Rightarrow> 'h tokenizer option" where
  "tok_write lm on chunk isLastChunk t =
     runParsingLoop lm on (t\<lparr>active := True, pp := pp_write chunk isLastChunk (pp t)\<rparr>)"

definition insertHtmlAtCurrentPos ::
  "decode_tree \<Rightarrow> 'h handler \<Rightarrow> jsstr \<Rightarrow> 'h tokenizer \<Rightarrow> 'h tokenizer option" where
  "insertHtmlAtCurrentPos lm on chunk t =
     runParsingLoop lm on (t\<lparr>active := True, pp := pp_insertHtmlAtCurrentPos chunk (pp t)\<rparr>)"

end
