(* ===== verification/Html_Progress.thy ===== *)
theory Html_Progress
  imports Html_Tokenizer
begin

text \<open>
  The main loop of the tokenizer ends. Every operation of the tokenizer keeps a condition \<open>pre lc r\<close>
  (at most \<open>r\<close> characters are left, the end has not been reported), and every state function leads
  from it to \<open>post\<close>: either the tokenizer has stopped, or it goes on with no more characters left
  than before. The facts are collected in \<open>pre_rules\<close> and \<open>post_rules\<close>; they hold for every text,
  handler and decode tree.
\<close>

named_theorems pre_rules \<open>operations that keep the condition of the loop\<close>
named_theorems post_rules \<open>state functions that lead from the condition to a good state\<close>

section \<open>Conditions\<close>

definition remn :: "'h tokenizer \<Rightarrow> nat" where
  "remn t = nat (remaining (pp t))"

definition noeof :: "'h tokenizer \<Rightarrow> bool" where
  "noeof t \<longleftrightarrow> OnEof \<notin> set (out t)"

definition eof_done :: "'h tokenizer \<Rightarrow> bool" where
  "eof_done t \<longleftrightarrow> out t \<noteq> [] \<and> hd (out t) = OnEof \<and> OnEof \<notin> set (tl (out t))"

text \<open>The states that can start a character reference.\<close>

definition return_states :: "tok_state set" where
  "return_states = {DATA, RCDATA, ATTRIBUTE_VALUE_DOUBLE_QUOTED, ATTRIBUTE_VALUE_SINGLE_QUOTED,
                    ATTRIBUTE_VALUE_UNQUOTED}"

definition pre :: "bool \<Rightarrow> nat \<Rightarrow> 'h tokenizer \<Rightarrow> bool" where
  "pre lc r t \<longleftrightarrow> gaps_ok (pp t) \<and> lastChunkWritten (pp t) = lc \<and> active t \<and> \<not> paused t \<and> noeof t \<and> remn t \<le> r \<and>
     returnState t \<in> return_states \<and> tstate t \<noteq> HEXADEMICAL_CHARACTER_REFERENCE_START"

definition post :: "bool \<Rightarrow> cp \<Rightarrow> nat \<Rightarrow> 'h tokenizer \<Rightarrow> bool" where
  "post lc e r t \<longleftrightarrow> gaps_ok (pp t) \<and> lastChunkWritten (pp t) = lc \<and> \<not> paused t \<and>
     returnState t \<in> return_states \<and>
     (stuck t \<or> (if active t
        then e \<noteq> EOF \<and> remn t \<le> r \<and> noeof t \<and> tstate t \<noteq> HEXADEMICAL_CHARACTER_REFERENCE_START
        else (endOfChunkHit (pp t) \<and> noeof t) \<or> eof_done t))"

lemma pre_post [post_rules]: "pre lc r t \<Longrightarrow> e \<noteq> EOF \<Longrightarrow> post lc e r t"
  by (simp add: pre_def post_def)

lemma pre_post_class [post_rules]:
  "pre lc r t \<Longrightarrow> is_whitespace e \<Longrightarrow> post lc e r t" "pre lc r t \<Longrightarrow> is_ascii_upper e \<Longrightarrow> post lc e r t"
  "pre lc r t \<Longrightarrow> is_ascii_alnum e \<Longrightarrow> post lc e r t"
  by (auto intro: pre_post)

section \<open>Operations\<close>

text \<open>An update that does not touch the fields of the condition.\<close>

lemma pre_cong:
  assumes "gaps_ok (pp t') = gaps_ok (pp t)" and "remaining (pp t') = remaining (pp t)"
    and "lastChunkWritten (pp t') = lastChunkWritten (pp t)"
    and "active t' = active t" and "paused t' = paused t" and "out t' = out t"
    and "tstate t' = tstate t" and "returnState t' = returnState t"
  shows "pre lc r t' = pre lc r t"
  using assms by (simp add: pre_def remn_def noeof_def)

lemma dropParsedChunk_gaps: "gaps_ok p \<Longrightarrow> gaps_ok (dropParsedChunk p)"
  by (simp add: dropParsedChunk_def gaps_ok_def chunk_ok_def)

lemma dropParsedChunk_remaining: "gaps_ok p \<Longrightarrow> nat (remaining (dropParsedChunk p)) = nat (remaining p)"
  by (auto simp: dropParsedChunk_def willDropParsedChunk_def remaining_def gaps_ok_def)

lemma pre_throw [pre_rules]: "pre lc r (throw t) = pre lc r t"
  by (rule pre_cong) (simp_all add: throw_def)

lemma pre_err [pre_rules]: "pre lc r (tok_err c t) = pre lc r t"
  by (rule pre_cong) (simp_all add: tok_err_def gaps_ok_def chunk_ok_def remaining_def)

lemma pre_set_state [pre_rules]:
  "pre lc r t \<Longrightarrow> s \<noteq> HEXADEMICAL_CHARACTER_REFERENCE_START \<Longrightarrow> pre lc r (set_state s t)"
  by (simp add: pre_def set_state_def remn_def noeof_def)

lemma pre_set_return [pre_rules]: "pre lc r t \<Longrightarrow> s \<in> return_states \<Longrightarrow> pre lc r (set_return s t)"
  by (simp add: pre_def set_return_def remn_def noeof_def)

lemma return_states_simps [simp]:
  "DATA \<in> return_states" "Suc 0 \<in> return_states" "ATTRIBUTE_VALUE_DOUBLE_QUOTED \<in> return_states"
  "ATTRIBUTE_VALUE_SINGLE_QUOTED \<in> return_states" "ATTRIBUTE_VALUE_UNQUOTED \<in> return_states"
  by (simp_all add: return_states_def)

lemma pre_set_token [pre_rules]: "pre lc r (set_token k t) = pre lc r t"
  by (rule pre_cong) (simp_all add: set_token_def)

lemma pre_create [pre_rules]:
  "pre lc r (createStartTagToken t) = pre lc r t" "pre lc r (createEndTagToken t) = pre lc r t"
  "pre lc r (createCommentToken t) = pre lc r t" "pre lc r (createDoctypeToken n t) = pre lc r t"
  by (simp_all add: createStartTagToken_def createEndTagToken_def createCommentToken_def
      createDoctypeToken_def pre_set_token)

lemma pre_createAttr [pre_rules]: "pre lc r (createAttr n t) = pre lc r t"
  by (rule pre_cong) (simp_all add: createAttr_def)

lemma pre_createCharacterToken [pre_rules]: "pre lc r (createCharacterToken ty s t) = pre lc r t"
  by (rule pre_cong) (simp_all add: createCharacterToken_def)

lemma pre_token_update [pre_rules]:
  "pre lc r (t\<lparr>currentToken := x\<rparr>) = pre lc r t" "pre lc r (t\<lparr>attrLinked := b\<rparr>) = pre lc r t"
  "pre lc r (t\<lparr>currentCharacterToken := y\<rparr>) = pre lc r t" "pre lc r (t\<lparr>currentAttr := a\<rparr>) = pre lc r t"
  "pre lc r (t\<lparr>lastStartTagName := s\<rparr>) = pre lc r t" "pre lc r (t\<lparr>charRefCode := c\<rparr>) = pre lc r t"
  by (rule pre_cong; simp)+

lemma pre_leaveAttrName [pre_rules]: "pre lc r (leaveAttrName t) = pre lc r t"
  by (simp add: leaveAttrName_def pre_rules split: option.split token.split)

lemma pre_add [pre_rules]:
  "pre lc r (add_tagName s t) = pre lc r t" "pre lc r (add_comment s t) = pre lc r t"
  "pre lc r (set_selfClosing t) = pre lc r t" "pre lc r (set_tagName s t) = pre lc r t"
  "pre lc r (map_doctype f t) = pre lc r t"
  by (simp_all add: add_tagName_def add_comment_def set_selfClosing_def set_tagName_def
      map_doctype_def pre_rules split: option.split token.split)

lemma pre_doctype [pre_rules]:
  "pre lc r (add_doctype_name s t) = pre lc r t" "pre lc r (add_publicId s t) = pre lc r t"
  "pre lc r (add_systemId s t) = pre lc r t" "pre lc r (set_forceQuirks t) = pre lc r t"
  "pre lc r (start_publicId t) = pre lc r t" "pre lc r (start_systemId t) = pre lc r t"
  by (simp_all add: add_doctype_name_def add_publicId_def add_systemId_def set_forceQuirks_def
      start_publicId_def start_systemId_def pre_add)

lemma pre_set_attr [pre_rules]: "pre lc r (set_attr a t) = pre lc r t"
  by (simp add: set_attr_def Let_def pre_rules split: option.split token.split)

lemma pre_add_attr [pre_rules]:
  "pre lc r (add_attr_name s t) = pre lc r t" "pre lc r (add_attr_value s t) = pre lc r t"
  by (simp_all add: add_attr_name_def add_attr_value_def pre_rules)

lemma mode_state_low: "mode_state m \<noteq> HEXADEMICAL_CHARACTER_REFERENCE_START"
  by (cases m) simp_all

lemma pre_notify [pre_rules]: "pre lc r t \<Longrightarrow> ev \<noteq> OnEof \<Longrightarrow> pre lc r (notify on ev t)"
  by (auto simp: notify_def pre_def remn_def noeof_def mode_state_low split: prod.split option.split)

lemma char_event_not_eof [simp]: "char_event k \<noteq> OnEof"
  by (cases k rule: char_event.cases) simp_all

lemmas not_eof_char_event [simp] = char_event_not_eof [symmetric]

lemma pre_emitCurrentCharacterToken [pre_rules]: "pre lc r t \<Longrightarrow> pre lc r (emitCurrentCharacterToken on t)"
  by (simp add: emitCurrentCharacterToken_def pre_rules split: option.split)

lemma pre_drop_chunk [pre_rules]: "pre lc r t \<Longrightarrow> pre lc r (drop_chunk t)"
  by (simp add: drop_chunk_def pre_def remn_def noeof_def dropParsedChunk_gaps
      dropParsedChunk_remaining)

lemma pre_prepareToken [pre_rules]: "pre lc r t \<Longrightarrow> pre lc r (prepareToken on t)"
  by (simp add: prepareToken_def pre_rules)

lemma pre_emitCurrentTagToken [pre_rules]: "pre lc r t \<Longrightarrow> pre lc r (emitCurrentTagToken on t)"
  by (simp add: emitCurrentTagToken_def pre_rules Let_def split: option.split token.split)

lemma pre_emitCurrentComment [pre_rules]: "pre lc r t \<Longrightarrow> pre lc r (emitCurrentComment on t)"
  by (simp add: emitCurrentComment_def pre_rules split: option.split token.split)

lemma pre_emitCurrentDoctype [pre_rules]: "pre lc r t \<Longrightarrow> pre lc r (emitCurrentDoctype on t)"
  by (simp add: emitCurrentDoctype_def pre_rules split: option.split token.split)

lemma pre_appendChar [pre_rules]:
  "pre lc r t \<Longrightarrow> pre lc r (appendCharToCurrentCharacterToken on ty s t)"
  by (simp add: appendCharToCurrentCharacterToken_def pre_rules split: option.split prod.split)

lemma pre_with_code_point [pre_rules]:
  "(\<And>s. pre lc r (f s t)) \<Longrightarrow> pre lc r t \<Longrightarrow> pre lc r (with_code_point c f t)"
  by (simp add: with_code_point_def pre_rules)

lemma pre_emitCodePoint [pre_rules]: "pre lc r t \<Longrightarrow> pre lc r (emitCodePoint on c t)"
  by (simp add: emitCodePoint_def pre_rules)

lemma pre_emitChars [pre_rules]: "pre lc r t \<Longrightarrow> pre lc r (emitChars on s t)"
  by (simp add: emitChars_def pre_rules)

lemma post_emitEOFToken [post_rules]:
  assumes "pre lc r t"
  shows "post lc e r (emitEOFToken on t)"
proof -
  have "pre lc r (emitCurrentCharacterToken on t)" using assms by (rule pre_rules)
  then show ?thesis
    by (simp add: emitEOFToken_def notify_def pre_def post_def noeof_def eof_done_def split: prod.split)
qed

lemma pre_flushCodePoint [pre_rules]: "pre lc r t \<Longrightarrow> pre lc r (flushCodePoint on c t)"
  by (simp add: flushCodePoint_def pre_rules)

section \<open>States that read nothing\<close>

lemma post_text [post_rules]:
  assumes "pre lc r t"
  shows "post lc e r (stateData on e t)" and "post lc e r (stateRcdata on e t)"
    and "post lc e r (stateRawtext on e t)" and "post lc e r (stateScriptData on e t)"
    and "post lc e r (statePlaintext on e t)"
  using assms by (simp_all add: stateData_def stateRcdata_def stateRawtext_def stateScriptData_def
      statePlaintext_def pre_rules post_rules)

lemma post_comment [post_rules]:
  assumes "pre lc r t"
  shows "post lc e r (stateBogusComment on e t)"
    and "post lc e r (stateComment on e t)"
  by (simp_all add:
      stateBogusComment_def stateComment_def  pre_rules post_rules assms)

lemma post_comment2 [post_rules]:
  assumes "pre lc r t"
  shows "post lc e r (stateCommentStartDash on e t)"
    and "post lc e r (stateCommentStart on e t)"
    and "post lc e r (stateCommentLessThanSign on e t)"
    and "post lc e r (stateCommentLessThanSignBang on e t)"
    and "post lc e r (stateCommentEndDash on e t)"
    and "post lc e r (stateCommentEnd on e t)"
    and "post lc e r (stateCommentEndBang on e t)"
  by (simp_all add:
      stateCommentStartDash_def stateCommentStart_def stateCommentLessThanSign_def
      stateCommentLessThanSignBang_def stateCommentEndDash_def stateCommentEnd_def
      stateCommentEndBang_def  pre_rules post_rules assms)

lemma post_comment3 [post_rules]:
  assumes "pre lc r t"
  shows "post lc e r (stateCommentLessThanSignBangDash on e t)"
    and "post lc e r (stateCommentLessThanSignBangDashDash on e t)"
  by (simp_all add:
      stateCommentLessThanSignBangDash_def stateCommentLessThanSignBangDashDash_def
      pre_rules post_rules assms)

lemma pre_attributeNameChar [pre_rules]: "pre lc r t \<Longrightarrow> pre lc r (attributeNameChar e t)"
  by (simp add: attributeNameChar_def pre_rules)

lemma post_attr1 [post_rules]:
  assumes "pre lc r t"
  shows "post lc e r (stateAfterAttributeName on e t)"
    and "post lc e r (stateAttributeValueDoubleQuoted on e t)"
    and "post lc e r (stateAttributeValueSingleQuoted on e t)"
    and "post lc e r (stateAttributeValueUnquoted on e t)"
  by (simp_all add:
      stateAfterAttributeName_def stateAttributeValueDoubleQuoted_def
      stateAttributeValueSingleQuoted_def stateAttributeValueUnquoted_def  pre_rules
      post_rules assms)

lemma post_attr2 [post_rules]:
  assumes "pre lc r t"
  shows "post lc e r (stateAttributeName on e t)"
    and "post lc e r (stateBeforeAttributeValue on e t)"
  by (simp_all add:
      stateAttributeName_def stateBeforeAttributeValue_def  pre_rules post_rules assms)

lemma post_attr3 [post_rules]:
  assumes "pre lc r t"
  shows "post lc e r (stateBeforeAttributeName on e t)"
  by (simp add:
      stateBeforeAttributeName_def  pre_rules post_rules assms)

lemma post_attr4 [post_rules]:
  assumes "pre lc r t"
  shows "post lc e r (stateAfterAttributeValueQuoted on e t)"
    and "post lc e r (stateSelfClosingStartTag on e t)"
  by (simp_all add:
      stateAfterAttributeValueQuoted_def stateSelfClosingStartTag_def  pre_rules
      post_rules assms)

lemma post_tag1 [post_rules]:
  assumes "pre lc r t"
  shows "post lc e r (stateTagName on e t)"
  by (simp add:
      stateTagName_def  pre_rules post_rules assms)

lemma post_tag2 [post_rules]:
  assumes "pre lc r t"
  shows "post lc e r (stateTagOpen on e t)"
    and "post lc e r (stateEndTagOpen on e t)"
  by (simp_all add:
      stateTagOpen_def stateEndTagOpen_def is_ascii_letter_def is_ascii_upper_def
      pre_rules post_rules assms)

lemma post_script1 [post_rules]:
  assumes "pre lc r t"
  shows "post lc e r (stateScriptDataLessThanSign on e t)"
    and "post lc e r (stateScriptDataEscapeStart on e t)"
    and "post lc e r (stateScriptDataEscapeStartDash on e t)"
    and "post lc e r (stateScriptDataEscaped on e t)"
    and "post lc e r (stateScriptDataEscapedDash on e t)"
    and "post lc e r (stateScriptDataEscapedDashDash on e t)"
    and "post lc e r (stateScriptDataDoubleEscaped on e t)"
    and "post lc e r (stateScriptDataDoubleEscapedDash on e t)"
    and "post lc e r (stateScriptDataDoubleEscapedDashDash on e t)"
  by (simp_all add:
      stateScriptDataLessThanSign_def stateScriptDataEscapeStart_def
      stateScriptDataEscapeStartDash_def stateScriptDataEscaped_def
      stateScriptDataEscapedDash_def stateScriptDataEscapedDashDash_def
      stateScriptDataDoubleEscaped_def stateScriptDataDoubleEscapedDash_def
      stateScriptDataDoubleEscapedDashDash_def  pre_rules post_rules assms)

lemma post_script2 [post_rules]:
  assumes "pre lc r t"
  shows "post lc e r (stateScriptDataDoubleEscapedLessThanSign on e t)"
    and "post lc e r (stateRcdataLessThanSign on e t)"
    and "post lc e r (stateRawtextLessThanSign on e t)"
  by (simp_all add:
      stateScriptDataDoubleEscapedLessThanSign_def stateRcdataLessThanSign_def
      stateRawtextLessThanSign_def  pre_rules post_rules assms)

lemma post_bogus [post_rules]:
  assumes "pre lc r t"
  shows "post lc e r (stateBogusDoctype on e t)"
  by (simp add:
      stateBogusDoctype_def  pre_rules post_rules assms)

lemma pre_emitQuirksDoctype [pre_rules]: "pre lc r t \<Longrightarrow> pre lc r (emitQuirksDoctype on t)"
  by (simp add: emitQuirksDoctype_def pre_rules)

lemma post_doctype1 [post_rules]:
  assumes "pre lc r t"
  shows "post lc e r (stateBeforeDoctypeName on e t)"
  by (simp add:
      stateBeforeDoctypeName_def  pre_rules post_rules assms)

lemma post_doctype2 [post_rules]:
  assumes "pre lc r t"
  shows "post lc e r (stateDoctype on e t)"
    and "post lc e r (stateDoctypeName on e t)"
    and "post lc e r (stateAfterDoctypePublicKeyword on e t)"
    and "post lc e r (stateBeforeDoctypePublicIdentifier on e t)"
    and "post lc e r (stateDoctypePublicIdentifierDoubleQuoted on e t)"
    and "post lc e r (stateDoctypePublicIdentifierSingleQuoted on e t)"
    and "post lc e r (stateAfterDoctypePublicIdentifier on e t)"
    and "post lc e r (stateBetweenDoctypePublicAndSystemIdentifiers on e t)"
  by (simp_all add:
      stateDoctype_def stateDoctypeName_def stateAfterDoctypePublicKeyword_def
      stateBeforeDoctypePublicIdentifier_def
      stateDoctypePublicIdentifierDoubleQuoted_def
      stateDoctypePublicIdentifierSingleQuoted_def stateAfterDoctypePublicIdentifier_def
      stateBetweenDoctypePublicAndSystemIdentifiers_def  pre_rules post_rules assms)

lemma post_doctype3 [post_rules]:
  assumes "pre lc r t"
  shows "post lc e r (stateAfterDoctypeSystemKeyword on e t)"
    and "post lc e r (stateBeforeDoctypeSystemIdentifier on e t)"
    and "post lc e r (stateDoctypeSystemIdentifierDoubleQuoted on e t)"
    and "post lc e r (stateDoctypeSystemIdentifierSingleQuoted on e t)"
    and "post lc e r (stateAfterDoctypeSystemIdentifier on e t)"
  by (simp_all add:
      stateAfterDoctypeSystemKeyword_def stateBeforeDoctypeSystemIdentifier_def
      stateDoctypeSystemIdentifierDoubleQuoted_def
      stateDoctypeSystemIdentifierSingleQuoted_def stateAfterDoctypeSystemIdentifier_def
      pre_rules post_rules assms)

lemma post_cdata1 [post_rules]:
  assumes "pre lc r t"
  shows "post lc e r (stateCdataSection on e t)"
  by (simp add:
      stateCdataSection_def  pre_rules post_rules assms)

lemma post_cdata2 [post_rules]:
  assumes "pre lc r t"
  shows "post lc e r (stateCdataSectionBracket on e t)"
    and "post lc e r (stateCdataSectionEnd on e t)"
  by (simp_all add:
      stateCdataSectionBracket_def stateCdataSectionEnd_def  pre_rules post_rules assms)

lemma post_reconsume [post_rules]:
  assumes "pre lc r t"
  shows "post lc e r (reconsumeInReturnState on e t)"
proof (cases "returnState t \<in> {DATA, RCDATA, ATTRIBUTE_VALUE_DOUBLE_QUOTED,
    ATTRIBUTE_VALUE_SINGLE_QUOTED, ATTRIBUTE_VALUE_UNQUOTED}")
  case True
  then show ?thesis
    by (auto simp: reconsumeInReturnState_def Let_def pre_rules post_rules assms)
next
  case False
  then show ?thesis using assms
    by (simp add: reconsumeInReturnState_def Let_def throw_def set_state_def post_def pre_def)
qed

section \<open>States that may wait for more text\<close>

text \<open>Giving back what was read since the round began is safe.\<close>

definition can_return :: "'h tokenizer \<Rightarrow> bool" where
  "can_return t \<longleftrightarrow> gaps_ok (retreat (consumedAfterSnapshot t) (pp t)) \<and>
     0 \<le> consumedAfterSnapshot t \<and> consumedAfterSnapshot t \<le> 2"

lemma retreat_same_pos:
  assumes "pos p' = pos p" "lastGapPos p' = lastGapPos p" "gapStack p' = gapStack p"
    "bufferWaterline p' = bufferWaterline p" "chunk_ok p \<longrightarrow> chunk_ok p'"
  shows "gaps_ok (retreat k p) \<Longrightarrow> gaps_ok (retreat k p')"
  using assms by (auto simp: retreat_def gaps_ok_def chunk_ok_def split: prod.splits)

lemma back_cong:
  assumes "pos (pp t') = pos (pp t)" "lastGapPos (pp t') = lastGapPos (pp t)"
    "gapStack (pp t') = gapStack (pp t)" "bufferWaterline (pp t') = bufferWaterline (pp t)"
    "chunk_ok (pp t) \<longrightarrow> chunk_ok (pp t')" "consumedAfterSnapshot t' = consumedAfterSnapshot t"
  shows "can_return t \<Longrightarrow> can_return t'"
  using assms retreat_same_pos [OF assms(1-5)] by (simp add: can_return_def)

lemma back_simps [pre_rules]:
  "can_return t \<Longrightarrow> can_return (set_state s t)" "can_return t \<Longrightarrow> can_return (tok_err c t)"
  "can_return t \<Longrightarrow> can_return (set_token k t)" "can_return t \<Longrightarrow> can_return (throw t)"
  "can_return t \<Longrightarrow> can_return (createCharacterToken ty x t)"
  by (rule back_cong [of _ t]; simp add: set_state_def tok_err_def set_token_def throw_def
      createCharacterToken_def chunk_ok_def)+

lemma back_drop: "can_return t \<Longrightarrow> can_return (drop_chunk t)"
  by (auto simp: can_return_def drop_chunk_def dropParsedChunk_def gaps_ok_def chunk_ok_def
      retreat_def split: prod.splits)

lemma back_notify: "can_return t \<Longrightarrow> can_return (notify on ev t)"
  by (rule back_cong [of _ t]) (simp_all add: notify_def split: prod.split)

lemma back_emitChars [pre_rules]:
  assumes "can_return t"
  shows "can_return (emitChars on s t)"
proof -
  have "can_return (emitCurrentCharacterToken on t)"
    using assms back_notify [OF assms] by (auto simp: emitCurrentCharacterToken_def can_return_def split: option.split)
  moreover have "can_return (t\<lparr>currentCharacterToken := x\<rparr>)" for x using assms by (simp add: can_return_def)
  ultimately show ?thesis using assms
    by (auto simp: emitChars_def appendCharToCurrentCharacterToken_def pre_rules back_drop
        split: option.split)
qed

text \<open>Looking ahead changes at most \<open>endOfChunkHit\<close>, and sets it only before the last chunk.\<close>

definition looked :: "preprocessor \<Rightarrow> preprocessor \<Rightarrow> bool" where
  "looked p p' \<longleftrightarrow> (\<exists>b. p' = p\<lparr>endOfChunkHit := b\<rparr>) \<and> (chunk_ok p \<longrightarrow> chunk_ok p')"

lemma looked_startsWith: "looked p (snd (pp_startsWith w cs p))"
  by (auto simp: looked_def pp_startsWith_def chunk_ok_def intro: exI [of _ "endOfChunkHit p"])

lemma looked_peek: "looked p (snd (peek k p))"
  by (auto simp: looked_def peek_def chunk_ok_def Let_def intro: exI [of _ "endOfChunkHit p"])

lemma looked_pre: "looked (pp t) p \<Longrightarrow> pre lc r t \<Longrightarrow> pre lc r (t\<lparr>pp := p\<rparr>)"
  by (auto simp: looked_def gaps_ok_def remaining_def pre_def remn_def noeof_def)

lemma looked_back: "looked (pp t) p \<Longrightarrow> can_return t \<Longrightarrow> can_return (t\<lparr>pp := p\<rparr>)"
  by (rule back_cong [of _ t]) (auto simp: looked_def)

lemma hibernation:
  assumes "pre lc r t" and "can_return t" and "ensureHibernation t = (h, t')"
  shows "if h then post lc e r t' else t' = t"
proof (cases "endOfChunkHit (pp t)")
  case True
  then have "t' = (unconsume (consumedAfterSnapshot t) t)\<lparr>active := False\<rparr>" "h"
    using assms(3) by (auto simp: ensureHibernation_def)
  then show ?thesis using assms(1,2) True
    by (simp add: post_def pre_def can_return_def unconsume_def noeof_def frame_simps)
next
  case False
  then show ?thesis using assms(3) by (simp add: ensureHibernation_def)
qed

lemma pre_advanceBy [pre_rules]:
  assumes "pre lc r t"
  shows "pre lc r (advanceBy n t)"
proof -
  have "remaining (((\<lambda>p. snd (advance p)) ^^ n) (pp t)) \<le> remaining (pp t)"
    using src.nexts_left [of n "pp t"] by simp
  then have "nat (remaining (((\<lambda>p. snd (advance p)) ^^ n) (pp t))) \<le> r"
    using assms by (auto simp: pre_def remn_def)
  then show ?thesis using assms
    by (simp add: pre_def advanceBy_def remn_def noeof_def src.nexts_consistent)
qed

lemma pre_consume [pre_rules]:
  assumes "pre lc r t"
  shows "pre lc r (snd (consume t))"
proof -
  have "remn (snd (consume t)) \<le> r"
    using assms src.next_left [of "pp t"] by (auto simp: pre_def remn_def)
  then show ?thesis using assms
    by (simp add: pre_def noeof_def src.next_consistent)
qed

text \<open>Where the end of the input has been read, nothing is left to match.\<close>

definition at_end :: "cp \<Rightarrow> 'h tokenizer \<Rightarrow> bool" where
  "at_end e t \<longleftrightarrow> (e = EOF \<longrightarrow> remaining (pp t) \<le> 0)"

lemma startsWith_at_end:
  "remaining p \<le> 0 \<Longrightarrow> w \<noteq> [] \<Longrightarrow> \<not> fst (pp_startsWith w cs p)"
  by (cases w) (auto simp: pp_startsWith_def remaining_def)

lemma peek_at_end: "remaining p \<le> 0 \<Longrightarrow> fst (peek k p) = EOF"
  by (auto simp: peek_def remaining_def)

lemma looked_remaining: "looked p p' \<Longrightarrow> remaining p' = remaining p"
  by (auto simp: looked_def remaining_def)

lemma handleSpecialEndTag_post:
  assumes "pre lc r t" and "can_return t" and "at_end e t" and "handleSpecialEndTag on t = (text, t')"
  shows "if text then pre lc r t' else post lc e r t'"
proof -
  obtain m p where sw: "pp_startsWith (lastStartTagName t) False (pp t) = (m, p)" by fastforce
  let ?t0 = "t\<lparr>pp := p\<rparr>"
  let ?t1 = "set_tagName (lastStartTagName t) (createEndTagToken ?t0)"
  have l: "looked (pp t) p" using looked_startsWith [of "pp t" "lastStartTagName t" False] sw by simp
  have t0: "pre lc r ?t0" "can_return ?t0" using assms(1,2) looked_pre [OF l] looked_back [OF l] by simp_all
  have pp1: "pp ?t1 = p"
    by (simp add: set_tagName_def createEndTagToken_def set_token_def)
  have t1: "pre lc r ?t1" "can_return ?t1"
  proof -
    show "pre lc r ?t1" using t0 by (simp add: pre_rules)
    show "can_return ?t1" using t0(2)
      by (simp add: set_tagName_def createEndTagToken_def set_token_def can_return_def)
  qed
  obtain c p2 where pk: "peek (length (lastStartTagName t)) p = (c, p2)" by fastforce
  have l2: "looked (pp ?t1) p2"
    using looked_peek [of p "length (lastStartTagName t)"] pk pp1 by simp
  let ?t2 = "?t1\<lparr>pp := p2\<rparr>"
  have t2: "pre lc r ?t2" "can_return ?t2" using t1 looked_pre [OF l2] looked_back [OF l2] by simp_all
  have e: "e \<noteq> EOF" if "c \<noteq> EOF"
    using that pk assms(3) peek_at_end [of p "length (lastStartTagName t)"] looked_remaining [OF l]
    by (auto simp: at_end_def)
  note eq = assms(4) [unfolded handleSpecialEndTag_def Let_def sw prod.case pp1 pk]
  show ?thesis
  proof (cases "\<not> m")
    case True
    then obtain h where "ensureHibernation ?t0 = (h, t')" "text = (\<not> h)"
      using eq by (auto split: prod.splits)
    then show ?thesis using hibernation [OF t0, of h t' e] t0(1) by (cases h) auto
  next
    case m: False
    show ?thesis
    proof (cases "is_whitespace c \<or> c = SOLIDUS \<or> c = GREATER_THAN_SIGN")
      case True
      then have "c \<noteq> EOF" by auto
      with e have "e \<noteq> EOF" by blast
      then show ?thesis using eq m True t2(1)
        by (auto simp: pre_rules post_rules split: if_splits)
    next
      case False
      then obtain h where "ensureHibernation ?t2 = (h, t')" "text = (\<not> h)"
        using eq m by (auto split: prod.splits)
      then show ?thesis using hibernation [OF t2, of h t' e] t2(1) by (cases h) auto
    qed
  qed
qed

lemma post_end_tag_name [post_rules]:
  assumes "pre lc r t" and "can_return t" and "at_end e t"
  shows "post lc e r (stateRcdataEndTagName on e t)" and "post lc e r (stateRawtextEndTagName on e t)"
    and "post lc e r (stateScriptDataEndTagName on e t)"
    and "post lc e r (stateScriptDataEscapedEndTagName on e t)"
  using handleSpecialEndTag_post [OF assms, of on]
  by (auto simp: stateRcdataEndTagName_def stateRawtextEndTagName_def stateScriptDataEndTagName_def
      stateScriptDataEscapedEndTagName_def pre_rules post_rules split: prod.split)

lemma at_end_set_state [pre_rules]: "at_end e (set_state s t) = at_end e t"
  by (simp add: at_end_def set_state_def)

lemma at_end_class [pre_rules]: "is_ascii_letter e \<Longrightarrow> at_end e t" "is_ascii_alnum e \<Longrightarrow> at_end e t"
  by (auto simp: at_end_def)

lemma post_end_tag_open [post_rules]:
  assumes "pre lc r t" and "can_return t"
  shows "post lc e r (stateRcdataEndTagOpen on e t)" and "post lc e r (stateRawtextEndTagOpen on e t)"
    and "post lc e r (stateScriptDataEndTagOpen on e t)"
    and "post lc e r (stateScriptDataEscapedEndTagOpen on e t)"
  using assms
  by (simp_all add: stateRcdataEndTagOpen_def stateRawtextEndTagOpen_def stateScriptDataEndTagOpen_def
      stateScriptDataEscapedEndTagOpen_def pre_rules post_rules)

lemma pre_emit_next [pre_rules]: "pre lc r t \<Longrightarrow> pre lc r (emit_next on n t)"
proof (induction on n t rule: emit_next.induct)
  case (2 on n t)
  then show ?case
    using pre_emitCodePoint [OF pre_consume [OF "2.prems"]]
    by (cases "consume t") auto
qed simp

lemma script_word_ahead_pre:
  assumes "pre lc r t" and "can_return t" and "at_end e t" and "script_word_ahead t = (m, t')"
  shows "pre lc r t' \<and> can_return t' \<and> (m \<longrightarrow> e \<noteq> EOF)"
proof -
  obtain b p where sw: "pp_startsWith (js ''script'') False (pp t) = (b, p)" by fastforce
  obtain c p2 where pk: "peek 6 p = (c, p2)" by fastforce
  have l: "looked (pp t) p" using looked_startsWith [of "pp t" "js ''script''" False] sw by simp
  moreover have "looked p p2" using looked_peek [of p 6] pk by simp
  ultimately have l2: "looked (pp t) p2" by (auto simp: looked_def)
  have "e \<noteq> EOF" if b
    using that assms(3) sw startsWith_at_end [of "pp t" "js ''script''" False]
    by (auto simp: at_end_def js_def)
  then show ?thesis
    using assms(1,2,4) sw pk looked_pre [OF l] looked_back [OF l] looked_pre [OF l2]
      looked_back [OF l2]
    by (auto simp: script_word_ahead_def split: if_splits)
qed

lemma post_double_escape [post_rules]:
  assumes "pre lc r t" and "can_return t" and "at_end e t"
  shows "post lc e r (stateScriptDataDoubleEscapeStart on e t)"
    and "post lc e r (stateScriptDataDoubleEscapeEnd on e t)"
proof -
  obtain m t1 where w: "script_word_ahead t = (m, t1)" by fastforce
  obtain h t2 where hib: "ensureHibernation t1 = (h, t2)" by fastforce
  have t1: "pre lc r t1" "can_return t1" "m \<Longrightarrow> e \<noteq> EOF"
    using script_word_ahead_pre [OF assms w] by auto
  have t2: "if h then post lc e r t2 else t2 = t1" using hibernation [OF t1(1,2) hib] .
  show "post lc e r (stateScriptDataDoubleEscapeStart on e t)"
    using t1 t2 by (cases h) (simp_all add: stateScriptDataDoubleEscapeStart_def w hib pre_rules post_rules)
  show "post lc e r (stateScriptDataDoubleEscapeEnd on e t)"
    using t1 t2 by (cases h) (simp_all add: stateScriptDataDoubleEscapeEnd_def w hib pre_rules post_rules)
qed

lemma post_escaped_lt [post_rules]:
  assumes "pre lc r t" and "can_return t"
  shows "post lc e r (stateScriptDataEscapedLessThanSign on e t)"
  using assms by (simp add: stateScriptDataEscapedLessThanSign_def pre_rules post_rules)

lemma consumeSequence_pre:
  assumes "pre lc r t" and "can_return t" and "at_end e t" and "w \<noteq> []"
    and "consumeSequenceIfMatch w cs t = (m, t')"
  shows "pre lc r t' \<and> (if m then e \<noteq> EOF else can_return t' \<and> at_end e t')"
proof -
  obtain b p where sw: "pp_startsWith w cs (pp t) = (b, p)" by fastforce
  have l: "looked (pp t) p" using looked_startsWith [of "pp t" w cs] sw by simp
  have p: "pre lc r (t\<lparr>pp := p\<rparr>)" "can_return (t\<lparr>pp := p\<rparr>)"
    using looked_pre [OF l] looked_back [OF l] assms(1,2) by simp_all
  have "e \<noteq> EOF" if b
    using that assms(3,4) sw startsWith_at_end [of "pp t" w cs] by (auto simp: at_end_def)
  then show ?thesis
    using assms(3,5) sw p looked_remaining [OF l] pre_advanceBy [OF p(1)]
    by (auto simp: consumeSequenceIfMatch_def at_end_def split: if_splits)
qed

lemma post_markup [post_rules]:
  assumes "pre lc r t" and "can_return t" and "at_end e t"
  shows "post lc e r (stateMarkupDeclarationOpen on e t)"
proof -
  obtain m1 t1 where 1: "consumeSequenceIfMatch (js ''--'') True t = (m1, t1)" by fastforce
  obtain m2 t2 where 2: "consumeSequenceIfMatch (js ''doctype'') False t1 = (m2, t2)" by fastforce
  obtain m3 t3 where 3: "consumeSequenceIfMatch (js ''[CDATA['') True t2 = (m3, t3)" by fastforce
  obtain h t4 where 4: "ensureHibernation t3 = (h, t4)" by fastforce
  note p1 = consumeSequence_pre [OF assms _ 1]
  note p2 = consumeSequence_pre [of lc r t1 e, OF _ _ _ _ 2]
  note p3 = consumeSequence_pre [of lc r t2 e, OF _ _ _ _ 3]
  note p4 = hibernation [of lc r t3, OF _ _ 4, of e]
  have ne: "js ''--'' \<noteq> []" "js ''doctype'' \<noteq> []" "js ''[CDATA['' \<noteq> []" by (simp_all add: js_def)
  show ?thesis
    using p1 p2 p3 p4 ne
    by (simp add: stateMarkupDeclarationOpen_def 1 2 3 4 pre_rules post_rules split: if_splits)
qed

lemma post_after_doctype_name [post_rules]:
  assumes "pre lc r t" and "can_return t" and "at_end e t"
  shows "post lc e r (stateAfterDoctypeName on e t)"
proof -
  obtain m1 t1 where 1: "consumeSequenceIfMatch (js ''public'') False t = (m1, t1)" by fastforce
  obtain m2 t2 where 2: "consumeSequenceIfMatch (js ''system'') False t1 = (m2, t2)" by fastforce
  obtain h t3 where 3: "ensureHibernation t2 = (h, t3)" by fastforce
  note p1 = consumeSequence_pre [OF assms _ 1]
  note p2 = consumeSequence_pre [of lc r t1 e, OF _ _ _ _ 2]
  note p3 = hibernation [of lc r t2, OF _ _ 3, of e]
  have ne: "js ''public'' \<noteq> []" "js ''system'' \<noteq> []" by (simp_all add: js_def)
  show ?thesis
    using p1 p2 p3 ne assms(1)
    by (simp add: stateAfterDoctypeName_def 1 2 3 pre_rules post_rules split: if_splits)
qed

section \<open>Character references\<close>

lemma post_ambiguous [post_rules]:
  assumes "pre lc r t"
  shows "post lc e r (stateAmbiguousAmpersand on e t)"
  using assms by (simp add: stateAmbiguousAmpersand_def pre_rules post_rules)

lemma post_numeric_end [post_rules]:
  assumes "pre lc r t"
  shows "post lc e r (stateNumericCharacterReferenceEnd on e t)"
proof -
  have "pre lc r ((case err of Some code \<Rightarrow> tok_err code t | None \<Rightarrow> t)\<lparr>charRefCode := c\<rparr>)" for err c
    using assms by (simp add: pre_rules split: option.split)
  then show ?thesis
    by (simp add: stateNumericCharacterReferenceEnd_def Let_def pre_rules post_rules split: prod.split)
qed

lemma pre_post_hex [post_rules]:
  "pre lc r t \<Longrightarrow> is_upper_hex e \<Longrightarrow> post lc e r t" "pre lc r t \<Longrightarrow> is_lower_hex e \<Longrightarrow> post lc e r t"
  "pre lc r t \<Longrightarrow> is_ascii_digit e \<Longrightarrow> post lc e r t"
  by (auto intro: pre_post)

lemma post_digits [post_rules]:
  assumes "pre lc r t"
  shows "post lc e r (stateHexademicalCharacterReference on e t)"
    and "post lc e r (stateDecimalCharacterReference on e t)"
  using assms by (simp_all add: stateHexademicalCharacterReference_def
      stateDecimalCharacterReference_def pre_rules post_rules)

text \<open>The loop over a named reference only reads, and gives back what follows the match.\<close>

definition snap :: "preprocessor \<Rightarrow> 'h tokenizer \<Rightarrow> bool" where
  "snap p0 t \<longleftrightarrow> 0 \<le> consumedAfterSnapshot t \<and> moved (nat (consumedAfterSnapshot t)) p0 (pp t)"

lemma snap_consume: "snap p0 t \<Longrightarrow> snap p0 (snd (consume t))"
  using src.moved_next [of "nat (consumedAfterSnapshot t)" p0 "pp t"]
  by (simp add: snap_def nat_add_distrib)

lemma snap_unconsume:
  assumes "snap p0 t" and "gaps_ok p0" and "0 \<le> n" and "n \<le> consumedAfterSnapshot t"
  shows "snap p0 (unconsume n t)"
proof -
  have "nat (consumedAfterSnapshot t) = nat (consumedAfterSnapshot t - n) + nat n"
    using assms(3,4) by simp
  then have "moved (nat (consumedAfterSnapshot t - n)) p0 (retreat n (pp t))"
    using src.moved_back [of "nat (consumedAfterSnapshot t - n)" "nat n" p0 "pp t"] assms
    by (simp add: snap_def)
  then show ?thesis using assms(4) by (simp add: snap_def unconsume_def)
qed

lemma snap_looked: "snap p0 t \<Longrightarrow> looked (pp t) p \<Longrightarrow> snap p0 (t\<lparr>pp := p\<rparr>)"
  by (auto simp: snap_def looked_def moved_def gaps_def)

lemma attr_continues_looked:
  obtains p where "snd (attr_continues e t) = t\<lparr>pp := p\<rparr>" and "looked (pp t) p"
proof (cases "e \<noteq> SEMICOLON \<and> isCharacterReferenceInAttribute t")
  case True
  then have "snd (attr_continues e t) = t\<lparr>pp := snd (peek 1 (pp t))\<rparr>"
    by (simp add: attr_continues_def split: prod.split)
  then show ?thesis using that looked_peek by blast
next
  case False
  moreover have "looked (pp t) (pp t)" by (auto simp: looked_def intro: exI [of _ "endOfChunkHit (pp t)"])
  ultimately show ?thesis using that [of "pp t"] by (auto simp: attr_continues_def)
qed

text \<open>Reading and looking ahead leave everything but the stream alone.\<close>

definition only_read :: "'h tokenizer \<Rightarrow> 'h tokenizer \<Rightarrow> bool" where
  "only_read t t' \<longleftrightarrow> (\<exists>p n. t' = t\<lparr>pp := p, consumedAfterSnapshot := n\<rparr>)"

lemma only_readI: "t' = t\<lparr>pp := p, consumedAfterSnapshot := n\<rparr> \<Longrightarrow> only_read t t'"
  unfolding only_read_def by blast

lemma only_readE:
  assumes "only_read t t'"
  obtains p n where "t' = t\<lparr>pp := p, consumedAfterSnapshot := n\<rparr>"
  using assms unfolding only_read_def by blast

lemma only_read_trans:
  assumes "only_read t u" and "only_read u v"
  shows "only_read t v"
proof -
  obtain p n where u: "u = t\<lparr>pp := p, consumedAfterSnapshot := n\<rparr>" using assms(1) by (rule only_readE)
  obtain q m where v: "v = u\<lparr>pp := q, consumedAfterSnapshot := m\<rparr>" using assms(2) by (rule only_readE)
  show ?thesis by (rule only_readI [where p = q and n = m]) (simp add: u v)
qed

lemma only_read_consume: "only_read t (snd (consume t))"
  by (rule only_readI [where p = "snd (advance (pp t))" and n = "consumedAfterSnapshot t + 1"])
     (simp add: consume_def split: prod.split)

lemma only_read_refl: "only_read t t" "only_read t (t\<lparr>pp := p\<rparr>)" "only_read t (unconsume n t)"
proof -
  show "only_read t t"
    by (rule only_readI [where p = "pp t" and n = "consumedAfterSnapshot t"]) simp
  show "only_read t (t\<lparr>pp := p\<rparr>)"
    by (rule only_readI [where p = p and n = "consumedAfterSnapshot t"]) simp
  show "only_read t (unconsume n t)"
    by (rule only_readI [where p = "retreat n (pp t)" and n = "consumedAfterSnapshot t - n"])
       (simp add: unconsume_def)
qed

lemma match_loop_snap:
  assumes "snap p0 t" and "0 \<le> n" and "n + 1 \<le> consumedAfterSnapshot t"
    and "match_loop lm a i e acc n r t = (acc', n', r', t')"
  shows "snap p0 t' \<and> 0 \<le> n' \<and> n' + 1 \<le> consumedAfterSnapshot t' \<and> only_read t t'"
  using assms
proof (induction lm a i e acc n r t rule: match_loop.induct)
  case (1 lm a i e acc n r t)
  note prems = "1.prems"
  obtain p where k: "snd (attr_continues e t) = t\<lparr>pp := p\<rparr>" "looked (pp t) p"
    by (rule attr_continues_looked)
  let ?c = "consume t" and ?d = "consume (t\<lparr>pp := p\<rparr>)"
  have c: "snap p0 (snd ?c)" "only_read t (snd ?c)"
    using snap_consume [OF prems(1)] only_read_consume by blast+
  have d: "snap p0 (snd ?d)" "only_read t (snd ?d)"
    using snap_consume [OF snap_looked [OF prems(1) k(2)]] only_read_consume only_read_refl(2)
      only_read_trans by blast+
  consider (stop) "a < 0" | (undef) "\<not> a < 0" "determineBranch lm i (a + 1) e = None"
    | (miss) a1 where "\<not> a < 0" "determineBranch lm i (a + 1) e = Some a1" "a1 < 0"
    | (inner) a1 where "\<not> a < 0" "determineBranch lm i (a + 1) e = Some a1" "\<not> a1 < 0"
        "VALUE_LENGTH (node_word lm a1) = 0"
    | (leaf) a1 where "\<not> a < 0" "determineBranch lm i (a + 1) e = Some a1" "\<not> a1 < 0"
        "VALUE_LENGTH (node_word lm a1) \<noteq> 0" "VALUE_LENGTH (node_word lm a1) - 1 = 0"
    | (more) a1 where "\<not> a < 0" "determineBranch lm i (a + 1) e = Some a1" "\<not> a1 < 0"
        "VALUE_LENGTH (node_word lm a1) \<noteq> 0" "VALUE_LENGTH (node_word lm a1) - 1 \<noteq> 0"
    by (cases "determineBranch lm i (a + 1) e") fastforce+
  then show ?case
  proof cases
    case stop
    then show ?thesis using prems by (auto simp: match_loop.simps [of lm a i] only_read_refl)
  next
    case undef
    then show ?thesis using prems c by (auto simp: match_loop.simps [of lm a i])
  next
    case miss
    then show ?thesis using prems by (auto simp: match_loop.simps [of lm a i] only_read_refl)
  next
    case inner
    have "snap p0 t' \<and> 0 \<le> n' \<and> n' + 1 \<le> consumedAfterSnapshot t' \<and> only_read (snd ?c) t'"
    proof (rule "1.IH"(1) [OF inner(1-3) refl refl inner(4) refl])
      show "match_loop lm a1 (node_word lm a1) (fst ?c) acc (n + 1) r (snd ?c) = (acc', n', r', t')"
        using prems(4) inner by (simp add: match_loop.simps [of lm a i] Let_def)
    qed (use prems c in auto)
    then show ?thesis using c(2) only_read_trans by blast
  next
    case leaf
    then have "t' = snd ?d" "n' = (if fst (attr_continues e t) then n + 1 else 0)"
      using prems(4) k(1) by (auto simp: match_loop.simps [of lm a i] Let_def)
    then show ?thesis using prems d by auto
  next
    case more
    let ?k = "attr_continues e t" and ?l = "VALUE_LENGTH (node_word lm a1) - 1"
    have "snap p0 t' \<and> 0 \<le> n' \<and> n' + 1 \<le> consumedAfterSnapshot t' \<and> only_read (snd ?d) t'"
    proof (rule "1.IH"(2) [OF more(1-3) refl refl more(4) refl refl refl refl refl refl _ more(5),
            unfolded k(1), OF refl])
      show "match_loop lm (a1 + ?l) (node_word lm a1) (fst ?d)
          (if fst ?k then Some [AMPERSAND] else Some (node_values lm a1 ?l))
          (if fst ?k then n + 1 else 0) (if fst ?k then r else e \<noteq> SEMICOLON) (snd ?d) =
          (acc', n', r', t')"
        using prems(4) more k(1) by (simp add: match_loop.simps [of lm a i] Let_def)
    qed (use prems d in auto)
    then show ?thesis using d(2) only_read_trans by blast
  qed
qed

lemma pre_snap:
  assumes "snap p0 t" and "gaps_ok p0" and "pre lc r u" and "only_read u t"
    and "lastChunkWritten p0 = lc"
  shows "pre lc (nat (remaining p0)) t"
proof -
  obtain p n where t: "t = u\<lparr>pp := p, consumedAfterSnapshot := n\<rparr>" using assms(4) by (rule only_readE)
  have m: "moved (nat (consumedAfterSnapshot t)) p0 (pp t)" using assms(1) by (simp add: snap_def)
  have "gaps_ok (pp t)" "remaining (pp t) \<le> remaining p0" "lastChunkWritten (pp t) = lastChunkWritten p0"
    using src.moved_consistent [OF m assms(2)] src.moved_left [OF m] m
    by (simp_all add: moved_def split: if_splits)
  then show ?thesis using assms(3,5) by (simp add: t pre_def remn_def noeof_def)
qed

lemma hibernation_snap:
  assumes "pre lc r t" and "snap p0 t" and "gaps_ok p0" and "ensureHibernation t = (h, t')"
  shows "if h then post lc e r t' \<and> \<not> active t' else t' = t"
proof (cases "endOfChunkHit (pp t)")
  case True
  then have t': "t' = (unconsume (consumedAfterSnapshot t) t)\<lparr>active := False\<rparr>" "h"
    using assms(4) by (auto simp: ensureHibernation_def)
  have "snap p0 (unconsume (consumedAfterSnapshot t) t)"
    using snap_unconsume [OF assms(2,3)] assms(2) by (simp add: snap_def)
  then have "gaps_ok (pp (unconsume (consumedAfterSnapshot t) t))"
    using src.moved_consistent [OF _ assms(3)] by (auto simp: snap_def)
  then show ?thesis using assms(1) True t'
    by (simp add: post_def pre_def unconsume_def noeof_def frame_simps)
next
  case False
  then show ?thesis using assms(4) by (simp add: ensureHibernation_def)
qed

lemma pre_fold_flush [pre_rules]: "pre lc r t \<Longrightarrow> pre lc r (fold (flushCodePoint on) cs t)"
  by (induction cs arbitrary: t) (simp_all add: pre_rules)

lemma snap_err: "snap p0 (tok_err c t) = snap p0 t"
  by (simp add: snap_def tok_err_def moved_def gaps_def)

lemma err_consumed: "consumedAfterSnapshot (tok_err c t) = consumedAfterSnapshot t"
  by (simp add: tok_err_def)

lemma matchNamed_pre:
  assumes "pre lc r t" and "snap p0 t" and "gaps_ok p0" and "1 \<le> consumedAfterSnapshot t"
    and "lastChunkWritten p0 = lc"
    and "matchNamedCharacterReference lm e t = (m, t')"
  shows "pre lc (nat (remaining p0)) t' \<and> snap p0 t'"
proof -
  obtain acc n r' t1 where ml: "match_loop lm 0 (node_word lm 0) e None 0 False t = (acc, n, r', t1)"
    using prod_cases4 by blast
  have l: "snap p0 t1" "0 \<le> n" "n + 1 \<le> consumedAfterSnapshot t1" "only_read t t1"
    using match_loop_snap [OF assms(2) _ _ ml] assms(4) by auto
  let ?t2 = "unconsume n t1"
  have t2: "snap p0 ?t2" "1 \<le> consumedAfterSnapshot ?t2" "only_read t ?t2"
    using snap_unconsume [OF l(1) assms(3) l(2)] l only_read_trans [OF l(4) only_read_refl(3)]
    by (auto simp: unconsume_def)
  define t3 where "t3 = (if r' \<and> \<not> endOfChunkHit (pp ?t2)
      then tok_err missingSemicolonAfterCharacterReference ?t2 else ?t2)"
  have t3: "snap p0 t3" "pre lc (nat (remaining p0)) t3" "1 \<le> consumedAfterSnapshot t3"
    using t2 pre_snap [OF t2(1) assms(3,1) t2(3) assms(5)] by (simp_all add: t3_def snap_err pre_rules err_consumed)
  have "t' = unconsume 1 t3" using assms(6) ml by (auto simp: matchNamedCharacterReference_def t3_def Let_def)
  moreover have "snap p0 (unconsume 1 t3)" using snap_unconsume [OF t3(1) assms(3)] t3(3) by simp
  moreover from this have "pre lc (nat (remaining p0)) (unconsume 1 t3)"
    using pre_snap [OF _ assms(3) t3(2) only_read_refl(3) assms(5)] by blast
  ultimately show ?thesis by simp
qed

lemma pre_return:
  assumes "pre lc r t"
  shows "pre lc r (set_state (returnState t) t)" and "returnState t \<in> return_states"
    and "tstate (set_state s t) = s"
proof -
  show r: "returnState t \<in> return_states" using assms by (simp add: pre_def)
  then have "returnState t \<noteq> HEXADEMICAL_CHARACTER_REFERENCE_START" by (auto simp: return_states_def)
  then show "pre lc r (set_state (returnState t) t)" using assms by (rule pre_set_state [rotated])
  show "tstate (set_state s t) = s" by (simp add: set_state_def)
qed

lemma named_post:
  assumes "pre lc r t" and "snap p0 t" and "gaps_ok p0" and "1 \<le> consumedAfterSnapshot t"
    and "lastChunkWritten p0 = lc"
  shows "let u = stateNamedCharacterReference lm on e t; r0 = nat (remaining p0) in
    post lc e r0 u \<and> \<not> active u \<or>
    pre lc r0 u \<and> (tstate u \<in> return_states \<or> tstate u = AMBIGUOUS_AMPERSAND)"
proof -
  obtain m t1 where mt: "matchNamedCharacterReference lm e t = (m, t1)" by fastforce
  obtain h t2 where hib: "ensureHibernation t1 = (h, t2)" by fastforce
  have t1: "pre lc (nat (remaining p0)) t1" "snap p0 t1" using matchNamed_pre [OF assms mt] by auto
  show ?thesis
  proof (cases h)
    case True
    then show ?thesis using hibernation_snap [OF t1 assms(3) hib, of e]
      by (simp add: stateNamedCharacterReference_def mt hib Let_def)
  next
    case False
    then have "t2 = t1" using hibernation_snap [OF t1 assms(3) hib] by simp
    then have f: "pre lc (nat (remaining p0)) (fold (flushCodePoint on) cs t2)"
      and amp: "pre lc (nat (remaining p0)) (set_state AMBIGUOUS_AMPERSAND (flushCodePoint on AMPERSAND t2))" for cs
      using t1(1) by (simp_all add: pre_rules)
    show ?thesis
      using False amp pre_return [OF f] pre_return(3) [OF amp]
      by (cases m) (simp_all add: stateNamedCharacterReference_def mt hib Let_def set_state_def)
  qed
qed

section \<open>The start of a hexadecimal reference\<close>

text \<open>A character below the surrogates is read without a gap behind it, inside the text.\<close>

lemma advance_read_result:
  assumes "is_surrogate e \<longrightarrow> 0 \<le> pos q"
  shows "pos q < int (length (html q)) \<Longrightarrow> pos (snd (advance_read e q)) < int (length (html q))"
    and "fst (advance_read e q) < 55296 \<Longrightarrow> 0 \<le> fst (advance_read e q) \<Longrightarrow>
           pos (snd (advance_read e q)) = pos q \<and> lastGapPos (snd (advance_read e q)) = lastGapPos q \<and>
           html (snd (advance_read e q)) = html q"
proof -
  let ?q = "q\<lparr>skipNextNewLine := False\<rparr>"
  obtain e' r where ps: "processSurrogate e ?q = (e', r)" by fastforce
  have "pos q < int (length (html q)) \<Longrightarrow> pos r < int (length (html q))"
    using ps by (auto simp: processSurrogate_def addGap_def frame_simps charCodeAt_def
        is_surrogate_pair_tail_def Let_def split: if_splits)
  then show "pos q < int (length (html q)) \<Longrightarrow> pos (snd (advance_read e q)) < int (length (html q))"
    using ps by (simp add: advance_read_def Let_def frame_simps)
  have "0 \<le> e' \<Longrightarrow> e' < 55296 \<Longrightarrow> \<not> is_surrogate e"
    using ps by (auto simp: processSurrogate_def is_surrogate_pair_tail_def is_surrogate_def
        surrogate_pair_code_point_def Let_def split: if_splits)
  then show "fst (advance_read e q) < 55296 \<Longrightarrow> 0 \<le> fst (advance_read e q) \<Longrightarrow>
      pos (snd (advance_read e q)) = pos q \<and> lastGapPos (snd (advance_read e q)) = lastGapPos q \<and>
      html (snd (advance_read e q)) = html q"
    using ps by (simp add: advance_read_def Let_def frame_simps split: if_splits)
qed

lemma advance_read_eof:
  assumes "e \<noteq> EOF"
  shows "fst (advance_read e q) \<noteq> EOF \<or> endOfChunkHit (snd (advance_read e q))"
proof -
  obtain e' r where ps: "processSurrogate e (q\<lparr>skipNextNewLine := False\<rparr>) = (e', r)" by fastforce
  then have "is_surrogate e \<Longrightarrow> e' \<noteq> EOF \<or> endOfChunkHit r"
    by (auto simp: processSurrogate_def is_surrogate_def is_surrogate_pair_tail_def
        surrogate_pair_code_point_def Let_def split: if_splits)
  then show ?thesis using ps assms by (auto simp: advance_read_def Let_def frame_simps)
qed

text \<open>\<open>advance\<close> without the skipped LF.\<close>

lemma advance_plain:
  assumes "p2 = advance_pos p" and "e = charCodeAt (html p2) (pos p2)"
    and "\<not> (pos p2 < int (length (html p2)) \<and> e = LINE_FEED \<and> skipNextNewLine p2)"
  shows "advance p =
    (if pos p2 \<ge> int (length (html p2)) then (EOF, p2\<lparr>endOfChunkHit := \<not> lastChunkWritten p2\<rparr>)
     else if e = CARRIAGE_RETURN then (LINE_FEED, p2\<lparr>isEol := True, skipNextNewLine := True\<rparr>)
     else advance_read e (if e = LINE_FEED then p2\<lparr>isEol := True\<rparr> else p2))"
  using assms by (subst advance.simps) (auto simp: Let_def)

lemma advance_char:
  assumes "gaps_ok p" and "0 \<le> fst (advance p)" and "fst (advance p) < 55296"
  shows "lastGapPos (snd (advance p)) < pos (snd (advance p)) \<and>
         pos (snd (advance p)) < int (length (html (snd (advance p))))"
  using assms
proof (induction p rule: advance.induct)
  case (1 p)
  let ?p2 = "advance_pos p"
  let ?e = "charCodeAt (html ?p2) (pos ?p2)"
  let ?q = "addGap (?p2\<lparr>isEol := True, line := line ?p2 - 1, skipNextNewLine := False\<rparr>)"
  note fr = advance_pos_frame [of p]
  have g: "lastGapPos p \<le> pos p" "gaps_ok ?q"
    using "1.prems"(1) by (simp_all add: gaps_ok_def addGap_def fr)
  have inside: "\<not> pos ?p2 \<ge> int (length (html ?p2))"
    using "1.prems"(2) by (auto simp: advance.simps [of p] Let_def)
  show ?case
  proof (cases "?e = LINE_FEED \<and> skipNextNewLine ?p2")
    case True
    then have eq: "advance p = advance ?q" using inside by (subst advance.simps) (simp add: Let_def)
    have "?e \<noteq> CARRIAGE_RETURN" using True by auto
    from "1.IH" [OF refl inside refl this True g(2)] show ?thesis using "1.prems"(2,3) unfolding eq by blast
  next
    case False
    let ?r = "if ?e = LINE_FEED then ?p2\<lparr>isEol := True\<rparr> else ?p2"
    have eq: "advance p = (if ?e = CARRIAGE_RETURN
        then (LINE_FEED, ?p2\<lparr>isEol := True, skipNextNewLine := True\<rparr>) else advance_read ?e ?r)"
      using advance_plain [OF refl refl, of p] False inside by simp
    show ?thesis
    proof (cases "?e = CARRIAGE_RETURN")
      case True
      then show ?thesis using inside g(1) unfolding eq by (simp add: fr)
    next
      case cr: False
      have "pos ?r = pos p + 1" "lastGapPos ?r = lastGapPos p" "html ?r = html p" by (simp_all add: fr)
      moreover have "pos ?r \<ge> 0" if "is_surrogate ?e"
        using that by (auto simp: charCodeAt_def is_surrogate_def split: if_splits)
      ultimately show ?thesis
        using advance_read_result(2) [of ?e ?r] "1.prems"(2,3) cr inside g(1) unfolding eq
        by (simp add: fr)
    qed
  qed
qed

lemma advance_inside:
  assumes "pos p < int (length (html p))"
  shows "pos (snd (advance p)) \<le> int (length (html p))"
  using assms
proof (induction p rule: advance.induct)
  case (1 p)
  let ?p2 = "advance_pos p"
  let ?e = "charCodeAt (html ?p2) (pos ?p2)"
  let ?q = "addGap (?p2\<lparr>isEol := True, line := line ?p2 - 1, skipNextNewLine := False\<rparr>)"
  note fr = advance_pos_frame [of p]
  show ?case
  proof (cases "\<not> pos ?p2 \<ge> int (length (html ?p2)) \<and> ?e \<noteq> CARRIAGE_RETURN \<and>
      ?e = LINE_FEED \<and> skipNextNewLine ?p2")
    case True
    then have eq: "advance p = advance ?q" by (subst advance.simps) (simp add: Let_def)
    have c: "\<not> pos ?p2 \<ge> int (length (html ?p2))" "?e \<noteq> CARRIAGE_RETURN"
      "?e = LINE_FEED \<and> skipNextNewLine ?p2" using True by auto
    have q: "pos ?q < int (length (html ?q))" "html ?q = html p" using c(1) by (simp_all add: addGap_def fr)
    from "1.IH" [OF refl c(1) refl c(2,3) q(1)] show ?thesis unfolding eq q(2) .
  next
    case False
    let ?r = "if ?e = LINE_FEED then ?p2\<lparr>isEol := True\<rparr> else ?p2"
    have r: "html ?r = html p" "pos ?r = pos p + 1" by (simp_all add: fr)
    have "pos ?r \<ge> 0" if "is_surrogate ?e"
      using that by (auto simp: charCodeAt_def is_surrogate_def split: if_splits)
    then have "pos (snd (advance_read ?e ?r)) < int (length (html p))" if "pos p + 1 < int (length (html p))"
      using advance_read_result(1) [of ?e ?r] that r by simp
    moreover have "\<not> (pos ?p2 < int (length (html ?p2)) \<and> ?e = LINE_FEED \<and> skipNextNewLine ?p2)"
      using False by auto
    ultimately show ?thesis
      using "1.prems" advance_plain [OF refl refl, of p] fr(1,3)
      by (cases "pos p + 1 < int (length (html p))"; cases "?e = CARRIAGE_RETURN") auto
  qed
qed

text \<open>The end is reported at the end of the text, unless more text is to come.\<close>

lemma advance_eof_end:
  assumes "fst (advance p) = EOF" and "\<not> endOfChunkHit (snd (advance p))"
  shows "remaining (snd (advance p)) \<le> 0"
  using assms
proof (induction p rule: advance.induct)
  case (1 p)
  let ?p2 = "advance_pos p"
  let ?e = "charCodeAt (html ?p2) (pos ?p2)"
  let ?q = "addGap (?p2\<lparr>isEol := True, line := line ?p2 - 1, skipNextNewLine := False\<rparr>)"
  let ?r = "if ?e = LINE_FEED then ?p2\<lparr>isEol := True\<rparr> else ?p2"
  show ?case
  proof (cases "pos ?p2 < int (length (html ?p2)) \<and> ?e = LINE_FEED \<and> skipNextNewLine ?p2")
    case True
    then have eq: "advance p = advance ?q" by (subst advance.simps) (simp add: Let_def)
    have c: "\<not> pos ?p2 \<ge> int (length (html ?p2))" "?e \<noteq> CARRIAGE_RETURN"
      "?e = LINE_FEED \<and> skipNextNewLine ?p2" using True by auto
    from "1.IH" [OF refl c(1) refl c(2,3)] "1.prems" show ?thesis unfolding eq .
  next
    case False
    note eq = advance_plain [OF refl refl False]
    show ?thesis
    proof (cases "pos ?p2 \<ge> int (length (html ?p2))")
      case True
      then show ?thesis using eq by (simp add: remaining_def)
    next
      case in_text: False
      have "fst (advance_read ?e ?r) \<noteq> EOF \<or> endOfChunkHit (snd (advance_read ?e ?r))"
        by (rule advance_read_eof) (simp add: charCodeAt_def)
      then show ?thesis using eq in_text "1.prems" by (auto split: if_splits)
    qed
  qed
qed

text \<open>Emitting a code point can drop the text before the position, and moves nothing else.\<close>

lemma dropped_twice: "gaps_ok p \<Longrightarrow> dropParsedChunk (dropParsedChunk p) = dropParsedChunk p"
  by (auto simp: dropParsedChunk_def willDropParsedChunk_def gaps_ok_def)

lemma notify_pp: "pp (notify on ev t) = pp t"
  by (simp add: notify_def split: prod.split)

lemma set_attr_pp: "pp (set_attr a t) = pp t"
  by (simp add: set_attr_def Let_def split: option.split token.split)

lemma flush_pp: "pp (flushCodePoint on c t) = pp t \<or> pp (flushCodePoint on c t) = dropParsedChunk (pp t)"
  by (auto simp: flushCodePoint_def with_code_point_def add_attr_value_def set_attr_pp emitCodePoint_def
      appendCharToCurrentCharacterToken_def createCharacterToken_def drop_chunk_def
      emitCurrentCharacterToken_def notify_pp throw_def split: option.split)

lemma notify_frame:
  "active (notify on ev t) = active t" "paused (notify on ev t) = paused t"
  "returnState (notify on ev t) = returnState t" "out (notify on ev t) = ev # out t"
  by (simp_all add: notify_def split: prod.split)

lemma set_attr_frame:
  "active (set_attr a t) = active t" "paused (set_attr a t) = paused t"
  "returnState (set_attr a t) = returnState t" "out (set_attr a t) = out t"
  by (simp_all add: set_attr_def Let_def split: option.split token.split)

lemma flush_frame:
  "active (flushCodePoint on c t) = active t" "paused (flushCodePoint on c t) = paused t"
  "returnState (flushCodePoint on c t) = returnState t"
  "noeof (flushCodePoint on c t) = noeof t"
  by (auto simp: flushCodePoint_def with_code_point_def add_attr_value_def set_attr_frame
      emitCodePoint_def appendCharToCurrentCharacterToken_def createCharacterToken_def drop_chunk_def
      emitCurrentCharacterToken_def notify_frame throw_def noeof_def split: option.split)

lemma err_frame:
  "active (tok_err c t) = active t" "paused (tok_err c t) = paused t"
  "returnState (tok_err c t) = returnState t" "noeof (tok_err c t) = noeof t"
  by (simp_all add: tok_err_def noeof_def)

text \<open>Two flushes and a step back of two: at most the character before the round is given back.\<close>

definition hexinv :: "'h tokenizer \<Rightarrow> bool" where
  "hexinv t \<longleftrightarrow> (tstate t = HEXADEMICAL_CHARACTER_REFERENCE_START \<longrightarrow>
     lastGapPos (pp t) < pos (pp t) \<and> pos (pp t) < int (length (html (pp t))))"

lemma retreat_two:
  assumes "gaps_ok p0" and "lastGapPos p0 < pos p0" and "pos p0 < int (length (html p0))"
    and "p = snd (advance p0)\<lparr>errors := es\<rparr> \<or> p = dropParsedChunk (snd (advance p0)\<lparr>errors := es\<rparr>)"
  shows "gaps_ok (retreat 2 p)" and "remaining (retreat 2 p) \<le> remaining p0 + 1"
proof -
  let ?q = "p0\<lparr>pos := pos p0 - 1\<rparr>" and ?a = "snd (advance p0)\<lparr>errors := es\<rparr>"
  have q: "gaps_ok ?q" using assms(1,2) by (simp add: gaps_ok_def)
  have "moved 1 ?q p0" by (simp add: moved_def gaps_def)
  then have m: "moved 2 ?q ?a"
    using src.moved_next [of 1 ?q p0] by (simp add: moved_def gaps_def numeral_2_eq_2)
  have keep: "gaps_ok (retreat 2 ?a) \<and> remaining (retreat 2 ?a) \<le> remaining p0 + 1"
    using src.moved_all_back(2,3) [OF m q] by (simp add: remaining_def)
  have le: "pos ?a \<le> int (length (html ?a))" "pos ?a \<ge> pos p0 + 1" "html ?a = html p0"
    using advance_inside [OF assms(3)] src.moved_next [OF src.moved_refl, of p0]
    by (auto simp: moved_def)
  have drop: "gaps_ok (retreat 2 p) \<and> remaining (retreat 2 p) \<le> remaining p0 + 1"
    if "p = dropParsedChunk ?a" "willDropParsedChunk ?a"
  proof -
    have bw: "bufferWaterline ?a = 65536"
      using src.next_consistent [OF assms(1)] by (simp add: gaps_ok_def)
    then have p: "pos p = 0" "lastGapPos p = -2" "gapStack p = []" "bufferWaterline p = 65536"
      "html p = drop (nat (pos ?a)) (html ?a)"
      using that by (simp_all add: dropParsedChunk_def)
    then have "int (length (html p)) = int (length (html ?a)) - pos ?a"
      using le(1) bw that(2) by (simp add: willDropParsedChunk_def)
    moreover have "chunk_ok p"
      using that dropParsedChunk_gaps [of ?a] src.next_consistent [OF assms(1)]
      by (simp add: gaps_ok_def)
    ultimately show ?thesis using p le by (simp add: retreat_def gaps_ok_def remaining_def)
  qed
  have "gaps_ok (retreat 2 p) \<and> remaining (retreat 2 p) \<le> remaining p0 + 1"
    using assms(4) keep drop by (cases "willDropParsedChunk ?a") (auto simp: dropParsedChunk_def)
  then show "gaps_ok (retreat 2 p)" "remaining (retreat 2 p) \<le> remaining p0 + 1" by auto
qed

section \<open>One round of the loop\<close>

definition rank :: "tok_state \<Rightarrow> nat" where
  "rank s = (if s = HEXADEMICAL_CHARACTER_REFERENCE_START then 4
     else if s = NUMERIC_CHARACTER_REFERENCE \<or> s = CHARACTER_REFERENCE \<or> s = NAMED_CHARACTER_REFERENCE
     then 2 else if s = AMBIGUOUS_AMPERSAND then 1 else 0)"

definition mu :: "'h tokenizer \<Rightarrow> nat" where
  "mu t = 3 * remn t + rank (tstate t)"

text \<open>The condition between rounds, and what a round leads to.\<close>

definition loop_inv :: "bool \<Rightarrow> 'h tokenizer \<Rightarrow> bool" where
  "loop_inv lc t \<longleftrightarrow> gaps_ok (pp t) \<and> lastChunkWritten (pp t) = lc \<and> \<not> paused t \<and> noeof t \<and> returnState t \<in> return_states \<and> hexinv t"

definition stopped :: "bool \<Rightarrow> 'h tokenizer \<Rightarrow> bool" where
  "stopped lc t \<longleftrightarrow> \<not> active t \<and> ((\<not> lc \<and> endOfChunkHit (pp t) \<and> noeof t) \<or> eof_done t)"

definition round_ok :: "bool \<Rightarrow> nat \<Rightarrow> 'h tokenizer \<Rightarrow> bool" where
  "round_ok lc m t \<longleftrightarrow> stuck t \<or> stopped lc t \<or> active t \<and> loop_inv lc t \<and> mu t < m"

lemma rank_low: "s \<noteq> HEXADEMICAL_CHARACTER_REFERENCE_START \<Longrightarrow> rank s \<le> 2"
  by (simp add: rank_def)

lemma post_round:
  assumes "post lc e r t" and "e \<noteq> EOF \<Longrightarrow> r < m0" and "3 * m0 \<le> m"
  shows "round_ok lc m t"
  using assms rank_low [of "tstate t"]
  by (auto simp: post_def round_ok_def stopped_def loop_inv_def hexinv_def mu_def
      gaps_ok_def chunk_ok_def split: if_splits)

text \<open>The state of the tokenizer when a round calls its state function.\<close>

definition entered :: "bool \<Rightarrow> preprocessor \<Rightarrow> cp \<Rightarrow> 'h tokenizer \<Rightarrow> bool" where
  "entered lc p0 e t \<longleftrightarrow> gaps_ok p0 \<and> lastChunkWritten p0 = lc \<and> fst (advance p0) = e \<and> pp t = snd (advance p0) \<and>
     consumedAfterSnapshot t = 1 \<and> active t \<and> \<not> paused t \<and> noeof t \<and>
     returnState t \<in> return_states \<and> \<not> endOfChunkHit (pp t)"

lemma enteredD:
  assumes "entered lc p0 e t"
  shows "snap p0 t" and "can_return t" and "at_end e t" and "gaps_ok (pp t)"
    and "e \<noteq> EOF \<Longrightarrow> remn t < nat (remaining p0)"
    and "remn t \<le> nat (remaining p0)"
proof -
  have p0: "gaps_ok p0" and e: "fst (advance p0) = e" and pp: "pp t = snd (advance p0)"
    and c: "consumedAfterSnapshot t = 1" and h: "\<not> endOfChunkHit (pp t)"
    using assms by (auto simp: entered_def)
  have m: "moved 1 p0 (snd (advance p0))" by (rule advance_moved)
  show "snap p0 t" using m pp c by (simp add: snap_def)
  show "can_return t" using src.moved_all_back(2) [OF m p0] c pp by (simp add: can_return_def)
  show "gaps_ok (pp t)" using src.next_consistent [OF p0] pp by simp
  show "at_end e t" using advance_eof_end [of p0] e pp h by (auto simp: at_end_def)
  have r: "remn t < nat (remaining p0) \<or> nat (remaining p0) = 0"
    using src.next_left [of p0] pp by (auto simp: remn_def)
  then show "remn t \<le> nat (remaining p0)" using src.next_left [of p0] pp by (auto simp: remn_def)
  show "remn t < nat (remaining p0)" if "e \<noteq> EOF"
    using r advance_at_end [of p0] e that by (cases "remaining p0 \<le> 1") auto
qed

lemma post_throw [post_rules]: "pre lc r t \<Longrightarrow> post lc e r (throw t)"
  by (simp add: post_def pre_def throw_def)

text \<open>A branch of a long dispatch needs only its own condition.\<close>

lemma post_if:
  "(b \<Longrightarrow> post lc e r x) \<Longrightarrow> post lc e r y \<Longrightarrow> post lc e r (if b then x else y)"
  by simp

lemma post_callState:
  assumes "pre lc r t" and "can_return t" and "at_end e t"
    and "tstate t \<noteq> CHARACTER_REFERENCE" and "tstate t \<noteq> NAMED_CHARACTER_REFERENCE"
    and "tstate t \<noteq> NUMERIC_CHARACTER_REFERENCE" 
  shows "post lc e r (callState lm on e t)"
proof -
  have "tstate t \<noteq> HEXADEMICAL_CHARACTER_REFERENCE_START" using assms(1) by (simp add: pre_def)
  then show ?thesis unfolding callState_def
    by (intro post_if) (simp_all add: post_rules assms)
qed

lemma entered_pre:
  assumes "entered lc p0 e t" and "tstate t \<noteq> HEXADEMICAL_CHARACTER_REFERENCE_START"
  shows "pre lc (remn t) t"
  using assms enteredD(4) [OF assms(1)] by (simp add: entered_def pre_def)

lemma round_character_reference:
  assumes "entered lc p0 e t" and "tstate t = CHARACTER_REFERENCE \<or> tstate t = NAMED_CHARACTER_REFERENCE"
  shows "round_ok lc (3 * nat (remaining p0) + 2) (callState lm on e t)"
proof -
  have p0: "gaps_ok p0" "lastChunkWritten p0 = lc" using assms(1) by (simp_all add: entered_def)
  have pre: "pre lc (remn t) t" using entered_pre [OF assms(1)] assms(2) by auto
  note d = enteredD [OF assms(1)]
  have c: "1 \<le> consumedAfterSnapshot t" using assms(1) by (simp add: entered_def)
  have named: "round_ok lc (3 * nat (remaining p0) + 2) (stateNamedCharacterReference lm on e u)"
    if u: "pre lc (remn t) u" "snap p0 u" "1 \<le> consumedAfterSnapshot u" for u
  proof -
    let ?u = "stateNamedCharacterReference lm on e u"
    consider "post lc e (nat (remaining p0)) ?u" "\<not> active ?u"
      | "pre lc (nat (remaining p0)) ?u" "tstate ?u \<in> return_states \<or> tstate ?u = AMBIGUOUS_AMPERSAND"
      using named_post [OF u(1,2) p0(1) u(3) p0(2), of lm on e] by (auto simp: Let_def)
    then show ?thesis
    proof cases
      case 1
      then show ?thesis by (auto simp: post_def round_ok_def stopped_def gaps_ok_def chunk_ok_def)
    next
      case 2
      moreover have "rank (tstate ?u) \<le> 1" using 2(2) by (auto simp: return_states_def rank_def)
      ultimately show ?thesis
        by (auto simp: pre_def round_ok_def loop_inv_def hexinv_def mu_def)
    qed
  qed
  have other: "round_ok lc (3 * nat (remaining p0) + 2) u" if "post lc e (remn t) u" for u :: "'a tokenizer"
    using post_round [OF that d(5)] by simp
  show ?thesis
  proof (cases "tstate t = NAMED_CHARACTER_REFERENCE")
    case True
    then have "callState lm on e t = stateNamedCharacterReference lm on e t" by (simp add: callState_def)
    then show ?thesis using named [OF pre d(1) c] by simp
  next
    case False
    then have "callState lm on e t = stateCharacterReference lm on e t"
      using assms(2) by (simp add: callState_def)
    moreover have "snap p0 (set_state s t) = snap p0 t" "consumedAfterSnapshot (set_state s t) = consumedAfterSnapshot t" for s
      by (simp_all add: snap_def set_state_def)
    moreover have "round_ok lc (3 * nat (remaining p0) + 2) (set_state NUMERIC_CHARACTER_REFERENCE t)"
      if "e = NUMBER_SIGN" using that pre by (intro other) (simp add: pre_rules post_rules)
    moreover have "round_ok lc (3 * nat (remaining p0) + 2)
        (reconsumeInReturnState on e (flushCodePoint on AMPERSAND t))"
      using pre by (intro other) (simp add: pre_rules post_rules)
    moreover have "pre lc (remn t) (set_state NAMED_CHARACTER_REFERENCE t)" using pre by (simp add: pre_rules)
    ultimately show ?thesis
      using named [of "set_state NAMED_CHARACTER_REFERENCE t"] d(1) c
      unfolding stateCharacterReference_def by auto
  qed
qed

lemma round_numeric_start:
  assumes "entered lc p0 e t" and "tstate t = NUMERIC_CHARACTER_REFERENCE"
  shows "round_ok lc (3 * nat (remaining p0) + 2) (callState lm on e t)"
proof -
  have pre: "pre lc (remn t) t" using entered_pre [OF assms(1)] assms(2) by auto
  note d = enteredD [OF assms(1)]
  have eq: "callState lm on e t = stateNumericCharacterReference on e t"
    using assms(2) by (simp add: callState_def)
  show ?thesis
  proof (cases "e = LATIN_SMALL_X \<or> e = LATIN_CAPITAL_X")
    case True
    have "lastGapPos (pp t) < pos (pp t) \<and> pos (pp t) < int (length (html (pp t)))"
      using advance_char [of p0] assms(1) True by (auto simp: entered_def)
    then show ?thesis using eq True pre d(5)
      by (auto simp: stateNumericCharacterReference_def round_ok_def loop_inv_def hexinv_def mu_def
          rank_def pre_def set_state_def noeof_def remn_def)
  next
    case False
    then have "post lc e (remn t) (stateNumericCharacterReference on e t)"
      using pre by (simp add: stateNumericCharacterReference_def pre_rules post_rules Let_def)
    from post_round [OF this d(5)] show ?thesis using eq by simp
  qed
qed

lemma round_hex_start:
  assumes "entered lc p0 e t" and "tstate t = HEXADEMICAL_CHARACTER_REFERENCE_START"
    and "lastGapPos p0 < pos p0" and "pos p0 < int (length (html p0))"
  shows "round_ok lc (3 * nat (remaining p0) + 4) (callState lm on e t)"
proof -
  note d = enteredD [OF assms(1)]
  have eq: "callState lm on e t = stateHexademicalCharacterReferenceStart on e t"
    using assms(2) by (simp add: callState_def)
  show ?thesis
  proof (cases "is_ascii_digit e \<or> is_upper_hex e \<or> is_lower_hex e")
    case True
    have "pre lc (remn t) (set_state HEXADEMICAL_CHARACTER_REFERENCE t)"
      using assms(1) d(4) by (simp add: entered_def pre_def set_state_def noeof_def remn_def)
    from post_digits(1) [OF this] have "post lc e (remn t) (stateHexademicalCharacterReferenceStart on e t)"
      using True by (auto simp: stateHexademicalCharacterReferenceStart_def)
    from post_round [OF this d(5)] show ?thesis using eq by simp
  next
    case False
    let ?t0 = "tok_err absenceOfDigitsInNumericCharacterReference t"
    let ?u = "flushCodePoint on NUMBER_SIGN (flushCodePoint on AMPERSAND ?t0)"
    obtain es where es: "pp ?t0 = snd (advance p0)\<lparr>errors := es\<rparr>"
      using assms(1) that [of "errors (pp ?t0)"] by (auto simp: tok_err_def entered_def)
    have "gaps_ok (pp ?t0)" using d(4) by (simp add: tok_err_def gaps_ok_def)
    then have pu: "pp ?u = pp ?t0 \<or> pp ?u = dropParsedChunk (pp ?t0)"
      using flush_pp [of on AMPERSAND ?t0] flush_pp [of on NUMBER_SIGN "flushCodePoint on AMPERSAND ?t0"]
        dropped_twice by metis
    have "gaps_ok p0" using assms(1) by (simp add: entered_def)
    note rt = retreat_two [OF this assms(3,4) pu [unfolded es]]
    have u: "active ?u" "\<not> paused ?u" "noeof ?u" "returnState ?u \<in> return_states"
      using assms(1) by (simp_all add: flush_frame err_frame entered_def)
    let ?v = "set_state (returnState ?u) (unconsume 2 ?u)"
    have v: "pp ?v = retreat 2 (pp ?u)" by (simp add: set_state_def unconsume_def)
    have "rank (tstate ?v) = 0" "hexinv ?v"
      using u(4) by (auto simp: return_states_def rank_def hexinv_def set_state_def)
    moreover have "remn ?v \<le> nat (remaining p0) + 1" using rt(2) by (auto simp: remn_def v)
    moreover have "lastChunkWritten (pp ?u) = lc"
      using pu assms(1) es by (auto simp: entered_def)
    moreover from this have "loop_inv lc ?v"
      using u rt(1) v calculation(2)
      by (simp add: loop_inv_def noeof_def set_state_def unconsume_def frame_simps)
    moreover have "callState lm on e t = ?v"
      using eq False by (simp add: stateHexademicalCharacterReferenceStart_def Let_def unconsume_def)
    ultimately show ?thesis using u(1) by (simp add: round_ok_def mu_def set_state_def unconsume_def)
  qed
qed

lemma round_ok_mono: "round_ok lc m t \<Longrightarrow> m \<le> m' \<Longrightarrow> round_ok lc m' t"
  by (auto simp: round_ok_def)

lemma loop_step_round:
  assumes "loop_inv lc t" and "active t"
  shows "round_ok lc (mu t) (loop_step lm on t)"
proof -
  let ?s = "t\<lparr>consumedAfterSnapshot := 0\<rparr>"
  let ?t1 = "snd (consume ?s)" and ?e = "fst (advance (pp t))"
  have p0: "gaps_ok (pp t)" using assms(1) by (simp add: loop_inv_def)
  obtain h t2 where hib: "ensureHibernation ?t1 = (h, t2)" by fastforce
  have step: "loop_step lm on t = (if h then t2 else callState lm on ?e t2)"
    using hib by (cases "consume ?s") (auto simp: loop_step_def consume_def split: prod.splits)
  show ?thesis
  proof (cases "endOfChunkHit (pp ?t1)")
    case True
    then have "loop_step lm on t = (unconsume 1 ?t1)\<lparr>active := False\<rparr>"
      using step hib by (auto simp: ensureHibernation_def)
    moreover have "stopped lc ((unconsume 1 ?t1)\<lparr>active := False\<rparr>)"
      using True assms src.next_consistent [OF p0]
      by (auto simp: stopped_def unconsume_def loop_inv_def noeof_def frame_simps gaps_ok_def chunk_ok_def)
    ultimately show ?thesis by (simp add: round_ok_def)
  next
    case False
    then have t2: "\<not> h" "t2 = ?t1" using hib by (auto simp: ensureHibernation_def)
    have en: "entered lc (pp t) ?e t2"
      using assms False p0 by (simp add: entered_def t2 loop_inv_def noeof_def)
    have s: "tstate t2 = tstate t" by (simp add: t2)
    have m: "mu t = 3 * nat (remaining (pp t)) + rank (tstate t)" by (simp add: mu_def remn_def)
    consider "tstate t = HEXADEMICAL_CHARACTER_REFERENCE_START"
      | "tstate t = NUMERIC_CHARACTER_REFERENCE"
      | "tstate t = CHARACTER_REFERENCE \<or> tstate t = NAMED_CHARACTER_REFERENCE"
      | "tstate t \<noteq> HEXADEMICAL_CHARACTER_REFERENCE_START" "tstate t \<noteq> NUMERIC_CHARACTER_REFERENCE"
        "tstate t \<noteq> CHARACTER_REFERENCE" "tstate t \<noteq> NAMED_CHARACTER_REFERENCE" by blast
    then have "round_ok lc (mu t) (callState lm on ?e t2)"
    proof cases
      case 1
      then show ?thesis using round_hex_start [OF en] assms(1) s m
        by (simp add: loop_inv_def hexinv_def rank_def)
    next
      case 2
      then show ?thesis using round_numeric_start [OF en] s m by (simp add: rank_def)
    next
      case 3
      then show ?thesis using round_character_reference [OF en] s m by (auto simp: rank_def)
    next
      case 4
      have "post lc ?e (remn t2) (callState lm on ?e t2)"
        using post_callState [OF entered_pre [OF en] enteredD(2,3) [OF en]] 4 s by simp
      from post_round [OF this enteredD(5) [OF en]] show ?thesis using m by simp
    qed
    then show ?thesis using step t2(1) by simp
  qed
qed

section \<open>The loop ends\<close>

lemma parsing_loop_ends:
  assumes "loop_inv lc t" and "active t"
  shows "\<exists>t'. parsing_loop lm on t = Some t' \<and> (stuck t' \<or> stopped lc t')"
  using assms
proof (induction "mu t" arbitrary: t rule: less_induct)
  case less
  have p: "\<not> paused t" using less.prems(1) by (simp add: loop_inv_def)
  show ?case
  proof (cases "stuck t")
    case True
    then show ?thesis by (auto simp: parsing_loop.simps)
  next
    case False
    let ?u = "loop_step lm on t"
    have eq: "parsing_loop lm on t = parsing_loop lm on ?u"
      using False p less.prems(2) by (simp add: parsing_loop.simps [of lm on t])
    consider "stuck ?u" | "stopped lc ?u" | "active ?u" "loop_inv lc ?u" "mu ?u < mu t"
      using loop_step_round [OF less.prems, of lm on] by (auto simp: round_ok_def)
    then show ?thesis
    proof cases
      case 1
      then show ?thesis using eq by (simp add: parsing_loop.simps [of lm on ?u])
    next
      case 2
      then show ?thesis using eq by (simp add: parsing_loop.simps [of lm on ?u] stopped_def)
    next
      case 3
      then show ?thesis using less.hyps [of ?u] eq by simp
    qed
  qed
qed

lemma runParsingLoop_ends:
  assumes "loop_inv lc t" and "active t"
  shows "\<exists>t'. runParsingLoop lm on t = Some t' \<and> (inLoop t \<and> t' = t \<or> stuck t' \<or> stopped lc t')"
proof (cases "inLoop t")
  case False
  have "loop_inv lc (t\<lparr>inLoop := True\<rparr>)" using assms(1) by (simp add: loop_inv_def noeof_def hexinv_def)
  from parsing_loop_ends [OF this, of lm on] assms(2) obtain t' where
    "parsing_loop lm on (t\<lparr>inLoop := True\<rparr>) = Some t'" "stuck t' \<or> stopped lc t'" by auto
  then show ?thesis using False by (auto simp: runParsingLoop_def stopped_def noeof_def eof_done_def)
qed (simp add: runParsingLoop_def)

text \<open>
  C4. Tokenizing a complete text ends, for every text, every handler and every decode tree:
  either an exception has left the loop, or the tokenizer is inactive and has reported the end
  of the input exactly once, as its last call on the handler.
\<close>

theorem tokenizer_terminates:
  "\<exists>t. tok_write lm on text True (new_tokenizer rep h) = Some t \<and>
     (stuck t \<or> \<not> active t \<and> hd (out t) = OnEof \<and> count_list (out t) OnEof = 1)"
proof -
  let ?t = "(new_tokenizer rep h)\<lparr>active := True,
      pp := pp_write text True (pp (new_tokenizer rep h))\<rparr>"
  have "loop_inv True ?t"
    by (simp add: loop_inv_def new_tokenizer_def new_preprocessor_def pp_write_def gaps_ok_def
        chunk_ok_def noeof_def hexinv_def)
  from runParsingLoop_ends [OF this, of lm on] obtain t' where
    t': "runParsingLoop lm on ?t = Some t'" "stuck t' \<or> stopped True t'"
    by (auto simp: new_tokenizer_def)
  have "hd (out t') = OnEof \<and> count_list (out t') OnEof = 1" if "eof_done t'"
    using that by (cases "out t'") (auto simp: eof_done_def count_list_0_iff)
  with t' show ?thesis by (auto simp: tok_write_def stopped_def)
qed

text \<open>
  C5. Writing a chunk always returns: from any state between two rounds of the loop, and for any
  further text, last or not, the tokenizer ends by an exception, by the end of the input, or
  inactive and waiting for the next chunk, which it does only while more text is to come.
\<close>

theorem write_returns:
  assumes "loop_inv lc0 t" and "\<not> inLoop t"
  shows "\<exists>t'. tok_write lm on chunk isLast t = Some t' \<and> (stuck t' \<or> stopped isLast t')"
proof -
  let ?t = "t\<lparr>active := True, pp := pp_write chunk isLast (pp t)\<rparr>"
  have "loop_inv isLast ?t"
    using assms(1) by (auto simp: loop_inv_def pp_write_def gaps_ok_def chunk_ok_def noeof_def hexinv_def)
  from runParsingLoop_ends [OF this, of lm on] assms(2) show ?thesis
    by (auto simp: tok_write_def)
qed

theorem write_returns_witness:
  "\<exists>t'. tok_write [] (\<lambda>ev h. (h, None, None)) (js ''<a'') False (new_tokenizer False ()) = Some t' \<and>
     (stuck t' \<or> stopped False t')"
  by (rule write_returns [of False])
     (simp_all add: loop_inv_def new_tokenizer_def new_preprocessor_def gaps_ok_def chunk_ok_def
       noeof_def hexinv_def)

end
