(* ===== verification/Html_Stream.thy ===== *)
theory Html_Stream
  imports Html_Preprocessor
begin

text \<open>
  What the preprocessor delivers: the code points of the text after line ends have been
  normalised. The specification is written on the text alone, without positions or gaps.
\<close>

section \<open>Specification\<close>

definition skip_lf :: "jsstr \<Rightarrow> jsstr" where
  "skip_lf s = (if s \<noteq> [] \<and> hd s = 10 then tl s else s)"

lemma skip_lf_simps [simp]:
  "skip_lf [] = []" "skip_lf (c # s) = (if c = 10 then s else c # s)"
  by (simp_all add: skip_lf_def)

lemma skip_lf_shorter [termination_simp]: "length (skip_lf s) \<le> length s"
  by (cases s) auto

text \<open>CR LF and a lone CR become LF.\<close>

fun normalize_newlines :: "jsstr \<Rightarrow> jsstr" where
  "normalize_newlines [] = []"
| "normalize_newlines (c # s) =
     (if c = 13 then 10 # normalize_newlines (skip_lf s)
      else c # normalize_newlines s)"

text \<open>UTF-16: a high surrogate followed by a low one is one code point.\<close>

fun utf16_code_points :: "jsstr \<Rightarrow> cp list" where
  "utf16_code_points [] = []"
| "utf16_code_points [c] = [int c]"
| "utf16_code_points (c # d # s) =
     (if 55296 \<le> c \<and> c < 56320 \<and> 56320 \<le> d \<and> d < 57344
      then (65536 + 1024 * (int c - 55296) + (int d - 56320)) # utf16_code_points s
      else int c # utf16_code_points (d # s))"

text \<open>No two low surrogates in a row, which no well-formed text has.\<close>

fun no_low_low :: "jsstr \<Rightarrow> bool" where
  "no_low_low (c # d # s) \<longleftrightarrow>
     \<not> (56320 \<le> c \<and> c < 57344 \<and> 56320 \<le> d \<and> d < 57344) \<and> no_low_low (d # s)"
| "no_low_low _ \<longleftrightarrow> True"

section \<open>Reading to the end\<close>

function read_all :: "preprocessor \<Rightarrow> cp list" where
  "read_all p = (let r = advance p in if fst r = EOF then [] else fst r # read_all (snd r))"
  by pat_completeness auto
termination
proof (relation "measure (\<lambda>p. nat (remaining p))")
  show "(snd r, p) \<in> measure (\<lambda>p. nat (remaining p))" if "r = advance p" "fst r \<noteq> EOF" for p r
    using that src.next_left [of p] advance_at_end [of p] by fastforce
qed simp

declare read_all.simps [simp del]

text \<open>The text still to be read, without the LF of a CR LF whose CR has been read.\<close>

definition unread :: "preprocessor \<Rightarrow> jsstr" where
  "unread p = drop (nat (pos p + 1)) (html p)"

definition pending :: "preprocessor \<Rightarrow> jsstr" where
  "pending p = (if skipNextNewLine p then skip_lf (unread p) else unread p)"

definition whole :: "preprocessor \<Rightarrow> bool" where
  "whole p \<longleftrightarrow> lastChunkWritten p \<and> -1 \<le> pos p"

lemma unread_Cons:
  assumes "unread p = c # s" and "-1 \<le> pos p"
  shows "pos p + 1 < int (length (html p))" and "charCodeAt (html p) (pos p + 1) = int c"
    and "drop (nat (pos p + 2)) (html p) = s"
proof -
  have d: "drop (nat (pos p + 1)) (html p) = c # s" using assms(1) by (simp add: unread_def)
  then have n: "nat (pos p + 1) < length (html p)" by (metis drop_all list.distinct(1) not_less)
  show "pos p + 1 < int (length (html p))" using n assms(2) by linarith
  moreover have "html p ! nat (pos p + 1) = c" using d n by (metis Cons_nth_drop_Suc list.inject)
  ultimately show "charCodeAt (html p) (pos p + 1) = int c"
    using assms(2) by (simp add: charCodeAt_def)
  have "nat (pos p + 2) = Suc (nat (pos p + 1))" using assms(2) by linarith
  then show "drop (nat (pos p + 2)) (html p) = s"
    using d n by (metis Cons_nth_drop_Suc list.inject)
qed

lemma unread_Nil: "unread p = [] \<Longrightarrow> -1 \<le> pos p \<Longrightarrow> remaining p \<le> 1"
  by (auto simp: unread_def remaining_def)

text \<open>The LF of a CR LF is skipped by the recursive call.\<close>

lemma advance_skip:
  assumes "unread p = 10 # s" and "skipNextNewLine p" and "whole p"
  obtains q where "advance p = advance q" and "whole q" and "unread q = s"
    and "\<not> skipNextNewLine q"
proof -
  let ?p2 = "advance_pos p"
  let ?q = "addGap (?p2\<lparr>isEol := True, line := line ?p2 - 1, skipNextNewLine := False\<rparr>)"
  have w: "-1 \<le> pos p" using assms(3) by (simp add: whole_def)
  note u = unread_Cons [OF assms(1) w]
  have "advance p = advance ?q"
    using u assms(2) by (subst advance.simps) (simp add: Let_def advance_pos_frame)
  moreover have "whole ?q" using assms(3) by (simp add: whole_def addGap_def advance_pos_frame)
  moreover have "unread ?q = s"
    using u(3) by (simp add: unread_def addGap_def advance_pos_frame add.assoc)
  moreover have "\<not> skipNextNewLine ?q" by (simp add: addGap_def)
  ultimately show ?thesis using that by blast
qed

lemma advance_read_frame:
  "skipNextNewLine (snd (advance_read e q)) = False"
  "lastChunkWritten (snd (advance_read e q)) = lastChunkWritten q"
  "pos q \<le> pos (snd (advance_read e q))"
  by (auto simp: advance_read_def processSurrogate_def addGap_def frame_simps Let_def
      split: prod.splits)

lemma pending_reduce:
  assumes "whole p"
  obtains q where "advance p = advance q" and "whole q" and "unread q = pending p"
    and "skipNextNewLine q \<Longrightarrow> skip_lf (pending p) = pending p"
proof (cases "skipNextNewLine p \<and> unread p \<noteq> [] \<and> hd (unread p) = 10")
  case True
  then have u: "unread p = 10 # tl (unread p)" by (metis list.collapse)
  obtain q where "advance p = advance q" "whole q" "unread q = tl (unread p)" "\<not> skipNextNewLine q"
    using advance_skip [OF u _ assms] True by blast
  moreover have "pending p = tl (unread p)" using True by (simp add: pending_def skip_lf_def)
  ultimately show ?thesis using that [of q] by metis
next
  case False
  then have "pending p = unread p" by (auto simp: pending_def skip_lf_def)
  then show ?thesis using that [of p] assms False by (auto simp: skip_lf_def)
qed

text \<open>One code unit that is no line end, or a surrogate with what follows it.\<close>

definition pair_head :: "nat \<Rightarrow> jsstr \<Rightarrow> bool" where
  "pair_head c s \<longleftrightarrow> is_surrogate (int c) \<and> s \<noteq> [] \<and> is_surrogate_pair_tail (int (hd s))"

lemma unread_at:
  assumes "-1 \<le> pos q" and "unread q = s"
  shows "charCodeAt (html q) (pos q + 1) = (if s = [] then -2 else int (hd s))"
    and "drop (nat (pos q + 2)) (html q) = tl s"
proof -
  show "charCodeAt (html q) (pos q + 1) = (if s = [] then -2 else int (hd s))"
  proof (cases s)
    case Nil
    then show ?thesis using assms by (auto simp: unread_def charCodeAt_def)
  next
    case (Cons d s')
    then show ?thesis using unread_Cons(2) [of q d s'] assms by simp
  qed
  show "drop (nat (pos q + 2)) (html q) = tl s"
  proof (cases s)
    case Nil
    then show ?thesis using assms by (auto simp: unread_def)
  next
    case (Cons d s')
    then show ?thesis using unread_Cons(3) [of q d s'] assms by simp
  qed
qed

lemma processSurrogate_step:
  assumes "lastChunkWritten q" and "-1 \<le> pos q" and "unread q = s"
  shows "processSurrogate e q =
    (if s \<noteq> [] \<and> is_surrogate_pair_tail (int (hd s))
     then (surrogate_pair_code_point e (int (hd s)), addGap (q\<lparr>pos := pos q + 1\<rparr>))
     else (e, pp_err surrogateInInputStream q))"
proof (cases s)
  case Nil
  then show ?thesis using assms(1) unread_at [OF assms(2,3)]
    by (simp add: processSurrogate_def is_surrogate_pair_tail_def Let_def)
next
  case (Cons d s')
  then have "pos q \<noteq> int (length (html q)) - 1" using unread_Cons(1) [of q d s'] assms by simp
  then show ?thesis using Cons unread_at [OF assms(2,3)]
    by (simp add: processSurrogate_def Let_def)
qed

lemma advance_read_step:
  assumes "lastChunkWritten q" and "-1 \<le> pos q" and "unread q = s"
  shows "fst (advance_read (int c) q) =
           (if pair_head c s then surrogate_pair_code_point (int c) (int (hd s)) else int c)"
    and "unread (snd (advance_read (int c) q)) = (if pair_head c s then tl s else s)"
proof -
  have u: "unread (q\<lparr>skipNextNewLine := False\<rparr>) = s" using assms(3) by (simp add: unread_def)
  have ps: "processSurrogate (int c) (q\<lparr>skipNextNewLine := False\<rparr>) =
    (if s \<noteq> [] \<and> is_surrogate_pair_tail (int (hd s))
     then (surrogate_pair_code_point (int c) (int (hd s)),
           addGap (q\<lparr>skipNextNewLine := False, pos := pos q + 1\<rparr>))
     else (int c, pp_err surrogateInInputStream (q\<lparr>skipNextNewLine := False\<rparr>)))"
    using processSurrogate_step [OF _ _ u] assms by simp
  have "drop (nat (pos q + 2)) (html q) = tl s" using unread_at(2) [OF assms(2,3)] .
  then have tail: "unread r = tl s" if "pos r = pos q + 1" "html r = html q" for r
    using that by (simp add: unread_def add.commute)
  have stay: "unread r = s" if "pos r = pos q" "html r = html q" for r
    using that assms(3) by (simp add: unread_def)
  show "fst (advance_read (int c) q) =
      (if pair_head c s then surrogate_pair_code_point (int c) (int (hd s)) else int c)"
    by (simp add: advance_read_def ps pair_head_def Let_def)
  show "unread (snd (advance_read (int c) q)) = (if pair_head c s then tl s else s)"
    using tail stay by (simp add: advance_read_def ps pair_head_def Let_def addGap_def frame_simps)
qed

text \<open>One call of \<open>advance\<close>, on the text that is still to be read.\<close>

lemma advance_step:
  assumes "whole p" and "pending p = c # s"
  shows "fst (advance p) = (if c = 13 then LINE_FEED else if pair_head c s
           then surrogate_pair_code_point (int c) (int (hd s)) else int c)"
    and "pending (snd (advance p)) =
           (if c = 13 then skip_lf s else if pair_head c s then tl s else s)"
    and "whole (snd (advance p))"
proof -
  obtain q where q: "advance p = advance q" "whole q" "unread q = c # s"
    "skipNextNewLine q \<Longrightarrow> skip_lf (c # s) = c # s"
    using pending_reduce [OF assms(1)] assms(2) by metis
  have w: "lastChunkWritten q" "-1 \<le> pos q" using q(2) by (auto simp: whole_def)
  note u = unread_Cons [OF q(3) w(2)]
  note fr = advance_pos_frame [of q]
  let ?r = "(advance_pos q)\<lparr>isEol := True\<rparr>"
  let ?q = "if c = 10 then ?r else advance_pos q"
  have nolf: "\<not> (c = 10 \<and> skipNextNewLine q)" using q(4) by auto
  have eq: "advance q = (if c = 13 then (LINE_FEED, ?r\<lparr>skipNextNewLine := True\<rparr>)
      else advance_read (int c) ?q)"
    using u(1,2) nolf by (subst advance.simps) (auto simp: Let_def fr)
  have q': "lastChunkWritten ?q" "-1 \<le> pos ?q" "unread ?q = s"
    using w u(3) by (simp_all add: fr unread_def add.assoc)
  note st = advance_read_step [OF q', of c]
  show "fst (advance p) = (if c = 13 then LINE_FEED else if pair_head c s
      then surrogate_pair_code_point (int c) (int (hd s)) else int c)"
    unfolding q(1) eq using st(1) by (cases "c = 13") simp_all
  show "pending (snd (advance p)) =
      (if c = 13 then skip_lf s else if pair_head c s then tl s else s)"
  proof (cases "c = 13")
    case True
    then show ?thesis unfolding q(1) eq using u(3)
      by (simp add: pending_def unread_def fr add.assoc)
  next
    case False
    then show ?thesis unfolding q(1) eq using st(2)
      by (simp add: pending_def advance_read_frame(1))
  qed
  show "whole (snd (advance p))"
    unfolding q(1) eq using w advance_read_frame(2) [of "int c" ?q] advance_read_frame(3) [of ?q "int c"] q'
    by (simp add: whole_def fr)
qed

lemma advance_end:
  assumes "whole p" and "pending p = []"
  shows "fst (advance p) = EOF"
proof -
  obtain q where q: "advance p = advance q" "whole q" "unread q = []"
    using pending_reduce [OF assms(1)] assms(2) by metis
  then show ?thesis using advance_at_end [OF unread_Nil] by (simp add: whole_def)
qed


section \<open>The stream of code points\<close>

lemma low_hd_normalize:
  "normalize_newlines s \<noteq> [] \<and> is_surrogate_pair_tail (int (hd (normalize_newlines s))) \<longleftrightarrow>
   s \<noteq> [] \<and> is_surrogate_pair_tail (int (hd s))"
  by (cases s) (auto simp: is_surrogate_pair_tail_def)

lemma no_low_low_tl: "no_low_low (c # s) \<Longrightarrow> no_low_low s"
  by (cases s) auto

lemma no_low_low_skip: "no_low_low s \<Longrightarrow> no_low_low (skip_lf s)"
  by (cases s) (auto dest: no_low_low_tl)

lemma utf16_pair:
  assumes "pair_head c s" and "c < 56320"
  shows "utf16_code_points (c # s) =
           surrogate_pair_code_point (int c) (int (hd s)) # utf16_code_points (tl s)"
  using assms
  by (cases s) (auto simp: pair_head_def is_surrogate_def is_surrogate_pair_tail_def
      surrogate_pair_code_point_def)

lemma pair_head_high: "pair_head c s \<Longrightarrow> no_low_low (c # s) \<Longrightarrow> c < 56320"
  by (cases s) (auto simp: pair_head_def is_surrogate_def is_surrogate_pair_tail_def)

lemma utf16_single:
  assumes "\<not> pair_head c s"
  shows "utf16_code_points (c # s) = int c # utf16_code_points s"
  using assms
  by (cases s) (auto simp: pair_head_def is_surrogate_def is_surrogate_pair_tail_def)

lemma pair_head_normalize: "pair_head c (normalize_newlines s) = pair_head c s"
  using low_hd_normalize [of s] by (auto simp: pair_head_def)

lemma normalize_pair:
  assumes "pair_head c s"
  shows "normalize_newlines s = hd s # normalize_newlines (tl s)"
  using assms by (cases s) (auto simp: pair_head_def is_surrogate_pair_tail_def)

lemma read_all_pending:
  assumes "whole p" and "no_low_low (pending p)"
  shows "read_all p = utf16_code_points (normalize_newlines (pending p))"
  using assms
proof (induction "length (pending p)" arbitrary: p rule: less_induct)
  case less
  show ?case
  proof (cases "pending p")
    case Nil
    then show ?thesis using advance_end [OF less.prems(1)] by (simp add: read_all.simps)
  next
    case (Cons c s)
    note st = advance_step [OF less.prems(1) Cons]
    have low: "no_low_low (c # s)" "no_low_low s"
      using less.prems(2) Cons no_low_low_tl by simp_all
    have "length (pending (snd (advance p))) < length (pending p)"
      unfolding st(2) Cons using skip_lf_shorter [of s] by (auto simp: less_Suc_eq_le)
    moreover have "no_low_low (tl s)" using low(2) no_low_low_tl by (cases s) auto
    then have "no_low_low (pending (snd (advance p)))"
      unfolding st(2) using low no_low_low_skip by simp
    ultimately have ih: "read_all (snd (advance p)) =
        utf16_code_points (normalize_newlines (pending (snd (advance p))))"
      using less.hyps [OF _ st(3)] by blast
    have "fst (advance p) \<noteq> EOF"
      unfolding st(1) by (auto simp: surrogate_pair_code_point_def pair_head_def is_surrogate_def
          is_surrogate_pair_tail_def)
    then have "read_all p = fst (advance p) # read_all (snd (advance p))"
      by (simp add: read_all.simps [of p] Let_def)
    moreover have "utf16_code_points (normalize_newlines (c # s)) =
        fst (advance p) # utf16_code_points (normalize_newlines (pending (snd (advance p))))"
    proof -
      consider "c = 13" | "c \<noteq> 13" "pair_head c s" | "c \<noteq> 13" "\<not> pair_head c s" by blast
      then show ?thesis
      proof cases
        case 1
        moreover have "\<not> pair_head 10 t" for t by (simp add: pair_head_def is_surrogate_def)
        ultimately show ?thesis unfolding st(1,2) by (simp add: utf16_single)
      next
        case 2
        have "pair_head c (normalize_newlines s)" using 2(2) by (simp add: pair_head_normalize)
        from utf16_pair [OF this pair_head_high [OF 2(2) low(1)]]
        have "utf16_code_points (c # normalize_newlines s) =
            surrogate_pair_code_point (int c) (int (hd s)) # utf16_code_points (normalize_newlines (tl s))"
          unfolding normalize_pair [OF 2(2)] by (simp only: list.sel)
        then show ?thesis using 2 unfolding st(1,2) by (simp only: normalize_newlines.simps if_False if_True)
      next
        case 3
        then show ?thesis unfolding st(1,2) by (simp add: utf16_single pair_head_normalize)
      qed
    qed
    ultimately show ?thesis using ih Cons by simp
  qed
qed

text \<open>
  C1. Reading a complete text to its end gives exactly the code points of the text after line
  ends have been normalised: CR LF and CR are one LF, a surrogate pair is one code point, and
  every other code unit is itself. This holds wherever no two low surrogates stand in a row.
\<close>

theorem preprocessor_reads_code_points:
  assumes "no_low_low s"
  shows "read_all (pp_write s True (new_preprocessor rep)) = utf16_code_points (normalize_newlines s)"
proof -
  let ?p = "pp_write s True (new_preprocessor rep)"
  have "pending ?p = s" by (simp add: pending_def unread_def pp_write_def new_preprocessor_def)
  moreover have "whole ?p" by (simp add: whole_def pp_write_def new_preprocessor_def)
  ultimately show ?thesis using read_all_pending [of ?p] assms by simp
qed

theorem preprocessor_reads_code_points_witness:
  "no_low_low [97, 13, 10, 13, 55357, 56832] \<and>
   read_all (pp_write [97, 13, 10, 13, 55357, 56832] True (new_preprocessor True)) = [97, 10, 10, 128512]"
  using preprocessor_reads_code_points [of "[97, 13, 10, 13, 55357, 56832]" True] by simp

text \<open>
  Two low surrogates in a row are joined as if the first were a high one: the code point
  read lies outside Unicode, and \<open>String.fromCodePoint\<close> throws on it.
\<close>

theorem low_surrogates_leave_unicode:
  "\<exists>s. length s = 2 \<and> fst (advance (pp_write s True (new_preprocessor rep))) > 1114111"
  by (rule exI [of _ "[56320, 56320]"])
     (simp add: advance.simps advance_pos_def advance_read_def processSurrogate_def pp_write_def
       new_preprocessor_def charCodeAt_def is_surrogate_def is_surrogate_pair_tail_def
       surrogate_pair_code_point_def Let_def)

end
