(* ===== verification/Html_Token_Invariant.thy ===== *)
theory Html_Token_Invariant
  imports Html_Progress Html_Stream
begin

text \<open>
  Well-formed tokens and the invariant of the tokenizer: \<open>safe\<close> holds between any two operations,
  and \<open>kind s\<close> says which token the state \<open>s\<close> expects to find. The facts on the operations are
  collected in \<open>safe_rules\<close>, those on the state functions in \<open>good_rules\<close>.
\<close>

named_theorems safe_rules \<open>operations that keep the tokenizer safe\<close>
named_theorems good_rules \<open>state functions that leave a good state\<close>

section \<open>Well-formed tokens\<close>

definition no_upper :: "jsstr \<Rightarrow> bool" where
  "no_upper s \<longleftrightarrow> list_all (\<lambda>u. \<not> is_ascii_upper (int u)) s"

definition tag_ok :: "tag_token \<Rightarrow> bool" where
  "tag_ok g \<longleftrightarrow> distinct (map attr_name (attrs g)) \<and> no_upper (tagName g) \<and>
     list_all (\<lambda>a. no_upper (attr_name a)) (attrs g)"

definition char_ok :: "char_type \<times> jsstr \<Rightarrow> bool" where
  "char_ok k \<longleftrightarrow> snd k \<noteq> [] \<and> list_all (\<lambda>u. char_type_of (int u) = fst k) (snd k)"

fun event_ok :: "token_event \<Rightarrow> bool" where
  "event_ok (OnStartTag g) \<longleftrightarrow> tag_ok g \<and> tag_type g = START_TAG \<and> tagID g = getTagID (tagName g)"
| "event_ok (OnEndTag g) \<longleftrightarrow> tag_ok g \<and> tag_type g = END_TAG \<and> tagID g = getTagID (tagName g)"
| "event_ok (OnCharacter s) \<longleftrightarrow> char_ok (CHARACTER, s)"
| "event_ok (OnNullCharacter s) \<longleftrightarrow> char_ok (NULL_CHARACTER, s)"
| "event_ok (OnWhitespaceCharacter s) \<longleftrightarrow> char_ok (WHITESPACE_CHARACTER, s)"
| "event_ok _ \<longleftrightarrow> True"

lemma char_event_ok: "event_ok (char_event k) = char_ok k"
  by (cases k rule: char_event.cases) simp_all

text \<open>Text whose code points \<open>String.fromCodePoint\<close> accepts.\<close>

definition text_ok :: "jsstr \<Rightarrow> bool" where
  "text_ok s \<longleftrightarrow> no_low_low s \<and> list_all (\<lambda>u. u < 65536) s \<and> length s \<le> 65536"

section \<open>The invariant\<close>

fun token_inv :: "token option \<Rightarrow> bool \<Rightarrow> attr \<Rightarrow> bool" where
  "token_inv (Some (Tag g)) linked a \<longleftrightarrow> tag_ok g \<and> (linked \<longrightarrow> attrs g \<noteq> [] \<and> last (attrs g) = a)"
| "token_inv _ linked a \<longleftrightarrow> True"

fun chars_inv :: "(char_type \<times> jsstr) option \<Rightarrow> bool" where
  "chars_inv (Some k) \<longleftrightarrow> char_ok k"
| "chars_inv None \<longleftrightarrow> True"

definition safe :: "'h tokenizer \<Rightarrow> bool" where
  "safe t \<longleftrightarrow> \<not> stuck t \<and> -1 \<le> pos (pp t) \<and> bufferWaterline (pp t) = 65536 \<and>
     text_ok (html (pp t)) \<and> token_inv (currentToken t) (attrLinked t) (currentAttr t) \<and>
     no_upper (attr_name (currentAttr t)) \<and> no_upper (lastStartTagName t) \<and>
     chars_inv (currentCharacterToken t) \<and> list_all event_ok (out t) \<and>
     returnState t \<in> return_states"

definition is_tag :: "'h tokenizer \<Rightarrow> bool" where
  "is_tag t \<longleftrightarrow> (case currentToken t of Some (Tag _) \<Rightarrow> True | _ \<Rightarrow> False)"

definition is_comment :: "'h tokenizer \<Rightarrow> bool" where
  "is_comment t \<longleftrightarrow> (case currentToken t of Some (Comment _) \<Rightarrow> True | _ \<Rightarrow> False)"

definition doctype_is :: "(doctype_token \<Rightarrow> bool) \<Rightarrow> 'h tokenizer \<Rightarrow> bool" where
  "doctype_is P t \<longleftrightarrow> (case currentToken t of Some (Doctype d) \<Rightarrow> P d | _ \<Rightarrow> False)"

abbreviation (input) is_doctype :: "'h tokenizer \<Rightarrow> bool" where "is_doctype \<equiv> doctype_is (\<lambda>_. True)"
definition named :: "doctype_token \<Rightarrow> bool" where "named d \<longleftrightarrow> doctype_name d \<noteq> None"
definition with_public :: "doctype_token \<Rightarrow> bool" where "with_public d \<longleftrightarrow> publicId d \<noteq> None"
definition with_system :: "doctype_token \<Rightarrow> bool" where "with_system d \<longleftrightarrow> systemId d \<noteq> None"

lemmas doctype_defs = named_def with_public_def with_system_def

definition in_attribute :: "tok_state \<Rightarrow> bool" where
  "in_attribute s \<longleftrightarrow> s = ATTRIBUTE_VALUE_DOUBLE_QUOTED \<or> s = ATTRIBUTE_VALUE_SINGLE_QUOTED \<or>
     s = ATTRIBUTE_VALUE_UNQUOTED"

text \<open>What a state expects to find.\<close>

datatype need = Any | A_Tag | Attr_Name | A_Comment | A_Doctype | Doctype_Name | Public_Id | System_Id
  | Char_Ref | Char_Code | Hex_Start | No_State

definition need_of :: "tok_state \<Rightarrow> need" where
  "need_of s =
     (if s \<le> END_TAG_OPEN then Any
      else if s = TAG_NAME then A_Tag
      else if s \<le> SCRIPT_DATA_DOUBLE_ESCAPE_END then Any
      else if s = ATTRIBUTE_NAME then Attr_Name
      else if s \<le> SELF_CLOSING_START_TAG then A_Tag
      else if s = MARKUP_DECLARATION_OPEN then Any
      else if s \<le> COMMENT_END_BANG then A_Comment
      else if s \<le> BEFORE_DOCTYPE_NAME then Any
      else if s = DOCTYPE_NAME then Doctype_Name
      else if s = DOCTYPE_PUBLIC_IDENTIFIER_DOUBLE_QUOTED \<or> s = DOCTYPE_PUBLIC_IDENTIFIER_SINGLE_QUOTED
      then Public_Id
      else if s = DOCTYPE_SYSTEM_IDENTIFIER_DOUBLE_QUOTED \<or> s = DOCTYPE_SYSTEM_IDENTIFIER_SINGLE_QUOTED
      then System_Id
      else if s \<le> BOGUS_DOCTYPE then A_Doctype
      else if s \<le> CDATA_SECTION_END then Any
      else if s \<le> NUMERIC_CHARACTER_REFERENCE then Char_Ref
      else if s = HEXADEMICAL_CHARACTER_REFERENCE_START then Hex_Start
      else if s \<le> NUMERIC_CHARACTER_REFERENCE_END then Char_Code
      else No_State)"

definition return_tag :: "'h tokenizer \<Rightarrow> bool" where
  "return_tag t \<longleftrightarrow> (in_attribute (returnState t) \<longrightarrow> is_tag t)"

definition kind :: "tok_state \<Rightarrow> 'h tokenizer \<Rightarrow> bool" where
  "kind s t \<longleftrightarrow> (case need_of s of
     Any \<Rightarrow> True | A_Tag \<Rightarrow> is_tag t | Attr_Name \<Rightarrow> is_tag t \<and> \<not> attrLinked t
   | A_Comment \<Rightarrow> is_comment t | A_Doctype \<Rightarrow> is_doctype t | Doctype_Name \<Rightarrow> doctype_is named t
   | Public_Id \<Rightarrow> doctype_is with_public t | System_Id \<Rightarrow> doctype_is with_system t
   | Char_Ref \<Rightarrow> return_tag t | Char_Code \<Rightarrow> return_tag t \<and> 0 \<le> charRefCode t
   | Hex_Start \<Rightarrow> return_tag t \<and> 0 \<le> charRefCode t \<and> 0 \<le> pos (pp t) | No_State \<Rightarrow> False)"

definition ready :: "'h tokenizer \<Rightarrow> bool" where
  "ready t \<longleftrightarrow> safe t \<and> kind (tstate t) t"

definition good :: "'h tokenizer \<Rightarrow> bool" where
  "good t \<longleftrightarrow> safe t \<and> (active t \<longrightarrow> kind (tstate t) t)"

lemma ready_good [good_rules]: "ready t \<Longrightarrow> good t"
  by (simp add: ready_def good_def)

text \<open>A state that expects nothing of the token.\<close>

definition free :: "tok_state \<Rightarrow> bool" where
  "free s \<longleftrightarrow> need_of s = Any"

lemma free_kind: "free s \<Longrightarrow> kind s t"
  by (simp add: free_def kind_def)

lemma free_mode: "free (mode_state m)"
  by (cases m) (simp_all add: free_def need_of_def)

section \<open>Frames\<close>

lemma kinds_err [safe_rules]:
  "is_tag (tok_err c t) = is_tag t" "is_comment (tok_err c t) = is_comment t"
  "doctype_is P (tok_err c t) = doctype_is P t" "attrLinked (tok_err c t) = attrLinked t"
  "tstate (tok_err c t) = tstate t" "returnState (tok_err c t) = returnState t"
  "charRefCode (tok_err c t) = charRefCode t" "currentToken (tok_err c t) = currentToken t"
  "safe (tok_err c t) = safe t" "pos (pp (tok_err c t)) = pos (pp t)" "active (tok_err c t) = active t"
  by (simp_all add: tok_err_def is_tag_def is_comment_def doctype_is_def safe_def)

lemma kinds_state [safe_rules]:
  "is_tag (set_state s t) = is_tag t" "is_comment (set_state s t) = is_comment t"
  "doctype_is P (set_state s t) = doctype_is P t" "attrLinked (set_state s t) = attrLinked t"
  "tstate (set_state s t) = s" "returnState (set_state s t) = returnState t"
  "charRefCode (set_state s t) = charRefCode t" "currentToken (set_state s t) = currentToken t"
  "safe (set_state s t) = safe t" "pos (pp (set_state s t)) = pos (pp t)" "active (set_state s t) = active t"
  by (simp_all add: set_state_def is_tag_def is_comment_def doctype_is_def safe_def)

lemma kinds_return [safe_rules]:
  "is_tag (set_return s t) = is_tag t" "is_comment (set_return s t) = is_comment t"
  "doctype_is P (set_return s t) = doctype_is P t" "attrLinked (set_return s t) = attrLinked t"
  "tstate (set_return s t) = tstate t" "returnState (set_return s t) = s"
  "charRefCode (set_return s t) = charRefCode t"
  "s \<in> return_states \<Longrightarrow> safe t \<Longrightarrow> safe (set_return s t)" "pos (pp (set_return s t)) = pos (pp t)"
  by (simp_all add: set_return_def is_tag_def is_comment_def doctype_is_def safe_def)

lemma kinds_create [safe_rules]:
  "is_tag (createStartTagToken t)" "is_tag (createEndTagToken t)" "is_comment (createCommentToken t)"
  "doctype_is P (createDoctypeToken n t) = P \<lparr>doctype_name = n, forceQuirks = False, publicId = None, systemId = None\<rparr>"
  "is_comment (set_token (Comment d) t)"
  "safe t \<Longrightarrow> safe (createStartTagToken t)" "safe t \<Longrightarrow> safe (createEndTagToken t)"
  "safe t \<Longrightarrow> safe (createCommentToken t)" "safe t \<Longrightarrow> safe (createDoctypeToken n t)"
  "safe t \<Longrightarrow> safe (set_token (Comment d) t)"
  "\<not> attrLinked (createStartTagToken t)" "\<not> attrLinked (createEndTagToken t)"
  by (simp_all add: createStartTagToken_def createEndTagToken_def createCommentToken_def
      createDoctypeToken_def set_token_def is_tag_def is_comment_def doctype_is_def safe_def
      tag_ok_def new_tag_def no_upper_def)

lemma kinds_createAttr [safe_rules]:
  "is_tag (createAttr n t) = is_tag t" "tstate (createAttr n t) = tstate t" "\<not> attrLinked (createAttr n t)"
  "safe t \<Longrightarrow> no_upper n \<Longrightarrow> safe (createAttr n t)"
  by (auto simp: createAttr_def is_tag_def safe_def elim: token_inv.elims)

text \<open>The operations on the current token: one rule for each kind.\<close>

lemma tag_cases:
  assumes "is_tag t"
  obtains g where "currentToken t = Some (Tag g)"
  using assms by (auto simp: is_tag_def split: option.splits token.splits)

lemma comment_cases:
  assumes "is_comment t"
  obtains d where "currentToken t = Some (Comment d)"
  using assms by (auto simp: is_comment_def split: option.splits token.splits)

lemma doctype_cases:
  assumes "doctype_is P t"
  obtains d where "currentToken t = Some (Doctype d)" and "P d"
  using assms by (auto simp: doctype_is_def split: option.splits token.splits)

lemma no_upper_append [simp]: "no_upper (a @ b) = (no_upper a \<and> no_upper b)"
  by (simp add: no_upper_def)

lemma getTokenAttr_None: "getTokenAttr g n = None \<longleftrightarrow> n \<notin> attr_name ` set (attrs g)"
  by (auto simp: getTokenAttr_def map_of_eq_None_iff image_image)

lemma kinds_leaveAttrName [safe_rules]:
  assumes "is_tag t" and "safe t"
  shows "is_tag (leaveAttrName t)" and "safe (leaveAttrName t)"
proof -
  obtain g where g: "currentToken t = Some (Tag g)" using assms(1) by (rule tag_cases)
  let ?a = "currentAttr t"
  have "tag_ok g" "no_upper (attr_name ?a)" using assms(2) g by (auto simp: safe_def)
  then have "tag_ok (g\<lparr>attrs := attrs g @ [?a]\<rparr>)" if "getTokenAttr g (attr_name ?a) = None"
    using that by (auto simp: tag_ok_def getTokenAttr_None)
  then show "is_tag (leaveAttrName t)" "safe (leaveAttrName t)"
    using assms g by (auto simp: leaveAttrName_def is_tag_def safe_def kinds_err tok_err_def)
qed

lemma kinds_tagName [safe_rules]:
  assumes "is_tag t" and "safe t" and "no_upper s"
  shows "is_tag (add_tagName s t)" and "safe (add_tagName s t)"
    and "is_tag (set_tagName s t)" and "safe (set_tagName s t)"
    and "tstate (add_tagName s t) = tstate t"
proof -
  obtain g where g: "currentToken t = Some (Tag g)" using assms(1) by (rule tag_cases)
  then show "is_tag (add_tagName s t)" "safe (add_tagName s t)" "is_tag (set_tagName s t)"
    "safe (set_tagName s t)" "tstate (add_tagName s t) = tstate t"
    using assms(2,3) by (auto simp: add_tagName_def set_tagName_def is_tag_def safe_def tag_ok_def)
qed

lemma kinds_selfClosing [safe_rules]:
  assumes "is_tag t" and "safe t"
  shows "is_tag (set_selfClosing t)" and "safe (set_selfClosing t)"
proof -
  obtain g where g: "currentToken t = Some (Tag g)" using assms(1) by (rule tag_cases)
  then show "is_tag (set_selfClosing t)" "safe (set_selfClosing t)"
    using assms(2) by (auto simp: set_selfClosing_def is_tag_def safe_def tag_ok_def)
qed

lemma kinds_comment [safe_rules]:
  assumes "is_comment t" and "safe t"
  shows "is_comment (add_comment s t)" and "safe (add_comment s t)"
    and "tstate (add_comment s t) = tstate t"
proof -
  obtain d where d: "currentToken t = Some (Comment d)" using assms(1) by (rule comment_cases)
  then show "is_comment (add_comment s t)" "safe (add_comment s t)" "tstate (add_comment s t) = tstate t"
    using assms(2) by (auto simp: add_comment_def is_comment_def safe_def)
qed

lemma doctype_is_mono: "doctype_is P t \<Longrightarrow> (\<And>d. P d \<Longrightarrow> Q d) \<Longrightarrow> doctype_is Q t"
  by (auto simp: doctype_is_def split: option.splits token.splits)

lemma kinds_doctype_add [safe_rules]:
  assumes "safe t"
  shows "doctype_is named t \<Longrightarrow> doctype_is named (add_doctype_name s t)" and "doctype_is named t \<Longrightarrow> safe (add_doctype_name s t)"
    and "doctype_is named t \<Longrightarrow> tstate (add_doctype_name s t) = tstate t"
    and "doctype_is with_public t \<Longrightarrow> doctype_is with_public (add_publicId s t)" and "doctype_is with_public t \<Longrightarrow> safe (add_publicId s t)"
    and "doctype_is with_public t \<Longrightarrow> tstate (add_publicId s t) = tstate t"
    and "doctype_is with_system t \<Longrightarrow> doctype_is with_system (add_systemId s t)" and "doctype_is with_system t \<Longrightarrow> safe (add_systemId s t)"
    and "doctype_is with_system t \<Longrightarrow> tstate (add_systemId s t) = tstate t"
  using assms
  by (auto simp: add_doctype_name_def add_publicId_def add_systemId_def map_doctype_def doctype_is_def
      safe_def doctype_defs split: option.splits token.splits)

lemma kinds_doctype_set [safe_rules]:
  assumes "safe t"
  shows "is_doctype t \<Longrightarrow> is_doctype (set_forceQuirks t)" and "is_doctype t \<Longrightarrow> safe (set_forceQuirks t)"
    and "is_doctype t \<Longrightarrow> doctype_is with_public (start_publicId t)" and "is_doctype t \<Longrightarrow> safe (start_publicId t)"
    and "is_doctype t \<Longrightarrow> doctype_is with_system (start_systemId t)" and "is_doctype t \<Longrightarrow> safe (start_systemId t)"
  using assms
  by (auto simp: set_forceQuirks_def start_publicId_def start_systemId_def map_doctype_def
      doctype_is_def safe_def doctype_defs split: option.splits token.splits)

lemma kinds_doctype_any [safe_rules]:
  "doctype_is named t \<Longrightarrow> is_doctype t" "doctype_is with_public t \<Longrightarrow> is_doctype t" "doctype_is with_system t \<Longrightarrow> is_doctype t"
  by (auto intro: doctype_is_mono)

text \<open>The attribute object.\<close>

lemma set_attr_safe:
  assumes "safe t" and "no_upper (attr_name a)"
    and "attrLinked t \<Longrightarrow> attr_name a = attr_name (currentAttr t)"
  shows "safe (set_attr a t)"
proof (cases "\<exists>g. currentToken t = Some (Tag g) \<and> attrLinked t")
  case True
  then obtain g where g: "currentToken t = Some (Tag g)" "attrLinked t" by blast
  then have ok: "tag_ok g" "attrs g \<noteq> []" "last (attrs g) = currentAttr t"
    using assms(1) by (auto simp: safe_def)
  then obtain xs x where xs: "attrs g = xs @ [x]" by (metis append_butlast_last_id)
  then have "x = currentAttr t" using ok(3) by simp
  then have "tag_ok (g\<lparr>attrs := butlast (attrs g) @ [a]\<rparr>)"
    using ok(1) assms(2,3) g xs by (auto simp: tag_ok_def)
  then show ?thesis using assms(1,2) g by (simp add: set_attr_def safe_def Let_def)
next
  case False
  then show ?thesis using assms(1,2)
    by (auto simp: set_attr_def safe_def Let_def split: option.splits token.splits)
qed

lemma set_attr_kinds [simp]:
  "is_tag (set_attr a t) = is_tag t" "attrLinked (set_attr a t) = attrLinked t"
  "tstate (set_attr a t) = tstate t"
  by (auto simp: set_attr_def Let_def is_tag_def split: option.splits token.splits)

lemma kinds_add_attr [safe_rules]:
  "is_tag (add_attr_name s t) = is_tag t" "attrLinked (add_attr_name s t) = attrLinked t"
  "tstate (add_attr_name s t) = tstate t" "tstate (add_attr_value s t) = tstate t"
  "is_tag (add_attr_value s t) = is_tag t" "attrLinked (add_attr_value s t) = attrLinked t"
  "safe t \<Longrightarrow> no_upper s \<Longrightarrow> \<not> attrLinked t \<Longrightarrow> safe (add_attr_name s t)"
  "safe t \<Longrightarrow> safe (add_attr_value s t)"
  by (auto simp: add_attr_name_def add_attr_value_def intro!: set_attr_safe) (auto simp: safe_def)

section \<open>Emitting\<close>

lemma no_low_low_drop: "no_low_low s \<Longrightarrow> no_low_low (drop n s)"
proof (induction s arbitrary: n)
  case (Cons c s)
  then show ?case using no_low_low_tl by (cases n) auto
qed simp

lemma text_ok_drop: "text_ok s \<Longrightarrow> text_ok (drop n s)"
  by (auto simp: text_ok_def no_low_low_drop list_all_iff dest: in_set_dropD)

lemma kinds_notify [safe_rules]:
  "is_tag (notify on ev t) = is_tag t" "is_comment (notify on ev t) = is_comment t"
  "doctype_is P (notify on ev t) = doctype_is P t" "attrLinked (notify on ev t) = attrLinked t"
  "returnState (notify on ev t) = returnState t" "charRefCode (notify on ev t) = charRefCode t"
  "currentToken (notify on ev t) = currentToken t" "pos (pp (notify on ev t)) = pos (pp t)"
  "active (notify on ev t) = active t"
  by (simp_all add: notify_def is_tag_def is_comment_def doctype_is_def split: prod.split)

lemma safe_notify [safe_rules]: "safe t \<Longrightarrow> event_ok ev \<Longrightarrow> safe (notify on ev t)"
  by (simp add: notify_def safe_def split: prod.split)

text \<open>Equal tokens satisfy the same expectations.\<close>

lemma kind_cong:
  assumes "currentToken t' = currentToken t" "attrLinked t' = attrLinked t"
    "returnState t' = returnState t" "charRefCode t' = charRefCode t" "pos (pp t') = pos (pp t)"
  shows "kind s t' = kind s t"
  using assms by (simp add: kind_def is_tag_def is_comment_def doctype_is_def return_tag_def split: need.split)

lemma kind_notify: "kind s (notify on ev t) = kind s t"
  by (rule kind_cong) (simp_all add: safe_rules)

lemma tstate_notify: "tstate (notify on ev t) = tstate t \<or> free (tstate (notify on ev t))"
  using free_mode by (auto simp: notify_def split: prod.splits option.splits)

lemma ready_notify [safe_rules]:
  assumes "ready t" and "event_ok ev"
  shows "ready (notify on ev t)"
  using assms tstate_notify [of on ev t] free_kind safe_notify
  by (auto simp: ready_def kind_notify)

lemma ready_update [safe_rules]:
  "ready t \<Longrightarrow> chars_inv x \<Longrightarrow> ready (t\<lparr>currentCharacterToken := x\<rparr>)"
  "safe t \<Longrightarrow> chars_inv x \<Longrightarrow> safe (t\<lparr>currentCharacterToken := x\<rparr>)"
  by (auto simp: ready_def safe_def kind_cong [of "t\<lparr>currentCharacterToken := x\<rparr>" t])

lemma safe_chars: "safe t \<Longrightarrow> currentCharacterToken t = Some k \<Longrightarrow> char_ok k"
  by (simp add: safe_def)

lemma emitCurrentCharacterToken_safe [safe_rules]:
  "safe t \<Longrightarrow> safe (emitCurrentCharacterToken on t)"
  "ready t \<Longrightarrow> ready (emitCurrentCharacterToken on t)"
proof -
  have "char_ok k" if "safe t" "currentCharacterToken t = Some k" for k using that by (rule safe_chars)
  moreover have "ready t \<Longrightarrow> safe t" by (simp add: ready_def)
  ultimately show "safe t \<Longrightarrow> safe (emitCurrentCharacterToken on t)"
    "ready t \<Longrightarrow> ready (emitCurrentCharacterToken on t)"
    by (auto simp: emitCurrentCharacterToken_def safe_rules char_event_ok split: option.split)
qed

lemma kinds_emitChars [safe_rules]:
  "is_tag (emitCurrentCharacterToken on t) = is_tag t"
  "currentToken (emitCurrentCharacterToken on t) = currentToken t"
  "is_comment (emitCurrentCharacterToken on t) = is_comment t"
  "doctype_is P (emitCurrentCharacterToken on t) = doctype_is P t"
  by (simp_all add: emitCurrentCharacterToken_def is_tag_def is_comment_def doctype_is_def
      notify_def split: option.split prod.split)

lemma drop_chunk_safe [safe_rules]:
  "safe t \<Longrightarrow> safe (drop_chunk t)" "ready t \<Longrightarrow> ready (drop_chunk t)"
proof -
  show s: "safe t \<Longrightarrow> safe (drop_chunk t)"
    by (auto simp: safe_def drop_chunk_def dropParsedChunk_def text_ok_drop)
  have "kind s t \<Longrightarrow> kind s (drop_chunk t)" for s
    by (auto simp: kind_def drop_chunk_def dropParsedChunk_def is_tag_def is_comment_def
        doctype_is_def return_tag_def split: need.splits)
  then show "ready t \<Longrightarrow> ready (drop_chunk t)" using s by (auto simp: ready_def drop_chunk_def)
qed

lemma tstate_drop [safe_rules]: "tstate (drop_chunk t) = tstate t"
  by (simp add: drop_chunk_def)

lemma safe_no_token [safe_rules]: "safe t \<Longrightarrow> safe (t\<lparr>currentToken := None, attrLinked := b\<rparr>)"
  by (simp add: safe_def)

lemma prepareToken_safe [safe_rules]: "safe t \<Longrightarrow> safe (prepareToken on t)"
  by (simp add: prepareToken_def safe_rules)

lemma notify_free: "free (tstate t) \<Longrightarrow> free (tstate (notify on ev t))"
  using tstate_notify [of on ev t] by auto

lemma prepareToken_free: "free (tstate t) \<Longrightarrow> free (tstate (prepareToken on t))"
  by (simp add: prepareToken_def emitCurrentCharacterToken_def notify_free split: option.split)

lemma safe_lastStartTagName [safe_rules]: "safe t \<Longrightarrow> no_upper s \<Longrightarrow> safe (t\<lparr>lastStartTagName := s\<rparr>)"
  by (simp add: safe_def)

lemma ready_free: "safe t \<Longrightarrow> free (tstate t) \<Longrightarrow> ready t"
  by (simp add: ready_def free_kind)

lemma emitCurrentTagToken_safe [safe_rules]:
  assumes "is_tag t" and "safe t"
  shows "safe (emitCurrentTagToken on t)"
    and "free (tstate t) \<Longrightarrow> ready (emitCurrentTagToken on t)"
proof -
  obtain g where g: "currentToken t = Some (Tag g)" using assms(1) by (rule tag_cases)
  then have ok: "tag_ok g" using assms(2) by (simp add: safe_def)
  let ?g = "g\<lparr>tagID := getTagID (tagName g)\<rparr>" and ?t1 = "prepareToken on t"
  have g': "tag_ok ?g" "no_upper (tagName g)" using ok by (auto simp: tag_ok_def)
  have ty: "tag_type g = START_TAG \<or> tag_type g = END_TAG" by (cases "tag_type g") auto
  have t1: "safe ?t1" using assms(2) by (rule prepareToken_safe)
  define u where "u = (if tag_type g = START_TAG
      then notify on (OnStartTag ?g) (?t1\<lparr>lastStartTagName := tagName g\<rparr>)
      else let t2 = (if attrs g \<noteq> [] then tok_err endTagWithAttributes ?t1 else ?t1);
               t3 = (if selfClosing g then tok_err endTagWithTrailingSolidus t2 else t2)
           in notify on (OnEndTag ?g) t3)"
  have eq: "emitCurrentTagToken on t = drop_chunk u"
    using g by (simp add: emitCurrentTagToken_def u_def Let_def)
  have "safe u" using t1 g' ty by (auto simp: u_def Let_def safe_rules)
  then show s: "safe (emitCurrentTagToken on t)" unfolding eq by (rule drop_chunk_safe)
  show "ready (emitCurrentTagToken on t)" if "free (tstate t)"
  proof (rule ready_free [OF s])
    have "free (tstate ?t1)" using that by (rule prepareToken_free)
    then show "free (tstate (emitCurrentTagToken on t))"
      unfolding eq by (auto simp: u_def Let_def safe_rules notify_free)
  qed
qed

lemma emitCurrentComment_safe [safe_rules]:
  assumes "is_comment t" and "safe t"
  shows "safe (emitCurrentComment on t)" and "free (tstate t) \<Longrightarrow> ready (emitCurrentComment on t)"
proof -
  obtain d where d: "currentToken t = Some (Comment d)" using assms(1) by (rule comment_cases)
  then show s: "safe (emitCurrentComment on t)"
    using assms(2) by (simp add: emitCurrentComment_def safe_rules)
  show "ready (emitCurrentComment on t)" if "free (tstate t)"
    using that d by (intro ready_free [OF s])
      (simp add: emitCurrentComment_def safe_rules notify_free prepareToken_free)
qed

lemma emitCurrentDoctype_safe [safe_rules]:
  assumes "is_doctype t" and "safe t"
  shows "safe (emitCurrentDoctype on t)" and "free (tstate t) \<Longrightarrow> ready (emitCurrentDoctype on t)"
proof -
  obtain d where d: "currentToken t = Some (Doctype d)" using assms(1) by (rule doctype_cases)
  then show s: "safe (emitCurrentDoctype on t)"
    using assms(2) by (simp add: emitCurrentDoctype_def safe_rules)
  show "ready (emitCurrentDoctype on t)" if "free (tstate t)"
    using that d by (intro ready_free [OF s])
      (simp add: emitCurrentDoctype_def safe_rules notify_free prepareToken_free)
qed

lemma emitEOFToken_good [good_rules]: "safe t \<Longrightarrow> good (emitEOFToken on t)"
proof -
  assume "safe t"
  then have "safe (notify on OnEof (emitCurrentCharacterToken on t))" by (simp add: safe_rules)
  then show ?thesis by (simp add: emitEOFToken_def good_def safe_def)
qed

lemma char_ok_append: "char_ok (ty, a) \<Longrightarrow> char_ok (ty, b) \<Longrightarrow> char_ok (ty, a @ b)"
  by (simp add: char_ok_def)

lemma appendChar_safe [safe_rules]:
  assumes "char_ok (ty, s)"
  shows "safe t \<Longrightarrow> safe (appendCharToCurrentCharacterToken on ty s t)"
    and "ready t \<Longrightarrow> ready (appendCharToCurrentCharacterToken on ty s t)"
proof -
  have r: "ready t \<Longrightarrow> safe t" by (simp add: ready_def)
  show "safe t \<Longrightarrow> safe (appendCharToCurrentCharacterToken on ty s t)"
    using assms char_ok_append safe_chars [of t]
    by (auto simp: appendCharToCurrentCharacterToken_def createCharacterToken_def safe_rules
        split: option.split)
  show "ready t \<Longrightarrow> ready (appendCharToCurrentCharacterToken on ty s t)"
    using assms char_ok_append safe_chars [OF r, of _ ] r
    by (auto simp: appendCharToCurrentCharacterToken_def createCharacterToken_def safe_rules
        split: option.split)
qed

lemma fromCodePoint_pair:
  assumes "65535 < c"
  obtains h l where "fromCodePoint c = [h, l]" and "55296 \<le> h" and "56320 \<le> l"
proof
  show "fromCodePoint c = [nat (55296 + (c - 65536) div 1024), nat (56320 + (c - 65536) mod 1024)]"
    using assms by (simp add: fromCodePoint_def)
  have "0 \<le> (c - 65536) div 1024" "0 \<le> (c - 65536) mod 1024"
    using assms by (simp_all add: pos_imp_zdiv_nonneg_iff)
  then show "55296 \<le> nat (55296 + (c - 65536) div 1024)" "56320 \<le> nat (56320 + (c - 65536) mod 1024)"
    by linarith+
qed

lemma high_units: "55296 \<le> u \<Longrightarrow> char_type_of (int u) = CHARACTER" "55296 \<le> u \<Longrightarrow> \<not> is_ascii_upper (int u)"
  by (auto simp: char_type_of_def is_whitespace_def is_ascii_upper_def)

lemma char_ok_code_point:
  assumes "valid_code_point c"
  shows "char_ok (char_type_of c, fromCodePoint c)"
proof (cases "65535 < c")
  case False
  then show ?thesis using assms by (simp add: char_ok_def fromCodePoint_def valid_code_point_def)
next
  case True
  then obtain h l where "fromCodePoint c = [h, l]" "55296 \<le> h" "56320 \<le> l" by (rule fromCodePoint_pair)
  moreover have "char_type_of c = CHARACTER" using True by (auto simp: char_type_of_def is_whitespace_def)
  ultimately show ?thesis by (simp add: char_ok_def high_units)
qed

lemma with_valid [safe_rules]: "valid_code_point c \<Longrightarrow> with_code_point c f t = f (fromCodePoint c) t"
  by (simp add: with_code_point_def)

lemma emitCodePoint_safe [safe_rules]:
  assumes "valid_code_point c"
  shows "safe t \<Longrightarrow> safe (emitCodePoint on c t)" and "ready t \<Longrightarrow> ready (emitCodePoint on c t)"
  using assms char_ok_code_point [OF assms] by (simp_all add: emitCodePoint_def safe_rules)

text \<open>The text a state emits on its own holds neither white space nor NUL.\<close>

definition plain :: "jsstr \<Rightarrow> bool" where
  "plain s \<longleftrightarrow> char_ok (CHARACTER, s)"

lemma plain_strings [safe_rules]:
  "plain REPLACEMENT" "plain (js ''<'')" "plain (js ''</'')" "plain (js ''<!'')" "plain (js ''-'')"
  "plain (js ''>'')" "plain (js ''/'')" "plain (js '']'')" "plain (js '']]'')"
  by (simp_all add: plain_def char_ok_def js_def char_type_of_def is_whitespace_def)

lemma emitChars_safe [safe_rules]:
  assumes "plain s"
  shows "safe t \<Longrightarrow> safe (emitChars on s t)" and "ready t \<Longrightarrow> ready (emitChars on s t)"
  using assms by (simp_all add: emitChars_def plain_def safe_rules)

lemma no_upper_code_point [safe_rules]:
  assumes "valid_code_point e"
  shows "\<not> is_ascii_upper e \<Longrightarrow> no_upper (fromCodePoint e)"
    and "is_ascii_upper e \<Longrightarrow> no_upper (fromCodePoint (to_ascii_lower e))"
    and "is_ascii_upper e \<Longrightarrow> valid_code_point (to_ascii_lower e)"
proof -
  show "\<not> is_ascii_upper e \<Longrightarrow> no_upper (fromCodePoint e)"
  proof (cases "65535 < e")
    case True
    then obtain h l where "fromCodePoint e = [h, l]" "55296 \<le> h" "56320 \<le> l" by (rule fromCodePoint_pair)
    then show ?thesis by (simp add: no_upper_def high_units)
  next
    case False
    then show "\<not> is_ascii_upper e \<Longrightarrow> no_upper (fromCodePoint e)"
      using assms by (simp add: no_upper_def fromCodePoint_def valid_code_point_def)
  qed
  show "is_ascii_upper e \<Longrightarrow> no_upper (fromCodePoint (to_ascii_lower e))"
    by (auto simp: no_upper_def fromCodePoint_def is_ascii_upper_def to_ascii_lower_def)
  show "is_ascii_upper e \<Longrightarrow> valid_code_point (to_ascii_lower e)"
    by (auto simp: valid_code_point_def is_ascii_upper_def to_ascii_lower_def)
qed

lemma no_upper_strings [safe_rules]: "no_upper []" "no_upper REPLACEMENT" "no_upper (js ''='')"
  by (simp_all add: no_upper_def js_def is_ascii_upper_def)

section \<open>Operations that keep a state ready\<close>

definition cp_ok :: "cp \<Rightarrow> bool" where
  "cp_ok e \<longleftrightarrow> e = EOF \<or> valid_code_point e"

lemma cp_ok_valid [safe_rules]: "cp_ok e \<Longrightarrow> e \<noteq> EOF \<Longrightarrow> valid_code_point e"
  by (simp add: cp_ok_def)

lemma valid_numerals [safe_rules]:
  "valid_code_point NULL" "valid_code_point QUOTATION_MARK" "valid_code_point APOSTROPHE"
  "valid_code_point LESS_THAN_SIGN" "valid_code_point EQUALS_SIGN" "valid_code_point GRAVE_ACCENT"
  "valid_code_point AMPERSAND" "valid_code_point NUMBER_SIGN"
  by (simp_all add: valid_code_point_def)

lemma ready_safe: "ready t \<Longrightarrow> safe t"
  by (simp add: ready_def)

lemma ready_set_state [safe_rules]: "safe t \<Longrightarrow> kind s t \<Longrightarrow> ready (set_state s t)"
  by (simp add: ready_def safe_rules kind_cong [of "set_state s t" t])

lemma ready_err [safe_rules]: "ready (tok_err c t) = ready t"
  by (simp add: ready_def safe_rules kind_cong [of "tok_err c t" t])

lemma not_doctype:
  "is_tag t \<Longrightarrow> \<not> doctype_is P t" "is_comment t \<Longrightarrow> \<not> doctype_is P t"
  "is_tag t \<Longrightarrow> \<not> is_comment t"
  by (auto simp: doctype_is_def is_tag_def is_comment_def split: option.splits token.splits)

lemma ready_add_tagName [safe_rules]:
  assumes "ready t" and "is_tag t" and "no_upper s"
  shows "ready (add_tagName s t)"
proof -
  have s: "safe t" using assms(1) by (rule ready_safe)
  obtain g where g: "currentToken t = Some (Tag g)" using assms(2) by (rule tag_cases)
  have "is_tag (add_tagName s t)" "safe (add_tagName s t)" using assms s by (simp_all add: safe_rules)
  then show ?thesis using assms(1,2) g not_doctype
    by (auto simp: ready_def kind_def add_tagName_def return_tag_def is_comment_def doctype_is_def
        split: need.splits)
qed

lemma ready_add_comment [safe_rules]:
  assumes "ready t" and "is_comment t"
  shows "ready (add_comment s t)"
proof -
  have s: "safe t" using assms(1) by (rule ready_safe)
  obtain g where g: "currentToken t = Some (Comment g)" using assms(2) by (rule comment_cases)
  have "is_comment (add_comment s t)" "safe (add_comment s t)" using assms s by (simp_all add: safe_rules)
  then show ?thesis using assms(1) g not_doctype
    by (auto simp: ready_def kind_def add_comment_def return_tag_def is_tag_def doctype_is_def
        split: need.splits)
qed

lemma ready_add_doctype [safe_rules]:
  assumes "ready t"
  shows "tstate t = DOCTYPE_NAME \<Longrightarrow> ready (add_doctype_name s t)"
    and "need_of (tstate t) = Public_Id \<Longrightarrow> ready (add_publicId s t)"
    and "need_of (tstate t) = System_Id \<Longrightarrow> ready (add_systemId s t)"
proof -
  have s: "safe t" using assms(1) by (rule ready_safe)
  show "tstate t = DOCTYPE_NAME \<Longrightarrow> ready (add_doctype_name s t)"
    using assms s by (simp add: ready_def kind_def need_of_def safe_rules)
  show "need_of (tstate t) = Public_Id \<Longrightarrow> ready (add_publicId s t)"
    using assms s by (simp add: ready_def kind_def safe_rules)
  show "need_of (tstate t) = System_Id \<Longrightarrow> ready (add_systemId s t)"
    using assms s by (simp add: ready_def kind_def safe_rules)
qed

lemma set_attr_kind: "kind s (set_attr a t) = kind s t"
proof -
  have "is_comment (set_attr a t) = is_comment t" "doctype_is P (set_attr a t) = doctype_is P t"
    "charRefCode (set_attr a t) = charRefCode t" "returnState (set_attr a t) = returnState t" for P
    by (auto simp: set_attr_def Let_def is_comment_def doctype_is_def split: option.splits token.splits)
  then show ?thesis by (simp add: kind_def return_tag_def set_attr_pp split: need.split)
qed

lemma ready_add_attr [safe_rules]:
  "ready t \<Longrightarrow> ready (add_attr_value s t)"
  "ready t \<Longrightarrow> no_upper s \<Longrightarrow> \<not> attrLinked t \<Longrightarrow> ready (add_attr_name s t)"
proof -
  have k: "kind x (add_attr_value s t) = kind x t" "kind x (add_attr_name s t) = kind x t" for x
    by (simp_all add: add_attr_value_def add_attr_name_def set_attr_kind)
  show "ready t \<Longrightarrow> ready (add_attr_value s t)" by (simp add: ready_def safe_rules k)
  show "ready t \<Longrightarrow> no_upper s \<Longrightarrow> \<not> attrLinked t \<Longrightarrow> ready (add_attr_name s t)"
    by (simp add: ready_def safe_rules k)
qed

end
