(* ===== verification/Html_Soundness.thy ===== *)
theory Html_Soundness
  imports Html_Token_Invariant
begin

text \<open>
  The tokenizer never throws on well-formed text of at most 65536 code units, and every token it
  reports is well-formed: each state function leads from a state whose expectations hold to
  another one.
\<close>

section \<open>States that read nothing\<close>

lemma cp_ok_numerals [safe_rules]: "cp_ok GREATER_THAN_SIGN" "cp_ok QUESTION_MARK"
  by (simp_all add: cp_ok_def valid_code_point_def)

lemmas kind_defs = kind_def free_def need_of_def return_tag_def in_attribute_def

lemma good_stateData [good_rules]:
  assumes "ready t" and "cp_ok e"
  shows "good (stateData on e t)"
  using assms ready_safe [OF assms(1)]
  by (simp add: stateData_def kind_defs safe_rules good_rules )

lemma good_stateRcdata [good_rules]:
  assumes "ready t" and "cp_ok e"
  shows "good (stateRcdata on e t)"
  using assms ready_safe [OF assms(1)]
  by (simp add: stateRcdata_def kind_defs safe_rules good_rules )

lemma good_stateRawtext [good_rules]:
  assumes "ready t" and "cp_ok e"
  shows "good (stateRawtext on e t)"
  using assms ready_safe [OF assms(1)]
  by (simp add: stateRawtext_def kind_defs safe_rules good_rules )

lemma good_stateScriptData [good_rules]:
  assumes "ready t" and "cp_ok e"
  shows "good (stateScriptData on e t)"
  using assms ready_safe [OF assms(1)]
  by (simp add: stateScriptData_def kind_defs safe_rules good_rules )

lemma good_statePlaintext [good_rules]:
  assumes "ready t" and "cp_ok e"
  shows "good (statePlaintext on e t)"
  using assms ready_safe [OF assms(1)]
  by (simp add: statePlaintext_def kind_defs safe_rules good_rules )

lemma good_stateBogusComment [good_rules]:
  assumes "ready t" and "cp_ok e" and "tstate t = BOGUS_COMMENT"
  shows "good (stateBogusComment on e t)"
proof -
  have k: "safe t" "is_comment t"
    using assms by (simp_all add: ready_def kind_defs )
  show ?thesis
    using assms k by (simp add: stateBogusComment_def kind_defs safe_rules good_rules )
qed

lemma good_stateComment [good_rules]:
  assumes "ready t" and "cp_ok e" and "tstate t = COMMENT"
  shows "good (stateComment on e t)"
proof -
  have k: "safe t" "is_comment t"
    using assms by (simp_all add: ready_def kind_defs )
  show ?thesis
    using assms k by (simp add: stateComment_def kind_defs safe_rules good_rules )
qed

lemma good_stateCommentStartDash [good_rules]:
  assumes "ready t" and "cp_ok e" and "tstate t = COMMENT_START_DASH"
  shows "good (stateCommentStartDash on e t)"
proof -
  have k: "safe t" "is_comment t"
    using assms by (simp_all add: ready_def kind_defs )
  show ?thesis
    using assms k by (simp add: stateCommentStartDash_def kind_defs safe_rules good_rules )
qed

lemma good_stateCommentStart [good_rules]:
  assumes "ready t" and "cp_ok e" and "tstate t = COMMENT_START"
  shows "good (stateCommentStart on e t)"
proof -
  have k: "safe t" "is_comment t"
    using assms by (simp_all add: ready_def kind_defs )
  show ?thesis
    using assms k by (simp add: stateCommentStart_def kind_defs safe_rules good_rules )
qed

lemma good_stateCommentLessThanSign [good_rules]:
  assumes "ready t" and "cp_ok e" and "tstate t = COMMENT_LESS_THAN_SIGN"
  shows "good (stateCommentLessThanSign on e t)"
proof -
  have k: "safe t" "is_comment t"
    using assms by (simp_all add: ready_def kind_defs )
  show ?thesis
    using assms k by (simp add: stateCommentLessThanSign_def kind_defs safe_rules good_rules )
qed

lemma good_stateCommentLessThanSignBang [good_rules]:
  assumes "ready t" and "cp_ok e" and "tstate t = COMMENT_LESS_THAN_SIGN_BANG"
  shows "good (stateCommentLessThanSignBang on e t)"
proof -
  have k: "safe t" "is_comment t"
    using assms by (simp_all add: ready_def kind_defs )
  show ?thesis
    using assms k by (simp add: stateCommentLessThanSignBang_def kind_defs safe_rules good_rules )
qed

lemma good_stateCommentEndDash [good_rules]:
  assumes "ready t" and "cp_ok e" and "tstate t = COMMENT_END_DASH"
  shows "good (stateCommentEndDash on e t)"
proof -
  have k: "safe t" "is_comment t"
    using assms by (simp_all add: ready_def kind_defs )
  show ?thesis
    using assms k by (simp add: stateCommentEndDash_def kind_defs safe_rules good_rules )
qed

lemma good_stateCommentLessThanSignBangDash [good_rules]:
  assumes "ready t" and "cp_ok e" and "tstate t = COMMENT_LESS_THAN_SIGN_BANG_DASH"
  shows "good (stateCommentLessThanSignBangDash on e t)"
proof -
  have k: "safe t" "is_comment t"
    using assms by (simp_all add: ready_def kind_defs )
  show ?thesis
    using assms k by (simp add: stateCommentLessThanSignBangDash_def kind_defs safe_rules good_rules )
qed

lemma good_stateCommentEnd [good_rules]:
  assumes "ready t" and "cp_ok e" and "tstate t = COMMENT_END"
  shows "good (stateCommentEnd on e t)"
proof -
  have k: "safe t" "is_comment t"
    using assms by (simp_all add: ready_def kind_defs )
  show ?thesis
    using assms k by (simp add: stateCommentEnd_def kind_defs safe_rules good_rules )
qed

lemma good_stateCommentLessThanSignBangDashDash [good_rules]:
  assumes "ready t" and "cp_ok e" and "tstate t = COMMENT_LESS_THAN_SIGN_BANG_DASH_DASH"
  shows "good (stateCommentLessThanSignBangDashDash on e t)"
proof -
  have k: "safe t" "is_comment t"
    using assms by (simp_all add: ready_def kind_defs )
  show ?thesis
    using assms k by (simp add: stateCommentLessThanSignBangDashDash_def kind_defs safe_rules good_rules )
qed

lemma good_stateCommentEndBang [good_rules]:
  assumes "ready t" and "cp_ok e" and "tstate t = COMMENT_END_BANG"
  shows "good (stateCommentEndBang on e t)"
proof -
  have k: "safe t" "is_comment t"
    using assms by (simp_all add: ready_def kind_defs )
  show ?thesis
    using assms k by (simp add: stateCommentEndBang_def kind_defs safe_rules good_rules )
qed

lemma ready_attributeNameChar [safe_rules]:
  assumes "ready t" and "cp_ok e" and "e \<noteq> EOF" and "tstate t = ATTRIBUTE_NAME"
  shows "ready (attributeNameChar e t)"
proof -
  have k: "safe t" "is_tag t" "\<not> attrLinked t" using assms by (simp_all add: ready_def kind_defs)
  show ?thesis using assms k
    by (simp add: attributeNameChar_def safe_rules is_ascii_upper_def)
qed

lemma good_stateAfterAttributeName [good_rules]:
  assumes "ready t" and "cp_ok e" and "tstate t = AFTER_ATTRIBUTE_NAME"
  shows "good (stateAfterAttributeName on e t)"
proof -
  have k: "safe t" "is_tag t"
    using assms by (simp_all add: ready_def kind_defs )
  show ?thesis
    using assms k by (simp add: stateAfterAttributeName_def kind_defs safe_rules good_rules )
qed

lemma good_stateAttributeName [good_rules]:
  assumes "ready t" and "cp_ok e" and "tstate t = ATTRIBUTE_NAME"
  shows "good (stateAttributeName on e t)"
proof -
  have k: "safe t" "is_tag t"
    using assms by (simp_all add: ready_def kind_defs )
  show ?thesis
    using assms k by (simp add: stateAttributeName_def kind_defs safe_rules good_rules )
qed

lemma good_stateBeforeAttributeName [good_rules]:
  assumes "ready t" and "cp_ok e" and "tstate t = BEFORE_ATTRIBUTE_NAME"
  shows "good (stateBeforeAttributeName on e t)"
proof -
  have k: "safe t" "is_tag t"
    using assms by (simp_all add: ready_def kind_defs )
  show ?thesis
    using assms k by (simp add: stateBeforeAttributeName_def kind_defs safe_rules good_rules )
qed

lemma good_stateAttributeValueDoubleQuoted [good_rules]:
  assumes "ready t" and "cp_ok e" and "tstate t = ATTRIBUTE_VALUE_DOUBLE_QUOTED"
  shows "good (stateAttributeValueDoubleQuoted on e t)"
proof -
  have k: "safe t" "is_tag t"
    using assms by (simp_all add: ready_def kind_defs )
  show ?thesis
    using assms k by (simp add: stateAttributeValueDoubleQuoted_def kind_defs safe_rules good_rules )
qed

lemma good_stateAttributeValueSingleQuoted [good_rules]:
  assumes "ready t" and "cp_ok e" and "tstate t = ATTRIBUTE_VALUE_SINGLE_QUOTED"
  shows "good (stateAttributeValueSingleQuoted on e t)"
proof -
  have k: "safe t" "is_tag t"
    using assms by (simp_all add: ready_def kind_defs )
  show ?thesis
    using assms k by (simp add: stateAttributeValueSingleQuoted_def kind_defs safe_rules good_rules )
qed

lemma good_stateAttributeValueUnquoted [good_rules]:
  assumes "ready t" and "cp_ok e" and "tstate t = ATTRIBUTE_VALUE_UNQUOTED"
  shows "good (stateAttributeValueUnquoted on e t)"
proof -
  have k: "safe t" "is_tag t"
    using assms by (simp_all add: ready_def kind_defs )
  show ?thesis
    using assms k by (simp add: stateAttributeValueUnquoted_def kind_defs safe_rules good_rules )
qed

lemma good_stateBeforeAttributeValue [good_rules]:
  assumes "ready t" and "cp_ok e" and "tstate t = BEFORE_ATTRIBUTE_VALUE"
  shows "good (stateBeforeAttributeValue on e t)"
proof -
  have k: "safe t" "is_tag t"
    using assms by (simp_all add: ready_def kind_defs )
  show ?thesis
    using assms k by (simp add: stateBeforeAttributeValue_def kind_defs safe_rules good_rules )
qed

lemma good_stateAfterAttributeValueQuoted [good_rules]:
  assumes "ready t" and "cp_ok e" and "tstate t = AFTER_ATTRIBUTE_VALUE_QUOTED"
  shows "good (stateAfterAttributeValueQuoted on e t)"
proof -
  have k: "safe t" "is_tag t"
    using assms by (simp_all add: ready_def kind_defs )
  show ?thesis
    using assms k by (simp add: stateAfterAttributeValueQuoted_def kind_defs safe_rules good_rules )
qed

lemma good_stateSelfClosingStartTag [good_rules]:
  assumes "ready t" and "cp_ok e" and "tstate t = SELF_CLOSING_START_TAG"
  shows "good (stateSelfClosingStartTag on e t)"
proof -
  have k: "safe t" "is_tag t"
    using assms by (simp_all add: ready_def kind_defs )
  show ?thesis
    using assms k by (simp add: stateSelfClosingStartTag_def kind_defs safe_rules good_rules )
qed

lemma good_stateTagName [good_rules]:
  assumes "ready t" and "cp_ok e" and "tstate t = TAG_NAME"
  shows "good (stateTagName on e t)"
proof -
  have k: "safe t" "is_tag t"
    using assms by (simp_all add: ready_def kind_defs )
  show ?thesis
    using assms k by (simp add: stateTagName_def kind_defs safe_rules good_rules )
qed

lemma good_stateTagOpen [good_rules]:
  assumes "ready t" and "cp_ok e"
  shows "good (stateTagOpen on e t)"
  using assms ready_safe [OF assms(1)]
  by (simp add: stateTagOpen_def kind_defs safe_rules good_rules )

lemma good_stateEndTagOpen [good_rules]:
  assumes "ready t" and "cp_ok e"
  shows "good (stateEndTagOpen on e t)"
  using assms ready_safe [OF assms(1)]
  by (simp add: stateEndTagOpen_def kind_defs safe_rules good_rules )

lemma good_stateRcdataLessThanSign [good_rules]:
  assumes "ready t" and "cp_ok e"
  shows "good (stateRcdataLessThanSign on e t)"
  using assms ready_safe [OF assms(1)]
  by (simp add: stateRcdataLessThanSign_def kind_defs safe_rules good_rules )

lemma good_stateRawtextLessThanSign [good_rules]:
  assumes "ready t" and "cp_ok e"
  shows "good (stateRawtextLessThanSign on e t)"
  using assms ready_safe [OF assms(1)]
  by (simp add: stateRawtextLessThanSign_def kind_defs safe_rules good_rules )

lemma good_stateScriptDataLessThanSign [good_rules]:
  assumes "ready t" and "cp_ok e"
  shows "good (stateScriptDataLessThanSign on e t)"
  using assms ready_safe [OF assms(1)]
  by (simp add: stateScriptDataLessThanSign_def kind_defs safe_rules good_rules )

lemma good_stateScriptDataEscapeStart [good_rules]:
  assumes "ready t" and "cp_ok e"
  shows "good (stateScriptDataEscapeStart on e t)"
  using assms ready_safe [OF assms(1)]
  by (simp add: stateScriptDataEscapeStart_def kind_defs safe_rules good_rules )

lemma good_stateScriptDataEscapeStartDash [good_rules]:
  assumes "ready t" and "cp_ok e"
  shows "good (stateScriptDataEscapeStartDash on e t)"
  using assms ready_safe [OF assms(1)]
  by (simp add: stateScriptDataEscapeStartDash_def kind_defs safe_rules good_rules )

lemma good_stateScriptDataEscaped [good_rules]:
  assumes "ready t" and "cp_ok e"
  shows "good (stateScriptDataEscaped on e t)"
  using assms ready_safe [OF assms(1)]
  by (simp add: stateScriptDataEscaped_def kind_defs safe_rules good_rules )

lemma good_stateScriptDataEscapedDash [good_rules]:
  assumes "ready t" and "cp_ok e"
  shows "good (stateScriptDataEscapedDash on e t)"
  using assms ready_safe [OF assms(1)]
  by (simp add: stateScriptDataEscapedDash_def kind_defs safe_rules good_rules )

lemma good_stateScriptDataEscapedDashDash [good_rules]:
  assumes "ready t" and "cp_ok e"
  shows "good (stateScriptDataEscapedDashDash on e t)"
  using assms ready_safe [OF assms(1)]
  by (simp add: stateScriptDataEscapedDashDash_def kind_defs safe_rules good_rules )

lemma good_stateScriptDataDoubleEscaped [good_rules]:
  assumes "ready t" and "cp_ok e"
  shows "good (stateScriptDataDoubleEscaped on e t)"
  using assms ready_safe [OF assms(1)]
  by (simp add: stateScriptDataDoubleEscaped_def kind_defs safe_rules good_rules )

lemma good_stateScriptDataDoubleEscapedDash [good_rules]:
  assumes "ready t" and "cp_ok e"
  shows "good (stateScriptDataDoubleEscapedDash on e t)"
  using assms ready_safe [OF assms(1)]
  by (simp add: stateScriptDataDoubleEscapedDash_def kind_defs safe_rules good_rules )

lemma good_stateScriptDataDoubleEscapedDashDash [good_rules]:
  assumes "ready t" and "cp_ok e"
  shows "good (stateScriptDataDoubleEscapedDashDash on e t)"
  using assms ready_safe [OF assms(1)]
  by (simp add: stateScriptDataDoubleEscapedDashDash_def kind_defs safe_rules good_rules )

lemma good_stateScriptDataDoubleEscapedLessThanSign [good_rules]:
  assumes "ready t" and "cp_ok e"
  shows "good (stateScriptDataDoubleEscapedLessThanSign on e t)"
  using assms ready_safe [OF assms(1)]
  by (simp add: stateScriptDataDoubleEscapedLessThanSign_def kind_defs safe_rules good_rules )

section \<open>Document types and CDATA sections\<close>

lemma good_stateBogusDoctype [good_rules]:
  assumes "ready t" and "cp_ok e" and "tstate t = BOGUS_DOCTYPE"
  shows "good (stateBogusDoctype on e t)"
proof -
  have k: "safe t" "is_doctype t"
    using assms by (simp_all add: ready_def kind_defs )
  show ?thesis
    using assms k by (simp add: stateBogusDoctype_def kind_defs safe_rules good_rules )
qed

lemma emitQuirksDoctype_safe [safe_rules]: "safe t \<Longrightarrow> safe (emitQuirksDoctype on t)"
  by (simp add: emitQuirksDoctype_def safe_rules)

lemma good_stateBeforeDoctypeName [good_rules]:
  assumes "ready t" and "cp_ok e"
  shows "good (stateBeforeDoctypeName on e t)"
  using assms ready_safe [OF assms(1)]
  by (simp add: stateBeforeDoctypeName_def kind_defs safe_rules good_rules named_def)

lemma good_stateDoctype [good_rules]:
  assumes "ready t" and "cp_ok e"
  shows "good (stateDoctype on e t)"
  using assms ready_safe [OF assms(1)]
  by (simp add: stateDoctype_def kind_defs safe_rules good_rules )

lemma good_stateDoctypeName [good_rules]:
  assumes "ready t" and "cp_ok e" and "tstate t = DOCTYPE_NAME"
  shows "good (stateDoctypeName on e t)"
proof -
  have k: "safe t" "doctype_is named t"
    using assms by (simp_all add: ready_def kind_defs )
  show ?thesis
    using assms k by (simp add: stateDoctypeName_def kind_defs safe_rules good_rules )
qed

lemma good_stateAfterDoctypePublicKeyword [good_rules]:
  assumes "ready t" and "cp_ok e" and "tstate t = AFTER_DOCTYPE_PUBLIC_KEYWORD"
  shows "good (stateAfterDoctypePublicKeyword on e t)"
proof -
  have k: "safe t" "is_doctype t"
    using assms by (simp_all add: ready_def kind_defs )
  show ?thesis
    using assms k by (simp add: stateAfterDoctypePublicKeyword_def kind_defs safe_rules good_rules )
qed

lemma good_stateBeforeDoctypePublicIdentifier [good_rules]:
  assumes "ready t" and "cp_ok e" and "tstate t = BEFORE_DOCTYPE_PUBLIC_IDENTIFIER"
  shows "good (stateBeforeDoctypePublicIdentifier on e t)"
proof -
  have k: "safe t" "is_doctype t"
    using assms by (simp_all add: ready_def kind_defs )
  show ?thesis
    using assms k by (simp add: stateBeforeDoctypePublicIdentifier_def kind_defs safe_rules good_rules )
qed

lemma good_stateDoctypePublicIdentifierDoubleQuoted [good_rules]:
  assumes "ready t" and "cp_ok e" and "tstate t = DOCTYPE_PUBLIC_IDENTIFIER_DOUBLE_QUOTED"
  shows "good (stateDoctypePublicIdentifierDoubleQuoted on e t)"
proof -
  have k: "safe t" "doctype_is with_public t"
    using assms by (simp_all add: ready_def kind_defs )
  show ?thesis
    using assms k by (simp add: stateDoctypePublicIdentifierDoubleQuoted_def kind_defs safe_rules good_rules )
qed

lemma good_stateDoctypePublicIdentifierSingleQuoted [good_rules]:
  assumes "ready t" and "cp_ok e" and "tstate t = DOCTYPE_PUBLIC_IDENTIFIER_SINGLE_QUOTED"
  shows "good (stateDoctypePublicIdentifierSingleQuoted on e t)"
proof -
  have k: "safe t" "doctype_is with_public t"
    using assms by (simp_all add: ready_def kind_defs )
  show ?thesis
    using assms k by (simp add: stateDoctypePublicIdentifierSingleQuoted_def kind_defs safe_rules good_rules )
qed

lemma good_stateAfterDoctypePublicIdentifier [good_rules]:
  assumes "ready t" and "cp_ok e" and "tstate t = AFTER_DOCTYPE_PUBLIC_IDENTIFIER"
  shows "good (stateAfterDoctypePublicIdentifier on e t)"
proof -
  have k: "safe t" "is_doctype t"
    using assms by (simp_all add: ready_def kind_defs )
  show ?thesis
    using assms k by (simp add: stateAfterDoctypePublicIdentifier_def kind_defs safe_rules good_rules )
qed

lemma good_stateAfterDoctypeSystemKeyword [good_rules]:
  assumes "ready t" and "cp_ok e" and "tstate t = AFTER_DOCTYPE_SYSTEM_KEYWORD"
  shows "good (stateAfterDoctypeSystemKeyword on e t)"
proof -
  have k: "safe t" "is_doctype t"
    using assms by (simp_all add: ready_def kind_defs )
  show ?thesis
    using assms k by (simp add: stateAfterDoctypeSystemKeyword_def kind_defs safe_rules good_rules )
qed

lemma good_stateBeforeDoctypeSystemIdentifier [good_rules]:
  assumes "ready t" and "cp_ok e" and "tstate t = BEFORE_DOCTYPE_SYSTEM_IDENTIFIER"
  shows "good (stateBeforeDoctypeSystemIdentifier on e t)"
proof -
  have k: "safe t" "is_doctype t"
    using assms by (simp_all add: ready_def kind_defs )
  show ?thesis
    using assms k by (simp add: stateBeforeDoctypeSystemIdentifier_def kind_defs safe_rules good_rules )
qed

lemma good_stateDoctypeSystemIdentifierDoubleQuoted [good_rules]:
  assumes "ready t" and "cp_ok e" and "tstate t = DOCTYPE_SYSTEM_IDENTIFIER_DOUBLE_QUOTED"
  shows "good (stateDoctypeSystemIdentifierDoubleQuoted on e t)"
proof -
  have k: "safe t" "doctype_is with_system t"
    using assms by (simp_all add: ready_def kind_defs )
  show ?thesis
    using assms k by (simp add: stateDoctypeSystemIdentifierDoubleQuoted_def kind_defs safe_rules good_rules )
qed

lemma good_stateDoctypeSystemIdentifierSingleQuoted [good_rules]:
  assumes "ready t" and "cp_ok e" and "tstate t = DOCTYPE_SYSTEM_IDENTIFIER_SINGLE_QUOTED"
  shows "good (stateDoctypeSystemIdentifierSingleQuoted on e t)"
proof -
  have k: "safe t" "doctype_is with_system t"
    using assms by (simp_all add: ready_def kind_defs )
  show ?thesis
    using assms k by (simp add: stateDoctypeSystemIdentifierSingleQuoted_def kind_defs safe_rules good_rules )
qed

lemma good_stateAfterDoctypeSystemIdentifier [good_rules]:
  assumes "ready t" and "cp_ok e" and "tstate t = AFTER_DOCTYPE_SYSTEM_IDENTIFIER"
  shows "good (stateAfterDoctypeSystemIdentifier on e t)"
proof -
  have k: "safe t" "is_doctype t"
    using assms by (simp_all add: ready_def kind_defs )
  show ?thesis
    using assms k by (simp add: stateAfterDoctypeSystemIdentifier_def kind_defs safe_rules good_rules )
qed

lemma good_stateBetweenDoctypePublicAndSystemIdentifiers [good_rules]:
  assumes "ready t" and "cp_ok e" and "tstate t = BETWEEN_DOCTYPE_PUBLIC_AND_SYSTEM_IDENTIFIERS"
  shows "good (stateBetweenDoctypePublicAndSystemIdentifiers on e t)"
proof -
  have k: "safe t" "is_doctype t"
    using assms by (simp_all add: ready_def kind_defs )
  show ?thesis
    using assms k by (simp add: stateBetweenDoctypePublicAndSystemIdentifiers_def kind_defs safe_rules good_rules )
qed

lemma good_stateCdataSection [good_rules]:
  assumes "ready t" and "cp_ok e"
  shows "good (stateCdataSection on e t)"
  using assms ready_safe [OF assms(1)]
  by (simp add: stateCdataSection_def kind_defs safe_rules good_rules )

lemma good_stateCdataSectionBracket [good_rules]:
  assumes "ready t" and "cp_ok e"
  shows "good (stateCdataSectionBracket on e t)"
  using assms ready_safe [OF assms(1)]
  by (simp add: stateCdataSectionBracket_def kind_defs safe_rules good_rules )

lemma good_stateCdataSectionEnd [good_rules]:
  assumes "ready t" and "cp_ok e"
  shows "good (stateCdataSectionEnd on e t)"
  using assms ready_safe [OF assms(1)]
  by (simp add: stateCdataSectionEnd_def kind_defs safe_rules good_rules )

section \<open>Reading\<close>

lemma moved_pos: "moved m p p' \<Longrightarrow> pos p \<le> pos p' \<and> html p' = html p \<and> bufferWaterline p' = bufferWaterline p"
  by (auto simp: moved_def)

lemma advance_pos_le: "pos p + 1 \<le> pos (snd (advance p))"
  using advance_moved [of p] by (auto simp: moved_def)

lemma no_low_low_nth: "no_low_low s \<Longrightarrow> Suc i < length s \<Longrightarrow>
  \<not> (56320 \<le> s ! i \<and> s ! i < 57344 \<and> 56320 \<le> s ! Suc i \<and> s ! Suc i < 57344)"
proof (induction s arbitrary: i rule: no_low_low.induct)
  case (1 c d s)
  then show ?case by (cases i) auto
qed auto

text \<open>Every code point the stream delivers is one of Unicode.\<close>

lemma processSurrogate_cp_ok:
  assumes "text_ok (html q)" and "0 \<le> pos q" and "pos q < int (length (html q))"
    and "e = int (html q ! nat (pos q))" and "is_surrogate e"
  shows "cp_ok (fst (processSurrogate e q))"
proof -
  have e: "valid_code_point e" using assms(5) by (simp add: valid_code_point_def is_surrogate_def)
  have pair: "valid_code_point (surrogate_pair_code_point e d)"
    if d: "d = charCodeAt (html q) (pos q + 1)" "is_surrogate_pair_tail d" for d
  proof -
    have r: "pos q + 1 < int (length (html q))" "d = int (html q ! nat (pos q + 1))"
      using d by (auto simp: charCodeAt_def is_surrogate_pair_tail_def split: if_splits)
    have "nat (pos q + 1) = Suc (nat (pos q))" using assms(2) by simp
    then have "\<not> (56320 \<le> html q ! nat (pos q) \<and> html q ! nat (pos q) < 57344 \<and>
        56320 \<le> html q ! nat (pos q + 1) \<and> html q ! nat (pos q + 1) < 57344)"
      using no_low_low_nth [of "html q" "nat (pos q)"] assms(1) r(1) by (auto simp: text_ok_def)
    then have "e < 56320" using assms(4,5) r(2) d(2) by (auto simp: is_surrogate_def is_surrogate_pair_tail_def)
    then show ?thesis using assms(5) d(2)
      by (auto simp: valid_code_point_def surrogate_pair_code_point_def is_surrogate_def
          is_surrogate_pair_tail_def)
  qed
  then show ?thesis using e by (auto simp: processSurrogate_def cp_ok_def Let_def)
qed

lemma advance_cp_ok:
  assumes "text_ok (html p)" and "-1 \<le> pos p"
  shows "cp_ok (fst (advance p))"
  using assms
proof (induction p rule: advance.induct)
  case (1 p)
  let ?p2 = "advance_pos p"
  let ?e = "charCodeAt (html ?p2) (pos ?p2)"
  let ?q = "addGap (?p2\<lparr>isEol := True, line := line ?p2 - 1, skipNextNewLine := False\<rparr>)"
  let ?r = "if ?e = LINE_FEED then ?p2\<lparr>isEol := True\<rparr> else ?p2"
  note fr = advance_pos_frame [of p]
  show ?case
  proof (cases "pos ?p2 < int (length (html ?p2)) \<and> ?e = LINE_FEED \<and> skipNextNewLine ?p2")
    case True
    then have eq: "advance p = advance ?q" by (subst advance.simps) (simp add: Let_def)
    have c: "\<not> pos ?p2 \<ge> int (length (html ?p2))" "?e \<noteq> CARRIAGE_RETURN"
      "?e = LINE_FEED \<and> skipNextNewLine ?p2" using True by auto
    have "text_ok (html ?q)" "-1 \<le> pos ?q" using "1.prems" by (simp_all add: addGap_def fr)
    from "1.IH" [OF refl c(1) refl c(2,3) this] show ?thesis unfolding eq .
  next
    case False
    note eq = advance_plain [OF refl refl False]
    show ?thesis
    proof (cases "pos ?p2 \<ge> int (length (html ?p2))")
      case True
      then show ?thesis using eq by (simp add: cp_ok_def)
    next
      case in_text: False
      have e: "?e = int (html p ! nat (pos p + 1))" "pos p + 1 < int (length (html p))"
        using in_text "1.prems"(2) by (simp_all add: charCodeAt_def fr)
      have "?e < 65536" using "1.prems" e by (auto simp: text_ok_def list_all_length)
      then have v: "valid_code_point ?e" using e(1) by (simp add: valid_code_point_def)
      let ?s = "?r\<lparr>skipNextNewLine := False\<rparr>"
      have "cp_ok (fst (processSurrogate ?e ?s))" if "is_surrogate ?e"
        using "1.prems" e that by (intro processSurrogate_cp_ok) (simp_all add: fr)
      then have "cp_ok (fst (advance_read ?e ?r))"
        using v by (auto simp: advance_read_def Let_def cp_ok_def split: prod.splits)
      then show ?thesis using eq in_text by (simp add: cp_ok_def valid_code_point_def)
    qed
  qed
qed

lemma safe_reading:
  assumes "safe t" and "pos (pp t) \<le> pos p" and "html p = html (pp t)"
    and "bufferWaterline p = bufferWaterline (pp t)"
  shows "safe (t\<lparr>pp := p, consumedAfterSnapshot := n\<rparr>)"
  using assms by (simp add: safe_def)

lemma kind_reading:
  assumes "kind s t" and "pos (pp t) \<le> pos p"
  shows "kind s (t\<lparr>pp := p, consumedAfterSnapshot := n\<rparr>)"
  using assms by (auto simp: kind_def is_tag_def is_comment_def doctype_is_def return_tag_def split: need.splits)

lemma ready_reading:
  assumes "ready t" and "pos (pp t) \<le> pos p" and "html p = html (pp t)"
    and "bufferWaterline p = bufferWaterline (pp t)"
  shows "ready (t\<lparr>pp := p, consumedAfterSnapshot := n\<rparr>)"
  using assms safe_reading kind_reading by (fastforce simp: ready_def)

lemma consume_eq: "snd (consume t) = t\<lparr>pp := snd (advance (pp t)), consumedAfterSnapshot := consumedAfterSnapshot t + 1\<rparr>"
  by (simp add: consume_def split: prod.split)

lemma consume_safe [safe_rules]: "safe t \<Longrightarrow> safe (snd (consume t))" "ready t \<Longrightarrow> ready (snd (consume t))"
  using advance_moved [of "pp t"] moved_pos
  by (fastforce simp: consume_eq intro!: safe_reading ready_reading)+

lemma advanceBy_moved: "moved n p (((\<lambda>p. snd (advance p)) ^^ n) p)"
  by (induction n) (simp_all add: moved_refl src.moved_next)

lemma advanceBy_safe [safe_rules]:
  "safe t \<Longrightarrow> safe (advanceBy n t)" "is_tag (advanceBy n t) = is_tag t"
  "tstate (advanceBy n t) = tstate t" "inForeignNode (advanceBy n t) = inForeignNode t"
  using advanceBy_moved [of n "pp t"] moved_pos
  by (fastforce simp: safe_def advanceBy_def is_tag_def)+

lemma looked_fields:
  assumes "looked p p'"
  shows "pos p' = pos p" "html p' = html p" "bufferWaterline p' = bufferWaterline p"
    "lastGapPos p' = lastGapPos p" "gapStack p' = gapStack p" "skipNextNewLine p' = skipNextNewLine p"
  using assms by (auto simp: looked_def)

lemma looked_safe:
  assumes "looked (pp t) p"
  shows "safe (t\<lparr>pp := p\<rparr>) = safe t" "ready (t\<lparr>pp := p\<rparr>) = ready t"
proof -
  show s: "safe (t\<lparr>pp := p\<rparr>) = safe t" using looked_fields [OF assms] by (simp add: safe_def)
  show "ready (t\<lparr>pp := p\<rparr>) = ready t"
    using s looked_fields [OF assms] by (simp add: ready_def kind_cong [of "t\<lparr>pp := p\<rparr>" t])
qed

section \<open>Waiting for more text\<close>

definition one_read :: "'h tokenizer \<Rightarrow> bool" where
  "one_read t \<longleftrightarrow> consumedAfterSnapshot t = 1 \<and> -1 \<le> pos (retreat 1 (pp t))"

lemma retreat_pos:
  assumes "pos p' = pos p" "lastGapPos p' = lastGapPos p" "gapStack p' = gapStack p"
  shows "pos (retreat k p') = pos (retreat k p)"
  using assms by (simp add: retreat_def split: prod.split)

lemma one_read_cong:
  assumes "pos (pp t') = pos (pp t)" "lastGapPos (pp t') = lastGapPos (pp t)"
    "gapStack (pp t') = gapStack (pp t)" "consumedAfterSnapshot t' = consumedAfterSnapshot t"
  shows "one_read t' = one_read t"
  using assms(4) retreat_pos [OF assms(1-3)] by (simp add: one_read_def)

lemma one_read_simps [safe_rules]:
  "one_read (set_state s t) = one_read t" "one_read (tok_err c t) = one_read t"
  "one_read (createEndTagToken t) = one_read t"
  by (rule one_read_cong; simp add: set_state_def tok_err_def createEndTagToken_def set_token_def)+

lemma one_read_looked: "looked (pp t) p \<Longrightarrow> one_read (t\<lparr>pp := p\<rparr>) = one_read t"
  by (rule one_read_cong) (auto simp: looked_def)

lemma one_read_emitChars [safe_rules]:
  assumes "one_read t"
  shows "one_read (emitChars on s t)"
proof -
  have "one_read (emitCurrentCharacterToken on t)"
    using assms by (simp add: one_read_def emitCurrentCharacterToken_def notify_def split: option.split prod.split)
  moreover have "one_read u \<Longrightarrow> one_read (drop_chunk u)" for u :: "'a tokenizer"
    by (auto simp: one_read_def drop_chunk_def dropParsedChunk_def retreat_def split: prod.splits)
  moreover have "one_read u \<Longrightarrow> one_read (u\<lparr>currentCharacterToken := x\<rparr>)" for u :: "'a tokenizer" and x
    by (simp add: one_read_def)
  ultimately show ?thesis using assms
    by (auto simp: emitChars_def appendCharToCurrentCharacterToken_def createCharacterToken_def
        split: option.split)
qed

lemma hibernation_good:
  assumes "ready t" and "one_read t" and "ensureHibernation t = (h, t')"
  shows "if h then good t' else t' = t"
proof (cases "endOfChunkHit (pp t)")
  case True
  then have t': "t' = (unconsume 1 t)\<lparr>active := False\<rparr>" "h"
    using assms(2,3) by (auto simp: ensureHibernation_def one_read_def)
  have "bufferWaterline (retreat 1 (pp t)) = bufferWaterline (pp t)" by (simp add: frame_simps)
  then show ?thesis using assms(1,2) t'
    by (simp add: good_def safe_def ready_def unconsume_def one_read_def frame_simps)
next
  case False
  then show ?thesis using assms(3) by (simp add: ensureHibernation_def)
qed

lemma handleSpecialEndTag_ready:
  assumes "ready t" and "one_read t" and "free (tstate t)" and "handleSpecialEndTag on t = (text, t')"
  shows "if text then ready t' else good t'"
proof -
  let ?name = "lastStartTagName t"
  obtain m p where sw: "pp_startsWith ?name False (pp t) = (m, p)" by fastforce
  let ?t0 = "t\<lparr>pp := p\<rparr>"
  let ?t1 = "set_tagName ?name (createEndTagToken ?t0)"
  have l: "looked (pp t) p" using looked_startsWith [of "pp t" ?name False] sw by simp
  have t0: "ready ?t0" "one_read ?t0"
    using assms(1,2) looked_safe(2) [OF l] one_read_looked [OF l] by simp_all
  have no: "no_upper ?name" using assms(1) by (simp add: ready_def safe_def)
  have s: "safe ?t0" using t0(1) by (rule ready_safe)
  have t1: "safe ?t1" "is_tag ?t1" using s no by (simp_all add: safe_rules)
  have pp1: "pp ?t1 = p" "tstate ?t1 = tstate t" "consumedAfterSnapshot ?t1 = consumedAfterSnapshot t"
    by (simp_all add: set_tagName_def createEndTagToken_def set_token_def)
  obtain c p2 where pk: "peek (length ?name) p = (c, p2)" by fastforce
  have l2: "looked (pp ?t1) p2" using looked_peek [of p "length ?name"] pk pp1 by simp
  let ?t2 = "?t1\<lparr>pp := p2\<rparr>"
  have t2: "safe ?t2" "is_tag ?t2" "tstate ?t2 = tstate t"
    using t1 looked_safe(1) [OF l2] pp1 by (simp_all add: is_tag_def)
  then have r2: "ready ?t2" using assms(3) by (simp add: ready_free)
  have o2: "one_read ?t2"
    using t0(2) one_read_cong [of ?t2 ?t0] looked_fields [OF l2] pp1 by simp
  note eq = assms(4) [unfolded handleSpecialEndTag_def Let_def sw prod.case pp1 pk]
  show ?thesis
  proof (cases "\<not> m")
    case True
    then obtain h where "ensureHibernation ?t0 = (h, t')" "text = (\<not> h)"
      using eq by (auto split: prod.splits)
    then show ?thesis using hibernation_good [OF t0] t0(1) by (cases h) auto
  next
    case m: False
    show ?thesis
    proof (cases "is_whitespace c \<or> c = SOLIDUS \<or> c = GREATER_THAN_SIGN")
      case True
      then show ?thesis using eq m t2
        by (auto simp: safe_rules good_rules kind_defs split: if_splits)
    next
      case False
      then obtain h where "ensureHibernation ?t2 = (h, t')" "text = (\<not> h)"
        using eq m by (auto split: prod.splits)
      then show ?thesis using hibernation_good [OF r2 o2] r2 by (cases h) auto
    qed
  qed
qed

lemma good_end_tag_name [good_rules]:
  assumes "ready t" and "one_read t" and "cp_ok e"
  shows "tstate t = RCDATA_END_TAG_NAME \<Longrightarrow> good (stateRcdataEndTagName on e t)"
    and "tstate t = RAWTEXT_END_TAG_NAME \<Longrightarrow> good (stateRawtextEndTagName on e t)"
    and "tstate t = SCRIPT_DATA_END_TAG_NAME \<Longrightarrow> good (stateScriptDataEndTagName on e t)"
    and "tstate t = SCRIPT_DATA_ESCAPED_END_TAG_NAME \<Longrightarrow> good (stateScriptDataEscapedEndTagName on e t)"
  using handleSpecialEndTag_ready [OF assms(1,2), of on] assms(3)
  by (auto simp: stateRcdataEndTagName_def stateRawtextEndTagName_def stateScriptDataEndTagName_def
      stateScriptDataEscapedEndTagName_def safe_rules good_rules kind_defs ready_safe split: prod.split)

lemma good_end_tag_open [good_rules]:
  assumes "ready t" and "one_read t" and "cp_ok e"
  shows "good (stateRcdataEndTagOpen on e t)" and "good (stateRawtextEndTagOpen on e t)"
    and "good (stateScriptDataEndTagOpen on e t)" and "good (stateScriptDataEscapedEndTagOpen on e t)"
  using assms ready_safe [OF assms(1)]
  by (simp_all add: stateRcdataEndTagOpen_def stateRawtextEndTagOpen_def stateScriptDataEndTagOpen_def
      stateScriptDataEscapedEndTagOpen_def safe_rules good_rules kind_defs)

section \<open>The word script\<close>

text \<open>The next \<open>n\<close> code units are read one by one.\<close>

definition clear :: "nat \<Rightarrow> preprocessor \<Rightarrow> bool" where
  "clear n p \<longleftrightarrow> -1 \<le> pos p \<and> list_all (\<lambda>j. pos p + int j < int (length (html p)) \<and>
     html p ! nat (pos p + int j) < 55296 \<and>
     (html p ! nat (pos p + int j) = 10 \<longrightarrow>
        (if j = 1 then \<not> skipNextNewLine p else html p ! nat (pos p + int j - 1) \<noteq> 13))) [1..<Suc n]"

lemma clear_nth:
  assumes "clear n p" and "1 \<le> j" and "j \<le> n"
  shows "pos p + int j < int (length (html p))" and "html p ! nat (pos p + int j) < 55296"
    and "html p ! nat (pos p + int j) = 10 \<Longrightarrow>
        (if j = 1 then \<not> skipNextNewLine p else html p ! nat (pos p + int j - 1) \<noteq> 13)"
proof -
  have "j \<in> set [1..<Suc n]" using assms(2,3) by auto
  with assms(1) have "pos p + int j < int (length (html p)) \<and>
     html p ! nat (pos p + int j) < 55296 \<and>
     (html p ! nat (pos p + int j) = 10 \<longrightarrow>
        (if j = 1 then \<not> skipNextNewLine p else html p ! nat (pos p + int j - 1) \<noteq> 13))"
    unfolding clear_def list_all_iff by blast
  then show "pos p + int j < int (length (html p))" "html p ! nat (pos p + int j) < 55296"
    "html p ! nat (pos p + int j) = 10 \<Longrightarrow>
        (if j = 1 then \<not> skipNextNewLine p else html p ! nat (pos p + int j - 1) \<noteq> 13)" by blast+
qed

lemma clear_advance:
  assumes "clear (Suc n) p"
  shows "fst (advance p) \<noteq> EOF" and "clear n (snd (advance p))"
proof -
  let ?u = "html p ! nat (pos p + 1)"
  note c1 = clear_nth [OF assms, of 1]
  have p: "-1 \<le> pos p" using assms by (simp add: clear_def)
  have u: "charCodeAt (html (advance_pos p)) (pos (advance_pos p)) = int ?u" "pos p + 1 < int (length (html p))"
    using c1(1) p by (simp_all add: charCodeAt_def advance_pos_frame)
  have nolf: "\<not> (pos (advance_pos p) < int (length (html (advance_pos p))) \<and> int ?u = LINE_FEED \<and>
      skipNextNewLine (advance_pos p))"
    using c1(3) by (auto simp: advance_pos_frame)
  have ns: "\<not> is_surrogate (int ?u)" using c1(2) by (simp add: is_surrogate_def)
  have eq: "advance p = (if int ?u = CARRIAGE_RETURN
      then (LINE_FEED, (advance_pos p)\<lparr>isEol := True, skipNextNewLine := True\<rparr>)
      else advance_read (int ?u) (if int ?u = LINE_FEED then (advance_pos p)\<lparr>isEol := True\<rparr> else advance_pos p))"
    using advance_plain [OF refl refl, of p, unfolded u(1), OF nolf] u(2) by (simp add: advance_pos_frame)
  show "fst (advance p) \<noteq> EOF" using eq ns by (simp add: advance_read_def Let_def)
  let ?p' = "snd (advance p)"
  have p': "pos ?p' = pos p + 1" "html ?p' = html p" "skipNextNewLine ?p' = (?u = 13)"
    using eq ns by (simp_all add: advance_read_def Let_def advance_pos_frame frame_simps)
  show "clear n ?p'"
    unfolding clear_def list_all_iff
  proof (intro conjI ballI)
    fix j assume "j \<in> set [1..<Suc n]"
    then have j: "1 \<le> Suc j" "Suc j \<le> Suc n" "1 \<le> j" by auto
    note cj = clear_nth [OF assms j(1,2)]
    have e: "pos ?p' + int j = pos p + int (Suc j)" using p'(1) by simp
    show "pos ?p' + int j < int (length (html ?p'))" "html ?p' ! nat (pos ?p' + int j) < 55296"
      using cj(1,2) unfolding e p'(2) by blast+
    show "html ?p' ! nat (pos ?p' + int j) = 10 \<longrightarrow>
        (if j = 1 then \<not> skipNextNewLine ?p' else html ?p' ! nat (pos ?p' + int j - 1) \<noteq> 13)"
      using cj(3) j(3) unfolding e p'(2,3) by auto
  qed (use p p' in auto)
qed

lemma emitCodePoint_keeps:
  assumes "pos (pp t) \<le> 65536" and "bufferWaterline (pp t) = 65536"
  shows "pp (emitCodePoint on c t) = pp t"
  using assms
  by (auto simp: emitCodePoint_def with_code_point_def throw_def appendCharToCurrentCharacterToken_def
      createCharacterToken_def drop_chunk_def dropParsedChunk_def willDropParsedChunk_def
      emitCurrentCharacterToken_def notify_pp split: option.split)

lemma emit_next_safe:
  assumes "safe t" and "clear n (pp t)"
  shows "safe (emit_next on n t)"
  using assms
proof (induction on n t rule: emit_next.induct)
  case (2 on n t)
  let ?c = "fst (advance (pp t))" and ?t1 = "snd (consume t)"
  have c: "clear n (pp ?t1)" "?c \<noteq> EOF" using clear_advance [OF "2.prems"(2)] by simp_all
  have tx: "text_ok (html (pp t))" "-1 \<le> pos (pp t)" using "2.prems"(1) by (simp_all add: safe_def)
  then have v: "valid_code_point ?c" using advance_cp_ok [OF tx] c(2) by (simp add: cp_ok_def)
  have s1: "safe ?t1" using "2.prems"(1) by (rule safe_rules)
  have "pos (pp t) + 1 < int (length (html (pp t)))" using clear_nth(1) [OF "2.prems"(2), of 1] by simp
  then have "pos (pp ?t1) \<le> 65536"
    using advance_inside [of "pp t"] tx(1) by (simp add: text_ok_def)
  then have pp: "pp (emitCodePoint on ?c ?t1) = pp ?t1"
    using s1 by (intro emitCodePoint_keeps) (simp_all add: safe_def)
  have con: "(?c, ?t1) = consume t" by (simp add: consume_def split: prod.split)
  have "safe (emit_next on n (emitCodePoint on ?c ?t1))"
  proof (rule "2.IH" [OF con])
    show "safe (emitCodePoint on ?c ?t1)" using s1 v by (simp only: emitCodePoint_safe)
    show "clear n (pp (emitCodePoint on ?c ?t1))" using c(1) pp by simp
  qed
  then show ?case by (simp add: case_prod_beta)
qed simp

lemma or32_letter: "or32 c = d \<Longrightarrow> 96 < d \<Longrightarrow> d < 123 \<Longrightarrow> 64 < c \<and> c < 123"
  by (cases "(c div 32) mod 2 = 0") (simp_all add: or32_def; presburger)+

lemma script_word_ahead_clear:
  assumes "safe t" and "0 \<le> pos (pp t) \<or> remaining (pp t) \<le> 0" and "script_word_ahead t = (True, t')"
  shows "clear 6 (pp t')" and "looked (pp t) (pp t')" and "0 < remaining (pp t)"
proof -
  obtain p where sw: "pp_startsWith (js ''script'') False (pp t) = (True, p)"
    using assms(3) by (auto simp: script_word_ahead_def split: prod.splits if_splits)
  obtain c p2 where pk: "peek 6 p = (c, p2)" by fastforce
  have l: "looked (pp t) p" using looked_startsWith [of "pp t" "js ''script''" False] sw by simp
  have l2: "looked p p2" using looked_peek [of p 6] pk by simp
  have t': "t' = t\<lparr>pp := p2\<rparr>" "is_script_data_double_escape_end c"
    using assms(3) sw pk by (auto simp: script_word_ahead_def split: if_splits)
  show lk: "looked (pp t) (pp t')" using l l2 t'(1) by (auto simp: looked_def)
  let ?h = "html (pp t)" and ?i = "pos (pp t)"
  have len: "length (js ''script'') = 6" by (simp add: js_def)
  have fit: "?i + 6 \<le> int (length ?h)" and m: "list_all (\<lambda>n. or32 (charCodeAt ?h (?i + int n)) = int (js ''script'' ! n)) [0..<6]"
    using sw by (auto simp: pp_startsWith_def len split: if_splits)
  show "0 < remaining (pp t)" using fit by (simp add: remaining_def)
  with assms(2) have i: "0 \<le> ?i" by auto
  have letter: "64 < ?h ! nat (?i + int n) \<and> ?h ! nat (?i + int n) < 123" if "n < 6" for n
  proof -
    have "or32 (charCodeAt ?h (?i + int n)) = int (js ''script'' ! n)" using m that by (simp add: list_all_iff)
    moreover have "96 < js ''script'' ! n \<and> js ''script'' ! n < 123"
    proof -
      have "list_all (\<lambda>u. 96 < u \<and> u < 123) (js ''script'')" by (simp add: js_def)
      then show ?thesis using that len by (simp add: list_all_length)
    qed
    moreover have "charCodeAt ?h (?i + int n) = int (?h ! nat (?i + int n))"
      using i fit that by (simp add: charCodeAt_def)
    ultimately show ?thesis using or32_letter [of "charCodeAt ?h (?i + int n)"] by auto
  qed
  have "c \<noteq> EOF" using t'(2) by auto
  then have six: "?i + 6 < int (length ?h)" "c = (if charCodeAt ?h (?i + 6) = 13 then 10 else charCodeAt ?h (?i + 6))"
    using pk looked_fields [OF l] by (auto simp: peek_def Let_def split: if_splits)
  then have d: "?h ! nat (?i + 6) < 55296"
    using t'(2) i by (auto simp: charCodeAt_def is_script_data_double_escape_end_def is_whitespace_def split: if_splits)
  have "?i + int j < int (length ?h) \<and> ?h ! nat (?i + int j) < 55296 \<and>
      (?h ! nat (?i + int j) = 10 \<longrightarrow> (if j = 1 then \<not> skipNextNewLine (pp t) else ?h ! nat (?i + int j - 1) \<noteq> 13))"
    if "1 \<le> j" "j \<le> 6" for j
  proof (cases "j = 6")
    case True
    then show ?thesis using six(1) d letter [of 5] by (auto simp: add.commute)
  next
    case False
    then show ?thesis using six(1) letter [of j] that by auto
  qed
  note near = this
  have "clear 6 (pp t)"
    unfolding clear_def list_all_iff
  proof (intro conjI ballI)
    fix j assume "j \<in> set [1..<Suc 6]"
    then have j: "1 \<le> j" "j \<le> 6" by auto
    show "?i + int j < int (length ?h)" "?h ! nat (?i + int j) < 55296"
      "?h ! nat (?i + int j) = 10 \<longrightarrow> (if j = 1 then \<not> skipNextNewLine (pp t) else ?h ! nat (?i + int j - 1) \<noteq> 13)"
      using near [OF j] by blast+
  qed (use i in simp)
  then show "clear 6 (pp t')" unfolding clear_def looked_fields [OF lk] .
qed

lemma script_word_ahead_looked: "script_word_ahead t = (m, t') \<Longrightarrow> t' = t\<lparr>pp := pp t'\<rparr> \<and> looked (pp t) (pp t')"
proof -
  assume a: "script_word_ahead t = (m, t')"
  obtain b p where sw: "pp_startsWith (js ''script'') False (pp t) = (b, p)" by fastforce
  obtain c p2 where pk: "peek 6 p = (c, p2)" by fastforce
  have "looked (pp t) p" using looked_startsWith [of "pp t" "js ''script''" False] sw by simp
  moreover have "looked p p2" using looked_peek [of p 6] pk by simp
  ultimately have "looked (pp t) p" "looked (pp t) p2" by (auto simp: looked_def)
  then show ?thesis using a sw pk by (auto simp: script_word_ahead_def split: if_splits)
qed

text \<open>The position of the character the round has read.\<close>

definition at_char :: "'h tokenizer \<Rightarrow> bool" where
  "at_char t \<longleftrightarrow> 0 \<le> pos (pp t)"

lemma at_char_simps [safe_rules]:
  "at_char (set_state s t) = at_char t" "at_char (tok_err c t) = at_char t"
  by (simp_all add: at_char_def set_state_def tok_err_def)

lemma at_char_emitChars [safe_rules]: "at_char t \<Longrightarrow> at_char (emitChars on s t)"
  by (auto simp: at_char_def emitChars_def appendCharToCurrentCharacterToken_def
      createCharacterToken_def drop_chunk_def dropParsedChunk_def emitCurrentCharacterToken_def
      notify_pp split: option.split)

lemma good_double_escape [good_rules]:
  assumes "ready t" and "one_read t" and "cp_ok e" and "at_end e t" and "at_char t"
  shows "good (stateScriptDataDoubleEscapeStart on e t)"
    and "good (stateScriptDataDoubleEscapeEnd on e t)"
proof -
  obtain m t1 where w: "script_word_ahead t = (m, t1)" by fastforce
  obtain h t2 where hib: "ensureHibernation t1 = (h, t2)" by fastforce
  have t1: "t1 = t\<lparr>pp := pp t1\<rparr>" "looked (pp t) (pp t1)" using script_word_ahead_looked [OF w] by auto
  have r1: "ready t1" "one_read t1"
    using assms(1,2) looked_safe(2) [OF t1(2)] one_read_looked [OF t1(2)] t1(1) by metis+
  then have s1: "safe t1" using ready_safe by blast
  have hb: "if h then good t2 else t2 = t1" using hibernation_good [OF r1 hib] .
  have word: "safe (emit_next on 6 (emitCodePoint on e t1))" if m
  proof -
    have wt: "script_word_ahead t = (True, t1)" using w that by simp
    have c: "clear 6 (pp t1)" "0 < remaining (pp t)"
      using script_word_ahead_clear [OF ready_safe [OF assms(1)] _ wt] assms(5) by (auto simp: at_char_def)
    then have "e \<noteq> EOF" using assms(4) by (auto simp: at_end_def)
    then have v: "valid_code_point e" using assms(3) by (simp add: cp_ok_def)
    have "pos (pp t1) \<le> 65536" using clear_nth(1) [OF c(1), of 1] s1 by (simp add: safe_def text_ok_def)
    then have "pp (emitCodePoint on e t1) = pp t1"
      using s1 by (intro emitCodePoint_keeps) (simp_all add: safe_def)
    then show ?thesis using s1 v c(1) by (intro emit_next_safe) (simp_all add: safe_rules)
  qed
  show "good (stateScriptDataDoubleEscapeStart on e t)"
    using word hb s1 assms(3)
    by (cases m; cases h) (simp_all add: stateScriptDataDoubleEscapeStart_def w hib safe_rules good_rules kind_defs)
  show "good (stateScriptDataDoubleEscapeEnd on e t)"
    using word hb s1 assms(3)
    by (cases m; cases h) (simp_all add: stateScriptDataDoubleEscapeEnd_def w hib safe_rules good_rules kind_defs)
qed

lemma good_escaped_lt [good_rules]:
  assumes "ready t" and "one_read t" and "cp_ok e" and "at_char t"
  shows "good (stateScriptDataEscapedLessThanSign on e t)"
  using assms ready_safe [OF assms(1)]
  by (simp add: stateScriptDataEscapedLessThanSign_def safe_rules good_rules kind_defs pre_rules)

section \<open>Markup declarations\<close>

lemma consumeSequence_ready:
  assumes "safe t" and "one_read t" and "consumeSequenceIfMatch w cs t = (m, t')"
  shows "safe t' \<and> tstate t' = tstate t \<and> is_tag t' = is_tag t \<and> doctype_is P t' = doctype_is P t \<and>
    (\<not> m \<longrightarrow> one_read t')"
proof -
  obtain b p where sw: "pp_startsWith w cs (pp t) = (b, p)" by fastforce
  have l: "looked (pp t) p" using looked_startsWith [of "pp t" w cs] sw by simp
  have "safe (t\<lparr>pp := p\<rparr>)" "one_read (t\<lparr>pp := p\<rparr>)"
    using assms(1,2) looked_safe(1) [OF l] one_read_looked [OF l] by simp_all
  then show ?thesis using assms(3) sw advanceBy_safe(1) [of "t\<lparr>pp := p\<rparr>"]
    by (auto simp: consumeSequenceIfMatch_def advanceBy_def is_tag_def doctype_is_def split: if_splits)
qed

lemma good_markup [good_rules]:
  assumes "ready t" and "one_read t" and "cp_ok e" and "tstate t = MARKUP_DECLARATION_OPEN"
  shows "good (stateMarkupDeclarationOpen on e t)"
proof -
  obtain m1 t1 where 1: "consumeSequenceIfMatch (js ''--'') True t = (m1, t1)" by fastforce
  obtain m2 t2 where 2: "consumeSequenceIfMatch (js ''doctype'') False t1 = (m2, t2)" by fastforce
  obtain m3 t3 where 3: "consumeSequenceIfMatch (js ''[CDATA['') True t2 = (m3, t3)" by fastforce
  obtain h t4 where 4: "ensureHibernation t3 = (h, t4)" by fastforce
  have free: "free MARKUP_DECLARATION_OPEN" by (simp add: kind_defs)
  note p1 = consumeSequence_ready [OF ready_safe [OF assms(1)] assms(2) 1]
  note p2 = consumeSequence_ready [of t1, OF _ _ 2]
  note p3 = consumeSequence_ready [of t2, OF _ _ 3]
  have p4: "safe t3 \<Longrightarrow> one_read t3 \<Longrightarrow> tstate t3 = MARKUP_DECLARATION_OPEN \<Longrightarrow> if h then good t4 else t4 = t3"
    using hibernation_good [OF _ _ 4] ready_free free by metis
  show ?thesis
    using p1 p2 p3 p4 assms(3,4)
    by (auto simp: stateMarkupDeclarationOpen_def 1 2 3 4 safe_rules good_rules kind_defs split: if_splits)
qed

lemma good_after_doctype_name [good_rules]:
  assumes "ready t" and "one_read t" and "cp_ok e" and "tstate t = AFTER_DOCTYPE_NAME"
  shows "good (stateAfterDoctypeName on e t)"
proof -
  have k: "safe t" "is_doctype t" using assms by (simp_all add: ready_def kind_defs)
  obtain m1 t1 where 1: "consumeSequenceIfMatch (js ''public'') False t = (m1, t1)" by fastforce
  obtain m2 t2 where 2: "consumeSequenceIfMatch (js ''system'') False t1 = (m2, t2)" by fastforce
  obtain h t3 where 3: "ensureHibernation t2 = (h, t3)" by fastforce
  have p1: "safe t1" "is_doctype t1" "tstate t1 = AFTER_DOCTYPE_NAME" "\<not> m1 \<Longrightarrow> one_read t1"
    using consumeSequence_ready [OF k(1) assms(2) 1] k(2) assms(4) by auto
  have p2: "safe t2" "is_doctype t2" "tstate t2 = AFTER_DOCTYPE_NAME" "\<not> m2 \<Longrightarrow> one_read t2" if "\<not> m1"
    using consumeSequence_ready [OF p1(1) p1(4) [OF that] 2] p1(2,3) by auto
  have p3: "if h then good t3 else t3 = t2" if "\<not> m1" "\<not> m2"
    using hibernation_good [OF _ p2(4) [OF that] 3] p2 [OF that(1)] by (simp add: ready_def kind_defs)
  show ?thesis
  proof (cases m1)
    case True
    then show ?thesis using k p1 assms by (simp add: stateAfterDoctypeName_def 1 safe_rules good_rules kind_defs)
  next
    case n1: False
    show ?thesis
    proof (cases m2)
      case True
      then show ?thesis using n1 k p2 assms by (simp add: stateAfterDoctypeName_def 1 2 safe_rules good_rules kind_defs)
    next
      case n2: False
      then show ?thesis using n1 k p2 [OF n1] p3 [OF n1 n2] assms
        by (cases h) (simp_all add: stateAfterDoctypeName_def 1 2 3 safe_rules good_rules kind_defs)
    qed
  qed
qed

end
