(* ===== verification/Html_Reference_Sound.thy ===== *)
theory Html_Reference_Sound
  imports Html_Soundness
begin

text \<open>
  Soundness of the tokenizer, continued: character references, the dispatch over the states, the
  rounds of the loop and \<open>write\<close>. A complete text whose code points are valid is tokenized without
  an exception, and every token handed to the tree constructor is well formed.
\<close>

section \<open>Flushing the characters of a reference\<close>

lemma flush_token: "currentToken (emitCodePoint on c t) = currentToken t"
  by (auto simp: emitCodePoint_def with_code_point_def throw_def appendCharToCurrentCharacterToken_def
      createCharacterToken_def drop_chunk_def emitCurrentCharacterToken_def kinds_notify split: option.split)

lemma flush_kinds [safe_rules]:
  "is_tag (flushCodePoint on c t) = is_tag t" "returnState (flushCodePoint on c t) = returnState t"
  "return_tag (flushCodePoint on c t) = return_tag t"
proof -
  show tag: "is_tag (flushCodePoint on c t) = is_tag t"
    by (simp add: flushCodePoint_def with_code_point_def throw_def safe_rules is_tag_def flush_token)
       (simp add: kinds_add_attr(5) [unfolded is_tag_def])
  show "returnState (flushCodePoint on c t) = returnState t" by (simp add: flush_frame)
  then show "return_tag (flushCodePoint on c t) = return_tag t" using tag by (simp add: return_tag_def)
qed

lemma flush_safe [safe_rules]:
  "safe t \<Longrightarrow> valid_code_point c \<Longrightarrow> safe (flushCodePoint on c t)"
  "ready t \<Longrightarrow> valid_code_point c \<Longrightarrow> ready (flushCodePoint on c t)"
  by (simp_all add: flushCodePoint_def safe_rules)

lemma fold_flush_safe:
  assumes "safe t" and "list_all valid_code_point cs"
  shows "safe (fold (flushCodePoint on) cs t)"
    and "return_tag (fold (flushCodePoint on) cs t) = return_tag t"
  using assms by (induction cs arbitrary: t) (simp_all add: safe_rules)

lemma return_tag_simps [safe_rules]:
  "return_tag (set_state s t) = return_tag t" "return_tag (tok_err c t) = return_tag t"
  "return_tag (t\<lparr>charRefCode := n\<rparr>) = return_tag t" "safe (t\<lparr>charRefCode := n\<rparr>) = safe t"
  by (simp_all add: return_tag_def is_tag_def set_state_def tok_err_def safe_def)

text \<open>The state a reference returns to finds what it expects.\<close>

lemma return_state_kind:
  assumes "safe t" and "return_tag t"
  shows "kind (returnState t) t" and "ready (set_state (returnState t) t)"
proof -
  have need: "need_of s = (if in_attribute s then A_Tag else Any)" if "s \<in> return_states" for s
    using that unfolding return_states_def
    by (elim insertE emptyE) (simp_all add: need_of_def in_attribute_def)
  have "returnState t \<in> return_states" using assms(1) by (simp add: safe_def)
  then show k: "kind (returnState t) t" using assms(2) by (simp add: kind_def need return_tag_def)
  show "ready (set_state (returnState t) t)" using assms(1) k by (rule ready_set_state)
qed

lemma good_reconsume [good_rules]:
  assumes "safe t" and "return_tag t" and "cp_ok e"
  shows "good (reconsumeInReturnState on e t)"
proof -
  have r: "ready (set_state (returnState t) t)" using return_state_kind assms(1,2) by blast
  have s: "returnState t \<in> return_states" using assms(1) by (simp add: safe_def)
  then have "tstate (set_state (returnState t) t) = returnState t" by (simp add: set_state_def)
  then show ?thesis using s r assms(3)
    by (auto simp: reconsumeInReturnState_def Let_def return_states_def good_rules)
qed

section \<open>Numeric references\<close>

lemma control_replacement_valid: "map_of control_replacements c = Some v \<Longrightarrow> valid_code_point v"
  by (drule map_of_SomeD) (auto simp: control_replacements_def valid_code_point_def)

lemma numeric_reference_valid:
  assumes "0 \<le> c"
  shows "valid_code_point (snd (numeric_reference c))"
  using assms control_replacement_valid
  by (auto simp: numeric_reference_def valid_code_point_def split: option.split)

lemma char_ref_kind: "need_of s = Char_Ref \<Longrightarrow> kind s t = return_tag t"
  "need_of s = Char_Code \<Longrightarrow> kind s t = (return_tag t \<and> 0 \<le> charRefCode t)"
  by (simp_all add: kind_def)

lemma good_numeric_end [good_rules]:
  assumes "safe t" and "return_tag t" and "0 \<le> charRefCode t" and "cp_ok e"
  shows "good (stateNumericCharacterReferenceEnd on e t)"
  using assms numeric_reference_valid [OF assms(3)]
  by (auto simp: stateNumericCharacterReferenceEnd_def Let_def safe_rules good_rules split: prod.split option.split)

lemma err_charRefCode [safe_rules]:
  "charRefCode (tok_err c t) = charRefCode t" "charRefCode (set_state s t) = charRefCode t"
  by (simp_all add: tok_err_def set_state_def)

lemma good_more_digits:
  assumes "safe t" and "return_tag t" and "need_of (tstate t) = Char_Code" and "0 \<le> n"
  shows "good (t\<lparr>charRefCode := n\<rparr>)"
proof -
  have "return_tag (t\<lparr>charRefCode := n\<rparr>)" "safe (t\<lparr>charRefCode := n\<rparr>)"
    using assms(1,2) by (simp_all add: safe_rules)
  then show ?thesis using assms(3,4) by (simp add: good_def char_ref_kind)
qed

lemma good_code_end:
  assumes "safe t" and "return_tag t" and "0 \<le> charRefCode t" and "cp_ok e"
  shows "good (set_state NUMERIC_CHARACTER_REFERENCE_END t)"
    and "good (stateNumericCharacterReferenceEnd on e (set_state NUMERIC_CHARACTER_REFERENCE_END
           (tok_err missingSemicolonAfterCharacterReference t)))"
proof -
  have "need_of NUMERIC_CHARACTER_REFERENCE_END = Char_Code" by (simp add: need_of_def)
  then show "good (set_state NUMERIC_CHARACTER_REFERENCE_END t)"
    using assms by (intro ready_good ready_set_state) (simp_all add: char_ref_kind)
  show "good (stateNumericCharacterReferenceEnd on e (set_state NUMERIC_CHARACTER_REFERENCE_END
           (tok_err missingSemicolonAfterCharacterReference t)))"
    using assms by (intro good_numeric_end) (simp_all add: safe_rules)
qed

lemma good_digits [good_rules]:
  assumes "safe t" and "return_tag t" and "0 \<le> charRefCode t" and "cp_ok e"
    and "need_of (tstate t) = Char_Code"
  shows "good (stateHexademicalCharacterReference on e t)"
    and "good (stateDecimalCharacterReference on e t)"
proof -
  have d: "0 \<le> 16 * charRefCode t + e - 55" if "is_upper_hex e" using that assms(3) by (simp add: is_upper_hex_def)
  have l: "0 \<le> 16 * charRefCode t + e - 87" if "is_lower_hex e" using that assms(3) by (simp add: is_lower_hex_def)
  have n: "0 \<le> 16 * charRefCode t + e - 48" "0 \<le> 10 * charRefCode t + e - 48" if "is_ascii_digit e"
    using that assms(3) by (simp_all add: is_ascii_digit_def)
  note fin = good_code_end [OF assms(1-4)] and more = good_more_digits [OF assms(1,2,5)]
  show "good (stateHexademicalCharacterReference on e t)"
    using d l n(1) fin more by (simp add: stateHexademicalCharacterReference_def)
  show "good (stateDecimalCharacterReference on e t)"
    using n(2) fin more by (simp add: stateDecimalCharacterReference_def)
qed

lemma good_ambiguous [good_rules]:
  assumes "safe t" and "return_tag t" and "tstate t = AMBIGUOUS_AMPERSAND" and "cp_ok e"
  shows "good (stateAmbiguousAmpersand on e t)"
proof -
  have "need_of AMBIGUOUS_AMPERSAND = Char_Ref" by (simp add: need_of_def)
  then have "ready t" using assms by (simp add: ready_def char_ref_kind)
  moreover have "valid_code_point e" if "is_ascii_alnum e"
    using that assms(4) by (auto simp: cp_ok_def)
  ultimately show ?thesis using assms
    by (simp add: stateAmbiguousAmpersand_def safe_rules good_rules)
qed

lemma good_numeric [good_rules]:
  assumes "safe t" and "return_tag t" and "cp_ok e" and "at_char t"
  shows "good (stateNumericCharacterReference on e t)"
proof -
  let ?t = "t\<lparr>charRefCode := 0\<rparr>"
  have t: "safe ?t" "return_tag ?t" "0 \<le> charRefCode ?t" "0 \<le> pos (pp ?t)"
    using assms by (simp_all add: safe_rules at_char_def)
  have need: "need_of HEXADEMICAL_CHARACTER_REFERENCE_START = Hex_Start"
    "need_of DECIMAL_CHARACTER_REFERENCE = Char_Code" by (simp_all add: need_of_def)
  have "good (set_state HEXADEMICAL_CHARACTER_REFERENCE_START ?t)"
    using t by (intro ready_good ready_set_state) (simp_all add: kind_def need)
  moreover have "good (stateDecimalCharacterReference on e (set_state DECIMAL_CHARACTER_REFERENCE ?t))"
    using t assms(3) by (intro good_digits) (simp_all add: safe_rules need)
  moreover have "good (reconsumeInReturnState on e (flushCodePoint on NUMBER_SIGN (flushCodePoint on AMPERSAND
      (tok_err absenceOfDigitsInNumericCharacterReference ?t))))"
    using t assms(3) by (intro good_reconsume) (simp_all add: safe_rules)
  ultimately show ?thesis by (simp add: stateNumericCharacterReference_def Let_def)
qed

lemma flush_keeps_pp: "safe t \<Longrightarrow> pos (pp t) \<le> 65536 \<Longrightarrow> pp (flushCodePoint on c t) = pp t"
  using flush_pp [of on c t] by (auto simp: safe_def dropParsedChunk_def willDropParsedChunk_def)

lemma retreat_two_pos:
  assumes "gaps_ok p0" and "lastGapPos p0 < pos p0" and "moved 1 p0 p"
  shows "pos p0 - 1 \<le> pos (retreat 2 p)"
proof -
  let ?q = "p0\<lparr>pos := pos p0 - 1\<rparr>"
  have q: "gaps_ok ?q" using assms(1,2) by (simp add: gaps_ok_def)
  have "moved 1 ?q p0" by (simp add: moved_def gaps_def)
  then have "moved (1 + 1) ?q p" using assms(3) by (rule moved_trans)
  then have "moved 2 ?q p" by (simp add: numeral_2_eq_2)
  from src.moved_all_back(1) [OF this q] show ?thesis by (auto simp: moved_def)
qed

lemma good_hex_start:
  assumes "ready t" and "tstate t = HEXADEMICAL_CHARACTER_REFERENCE_START" and "cp_ok e"
    and "entered lc p0 e t" and "0 \<le> pos p0" and "lastGapPos p0 < pos p0"
    and "pos p0 < int (length (html p0))"
  shows "good (stateHexademicalCharacterReferenceStart on e t)"
proof -
  have t: "safe t" "return_tag t" "0 \<le> charRefCode t"
    using assms(1,2) by (simp_all add: ready_def kind_def need_of_def)
  have need: "need_of HEXADEMICAL_CHARACTER_REFERENCE = Char_Code" by (simp add: need_of_def)
  have digits: "good (stateHexademicalCharacterReference on e (set_state HEXADEMICAL_CHARACTER_REFERENCE t))"
    using t assms(3) by (intro good_digits) (simp_all add: safe_rules need)
  let ?t0 = "tok_err absenceOfDigitsInNumericCharacterReference t"
  let ?t1 = "flushCodePoint on AMPERSAND ?t0"
  let ?u = "flushCodePoint on NUMBER_SIGN ?t1"
  have p0: "gaps_ok p0" "pp t = snd (advance p0)" using assms(4) by (simp_all add: entered_def)
  have u: "safe ?u" "return_tag ?u" using t by (simp_all add: safe_rules)
  have "pos (pp t) \<le> int (length (html (pp t)))" using advance_inside [OF assms(7)] p0(2) by simp
  then have small: "pos (pp ?t0) \<le> 65536" using t(1) by (simp add: tok_err_def safe_def text_ok_def)
  then have "pp ?t1 = pp ?t0" using flush_keeps_pp [of ?t0 on AMPERSAND] t(1) by (simp add: safe_rules)
  then have "pp ?u = pp ?t0"
    using flush_keeps_pp [of ?t1 on NUMBER_SIGN] t(1) small by (simp add: safe_rules)
  then have "pos (retreat 2 (pp ?u)) = pos (retreat 2 (pp t))"
    by (simp add: tok_err_def retreat_def split: prod.split)
  then have "pos p0 - 1 \<le> pos (retreat 2 (pp ?u))"
    using retreat_two_pos [OF p0(1) assms(6)] p0(2) advance_moved [of p0] by simp
  then have v: "safe (unconsume 2 ?u)" "return_tag (unconsume 2 ?u)"
    using u assms(5) by (simp_all add: unconsume_def safe_def return_tag_def is_tag_def frame_simps)
  have "good (set_state (returnState (unconsume 2 ?u)) (unconsume 2 ?u))"
    using return_state_kind(2) [OF v] by (rule ready_good)
  then show ?thesis using digits by (simp add: stateHexademicalCharacterReferenceStart_def Let_def)
qed

section \<open>Named references\<close>

text \<open>
  What the source relies on in the table of named references: its entries are 16-bit words, and
  the code points of a node stand inside the table.
\<close>

definition table_ok :: "decode_tree \<Rightarrow> bool" where
  "table_ok lm \<longleftrightarrow> list_all (\<lambda>w. w < 65536) lm \<and>
     list_all (\<lambda>a. VALUE_LENGTH (int (lm ! a)) \<le> 1 \<or>
        int a + VALUE_LENGTH (int (lm ! a)) - 1 < int (length lm)) [0..<length lm]"

fun match_ok :: "cp list option \<Rightarrow> bool" where
  "match_ok (Some cs) \<longleftrightarrow> list_all valid_code_point cs"
| "match_ok None \<longleftrightarrow> True"

lemma table_value_valid:
  assumes "table_ok lm" and "0 \<le> a" and "a < int (length lm)"
  shows "valid_code_point (tree_value lm a)"
proof -
  have "lm ! nat a < 65536" using assms by (auto simp: table_ok_def list_all_length)
  then show ?thesis using assms(2,3) by (simp add: tree_value_def tree_at_def valid_code_point_def)
qed

lemma node_values_valid:
  assumes "table_ok lm" and "0 \<le> a" and "VALUE_LENGTH (node_word lm a) \<noteq> 0"
  shows "match_ok (Some (node_values lm a (VALUE_LENGTH (node_word lm a) - 1)))"
proof -
  let ?s = "VALUE_LENGTH (node_word lm a)"
  have s: "1 \<le> ?s" "?s \<le> 3" using assms(3) by (simp_all add: VALUE_LENGTH_def)
  have "VALUE_LENGTH 0 = 0" by (simp add: VALUE_LENGTH_def)
  then have in_lm: "a < int (length lm)" and w: "node_word lm a = int (lm ! nat a)"
    using assms(2,3) by (auto simp: node_word_def tree_at_def split: if_splits)
  have "nat a \<in> set [0..<length lm]" using assms(2) in_lm by simp
  then have fit: "?s \<le> 1 \<or> a + ?s - 1 < int (length lm)"
    using assms(1,2) w unfolding table_ok_def list_all_iff by fastforce
  have "valid_code_point (node_word lm a mod 16384)"
    by (simp add: valid_code_point_def)
  then show ?thesis using s fit table_value_valid [OF assms(1)] assms(2)
    by (auto simp: node_values_def)
qed

lemma match_loop_ok:
  assumes "match_ok acc" and "table_ok lm"
    and "match_loop lm a i e acc n r t = (acc', n', r', t')"
  shows "match_ok acc'"
  using assms
proof (induction lm a i e acc n r t rule: match_loop.induct)
  case (1 lm a i e acc n r t)
  note prems = "1.prems"
  let ?k = "attr_continues e t"
  have amp: "match_ok (Some [AMPERSAND])" by (simp add: valid_numerals)
  consider (stop) "a < 0 \<or> determineBranch lm i (a + 1) e = None"
    | (miss) a1 where "\<not> a < 0" "determineBranch lm i (a + 1) e = Some a1" "a1 < 0"
    | (inner) a1 where "\<not> a < 0" "determineBranch lm i (a + 1) e = Some a1" "\<not> a1 < 0"
        "VALUE_LENGTH (node_word lm a1) = 0"
    | (hit) a1 where "\<not> a < 0" "determineBranch lm i (a + 1) e = Some a1" "\<not> a1 < 0"
        "VALUE_LENGTH (node_word lm a1) \<noteq> 0"
    by (cases "determineBranch lm i (a + 1) e") fastforce+
  then show ?case
  proof cases
    case stop
    then show ?thesis using prems by (auto simp: match_loop.simps [of lm a i] split: if_splits)
  next
    case miss
    then show ?thesis using prems by (simp add: match_loop.simps [of lm a i])
  next
    case inner
    show ?thesis
    proof (rule "1.IH"(1) [OF inner(1-3) refl refl inner(4) refl prems(1,2)])
      show "match_loop lm a1 (node_word lm a1) (fst (consume t)) acc (n + 1) r (snd (consume t)) = (acc', n', r', t')"
        using prems(3) inner by (simp add: match_loop.simps [of lm a i] Let_def)
    qed
  next
    case hit
    let ?l = "VALUE_LENGTH (node_word lm a1) - 1"
    let ?acc = "if fst ?k then Some [AMPERSAND] else Some (node_values lm a1 ?l)"
    have ok: "match_ok ?acc" using amp node_values_valid [OF prems(2) _ hit(4)] hit(3) by simp
    show ?thesis
    proof (cases "?l = 0")
      case True
      then show ?thesis using prems(3) hit ok by (auto simp: match_loop.simps [of lm a i] Let_def)
    next
      case False
      show ?thesis
      proof (rule "1.IH"(2) [OF hit(1-3) refl refl hit(4) refl refl refl refl refl refl refl False ok prems(2)])
        show "match_loop lm (a1 + ?l) (node_word lm a1) (fst (consume (snd ?k))) ?acc
            (if fst ?k then n + 1 else 0) (if fst ?k then r else e \<noteq> SEMICOLON) (snd (consume (snd ?k))) =
            (acc', n', r', t')"
          using prems(3) hit False by (simp add: match_loop.simps [of lm a i] Let_def)
      qed
    qed
  qed
qed

lemma matchNamed_ok:
  assumes "table_ok lm" and "snap p0 t" and "gaps_ok p0" and "1 \<le> consumedAfterSnapshot t"
    and "matchNamedCharacterReference lm e t = (m, t')"
  shows "match_ok m" and "snap p0 t'" and "only_read t t'"
proof -
  obtain acc n r t1 where ml: "match_loop lm 0 (node_word lm 0) e None 0 False t = (acc, n, r, t1)"
    using prod_cases4 by blast
  have l: "snap p0 t1" "0 \<le> n" "n + 1 \<le> consumedAfterSnapshot t1" "only_read t t1"
    using match_loop_snap [OF assms(2) _ _ ml] assms(4) by auto
  let ?t2 = "unconsume n t1"
  define t3 where "t3 = (if r \<and> \<not> endOfChunkHit (pp ?t2)
      then tok_err missingSemicolonAfterCharacterReference ?t2 else ?t2)"
  have t2: "snap p0 ?t2" "1 \<le> consumedAfterSnapshot ?t2" "only_read t ?t2"
    using snap_unconsume [OF l(1) assms(3) l(2)] l only_read_trans [OF l(4) only_read_refl(3)]
    by (auto simp: unconsume_def)
  have "only_read ?t2 t3" by (auto simp: t3_def tok_err_def only_read_refl)
  then have t3: "snap p0 t3" "1 \<le> consumedAfterSnapshot t3" "only_read t t3"
    using t2 only_read_trans by (auto simp: t3_def snap_err err_consumed)
  have eq: "m = acc" "t' = unconsume 1 t3"
    using assms(5) ml by (auto simp: matchNamedCharacterReference_def t3_def Let_def)
  show "match_ok m" using match_loop_ok [OF _ assms(1) ml] eq by simp
  show "snap p0 t'" using snap_unconsume [OF t3(1) assms(3)] t3(2) eq by simp
  show "only_read t t'" using only_read_trans [OF t3(3) only_read_refl(3)] eq by simp
qed

lemma snap_safe:
  assumes "safe u" and "only_read u t" and "snap p0 t" and "snap p0 u" and "-1 \<le> pos p0"
  shows "safe t" and "return_tag t = return_tag u"
proof -
  obtain p n where t: "t = u\<lparr>pp := p, consumedAfterSnapshot := n\<rparr>" using assms(2) by (rule only_readE)
  have "html (pp t) = html (pp u)" "bufferWaterline (pp t) = bufferWaterline (pp u)" "pos p0 \<le> pos (pp t)"
    using assms(3,4) by (auto simp: snap_def moved_def)
  then show "safe t" using assms(1,5) by (simp add: t safe_def)
  show "return_tag t = return_tag u" by (simp add: t return_tag_def is_tag_def)
qed

lemma good_named:
  assumes "safe t" and "return_tag t" and "table_ok lm" and "snap p0 t" and "gaps_ok p0" and "-1 \<le> pos p0"
    and "1 \<le> consumedAfterSnapshot t"
  shows "good (stateNamedCharacterReference lm on e t)"
proof -
  obtain m t1 where mt: "matchNamedCharacterReference lm e t = (m, t1)" by fastforce
  obtain h t2 where hib: "ensureHibernation t1 = (h, t2)" by fastforce
  note ok = matchNamed_ok [OF assms(3,4,5,7) mt]
  have t1: "safe t1" "return_tag t1" using snap_safe [OF assms(1) ok(3,2) assms(4,6)] assms(2) by simp_all
  have need: "need_of AMBIGUOUS_AMPERSAND = Char_Ref" by (simp add: need_of_def)
  show ?thesis
  proof (cases "endOfChunkHit (pp t1)")
    case True
    let ?u = "unconsume (consumedAfterSnapshot t1) t1"
    have "snap p0 ?u" using snap_unconsume [OF ok(2) assms(5)] ok(2) by (simp add: snap_def)
    from snap_safe(1) [OF assms(1) only_read_trans [OF ok(3) only_read_refl(3)] this assms(4,6)]
    have "safe ?u" .
    then have "good (?u\<lparr>active := False\<rparr>)" by (simp add: good_def safe_def)
    moreover have "h" "t2 = ?u\<lparr>active := False\<rparr>" using True hib by (auto simp: ensureHibernation_def)
    ultimately show ?thesis by (simp add: stateNamedCharacterReference_def mt hib)
  next
    case False
    then have h: "\<not> h" "t2 = t1" using hib by (auto simp: ensureHibernation_def)
    have amp: "good (set_state AMBIGUOUS_AMPERSAND (flushCodePoint on AMPERSAND t1))"
      using t1 by (intro ready_good ready_set_state) (simp_all add: safe_rules char_ref_kind need)
    have "good (set_state (returnState u) u)" if "u = fold (flushCodePoint on) cs t1" "m = Some cs" for u cs
      using fold_flush_safe [OF t1(1), of cs on] t1(2) ok(1) that
      by (intro ready_good return_state_kind(2)) simp_all
    then show ?thesis using h amp
      by (simp add: stateNamedCharacterReference_def mt hib Let_def split: option.split)
  qed
qed

section \<open>One round\<close>

lemma good_if: "(b \<Longrightarrow> good x) \<Longrightarrow> (\<not> b \<Longrightarrow> good y) \<Longrightarrow> good (if b then x else y)"
  by simp

lemma ready_reference:
  assumes "ready t"
  shows "tstate t = CHARACTER_REFERENCE \<Longrightarrow> return_tag t" "tstate t = NAMED_CHARACTER_REFERENCE \<Longrightarrow> return_tag t"
    "tstate t = AMBIGUOUS_AMPERSAND \<Longrightarrow> return_tag t" "tstate t = NUMERIC_CHARACTER_REFERENCE \<Longrightarrow> return_tag t"
    "need_of (tstate t) = Char_Code \<Longrightarrow> return_tag t \<and> 0 \<le> charRefCode t"
  using assms by (auto simp: ready_def kind_def need_of_def)

lemma no_state_left: "78 < s \<Longrightarrow> \<not> kind s t"
  by (simp add: kind_def need_of_def)

lemma good_reference:
  assumes "safe t" and "return_tag t" and "table_ok lm" and "snap p0 t" and "gaps_ok p0" and "-1 \<le> pos p0"
    and "1 \<le> consumedAfterSnapshot t" and "cp_ok e"
  shows "good (stateCharacterReference lm on e t)"
proof -
  have need: "need_of NUMERIC_CHARACTER_REFERENCE = Char_Ref" by (simp add: need_of_def)
  have "snap p0 (set_state s t)" "1 \<le> consumedAfterSnapshot (set_state s t)" for s
    using assms(4,7) by (simp_all add: snap_def set_state_def)
  then have "good (stateNamedCharacterReference lm on e (set_state NAMED_CHARACTER_REFERENCE t))"
    using assms by (intro good_named [of _ _ p0]) (simp_all add: safe_rules)
  moreover have "good (set_state NUMERIC_CHARACTER_REFERENCE t)"
    using assms(1,2) by (intro ready_good ready_set_state) (simp_all add: char_ref_kind need)
  moreover have "good (reconsumeInReturnState on e (flushCodePoint on AMPERSAND t))"
    using assms by (intro good_reconsume) (simp_all add: safe_rules)
  ultimately show ?thesis by (simp add: stateCharacterReference_def)
qed

lemma good_callState:
  assumes "ready t" and "cp_ok e" and "table_ok lm" and "entered lc p0 e t" and "-1 \<le> pos p0"
    and "one_read t" and "at_char t"
    and "tstate t = HEXADEMICAL_CHARACTER_REFERENCE_START \<Longrightarrow>
      0 \<le> pos p0 \<and> lastGapPos p0 < pos p0 \<and> pos p0 < int (length (html p0))"
  shows "good (callState lm on e t)"
proof -
  have s: "safe t" using assms(1) by (rule ready_safe)
  have p0: "gaps_ok p0" "1 \<le> consumedAfterSnapshot t" using assms(4) by (simp_all add: entered_def)
  note d = enteredD [OF assms(4)] and rr = ready_reference [OF assms(1)]
  have code: "tstate t = HEXADEMICAL_CHARACTER_REFERENCE \<Longrightarrow> need_of (tstate t) = Char_Code"
    "tstate t = DECIMAL_CHARACTER_REFERENCE \<Longrightarrow> need_of (tstate t) = Char_Code"
    "tstate t = NUMERIC_CHARACTER_REFERENCE_END \<Longrightarrow> need_of (tstate t) = Char_Code"
    by (simp_all add: need_of_def)
  have refs: "tstate t = CHARACTER_REFERENCE \<Longrightarrow> good (stateCharacterReference lm on e t)"
    "tstate t = NAMED_CHARACTER_REFERENCE \<Longrightarrow> good (stateNamedCharacterReference lm on e t)"
    "tstate t = HEXADEMICAL_CHARACTER_REFERENCE_START \<Longrightarrow> good (stateHexademicalCharacterReferenceStart on e t)"
    using good_reference [OF s _ assms(3) d(1) p0(1) assms(5) p0(2) assms(2)]
      good_named [OF s _ assms(3) d(1) p0(1) assms(5) p0(2)] rr
      good_hex_start [OF assms(1) _ assms(2,4)] assms(8) by blast+
  have codes: "tstate t = HEXADEMICAL_CHARACTER_REFERENCE \<Longrightarrow> good (stateHexademicalCharacterReference on e t)"
    "tstate t = DECIMAL_CHARACTER_REFERENCE \<Longrightarrow> good (stateDecimalCharacterReference on e t)"
    "tstate t = NUMERIC_CHARACTER_REFERENCE_END \<Longrightarrow> good (stateNumericCharacterReferenceEnd on e t)"
    "tstate t = AMBIGUOUS_AMPERSAND \<Longrightarrow> good (stateAmbiguousAmpersand on e t)"
    "tstate t = NUMERIC_CHARACTER_REFERENCE \<Longrightarrow> good (stateNumericCharacterReference on e t)"
    using code rr good_digits [OF s _ _ assms(2)] good_numeric_end [OF s _ _ assms(2)]
      good_ambiguous [OF s _ _ assms(2)] good_numeric [OF s _ assms(2,7)] by blast+
  have left: "good (throw t)" if "\<not> tstate t < 79"
    using assms(1) no_state_left [of "tstate t" t] that by (simp add: ready_def)
  show ?thesis unfolding callState_def
    by (intro good_if; (rule left, simp only: eval_nat_numeral BitM.simps less_Suc_eq not_less_zero simp_thms)?;
        simp add: good_rules refs codes assms d)
qed

section \<open>The loop\<close>

lemma good_round:
  assumes "good t" and "active t" and "table_ok lm" and "loop_inv lc t"
  shows "good (loop_step lm on t)"
proof -
  let ?s = "t\<lparr>consumedAfterSnapshot := 0\<rparr>"
  let ?t1 = "snd (consume ?s)" and ?e = "fst (advance (pp t))"
  have g: "gaps_ok (pp t)" using assms(4) by (simp add: loop_inv_def)
  have r: "ready t" using assms(1,2) by (simp add: good_def ready_def)
  then have s: "safe t" by (rule ready_safe)
  have m: "moved 1 (pp t) (snd (advance (pp t)))" by (rule advance_moved)
  have "ready ?s" using r by (simp add: ready_def safe_def kind_cong [of ?s t])
  then have r1: "ready ?t1" by (rule consume_safe)
  have p: "-1 \<le> pos (pp t)" "text_ok (html (pp t))" using s by (simp_all add: safe_def)
  have one: "one_read ?t1"
    using src.moved_all_back(1) [OF m g] p(1) by (auto simp: one_read_def moved_def)
  have at: "at_char ?t1" using m p(1) by (auto simp: at_char_def moved_def)
  obtain h t2 where hib: "ensureHibernation ?t1 = (h, t2)" by fastforce
  have step: "loop_step lm on t = (if h then t2 else callState lm on ?e t2)"
    using hib by (cases "consume ?s") (auto simp: loop_step_def consume_def split: prod.splits)
  have hb: "if h then good t2 else t2 = ?t1" using hibernation_good [OF r1 one hib] .
  show ?thesis
  proof (cases h)
    case True
    then show ?thesis using step hb by simp
  next
    case False
    then have t2: "t2 = ?t1" using hb by simp
    have "\<not> endOfChunkHit (pp ?t1)" using False hib by (auto simp: ensureHibernation_def)
    then have en: "entered lc (pp t) ?e ?t1"
      using assms(2,4) g by (simp add: entered_def loop_inv_def noeof_def)
    have "cp_ok ?e" using advance_cp_ok [OF p(2,1)] .
    moreover have "0 \<le> pos (pp t) \<and> lastGapPos (pp t) < pos (pp t) \<and> pos (pp t) < int (length (html (pp t)))"
      if "tstate ?t1 = HEXADEMICAL_CHARACTER_REFERENCE_START"
      using that assms(4) r by (auto simp: loop_inv_def hexinv_def ready_def kind_def need_of_def)
    ultimately have "good (callState lm on ?e ?t1)"
      using good_callState [OF r1 _ assms(3) en p(1) one at] by blast
    then show ?thesis using step False t2 by simp
  qed
qed

lemma good_loop:
  assumes "good t" and "active t" and "table_ok lm" and "loop_inv lc t"
  shows "\<exists>t'. parsing_loop lm on t = Some t' \<and> good t' \<and> stopped lc t'"
  using assms
proof (induction "mu t" arbitrary: t rule: less_induct)
  case less
  let ?u = "loop_step lm on t"
  have u: "good ?u" using good_round less.prems by blast
  then have ns: "\<not> stuck ?u" by (simp add: good_def safe_def)
  have "\<not> paused t" "\<not> stuck t" using less.prems(1,4) by (simp_all add: loop_inv_def good_def safe_def)
  then have eq: "parsing_loop lm on t = parsing_loop lm on ?u"
    using less.prems(2) by (simp add: parsing_loop.simps [of lm on t])
  consider "stopped lc ?u" | "active ?u" "loop_inv lc ?u" "mu ?u < mu t"
    using loop_step_round [OF less.prems(4,2), of lm on] ns by (auto simp: round_ok_def)
  then show ?case
  proof cases
    case 1
    then show ?thesis using eq u by (simp add: parsing_loop.simps [of lm on ?u] stopped_def)
  next
    case 2
    then show ?thesis using less.hyps [of ?u] u less.prems(3) eq by simp
  qed
qed

text \<open>
  C6. No text makes the tokenizer throw, and every token it hands on is well formed. For a complete
  text of at most 65536 UTF-16 code units without two low surrogates in a row, every handler and
  every table of named references whose entries are words and whose nodes hold their code points:
  \<open>write\<close> returns with no exception, the end of the input has been reported once and last, and
  every event is well formed. The attributes of a tag have distinct names, tag and attribute
  names have no capital ASCII letter, the tag id belongs to the name, and the text of a character
  event is not empty and is all white space, all NUL, or free of both.
\<close>

theorem tokens_well_formed:
  assumes "text_ok s" and "table_ok lm"
  shows "\<exists>t. tok_write lm on s True (new_tokenizer rep h) = Some t \<and> \<not> stuck t \<and>
     hd (out t) = OnEof \<and> count_list (out t) OnEof = 1 \<and> list_all event_ok (out t)"
proof -
  let ?t = "(new_tokenizer rep h)\<lparr>active := True,
      pp := pp_write s True (pp (new_tokenizer rep h)), inLoop := True\<rparr>"
  have li: "loop_inv True ?t"
    by (simp add: loop_inv_def new_tokenizer_def new_preprocessor_def pp_write_def gaps_ok_def
        chunk_ok_def noeof_def hexinv_def return_states_def)
  have g: "good ?t" using assms(1)
    by (simp add: good_def safe_def new_tokenizer_def new_preprocessor_def pp_write_def no_upper_def
        return_states_def kind_def need_of_def)
  obtain t' where t': "parsing_loop lm on ?t = Some t'" "good t'" "stopped True t'"
    using good_loop [OF g _ assms(2) li, of on] by auto
  then have "\<not> stuck t'" "list_all event_ok (out t')" "eof_done t'"
    by (simp_all add: good_def safe_def stopped_def)
  moreover have "hd (out t') = OnEof \<and> count_list (out t') OnEof = 1" if "eof_done t'"
    using that by (cases "out t'") (auto simp: eof_done_def count_list_0_iff)
  moreover have "tok_write lm on s True (new_tokenizer rep h) = Some (t'\<lparr>inLoop := False\<rparr>)"
    using t'(1) calculation(1) by (simp add: tok_write_def runParsingLoop_def new_tokenizer_def)
  ultimately show ?thesis by auto
qed

text \<open>The table of the witness has one node with the value 38 below the letter \<open>a\<close>.\<close>

theorem tokens_well_formed_witness:
  "text_ok (js ''<A b=1 B>x &a; y</A>'') \<and> table_ok [97, 16422] \<and>
   (\<exists>t. tok_write [97, 16422] (\<lambda>ev h. (h, None, None)) (js ''<A b=1 B>x &a; y</A>'') True (new_tokenizer True ()) = Some t \<and>
      \<not> stuck t \<and> hd (out t) = OnEof \<and> count_list (out t) OnEof = 1 \<and> list_all event_ok (out t))"
proof -
  have t: "text_ok (js ''<A b=1 B>x &a; y</A>'')" by (simp add: text_ok_def js_def)
  have l: "table_ok [97, 16422]" by (simp add: table_ok_def VALUE_LENGTH_def)
  show ?thesis using t l tokens_well_formed [OF t l, of "\<lambda>ev h. (h, None, None)" True "()"] by blast
qed

end
