(* ===== verification/Html_Tags.thy ===== *)
theory Html_Tags
  imports Html_Codes
begin

text \<open>
  Tag ids, namespaces and the tables of the tree constructor of the HTML parser in
  \<^verbatim>\<open>src/api/scalar.standalone.js\<close>: special elements, elements that bound a scope, public ids of
  legacy doctypes, and the names that change their case in foreign content.
\<close>

section \<open>Tag ids: \<open>og\<close>\<close>

abbreviation (input) T_UNKNOWN :: nat where "T_UNKNOWN \<equiv> 0"
abbreviation (input) T_A :: nat where "T_A \<equiv> 1"
abbreviation (input) T_ADDRESS :: nat where "T_ADDRESS \<equiv> 2"
abbreviation (input) T_ANNOTATION_XML :: nat where "T_ANNOTATION_XML \<equiv> 3"
abbreviation (input) T_APPLET :: nat where "T_APPLET \<equiv> 4"
abbreviation (input) T_AREA :: nat where "T_AREA \<equiv> 5"
abbreviation (input) T_ARTICLE :: nat where "T_ARTICLE \<equiv> 6"
abbreviation (input) T_ASIDE :: nat where "T_ASIDE \<equiv> 7"
abbreviation (input) T_B :: nat where "T_B \<equiv> 8"
abbreviation (input) T_BASE :: nat where "T_BASE \<equiv> 9"
abbreviation (input) T_BASEFONT :: nat where "T_BASEFONT \<equiv> 10"
abbreviation (input) T_BGSOUND :: nat where "T_BGSOUND \<equiv> 11"
abbreviation (input) T_BIG :: nat where "T_BIG \<equiv> 12"
abbreviation (input) T_BLOCKQUOTE :: nat where "T_BLOCKQUOTE \<equiv> 13"
abbreviation (input) T_BODY :: nat where "T_BODY \<equiv> 14"
abbreviation (input) T_BR :: nat where "T_BR \<equiv> 15"
abbreviation (input) T_BUTTON :: nat where "T_BUTTON \<equiv> 16"
abbreviation (input) T_CAPTION :: nat where "T_CAPTION \<equiv> 17"
abbreviation (input) T_CENTER :: nat where "T_CENTER \<equiv> 18"
abbreviation (input) T_CODE :: nat where "T_CODE \<equiv> 19"
abbreviation (input) T_COL :: nat where "T_COL \<equiv> 20"
abbreviation (input) T_COLGROUP :: nat where "T_COLGROUP \<equiv> 21"
abbreviation (input) T_DD :: nat where "T_DD \<equiv> 22"
abbreviation (input) T_DESC :: nat where "T_DESC \<equiv> 23"
abbreviation (input) T_DETAILS :: nat where "T_DETAILS \<equiv> 24"
abbreviation (input) T_DIALOG :: nat where "T_DIALOG \<equiv> 25"
abbreviation (input) T_DIR :: nat where "T_DIR \<equiv> 26"
abbreviation (input) T_DIV :: nat where "T_DIV \<equiv> 27"
abbreviation (input) T_DL :: nat where "T_DL \<equiv> 28"
abbreviation (input) T_DT :: nat where "T_DT \<equiv> 29"
abbreviation (input) T_EM :: nat where "T_EM \<equiv> 30"
abbreviation (input) T_EMBED :: nat where "T_EMBED \<equiv> 31"
abbreviation (input) T_FIELDSET :: nat where "T_FIELDSET \<equiv> 32"
abbreviation (input) T_FIGCAPTION :: nat where "T_FIGCAPTION \<equiv> 33"
abbreviation (input) T_FIGURE :: nat where "T_FIGURE \<equiv> 34"
abbreviation (input) T_FONT :: nat where "T_FONT \<equiv> 35"
abbreviation (input) T_FOOTER :: nat where "T_FOOTER \<equiv> 36"
abbreviation (input) T_FOREIGN_OBJECT :: nat where "T_FOREIGN_OBJECT \<equiv> 37"
abbreviation (input) T_FORM :: nat where "T_FORM \<equiv> 38"
abbreviation (input) T_FRAME :: nat where "T_FRAME \<equiv> 39"
abbreviation (input) T_FRAMESET :: nat where "T_FRAMESET \<equiv> 40"
abbreviation (input) T_H1 :: nat where "T_H1 \<equiv> 41"
abbreviation (input) T_H2 :: nat where "T_H2 \<equiv> 42"
abbreviation (input) T_H3 :: nat where "T_H3 \<equiv> 43"
abbreviation (input) T_H4 :: nat where "T_H4 \<equiv> 44"
abbreviation (input) T_H5 :: nat where "T_H5 \<equiv> 45"
abbreviation (input) T_H6 :: nat where "T_H6 \<equiv> 46"
abbreviation (input) T_HEAD :: nat where "T_HEAD \<equiv> 47"
abbreviation (input) T_HEADER :: nat where "T_HEADER \<equiv> 48"
abbreviation (input) T_HGROUP :: nat where "T_HGROUP \<equiv> 49"
abbreviation (input) T_HR :: nat where "T_HR \<equiv> 50"
abbreviation (input) T_HTML :: nat where "T_HTML \<equiv> 51"
abbreviation (input) T_I :: nat where "T_I \<equiv> 52"
abbreviation (input) T_IMG :: nat where "T_IMG \<equiv> 53"
abbreviation (input) T_IMAGE :: nat where "T_IMAGE \<equiv> 54"
abbreviation (input) T_INPUT :: nat where "T_INPUT \<equiv> 55"
abbreviation (input) T_IFRAME :: nat where "T_IFRAME \<equiv> 56"
abbreviation (input) T_KEYGEN :: nat where "T_KEYGEN \<equiv> 57"
abbreviation (input) T_LABEL :: nat where "T_LABEL \<equiv> 58"
abbreviation (input) T_LI :: nat where "T_LI \<equiv> 59"
abbreviation (input) T_LINK :: nat where "T_LINK \<equiv> 60"
abbreviation (input) T_LISTING :: nat where "T_LISTING \<equiv> 61"
abbreviation (input) T_MAIN :: nat where "T_MAIN \<equiv> 62"
abbreviation (input) T_MALIGNMARK :: nat where "T_MALIGNMARK \<equiv> 63"
abbreviation (input) T_MARQUEE :: nat where "T_MARQUEE \<equiv> 64"
abbreviation (input) T_MATH :: nat where "T_MATH \<equiv> 65"
abbreviation (input) T_MENU :: nat where "T_MENU \<equiv> 66"
abbreviation (input) T_META :: nat where "T_META \<equiv> 67"
abbreviation (input) T_MGLYPH :: nat where "T_MGLYPH \<equiv> 68"
abbreviation (input) T_MI :: nat where "T_MI \<equiv> 69"
abbreviation (input) T_MO :: nat where "T_MO \<equiv> 70"
abbreviation (input) T_MN :: nat where "T_MN \<equiv> 71"
abbreviation (input) T_MS :: nat where "T_MS \<equiv> 72"
abbreviation (input) T_MTEXT :: nat where "T_MTEXT \<equiv> 73"
abbreviation (input) T_NAV :: nat where "T_NAV \<equiv> 74"
abbreviation (input) T_NOBR :: nat where "T_NOBR \<equiv> 75"
abbreviation (input) T_NOFRAMES :: nat where "T_NOFRAMES \<equiv> 76"
abbreviation (input) T_NOEMBED :: nat where "T_NOEMBED \<equiv> 77"
abbreviation (input) T_NOSCRIPT :: nat where "T_NOSCRIPT \<equiv> 78"
abbreviation (input) T_OBJECT :: nat where "T_OBJECT \<equiv> 79"
abbreviation (input) T_OL :: nat where "T_OL \<equiv> 80"
abbreviation (input) T_OPTGROUP :: nat where "T_OPTGROUP \<equiv> 81"
abbreviation (input) T_OPTION :: nat where "T_OPTION \<equiv> 82"
abbreviation (input) T_P :: nat where "T_P \<equiv> 83"
abbreviation (input) T_PARAM :: nat where "T_PARAM \<equiv> 84"
abbreviation (input) T_PLAINTEXT :: nat where "T_PLAINTEXT \<equiv> 85"
abbreviation (input) T_PRE :: nat where "T_PRE \<equiv> 86"
abbreviation (input) T_RB :: nat where "T_RB \<equiv> 87"
abbreviation (input) T_RP :: nat where "T_RP \<equiv> 88"
abbreviation (input) T_RT :: nat where "T_RT \<equiv> 89"
abbreviation (input) T_RTC :: nat where "T_RTC \<equiv> 90"
abbreviation (input) T_RUBY :: nat where "T_RUBY \<equiv> 91"
abbreviation (input) T_S :: nat where "T_S \<equiv> 92"
abbreviation (input) T_SCRIPT :: nat where "T_SCRIPT \<equiv> 93"
abbreviation (input) T_SECTION :: nat where "T_SECTION \<equiv> 94"
abbreviation (input) T_SELECT :: nat where "T_SELECT \<equiv> 95"
abbreviation (input) T_SOURCE :: nat where "T_SOURCE \<equiv> 96"
abbreviation (input) T_SMALL :: nat where "T_SMALL \<equiv> 97"
abbreviation (input) T_SPAN :: nat where "T_SPAN \<equiv> 98"
abbreviation (input) T_STRIKE :: nat where "T_STRIKE \<equiv> 99"
abbreviation (input) T_STRONG :: nat where "T_STRONG \<equiv> 100"
abbreviation (input) T_STYLE :: nat where "T_STYLE \<equiv> 101"
abbreviation (input) T_SUB :: nat where "T_SUB \<equiv> 102"
abbreviation (input) T_SUMMARY :: nat where "T_SUMMARY \<equiv> 103"
abbreviation (input) T_SUP :: nat where "T_SUP \<equiv> 104"
abbreviation (input) T_TABLE :: nat where "T_TABLE \<equiv> 105"
abbreviation (input) T_TBODY :: nat where "T_TBODY \<equiv> 106"
abbreviation (input) T_TEMPLATE :: nat where "T_TEMPLATE \<equiv> 107"
abbreviation (input) T_TEXTAREA :: nat where "T_TEXTAREA \<equiv> 108"
abbreviation (input) T_TFOOT :: nat where "T_TFOOT \<equiv> 109"
abbreviation (input) T_TD :: nat where "T_TD \<equiv> 110"
abbreviation (input) T_TH :: nat where "T_TH \<equiv> 111"
abbreviation (input) T_THEAD :: nat where "T_THEAD \<equiv> 112"
abbreviation (input) T_TITLE :: nat where "T_TITLE \<equiv> 113"
abbreviation (input) T_TR :: nat where "T_TR \<equiv> 114"
abbreviation (input) T_TRACK :: nat where "T_TRACK \<equiv> 115"
abbreviation (input) T_TT :: nat where "T_TT \<equiv> 116"
abbreviation (input) T_U :: nat where "T_U \<equiv> 117"
abbreviation (input) T_UL :: nat where "T_UL \<equiv> 118"
abbreviation (input) T_SVG :: nat where "T_SVG \<equiv> 119"
abbreviation (input) T_VAR :: nat where "T_VAR \<equiv> 120"
abbreviation (input) T_WBR :: nat where "T_WBR \<equiv> 121"
abbreviation (input) T_XMP :: nat where "T_XMP \<equiv> 122"

section \<open>Namespaces \<open>Gm\<close> and document modes \<open>eg\<close>\<close>

datatype namespace = NS_HTML | NS_MATHML | NS_SVG | NS_XLINK | NS_XML | NS_XMLNS

datatype document_mode = NO_QUIRKS | QUIRKS | LIMITED_QUIRKS

section \<open>Sets of elements\<close>

text \<open>\<open>fg\<close>: the special elements of a namespace.\<close>

fun special_elements :: "namespace \<Rightarrow> nat list" where
  "special_elements NS_HTML = [
    T_ADDRESS, T_APPLET, T_AREA, T_ARTICLE, T_ASIDE, T_BASE, T_BASEFONT, T_BGSOUND,
    T_BLOCKQUOTE, T_BODY, T_BR, T_BUTTON, T_CAPTION, T_CENTER, T_COL, T_COLGROUP, T_DD,
    T_DETAILS, T_DIR, T_DIV, T_DL, T_DT, T_EMBED, T_FIELDSET, T_FIGCAPTION, T_FIGURE, T_FOOTER,
    T_FORM, T_FRAME, T_FRAMESET, T_H1, T_H2, T_H3, T_H4, T_H5, T_H6, T_HEAD, T_HEADER,
    T_HGROUP, T_HR, T_HTML, T_IFRAME, T_IMG, T_INPUT, T_LI, T_LINK, T_LISTING, T_MAIN,
    T_MARQUEE, T_MENU, T_META, T_NAV, T_NOEMBED, T_NOFRAMES, T_NOSCRIPT, T_OBJECT, T_OL, T_P,
    T_PARAM, T_PLAINTEXT, T_PRE, T_SCRIPT, T_SECTION, T_SELECT, T_SOURCE, T_STYLE, T_SUMMARY,
    T_TABLE, T_TBODY, T_TD, T_TEMPLATE, T_TEXTAREA, T_TFOOT, T_TH, T_THEAD, T_TITLE, T_TR,
    T_TRACK, T_UL, T_WBR, T_XMP]"
| "special_elements NS_MATHML = [T_MI, T_MO, T_MN, T_MS, T_MTEXT, T_ANNOTATION_XML]"
| "special_elements NS_SVG = [T_TITLE, T_FOREIGN_OBJECT, T_DESC]"
| "special_elements _ = []"

text \<open>\<open>mg\<close>.\<close>

definition isNumberedHeader :: "nat \<Rightarrow> bool" where
  "isNumberedHeader t \<longleftrightarrow> t = T_H1 \<or> t = T_H2 \<or> t = T_H3 \<or> t = T_H4 \<or> t = T_H5 \<or> t = T_H6"

text \<open>\<open>Pg\<close> and \<open>Dg\<close>: elements whose end tag may be implied.\<close>

definition implied_end_tags :: "nat list" where
  "implied_end_tags = [T_DD, T_DT, T_LI, T_OPTGROUP, T_OPTION, T_P, T_RB, T_RP, T_RT, T_RTC]"

definition implied_end_tags_thoroughly :: "nat list" where
  "implied_end_tags_thoroughly = implied_end_tags @
    [T_CAPTION, T_COLGROUP, T_TBODY, T_TD, T_TFOOT, T_TH, T_THEAD, T_TR]"

text \<open>\<open>Rg\<close>: the elements that bound a scope, with their namespace.\<close>

definition scoping_elements :: "(nat \<times> namespace) list" where
  "scoping_elements = [
    (T_APPLET, NS_HTML), (T_CAPTION, NS_HTML), (T_HTML, NS_HTML), (T_MARQUEE, NS_HTML),
    (T_OBJECT, NS_HTML), (T_TABLE, NS_HTML), (T_TD, NS_HTML), (T_TEMPLATE, NS_HTML),
    (T_TH, NS_HTML), (T_ANNOTATION_XML, NS_MATHML), (T_MI, NS_MATHML), (T_MN, NS_MATHML),
    (T_MO, NS_MATHML), (T_MS, NS_MATHML), (T_MTEXT, NS_MATHML), (T_DESC, NS_SVG),
    (T_FOREIGN_OBJECT, NS_SVG), (T_TITLE, NS_SVG)]"

text \<open>\<open>$g\<close>, \<open>Ng\<close>, \<open>Mg\<close>, \<open>Ig\<close> and \<open>Lg\<close>.\<close>

definition numbered_headers :: "nat list" where "numbered_headers = [T_H1, T_H2, T_H3, T_H4, T_H5, T_H6]"
definition table_row_context :: "nat list" where "table_row_context = [T_TR, T_TEMPLATE, T_HTML]"
definition table_body_context :: "nat list" where
  "table_body_context = [T_TBODY, T_TFOOT, T_THEAD, T_TEMPLATE, T_HTML]"
definition table_context :: "nat list" where "table_context = [T_TABLE, T_TEMPLATE, T_HTML]"
definition table_cells :: "nat list" where "table_cells = [T_TD, T_TH]"

text \<open>\<open>vv\<close>: inside these, content goes to the foster parent. \<open>tb\<close>: tags of the parts of a table.\<close>

definition table_structure_tags :: "nat list" where
  "table_structure_tags = [T_TABLE, T_TBODY, T_TFOOT, T_THEAD, T_TR]"

definition table_part_tags :: "nat list" where
  "table_part_tags = [T_CAPTION, T_COL, T_COLGROUP, T_TBODY, T_TD, T_TFOOT, T_TH, T_THEAD, T_TR]"

text \<open>\<open>iv\<close>: start tags that leave foreign content.\<close>

definition exits_foreign_content :: "nat list" where
  "exits_foreign_content = [
    T_B, T_BIG, T_BLOCKQUOTE, T_BODY, T_BR, T_CENTER, T_CODE, T_DD, T_DIV, T_DL, T_DT, T_EM,
    T_EMBED, T_H1, T_H2, T_H3, T_H4, T_H5, T_H6, T_HEAD, T_HR, T_I, T_IMG, T_LI, T_LISTING,
    T_MENU, T_META, T_NOBR, T_OL, T_P, T_PRE, T_RUBY, T_S, T_SMALL, T_SPAN, T_STRONG, T_STRIKE,
    T_SUB, T_SUP, T_TABLE, T_TT, T_U, T_UL, T_VAR]"

section \<open>Doctypes\<close>

definition VALID_DOCTYPE_NAME :: jsstr where "VALID_DOCTYPE_NAME = js ''html''"
definition VALID_SYSTEM_ID :: jsstr where "VALID_SYSTEM_ID = js ''about:legacy-compat''"
definition QUIRKS_MODE_SYSTEM_ID :: jsstr where
  "QUIRKS_MODE_SYSTEM_ID = js ''http://www.ibm.com/data/dtd/v11/ibmxhtml1-transitional.dtd''"

text \<open>\<open>Wg\<close>. The apostrophe of O'Reilly is written by its code.\<close>

definition QUIRKS_MODE_PUBLIC_ID_PREFIXES :: "jsstr list" where
  "QUIRKS_MODE_PUBLIC_ID_PREFIXES = [
    js ''+//silmaril//dtd html pro v0r11 19970101//'',
    js ''-//as//dtd html 3.0 aswedit + extensions//'',
    js ''-//advasoft ltd//dtd html 3.0 aswedit + extensions//'',
    js ''-//ietf//dtd html 2.0 level 1//'', js ''-//ietf//dtd html 2.0 level 2//'',
    js ''-//ietf//dtd html 2.0 strict level 1//'',
    js ''-//ietf//dtd html 2.0 strict level 2//'', js ''-//ietf//dtd html 2.0 strict//'',
    js ''-//ietf//dtd html 2.0//'', js ''-//ietf//dtd html 2.1e//'',
    js ''-//ietf//dtd html 3.0//'', js ''-//ietf//dtd html 3.2 final//'',
    js ''-//ietf//dtd html 3.2//'', js ''-//ietf//dtd html 3//'',
    js ''-//ietf//dtd html level 0//'', js ''-//ietf//dtd html level 1//'',
    js ''-//ietf//dtd html level 2//'', js ''-//ietf//dtd html level 3//'',
    js ''-//ietf//dtd html strict level 0//'', js ''-//ietf//dtd html strict level 1//'',
    js ''-//ietf//dtd html strict level 2//'', js ''-//ietf//dtd html strict level 3//'',
    js ''-//ietf//dtd html strict//'', js ''-//ietf//dtd html//'',
    js ''-//metrius//dtd metrius presentational//'',
    js ''-//microsoft//dtd internet explorer 2.0 html strict//'',
    js ''-//microsoft//dtd internet explorer 2.0 html//'',
    js ''-//microsoft//dtd internet explorer 2.0 tables//'',
    js ''-//microsoft//dtd internet explorer 3.0 html strict//'',
    js ''-//microsoft//dtd internet explorer 3.0 html//'',
    js ''-//microsoft//dtd internet explorer 3.0 tables//'',
    js ''-//netscape comm. corp.//dtd html//'',
    js ''-//netscape comm. corp.//dtd strict html//'',
    js ''-//o'' @ 39 # js ''reilly and associates//dtd html 2.0//'',
    js ''-//o'' @ 39 # js ''reilly and associates//dtd html extended 1.0//'',
    js ''-//o'' @ 39 # js ''reilly and associates//dtd html extended relaxed 1.0//'',
    js ''-//sq//dtd html 2.0 hotmetal + extensions//'',
    js ''-//softquad software//dtd hotmetal pro 6.0::19990601::extensions to html 4.0//'',
    js ''-//softquad//dtd hotmetal pro 4.0::19971010::extensions to html 4.0//'',
    js ''-//spyglass//dtd html 2.0 extended//'',
    js ''-//sun microsystems corp.//dtd hotjava html//'',
    js ''-//sun microsystems corp.//dtd hotjava strict html//'',
    js ''-//w3c//dtd html 3 1995-03-24//'', js ''-//w3c//dtd html 3.2 draft//'',
    js ''-//w3c//dtd html 3.2 final//'', js ''-//w3c//dtd html 3.2//'',
    js ''-//w3c//dtd html 3.2s draft//'', js ''-//w3c//dtd html 4.0 frameset//'',
    js ''-//w3c//dtd html 4.0 transitional//'',
    js ''-//w3c//dtd html experimental 19960712//'',
    js ''-//w3c//dtd html experimental 970421//'', js ''-//w3c//dtd w3 html//'',
    js ''-//w3o//dtd w3 html 3.0//'', js ''-//webtechs//dtd mozilla html 2.0//'',
    js ''-//webtechs//dtd mozilla html//'']"

definition QUIRKS_MODE_NO_SYSTEM_ID_PUBLIC_ID_PREFIXES :: "jsstr list" where
  "QUIRKS_MODE_NO_SYSTEM_ID_PUBLIC_ID_PREFIXES = QUIRKS_MODE_PUBLIC_ID_PREFIXES @ [
    js ''-//w3c//dtd html 4.01 frameset//'', js ''-//w3c//dtd html 4.01 transitional//'']"

definition QUIRKS_MODE_PUBLIC_IDS :: "jsstr list" where
  "QUIRKS_MODE_PUBLIC_IDS = [
    js ''-//w3o//dtd w3 html strict 3.0//en//'', js ''-/w3c/dtd html 4.0 transitional/en'',
    js ''html'']"

definition LIMITED_QUIRKS_PUBLIC_ID_PREFIXES :: "jsstr list" where
  "LIMITED_QUIRKS_PUBLIC_ID_PREFIXES = [
    js ''-//w3c//dtd xhtml 1.0 frameset//'', js ''-//w3c//dtd xhtml 1.0 transitional//'']"

definition LIMITED_QUIRKS_WITH_SYSTEM_ID_PUBLIC_ID_PREFIXES :: "jsstr list" where
  "LIMITED_QUIRKS_WITH_SYSTEM_ID_PUBLIC_ID_PREFIXES = LIMITED_QUIRKS_PUBLIC_ID_PREFIXES @ [
    js ''-//w3c//dtd html 4.01 frameset//'', js ''-//w3c//dtd html 4.01 transitional//'']"

text \<open>\<open>Jg\<close>.\<close>

definition hasPrefix :: "jsstr \<Rightarrow> jsstr list \<Rightarrow> bool" where
  "hasPrefix s prefixes \<longleftrightarrow> list_ex (\<lambda>p. startsWith s p) prefixes"

text \<open>
  The mode of a document by its doctype. \<open>low\<close> is \<open>String.prototype.toLowerCase\<close>, whose Unicode
  tables are an argument of the model.
\<close>

definition getDocumentMode :: "(jsstr \<Rightarrow> jsstr) \<Rightarrow> doctype_token \<Rightarrow> document_mode" where
  "getDocumentMode low d =
     (if doctype_name d \<noteq> Some VALID_DOCTYPE_NAME then QUIRKS
      else if (case systemId d of Some s \<Rightarrow> s \<noteq> [] \<and> low s = QUIRKS_MODE_SYSTEM_ID | None \<Rightarrow> False)
      then QUIRKS
      else case publicId d of
        None \<Rightarrow> NO_QUIRKS
      | Some pid0 \<Rightarrow>
          let pid = low pid0 in
          if pid \<in> set QUIRKS_MODE_PUBLIC_IDS then QUIRKS
          else if hasPrefix pid (if systemId d = None then QUIRKS_MODE_NO_SYSTEM_ID_PUBLIC_ID_PREFIXES
                                 else QUIRKS_MODE_PUBLIC_ID_PREFIXES) then QUIRKS
          else if hasPrefix pid (if systemId d = None then LIMITED_QUIRKS_PUBLIC_ID_PREFIXES
                                 else LIMITED_QUIRKS_WITH_SYSTEM_ID_PUBLIC_ID_PREFIXES) then LIMITED_QUIRKS
          else NO_QUIRKS)"

definition isConforming :: "doctype_token \<Rightarrow> bool" where
  "isConforming d \<longleftrightarrow> doctype_name d = Some VALID_DOCTYPE_NAME \<and> publicId d = None \<and>
     (systemId d = None \<or> systemId d = Some VALID_SYSTEM_ID)"

section \<open>Names in foreign content\<close>

text \<open>
  \<open>rv\<close> and \<open>av\<close> map the lower-case form of each name to the name; the names are ASCII, so that the
  lower-case form is the one of \<open>ascii_lower\<close>.
\<close>

definition ascii_lower :: "jsstr \<Rightarrow> jsstr" where
  "ascii_lower s = map (\<lambda>u. if 65 \<le> u \<and> u \<le> 90 then u + 32 else u) s"

definition svg_attribute_names :: "jsstr list" where
  "svg_attribute_names = [
    js ''attributeName'', js ''attributeType'', js ''baseFrequency'', js ''baseProfile'',
    js ''calcMode'', js ''clipPathUnits'', js ''diffuseConstant'', js ''edgeMode'',
    js ''filterUnits'', js ''glyphRef'', js ''gradientTransform'', js ''gradientUnits'',
    js ''kernelMatrix'', js ''kernelUnitLength'', js ''keyPoints'', js ''keySplines'',
    js ''keyTimes'', js ''lengthAdjust'', js ''limitingConeAngle'', js ''markerHeight'',
    js ''markerUnits'', js ''markerWidth'', js ''maskContentUnits'', js ''maskUnits'',
    js ''numOctaves'', js ''pathLength'', js ''patternContentUnits'', js ''patternTransform'',
    js ''patternUnits'', js ''pointsAtX'', js ''pointsAtY'', js ''pointsAtZ'',
    js ''preserveAlpha'', js ''preserveAspectRatio'', js ''primitiveUnits'', js ''refX'',
    js ''refY'', js ''repeatCount'', js ''repeatDur'', js ''requiredExtensions'',
    js ''requiredFeatures'', js ''specularConstant'', js ''specularExponent'',
    js ''spreadMethod'', js ''startOffset'', js ''stdDeviation'', js ''stitchTiles'',
    js ''surfaceScale'', js ''systemLanguage'', js ''tableValues'', js ''targetX'',
    js ''targetY'', js ''textLength'', js ''viewBox'', js ''viewTarget'',
    js ''xChannelSelector'', js ''yChannelSelector'', js ''zoomAndPan'']"

definition svg_tag_names :: "jsstr list" where
  "svg_tag_names = [
    js ''altGlyph'', js ''altGlyphDef'', js ''altGlyphItem'', js ''animateColor'',
    js ''animateMotion'', js ''animateTransform'', js ''clipPath'', js ''feBlend'',
    js ''feColorMatrix'', js ''feComponentTransfer'', js ''feComposite'',
    js ''feConvolveMatrix'', js ''feDiffuseLighting'', js ''feDisplacementMap'',
    js ''feDistantLight'', js ''feFlood'', js ''feFuncA'', js ''feFuncB'', js ''feFuncG'',
    js ''feFuncR'', js ''feGaussianBlur'', js ''feImage'', js ''feMerge'', js ''feMergeNode'',
    js ''feMorphology'', js ''feOffset'', js ''fePointLight'', js ''feSpecularLighting'',
    js ''feSpotLight'', js ''feTile'', js ''feTurbulence'', js ''foreignObject'',
    js ''glyphRef'', js ''linearGradient'', js ''radialGradient'', js ''textPath'']"

definition SVG_ATTRS_ADJUSTMENT_MAP :: "(jsstr \<times> jsstr) list" where
  "SVG_ATTRS_ADJUSTMENT_MAP = map (\<lambda>n. (ascii_lower n, n)) svg_attribute_names"

definition SVG_TAG_NAMES_ADJUSTMENT_MAP :: "(jsstr \<times> jsstr) list" where
  "SVG_TAG_NAMES_ADJUSTMENT_MAP = map (\<lambda>n. (ascii_lower n, n)) svg_tag_names"

text \<open>\<open>ov\<close>: prefix, local name and namespace of the qualified attribute names.\<close>

definition XML_ATTRS_ADJUSTMENT_MAP :: "(jsstr \<times> jsstr \<times> jsstr \<times> namespace) list" where
  "XML_ATTRS_ADJUSTMENT_MAP = [
    (js ''xlink:actuate'', js ''xlink'', js ''actuate'', NS_XLINK),
    (js ''xlink:arcrole'', js ''xlink'', js ''arcrole'', NS_XLINK),
    (js ''xlink:href'', js ''xlink'', js ''href'', NS_XLINK),
    (js ''xlink:role'', js ''xlink'', js ''role'', NS_XLINK),
    (js ''xlink:show'', js ''xlink'', js ''show'', NS_XLINK),
    (js ''xlink:title'', js ''xlink'', js ''title'', NS_XLINK),
    (js ''xlink:type'', js ''xlink'', js ''type'', NS_XLINK),
    (js ''xml:base'', js ''xml'', js ''base'', NS_XML),
    (js ''xml:lang'', js ''xml'', js ''lang'', NS_XML),
    (js ''xml:space'', js ''xml'', js ''space'', NS_XML),
    (js ''xmlns'', [], js ''xmlns'', NS_XMLNS),
    (js ''xmlns:xlink'', js ''xmlns'', js ''xlink'', NS_XMLNS)]"

text \<open>Attributes of the tree: those of a token with an optional prefix and namespace.\<close>

record dom_attr =
  a_name :: jsstr
  a_value :: jsstr
  a_prefix :: "jsstr option"
  a_namespace :: "namespace option"

definition plain_attr :: "attr \<Rightarrow> dom_attr" where
  "plain_attr a = \<lparr>a_name = attr_name a, a_value = attr_value a, a_prefix = None, a_namespace = None\<rparr>"

text \<open>\<open>sv\<close>: the first attribute \<open>definitionurl\<close> becomes \<open>definitionURL\<close>.\<close>

fun adjustTokenMathMLAttrs :: "dom_attr list \<Rightarrow> dom_attr list" where
  "adjustTokenMathMLAttrs [] = []"
| "adjustTokenMathMLAttrs (a # as) =
     (if a_name a = js ''definitionurl'' then a\<lparr>a_name := js ''definitionURL''\<rparr> # as
      else a # adjustTokenMathMLAttrs as)"

text \<open>\<open>lv\<close> and \<open>cv\<close>.\<close>

definition adjustTokenSVGAttrs :: "dom_attr list \<Rightarrow> dom_attr list" where
  "adjustTokenSVGAttrs = map (\<lambda>a. case map_of SVG_ATTRS_ADJUSTMENT_MAP (a_name a) of
     Some n \<Rightarrow> a\<lparr>a_name := n\<rparr> | None \<Rightarrow> a)"

definition adjustTokenXMLAttrs :: "dom_attr list \<Rightarrow> dom_attr list" where
  "adjustTokenXMLAttrs = map (\<lambda>a. case map_of XML_ATTRS_ADJUSTMENT_MAP (a_name a) of
     Some (p, n, s) \<Rightarrow> a\<lparr>a_prefix := Some p, a_name := n, a_namespace := Some s\<rparr> | None \<Rightarrow> a)"

text \<open>
  \<open>uv\<close>: is an element with this tag id, namespace and attributes an integration point? The
  optional argument restricts the question to HTML or to MathML text. For \<open>annotation-xml\<close> the
  first attribute \<open>encoding\<close> decides.
\<close>

definition isHtmlIntegrationPoint :: "(jsstr \<Rightarrow> jsstr) \<Rightarrow> nat \<Rightarrow> namespace option \<Rightarrow> dom_attr list \<Rightarrow> bool" where
  "isHtmlIntegrationPoint low tn ns as =
     (case (if ns = Some NS_MATHML \<and> tn = T_ANNOTATION_XML
            then List.find (\<lambda>a. a_name a = js ''encoding'') as else None) of
        Some a \<Rightarrow> low (a_value a) = js ''text/html'' \<or> low (a_value a) = js ''application/xhtml+xml''
      | None \<Rightarrow> ns = Some NS_SVG \<and> (tn = T_FOREIGN_OBJECT \<or> tn = T_DESC \<or> tn = T_TITLE))"

definition isMathMLTextIntegrationPoint :: "nat \<Rightarrow> namespace option \<Rightarrow> bool" where
  "isMathMLTextIntegrationPoint tn ns \<longleftrightarrow> ns = Some NS_MATHML \<and>
     (tn = T_MI \<or> tn = T_MO \<or> tn = T_MN \<or> tn = T_MS \<or> tn = T_MTEXT)"

definition isIntegrationPoint ::
  "(jsstr \<Rightarrow> jsstr) \<Rightarrow> nat \<Rightarrow> namespace option \<Rightarrow> dom_attr list \<Rightarrow> namespace option \<Rightarrow> bool" where
  "isIntegrationPoint low tn ns as foreign \<longleftrightarrow>
     (foreign = None \<or> foreign = Some NS_HTML) \<and> isHtmlIntegrationPoint low tn ns as \<or>
     (foreign = None \<or> foreign = Some NS_MATHML) \<and> isMathMLTextIntegrationPoint tn ns"

end
