(* ===== verification/Html_Dom.thy ===== *)
theory Html_Dom
  imports Html_Tags
begin

text \<open>
  The tree the HTML parser builds and the tree adapter \<open>qg\<close> of \<^verbatim>\<open>src/api/scalar.standalone.js\<close>.
  Nodes are objects that are shared and changed in place, so the tree is a heap: a node is known by
  its index, and parents and children are indices. \<open>broken\<close> is set where the source reads a property
  of \<open>undefined\<close> and throws a \<open>TypeError\<close>. Source code locations are left out.
\<close>

section \<open>Array operations of JavaScript\<close>

text \<open>\<open>xs.indexOf(x)\<close>, \<open>xs.splice(i, 0, x)\<close> and \<open>xs.splice(i, 1)\<close>; a negative index counts from the end.\<close>

fun indexOf :: "'a list \<Rightarrow> 'a \<Rightarrow> int" where
  "indexOf [] x = -1"
| "indexOf (y # ys) x = (if y = x then 0 else let i = indexOf ys x in if i < 0 then -1 else i + 1)"

definition splice_at :: "'a list \<Rightarrow> int \<Rightarrow> nat" where
  "splice_at xs i = (if i < 0 then nat (max 0 (int (length xs) + i)) else min (nat i) (length xs))"

definition splice_insert :: "int \<Rightarrow> 'a \<Rightarrow> 'a list \<Rightarrow> 'a list" where
  "splice_insert i x xs = (let k = splice_at xs i in take k xs @ x # drop k xs)"

definition splice_remove :: "int \<Rightarrow> 'a list \<Rightarrow> 'a list" where
  "splice_remove i xs = (let k = splice_at xs i in take k xs @ drop (Suc k) xs)"

lemma indexOf_bounds: "-1 \<le> indexOf xs x \<and> indexOf xs x < int (length xs)"
  by (induction xs) (auto simp: Let_def)

lemma indexOf_found: "x \<in> set xs \<Longrightarrow> 0 \<le> indexOf xs x \<and> xs ! nat (indexOf xs x) = x"
  by (induction xs) (auto simp: Let_def nat_add_distrib)

lemma indexOf_missing: "indexOf xs x < 0 \<longleftrightarrow> x \<notin> set xs"
  using indexOf_found [of x xs] by (induction xs) (auto simp: Let_def)

lemma splice_remove_found:
  assumes "distinct xs" and "x \<in> set xs"
  shows "splice_remove (indexOf xs x) xs = remove1 x xs"
proof -
  obtain ys zs where xs: "xs = ys @ x # zs" "x \<notin> set ys" using split_list_first assms(2) by metis
  have "indexOf (ys @ x # zs) x = int (length ys)" using xs(2) by (induction ys) auto
  then show ?thesis by (simp add: xs splice_remove_def splice_at_def remove1_append)
qed

lemma splice_insert_found:
  assumes "n \<in> set xs" and "i = indexOf xs n"
  obtains ys zs where "xs = ys @ n # zs" and "splice_insert i x xs = ys @ x # n # zs"
proof -
  obtain ys zs where xs: "xs = ys @ n # zs" "n \<notin> set ys" using split_list_first assms(1) by metis
  have "indexOf (ys @ n # zs) n = int (length ys)" using xs(2) by (induction ys) auto
  then have "splice_insert i x xs = ys @ x # n # zs" by (simp add: xs assms(2) splice_insert_def splice_at_def)
  then show thesis using that xs(1) by blast
qed

lemma set_splice_insert: "set (splice_insert i x xs) = insert x (set xs)"
proof -
  have "set xs = set (take k xs) \<union> set (drop k xs)" for k by (metis append_take_drop_id set_append)
  then show ?thesis by (auto simp: splice_insert_def Let_def)
qed

section \<open>Nodes\<close>

type_synonym addr = nat

datatype node_kind =
    Document
  | DocumentFragment
  | Element (el_name: jsstr) (el_ns: namespace) (el_attrs: "dom_attr list") (el_content: "addr option")
  | Text (text_value: jsstr)
  | CommentNode (comment_data: jsstr)
  | DocumentType (dt_name: jsstr) (dt_public: jsstr) (dt_system: jsstr)

record node =
  kind_of :: node_kind
  childNodes :: "addr list"
  parentNode :: "addr option"
  doc_mode :: "document_mode option"

record heap =
  nodes :: "node list"
  broken :: bool

definition empty_heap :: heap where
  "empty_heap = \<lparr>nodes = [], broken = False\<rparr>"

definition break :: "heap \<Rightarrow> heap" where
  "break h = h\<lparr>broken := True\<rparr>"

definition node_at :: "heap \<Rightarrow> addr \<Rightarrow> node option" where
  "node_at h a = (if a < length (nodes h) then Some (nodes h ! a) else None)"

definition set_node :: "addr \<Rightarrow> node \<Rightarrow> heap \<Rightarrow> heap" where
  "set_node a n h = h\<lparr>nodes := (nodes h)[a := n]\<rparr>"

definition alloc :: "node_kind \<Rightarrow> heap \<Rightarrow> addr \<times> heap" where
  "alloc k h = (length (nodes h),
     h\<lparr>nodes := nodes h @ [\<lparr>kind_of = k, childNodes = [], parentNode = None,
        doc_mode = (if k = Document then Some NO_QUIRKS else None)\<rparr>]\<rparr>)"

text \<open>Documents, fragments and elements have an array of children; the other nodes have none.\<close>

fun has_children :: "node_kind \<Rightarrow> bool" where
  "has_children (Text _) = False"
| "has_children (CommentNode _) = False"
| "has_children (DocumentType _ _ _) = False"
| "has_children _ = True"

section \<open>The tree adapter\<close>

definition createDocument :: "heap \<Rightarrow> addr \<times> heap" where
  "createDocument h = alloc Document h"

definition createDocumentFragment :: "heap \<Rightarrow> addr \<times> heap" where
  "createDocumentFragment h = alloc DocumentFragment h"

definition createElement :: "jsstr \<Rightarrow> namespace \<Rightarrow> dom_attr list \<Rightarrow> heap \<Rightarrow> addr \<times> heap" where
  "createElement name ns as h = alloc (Element name ns as None) h"

definition createCommentNode :: "jsstr \<Rightarrow> heap \<Rightarrow> addr \<times> heap" where
  "createCommentNode s h = alloc (CommentNode s) h"

definition createTextNode :: "jsstr \<Rightarrow> heap \<Rightarrow> addr \<times> heap" where
  "createTextNode s h = alloc (Text s) h"

definition set_children :: "addr \<Rightarrow> addr list \<Rightarrow> heap \<Rightarrow> heap" where
  "set_children a cs h = (case node_at h a of
     Some n \<Rightarrow> if has_children (kind_of n) then set_node a (n\<lparr>childNodes := cs\<rparr>) h else break h
   | None \<Rightarrow> break h)"

definition set_parent :: "addr \<Rightarrow> addr option \<Rightarrow> heap \<Rightarrow> heap" where
  "set_parent a p h = (case node_at h a of Some n \<Rightarrow> set_node a (n\<lparr>parentNode := p\<rparr>) h | None \<Rightarrow> break h)"

definition getChildNodes :: "heap \<Rightarrow> addr \<Rightarrow> addr list" where
  "getChildNodes h a = (case node_at h a of Some n \<Rightarrow> childNodes n | None \<Rightarrow> [])"

definition getParentNode :: "heap \<Rightarrow> addr \<Rightarrow> addr option" where
  "getParentNode h a = (case node_at h a of Some n \<Rightarrow> parentNode n | None \<Rightarrow> None)"

definition getFirstChild :: "heap \<Rightarrow> addr \<Rightarrow> addr option" where
  "getFirstChild h a = (case getChildNodes h a of [] \<Rightarrow> None | c # _ \<Rightarrow> Some c)"

definition element_at :: "heap \<Rightarrow> addr \<Rightarrow> (jsstr \<times> namespace \<times> dom_attr list \<times> addr option) option" where
  "element_at h a = (case node_at h a of
     Some n \<Rightarrow> (case kind_of n of Element s ns as c \<Rightarrow> Some (s, ns, as, c) | _ \<Rightarrow> None)
   | None \<Rightarrow> None)"

definition getTagName :: "heap \<Rightarrow> addr \<Rightarrow> jsstr option" where
  "getTagName h a = map_option fst (element_at h a)"

definition getNamespaceURI :: "heap \<Rightarrow> addr \<Rightarrow> namespace option" where
  "getNamespaceURI h a = map_option (\<lambda>e. fst (snd e)) (element_at h a)"

definition getAttrList :: "heap \<Rightarrow> addr \<Rightarrow> dom_attr list" where
  "getAttrList h a = (case element_at h a of Some (_, _, as, _) \<Rightarrow> as | None \<Rightarrow> [])"

definition getTemplateContent :: "heap \<Rightarrow> addr \<Rightarrow> addr option" where
  "getTemplateContent h a = (case element_at h a of Some (_, _, _, c) \<Rightarrow> c | None \<Rightarrow> None)"

definition isTextNode :: "heap \<Rightarrow> addr \<Rightarrow> bool" where
  "isTextNode h a = (case node_at h a of
     Some n \<Rightarrow> (case kind_of n of Text _ \<Rightarrow> True | _ \<Rightarrow> False) | None \<Rightarrow> False)"

definition isDocumentTypeNode :: "heap \<Rightarrow> addr \<Rightarrow> bool" where
  "isDocumentTypeNode h a = (case node_at h a of
     Some n \<Rightarrow> (case kind_of n of DocumentType _ _ _ \<Rightarrow> True | _ \<Rightarrow> False) | None \<Rightarrow> False)"

definition appendChild :: "addr \<Rightarrow> addr \<Rightarrow> heap \<Rightarrow> heap" where
  "appendChild e t h = set_parent t (Some e) (set_children e (getChildNodes h e @ [t]) h)"

definition insertBefore :: "addr \<Rightarrow> addr \<Rightarrow> addr \<Rightarrow> heap \<Rightarrow> heap" where
  "insertBefore e t n h =
     (let cs = getChildNodes h e; r = indexOf cs n
      in set_parent t (Some e) (set_children e (splice_insert r t cs) h))"

definition setTemplateContent :: "addr \<Rightarrow> addr \<Rightarrow> heap \<Rightarrow> heap" where
  "setTemplateContent e t h = (case node_at h e of
     Some n \<Rightarrow> (case kind_of n of
         Element s ns as c \<Rightarrow> set_node e (n\<lparr>kind_of := Element s ns as (Some t)\<rparr>) h | _ \<Rightarrow> break h)
   | None \<Rightarrow> break h)"

definition setDocumentType :: "addr \<Rightarrow> jsstr \<Rightarrow> jsstr \<Rightarrow> jsstr \<Rightarrow> heap \<Rightarrow> heap" where
  "setDocumentType e name pub sys h =
     (case List.find (isDocumentTypeNode h) (getChildNodes h e) of
        Some c \<Rightarrow> (case node_at h c of
            Some n \<Rightarrow> set_node c (n\<lparr>kind_of := DocumentType name pub sys\<rparr>) h | None \<Rightarrow> break h)
      | None \<Rightarrow> (case alloc (DocumentType name pub sys) h of (c, h1) \<Rightarrow> appendChild e c h1))"

definition setDocumentMode :: "addr \<Rightarrow> document_mode \<Rightarrow> heap \<Rightarrow> heap" where
  "setDocumentMode e m h = (case node_at h e of
     Some n \<Rightarrow> set_node e (n\<lparr>doc_mode := Some m\<rparr>) h | None \<Rightarrow> break h)"

definition getDocMode :: "heap \<Rightarrow> addr \<Rightarrow> document_mode option" where
  "getDocMode h e = (case node_at h e of Some n \<Rightarrow> doc_mode n | None \<Rightarrow> None)"

definition detachNode :: "addr \<Rightarrow> heap \<Rightarrow> heap" where
  "detachNode e h = (case node_at h e of
     None \<Rightarrow> break h
   | Some n \<Rightarrow> (case parentNode n of
       None \<Rightarrow> h
     | Some p \<Rightarrow>
         let cs = getChildNodes h p; t = indexOf cs e
         in set_parent e None (set_children p (splice_remove t cs) h)))"

definition add_text :: "addr \<Rightarrow> jsstr \<Rightarrow> heap \<Rightarrow> heap" where
  "add_text a s h = (case node_at h a of
     Some n \<Rightarrow> (case kind_of n of Text v \<Rightarrow> set_node a (n\<lparr>kind_of := Text (v @ s)\<rparr>) h | _ \<Rightarrow> break h)
   | None \<Rightarrow> break h)"

definition insertText :: "addr \<Rightarrow> jsstr \<Rightarrow> heap \<Rightarrow> heap" where
  "insertText e s h =
     (let cs = getChildNodes h e in
      if cs \<noteq> [] \<and> isTextNode h (last cs) then add_text (last cs) s h
      else case createTextNode s h of (t, h1) \<Rightarrow> appendChild e t h1)"

definition insertTextBefore :: "addr \<Rightarrow> jsstr \<Rightarrow> addr \<Rightarrow> heap \<Rightarrow> heap" where
  "insertTextBefore e s n h =
     (let cs = getChildNodes h e; i = indexOf cs n - 1 in
      if 0 \<le> i \<and> isTextNode h (cs ! nat i) then add_text (cs ! nat i) s h
      else case createTextNode s h of (t, h1) \<Rightarrow> insertBefore e t n h1)"

text \<open>The set of names is taken before the loop, so that a new name may be added twice.\<close>

definition adoptAttributes :: "addr \<Rightarrow> dom_attr list \<Rightarrow> heap \<Rightarrow> heap" where
  "adoptAttributes e as h = (case node_at h e of
     Some n \<Rightarrow> (case kind_of n of
         Element s ns old c \<Rightarrow>
           set_node e (n\<lparr>kind_of := Element s ns
             (old @ filter (\<lambda>a. a_name a \<notin> a_name ` set old) as) c\<rparr>) h
       | _ \<Rightarrow> break h)
   | None \<Rightarrow> break h)"

end
