(* ===== verification/Html_Open_Elements.thy ===== *)
theory Html_Open_Elements
  imports Html_Dom
begin

text \<open>
  The stack of open elements: class \<open>jg\<close> of \<^verbatim>\<open>src/api/scalar.standalone.js\<close>. The stack is a pair of
  arrays and an index \<open>stackTop\<close>; popping lowers the index and leaves the popped entries behind it.
  The notifications \<open>onItemPush\<close> and \<open>onItemPop\<close> belong to the parser and are made there.
\<close>

section \<open>State\<close>

record open_elements =
  items :: "addr list"
  tagIDs :: "nat list"
  stackTop :: int
  tmplCount :: nat
  currentTagId :: "nat option"
  current :: "addr option"

text \<open>\<open>undefined\<close> is \<open>None\<close>: what an array holds outside its bounds.\<close>

definition array_get :: "'a list \<Rightarrow> int \<Rightarrow> 'a option" where
  "array_get xs i = (if 0 \<le> i \<and> i < int (length xs) then Some (xs ! nat i) else None)"

text \<open>Assignment inside the array or right behind it. The stack assigns nowhere else.\<close>

definition array_set :: "int \<Rightarrow> 'a \<Rightarrow> 'a list \<Rightarrow> 'a list" where
  "array_set i x xs =
     (if 0 \<le> i \<and> i < int (length xs) then xs[nat i := x] else if i = int (length xs) then xs @ [x] else xs)"

text \<open>The last index below \<open>n\<close> with a property, and \<open>xs.lastIndexOf(x, from)\<close>.\<close>

fun search_down :: "(nat \<Rightarrow> bool) \<Rightarrow> nat \<Rightarrow> int" where
  "search_down P 0 = -1"
| "search_down P (Suc n) = (if P n then int n else search_down P n)"

definition lastIndexOf :: "'a list \<Rightarrow> 'a \<Rightarrow> int \<Rightarrow> int" where
  "lastIndexOf xs x from =
     (let k = (if from < 0 then int (length xs) + from else min from (int (length xs) - 1))
      in if k < 0 then -1 else search_down (\<lambda>i. xs ! i = x) (Suc (nat k)))"

definition new_open_elements :: "addr \<Rightarrow> open_elements" where
  "new_open_elements document = \<lparr>items = [], tagIDs = [], stackTop = -1, tmplCount = 0,
     currentTagId = Some T_UNKNOWN, current = Some document\<rparr>"

section \<open>Operations\<close>

definition stack_indexOf :: "addr \<Rightarrow> open_elements \<Rightarrow> int" where
  "stack_indexOf e s = lastIndexOf (items s) e (stackTop s)"

definition ns_at :: "heap \<Rightarrow> open_elements \<Rightarrow> nat \<Rightarrow> namespace option" where
  "ns_at h s i = getNamespaceURI h (items s ! i)"

definition isInTemplate :: "heap \<Rightarrow> open_elements \<Rightarrow> bool" where
  "isInTemplate h s \<longleftrightarrow> currentTagId s = Some T_TEMPLATE \<and>
     (case current s of Some c \<Rightarrow> getNamespaceURI h c = Some NS_HTML | None \<Rightarrow> False)"

definition currentTmplContentOrNode :: "heap \<Rightarrow> open_elements \<Rightarrow> addr option" where
  "currentTmplContentOrNode h s =
     (if isInTemplate h s then (case current s of Some c \<Rightarrow> getTemplateContent h c | None \<Rightarrow> None)
      else current s)"

definition updateCurrentElement :: "open_elements \<Rightarrow> open_elements" where
  "updateCurrentElement s =
     s\<lparr>current := array_get (items s) (stackTop s), currentTagId := array_get (tagIDs s) (stackTop s)\<rparr>"

definition push :: "heap \<Rightarrow> addr \<Rightarrow> nat \<Rightarrow> open_elements \<Rightarrow> open_elements" where
  "push h e t s =
     (let k = stackTop s + 1;
          s1 = s\<lparr>stackTop := k, items := array_set k e (items s), current := Some e,
                 tagIDs := array_set k t (tagIDs s), currentTagId := Some t\<rparr>
      in if isInTemplate h s1 then s1\<lparr>tmplCount := tmplCount s1 + 1\<rparr> else s1)"

definition pop :: "heap \<Rightarrow> open_elements \<Rightarrow> open_elements" where
  "pop h s =
     (let s1 = (if tmplCount s > 0 \<and> isInTemplate h s then s\<lparr>tmplCount := tmplCount s - 1\<rparr> else s)
      in updateCurrentElement (s1\<lparr>stackTop := stackTop s1 - 1\<rparr>))"

definition replace :: "addr \<Rightarrow> addr \<Rightarrow> open_elements \<Rightarrow> open_elements" where
  "replace e t s =
     (let n = stack_indexOf e s; s1 = s\<lparr>items := array_set n t (items s)\<rparr>
      in if n = stackTop s then s1\<lparr>current := Some t\<rparr> else s1)"

definition insertAfter :: "addr \<Rightarrow> addr \<Rightarrow> nat \<Rightarrow> open_elements \<Rightarrow> open_elements" where
  "insertAfter e t n s =
     (let r = stack_indexOf e s + 1;
          s1 = s\<lparr>items := splice_insert r t (items s), tagIDs := splice_insert r n (tagIDs s),
                 stackTop := stackTop s + 1\<rparr>
      in if r = stackTop s1 then updateCurrentElement s1 else s1)"

text \<open>\<open>shortenToLength\<close> is called with indices, which are not negative.\<close>

function shortenToLength :: "heap \<Rightarrow> nat \<Rightarrow> open_elements \<Rightarrow> open_elements" where
  "shortenToLength h n s = (if stackTop s \<ge> int n then shortenToLength h n (pop h s) else s)"
  by pat_completeness auto
termination
  by (relation "measure (\<lambda>(h, n, s). nat (stackTop s + 1))") (auto simp: pop_def updateCurrentElement_def Let_def)

declare shortenToLength.simps [simp del]

text \<open>The loop of \<open>popUntilTagNamePopped\<close> after its first round.\<close>

function html_index_from :: "heap \<Rightarrow> open_elements \<Rightarrow> nat \<Rightarrow> int \<Rightarrow> int" where
  "html_index_from h s t k =
     (if k > 0 \<and> ns_at h s (nat k) \<noteq> Some NS_HTML
      then html_index_from h s t (lastIndexOf (tagIDs s) t (k - 1)) else k)"
  by pat_completeness auto

lemma search_down_less: "search_down P n < int n"
  by (induction n) auto

lemma lastIndexOf_below: "0 \<le> from \<Longrightarrow> lastIndexOf xs x from \<le> from"
  using search_down_less [of "\<lambda>i. xs ! i = x" "Suc (nat (min from (int (length xs) - 1)))"]
  by (auto simp: lastIndexOf_def Let_def)

termination html_index_from
proof (relation "measure (\<lambda>(h, s, t, k). nat k)")
  fix h s t and k :: int
  assume "0 < k \<and> ns_at h s (nat k) \<noteq> Some NS_HTML"
  then show "((h, s, t, lastIndexOf (tagIDs s) t (k - 1)), h, s, t, k) \<in> measure (\<lambda>(h, s, t, k). nat k)"
    using lastIndexOf_below [of "k - 1" "tagIDs s" t] by simp
qed simp

declare html_index_from.simps [simp del]

definition popUntilTagNamePopped :: "heap \<Rightarrow> nat \<Rightarrow> open_elements \<Rightarrow> open_elements" where
  "popUntilTagNamePopped h t s =
     (let k = html_index_from h s t (lastIndexOf (tagIDs s) t (stackTop s))
      in shortenToLength h (nat k) s)"

definition popUntilElementPopped :: "heap \<Rightarrow> addr \<Rightarrow> open_elements \<Rightarrow> open_elements" where
  "popUntilElementPopped h e s = shortenToLength h (nat (stack_indexOf e s)) s"

definition indexOfTagNames :: "heap \<Rightarrow> nat list \<Rightarrow> namespace \<Rightarrow> open_elements \<Rightarrow> int" where
  "indexOfTagNames h ts ns s =
     search_down (\<lambda>i. tagIDs s ! i \<in> set ts \<and> ns_at h s i = Some ns) (nat (stackTop s + 1))"

definition popUntilPopped :: "heap \<Rightarrow> nat list \<Rightarrow> namespace \<Rightarrow> open_elements \<Rightarrow> open_elements" where
  "popUntilPopped h ts ns s = shortenToLength h (nat (indexOfTagNames h ts ns s)) s"

definition popUntilNumberedHeaderPopped :: "heap \<Rightarrow> open_elements \<Rightarrow> open_elements" where
  "popUntilNumberedHeaderPopped h s = popUntilPopped h numbered_headers NS_HTML s"

definition popUntilTableCellPopped :: "heap \<Rightarrow> open_elements \<Rightarrow> open_elements" where
  "popUntilTableCellPopped h s = popUntilPopped h table_cells NS_HTML s"

definition popAllUpToHtmlElement :: "heap \<Rightarrow> open_elements \<Rightarrow> open_elements" where
  "popAllUpToHtmlElement h s = shortenToLength h 1 (s\<lparr>tmplCount := 0\<rparr>)"

definition clearBackTo :: "heap \<Rightarrow> nat list \<Rightarrow> namespace \<Rightarrow> open_elements \<Rightarrow> open_elements" where
  "clearBackTo h ts ns s = shortenToLength h (nat (indexOfTagNames h ts ns s + 1)) s"

definition clearBackToTableContext :: "heap \<Rightarrow> open_elements \<Rightarrow> open_elements" where
  "clearBackToTableContext h s = clearBackTo h table_context NS_HTML s"

definition clearBackToTableBodyContext :: "heap \<Rightarrow> open_elements \<Rightarrow> open_elements" where
  "clearBackToTableBodyContext h s = clearBackTo h table_body_context NS_HTML s"

definition clearBackToTableRowContext :: "heap \<Rightarrow> open_elements \<Rightarrow> open_elements" where
  "clearBackToTableRowContext h s = clearBackTo h table_row_context NS_HTML s"

definition remove :: "heap \<Rightarrow> addr \<Rightarrow> open_elements \<Rightarrow> open_elements" where
  "remove h e s =
     (let t = stack_indexOf e s in
      if t < 0 then s
      else if t = stackTop s then pop h s
      else updateCurrentElement (s\<lparr>items := splice_remove t (items s), tagIDs := splice_remove t (tagIDs s),
             stackTop := stackTop s - 1\<rparr>))"

definition tryPeekProperlyNestedBodyElement :: "open_elements \<Rightarrow> addr option" where
  "tryPeekProperlyNestedBodyElement s =
     (if stackTop s \<ge> 1 \<and> array_get (tagIDs s) 1 = Some T_BODY then array_get (items s) 1 else None)"

definition contains :: "addr \<Rightarrow> open_elements \<Rightarrow> bool" where
  "contains e s \<longleftrightarrow> stack_indexOf e s > -1"

definition getCommonAncestor :: "addr \<Rightarrow> open_elements \<Rightarrow> addr option" where
  "getCommonAncestor e s = array_get (items s) (stack_indexOf e s - 1)"

definition isRootHtmlElementCurrent :: "open_elements \<Rightarrow> bool" where
  "isRootHtmlElementCurrent s \<longleftrightarrow> stackTop s = 0 \<and> array_get (tagIDs s) 0 = Some T_HTML"

section \<open>Scopes\<close>

text \<open>
  The loops over the stack from its top: the first entry that decides, and \<open>true\<close> at the bottom.
\<close>

fun scan :: "(nat \<Rightarrow> bool option) \<Rightarrow> nat \<Rightarrow> bool" where
  "scan f 0 = True"
| "scan f (Suc n) = (case f n of Some b \<Rightarrow> b | None \<Rightarrow> scan f n)"

definition scan_stack :: "heap \<Rightarrow> (nat \<Rightarrow> namespace option \<Rightarrow> bool option) \<Rightarrow> open_elements \<Rightarrow> bool" where
  "scan_stack h f s = scan (\<lambda>i. f (tagIDs s ! i) (ns_at h s i)) (nat (stackTop s + 1))"

definition hasInScope :: "heap \<Rightarrow> nat \<Rightarrow> open_elements \<Rightarrow> bool" where
  "hasInScope h e = scan_stack h (\<lambda>n r.
     if n = e \<and> r = Some NS_HTML then Some True
     else if map_of scoping_elements n = r then Some False else None)"

definition hasNumberedHeaderInScope :: "heap \<Rightarrow> open_elements \<Rightarrow> bool" where
  "hasNumberedHeaderInScope h = scan_stack h (\<lambda>n r.
     if isNumberedHeader n \<and> r = Some NS_HTML then Some True
     else if map_of scoping_elements n = r then Some False else None)"

definition hasInListItemScope :: "heap \<Rightarrow> nat \<Rightarrow> open_elements \<Rightarrow> bool" where
  "hasInListItemScope h e = scan_stack h (\<lambda>n r.
     if n = e \<and> r = Some NS_HTML then Some True
     else if (n = T_UL \<or> n = T_OL) \<and> r = Some NS_HTML \<or> map_of scoping_elements n = r then Some False
     else None)"

definition hasInButtonScope :: "heap \<Rightarrow> nat \<Rightarrow> open_elements \<Rightarrow> bool" where
  "hasInButtonScope h e = scan_stack h (\<lambda>n r.
     if n = e \<and> r = Some NS_HTML then Some True
     else if n = T_BUTTON \<and> r = Some NS_HTML \<or> map_of scoping_elements n = r then Some False
     else None)"

definition hasInTableScope :: "heap \<Rightarrow> nat \<Rightarrow> open_elements \<Rightarrow> bool" where
  "hasInTableScope h e = scan_stack h (\<lambda>n r.
     if r \<noteq> Some NS_HTML then None
     else if n = e then Some True
     else if n = T_TABLE \<or> n = T_TEMPLATE \<or> n = T_HTML then Some False else None)"

definition hasTableBodyContextInTableScope :: "heap \<Rightarrow> open_elements \<Rightarrow> bool" where
  "hasTableBodyContextInTableScope h = scan_stack h (\<lambda>n r.
     if r \<noteq> Some NS_HTML then None
     else if n = T_TBODY \<or> n = T_THEAD \<or> n = T_TFOOT then Some True
     else if n = T_TABLE \<or> n = T_HTML then Some False else None)"

definition hasInSelectScope :: "heap \<Rightarrow> nat \<Rightarrow> open_elements \<Rightarrow> bool" where
  "hasInSelectScope h e = scan_stack h (\<lambda>n r.
     if r \<noteq> Some NS_HTML then None
     else if n = e then Some True
     else if n \<noteq> T_OPTION \<and> n \<noteq> T_OPTGROUP then Some False else None)"

section \<open>Implied end tags\<close>

text \<open>
  The loops pop while the current tag id is in a set. An empty stack has no current tag id (or the
  id \<open>UNKNOWN\<close> before the first element), so the test \<open>0 \<le> stackTop\<close> changes nothing; it shows that
  the loop ends.
\<close>

function pop_while :: "heap \<Rightarrow> (nat \<Rightarrow> bool) \<Rightarrow> open_elements \<Rightarrow> open_elements" where
  "pop_while h P s =
     (if 0 \<le> stackTop s \<and> (case currentTagId s of Some t \<Rightarrow> P t | None \<Rightarrow> False)
      then pop_while h P (pop h s) else s)"
  by pat_completeness auto
termination
  by (relation "measure (\<lambda>(h, P, s). nat (stackTop s + 1))") (auto simp: pop_def updateCurrentElement_def Let_def)

declare pop_while.simps [simp del]

definition generateImpliedEndTags :: "heap \<Rightarrow> open_elements \<Rightarrow> open_elements" where
  "generateImpliedEndTags h s = pop_while h (\<lambda>t. t \<in> set implied_end_tags) s"

definition generateImpliedEndTagsThoroughly :: "heap \<Rightarrow> open_elements \<Rightarrow> open_elements" where
  "generateImpliedEndTagsThoroughly h s = pop_while h (\<lambda>t. t \<in> set implied_end_tags_thoroughly) s"

definition generateImpliedEndTagsWithExclusion :: "heap \<Rightarrow> nat \<Rightarrow> open_elements \<Rightarrow> open_elements" where
  "generateImpliedEndTagsWithExclusion h e s =
     pop_while h (\<lambda>t. t \<noteq> e \<and> t \<in> set implied_end_tags_thoroughly) s"

end
