(* ===== verification/Html_Stack_Sound.thy ===== *)
theory Html_Stack_Sound
  imports Html_Open_Elements
begin

text \<open>
  The stack of open elements implements a list. The contract of a stack is a locale whose laws the
  two arrays and the index of \<open>jg\<close> satisfy; the loops that pop are described by it, and the searches
  for an element in scope are searches in the list.
\<close>

section \<open>The contract of a stack\<close>

locale pop_stack =
  fixes view :: "'s \<Rightarrow> 'x list" and ok :: "'s \<Rightarrow> bool" and add :: "'x \<Rightarrow> 's \<Rightarrow> 's" and drop_top :: "'s \<Rightarrow> 's"
    and top :: "'s \<Rightarrow> 'x option"
  assumes add_view: "ok s \<Longrightarrow> view (add x s) = view s @ [x]"
    and add_ok: "ok s \<Longrightarrow> ok (add x s)"
    and drop_view: "ok s \<Longrightarrow> view s \<noteq> [] \<Longrightarrow> view (drop_top s) = butlast (view s)"
    and drop_ok: "ok s \<Longrightarrow> view s \<noteq> [] \<Longrightarrow> ok (drop_top s)"
    and top_view: "ok s \<Longrightarrow> view s \<noteq> [] \<Longrightarrow> top s = Some (last (view s))"
begin

lemma drop_after_add: "ok s \<Longrightarrow> view (drop_top (add x s)) = view s"
  by (simp add: drop_view add_view add_ok)

lemma top_after_add: "ok s \<Longrightarrow> top (add x s) = Some x"
  by (simp add: top_view add_view add_ok)

lemma drops: "ok s \<Longrightarrow> k \<le> length (view s) \<Longrightarrow>
    ok ((drop_top ^^ k) s) \<and> view ((drop_top ^^ k) s) = take (length (view s) - k) (view s)"
proof (induction k)
  case (Suc k)
  let ?t = "(drop_top ^^ k) s"
  have t: "ok ?t" "view ?t = take (length (view s) - k) (view s)" using Suc by auto
  moreover have "view ?t \<noteq> []" using t(2) Suc.prems(2) by auto
  ultimately have "ok (drop_top ?t)" "view (drop_top ?t) = butlast (take (length (view s) - k) (view s))"
    using drop_ok drop_view by auto
  then show ?case using Suc.prems(2) by (simp add: butlast_take)
qed simp

text \<open>Popping while the top has a property leaves the longest prefix whose last element has it not.\<close>

lemma drop_while:
  assumes "\<And>s. ok s \<Longrightarrow> f s = (if view s \<noteq> [] \<and> P (last (view s)) then f (drop_top s) else s)" and "ok s"
  shows "ok (f s) \<and> view (f s) = rev (dropWhile P (rev (view s)))"
  using assms(2)
proof (induction "length (view s)" arbitrary: s)
  case 0
  then show ?case using assms(1) [of s] by simp
next
  case (Suc n)
  have v: "view s \<noteq> []" using Suc.hyps(2) by auto
  then have r: "rev (view s) = last (view s) # rev (butlast (view s))"
    by (metis append_butlast_last_id rev_eq_Cons_iff rev_rev_ident)
  show ?case
  proof (cases "P (last (view s))")
    case True
    have "ok (f (drop_top s)) \<and> view (f (drop_top s)) = rev (dropWhile P (rev (view (drop_top s))))"
      using Suc.hyps(2) Suc.prems v by (intro Suc.hyps(1)) (simp_all add: drop_view drop_ok)
    then show ?thesis using True v Suc.prems assms(1) [of s] by (simp add: r drop_view)
  next
    case False
    then show ?thesis using v Suc.prems assms(1) [of s] by (simp add: r)
  qed
qed

end

section \<open>The list behind the arrays\<close>

definition view :: "open_elements \<Rightarrow> (addr \<times> nat) list" where
  "view s = (let n = nat (stackTop s + 1) in zip (take n (items s)) (take n (tagIDs s)))"

definition is_template :: "heap \<Rightarrow> addr \<times> nat \<Rightarrow> bool" where
  "is_template h x \<longleftrightarrow> snd x = T_TEMPLATE \<and> getNamespaceURI h (fst x) = Some NS_HTML"

definition stack_ok :: "heap \<Rightarrow> open_elements \<Rightarrow> bool" where
  "stack_ok h s \<longleftrightarrow> -1 \<le> stackTop s \<and> stackTop s < int (length (items s)) \<and> stackTop s < int (length (tagIDs s)) \<and>
     (0 \<le> stackTop s \<longrightarrow> current s = Some (items s ! nat (stackTop s)) \<and> currentTagId s = Some (tagIDs s ! nat (stackTop s))) \<and>
     tmplCount s = length (filter (is_template h) (view s))"

lemma view_length: "stack_ok h s \<Longrightarrow> length (view s) = nat (stackTop s + 1)"
  by (auto simp: stack_ok_def view_def Let_def)

lemma view_empty: "stack_ok h s \<Longrightarrow> view s = [] \<longleftrightarrow> stackTop s = -1"
  using view_length [of h s] by (auto simp: stack_ok_def)

lemma view_nth:
  "stack_ok h s \<Longrightarrow> int i \<le> stackTop s \<Longrightarrow> view s ! i = (items s ! i, tagIDs s ! i)"
  by (auto simp: stack_ok_def view_def Let_def)

lemma view_last:
  assumes "stack_ok h s" and "view s \<noteq> []"
  shows "current s = Some (fst (last (view s))) \<and> currentTagId s = Some (snd (last (view s)))"
proof -
  have "0 \<le> stackTop s" using assms view_empty [OF assms(1)] by (auto simp: stack_ok_def)
  then show ?thesis
    using assms view_length [OF assms(1)] view_nth [OF assms(1), of "nat (stackTop s)"]
    by (simp add: last_conv_nth stack_ok_def nat_add_distrib)
qed

lemma in_template:
  "stack_ok h s \<Longrightarrow> view s \<noteq> [] \<Longrightarrow> isInTemplate h s \<longleftrightarrow> is_template h (last (view s))"
  using view_last [of h s] by (auto simp: isInTemplate_def is_template_def)

lemma take_array_set: "k \<le> length xs \<Longrightarrow> take (Suc k) (array_set (int k) x xs) = take k xs @ [x]"
  by (auto simp: array_set_def take_Suc_conv_app_nth)

lemma length_array_set: "0 \<le> k \<Longrightarrow> k \<le> int (length xs) \<Longrightarrow> k < int (length (array_set k x xs))"
  by (auto simp: array_set_def)

lemma push_view:
  assumes "stack_ok h s"
  shows "view (push h e t s) = view s @ [(e, t)]"
proof -
  obtain k where k: "stackTop s + 1 = int k" using assms by (metis stack_ok_def add.commute diff_ge_0_iff_ge
        diff_minus_eq_add zero_le_imp_eq_int)
  then have l: "k \<le> length (items s)" "k \<le> length (tagIDs s)" using assms by (auto simp: stack_ok_def)
  have "view (push h e t s) = zip (take (Suc k) (array_set (int k) e (items s))) (take (Suc k) (array_set (int k) t (tagIDs s)))"
    using k by (simp add: view_def push_def Let_def isInTemplate_def nat_add_distrib)
  then show ?thesis using l by (simp add: take_array_set view_def k Let_def)
qed

lemma push_ok:
  assumes "stack_ok h s"
  shows "stack_ok h (push h e t s)"
proof -
  let ?k = "stackTop s + 1"
  have b: "0 \<le> ?k" "?k \<le> int (length (items s))" "?k \<le> int (length (tagIDs s))"
    and c: "tmplCount s = length (filter (is_template h) (view s))" using assms by (auto simp: stack_ok_def)
  have top: "stackTop (push h e t s) = ?k" "items (push h e t s) = array_set ?k e (items s)"
      "tagIDs (push h e t s) = array_set ?k t (tagIDs s)" "current (push h e t s) = Some e" "currentTagId (push h e t s) = Some t"
      "tmplCount (push h e t s) = (if is_template h (e, t) then tmplCount s + 1 else tmplCount s)"
    by (auto simp: push_def Let_def isInTemplate_def is_template_def)
  have "array_set ?k e (items s) ! nat ?k = e" "array_set ?k t (tagIDs s) ! nat ?k = t"
    using b by (auto simp: array_set_def nth_append)
  then show ?thesis using b c push_view [OF assms, of e t]
    by (simp add: stack_ok_def top length_array_set)
qed

lemma pop_frame:
  "stackTop (pop h s) = stackTop s - 1" "items (pop h s) = items s" "tagIDs (pop h s) = tagIDs s"
  "current (pop h s) = array_get (items s) (stackTop s - 1)" "currentTagId (pop h s) = array_get (tagIDs s) (stackTop s - 1)"
  "tmplCount (pop h s) = (if tmplCount s > 0 \<and> isInTemplate h s then tmplCount s - 1 else tmplCount s)"
  by (simp_all add: pop_def updateCurrentElement_def Let_def)

lemma pop_view:
  assumes "stack_ok h s" and "view s \<noteq> []"
  shows "view (pop h s) = butlast (view s)"
proof -
  have t: "0 \<le> stackTop s" using assms view_empty [OF assms(1)] by (auto simp: stack_ok_def)
  then have n: "nat (stackTop s + 1) = Suc (nat (stackTop s))" by simp
  have "view (pop h s) = take (nat (stackTop s)) (view s)"
    using t by (simp add: view_def pop_frame Let_def take_zip n min_def)
  then show ?thesis using view_length [OF assms(1)] n by (simp add: butlast_conv_take)
qed

lemma pop_ok:
  assumes "stack_ok h s" and "view s \<noteq> []"
  shows "stack_ok h (pop h s)"
proof -
  have t: "0 \<le> stackTop s" using assms view_empty [OF assms(1)] by (auto simp: stack_ok_def)
  obtain xs x where v: "view s = xs @ [x]" using assms(2) rev_exhaust by blast
  have "tmplCount (pop h s) = length (filter (is_template h) (view (pop h s)))"
    using assms in_template [OF assms] by (simp add: pop_frame pop_view stack_ok_def v)
  then show ?thesis using assms(1) t by (auto simp: stack_ok_def pop_frame array_get_def)
qed

definition stack_top :: "open_elements \<Rightarrow> (addr \<times> nat) option" where
  "stack_top s = (case (current s, currentTagId s) of (Some e, Some t) \<Rightarrow> Some (e, t) | _ \<Rightarrow> None)"

interpretation oe: pop_stack view "stack_ok h" "\<lambda>x. push h (fst x) (snd x)" "pop h" stack_top for h
proof
  fix s assume "stack_ok h s" "view s \<noteq> []"
  then show "view (pop h s) = butlast (view s)" "stack_ok h (pop h s)" "stack_top s = Some (last (view s))"
    using pop_view pop_ok view_last by (auto simp: stack_top_def)
qed (simp_all add: push_view push_ok)

section \<open>Popping loops\<close>

lemma shorten_pops: "shortenToLength h n s = (pop h ^^ nat (stackTop s + 1 - int n)) s"
proof (induction "nat (stackTop s + 1 - int n)" arbitrary: s)
  case 0
  then show ?case by (simp add: shortenToLength.simps [of h n s])
next
  case (Suc k)
  then have k: "k = nat (stackTop (pop h s) + 1 - int n)" by (simp add: pop_frame)
  have "shortenToLength h n (pop h s) = (pop h ^^ k) (pop h s)" using Suc(1) [OF k] by (simp only: k [symmetric])
  moreover have "stackTop s \<ge> int n" using Suc(2) by linarith
  ultimately show ?case unfolding Suc(2) [symmetric] by (simp add: shortenToLength.simps [of h n s] funpow_swap1)
qed

lemma shorten_view:
  assumes "stack_ok h s"
  shows "stack_ok h (shortenToLength h n s)" and "view (shortenToLength h n s) = take n (view s)"
proof -
  have l: "int (length (view s)) = stackTop s + 1" using view_length [OF assms] assms by (simp add: stack_ok_def)
  have "nat (stackTop s + 1 - int n) = length (view s) - n" using l by simp
  then have *: "shortenToLength h n s = (pop h ^^ (length (view s) - n)) s" by (simp add: shorten_pops)
  show "stack_ok h (shortenToLength h n s)" "view (shortenToLength h n s) = take n (view s)"
    using oe.drops [OF assms, of "length (view s) - n"] by (cases "n \<le> length (view s)"; simp add: *)+
qed

lemma pop_while_view:
  assumes "stack_ok h s"
  shows "stack_ok h (pop_while h P s)"
    and "view (pop_while h P s) = rev (dropWhile (\<lambda>x. P (snd x)) (rev (view s)))"
proof -
  have "pop_while h P u = (if view u \<noteq> [] \<and> P (snd (last (view u))) then pop_while h P (pop h u) else u)"
    if "stack_ok h u" for u
    using that view_last [OF that] view_empty [OF that]
    by (subst pop_while.simps) (auto simp: stack_ok_def)
  then show "stack_ok h (pop_while h P s)"
    and "view (pop_while h P s) = rev (dropWhile (\<lambda>x. P (snd x)) (rev (view s)))"
    using oe.drop_while [of h "pop_while h P" "\<lambda>x. P (snd x)" s] assms by blast+
qed

section \<open>Searching from the top\<close>

lemma search_down_list:
  "(\<And>i. i < length xs \<Longrightarrow> P i \<longleftrightarrow> Q (xs ! i)) \<Longrightarrow>
     -1 \<le> search_down P (length xs) \<and>
     take (nat (search_down P (length xs) + 1)) xs = rev (dropWhile (\<lambda>x. \<not> Q x) (rev xs)) \<and>
     take (nat (search_down P (length xs))) xs = rev (tl (dropWhile (\<lambda>x. \<not> Q x) (rev xs)))"
proof (induction xs rule: rev_induct)
  case (snoc x xs)
  have l: "search_down P (length xs) < int (length xs)" by (rule search_down_less)
  have q: "i < length xs \<Longrightarrow> P i \<longleftrightarrow> Q (xs ! i)" for i using snoc.prems [of i] by (simp add: nth_append)
  have p: "P (length xs) \<longleftrightarrow> Q x" using snoc.prems [of "length xs"] by (simp add: nth_append)
  show ?case
  proof (cases "Q x")
    case True
    then show ?thesis using p by (simp add: nat_add_distrib)
  next
    case False
    then show ?thesis using p l snoc.IH [OF q] by (simp add: nat_le_iff)
  qed
qed simp

definition matches :: "heap \<Rightarrow> nat list \<Rightarrow> namespace \<Rightarrow> addr \<times> nat \<Rightarrow> bool" where
  "matches h ts ns x \<longleftrightarrow> snd x \<in> set ts \<and> getNamespaceURI h (fst x) = Some ns"

lemma matches_at:
  assumes "stack_ok h s" and "i < length (view s)"
  shows "tagIDs s ! i \<in> set ts \<and> ns_at h s i = Some ns \<longleftrightarrow> matches h ts ns (view s ! i)"
  using assms view_length [OF assms(1)] view_nth [OF assms(1), of i] by (auto simp: matches_def ns_at_def)

lemma index_of_names_view:
  assumes "stack_ok h s"
  shows "take (nat (indexOfTagNames h ts ns s + 1)) (view s) = rev (dropWhile (\<lambda>x. \<not> matches h ts ns x) (rev (view s)))"
    and "take (nat (indexOfTagNames h ts ns s)) (view s) = rev (tl (dropWhile (\<lambda>x. \<not> matches h ts ns x) (rev (view s))))"
  using search_down_list [of "view s" "\<lambda>i. tagIDs s ! i \<in> set ts \<and> ns_at h s i = Some ns" "matches h ts ns"]
    matches_at [OF assms] by (auto simp: indexOfTagNames_def view_length [OF assms])

lemma pop_until_view:
  assumes "stack_ok h s"
  shows "view (popUntilPopped h ts ns s) = rev (tl (dropWhile (\<lambda>x. \<not> matches h ts ns x) (rev (view s))))"
    and "view (clearBackTo h ts ns s) = rev (dropWhile (\<lambda>x. \<not> matches h ts ns x) (rev (view s)))"
  using index_of_names_view [OF assms, of ts ns]
  by (simp_all add: popUntilPopped_def clearBackTo_def shorten_view [OF assms])

text \<open>\<open>popUntilTagNamePopped\<close> jumps from one element with the tag id to the next; index 0 ends the search.\<close>

lemma search_down_conj:
  "search_down (\<lambda>i. P i \<and> R i) n =
     (if 0 \<le> search_down P n \<and> \<not> R (nat (search_down P n)) then search_down (\<lambda>i. P i \<and> R i) (nat (search_down P n))
      else search_down P n)"
  by (induction n) (auto simp: search_down_less)

lemma html_index_search:
  assumes "stack_ok h s" and "j \<le> length (view s)"
  shows "nat (html_index_from h s t (search_down (\<lambda>i. tagIDs s ! i = t) j)) =
     nat (search_down (\<lambda>i. tagIDs s ! i = t \<and> ns_at h s i = Some NS_HTML) j)"
  using assms(2)
proof (induction j rule: less_induct)
  case (less j)
  let ?P = "\<lambda>i. tagIDs s ! i = t" and ?R = "\<lambda>i. ns_at h s i = Some NS_HTML"
  let ?k = "search_down ?P j"
  have kj: "?k < int j" by (rule search_down_less)
  show ?case
  proof (cases "0 < ?k \<and> \<not> ?R (nat ?k)")
    case True
    have "length (view s) \<le> length (tagIDs s)" using assms(1) view_length [OF assms(1)] by (auto simp: stack_ok_def)
    then have "lastIndexOf (tagIDs s) t (?k - 1) = search_down ?P (nat ?k)"
      using True kj less.prems by (simp add: lastIndexOf_def Let_def min_def nat_diff_distrib)
    then have "html_index_from h s t ?k = html_index_from h s t (search_down ?P (nat ?k))"
      using True by (simp add: html_index_from.simps [of h s t ?k])
    moreover have "nat ?k < j" using kj True by linarith
    ultimately show ?thesis using less.IH [of "nat ?k"] less.prems search_down_conj [of ?P ?R j] True by simp
  next
    case False
    then have "html_index_from h s t ?k = ?k" by (subst html_index_from.simps) auto
    moreover have "search_down (\<lambda>i. ?P i \<and> ?R i) 0 = -1" by simp
    ultimately show ?thesis using search_down_conj [of ?P ?R j] False
      by (cases "?k = 0") auto
  qed
qed

lemma last_index_view:
  assumes "stack_ok h s" and "view s \<noteq> []" and "length (view s) \<le> length xs"
  shows "lastIndexOf xs x (stackTop s) = search_down (\<lambda>i. xs ! i = x) (length (view s))"
proof -
  have t: "0 \<le> stackTop s" using assms(1,2) view_empty [OF assms(1)] by (auto simp: stack_ok_def)
  moreover have "stackTop s < int (length xs)" using assms(3) view_length [OF assms(1)] t by linarith
  moreover have "Suc (nat (stackTop s)) = length (view s)" using view_length [OF assms(1)] t by simp
  ultimately show ?thesis by (simp add: lastIndexOf_def Let_def min_def)
qed

lemma array_lengths:
  "stack_ok h s \<Longrightarrow> length (view s) \<le> length (items s) \<and> length (view s) \<le> length (tagIDs s)"
  using view_length [of h s] by (auto simp: stack_ok_def)

lemma pop_until_tag_view:
  assumes "stack_ok h s" and "view s \<noteq> []"
  shows "view (popUntilTagNamePopped h t s) = rev (tl (dropWhile (\<lambda>x. \<not> matches h [t] NS_HTML x) (rev (view s))))"
proof -
  let ?k = "html_index_from h s t (lastIndexOf (tagIDs s) t (stackTop s))"
  have "nat ?k = nat (search_down (\<lambda>i. tagIDs s ! i = t \<and> ns_at h s i = Some NS_HTML) (length (view s)))"
    using html_index_search [OF assms(1) order_refl, of t] array_lengths [OF assms(1)]
    by (simp add: last_index_view [OF assms])
  also have "\<dots> = nat (indexOfTagNames h [t] NS_HTML s)"
    using view_length [OF assms(1)] by (simp add: indexOfTagNames_def)
  finally show ?thesis
    using index_of_names_view(2) [OF assms(1), of "[t]" NS_HTML]
    by (simp add: popUntilTagNamePopped_def shorten_view [OF assms(1)])
qed

section \<open>Elements in the middle\<close>

lemma stack_index_view:
  assumes "stack_ok h s" and "view s \<noteq> []"
  shows "stack_indexOf e s = search_down (\<lambda>i. fst (view s ! i) = e) (length (view s))"
proof -
  have "search_down (\<lambda>i. items s ! i = e) n = search_down (\<lambda>i. fst (view s ! i) = e) n" if "n \<le> length (view s)" for n
    using that
  proof (induction n)
    case (Suc n)
    then have "int n \<le> stackTop s" using view_length [OF assms(1)] by linarith
    then show ?case using Suc view_nth [OF assms(1), of n] by simp
  qed simp
  then show ?thesis
    using last_index_view [OF assms, of "items s" e] array_lengths [OF assms(1)] by (simp add: stack_indexOf_def)
qed

lemma search_down_found: "search_down P n = -1 \<and> (\<forall>i < n. \<not> P i) \<or> (\<exists>i < n. search_down P n = int i \<and> P i)"
  by (induction n) (auto simp: less_Suc_eq)

lemma in_keys_nth: "e \<in> fst ` set xs \<longleftrightarrow> (\<exists>i < length xs. fst (xs ! i) = e)"
proof
  assume "e \<in> fst ` set xs"
  then obtain x where "x \<in> set xs" "e = fst x" by blast
  then show "\<exists>i < length xs. fst (xs ! i) = e" by (auto simp only: in_set_conv_nth)
qed (use nth_mem in force)

lemma contains_view:
  assumes "stack_ok h s" and "view s \<noteq> []"
  shows "contains e s \<longleftrightarrow> e \<in> fst ` set (view s)"
  using search_down_found [of "\<lambda>i. fst (view s ! i) = e" "length (view s)"] stack_index_view [OF assms, of e]
  unfolding contains_def in_keys_nth by auto

lemma take_splice_remove:
  "k < n \<Longrightarrow> n \<le> length xs \<Longrightarrow> take (n - 1) (splice_remove (int k) xs) = take k xs @ drop (Suc k) (take n xs)"
proof -
  assume k: "k < n" "n \<le> length xs"
  then have "n - 1 \<le> k \<Longrightarrow> n = Suc k" by linarith
  then show ?thesis using k by (cases "n - 1 \<le> k") (auto simp: splice_remove_def splice_at_def Let_def min_def drop_take)
qed

lemma zip_without:
  assumes "i < n" and "n \<le> length xs" and "n \<le> length ys"
  shows "zip (take i xs @ drop (Suc i) (take n xs)) (take i ys @ drop (Suc i) (take n ys)) =
     take i (zip (take n xs) (take n ys)) @ drop (Suc i) (zip (take n xs) (take n ys))"
proof -
  have "take i (zip (take n xs) (take n ys)) = zip (take i xs) (take i ys)" using assms(1) by (simp add: take_zip min_def)
  then show ?thesis using assms by (simp add: zip_append drop_zip)
qed

lemma remove_view:
  assumes "stack_ok h s" and "view s \<noteq> []" and "distinct (map fst (view s))"
  shows "view (remove h e s) = filter (\<lambda>x. fst x \<noteq> e) (view s)"
proof -
  let ?n = "length (view s)"
  have top: "stackTop s = int ?n - 1" using view_length [OF assms(1)] assms(1) by (simp add: stack_ok_def)
  consider "stack_indexOf e s = -1" "\<forall>i < ?n. fst (view s ! i) \<noteq> e"
    | i where "i < ?n" "stack_indexOf e s = int i" "fst (view s ! i) = e"
    using search_down_found [of "\<lambda>i. fst (view s ! i) = e" ?n] stack_index_view [OF assms(1,2), of e] by auto
  then show ?thesis
  proof cases
    case 1
    then have "filter (\<lambda>x. fst x \<noteq> e) (view s) = view s"
      by (auto simp: filter_id_conv in_set_conv_nth) (metis fst_conv)
    then show ?thesis using 1 by (simp add: remove_def)
  next
    case (2 i)
    have v: "view s = take i (view s) @ view s ! i # drop (Suc i) (view s)" by (rule id_take_nth_drop [OF 2(1)])
    have d: "e \<notin> fst ` set (take i (view s))" "e \<notin> fst ` set (drop (Suc i) (view s))"
      using assms(3) 2(3) by (subst (asm) v, simp add: image_iff)+
    then have f: "filter (\<lambda>x. fst x \<noteq> e) (view s) = take i (view s) @ drop (Suc i) (view s)"
      using 2(3) by (subst v) (auto simp: image_iff intro!: arg_cong2 [where f = append] filter_True)
    show ?thesis
    proof (cases "int i = stackTop s")
      case True
      then have i: "i = ?n - 1" using top by simp
      then have "view (remove h e s) = butlast (view s)" using True 2(2) pop_view [OF assms(1,2)] by (simp add: remove_def)
      then show ?thesis using f i by (simp add: butlast_conv_take)
    next
      case False
      define n where "n = length (view s)"
      have z: "view s = zip (take n (items s)) (take n (tagIDs s))"
        using view_length [OF assms(1)] by (simp add: view_def Let_def n_def)
      have l: "i < n" "n \<le> length (items s)" "n \<le> length (tagIDs s)" "stackTop s = int n - 1"
        using 2(1) array_lengths [OF assms(1)] top by (simp_all add: n_def)
      have "view (remove h e s) = zip (take (n - 1) (splice_remove (int i) (items s))) (take (n - 1) (splice_remove (int i) (tagIDs s)))"
        using False 2(2) l by (simp add: remove_def view_def updateCurrentElement_def Let_def nat_diff_distrib)
      also have "\<dots> = take i (view s) @ drop (Suc i) (view s)"
        using l zip_without [OF l(1-3)] by (simp only: take_splice_remove z)
      finally show ?thesis using f by simp
    qed
  qed
qed

section \<open>Scopes\<close>

text \<open>
  An element is in scope when every element that bounds the scope has an element that is looked for
  above it.
\<close>

definition in_scope :: "('x \<Rightarrow> bool) \<Rightarrow> ('x \<Rightarrow> bool) \<Rightarrow> 'x list \<Rightarrow> bool" where
  "in_scope target bound xs \<longleftrightarrow>
     (\<forall>i < length xs. bound (xs ! i) \<and> \<not> target (xs ! i) \<longrightarrow> (\<exists>j < length xs. i < j \<and> target (xs ! j)))"

lemma in_scope_snoc:
  "in_scope target bound (xs @ [x]) \<longleftrightarrow> target x \<or> \<not> bound x \<and> in_scope target bound xs"
proof (cases "target x")
  case True
  then show ?thesis by (auto simp: in_scope_def nth_append intro!: exI [of _ "length xs"])
next
  case False
  have "in_scope target bound (xs @ [x]) \<longleftrightarrow> \<not> bound x \<and> in_scope target bound xs"
    using False by (auto simp: in_scope_def nth_append all_conj_distrib less_Suc_eq)
  then show ?thesis using False by simp
qed

lemma scan_scope:
  assumes "\<And>i. i < length xs \<Longrightarrow> f i = (if target (xs ! i) then Some True else if bound (xs ! i) then Some False else None)"
  shows "scan f (length xs) \<longleftrightarrow> in_scope target bound xs"
  using assms
proof (induction xs rule: rev_induct)
  case (snoc x xs)
  have "scan f (length xs) \<longleftrightarrow> in_scope target bound xs" using snoc.prems by (intro snoc.IH) (simp add: nth_append)
  then show ?case using snoc.prems [of "length xs"] by (simp add: in_scope_snoc nth_append)
qed (simp add: in_scope_def)

lemma scan_stack_view:
  assumes "stack_ok h s"
    and "\<And>n r. f n r = (if target (n, r) then Some True else if bound (n, r) then Some False else None)"
  shows "scan_stack h f s \<longleftrightarrow>
     in_scope (\<lambda>x. target (snd x, getNamespaceURI h (fst x))) (\<lambda>x. bound (snd x, getNamespaceURI h (fst x))) (view s)"
proof -
  have "f (tagIDs s ! i) (ns_at h s i) = (if target (snd (view s ! i), getNamespaceURI h (fst (view s ! i))) then Some True
      else if bound (snd (view s ! i), getNamespaceURI h (fst (view s ! i))) then Some False else None)"
    if "i < length (view s)" for i
  proof -
    have "int i \<le> stackTop s" using that view_length [OF assms(1)] by linarith
    then show ?thesis using view_nth [OF assms(1), of i] by (simp add: assms(2) ns_at_def)
  qed
  then show ?thesis using scan_scope [of "view s"] view_length [OF assms(1)] by (simp add: scan_stack_def)
qed

definition html_tag :: "heap \<Rightarrow> nat \<Rightarrow> addr \<times> nat \<Rightarrow> bool" where
  "html_tag h t x \<longleftrightarrow> snd x = t \<and> getNamespaceURI h (fst x) = Some NS_HTML"

definition bounds_scope :: "heap \<Rightarrow> addr \<times> nat \<Rightarrow> bool" where
  "bounds_scope h x \<longleftrightarrow> map_of scoping_elements (snd x) = getNamespaceURI h (fst x)"

text \<open>
  C9. The tests for an element in scope, in list item scope, in button scope, in table scope and in
  select scope, which walk down the stack and return at the first entry that decides, say whether
  every bounding element of that scope has an HTML element of the tag above it.
\<close>

theorem scopes_as_specified:
  assumes "stack_ok h s"
  shows "hasInScope h e s = in_scope (html_tag h e) (bounds_scope h) (view s) \<and>
     hasInListItemScope h e s = in_scope (html_tag h e)
       (\<lambda>x. html_tag h T_UL x \<or> html_tag h T_OL x \<or> bounds_scope h x) (view s) \<and>
     hasInButtonScope h e s = in_scope (html_tag h e) (\<lambda>x. html_tag h T_BUTTON x \<or> bounds_scope h x) (view s) \<and>
     hasInTableScope h e s = in_scope (html_tag h e)
       (\<lambda>x. html_tag h T_TABLE x \<or> html_tag h T_TEMPLATE x \<or> html_tag h T_HTML x) (view s) \<and>
     hasInSelectScope h e s = in_scope (html_tag h e)
       (\<lambda>x. getNamespaceURI h (fst x) = Some NS_HTML \<and> snd x \<noteq> T_OPTION \<and> snd x \<noteq> T_OPTGROUP) (view s)"
proof -
  let ?t = "\<lambda>(n, r). n = e \<and> r = Some NS_HTML" and ?b = "\<lambda>(n, r). map_of scoping_elements n = r"
  have "hasInScope h e s = in_scope (html_tag h e) (bounds_scope h) (view s)"
    unfolding hasInScope_def html_tag_def bounds_scope_def
    by (subst scan_stack_view [OF assms, where target = ?t and bound = ?b]) simp_all
  moreover have "hasInListItemScope h e s = in_scope (html_tag h e)
       (\<lambda>x. html_tag h T_UL x \<or> html_tag h T_OL x \<or> bounds_scope h x) (view s)"
    unfolding hasInListItemScope_def html_tag_def bounds_scope_def
    by (subst scan_stack_view [OF assms, where target = ?t
          and bound = "\<lambda>x. (fst x = T_UL \<and> snd x = Some NS_HTML) \<or> (fst x = T_OL \<and> snd x = Some NS_HTML) \<or> ?b x"])
       auto
  moreover have "hasInButtonScope h e s = in_scope (html_tag h e) (\<lambda>x. html_tag h T_BUTTON x \<or> bounds_scope h x) (view s)"
    unfolding hasInButtonScope_def html_tag_def bounds_scope_def
    by (subst scan_stack_view [OF assms, where target = ?t
          and bound = "\<lambda>x. (fst x = T_BUTTON \<and> snd x = Some NS_HTML) \<or> ?b x"]) simp_all
  moreover have "hasInTableScope h e s = in_scope (html_tag h e)
       (\<lambda>x. html_tag h T_TABLE x \<or> html_tag h T_TEMPLATE x \<or> html_tag h T_HTML x) (view s)"
    unfolding hasInTableScope_def html_tag_def
    by (subst scan_stack_view [OF assms, where target = ?t
          and bound = "\<lambda>x. (fst x = T_TABLE \<and> snd x = Some NS_HTML) \<or> (fst x = T_TEMPLATE \<and> snd x = Some NS_HTML) \<or>
            (fst x = T_HTML \<and> snd x = Some NS_HTML)"]) auto
  moreover have "hasInSelectScope h e s = in_scope (html_tag h e)
       (\<lambda>x. getNamespaceURI h (fst x) = Some NS_HTML \<and> snd x \<noteq> T_OPTION \<and> snd x \<noteq> T_OPTGROUP) (view s)"
    unfolding hasInSelectScope_def html_tag_def
    by (subst scan_stack_view [OF assms, where target = ?t
          and bound = "\<lambda>x. snd x = Some NS_HTML \<and> fst x \<noteq> T_OPTION \<and> fst x \<noteq> T_OPTGROUP"]) auto
  ultimately show ?thesis by blast
qed

text \<open>A document with the elements \<open>html\<close>, \<open>body\<close> and \<open>p\<close> open.\<close>

definition sample_heap :: heap where
  "sample_heap = snd (createElement (js ''p'') NS_HTML [] (snd (createElement (js ''body'') NS_HTML []
     (snd (createElement (js ''html'') NS_HTML [] empty_heap)))))"

definition sample_stack :: open_elements where
  "sample_stack = push sample_heap 2 T_P (push sample_heap 1 T_BODY (push sample_heap 0 T_HTML (new_open_elements 9)))"

lemma new_stack_ok: "stack_ok h (new_open_elements d)"
  by (simp add: stack_ok_def new_open_elements_def view_def)

lemma sample_stack_ok: "stack_ok sample_heap sample_stack"
  by (simp add: sample_stack_def push_ok new_stack_ok)

lemma sample_stack_view: "view sample_stack = [(0, T_HTML), (1, T_BODY), (2, T_P)]"
  by (simp add: sample_stack_def push_view push_ok new_stack_ok) (simp add: view_def new_open_elements_def)

theorem scopes_as_specified_witness:
  "hasInScope sample_heap T_P sample_stack = in_scope (html_tag sample_heap T_P) (bounds_scope sample_heap) (view sample_stack)"
  using scopes_as_specified [OF sample_stack_ok, of T_P] by blast

section \<open>The stack implements a list\<close>

text \<open>
  C7. The two arrays with their index implement the stack of open elements of the standard, a list.
  On a stack that is not empty: pushing appends, popping takes away the last element, the current
  node is the last element; popping until a tag name, or one of several, is popped removes everything
  from the last HTML element of that name on; clearing back to a context stops before it; generating
  implied end tags takes away the longest suffix of such elements; and with distinct elements,
  removing one takes it out wherever it stands. The invariant, the count of open templates
  included, is kept.
\<close>

theorem open_elements_implement_list:
  assumes "stack_ok h s" and "view s \<noteq> []" and "distinct (map fst (view s))"
  shows "(stack_ok h (push h e t s) \<and> view (push h e t s) = view s @ [(e, t)]) \<and>
     (stack_ok h (pop h s) \<and> view (pop h s) = butlast (view s)) \<and>
     stack_top s = Some (last (view s)) \<and>
     view (popUntilTagNamePopped h t s) = rev (tl (dropWhile (\<lambda>x. \<not> matches h [t] NS_HTML x) (rev (view s)))) \<and>
     view (popUntilPopped h ts ns s) = rev (tl (dropWhile (\<lambda>x. \<not> matches h ts ns x) (rev (view s)))) \<and>
     view (clearBackTo h ts ns s) = rev (dropWhile (\<lambda>x. \<not> matches h ts ns x) (rev (view s))) \<and>
     (stack_ok h (generateImpliedEndTags h s) \<and> view (generateImpliedEndTags h s) =
        rev (dropWhile (\<lambda>x. snd x \<in> set implied_end_tags) (rev (view s)))) \<and>
     view (remove h e s) = filter (\<lambda>x. fst x \<noteq> e) (view s) \<and>
     contains e s = (e \<in> fst ` set (view s))"
  using assms oe.add_view [OF assms(1), of "(e, t)"] oe.add_ok [OF assms(1), of "(e, t)"] oe.drop_view [OF assms(1,2)]
    oe.drop_ok [OF assms(1,2)] oe.top_view [OF assms(1,2)] pop_until_tag_view [OF assms(1,2)] pop_until_view [OF assms(1)]
    pop_while_view [OF assms(1)] remove_view [OF assms] contains_view [OF assms(1,2)]
  by (simp add: generateImpliedEndTags_def)

theorem open_elements_implement_list_witness:
  "view (popUntilTagNamePopped sample_heap T_BODY sample_stack) =
     rev (tl (dropWhile (\<lambda>x. \<not> matches sample_heap [T_BODY] NS_HTML x) (rev (view sample_stack)))) \<and>
   view (remove sample_heap 1 sample_stack) = [(0, T_HTML), (2, T_P)]"
  using open_elements_implement_list [OF sample_stack_ok, of 1 T_BODY] by (simp add: sample_stack_view)

end
