(* ===== verification/Html_Formatting.thy ===== *)
theory Html_Formatting
  imports Html_Open_Elements
begin

text \<open>
  The list of active formatting elements: class \<open>Fg\<close> of \<^verbatim>\<open>src/api/scalar.standalone.js\<close>. The newest
  entry stands first. Entries are objects that are compared by identity and change their element in
  place, so each has an id of its own; all markers are one object.
\<close>

section \<open>Tags as the tree constructor sees them\<close>

record tag =
  t_name :: jsstr
  t_id :: nat
  t_selfClosing :: bool
  t_attrs :: "dom_attr list"

definition tag_of :: "tag_token \<Rightarrow> tag" where
  "tag_of g = \<lparr>t_name = tagName g, t_id = tagID g, t_selfClosing = selfClosing g,
     t_attrs = map plain_attr (attrs g)\<rparr>"

section \<open>State\<close>

datatype entry = Marker | Entry (entry_id: nat) (entry_element: addr) (entry_token: tag)

record formatting =
  entries :: "entry list"
  bookmark :: "nat option"
  next_id :: nat

definition new_formatting :: formatting where
  "new_formatting = \<lparr>entries = [], bookmark = None, next_id = 0\<rparr>"

fun is_entry :: "nat \<Rightarrow> entry \<Rightarrow> bool" where
  "is_entry i (Entry j _ _) \<longleftrightarrow> i = j"
| "is_entry i Marker \<longleftrightarrow> False"

text \<open>\<open>entries.indexOf(entry)\<close>: entries are compared by identity.\<close>

fun entry_index :: "nat \<Rightarrow> entry list \<Rightarrow> int" where
  "entry_index i [] = -1"
| "entry_index i (x # xs) =
     (if is_entry i x then 0 else let k = entry_index i xs in if k < 0 then -1 else k + 1)"

section \<open>Operations\<close>

text \<open>
  \<open>_getNoahArkConditionCandidates\<close>: the entries before the first marker with the tag name, the
  namespace and the number of attributes of the new element, with their index.
\<close>

fun noah_candidates :: "heap \<Rightarrow> jsstr option \<Rightarrow> namespace option \<Rightarrow> nat \<Rightarrow> nat \<Rightarrow> entry list \<Rightarrow> (nat \<times> dom_attr list) list" where
  "noah_candidates h name ns n i [] = []"
| "noah_candidates h name ns n i (Marker # es) = []"
| "noah_candidates h name ns n i (Entry _ el _ # es) =
     (let as = getAttrList h el; rest = noah_candidates h name ns n (Suc i) es in
      if getTagName h el = name \<and> getNamespaceURI h el = ns \<and> length as = n then (i, as) # rest else rest)"

definition getNoahArkConditionCandidates :: "heap \<Rightarrow> addr \<Rightarrow> dom_attr list \<Rightarrow> formatting \<Rightarrow> (nat \<times> dom_attr list) list" where
  "getNoahArkConditionCandidates h e as f =
     noah_candidates h (getTagName h e) (getNamespaceURI h e) (length as) 0 (entries f)"

text \<open>\<open>new Map(attrs)\<close>: the last value of a name counts.\<close>

definition attr_map :: "dom_attr list \<Rightarrow> jsstr \<Rightarrow> jsstr option" where
  "attr_map as n = map_of (rev (map (\<lambda>a. (a_name a, a_value a)) as)) n"

definition same_attrs :: "dom_attr list \<Rightarrow> dom_attr list \<Rightarrow> bool" where
  "same_attrs as bs \<longleftrightarrow> list_all (\<lambda>b. attr_map as (a_name b) = Some (a_value b)) bs"

text \<open>
  The loop of \<open>_ensureNoahArkCondition\<close>: \<open>k\<close> equal candidates have been seen; from the third on, the
  entry at the index of the candidate is removed. The indices are those before any removal.
\<close>

fun noah_loop :: "dom_attr list \<Rightarrow> nat \<Rightarrow> (nat \<times> dom_attr list) list \<Rightarrow> entry list \<Rightarrow> entry list" where
  "noah_loop as k [] es = es"
| "noah_loop as k ((i, bs) # cs) es =
     (if same_attrs as bs
      then noah_loop as (Suc k) cs (if Suc k \<ge> 3 then splice_remove (int i) es else es)
      else noah_loop as k cs es)"

definition ensureNoahArkCondition :: "heap \<Rightarrow> addr \<Rightarrow> formatting \<Rightarrow> formatting" where
  "ensureNoahArkCondition h e f =
     (if length (entries f) < 3 then f
      else let as = getAttrList h e; cs = getNoahArkConditionCandidates h e as f
           in if length cs < 3 then f else f\<lparr>entries := noah_loop as 0 cs (entries f)\<rparr>)"

definition insertMarker :: "formatting \<Rightarrow> formatting" where
  "insertMarker f = f\<lparr>entries := Marker # entries f\<rparr>"

definition pushElement :: "heap \<Rightarrow> addr \<Rightarrow> tag \<Rightarrow> formatting \<Rightarrow> formatting" where
  "pushElement h e t f0 =
     (let f = ensureNoahArkCondition h e f0
      in f\<lparr>entries := Entry (next_id f) e t # entries f, next_id := Suc (next_id f)\<rparr>)"

definition insertElementAfterBookmark :: "addr \<Rightarrow> tag \<Rightarrow> formatting \<Rightarrow> formatting" where
  "insertElementAfterBookmark e t f =
     (let n = (case bookmark f of Some b \<Rightarrow> entry_index b (entries f) | None \<Rightarrow> -1)
      in f\<lparr>entries := splice_insert n (Entry (next_id f) e t) (entries f), next_id := Suc (next_id f)\<rparr>)"

definition removeEntry :: "nat \<Rightarrow> formatting \<Rightarrow> formatting" where
  "removeEntry i f =
     (let t = entry_index i (entries f)
      in if t \<ge> 0 then f\<lparr>entries := splice_remove t (entries f)\<rparr> else f)"

definition clearToLastMarker :: "formatting \<Rightarrow> formatting" where
  "clearToLastMarker f =
     (let e = indexOf (entries f) Marker
      in f\<lparr>entries := (if e \<ge> 0 then drop (nat e + 1) (entries f) else [])\<rparr>)"

definition getElementEntryInScopeWithTagName :: "heap \<Rightarrow> jsstr \<Rightarrow> formatting \<Rightarrow> entry option" where
  "getElementEntryInScopeWithTagName h name f =
     (case List.find (\<lambda>t. case t of Marker \<Rightarrow> True | Entry _ el _ \<Rightarrow> getTagName h el = Some name) (entries f) of
        Some (Entry i el t) \<Rightarrow> Some (Entry i el t) | _ \<Rightarrow> None)"

definition getElementEntry :: "addr \<Rightarrow> formatting \<Rightarrow> entry option" where
  "getElementEntry e f =
     List.find (\<lambda>t. case t of Marker \<Rightarrow> False | Entry _ el _ \<Rightarrow> el = e) (entries f)"

text \<open>\<open>entry.element = e\<close> and \<open>bookmark = entry\<close>, as the adoption agency writes them.\<close>

definition set_entry_element :: "nat \<Rightarrow> addr \<Rightarrow> formatting \<Rightarrow> formatting" where
  "set_entry_element i e f =
     f\<lparr>entries := map (\<lambda>t. case t of Marker \<Rightarrow> Marker
        | Entry j el g \<Rightarrow> if j = i then Entry j e g else t) (entries f)\<rparr>"

definition set_bookmark :: "nat \<Rightarrow> formatting \<Rightarrow> formatting" where
  "set_bookmark i f = f\<lparr>bookmark := Some i\<rparr>"

end
