(* ===== verification/Html_Formatting_Sound.thy ===== *)
theory Html_Formatting_Sound
  imports Html_Formatting
begin

text \<open>
  The list of active formatting elements: after a push no more than three entries behind the last
  marker are equal, and the entry that makes room is the earliest one (the "Noah's Ark clause").
  New entries stand at the front of the array.
\<close>

text \<open>An entry with the tag name, the namespace and the attributes of an element.\<close>

fun same_entry :: "heap \<Rightarrow> addr \<Rightarrow> entry \<Rightarrow> bool" where
  "same_entry h e Marker = False"
| "same_entry h e (Entry i el t) \<longleftrightarrow> getTagName h el = getTagName h e \<and> getNamespaceURI h el = getNamespaceURI h e \<and>
     length (getAttrList h el) = length (getAttrList h e) \<and> same_attrs (getAttrList h e) (getAttrList h el)"

definition behind_marker :: "entry list \<Rightarrow> entry list" where
  "behind_marker es = takeWhile (\<lambda>x. x \<noteq> Marker) es"

definition same_count :: "heap \<Rightarrow> addr \<Rightarrow> entry list \<Rightarrow> nat" where
  "same_count h e es = length (filter (same_entry h e) (behind_marker es))"

lemma same_count_simps [simp]:
  "same_count h e [] = 0" "same_count h e (Marker # es) = 0"
  "same_count h e (Entry i el t # es) = (if same_entry h e (Entry i el t) then 1 else 0) + same_count h e es"
  by (simp_all add: same_count_def behind_marker_def)

text \<open>The test on attributes is equality of sets of names and values, for names without repetition.\<close>

lemma same_attrs_sets:
  assumes "distinct (map a_name as)" and "distinct (map a_name bs)" and "length as = length bs"
  shows "same_attrs as bs \<longleftrightarrow> (\<lambda>a. (a_name a, a_value a)) ` set as = (\<lambda>a. (a_name a, a_value a)) ` set bs"
proof -
  let ?p = "\<lambda>a. (a_name a, a_value a)"
  have d: "distinct (map fst (map ?p as))" "distinct (map fst (rev (map ?p as)))"
    using assms(1) by (simp_all add: comp_def rev_map [symmetric] del: rev_map)
  have m: "attr_map as n = Some v \<longleftrightarrow> (n, v) \<in> ?p ` set as" for n v
    using d(2) by (simp add: attr_map_def map_of_eq_Some_iff del: map_map)
  have "same_attrs as bs \<longleftrightarrow> ?p ` set bs \<subseteq> ?p ` set as"
    by (auto simp: same_attrs_def list_all_iff m)
  moreover have "distinct (map ?p as)" "distinct (map ?p bs)"
    using assms(1,2) by (auto simp: distinct_map inj_on_def)
  then have "card (?p ` set as) = length as" "card (?p ` set bs) = length bs"
    using distinct_card [of "map ?p as"] distinct_card [of "map ?p bs"] by simp_all
  then have "?p ` set bs \<subseteq> ?p ` set as \<Longrightarrow> ?p ` set bs = ?p ` set as"
    using assms(3) by (intro card_subset_eq) simp_all
  ultimately show ?thesis by blast
qed

abbreviation candidates :: "heap \<Rightarrow> addr \<Rightarrow> nat \<Rightarrow> entry list \<Rightarrow> (nat \<times> dom_attr list) list" where
  "candidates h e \<equiv> noah_candidates h (getTagName h e) (getNamespaceURI h e) (length (getAttrList h e))"

lemma noah_none:
  "same_count h e es = 0 \<Longrightarrow> noah_loop (getAttrList h e) k (candidates h e i es) xs = xs"
proof (induction es arbitrary: i)
  case (Cons x es)
  then show ?case by (cases x) (auto simp: Let_def split: if_splits)
qed simp

lemma noah_few:
  "k + same_count h e es < 3 \<Longrightarrow> noah_loop (getAttrList h e) k (candidates h e i es) xs = xs"
proof (induction es arbitrary: i k)
  case (Cons x es)
  then show ?case by (cases x) (auto simp: Let_def split: if_splits)
qed simp

lemma candidates_count: "same_count h e es \<le> length (candidates h e i es)"
proof (induction es arbitrary: i)
  case (Cons x es)
  have "same_count h e es \<le> length (candidates h e (Suc i) es)" by (rule Cons.IH)
  then show ?case by (cases x) (auto simp: Let_def)
qed simp

lemma splice_remove_here: "splice_remove (int (length pre)) (pre @ x # es) = pre @ es"
  by (simp add: splice_remove_def splice_at_def)

lemma noah_third:
  assumes "k < 3" and "k + same_count h e es = 3"
  shows "\<exists>xs x ys. es = xs @ x # ys \<and> Marker \<notin> set xs \<and> same_entry h e x \<and> same_count h e ys = 0 \<and>
     noah_loop (getAttrList h e) k (candidates h e (length pre) es) (pre @ es) = pre @ xs @ ys"
  using assms
proof (induction es arbitrary: k pre)
  case (Cons x es)
  show ?case
  proof (cases x)
    case Marker
    then show ?thesis using Cons.prems by simp
  next
    case (Entry i el t)
    show ?thesis
    proof (cases "same_entry h e x")
      case same: True
      show ?thesis
      proof (cases "k = 2")
        case True
        then have z: "same_count h e es = 0" using Cons.prems Entry same by simp
        then have "noah_loop (getAttrList h e) k (candidates h e (length pre) (x # es)) (pre @ x # es) = pre @ es"
          using Entry same True noah_none by (simp add: Let_def splice_remove_here)
        then show ?thesis using same z by (intro exI [of _ "[]"] exI [of _ x] exI [of _ es]) simp
      next
        case False
        then have "Suc k < 3" "Suc k + same_count h e es = 3" using Cons.prems Entry same by auto
        then obtain xs y ys where "es = xs @ y # ys" "Marker \<notin> set xs" "same_entry h e y" "same_count h e ys = 0"
            "noah_loop (getAttrList h e) (Suc k) (candidates h e (Suc (length pre)) es) (pre @ x # es) = pre @ x # xs @ ys"
          using Cons.IH [of "Suc k" "pre @ [x]"] by auto
        then show ?thesis using Entry same False Cons.prems(1)
          by (intro exI [of _ "x # xs"] exI [of _ y] exI [of _ ys]) (simp add: Let_def)
      qed
    next
      case False
      then have "k + same_count h e es = 3" using Cons.prems Entry by (auto split: if_splits)
      then obtain xs y ys where *: "es = xs @ y # ys" "Marker \<notin> set xs" "same_entry h e y" "same_count h e ys = 0"
          "noah_loop (getAttrList h e) k (candidates h e (Suc (length pre)) es) (pre @ x # es) = pre @ x # xs @ ys"
        using Cons.IH [of k "pre @ [x]"] Cons.prems(1) by auto
      have "noah_loop (getAttrList h e) k (candidates h e (length pre) (x # es)) (pre @ x # es) =
          noah_loop (getAttrList h e) k (candidates h e (Suc (length pre)) es) (pre @ x # es)"
        using False Entry by (auto simp: Let_def)
      then show ?thesis using * Entry by (intro exI [of _ "x # xs"] exI [of _ y] exI [of _ ys]) simp
    qed
  qed
qed simp

lemma ensure_third:
  assumes "same_count h e (entries f) = 3"
  shows "\<exists>xs x ys. entries f = xs @ x # ys \<and> Marker \<notin> set xs \<and> same_entry h e x \<and> same_count h e ys = 0 \<and>
     entries (ensureNoahArkCondition h e f) = xs @ ys"
proof -
  have "3 \<le> length (candidates h e 0 (entries f))" using candidates_count [of h e "entries f" 0] assms by simp
  moreover have "same_count h e (entries f) \<le> length (entries f)"
    by (metis (no_types) behind_marker_def dual_order.trans length_filter_le length_takeWhile_le same_count_def)
  ultimately have "entries (ensureNoahArkCondition h e f) = noah_loop (getAttrList h e) 0 (candidates h e 0 (entries f)) (entries f)"
    using assms by (simp add: ensureNoahArkCondition_def getNoahArkConditionCandidates_def Let_def)
  then show ?thesis using noah_third [of 0 h e "entries f" "[]"] assms by simp
qed

lemma ensure_few:
  assumes "same_count h e (entries f) < 3"
  shows "ensureNoahArkCondition h e f = f"
  using noah_few [of 0 h e "entries f" 0 "entries f"] assms
  by (simp add: ensureNoahArkCondition_def getNoahArkConditionCandidates_def Let_def)

lemma ensure_next_id: "next_id (ensureNoahArkCondition h e f) = next_id f"
  by (simp add: ensureNoahArkCondition_def Let_def)

lemma same_count_append: "Marker \<notin> set xs \<Longrightarrow> same_count h e (xs @ ys) = length (filter (same_entry h e) xs) + same_count h e ys"
proof (induction xs)
  case (Cons x xs)
  then show ?case by (cases x) auto
qed simp

text \<open>
  C10. The Noah's Ark clause. When at most three entries behind the last marker have the tag name, the
  namespace and the attributes of an element, the same holds after the element is pushed. With
  fewer than three nothing is taken away; with three exactly the earliest of them is, and no other
  entry moves.
\<close>

theorem noahs_ark:
  assumes "same_count h e (entries f) \<le> 3"
  shows "same_count h e (entries (pushElement h e t f)) \<le> 3 \<and>
     (if same_count h e (entries f) < 3 then entries (pushElement h e t f) = Entry (next_id f) e t # entries f
      else \<exists>xs x ys. entries f = xs @ x # ys \<and> Marker \<notin> set xs \<and> same_entry h e x \<and> same_count h e ys = 0 \<and>
             entries (pushElement h e t f) = Entry (next_id f) e t # xs @ ys)"
proof (cases "same_count h e (entries f) < 3")
  case True
  then show ?thesis by (simp add: pushElement_def ensure_few Let_def)
next
  case False
  then obtain xs x ys where *: "entries f = xs @ x # ys" "Marker \<notin> set xs" "same_entry h e x" "same_count h e ys = 0"
      "entries (ensureNoahArkCondition h e f) = xs @ ys"
    using ensure_third [of h e f] assms by auto
  have p: "entries (pushElement h e t f) = Entry (next_id f) e t # xs @ ys"
    using *(5) by (simp add: pushElement_def Let_def ensure_next_id)
  have "same_count h e (x # ys) = 1" using *(3,4) by (cases x) auto
  then have "length (filter (same_entry h e) xs) = 2"
    using same_count_append [OF *(2), of h e "x # ys"] False assms *(1) by simp
  then have "same_count h e (entries (pushElement h e t f)) \<le> 3"
    using same_count_append [OF *(2), of h e ys] *(4) by (simp add: p)
  then show ?thesis using * p False by (auto split: if_splits)
qed

text \<open>A document with four elements \<open>b\<close>, three of them in the list.\<close>

definition ark_heap :: heap where
  "ark_heap = ((\<lambda>h. snd (createElement (js ''b'') NS_HTML [] h)) ^^ 4) empty_heap"

definition ark_tag :: tag where
  "ark_tag = \<lparr>t_name = js ''b'', t_id = T_B, t_selfClosing = False, t_attrs = []\<rparr>"

definition ark_list :: formatting where
  "ark_list = \<lparr>entries = [Entry 2 2 ark_tag, Entry 1 1 ark_tag, Entry 0 0 ark_tag], bookmark = None, next_id = 3\<rparr>"

lemma ark_elements: "a < 4 \<Longrightarrow> element_at ark_heap a = Some (js ''b'', NS_HTML, [], None)"
  by (simp add: ark_heap_def createElement_def alloc_def empty_heap_def element_at_def node_at_def eval_nat_numeral
      nth_append less_Suc_eq split: nat.splits) auto

theorem noahs_ark_witness:
  "same_count ark_heap 3 (entries ark_list) = 3 \<and>
   same_count ark_heap 3 (entries (pushElement ark_heap 3 ark_tag ark_list)) \<le> 3"
proof -
  have c: "same_count ark_heap 3 (entries ark_list) = 3"
    by (simp add: ark_list_def ark_elements getTagName_def getNamespaceURI_def getAttrList_def same_attrs_def)
  show ?thesis using noahs_ark [of ark_heap 3 ark_list ark_tag] c by simp
qed

end
