(* ===== verification/Html_Parser.thy ===== *)
theory Html_Parser
  imports Html_Formatting Html_Token_Core
begin

text \<open>
  The tree constructor: class \<open>yv\<close> of \<^verbatim>\<open>src/api/scalar.standalone.js\<close>, its fields and the methods
  its insertion modes share. What the parser writes into the tokenizer is part of its state here:
  \<open>tok_mode\<close> is the content mode it has asked for since the token arrived, \<open>inForeign\<close> the flag
  \<open>inForeignNode\<close>, which the parser alone writes. \<open>thrown\<close> is set where the source throws. Source
  locations, the script handler and the hooks of custom tree adapters are left out.
\<close>

section \<open>State\<close>

datatype insertion_mode =
    INITIAL | BEFORE_HTML | BEFORE_HEAD | IN_HEAD | IN_HEAD_NO_SCRIPT | AFTER_HEAD | IN_BODY
  | TEXT | IN_TABLE | IN_TABLE_TEXT | IN_CAPTION | IN_COLUMN_GROUP | IN_TABLE_BODY | IN_ROW
  | IN_CELL | IN_SELECT | IN_SELECT_IN_TABLE | IN_TEMPLATE | AFTER_BODY | IN_FRAMESET
  | AFTER_FRAMESET | AFTER_AFTER_BODY | AFTER_AFTER_FRAMESET

text \<open>Tokens as \<open>_processToken\<close> takes them.\<close>

datatype ptoken =
    PCharacter jsstr
  | PNullCharacter jsstr
  | PWhitespace jsstr
  | PComment jsstr
  | PDoctype doctype_token
  | PStartTag tag
  | PEndTag tag
  | PEof

record parser =
  heap :: heap
  document :: addr
  fragmentContext :: "addr option"
  fragmentContextID :: nat
  stopped_parsing :: bool
  insertionMode :: insertion_mode
  originalInsertionMode :: insertion_mode
  headElement :: "addr option"
  formElement :: "addr option"
  currentNotInHTML :: bool
  tmplInsertionModeStack :: "insertion_mode list"
  pendingCharacterTokens :: "ptoken list"
  hasNonWhitespacePendingCharacterToken :: bool
  framesetOk :: bool
  skip_newline :: bool
  fosterParentingEnabled :: bool
  scriptingEnabled :: bool
  report_errors :: bool
  parse_errors :: "err_code list"
  openElements :: open_elements
  activeFormattingElements :: formatting
  tok_mode :: "tokenizer_mode option"
  inForeign :: bool
  acknowledged :: bool
  toLowerCase :: "jsstr \<Rightarrow> jsstr"
  thrown :: bool

text \<open>
  \<open>skip_newline\<close> is \<open>skipNextNewLine\<close>, \<open>acknowledged\<close> the flag \<open>ackSelfClosing\<close> of the token being
  processed, \<open>toLowerCase\<close> the function of the JavaScript engine with its Unicode tables.
\<close>

definition p_throw :: "parser \<Rightarrow> parser" where
  "p_throw p = p\<lparr>thrown := True\<rparr>"

definition p_err :: "err_code \<Rightarrow> parser \<Rightarrow> parser" where
  "p_err code p = (if report_errors p then p\<lparr>parse_errors := code # parse_errors p\<rparr> else p)"

definition set_mode :: "insertion_mode \<Rightarrow> parser \<Rightarrow> parser" where
  "set_mode m p = p\<lparr>insertionMode := m\<rparr>"

definition on_heap :: "(heap \<Rightarrow> heap) \<Rightarrow> parser \<Rightarrow> parser" where
  "on_heap f p = p\<lparr>heap := f (heap p)\<rparr>"

definition on_formatting :: "(formatting \<Rightarrow> formatting) \<Rightarrow> parser \<Rightarrow> parser" where
  "on_formatting f p = p\<lparr>activeFormattingElements := f (activeFormattingElements p)\<rparr>"

definition frameset_not_ok :: "parser \<Rightarrow> parser" where
  "frameset_not_ok p = p\<lparr>framesetOk := False\<rparr>"

definition acknowledge :: "parser \<Rightarrow> parser" where
  "acknowledge p = p\<lparr>acknowledged := True\<rparr>"

definition set_tokenizer :: "tokenizer_mode \<Rightarrow> parser \<Rightarrow> parser" where
  "set_tokenizer m p = p\<lparr>tok_mode := Some m\<rparr>"

definition nodeNamespace :: "parser \<Rightarrow> addr \<Rightarrow> namespace option" where
  "nodeNamespace p a = getNamespaceURI (heap p) a"

definition is_current :: "nat \<Rightarrow> parser \<Rightarrow> bool" where
  "is_current t p \<longleftrightarrow> currentTagId (openElements p) = Some t"

section \<open>Notifications of the stack\<close>

definition p_isIntegrationPoint :: "nat option \<Rightarrow> addr \<Rightarrow> namespace option \<Rightarrow> parser \<Rightarrow> bool" where
  "p_isIntegrationPoint tid el foreign p =
     (case tid of
        Some t \<Rightarrow> isIntegrationPoint (toLowerCase p) t (nodeNamespace p el) (getAttrList (heap p) el) foreign
      | None \<Rightarrow> False)"

text \<open>An element that is \<open>undefined\<close> has no namespace to read.\<close>

definition setContextModes :: "addr option \<Rightarrow> nat option \<Rightarrow> parser \<Rightarrow> parser" where
  "setContextModes el tid p = (case el of
     None \<Rightarrow> p_throw p
   | Some a \<Rightarrow>
       let isHTML = (a = document p \<or> nodeNamespace p a = Some NS_HTML)
       in p\<lparr>currentNotInHTML := \<not> isHTML,
             inForeign := \<not> isHTML \<and> \<not> p_isIntegrationPoint tid a None p\<rparr>)"

text \<open>\<open>fragmentContext\<close> stands in for the root element of a fragment.\<close>

definition adjusted_current :: "parser \<Rightarrow> addr option \<times> nat option" where
  "adjusted_current p =
     (if stackTop (openElements p) = 0 \<and> fragmentContext p \<noteq> None
      then (fragmentContext p, Some (fragmentContextID p))
      else (current (openElements p), currentTagId (openElements p)))"

definition onItemPush :: "addr \<Rightarrow> nat \<Rightarrow> bool \<Rightarrow> parser \<Rightarrow> parser" where
  "onItemPush node tid isTop p =
     (if isTop \<and> stackTop (openElements p) > 0 then setContextModes (Some node) (Some tid) p else p)"

definition onItemPop :: "bool \<Rightarrow> parser \<Rightarrow> parser" where
  "onItemPop isTop p =
     (if isTop then case adjusted_current p of (el, tid) \<Rightarrow> setContextModes el tid p else p)"

text \<open>
  An operation that pops from the top. Each pop is followed by \<open>onItemPop\<close>, which sets two fields of
  the parser from the stack as it then is: only the notification after the last pop is visible.
\<close>

definition popping :: "(heap \<Rightarrow> open_elements \<Rightarrow> open_elements) \<Rightarrow> parser \<Rightarrow> parser" where
  "popping f p =
     (let s = f (heap p) (openElements p); p1 = p\<lparr>openElements := s\<rparr>
      in if stackTop s = stackTop (openElements p) then p1 else onItemPop True p1)"

definition p_push :: "addr \<Rightarrow> nat \<Rightarrow> parser \<Rightarrow> parser" where
  "p_push e t p = onItemPush e t True (p\<lparr>openElements := push (heap p) e t (openElements p)\<rparr>)"

definition p_pop :: "parser \<Rightarrow> parser" where
  "p_pop = popping pop"

text \<open>Only a removal from the top changes the current element.\<close>

definition p_remove :: "addr \<Rightarrow> parser \<Rightarrow> parser" where
  "p_remove e p =
     (let t = stack_indexOf e (openElements p); p1 = p\<lparr>openElements := remove (heap p) e (openElements p)\<rparr>
      in if t \<ge> 0 \<and> t = stackTop (openElements p) then onItemPop True p1 else p1)"

definition p_insertAfter :: "addr \<Rightarrow> addr \<Rightarrow> nat \<Rightarrow> parser \<Rightarrow> parser" where
  "p_insertAfter e t n p =
     (let r = stack_indexOf e (openElements p) + 1;
          s = insertAfter e t n (openElements p); p1 = p\<lparr>openElements := s\<rparr>
      in if r = stackTop s \<and> stackTop s > 0 then setContextModes (current s) (currentTagId s) p1 else p1)"

section \<open>Inserting nodes\<close>

definition isElementCausesFosterParenting :: "nat \<Rightarrow> bool" where
  "isElementCausesFosterParenting t \<longleftrightarrow> t \<in> set table_structure_tags"

definition shouldFosterParentOnInsertion :: "parser \<Rightarrow> bool" where
  "shouldFosterParentOnInsertion p \<longleftrightarrow> fosterParentingEnabled p \<and>
     (case currentTagId (openElements p) of Some t \<Rightarrow> isElementCausesFosterParenting t | None \<Rightarrow> False)"

text \<open>\<open>_findFosterParentingLocation\<close>: the parent, and the element before which to insert.\<close>

fun foster_location_from :: "heap \<Rightarrow> open_elements \<Rightarrow> nat \<Rightarrow> addr option \<times> addr option" where
  "foster_location_from h s 0 = (array_get (items s) 0, None)"
| "foster_location_from h s (Suc i) =
     (let el = items s ! i; t = tagIDs s ! i in
      if t = T_TEMPLATE \<and> getNamespaceURI h el = Some NS_HTML then (getTemplateContent h el, None)
      else if t = T_TABLE then
        (case getParentNode h el of
           Some n \<Rightarrow> (Some n, Some el)
         | None \<Rightarrow> (array_get (items s) (int i - 1), None))
      else foster_location_from h s i)"

definition findFosterParentingLocation :: "parser \<Rightarrow> addr option \<times> addr option" where
  "findFosterParentingLocation p =
     foster_location_from (heap p) (openElements p) (nat (stackTop (openElements p) + 1))"

definition append_to :: "addr option \<Rightarrow> addr \<Rightarrow> parser \<Rightarrow> parser" where
  "append_to parent e p = (case parent of Some a \<Rightarrow> on_heap (appendChild a e) p | None \<Rightarrow> p_throw p)"

definition fosterParentElement :: "addr \<Rightarrow> parser \<Rightarrow> parser" where
  "fosterParentElement e p = (case findFosterParentingLocation p of
     (Some par, Some b) \<Rightarrow> on_heap (insertBefore par e b) p
   | (par, _) \<Rightarrow> append_to par e p)"

definition attachElementToTree :: "addr \<Rightarrow> parser \<Rightarrow> parser" where
  "attachElementToTree e p =
     (if shouldFosterParentOnInsertion p then fosterParentElement e p
      else append_to (currentTmplContentOrNode (heap p) (openElements p)) e p)"

text \<open>A node is created, then used.\<close>

definition creating :: "(heap \<Rightarrow> addr \<times> heap) \<Rightarrow> (addr \<Rightarrow> parser \<Rightarrow> parser) \<Rightarrow> parser \<Rightarrow> parser" where
  "creating f k p = (case f (heap p) of (a, h) \<Rightarrow> k a (p\<lparr>heap := h\<rparr>))"

definition appendElement :: "tag \<Rightarrow> namespace \<Rightarrow> parser \<Rightarrow> parser" where
  "appendElement t ns = creating (createElement (t_name t) ns (t_attrs t)) attachElementToTree"

definition insertElement :: "tag \<Rightarrow> namespace \<Rightarrow> parser \<Rightarrow> parser" where
  "insertElement t ns = creating (createElement (t_name t) ns (t_attrs t))
     (\<lambda>a p. p_push a (t_id t) (attachElementToTree a p))"

definition insertFakeElement :: "string \<Rightarrow> nat \<Rightarrow> parser \<Rightarrow> parser" where
  "insertFakeElement name tid = creating (createElement (js name) NS_HTML [])
     (\<lambda>a p. p_push a tid (attachElementToTree a p))"

definition insertTemplate :: "tag \<Rightarrow> parser \<Rightarrow> parser" where
  "insertTemplate t = creating (createElement (t_name t) NS_HTML (t_attrs t))
     (\<lambda>a. creating createDocumentFragment
       (\<lambda>c p. p_push a (t_id t) (attachElementToTree a (on_heap (setTemplateContent a c) p))))"

definition insertFakeRootElement :: "parser \<Rightarrow> parser" where
  "insertFakeRootElement = creating (createElement (js ''html'') NS_HTML [])
     (\<lambda>a p. p_push a T_HTML (append_to (current (openElements p)) a p))"

definition appendCommentNode :: "jsstr \<Rightarrow> addr option \<Rightarrow> parser \<Rightarrow> parser" where
  "appendCommentNode s parent = creating (createCommentNode s) (append_to parent)"

definition insert_text :: "addr option \<Rightarrow> jsstr \<Rightarrow> parser \<Rightarrow> parser" where
  "insert_text parent s p = (case parent of Some a \<Rightarrow> on_heap (insertText a s) p | None \<Rightarrow> p_throw p)"

definition insertCharacters :: "jsstr \<Rightarrow> parser \<Rightarrow> parser" where
  "insertCharacters s p =
     (if shouldFosterParentOnInsertion p
      then case findFosterParentingLocation p of
          (Some par, Some b) \<Rightarrow> on_heap (insertTextBefore par s b) p
        | (par, _) \<Rightarrow> insert_text par s p
      else insert_text (currentTmplContentOrNode (heap p) (openElements p)) s p)"

text \<open>
  \<open>_adoptNodes\<close>: the loop takes the first child until there is none. It has as many rounds as there
  are children; \<open>n\<close> is that number.
\<close>

fun adopt_nodes :: "nat \<Rightarrow> addr \<Rightarrow> addr \<Rightarrow> heap \<Rightarrow> heap" where
  "adopt_nodes n donor recipient h = (case getFirstChild h donor of
     None \<Rightarrow> h
   | Some c \<Rightarrow> (case n of
       0 \<Rightarrow> break h
     | Suc k \<Rightarrow> adopt_nodes k donor recipient (appendChild recipient c (detachNode c h))))"

declare adopt_nodes.simps [simp del]

definition adoptNodes :: "addr \<Rightarrow> addr \<Rightarrow> heap \<Rightarrow> heap" where
  "adoptNodes donor recipient h = adopt_nodes (length (getChildNodes h donor)) donor recipient h"

definition setDocType :: "doctype_token \<Rightarrow> parser \<Rightarrow> parser" where
  "setDocType d p =
     (let s = (\<lambda>x. case x of Some v \<Rightarrow> v | None \<Rightarrow> [])
      in on_heap (setDocumentType (document p) (s (doctype_name d)) (s (publicId d)) (s (systemId d))) p)"

section \<open>Insertion modes\<close>

definition switchToTextParsing :: "tag \<Rightarrow> tokenizer_mode \<Rightarrow> parser \<Rightarrow> parser" where
  "switchToTextParsing t m p =
     (let p1 = set_tokenizer m (insertElement t NS_HTML p)
      in p1\<lparr>originalInsertionMode := insertionMode p1, insertionMode := TEXT\<rparr>)"

definition switchToPlaintextParsing :: "parser \<Rightarrow> parser" where
  "switchToPlaintextParsing p =
     set_tokenizer Mode_PLAINTEXT (p\<lparr>insertionMode := TEXT, originalInsertionMode := IN_BODY\<rparr>)"

fun select_mode_from :: "open_elements \<Rightarrow> nat \<Rightarrow> insertion_mode" where
  "select_mode_from s 0 = IN_SELECT"
| "select_mode_from s (Suc t) =
     (let e = tagIDs s ! (Suc t) in
      if e = T_TEMPLATE then IN_SELECT
      else if e = T_TABLE then IN_SELECT_IN_TABLE else select_mode_from s t)"

text \<open>\<open>_resetInsertionModeForSelect(e)\<close> looks at the entries below \<open>e\<close>, but not at the root.\<close>

definition mode_for_select :: "open_elements \<Rightarrow> nat \<Rightarrow> insertion_mode" where
  "mode_for_select s e = (if e > 0 then select_mode_from s (e - 1) else IN_SELECT)"

text \<open>
  The mode the entry at index \<open>e\<close> with tag id \<open>t\<close> decides on, if any. The first entry of
  \<open>tmplInsertionModeStack\<close> is \<open>undefined\<close> when there is none, and then no mode is the current one;
  \<open>thrown\<close> stands for that too.
\<close>

definition entry_mode :: "nat \<Rightarrow> nat \<Rightarrow> parser \<Rightarrow> insertion_mode option option" where
  "entry_mode e t p =
     (if t = T_TR then Some (Some IN_ROW)
      else if t = T_TBODY \<or> t = T_THEAD \<or> t = T_TFOOT then Some (Some IN_TABLE_BODY)
      else if t = T_CAPTION then Some (Some IN_CAPTION)
      else if t = T_COLGROUP then Some (Some IN_COLUMN_GROUP)
      else if t = T_TABLE then Some (Some IN_TABLE)
      else if t = T_BODY then Some (Some IN_BODY)
      else if t = T_FRAMESET then Some (Some IN_FRAMESET)
      else if t = T_SELECT then Some (Some (mode_for_select (openElements p) e))
      else if t = T_TEMPLATE then
        Some (case tmplInsertionModeStack p of m # _ \<Rightarrow> Some m | [] \<Rightarrow> None)
      else if t = T_HTML then Some (Some (if headElement p \<noteq> None then AFTER_HEAD else BEFORE_HEAD))
      else if (t = T_TD \<or> t = T_TH) \<and> e > 0 then Some (Some IN_CELL)
      else if t = T_HEAD \<and> e > 0 then Some (Some IN_HEAD)
      else None)"

primrec reset_mode_from :: "nat \<Rightarrow> parser \<Rightarrow> parser" where
  "reset_mode_from 0 p = set_mode IN_BODY p"
| "reset_mode_from (Suc e) p =
     (case entry_mode e (if e = 0 \<and> fragmentContext p \<noteq> None then fragmentContextID p
                         else tagIDs (openElements p) ! e) p of
        Some (Some m) \<Rightarrow> set_mode m p
      | Some None \<Rightarrow> p_throw p
      | None \<Rightarrow> reset_mode_from e p)"

definition resetInsertionMode :: "parser \<Rightarrow> parser" where
  "resetInsertionMode p = reset_mode_from (nat (stackTop (openElements p) + 1)) p"

section \<open>Formatting elements\<close>

text \<open>
  \<open>_reconstructActiveFormattingElements\<close>: the entries newer than the first one that is a marker or
  still open are opened again, the oldest first. \<open>reopen\<close> takes them in that order.
\<close>

fun reopen :: "entry list \<Rightarrow> parser \<Rightarrow> parser" where
  "reopen [] p = p"
| "reopen (Marker # es) p = reopen es p"
| "reopen (Entry i el t # es) p =
     (case nodeNamespace p el of
        None \<Rightarrow> p_throw p
      | Some ns \<Rightarrow>
          let p1 = insertElement t ns p
          in case current (openElements p1) of
               Some c \<Rightarrow> reopen es (on_formatting (set_entry_element i c) p1)
             | None \<Rightarrow> p_throw p1)"

definition entry_stops :: "open_elements \<Rightarrow> entry \<Rightarrow> bool" where
  "entry_stops s t = (case t of Marker \<Rightarrow> True | Entry _ el _ \<Rightarrow> contains el s)"

definition reconstructActiveFormattingElements :: "parser \<Rightarrow> parser" where
  "reconstructActiveFormattingElements p =
     reopen (rev (takeWhile (\<lambda>t. \<not> entry_stops (openElements p) t) (entries (activeFormattingElements p)))) p"

definition closeTableCell :: "parser \<Rightarrow> parser" where
  "closeTableCell p =
     set_mode IN_ROW (on_formatting clearToLastMarker
       (popping popUntilTableCellPopped (popping generateImpliedEndTags p)))"

definition closePElement :: "parser \<Rightarrow> parser" where
  "closePElement p =
     popping (\<lambda>h. popUntilTagNamePopped h T_P) (popping (\<lambda>h. generateImpliedEndTagsWithExclusion h T_P) p)"

definition close_p_in_button_scope :: "parser \<Rightarrow> parser" where
  "close_p_in_button_scope p =
     (if hasInButtonScope (heap p) T_P (openElements p) then closePElement p else p)"

definition isSpecialElement :: "addr \<Rightarrow> nat \<Rightarrow> parser \<Rightarrow> bool" where
  "isSpecialElement el tid p =
     (case nodeNamespace p el of Some ns \<Rightarrow> tid \<in> set (special_elements ns) | None \<Rightarrow> False)"

section \<open>Foreign content\<close>

definition shouldProcessStartTagTokenInForeignContent :: "tag \<Rightarrow> parser \<Rightarrow> bool" where
  "shouldProcessStartTagTokenInForeignContent t p =
     (currentNotInHTML p \<and>
      (case adjusted_current p of
         (Some el, tid) \<Rightarrow>
           (t_id t \<noteq> T_SVG \<or> getTagName (heap p) el \<noteq> Some (js ''annotation-xml'') \<or>
              nodeNamespace p el \<noteq> Some NS_MATHML) \<and>
           (inForeign p \<or> (t_id t = T_MGLYPH \<or> t_id t = T_MALIGNMARK) \<and>
              \<not> p_isIntegrationPoint tid el (Some NS_HTML) p)
       | (None, _) \<Rightarrow> False))"

end
