(* ===== verification/Html_Dom_Sound.thy ===== *)
theory Html_Dom_Sound
  imports Html_Parser
begin

text \<open>
  The heap of nodes stays a forest of parents and children: a node is listed exactly once among the
  children of its parent and nowhere else. Every operation of the tree adapter keeps this and throws
  nothing, when it is called on nodes that exist.
\<close>

section \<open>The invariant\<close>

definition kids :: "heap \<Rightarrow> addr \<Rightarrow> addr list" where "kids h a = childNodes (nodes h ! a)"
definition par :: "heap \<Rightarrow> addr \<Rightarrow> addr option" where "par h a = parentNode (nodes h ! a)"
definition knd :: "heap \<Rightarrow> addr \<Rightarrow> node_kind" where "knd h a = kind_of (nodes h ! a)"
definition size_of :: "heap \<Rightarrow> nat" where "size_of h = length (nodes h)"

definition forest :: "heap \<Rightarrow> bool" where
  "forest h \<longleftrightarrow> \<not> broken h \<and> (\<forall>a < size_of h. distinct (kids h a) \<and> (kids h a \<noteq> [] \<longrightarrow> has_children (knd h a)) \<and>
     (\<forall>c \<in> set (kids h a). c < size_of h \<and> par h c = Some a) \<and>
     (\<forall>p. par h a = Some p \<longrightarrow> p < size_of h \<and> a \<in> set (kids h p)))"

lemmas heap_view = kids_def par_def knd_def size_of_def

lemma getChildNodes_kids: "a < size_of h \<Longrightarrow> getChildNodes h a = kids h a"
  by (simp add: getChildNodes_def node_at_def heap_view)

lemma getParentNode_par: "a < size_of h \<Longrightarrow> getParentNode h a = par h a"
  by (simp add: getParentNode_def node_at_def heap_view)

lemma set_children_frame:
  assumes "a < size_of h" and "has_children (knd h a)"
  shows "size_of (set_children a cs h) = size_of h" "broken (set_children a cs h) = broken h"
    "knd (set_children a cs h) b = knd h b" "par (set_children a cs h) b = par h b"
    "kids (set_children a cs h) b = (if b = a then cs else kids h b)"
  using assms by (auto simp: set_children_def node_at_def set_node_def heap_view nth_list_update)

lemma set_parent_frame:
  assumes "a < size_of h"
  shows "size_of (set_parent a p h) = size_of h" "broken (set_parent a p h) = broken h"
    "knd (set_parent a p h) b = knd h b" "kids (set_parent a p h) b = kids h b"
    "par (set_parent a p h) b = (if b = a then p else par h b)"
  using assms by (auto simp: set_parent_def node_at_def set_node_def heap_view nth_list_update)

lemma forestD:
  assumes "forest h"
  shows "\<not> broken h" "a < size_of h \<Longrightarrow> distinct (kids h a)" "a < size_of h \<Longrightarrow> kids h a \<noteq> [] \<Longrightarrow> has_children (knd h a)"
    "a < size_of h \<Longrightarrow> c \<in> set (kids h a) \<Longrightarrow> c < size_of h \<and> par h c = Some a"
    "a < size_of h \<Longrightarrow> par h a = Some p \<Longrightarrow> p < size_of h \<and> a \<in> set (kids h p)"
  using assms unfolding forest_def by blast+

text \<open>Setting the children of one node and the parent of another.\<close>

lemma link_frame:
  assumes "e < size_of h" and "has_children (knd h e)" and "t < size_of h"
  shows "size_of (set_parent t p (set_children e cs h)) = size_of h"
    "broken (set_parent t p (set_children e cs h)) = broken h"
    "knd (set_parent t p (set_children e cs h)) b = knd h b"
    "kids (set_parent t p (set_children e cs h)) b = (if b = e then cs else kids h b)"
    "par (set_parent t p (set_children e cs h)) b = (if b = t then p else par h b)"
proof -
  have t: "t < size_of (set_children e cs h)" using set_children_frame(1) [OF assms(1,2)] assms(3) by simp
  note s = set_parent_frame [OF t] set_children_frame [OF assms(1,2)]
  show "size_of (set_parent t p (set_children e cs h)) = size_of h"
    "broken (set_parent t p (set_children e cs h)) = broken h"
    "knd (set_parent t p (set_children e cs h)) b = knd h b"
    "kids (set_parent t p (set_children e cs h)) b = (if b = e then cs else kids h b)"
    "par (set_parent t p (set_children e cs h)) b = (if b = t then p else par h b)"
    unfolding s by (rule refl)+
qed

text \<open>Putting a node without a parent among the children of another one.\<close>

lemma attach_forest:
  assumes "forest h" and "e < size_of h" and "has_children (knd h e)" and "t < size_of h" and "par h t = None"
    and "distinct cs" and "set cs = insert t (set (kids h e))"
  shows "forest (set_parent t (Some e) (set_children e cs h))"
proof -
  let ?h = "set_parent t (Some e) (set_children e cs h)"
  note f = link_frame [OF assms(2-4), of "Some e" cs]
  note o = forestD [OF assms(1)]
  have n: "t \<notin> set (kids h a)" if "a < size_of h" for a using o(4) [OF that] assms(5) by fastforce
  show ?thesis unfolding forest_def
  proof (intro conjI allI impI ballI)
    show "\<not> broken ?h" using o(1) by (simp add: f)
    fix a assume "a < size_of ?h"
    then have a: "a < size_of h" by (simp add: f)
    show "distinct (kids ?h a)" using o(2) [OF a] assms(6) by (simp add: f)
    show "has_children (knd ?h a)" if "kids ?h a \<noteq> []" using that o(3) [OF a] assms(3) by (simp add: f split: if_splits)
    show "c < size_of ?h" "par ?h c = Some a" if "c \<in> set (kids ?h a)" for c
      using that o(4) [OF a, of c] assms(4,7) n [OF a] by (auto simp: f split: if_splits)
    show "p < size_of ?h" "a \<in> set (kids ?h p)" if "par ?h a = Some p" for p
      using that o(5) [OF a, of p] assms(2,7) by (auto simp: f split: if_splits)
  qed
qed

lemma appendChild_ok:
  assumes "forest h" and "e < size_of h" and "has_children (knd h e)" and "t < size_of h" and "par h t = None"
  shows "forest (appendChild e t h)" and "kids (appendChild e t h) b = (if b = e then kids h e @ [t] else kids h b)"
    and "par (appendChild e t h) b = (if b = t then Some e else par h b)"
    and "size_of (appendChild e t h) = size_of h" and "knd (appendChild e t h) b = knd h b"
proof -
  have u: "appendChild e t h = set_parent t (Some e) (set_children e (kids h e @ [t]) h)"
    using assms(2) by (simp add: appendChild_def getChildNodes_kids)
  have "t \<notin> set (kids h e)" "distinct (kids h e)" using forestD(2,4) [OF assms(1,2)] assms(5) by fastforce+
  then show "forest (appendChild e t h)" unfolding u by (intro attach_forest [OF assms]) auto
  show "kids (appendChild e t h) b = (if b = e then kids h e @ [t] else kids h b)"
    "par (appendChild e t h) b = (if b = t then Some e else par h b)"
    "size_of (appendChild e t h) = size_of h" "knd (appendChild e t h) b = knd h b"
    unfolding u link_frame [OF assms(2-4)] by (rule refl)+
qed

lemma insertBefore_ok:
  assumes "forest h" and "e < size_of h" and "has_children (knd h e)" and "t < size_of h" and "par h t = None"
    and "n \<in> set (kids h e)"
  shows "forest (insertBefore e t n h)"
    and "\<exists>xs ys. kids h e = xs @ n # ys \<and> kids (insertBefore e t n h) e = xs @ t # n # ys"
proof -
  have t: "t \<notin> set (kids h e)" "distinct (kids h e)" using forestD(2,4) [OF assms(1,2)] assms(5) by fastforce+
  obtain xs ys where s: "kids h e = xs @ n # ys" "splice_insert (indexOf (kids h e) n) t (kids h e) = xs @ t # n # ys"
    using splice_insert_found [OF assms(6) refl] by metis
  have d: "distinct (xs @ t # n # ys)" "set (xs @ t # n # ys) = insert t (set (kids h e))" using t by (auto simp: s(1))
  have k: "insertBefore e t n h = set_parent t (Some e) (set_children e (xs @ t # n # ys) h)"
    using assms(2) by (simp only: insertBefore_def getChildNodes_kids s(2) Let_def)
  show "forest (insertBefore e t n h)" unfolding k by (rule attach_forest [OF assms(1-5) d])
  show "\<exists>xs ys. kids h e = xs @ n # ys \<and> kids (insertBefore e t n h) e = xs @ t # n # ys"
    unfolding k link_frame [OF assms(2-4)] using s(1) by auto
qed

lemma detachNode_ok:
  assumes "forest h" and "e < size_of h"
  shows "forest (detachNode e h)"
    and "kids (detachNode e h) b = (if par h e = Some b then remove1 e (kids h b) else kids h b)"
    and "par (detachNode e h) b = (if b = e then None else par h b)"
    and "size_of (detachNode e h) = size_of h" and "knd (detachNode e h) b = knd h b"
proof -
  have a: "detachNode e h = (case par h e of None \<Rightarrow> h
      | Some p \<Rightarrow> set_parent e None (set_children p (splice_remove (indexOf (getChildNodes h p) e) (getChildNodes h p)) h))"
    using assms(2) by (simp add: detachNode_def node_at_def heap_view Let_def split: option.split)
  have "forest (detachNode e h) \<and> kids (detachNode e h) b = (if par h e = Some b then remove1 e (kids h b) else kids h b) \<and>
      par (detachNode e h) b = (if b = e then None else par h b) \<and> size_of (detachNode e h) = size_of h \<and>
      knd (detachNode e h) b = knd h b"
  proof (cases "par h e")
    case None
    then show ?thesis using assms(1) by (simp add: a)
  next
    case (Some p)
    note o = forestD [OF assms(1)]
    have p: "p < size_of h" "e \<in> set (kids h p)" using o(5) [OF assms(2) Some] by auto
    have c: "has_children (knd h p)" using o(3) [OF p(1)] p(2) by fastforce
    have d: "distinct (kids h p)" by (rule o(2) [OF p(1)])
    have u: "detachNode e h = set_parent e None (set_children p (remove1 e (kids h p)) h)"
      using Some p splice_remove_found [OF d p(2)] by (simp add: a getChildNodes_kids)
    note f = link_frame [OF p(1) c assms(2), of None "remove1 e (kids h p)"]
    have "forest (detachNode e h)" unfolding forest_def
    proof (intro conjI allI impI ballI)
      show "\<not> broken (detachNode e h)" using o(1) by (simp add: u f)
      fix a assume "a < size_of (detachNode e h)"
      then have a: "a < size_of h" by (simp add: u f)
      show "distinct (kids (detachNode e h) a)" using o(2) [OF a] d by (simp add: u f)
      show "has_children (knd (detachNode e h) a)" if "kids (detachNode e h) a \<noteq> []"
        using that o(3) [OF a] c by (simp add: u f split: if_splits)
      show "x < size_of (detachNode e h)" "par (detachNode e h) x = Some a" if "x \<in> set (kids (detachNode e h) a)" for x
        using that o(4) [OF a, of x] d Some by (auto simp: u f split: if_splits dest: notin_set_remove1)
      show "q < size_of (detachNode e h)" "a \<in> set (kids (detachNode e h) q)" if "par (detachNode e h) a = Some q" for q
        using that o(5) [OF a, of q] by (auto simp: u f split: if_splits)
    qed
    then show ?thesis using Some by (simp add: u f)
  qed
  then show "forest (detachNode e h)" "kids (detachNode e h) b = (if par h e = Some b then remove1 e (kids h b) else kids h b)"
      "par (detachNode e h) b = (if b = e then None else par h b)" "size_of (detachNode e h) = size_of h"
      "knd (detachNode e h) b = knd h b"
    by blast+
qed

section \<open>Composed operations\<close>

lemma alloc_frame:
  "size_of (snd (alloc k h)) = Suc (size_of h)" "fst (alloc k h) = size_of h" "broken (snd (alloc k h)) = broken h"
  "b < size_of h \<Longrightarrow> kids (snd (alloc k h)) b = kids h b" "b < size_of h \<Longrightarrow> par (snd (alloc k h)) b = par h b"
  "b < size_of h \<Longrightarrow> knd (snd (alloc k h)) b = knd h b"
  "kids (snd (alloc k h)) (size_of h) = []" "par (snd (alloc k h)) (size_of h) = None" "knd (snd (alloc k h)) (size_of h) = k"
  by (simp_all add: alloc_def heap_view nth_append)

lemma alloc_forest:
  assumes "forest h"
  shows "forest (snd (alloc k h))"
  unfolding forest_def
proof (intro conjI allI impI ballI)
  let ?g = "snd (alloc k h)"
  note f = alloc_frame [where k = k and h = h]
  note o = forestD [OF assms]
  show "\<not> broken ?g" using o(1) by (simp add: f)
  fix a assume "a < size_of ?g"
  then consider (old) "a < size_of h" | (new) "a = size_of h" by (auto simp: f less_Suc_eq)
  note cs = this
  show "distinct (kids ?g a)" using cs by cases (simp_all add: f o(2))
  show "has_children (knd ?g a)" if "kids ?g a \<noteq> []" using cs that by cases (simp_all add: f o(3))
  { fix c assume c: "c \<in> set (kids ?g a)"
    have a: "a < size_of h" using cs c by cases (simp_all add: f)
    then have "c < size_of h" "par h c = Some a" using c o(4) [OF a, of c] by (simp_all add: f)
    then show "c < size_of ?g" "par ?g c = Some a" by (simp_all add: f) }
  { fix p assume p: "par ?g a = Some p"
    have a: "a < size_of h" using cs p by cases (simp_all add: f)
    then have "p < size_of h" "a \<in> set (kids h p)" using p o(5) [OF a, of p] by (simp_all add: f)
    then show "p < size_of ?g" "a \<in> set (kids ?g p)" by (simp_all add: f) }
qed

lemma add_text_forest:
  assumes "forest h" and "a < size_of h" and "isTextNode h a"
  shows "forest (add_text a s h)"
proof -
  obtain v where v: "knd h a = Text v"
    using assms(2,3) by (auto simp: isTextNode_def node_at_def heap_view split: node_kind.splits)
  then have u: "add_text a s h = set_node a ((nodes h ! a)\<lparr>kind_of := Text (v @ s)\<rparr>) h"
    using assms(2) by (simp add: add_text_def node_at_def heap_view)
  have f: "size_of (add_text a s h) = size_of h" "broken (add_text a s h) = broken h" "kids (add_text a s h) b = kids h b"
      "par (add_text a s h) b = par h b" "has_children (knd (add_text a s h) b) = has_children (knd h b)" for b
    using assms(2) v unfolding u by (auto simp: set_node_def heap_view nth_list_update)
  show ?thesis using assms(1) unfolding forest_def f .
qed

lemma insertText_forest:
  assumes "forest h" and "e < size_of h" and "has_children (knd h e)"
  shows "forest (insertText e s h)"
proof (cases "kids h e \<noteq> [] \<and> isTextNode h (last (kids h e))")
  case True
  then have "last (kids h e) < size_of h" using forestD(4) [OF assms(1,2)] by auto
  then show ?thesis using True add_text_forest [OF assms(1)] assms(2)
    by (simp add: insertText_def getChildNodes_kids Let_def)
next
  case False
  let ?g = "snd (alloc (Text s) h)"
  have "insertText e s h = appendChild e (size_of h) ?g"
    using False assms(2) by (auto simp: insertText_def getChildNodes_kids Let_def createTextNode_def alloc_frame(2) split: prod.split)
      (metis alloc_frame(2) fst_conv snd_conv)+
  moreover have "forest (appendChild e (size_of h) ?g)"
    using assms by (intro appendChild_ok alloc_forest) (simp_all add: alloc_frame)
  ultimately show ?thesis by simp
qed

lemma adopt_nodes_ok:
  assumes "forest h" and "d < size_of h" and "r < size_of h" and "d \<noteq> r" and "has_children (knd h r)"
  shows "forest (adopt_nodes (length (kids h d)) d r h) \<and> kids (adopt_nodes (length (kids h d)) d r h) d = [] \<and>
     kids (adopt_nodes (length (kids h d)) d r h) r = kids h r @ kids h d"
  using assms
proof (induction "kids h d" arbitrary: h)
  case Nil
  have "getFirstChild h d = None" using Nil.hyps [symmetric] Nil.prems(2) by (simp add: getFirstChild_def getChildNodes_kids)
  then have "adopt_nodes n d r h = h" for n by (simp add: adopt_nodes.simps)
  then show ?case using Nil.hyps [symmetric] Nil.prems by simp
next
  case (Cons c cs)
  note k = Cons.hyps(2) [symmetric]
  have c: "c < size_of h" "par h c = Some d" using forestD(4) [OF Cons.prems(1,2), of c] k by auto
  let ?h1 = "detachNode c h" and ?h2 = "appendChild r c (detachNode c h)"
  note d = detachNode_ok [OF Cons.prems(1) c(1)]
  have a: "forest ?h1" "r < size_of ?h1" "has_children (knd ?h1 r)" "c < size_of ?h1" "par ?h1 c = None"
    using d Cons.prems c by simp_all
  note e = appendChild_ok [OF a]
  have "kids ?h2 d = cs" "kids ?h2 r = kids h r @ [c]" using Cons.prems(4) c k by (simp_all add: e d)
  moreover have "forest (adopt_nodes (length (kids ?h2 d)) d r ?h2) \<and> kids (adopt_nodes (length (kids ?h2 d)) d r ?h2) d = [] \<and>
     kids (adopt_nodes (length (kids ?h2 d)) d r ?h2) r = kids ?h2 r @ kids ?h2 d"
    using Cons.prems calculation by (intro Cons.hyps(1)) (simp_all add: e d)
  moreover have "adopt_nodes (length (kids h d)) d r h = adopt_nodes (length cs) d r ?h2"
    using k Cons.prems(2) by (subst adopt_nodes.simps) (simp add: getFirstChild_def getChildNodes_kids)
  ultimately show ?case using k by simp
qed


lemma empty_forest: "forest empty_heap"
  by (simp add: forest_def empty_heap_def size_of_def)


end
