(* ===== verification/Distinct_Check.thy ===== *)
theory Distinct_Check
  imports Html_Codes
begin

text \<open>
  Deciding by rewriting that a long list of strings has no repetition: the list is split by one bit
  of one character after the other until every part has one element. The functions are tail
  recursive and branch by pattern matching, so that the simplifier passes over the list once per bit.
\<close>

fun split_step :: "bool \<Rightarrow> ('a \<Rightarrow> bool) \<Rightarrow> 'a \<Rightarrow> 'a list \<Rightarrow> 'a list \<Rightarrow> 'a list \<Rightarrow> 'a list \<times> 'a list"
  and split_by :: "('a \<Rightarrow> bool) \<Rightarrow> 'a list \<Rightarrow> 'a list \<Rightarrow> 'a list \<Rightarrow> 'a list \<times> 'a list" where
  "split_step True p x xs ys zs = split_by p xs (x # ys) zs"
| "split_step False p x xs ys zs = split_by p xs ys (x # zs)"
| "split_by p [] ys zs = (ys, zs)"
| "split_by p (x # xs) ys zs = split_step (p x) p x xs ys zs"

definition weight :: "(('a \<Rightarrow> bool) list \<times> 'a list) list \<Rightarrow> nat" where
  "weight w = (\<Sum>(qs, _)\<leftarrow>w. 3 ^ length qs)"

lemma weight_simps [simp]:
  "weight [] = 0" "weight ((qs, xs) # w) = 3 ^ length qs + weight w"
  by (simp_all add: weight_def)

function split_pair :: "'a list \<times> 'a list \<Rightarrow> ('a \<Rightarrow> bool) list \<Rightarrow> (('a \<Rightarrow> bool) list \<times> 'a list) list \<Rightarrow> bool"
  and split_distinct :: "(('a \<Rightarrow> bool) list \<times> 'a list) list \<Rightarrow> bool" where
  "split_pair (ys, zs) ps w = split_distinct ((ps, ys) # (ps, zs) # w)"
| "split_distinct [] = True"
| "split_distinct ((ps, []) # w) = split_distinct w"
| "split_distinct ((ps, [x]) # w) = split_distinct w"
| "split_distinct (([], x # y # xs) # w) = False"
| "split_distinct ((p # ps, x # y # xs) # w) = split_pair (split_by p (x # y # xs) [] []) ps w"
  by pat_completeness auto
termination
  by (relation "measure (\<lambda>a. case a of Inl (_, ps, w) \<Rightarrow> 3 * (weight w + 2 * 3 ^ length ps) + 1
     | Inr w \<Rightarrow> 3 * weight w)") (auto simp: Suc_lessI)

lemma split_by_filter:
  "split_step b p x xs ys zs =
     (rev (filter p xs) @ (if b then x # ys else ys), rev (filter (\<lambda>x. \<not> p x) xs) @ (if b then zs else x # zs))"
  "split_by p xs ys zs = (rev (filter p xs) @ ys, rev (filter (\<lambda>x. \<not> p x) xs) @ zs)"
  by (induction b p x xs ys zs and p xs ys zs rule: split_step_split_by.induct) auto

lemma distinct_filters:
  assumes "distinct (filter p xs)" and "distinct (filter (\<lambda>x. \<not> p x) xs)"
  shows "distinct xs"
  using assms by (induction xs) (auto split: if_splits)

lemma split_distinct_sound:
  "split_pair yz ps w \<Longrightarrow> distinct (fst yz) \<and> distinct (snd yz) \<and> (\<forall>(qs, xs) \<in> set w. distinct xs)"
  "split_distinct w \<Longrightarrow> \<forall>(qs, xs) \<in> set w. distinct xs"
proof (induction yz ps w and w rule: split_pair_split_distinct.induct)
  case (6 p ps x y xs w)
  let ?l = "x # y # xs"
  have "distinct (rev (filter p ?l)) \<and> distinct (rev (filter (\<lambda>x. \<not> p x) ?l)) \<and>
      (\<forall>(qs, xs) \<in> set w. distinct xs)"
    using "6.IH" "6.prems" by (simp add: split_by_filter del: filter.simps rev.simps)
  then show ?case using distinct_filters [of p ?l] by (auto simp del: filter.simps)
qed auto

text \<open>One bit of the character at index \<open>i\<close>.\<close>

definition char_digit :: "nat \<Rightarrow> (char \<Rightarrow> bool) \<Rightarrow> string \<Rightarrow> bool" where
  "char_digit i d s = (case drop i s of [] \<Rightarrow> False | c # _ \<Rightarrow> d c)"

definition string_splitters :: "(string \<Rightarrow> bool) list" where
  "string_splitters = concat (map (\<lambda>i. map (char_digit i)
     [digit0, digit1, digit2, digit3, digit4, digit5]) [0..<26])"

definition distinct_strings :: "string list \<Rightarrow> bool" where
  "distinct_strings xs = split_distinct [(string_splitters, xs)]"

lemma distinct_strings_sound: "distinct_strings xs \<Longrightarrow> distinct xs"
  using split_distinct_sound(2) [of "[(string_splitters, xs)]"] by (simp add: distinct_strings_def)

text \<open>Likewise, that a string is not in a list.\<close>

fun absent_step :: "bool \<Rightarrow> string \<Rightarrow> string list \<Rightarrow> bool" and absent :: "string \<Rightarrow> string list \<Rightarrow> bool" where
  "absent_step True k xs = False"
| "absent_step False k xs = absent k xs"
| "absent k [] = True"
| "absent k (x # xs) = absent_step (x = k) k xs"

lemma absent_sound: "absent_step b k xs \<Longrightarrow> \<not> b \<and> k \<notin> set xs" "absent k xs \<Longrightarrow> k \<notin> set xs"
  by (induction b k xs and k xs rule: absent_step_absent.induct) auto

section \<open>Lower case of literals\<close>

fun lower_char :: "char \<Rightarrow> char" where
  "lower_char (Char b0 b1 b2 b3 b4 b5 b6 b7) =
     Char b0 b1 b2 b3 b4
       (b5 \<or> \<not> b7 \<and> b6 \<and> (b0 \<or> b1 \<or> b2 \<or> b3 \<or> b4) \<and>
        \<not> (b4 \<and> b3 \<and> (b2 \<or> b1 \<and> b0))) b6 b7"

definition lower_string :: "string \<Rightarrow> string" where
  "lower_string s = map lower_char s"

lemma of_char_lower:
  "of_char (lower_char c) = (let u = of_char c :: nat in if 65 \<le> u \<and> u \<le> 90 then u + 32 else u)"
  by (cases c; simp add: Let_def split: if_splits)

end
