(* ===== verification/Hast_Schema.thy ===== *)
theory Hast_Schema
  imports Html_Tags Distinct_Check
begin

text \<open>
  Schemas of attribute names (\<^verbatim>\<open>property-information\<close> inside \<^verbatim>\<open>src/api/scalar.standalone.js\<close>): the
  properties of a syntax tree, the attributes they stand for, how a table is built from its
  definition (\<open>_f\<close>), merged (\<open>lf\<close>) and searched (\<open>Lf\<close>). The search uses a global regular
  expression with its \<open>lastIndex\<close>, which the source keeps between calls: it is an argument and a
  result of the search here.
\<close>

unbundle bit_operations_syntax

section \<open>Kinds of values\<close>

text \<open>\<open>yf\<close> counts \<open>df\<close> up and returns \<open>2 ** df\<close>: one bit for each kind, in the order of the calls.\<close>

definition yf :: "nat \<Rightarrow> nat" where "yf n = 2 ^ n"

definition pf :: nat where "pf = yf 1"
definition hf :: nat where "hf = yf 2"
definition ff :: nat where "ff = yf 3"
definition mf :: nat where "mf = yf 4"
definition gf :: nat where "gf = yf 5"
definition vf :: nat where "vf = yf 6"
definition bf :: nat where "bf = yf 7"

lemmas kind_defs = yf_def pf_def hf_def ff_def mf_def gf_def vf_def bf_def

text \<open>
  Classes \<open>uf\<close> and \<open>xf\<close>: what is known about a property. A field the constructor leaves alone has
  the value of the prototype.
\<close>

record info =
  property :: jsstr
  attribute :: jsstr
  info_space :: "jsstr option"
  boolean :: bool
  booleanish :: bool
  overloadedBoolean :: bool
  number :: bool
  commaSeparated :: bool
  spaceSeparated :: bool
  commaOrSpaceSeparated :: bool
  mustUseProperty :: bool
  defined :: bool

definition new_uf :: "jsstr \<Rightarrow> jsstr \<Rightarrow> info" where
  "new_uf p a = \<lparr>property = p, attribute = a, info_space = None, boolean = False, booleanish = False,
     overloadedBoolean = False, number = False, commaSeparated = False, spaceSeparated = False,
     commaOrSpaceSeparated = False, mustUseProperty = False, defined = False\<rparr>"

text \<open>\<open>(n & f) === f\<close>, for a mask that is a number.\<close>

definition has_kind :: "nat option \<Rightarrow> nat \<Rightarrow> bool" where
  "has_kind kinds f = (case kinds of Some n \<Rightarrow> n AND f = f | None \<Rightarrow> False)"

definition new_xf :: "jsstr \<Rightarrow> jsstr \<Rightarrow> nat option \<Rightarrow> jsstr option \<Rightarrow> info" where
  "new_xf p a kinds sp = (new_uf p a)\<lparr>info_space := sp, boolean := has_kind kinds pf,
     booleanish := has_kind kinds hf, overloadedBoolean := has_kind kinds ff, number := has_kind kinds mf,
     commaSeparated := has_kind kinds vf, spaceSeparated := has_kind kinds gf,
     commaOrSpaceSeparated := has_kind kinds bf, defined := True\<rparr>"

section \<open>Building a schema\<close>

text \<open>
  Class \<open>sf\<close>. The two objects are association lists: an assignment puts its pair in front, so that
  \<^const>\<open>map_of\<close> reads the latest one.
\<close>

record schema =
  s_property :: "(jsstr \<times> info) list"
  s_normal :: "(jsstr \<times> jsstr) list"
  s_space :: "jsstr option"

text \<open>The argument of \<open>_f\<close>, with the transformation applied to its table of attributes.\<close>

record schema_definition =
  d_space :: "jsstr option"
  d_transform :: "jsstr \<Rightarrow> jsstr"
  d_mustUseProperty :: "jsstr list"
  d_properties :: "(jsstr \<times> nat option) list"

text \<open>\<open>cf\<close> is \<open>toLowerCase\<close>. The names of a table are ASCII.\<close>

definition table_info :: "schema_definition \<Rightarrow> jsstr \<times> nat option \<Rightarrow> info" where
  "table_info d = (\<lambda>(r, kinds). (new_xf r (d_transform d r) kinds (d_space d))
     \<lparr>mustUseProperty := (r \<in> set (d_mustUseProperty d))\<rparr>)"

definition create_step :: "schema_definition \<Rightarrow> jsstr \<times> nat option \<Rightarrow> schema \<Rightarrow> schema" where
  "create_step d p sch = (let r = fst p; a = table_info d p in
     sch\<lparr>s_property := (r, a) # s_property sch,
         s_normal := (ascii_lower (attribute a), r) # (ascii_lower r, r) # s_normal sch\<rparr>)"

definition create :: "schema_definition \<Rightarrow> schema" where
  "create d = fold (create_step d) (d_properties d)
     \<lparr>s_property = [], s_normal = [], s_space = d_space d\<rparr>"

definition merge_schemas :: "schema list \<Rightarrow> jsstr \<Rightarrow> schema" where
  "merge_schemas ss sp =
     \<lparr>s_property = fold (\<lambda>s n. s_property s @ n) ss [],
      s_normal = fold (\<lambda>s n. s_normal s @ n) ss [],
      s_space = Some sp\<rparr>"

text \<open>\<open>Cf\<close> and \<open>Af\<close>: the attribute listed for a property, or its own name.\<close>

definition caseSensitiveTransform :: "(jsstr \<times> jsstr) list \<Rightarrow> jsstr \<Rightarrow> jsstr" where
  "caseSensitiveTransform names t = (case map_of names t of Some a \<Rightarrow> a | None \<Rightarrow> t)"

definition caseInsensitiveTransform :: "(jsstr \<times> jsstr) list \<Rightarrow> jsstr \<Rightarrow> jsstr" where
  "caseInsensitiveTransform names t = caseSensitiveTransform names (ascii_lower t)"

section \<open>Searching a schema: \<open>Lf\<close>\<close>

definition is_az :: "nat \<Rightarrow> bool" where "is_az u \<longleftrightarrow> 97 \<le> u \<and> u \<le> 122"
definition is_AZ :: "nat \<Rightarrow> bool" where "is_AZ u \<longleftrightarrow> 65 \<le> u \<and> u \<le> 90"

text \<open>The characters of \<open>[-\w.:]\<close>.\<close>

definition is_data_char :: "nat \<Rightarrow> bool" where
  "is_data_char u \<longleftrightarrow> u = 45 \<or> is_az u \<or> is_AZ u \<or> (48 \<le> u \<and> u \<le> 57) \<or> u = 95 \<or> u = 46 \<or> u = 58"

text \<open>\<open>Nf = /^data[-\w.:]+$/i\<close>.\<close>

definition Nf_test :: "jsstr \<Rightarrow> bool" where
  "Nf_test t \<longleftrightarrow> 4 < length t \<and> ascii_lower (take 4 t) = js ''data'' \<and> list_all is_data_char (drop 4 t)"

text \<open>\<open>Mf = /-[a-z]/g\<close>: where the first match in a suffix that starts at index \<open>i\<close> ends.\<close>

fun Mf_match :: "nat \<Rightarrow> jsstr \<Rightarrow> nat option" where
  "Mf_match i (a # b # s) = (if a = 45 \<and> is_az b then Some (i + 2) else Mf_match (i + 1) (b # s))"
| "Mf_match i s = None"

text \<open>\<open>Mf.test(s)\<close> searches from \<open>lastIndex\<close> and moves it behind the match, or to 0.\<close>

definition Mf_test :: "nat \<Rightarrow> jsstr \<Rightarrow> bool \<times> nat" where
  "Mf_test lastIndex s =
     (if length s < lastIndex then (False, 0)
      else case Mf_match lastIndex (drop lastIndex s) of Some j \<Rightarrow> (True, j) | None \<Rightarrow> (False, 0))"

text \<open>\<open>s.replace(Mf, Bf)\<close> and \<open>s.replace(If, jf)\<close>.\<close>

definition Bf :: "nat \<Rightarrow> nat" where "Bf b = b - 32"

fun replace_Mf :: "jsstr \<Rightarrow> jsstr" where
  "replace_Mf (a # b # s) = (if a = 45 \<and> is_az b then Bf b # replace_Mf s else a # replace_Mf (b # s))"
| "replace_Mf s = s"

definition jf :: "nat \<Rightarrow> jsstr" where "jf u = [45, u + 32]"

definition replace_If :: "jsstr \<Rightarrow> jsstr" where
  "replace_If s = concat (map (\<lambda>u. if is_AZ u then jf u else [u]) s)"

text \<open>\<open>s.charAt(0).toUpperCase() + s.slice(1)\<close> on a string of ASCII characters.\<close>

definition upper_first :: "jsstr \<Rightarrow> jsstr" where
  "upper_first s = (case s of [] \<Rightarrow> [] | u # r \<Rightarrow> (if is_az u then u - 32 else u) # r)"

text \<open>The names a plain object inherits: \<open>n in e.normal\<close> holds for them too.\<close>

definition object_prototype :: "jsstr list" where
  "object_prototype = [js ''constructor'', js ''__defineGetter__'', js ''__defineSetter__'',
     js ''hasOwnProperty'', js ''__lookupGetter__'', js ''__lookupSetter__'', js ''isPrototypeOf'',
     js ''propertyIsEnumerable'', js ''toString'', js ''valueOf'', js ''__proto__'', js ''toLocaleString'']"

definition data_property :: "jsstr \<Rightarrow> jsstr" where
  "data_property t = js ''data'' @ upper_first (replace_Mf (drop 5 t))"

definition data_attribute :: "jsstr \<Rightarrow> jsstr" where
  "data_attribute t = (let n = replace_If (drop 4 t) in
     js ''data'' @ (if startsWith n [45] then n else 45 # n))"

text \<open>
  \<open>Lf(e, t)\<close> with the \<open>lastIndex\<close> of \<open>Mf\<close> before and after; \<open>low\<close> is \<open>toLowerCase\<close>. The result is
  \<open>undefined\<close> (\<open>None\<close>) for a name only the prototype has: its value there is no key of the table.
\<close>

definition Lf :: "(jsstr \<Rightarrow> jsstr) \<Rightarrow> schema \<Rightarrow> jsstr \<Rightarrow> nat \<Rightarrow> info option \<times> nat" where
  "Lf low sch t lastIndex =
     (let n = low t in
      case map_of (s_normal sch) n of
        Some r \<Rightarrow> (map_of (s_property sch) r, lastIndex)
      | None \<Rightarrow>
          if n \<in> set object_prototype then (None, lastIndex)
          else if 4 < length n \<and> take 4 n = js ''data'' \<and> Nf_test t then
            (if t ! 4 = 45 then (Some (new_xf (data_property t) t None None), 0)
             else case Mf_test lastIndex (drop 4 t) of
               (True, j) \<Rightarrow> (Some (new_xf t t None None), j)
             | (False, j) \<Rightarrow> (Some (new_xf t (data_attribute t) None None), j))
          else (Some (new_uf t t), lastIndex))"

section \<open>What building a schema gives\<close>

lemma fold_create:
  "s_property (fold (create_step d) ps s) = rev (map (\<lambda>p. (fst p, table_info d p)) ps) @ s_property s"
  "set (s_normal (fold (create_step d) ps s)) = set (s_normal s) \<union>
     (\<Union>p \<in> set ps. {(ascii_lower (fst p), fst p), (ascii_lower (attribute (table_info d p)), fst p)})"
  by (induction ps arbitrary: s) (auto simp: create_step_def Let_def)

lemma create_property: "s_property (create d) = rev (map (\<lambda>p. (fst p, table_info d p)) (d_properties d))"
  by (simp add: create_def fold_create)

lemma create_normal:
  "set (s_normal (create d)) = (\<Union>p \<in> set (d_properties d).
     {(ascii_lower (fst p), fst p), (ascii_lower (attribute (table_info d p)), fst p)})"
  by (simp add: create_def fold_create)

lemma fold_append: "fold (\<lambda>s n. f s @ n) ss xs = concat (rev (map f ss)) @ xs"
  by (induction ss arbitrary: xs) auto

lemma merge_fields:
  "s_property (merge_schemas ss sp) = concat (rev (map s_property ss))"
  "s_normal (merge_schemas ss sp) = concat (rev (map s_normal ss))"
  by (simp_all add: merge_schemas_def fold_append)

lemma table_info_property [simp]: "property (table_info d p) = fst p"
  by (simp add: table_info_def new_xf_def new_uf_def split: prod.split)

lemma table_info_attribute [simp]: "attribute (table_info d p) = d_transform d (fst p)"
  by (simp add: table_info_def new_xf_def new_uf_def split: prod.split)

text \<open>An association list without two values for a key.\<close>

definition functional :: "('k \<times> 'v) list \<Rightarrow> bool" where
  "functional xs \<longleftrightarrow> (\<forall>(k, v) \<in> set xs. \<forall>(k', v') \<in> set xs. k = k' \<longrightarrow> v = v')"

lemma map_of_functional:
  assumes "functional xs" and "(k, v) \<in> set xs"
  shows "map_of xs k = Some v"
proof -
  obtain v' where "map_of xs k = Some v'" using assms(2) weak_map_of_SomeI by fastforce
  then show ?thesis using assms map_of_SomeD [of xs k v'] by (auto simp: functional_def)
qed

text \<open>
  A schema is consistent when no key leads to two names and every name leads to one description,
  whose name and attribute are keys of it.
\<close>

definition consistent :: "schema \<Rightarrow> bool" where
  "consistent sch \<longleftrightarrow> functional (s_normal sch) \<and> functional (s_property sch) \<and>
     (\<forall>(r, i) \<in> set (s_property sch). property i = r \<and>
        (ascii_lower r, r) \<in> set (s_normal sch) \<and> (ascii_lower (attribute i), r) \<in> set (s_normal sch))"

lemma consistent_merge:
  assumes "functional (concat (rev (map s_normal (map create ds))))"
    and "distinct (concat (map (\<lambda>d. map fst (d_properties d)) ds))"
  shows "consistent (merge_schemas (map create ds) sp)"
proof -
  let ?s = "merge_schemas (map create ds) sp"
  have known: "property i = r \<and> (ascii_lower r, r) \<in> set (s_normal ?s) \<and>
      (ascii_lower (attribute i), r) \<in> set (s_normal ?s)" if "(r, i) \<in> set (s_property ?s)" for r i
    using that by (force simp: merge_fields create_property create_normal)
  have "map fst (s_property ?s) = rev (concat (map (\<lambda>d. map fst (d_properties d)) ds))"
    by (simp add: merge_fields create_property rev_map map_concat rev_concat comp_def)
  then have "distinct (map fst (s_property ?s))" using assms(2) by simp
  then have "functional (s_property ?s)" by (auto simp: functional_def dest: eq_key_imp_eq_value)
  then show ?thesis using known assms(1) by (auto simp: consistent_def merge_fields)
qed

text \<open>Searching a consistent schema by a name with the lower-case form of the name or the attribute.\<close>

definition ascii :: "jsstr \<Rightarrow> bool" where "ascii s \<longleftrightarrow> list_all (\<lambda>u. u < 128) s"

definition lowers_ascii :: "(jsstr \<Rightarrow> jsstr) \<Rightarrow> bool" where
  "lowers_ascii low \<longleftrightarrow> (\<forall>s. ascii s \<longrightarrow> low s = ascii_lower s)"

lemma Lf_known:
  assumes "consistent sch" and "map_of (s_property sch) r = Some i"
    and "low t = ascii_lower r \<or> low t = ascii_lower (attribute i)"
  shows "Lf low sch t li = (Some i, li)"
proof -
  have "(r, i) \<in> set (s_property sch)" using assms(2) by (rule map_of_SomeD)
  then have "(low t, r) \<in> set (s_normal sch)" using assms(1,3) by (force simp: consistent_def)
  then have "map_of (s_normal sch) (low t) = Some r"
    using assms(1) by (simp add: consistent_def map_of_functional)
  then show ?thesis using assms(2) by (simp add: Lf_def Let_def)
qed

end
