(* ===== verification/Hast_Tree.thy ===== *)
theory Hast_Tree
  imports Hast_Schema
begin

text \<open>
  The syntax tree of the markdown pipeline (\<^verbatim>\<open>hast\<close>) and the values of its properties. A number is
  represented by the text \<open>String(n)\<close> prints for it. Positions and \<open>data\<close> fields are left out.
\<close>

datatype hvalue =
  HStr jsstr
| HNum jsstr
| HBool bool
| HNull
| HArr "hvalue list"
| HObj

text \<open>An element of the name \<open>template\<close> keeps its children in \<open>content\<close>.\<close>

datatype hast =
  HRoot "hast list"
| HElement jsstr "(jsstr \<times> hvalue) list" "hast list" "hast option"
| HText jsstr
| HComment jsstr
| HDoctype
| HRaw jsstr
| HOther jsstr "hast list"

text \<open>\<open>String(v)\<close>; the elements of a list are joined by commas, \<open>null\<close> in it is empty.\<close>

fun value_string :: "hvalue \<Rightarrow> jsstr" and element_strings :: "hvalue list \<Rightarrow> jsstr" where
  "value_string (HStr s) = s"
| "value_string (HNum s) = s"
| "value_string (HBool True) = js ''true''"
| "value_string (HBool False) = js ''false''"
| "value_string HNull = js ''null''"
| "value_string (HArr vs) = element_strings vs"
| "value_string HObj = js ''[object Object]''"
| "element_strings [] = []"
| "element_strings [v] = (if v = HNull then [] else value_string v)"
| "element_strings (v # w # vs) = (if v = HNull then [] else value_string v) @ [44] @ element_strings (w # vs)"

text \<open>\<open>Boolean(v)\<close>.\<close>

fun truth :: "hvalue \<Rightarrow> bool" where
  "truth (HStr s) \<longleftrightarrow> s \<noteq> []"
| "truth (HNum s) \<longleftrightarrow> s \<noteq> js ''0'' \<and> s \<noteq> js ''NaN''"
| "truth (HBool b) \<longleftrightarrow> b"
| "truth HNull \<longleftrightarrow> False"
| "truth (HArr vs) \<longleftrightarrow> True"
| "truth HObj \<longleftrightarrow> True"

fun is_primitive :: "hvalue \<Rightarrow> bool" where
  "is_primitive (HStr s) = True"
| "is_primitive (HNum s) = True"
| "is_primitive (HBool b) = True"
| "is_primitive v = False"

text \<open>\<open>v === w\<close> of primitive values: not-a-number is equal to nothing.\<close>

definition strict_equal :: "hvalue \<Rightarrow> hvalue \<Rightarrow> bool" where
  "strict_equal v w \<longleftrightarrow> is_primitive v \<and> v = w \<and> v \<noteq> HNum (js ''NaN'')"

text \<open>\<open>s.indexOf(p)\<close>, with \<open>None\<close> for \<open>-1\<close>.\<close>

fun index_of :: "jsstr \<Rightarrow> jsstr \<Rightarrow> nat option" where
  "index_of p [] = (if p = [] then Some 0 else None)"
| "index_of p (c # s) = (if startsWith (c # s) p then Some 0 else map_option Suc (index_of p s))"

text \<open>Induction over a tree and the lists of its nodes, the contents of templates included.\<close>

lemma hast_induct [case_names Root Element Text Comment Doctype Raw Other Nil Cons]:
  fixes P :: "hast \<Rightarrow> bool" and Q :: "hast list \<Rightarrow> bool"
  assumes "\<And>cs. Q cs \<Longrightarrow> P (HRoot cs)"
    and "\<And>n ps cs c. Q cs \<Longrightarrow> (\<And>t. c = Some t \<Longrightarrow> P t) \<Longrightarrow> P (HElement n ps cs c)"
    and "\<And>v. P (HText v)" and "\<And>v. P (HComment v)" and "P HDoctype" and "\<And>v. P (HRaw v)"
    and "\<And>t cs. Q cs \<Longrightarrow> P (HOther t cs)"
    and "Q []" and "\<And>c cs. P c \<Longrightarrow> Q cs \<Longrightarrow> Q (c # cs)"
  shows "P h" and "Q hs"
proof -
  have Q: "Q xs" if "\<And>x. x \<in> set xs \<Longrightarrow> P x" for xs
    using that assms(8,9) by (induction xs) auto
  have P: "P h" for h
    by (induction h) (use assms(1-7) Q in \<open>auto\<close>)
  show "P h" by (rule P)
  show "Q hs" using Q P by blast
qed

end
