(* ===== verification/Hast_Values.thy ===== *)
theory Hast_Values
  imports Hast_Tree
begin

text \<open>
  Lists in attribute values: comma-separated (\<open>Ff\<close>, \<open>zf\<close>) and space-separated (\<open>gh\<close>, \<open>vh\<close>), and the
  test for white space (\<open>Uh\<close>, \<open>Bh\<close>) of \<^verbatim>\<open>src/api/scalar.standalone.js\<close>.
\<close>

section \<open>White space\<close>

text \<open>The characters \<open>String.prototype.trim\<close> removes at both ends.\<close>

definition js_space :: "nat \<Rightarrow> bool" where
  "js_space u \<longleftrightarrow> (9 \<le> u \<and> u \<le> 13) \<or> u = 32 \<or> u = 160 \<or> u = 5760 \<or> (8192 \<le> u \<and> u \<le> 8202) \<or>
     u = 8232 \<or> u = 8233 \<or> u = 8239 \<or> u = 8287 \<or> u = 12288 \<or> u = 65279"

definition trim_start :: "jsstr \<Rightarrow> jsstr" where
  "trim_start s = dropWhile js_space s"

definition trim :: "jsstr \<Rightarrow> jsstr" where
  "trim s = rev (dropWhile js_space (rev (dropWhile js_space s)))"

text \<open>\<open>jh = /[ \t\n\f\r]/g\<close>.\<close>

definition html_space :: "nat \<Rightarrow> bool" where
  "html_space u \<longleftrightarrow> u = 32 \<or> u = 9 \<or> u = 10 \<or> u = 12 \<or> u = 13"

definition Uh :: "jsstr \<Rightarrow> bool" where
  "Uh s \<longleftrightarrow> filter (\<lambda>u. \<not> html_space u) s = []"

definition Bh :: "hast \<Rightarrow> bool" where
  "Bh e = (case e of HText v \<Rightarrow> Uh v | _ \<Rightarrow> False)"

section \<open>Splitting and joining\<close>

text \<open>The pieces between the separators.\<close>

fun split_on :: "(nat \<Rightarrow> bool) \<Rightarrow> jsstr \<Rightarrow> jsstr list" where
  "split_on p [] = [[]]"
| "split_on p (c # s) =
     (if p c then [] # split_on p s else case split_on p s of w # ws \<Rightarrow> (c # w) # ws | [] \<Rightarrow> [[c]])"

fun join :: "jsstr \<Rightarrow> jsstr list \<Rightarrow> jsstr" where
  "join sep [] = []"
| "join sep [s] = s"
| "join sep (s # t # ss) = s @ sep @ join sep (t # ss)"

text \<open>\<open>Ff\<close>: the loop takes each piece trimmed, and leaves out the last one when it is empty.\<close>

definition Ff :: "jsstr \<Rightarrow> jsstr list" where
  "Ff e = (let ps = map trim (split_on (\<lambda>u. u = 44) e) in
     if List.last ps = [] then butlast ps else ps)"

text \<open>\<open>zf(e, {padLeft})\<close>.\<close>

definition zf :: "bool \<Rightarrow> jsstr list \<Rightarrow> jsstr" where
  "zf padLeft e =
     trim (join (44 # (if padLeft then [32] else []))
       (if e \<noteq> [] \<and> List.last e = [] then e @ [[]] else e))"

text \<open>\<open>gh\<close>: a run of white space separates; \<open>vh\<close>.\<close>

definition gh :: "jsstr \<Rightarrow> jsstr list" where
  "gh e = (let t = trim e in if t = [] then [] else filter (\<lambda>w. w \<noteq> []) (split_on html_space t))"

definition vh :: "jsstr list \<Rightarrow> jsstr" where
  "vh e = trim (join [32] e)"

section \<open>Round trips\<close>

lemma html_space_js: "html_space u \<Longrightarrow> js_space u"
  by (auto simp: html_space_def js_space_def)

lemma trim_id: "s = [] \<or> \<not> js_space (hd s) \<and> \<not> js_space (List.last s) \<Longrightarrow> trim s = s"
proof (cases "s = []")
  case False
  assume "s = [] \<or> \<not> js_space (hd s) \<and> \<not> js_space (List.last s)"
  then have a: "\<not> js_space (hd s)" "\<not> js_space (hd (rev s))" using False by (simp_all add: hd_rev)
  have d: "dropWhile js_space t = t" if "t \<noteq> []" "\<not> js_space (hd t)" for t using that by (cases t) auto
  show ?thesis using d [OF False a(1)] d [of "rev s"] a(2) False by (simp add: trim_def)
qed (simp add: trim_def)

lemma trim_spaces: "list_all js_space s \<Longrightarrow> trim s = []"
  by (simp add: trim_def list_all_iff dropWhile_eq_Nil_conv [THEN iffD2])

lemma trim_front: "js_space c \<Longrightarrow> trim (c # s) = trim s"
  by (simp add: trim_def)

lemma split_on_plain: "list_all (\<lambda>u. \<not> p u) s \<Longrightarrow> split_on p s = [s]"
  by (induction s) auto

lemma split_on_nonempty: "split_on p s \<noteq> []"
  by (induction s) (auto split: list.splits)

lemma split_on_append: "list_all (\<lambda>u. \<not> p u) s \<Longrightarrow> p c \<Longrightarrow> split_on p (s @ c # t) = s # split_on p t"
  by (induction s) auto

lemma split_on_snoc: "p c \<Longrightarrow> split_on p (s @ [c]) = split_on p s @ [[]]"
  by (induction s) (auto split: list.splits simp: split_on_nonempty)

lemma trim_split_front:
  "js_space c \<Longrightarrow> \<not> p c \<Longrightarrow> map trim (split_on p (c # s)) = map trim (split_on p s)"
  using split_on_nonempty [of p s] by (auto simp: trim_front split: list.splits)

text \<open>A piece of a comma-separated list: no comma, no white space at its ends.\<close>

definition comma_piece :: "jsstr \<Rightarrow> bool" where
  "comma_piece w \<longleftrightarrow> 44 \<notin> set w \<and> (w = [] \<or> \<not> js_space (hd w) \<and> \<not> js_space (List.last w))"

lemma comma_piece_trim: "comma_piece w \<Longrightarrow> trim w = w"
  by (rule trim_id) (auto simp: comma_piece_def)

definition comma_sep :: "bool \<Rightarrow> jsstr" where
  "comma_sep pad = 44 # (if pad then [32] else [])"

lemma split_joined:
  "xs \<noteq> [] \<Longrightarrow> list_all comma_piece xs \<Longrightarrow>
   map trim (split_on (\<lambda>u. u = 44) (join (comma_sep pad) xs)) = xs"
proof (induction xs rule: induct_list012)
  case (2 w)
  then have "comma_piece w" by simp
  moreover from this have "split_on (\<lambda>u. u = 44) w = [w]"
    by (intro split_on_plain) (auto simp: comma_piece_def list_all_iff)
  ultimately show ?case using comma_piece_trim by simp
next
  case (3 w v vs)
  let ?s = "join (comma_sep pad) (v # vs)"
  have "split_on (\<lambda>u. u = 44) (w @ 44 # r) = w # split_on (\<lambda>u. u = 44) r" for r
    using "3.prems"(2) by (intro split_on_append) (auto simp: comma_piece_def list_all_iff)
  moreover have "map trim (split_on (\<lambda>u. u = 44) (32 # ?s)) = map trim (split_on (\<lambda>u. u = 44) ?s)"
    by (rule trim_split_front) (simp_all add: js_space_def)
  ultimately show ?case using 3 comma_piece_trim [of w] by (cases pad) (simp_all add: comma_sep_def)
qed simp

lemma join_hd: "list_all comma_piece xs \<Longrightarrow> join (comma_sep pad) xs = [] \<or> \<not> js_space (hd (join (comma_sep pad) xs))"
proof (induction xs rule: induct_list012)
  case (3 w v vs)
  have "\<not> js_space 44" by (simp add: js_space_def)
  then show ?case using 3 by (cases w) (auto simp: comma_piece_def comma_sep_def)
qed (auto simp: comma_piece_def)

lemma join_last: "xs \<noteq> [] \<Longrightarrow> List.last xs \<noteq> [] \<Longrightarrow>
   join sep xs \<noteq> [] \<and> List.last (join sep xs) = List.last (List.last xs)"
  by (induction xs rule: induct_list012) auto

lemma join_snoc: "xs \<noteq> [] \<Longrightarrow> join sep (xs @ [t]) = join sep xs @ sep @ t"
  by (induction xs rule: induct_list012) auto

lemma trim_comma_end:
  assumes "y = [] \<or> \<not> js_space (hd y)"
  shows "trim (y @ comma_sep pad) = y @ [44]"
proof -
  have "dropWhile js_space (y @ 44 # r) = y @ 44 # r" for r
    using assms by (cases y) (auto simp: js_space_def)
  then show ?thesis by (simp add: trim_def comma_sep_def) (simp add: js_space_def)
qed

lemma comma_round_trip:
  assumes "list_all comma_piece xs"
  shows "Ff (zf pad xs) = xs"
proof (cases "xs = []")
  case True
  then show ?thesis by (simp add: zf_def Ff_def trim_def)
next
  case ne: False
  let ?j = "join (comma_sep pad) xs"
  show ?thesis
  proof (cases "List.last xs = []")
    case True
    have "zf pad xs = ?j @ [44]"
      using True ne trim_comma_end [OF join_hd [OF assms, of pad]] join_snoc [OF ne, of "comma_sep pad" "[]"]
      by (simp add: zf_def comma_sep_def)
    moreover have "map trim (split_on (\<lambda>u. u = 44) (?j @ [44])) = xs @ [[]]"
      using split_joined [OF ne assms, of pad] by (simp add: split_on_snoc trim_def)
    ultimately show ?thesis by (simp add: Ff_def)
  next
    case False
    have "comma_piece (List.last xs)" using assms ne by (simp add: list_all_iff)
    then have "trim ?j = ?j"
      using join_hd [OF assms, of pad] join_last [OF ne False, of "comma_sep pad"] False
      by (intro trim_id) (auto simp: comma_piece_def)
    then have "zf pad xs = ?j" using False by (simp add: zf_def comma_sep_def)
    then show ?thesis using split_joined [OF ne assms, of pad] False by (simp add: Ff_def)
  qed
qed

text \<open>A token of a space-separated list.\<close>

definition space_token :: "jsstr \<Rightarrow> bool" where
  "space_token w \<longleftrightarrow> w \<noteq> [] \<and> list_all (\<lambda>u. \<not> js_space u) w"

lemma split_tokens:
  "xs \<noteq> [] \<Longrightarrow> list_all space_token xs \<Longrightarrow> split_on html_space (join [32] xs) = xs"
proof (induction xs rule: induct_list012)
  case (2 w)
  then show ?case using html_space_js by (intro split_on_plain [THEN trans]) (auto simp: space_token_def list_all_iff)
next
  case (3 w v vs)
  have "split_on html_space (w @ 32 # r) = w # split_on html_space r" for r
    using "3.prems"(2) html_space_js
    by (intro split_on_append) (auto simp: space_token_def list_all_iff html_space_def)
  then show ?case using 3 by simp
qed simp

lemma token_ends: "space_token w \<Longrightarrow> \<not> js_space (hd w) \<and> \<not> js_space (List.last w)"
  by (auto simp: space_token_def list_all_iff)

lemma space_round_trip:
  assumes "list_all space_token xs"
  shows "gh (vh xs) = xs"
proof (cases "xs = []")
  case True
  then show ?thesis by (simp add: gh_def vh_def trim_def)
next
  case False
  let ?j = "join [32] xs"
  have t: "space_token (hd xs)" "space_token (List.last xs)" using assms False by (simp_all add: list_all_iff)
  have h: "hd ?j = hd (hd xs)" using t(1) False by (cases "([32 :: nat], xs)" rule: join.cases) (auto simp: space_token_def)
  have l: "?j \<noteq> []" "List.last ?j = List.last (List.last xs)"
    using join_last [of xs "[32]"] False t(2) by (auto simp: space_token_def)
  have "trim ?j = ?j" using token_ends [OF t(1)] token_ends [OF t(2)] h l by (intro trim_id) simp
  moreover have "filter (\<lambda>w. w \<noteq> []) xs = xs"
    using assms by (auto simp: list_all_iff space_token_def intro: filter_True)
  ultimately show ?thesis using split_tokens [OF False assms] l by (simp add: gh_def vh_def)
qed

text \<open>
  Lists in attribute values are read back as they were written. A comma-separated list of pieces
  without commas and without white space at their ends, empty pieces at the end included, and a
  space-separated list of tokens without white space give the same list when their text is parsed.
\<close>

theorem value_lists_round_trip:
  assumes "list_all comma_piece xs" and "list_all space_token ys"
  shows "Ff (zf pad xs) = xs \<and> gh (vh ys) = ys"
  using comma_round_trip [OF assms(1)] space_round_trip [OF assms(2)] by blast

theorem value_lists_round_trip_witness:
  "Ff (zf True [js ''a b'', [], []]) = [js ''a b'', [], []] \<and> gh (vh [js ''x'', js ''y'']) = [js ''x'', js ''y'']"
  by (rule value_lists_round_trip) (simp_all add: comma_piece_def space_token_def js_space_def js_def)

end
