(* ===== verification/Hast_Tables.thy ===== *)
theory Hast_Tables
  imports Hast_Schema
begin

text \<open>
  The tables of attribute names of \<^verbatim>\<open>src/api/scalar.standalone.js\<close> (\<open>Ef\<close>, \<open>Tf\<close>, \<open>Pf\<close>, \<open>Df\<close>, \<open>Rf\<close> and
  the SVG table \<open>$f\<close>), the two merged schemas \<open>Uf\<close> and \<open>Qf\<close>.
\<close>

section \<open>The tables\<close>

definition table_names :: "(string \<times> nat option) list \<Rightarrow> (jsstr \<times> nat option) list" where
  "table_names xs = map (\<lambda>(n, k). (js n, k)) xs"

definition xlink_properties :: "(string \<times> nat option) list" where
  "xlink_properties = [
    (''xLinkActuate'', None), (''xLinkArcRole'', None), (''xLinkHref'', None),
    (''xLinkRole'', None), (''xLinkShow'', None), (''xLinkTitle'', None), (''xLinkType'', None)]"

definition Ef_definition :: schema_definition where
  "Ef_definition = \<lparr>d_space = Some (js ''xlink''),
    d_transform = (\<lambda>t. js ''xlink:'' @ ascii_lower (drop 5 t)), d_mustUseProperty = [],
    d_properties = table_names xlink_properties\<rparr>"

definition xml_properties :: "(string \<times> nat option) list" where
  "xml_properties = [
    (''xmlLang'', None), (''xmlBase'', None), (''xmlSpace'', None)]"

definition Tf_definition :: schema_definition where
  "Tf_definition = \<lparr>d_space = Some (js ''xml''),
    d_transform = (\<lambda>t. js ''xml:'' @ ascii_lower (drop 3 t)), d_mustUseProperty = [],
    d_properties = table_names xml_properties\<rparr>"

definition xmlns_properties :: "(string \<times> nat option) list" where
  "xmlns_properties = [
    (''xmlns'', None), (''xmlnsXLink'', None)]"

definition Pf_definition :: schema_definition where
  "Pf_definition = \<lparr>d_space = Some (js ''xmlns''),
    d_transform = caseInsensitiveTransform [(js ''xmlnsxlink'', js ''xmlns:xlink'')],
    d_mustUseProperty = [],
    d_properties = table_names xmlns_properties\<rparr>"

definition aria_properties :: "(string \<times> nat option) list" where
  "aria_properties = [
    (''ariaActiveDescendant'', None), (''ariaAtomic'', Some hf), (''ariaAutoComplete'', None),
    (''ariaBusy'', Some hf), (''ariaChecked'', Some hf), (''ariaColCount'', Some mf),
    (''ariaColIndex'', Some mf), (''ariaColSpan'', Some mf), (''ariaControls'', Some gf),
    (''ariaCurrent'', None), (''ariaDescribedBy'', Some gf), (''ariaDetails'', None),
    (''ariaDisabled'', Some hf), (''ariaDropEffect'', Some gf), (''ariaErrorMessage'', None),
    (''ariaExpanded'', Some hf), (''ariaFlowTo'', Some gf), (''ariaGrabbed'', Some hf),
    (''ariaHasPopup'', None), (''ariaHidden'', Some hf), (''ariaInvalid'', None),
    (''ariaKeyShortcuts'', None), (''ariaLabel'', None), (''ariaLabelledBy'', Some gf),
    (''ariaLevel'', Some mf), (''ariaLive'', None), (''ariaModal'', Some hf),
    (''ariaMultiLine'', Some hf), (''ariaMultiSelectable'', Some hf),
    (''ariaOrientation'', None), (''ariaOwns'', Some gf), (''ariaPlaceholder'', None),
    (''ariaPosInSet'', Some mf), (''ariaPressed'', Some hf), (''ariaReadOnly'', Some hf),
    (''ariaRelevant'', None), (''ariaRequired'', Some hf), (''ariaRoleDescription'', Some gf),
    (''ariaRowCount'', Some mf), (''ariaRowIndex'', Some mf), (''ariaRowSpan'', Some mf),
    (''ariaSelected'', Some hf), (''ariaSetSize'', Some mf), (''ariaSort'', None),
    (''ariaValueMax'', Some mf), (''ariaValueMin'', Some mf), (''ariaValueNow'', Some mf),
    (''ariaValueText'', None), (''role'', None)]"

definition Df_definition :: schema_definition where
  "Df_definition = \<lparr>d_space = None,
    d_transform = (\<lambda>t. if t = js ''role'' then t else js ''aria-'' @ ascii_lower (drop 4 t)),
    d_mustUseProperty = [], d_properties = table_names aria_properties\<rparr>"

definition html_properties :: "(string \<times> nat option) list" where
  "html_properties = [
    (''abbr'', None), (''accept'', Some vf), (''acceptCharset'', Some gf),
    (''accessKey'', Some gf), (''action'', None), (''allow'', None),
    (''allowFullScreen'', Some pf), (''allowPaymentRequest'', Some pf),
    (''allowUserMedia'', Some pf), (''alt'', None), (''as'', None), (''async'', Some pf),
    (''autoCapitalize'', None), (''autoComplete'', Some gf), (''autoFocus'', Some pf),
    (''autoPlay'', Some pf), (''blocking'', Some gf), (''capture'', None), (''charSet'', None),
    (''checked'', Some pf), (''cite'', None), (''className'', Some gf), (''cols'', Some mf),
    (''colSpan'', None), (''content'', None), (''contentEditable'', Some hf),
    (''controls'', Some pf), (''controlsList'', Some gf), (''coords'', Some (mf OR vf)),
    (''crossOrigin'', None), (''data'', None), (''dateTime'', None), (''decoding'', None),
    (''default'', Some pf), (''defer'', Some pf), (''dir'', None), (''dirName'', None),
    (''disabled'', Some pf), (''download'', Some ff), (''draggable'', Some hf),
    (''encType'', None), (''enterKeyHint'', None), (''fetchPriority'', None), (''form'', None),
    (''formAction'', None), (''formEncType'', None), (''formMethod'', None),
    (''formNoValidate'', Some pf), (''formTarget'', None), (''headers'', Some gf),
    (''height'', Some mf), (''hidden'', Some pf), (''high'', Some mf), (''href'', None),
    (''hrefLang'', None), (''htmlFor'', Some gf), (''httpEquiv'', Some gf), (''id'', None),
    (''imageSizes'', None), (''imageSrcSet'', None), (''inert'', Some pf),
    (''inputMode'', None), (''integrity'', None), (''is'', None), (''isMap'', Some pf),
    (''itemId'', None), (''itemProp'', Some gf), (''itemRef'', Some gf),
    (''itemScope'', Some pf), (''itemType'', Some gf), (''kind'', None), (''label'', None),
    (''lang'', None), (''language'', None), (''list'', None), (''loading'', None),
    (''loop'', Some pf), (''low'', Some mf), (''manifest'', None), (''max'', None),
    (''maxLength'', Some mf), (''media'', None), (''method'', None), (''min'', None),
    (''minLength'', Some mf), (''multiple'', Some pf), (''muted'', Some pf), (''name'', None),
    (''nonce'', None), (''noModule'', Some pf), (''noValidate'', Some pf), (''onAbort'', None),
    (''onAfterPrint'', None), (''onAuxClick'', None), (''onBeforeMatch'', None),
    (''onBeforePrint'', None), (''onBeforeToggle'', None), (''onBeforeUnload'', None),
    (''onBlur'', None), (''onCancel'', None), (''onCanPlay'', None),
    (''onCanPlayThrough'', None), (''onChange'', None), (''onClick'', None),
    (''onClose'', None), (''onContextLost'', None), (''onContextMenu'', None),
    (''onContextRestored'', None), (''onCopy'', None), (''onCueChange'', None),
    (''onCut'', None), (''onDblClick'', None), (''onDrag'', None), (''onDragEnd'', None),
    (''onDragEnter'', None), (''onDragExit'', None), (''onDragLeave'', None),
    (''onDragOver'', None), (''onDragStart'', None), (''onDrop'', None),
    (''onDurationChange'', None), (''onEmptied'', None), (''onEnded'', None),
    (''onError'', None), (''onFocus'', None), (''onFormData'', None), (''onHashChange'', None),
    (''onInput'', None), (''onInvalid'', None), (''onKeyDown'', None), (''onKeyPress'', None),
    (''onKeyUp'', None), (''onLanguageChange'', None), (''onLoad'', None),
    (''onLoadedData'', None), (''onLoadedMetadata'', None), (''onLoadEnd'', None),
    (''onLoadStart'', None), (''onMessage'', None), (''onMessageError'', None),
    (''onMouseDown'', None), (''onMouseEnter'', None), (''onMouseLeave'', None),
    (''onMouseMove'', None), (''onMouseOut'', None), (''onMouseOver'', None),
    (''onMouseUp'', None), (''onOffline'', None), (''onOnline'', None), (''onPageHide'', None),
    (''onPageShow'', None), (''onPaste'', None), (''onPause'', None), (''onPlay'', None),
    (''onPlaying'', None), (''onPopState'', None), (''onProgress'', None),
    (''onRateChange'', None), (''onRejectionHandled'', None), (''onReset'', None),
    (''onResize'', None), (''onScroll'', None), (''onScrollEnd'', None),
    (''onSecurityPolicyViolation'', None), (''onSeeked'', None), (''onSeeking'', None),
    (''onSelect'', None), (''onSlotChange'', None), (''onStalled'', None),
    (''onStorage'', None), (''onSubmit'', None), (''onSuspend'', None),
    (''onTimeUpdate'', None), (''onToggle'', None), (''onUnhandledRejection'', None),
    (''onUnload'', None), (''onVolumeChange'', None), (''onWaiting'', None),
    (''onWheel'', None), (''open'', Some pf), (''optimum'', Some mf), (''pattern'', None),
    (''ping'', Some gf), (''placeholder'', None), (''playsInline'', Some pf),
    (''popover'', None), (''popoverTarget'', None), (''popoverTargetAction'', None),
    (''poster'', None), (''preload'', None), (''readOnly'', Some pf),
    (''referrerPolicy'', None), (''rel'', Some gf), (''required'', Some pf),
    (''reversed'', Some pf), (''rows'', Some mf), (''rowSpan'', Some mf),
    (''sandbox'', Some gf), (''scope'', None), (''scoped'', Some pf), (''seamless'', Some pf),
    (''selected'', Some pf), (''shadowRootClonable'', Some pf),
    (''shadowRootDelegatesFocus'', Some pf), (''shadowRootMode'', None), (''shape'', None),
    (''size'', Some mf), (''sizes'', None), (''slot'', None), (''span'', Some mf),
    (''spellCheck'', Some hf), (''src'', None), (''srcDoc'', None), (''srcLang'', None),
    (''srcSet'', None), (''start'', Some mf), (''step'', None), (''style'', None),
    (''tabIndex'', Some mf), (''target'', None), (''title'', None), (''translate'', None),
    (''type'', None), (''typeMustMatch'', Some pf), (''useMap'', None), (''value'', Some hf),
    (''width'', Some mf), (''wrap'', None), (''writingSuggestions'', None), (''align'', None),
    (''aLink'', None), (''archive'', Some gf), (''axis'', None), (''background'', None),
    (''bgColor'', None), (''border'', Some mf), (''borderColor'', None),
    (''bottomMargin'', Some mf), (''cellPadding'', None), (''cellSpacing'', None),
    (''char'', None), (''charOff'', None), (''classId'', None), (''clear'', None),
    (''code'', None), (''codeBase'', None), (''codeType'', None), (''color'', None),
    (''compact'', Some pf), (''declare'', Some pf), (''event'', None), (''face'', None),
    (''frame'', None), (''frameBorder'', None), (''hSpace'', Some mf),
    (''leftMargin'', Some mf), (''link'', None), (''longDesc'', None), (''lowSrc'', None),
    (''marginHeight'', Some mf), (''marginWidth'', Some mf), (''noResize'', Some pf),
    (''noHref'', Some pf), (''noShade'', Some pf), (''noWrap'', Some pf), (''object'', None),
    (''profile'', None), (''prompt'', None), (''rev'', None), (''rightMargin'', Some mf),
    (''rules'', None), (''scheme'', None), (''scrolling'', Some hf), (''standby'', None),
    (''summary'', None), (''text'', None), (''topMargin'', Some mf), (''valueType'', None),
    (''version'', None), (''vAlign'', None), (''vLink'', None), (''vSpace'', Some mf),
    (''allowTransparency'', None), (''autoCorrect'', None), (''autoSave'', None),
    (''disablePictureInPicture'', Some pf), (''disableRemotePlayback'', Some pf),
    (''prefix'', None), (''property'', None), (''results'', Some mf), (''security'', None),
    (''unselectable'', None)]"

definition Rf_definition :: schema_definition where
  "Rf_definition = \<lparr>d_space = Some (js ''html''),
    d_transform = caseInsensitiveTransform
      [(js ''acceptcharset'', js ''accept-charset''), (js ''classname'', js ''class''),
       (js ''htmlfor'', js ''for''), (js ''httpequiv'', js ''http-equiv'')],
    d_mustUseProperty = [js ''checked'', js ''multiple'', js ''muted'', js ''selected''],
    d_properties = table_names html_properties\<rparr>"

definition svg_attributes :: "(string \<times> string) list" where
  "svg_attributes = [
    (''accentHeight'', ''accent-height''), (''alignmentBaseline'', ''alignment-baseline''),
    (''arabicForm'', ''arabic-form''), (''baselineShift'', ''baseline-shift''),
    (''capHeight'', ''cap-height''), (''className'', ''class''), (''clipPath'', ''clip-path''),
    (''clipRule'', ''clip-rule''), (''colorInterpolation'', ''color-interpolation''),
    (''colorInterpolationFilters'', ''color-interpolation-filters''),
    (''colorProfile'', ''color-profile''), (''colorRendering'', ''color-rendering''),
    (''crossOrigin'', ''crossorigin''), (''dataType'', ''datatype''),
    (''dominantBaseline'', ''dominant-baseline''),
    (''enableBackground'', ''enable-background''), (''fillOpacity'', ''fill-opacity''),
    (''fillRule'', ''fill-rule''), (''floodColor'', ''flood-color''),
    (''floodOpacity'', ''flood-opacity''), (''fontFamily'', ''font-family''),
    (''fontSize'', ''font-size''), (''fontSizeAdjust'', ''font-size-adjust''),
    (''fontStretch'', ''font-stretch''), (''fontStyle'', ''font-style''),
    (''fontVariant'', ''font-variant''), (''fontWeight'', ''font-weight''),
    (''glyphName'', ''glyph-name''),
    (''glyphOrientationHorizontal'', ''glyph-orientation-horizontal''),
    (''glyphOrientationVertical'', ''glyph-orientation-vertical''),
    (''hrefLang'', ''hreflang''), (''horizAdvX'', ''horiz-adv-x''),
    (''horizOriginX'', ''horiz-origin-x''), (''horizOriginY'', ''horiz-origin-y''),
    (''imageRendering'', ''image-rendering''), (''letterSpacing'', ''letter-spacing''),
    (''lightingColor'', ''lighting-color''), (''markerEnd'', ''marker-end''),
    (''markerMid'', ''marker-mid''), (''markerStart'', ''marker-start''),
    (''navDown'', ''nav-down''), (''navDownLeft'', ''nav-down-left''),
    (''navDownRight'', ''nav-down-right''), (''navLeft'', ''nav-left''),
    (''navNext'', ''nav-next''), (''navPrev'', ''nav-prev''), (''navRight'', ''nav-right''),
    (''navUp'', ''nav-up''), (''navUpLeft'', ''nav-up-left''),
    (''navUpRight'', ''nav-up-right''), (''onAbort'', ''onabort''),
    (''onActivate'', ''onactivate''), (''onAfterPrint'', ''onafterprint''),
    (''onBeforePrint'', ''onbeforeprint''), (''onBegin'', ''onbegin''),
    (''onCancel'', ''oncancel''), (''onCanPlay'', ''oncanplay''),
    (''onCanPlayThrough'', ''oncanplaythrough''), (''onChange'', ''onchange''),
    (''onClick'', ''onclick''), (''onClose'', ''onclose''), (''onCopy'', ''oncopy''),
    (''onCueChange'', ''oncuechange''), (''onCut'', ''oncut''),
    (''onDblClick'', ''ondblclick''), (''onDrag'', ''ondrag''), (''onDragEnd'', ''ondragend''),
    (''onDragEnter'', ''ondragenter''), (''onDragExit'', ''ondragexit''),
    (''onDragLeave'', ''ondragleave''), (''onDragOver'', ''ondragover''),
    (''onDragStart'', ''ondragstart''), (''onDrop'', ''ondrop''),
    (''onDurationChange'', ''ondurationchange''), (''onEmptied'', ''onemptied''),
    (''onEnd'', ''onend''), (''onEnded'', ''onended''), (''onError'', ''onerror''),
    (''onFocus'', ''onfocus''), (''onFocusIn'', ''onfocusin''),
    (''onFocusOut'', ''onfocusout''), (''onHashChange'', ''onhashchange''),
    (''onInput'', ''oninput''), (''onInvalid'', ''oninvalid''), (''onKeyDown'', ''onkeydown''),
    (''onKeyPress'', ''onkeypress''), (''onKeyUp'', ''onkeyup''), (''onLoad'', ''onload''),
    (''onLoadedData'', ''onloadeddata''), (''onLoadedMetadata'', ''onloadedmetadata''),
    (''onLoadStart'', ''onloadstart''), (''onMessage'', ''onmessage''),
    (''onMouseDown'', ''onmousedown''), (''onMouseEnter'', ''onmouseenter''),
    (''onMouseLeave'', ''onmouseleave''), (''onMouseMove'', ''onmousemove''),
    (''onMouseOut'', ''onmouseout''), (''onMouseOver'', ''onmouseover''),
    (''onMouseUp'', ''onmouseup''), (''onMouseWheel'', ''onmousewheel''),
    (''onOffline'', ''onoffline''), (''onOnline'', ''ononline''),
    (''onPageHide'', ''onpagehide''), (''onPageShow'', ''onpageshow''),
    (''onPaste'', ''onpaste''), (''onPause'', ''onpause''), (''onPlay'', ''onplay''),
    (''onPlaying'', ''onplaying''), (''onPopState'', ''onpopstate''),
    (''onProgress'', ''onprogress''), (''onRateChange'', ''onratechange''),
    (''onRepeat'', ''onrepeat''), (''onReset'', ''onreset''), (''onResize'', ''onresize''),
    (''onScroll'', ''onscroll''), (''onSeeked'', ''onseeked''), (''onSeeking'', ''onseeking''),
    (''onSelect'', ''onselect''), (''onShow'', ''onshow''), (''onStalled'', ''onstalled''),
    (''onStorage'', ''onstorage''), (''onSubmit'', ''onsubmit''),
    (''onSuspend'', ''onsuspend''), (''onTimeUpdate'', ''ontimeupdate''),
    (''onToggle'', ''ontoggle''), (''onUnload'', ''onunload''),
    (''onVolumeChange'', ''onvolumechange''), (''onWaiting'', ''onwaiting''),
    (''onZoom'', ''onzoom''), (''overlinePosition'', ''overline-position''),
    (''overlineThickness'', ''overline-thickness''), (''paintOrder'', ''paint-order''),
    (''panose1'', ''panose-1''), (''pointerEvents'', ''pointer-events''),
    (''referrerPolicy'', ''referrerpolicy''), (''renderingIntent'', ''rendering-intent''),
    (''shapeRendering'', ''shape-rendering''), (''stopColor'', ''stop-color''),
    (''stopOpacity'', ''stop-opacity''),
    (''strikethroughPosition'', ''strikethrough-position''),
    (''strikethroughThickness'', ''strikethrough-thickness''),
    (''strokeDashArray'', ''stroke-dasharray''), (''strokeDashOffset'', ''stroke-dashoffset''),
    (''strokeLineCap'', ''stroke-linecap''), (''strokeLineJoin'', ''stroke-linejoin''),
    (''strokeMiterLimit'', ''stroke-miterlimit''), (''strokeOpacity'', ''stroke-opacity''),
    (''strokeWidth'', ''stroke-width''), (''tabIndex'', ''tabindex''),
    (''textAnchor'', ''text-anchor''), (''textDecoration'', ''text-decoration''),
    (''textRendering'', ''text-rendering''), (''transformOrigin'', ''transform-origin''),
    (''typeOf'', ''typeof''), (''underlinePosition'', ''underline-position''),
    (''underlineThickness'', ''underline-thickness''), (''unicodeBidi'', ''unicode-bidi''),
    (''unicodeRange'', ''unicode-range''), (''unitsPerEm'', ''units-per-em''),
    (''vAlphabetic'', ''v-alphabetic''), (''vHanging'', ''v-hanging''),
    (''vIdeographic'', ''v-ideographic''), (''vMathematical'', ''v-mathematical''),
    (''vectorEffect'', ''vector-effect''), (''vertAdvY'', ''vert-adv-y''),
    (''vertOriginX'', ''vert-origin-x''), (''vertOriginY'', ''vert-origin-y''),
    (''wordSpacing'', ''word-spacing''), (''writingMode'', ''writing-mode''),
    (''xHeight'', ''x-height''), (''playbackOrder'', ''playbackorder''),
    (''timelineBegin'', ''timelinebegin'')]"

definition svg_properties :: "(string \<times> nat option) list" where
  "svg_properties = [
    (''about'', Some bf), (''accentHeight'', Some mf), (''accumulate'', None),
    (''additive'', None), (''alignmentBaseline'', None), (''alphabetic'', Some mf),
    (''amplitude'', Some mf), (''arabicForm'', None), (''ascent'', Some mf),
    (''attributeName'', None), (''attributeType'', None), (''azimuth'', Some mf),
    (''bandwidth'', None), (''baselineShift'', None), (''baseFrequency'', None),
    (''baseProfile'', None), (''bbox'', None), (''begin'', None), (''bias'', Some mf),
    (''by'', None), (''calcMode'', None), (''capHeight'', Some mf), (''className'', Some gf),
    (''clip'', None), (''clipPath'', None), (''clipPathUnits'', None), (''clipRule'', None),
    (''color'', None), (''colorInterpolation'', None), (''colorInterpolationFilters'', None),
    (''colorProfile'', None), (''colorRendering'', None), (''content'', None),
    (''contentScriptType'', None), (''contentStyleType'', None), (''crossOrigin'', None),
    (''cursor'', None), (''cx'', None), (''cy'', None), (''d'', None), (''dataType'', None),
    (''defaultAction'', None), (''descent'', Some mf), (''diffuseConstant'', Some mf),
    (''direction'', None), (''display'', None), (''dur'', None), (''divisor'', Some mf),
    (''dominantBaseline'', None), (''download'', Some pf), (''dx'', None), (''dy'', None),
    (''edgeMode'', None), (''editable'', None), (''elevation'', Some mf),
    (''enableBackground'', None), (''end'', None), (''event'', None), (''exponent'', Some mf),
    (''externalResourcesRequired'', None), (''fill'', None), (''fillOpacity'', Some mf),
    (''fillRule'', None), (''filter'', None), (''filterRes'', None), (''filterUnits'', None),
    (''floodColor'', None), (''floodOpacity'', None), (''focusable'', None),
    (''focusHighlight'', None), (''fontFamily'', None), (''fontSize'', None),
    (''fontSizeAdjust'', None), (''fontStretch'', None), (''fontStyle'', None),
    (''fontVariant'', None), (''fontWeight'', None), (''format'', None), (''fr'', None),
    (''from'', None), (''fx'', None), (''fy'', None), (''g1'', Some vf), (''g2'', Some vf),
    (''glyphName'', Some vf), (''glyphOrientationHorizontal'', None),
    (''glyphOrientationVertical'', None), (''glyphRef'', None), (''gradientTransform'', None),
    (''gradientUnits'', None), (''handler'', None), (''hanging'', Some mf),
    (''hatchContentUnits'', None), (''hatchUnits'', None), (''height'', None),
    (''href'', None), (''hrefLang'', None), (''horizAdvX'', Some mf),
    (''horizOriginX'', Some mf), (''horizOriginY'', Some mf), (''id'', None),
    (''ideographic'', Some mf), (''imageRendering'', None), (''initialVisibility'', None),
    (''in'', None), (''in2'', None), (''intercept'', Some mf), (''k'', Some mf),
    (''k1'', Some mf), (''k2'', Some mf), (''k3'', Some mf), (''k4'', Some mf),
    (''kernelMatrix'', Some bf), (''kernelUnitLength'', None), (''keyPoints'', None),
    (''keySplines'', None), (''keyTimes'', None), (''kerning'', None), (''lang'', None),
    (''lengthAdjust'', None), (''letterSpacing'', None), (''lightingColor'', None),
    (''limitingConeAngle'', Some mf), (''local'', None), (''markerEnd'', None),
    (''markerMid'', None), (''markerStart'', None), (''markerHeight'', None),
    (''markerUnits'', None), (''markerWidth'', None), (''mask'', None),
    (''maskContentUnits'', None), (''maskUnits'', None), (''mathematical'', None),
    (''max'', None), (''media'', None), (''mediaCharacterEncoding'', None),
    (''mediaContentEncodings'', None), (''mediaSize'', Some mf), (''mediaTime'', None),
    (''method'', None), (''min'', None), (''mode'', None), (''name'', None),
    (''navDown'', None), (''navDownLeft'', None), (''navDownRight'', None),
    (''navLeft'', None), (''navNext'', None), (''navPrev'', None), (''navRight'', None),
    (''navUp'', None), (''navUpLeft'', None), (''navUpRight'', None), (''numOctaves'', None),
    (''observer'', None), (''offset'', None), (''onAbort'', None), (''onActivate'', None),
    (''onAfterPrint'', None), (''onBeforePrint'', None), (''onBegin'', None),
    (''onCancel'', None), (''onCanPlay'', None), (''onCanPlayThrough'', None),
    (''onChange'', None), (''onClick'', None), (''onClose'', None), (''onCopy'', None),
    (''onCueChange'', None), (''onCut'', None), (''onDblClick'', None), (''onDrag'', None),
    (''onDragEnd'', None), (''onDragEnter'', None), (''onDragExit'', None),
    (''onDragLeave'', None), (''onDragOver'', None), (''onDragStart'', None),
    (''onDrop'', None), (''onDurationChange'', None), (''onEmptied'', None), (''onEnd'', None),
    (''onEnded'', None), (''onError'', None), (''onFocus'', None), (''onFocusIn'', None),
    (''onFocusOut'', None), (''onHashChange'', None), (''onInput'', None),
    (''onInvalid'', None), (''onKeyDown'', None), (''onKeyPress'', None), (''onKeyUp'', None),
    (''onLoad'', None), (''onLoadedData'', None), (''onLoadedMetadata'', None),
    (''onLoadStart'', None), (''onMessage'', None), (''onMouseDown'', None),
    (''onMouseEnter'', None), (''onMouseLeave'', None), (''onMouseMove'', None),
    (''onMouseOut'', None), (''onMouseOver'', None), (''onMouseUp'', None),
    (''onMouseWheel'', None), (''onOffline'', None), (''onOnline'', None),
    (''onPageHide'', None), (''onPageShow'', None), (''onPaste'', None), (''onPause'', None),
    (''onPlay'', None), (''onPlaying'', None), (''onPopState'', None), (''onProgress'', None),
    (''onRateChange'', None), (''onRepeat'', None), (''onReset'', None), (''onResize'', None),
    (''onScroll'', None), (''onSeeked'', None), (''onSeeking'', None), (''onSelect'', None),
    (''onShow'', None), (''onStalled'', None), (''onStorage'', None), (''onSubmit'', None),
    (''onSuspend'', None), (''onTimeUpdate'', None), (''onToggle'', None),
    (''onUnload'', None), (''onVolumeChange'', None), (''onWaiting'', None),
    (''onZoom'', None), (''opacity'', None), (''operator'', None), (''order'', None),
    (''orient'', None), (''orientation'', None), (''origin'', None), (''overflow'', None),
    (''overlay'', None), (''overlinePosition'', Some mf), (''overlineThickness'', Some mf),
    (''paintOrder'', None), (''panose1'', None), (''path'', None), (''pathLength'', Some mf),
    (''patternContentUnits'', None), (''patternTransform'', None), (''patternUnits'', None),
    (''phase'', None), (''ping'', Some gf), (''pitch'', None), (''playbackOrder'', None),
    (''pointerEvents'', None), (''points'', None), (''pointsAtX'', Some mf),
    (''pointsAtY'', Some mf), (''pointsAtZ'', Some mf), (''preserveAlpha'', None),
    (''preserveAspectRatio'', None), (''primitiveUnits'', None), (''propagate'', None),
    (''property'', Some bf), (''r'', None), (''radius'', None), (''referrerPolicy'', None),
    (''refX'', None), (''refY'', None), (''rel'', Some bf), (''rev'', Some bf),
    (''renderingIntent'', None), (''repeatCount'', None), (''repeatDur'', None),
    (''requiredExtensions'', Some bf), (''requiredFeatures'', Some bf),
    (''requiredFonts'', Some bf), (''requiredFormats'', Some bf), (''resource'', None),
    (''restart'', None), (''result'', None), (''rotate'', None), (''rx'', None),
    (''ry'', None), (''scale'', None), (''seed'', None), (''shapeRendering'', None),
    (''side'', None), (''slope'', None), (''snapshotTime'', None),
    (''specularConstant'', Some mf), (''specularExponent'', Some mf), (''spreadMethod'', None),
    (''spacing'', None), (''startOffset'', None), (''stdDeviation'', None), (''stemh'', None),
    (''stemv'', None), (''stitchTiles'', None), (''stopColor'', None), (''stopOpacity'', None),
    (''strikethroughPosition'', Some mf), (''strikethroughThickness'', Some mf),
    (''string'', None), (''stroke'', None), (''strokeDashArray'', Some bf),
    (''strokeDashOffset'', None), (''strokeLineCap'', None), (''strokeLineJoin'', None),
    (''strokeMiterLimit'', Some mf), (''strokeOpacity'', Some mf), (''strokeWidth'', None),
    (''style'', None), (''surfaceScale'', Some mf), (''syncBehavior'', None),
    (''syncBehaviorDefault'', None), (''syncMaster'', None), (''syncTolerance'', None),
    (''syncToleranceDefault'', None), (''systemLanguage'', Some bf), (''tabIndex'', Some mf),
    (''tableValues'', None), (''target'', None), (''targetX'', Some mf),
    (''targetY'', Some mf), (''textAnchor'', None), (''textDecoration'', None),
    (''textRendering'', None), (''textLength'', None), (''timelineBegin'', None),
    (''title'', None), (''transformBehavior'', None), (''type'', None), (''typeOf'', Some bf),
    (''to'', None), (''transform'', None), (''transformOrigin'', None), (''u1'', None),
    (''u2'', None), (''underlinePosition'', Some mf), (''underlineThickness'', Some mf),
    (''unicode'', None), (''unicodeBidi'', None), (''unicodeRange'', None),
    (''unitsPerEm'', Some mf), (''values'', None), (''vAlphabetic'', Some mf),
    (''vMathematical'', Some mf), (''vectorEffect'', None), (''vHanging'', Some mf),
    (''vIdeographic'', Some mf), (''version'', None), (''vertAdvY'', Some mf),
    (''vertOriginX'', Some mf), (''vertOriginY'', Some mf), (''viewBox'', None),
    (''viewTarget'', None), (''visibility'', None), (''width'', None), (''widths'', None),
    (''wordSpacing'', None), (''writingMode'', None), (''x'', None), (''x1'', None),
    (''x2'', None), (''xChannelSelector'', None), (''xHeight'', Some mf), (''y'', None),
    (''y1'', None), (''y2'', None), (''yChannelSelector'', None), (''z'', None),
    (''zoomAndPan'', None)]"

definition svg_definition :: schema_definition where
  "svg_definition = \<lparr>d_space = Some (js ''svg''),
    d_transform = caseSensitiveTransform (map (\<lambda>(p, a). (js p, js a)) svg_attributes),
    d_mustUseProperty = [], d_properties = table_names svg_properties\<rparr>"

definition Uf :: schema where
  "Uf = merge_schemas (map create [Tf_definition, Ef_definition, Pf_definition, Df_definition, Rf_definition]) (js ''html'')"

definition Qf :: schema where
  "Qf = merge_schemas (map create [Tf_definition, Ef_definition, Pf_definition, Df_definition, svg_definition]) (js ''svg'')"

end
