(* ===== verification/Entity_Stringify.thy ===== *)
theory Entity_Stringify
  imports Hast_Tree
begin

text \<open>
  Encoding characters as references (\<^verbatim>\<open>stringify-entities\<close> inside \<^verbatim>\<open>src/api/scalar.standalone.js\<close>:
  \<open>Kb\<close>, \<open>ly\<close>, \<open>cy\<close>), and that what it writes decodes to what was given.
\<close>

section \<open>Tables\<close>

text \<open>\<open>ty\<close>, \<open>ny\<close> with the code of each character, and \<open>ry\<close>.\<close>

definition ty :: "string list" where
  "ty = [
    ''AElig'', ''AMP'', ''Aacute'', ''Acirc'', ''Agrave'', ''Aring'', ''Atilde'', ''Auml'',
    ''COPY'', ''Ccedil'', ''ETH'', ''Eacute'', ''Ecirc'', ''Egrave'', ''Euml'', ''GT'',
    ''Iacute'', ''Icirc'', ''Igrave'', ''Iuml'', ''LT'', ''Ntilde'', ''Oacute'', ''Ocirc'',
    ''Ograve'', ''Oslash'', ''Otilde'', ''Ouml'', ''QUOT'', ''REG'', ''THORN'', ''Uacute'',
    ''Ucirc'', ''Ugrave'', ''Uuml'', ''Yacute'', ''aacute'', ''acirc'', ''acute'', ''aelig'',
    ''agrave'', ''amp'', ''aring'', ''atilde'', ''auml'', ''brvbar'', ''ccedil'', ''cedil'',
    ''cent'', ''copy'', ''curren'', ''deg'', ''divide'', ''eacute'', ''ecirc'', ''egrave'',
    ''eth'', ''euml'', ''frac12'', ''frac14'', ''frac34'', ''gt'', ''iacute'', ''icirc'',
    ''iexcl'', ''igrave'', ''iquest'', ''iuml'', ''laquo'', ''lt'', ''macr'', ''micro'',
    ''middot'', ''nbsp'', ''not'', ''ntilde'', ''oacute'', ''ocirc'', ''ograve'', ''ordf'',
    ''ordm'', ''oslash'', ''otilde'', ''ouml'', ''para'', ''plusmn'', ''pound'', ''quot'',
    ''raquo'', ''reg'', ''sect'', ''shy'', ''sup1'', ''sup2'', ''sup3'', ''szlig'', ''thorn'',
    ''times'', ''uacute'', ''ucirc'', ''ugrave'', ''uml'', ''uuml'', ''yacute'', ''yen'', ''yuml'']"

definition ny :: "(string \<times> nat) list" where
  "ny = [
    (''nbsp'', 160), (''iexcl'', 161), (''cent'', 162), (''pound'', 163), (''curren'', 164),
    (''yen'', 165), (''brvbar'', 166), (''sect'', 167), (''uml'', 168), (''copy'', 169),
    (''ordf'', 170), (''laquo'', 171), (''not'', 172), (''shy'', 173), (''reg'', 174),
    (''macr'', 175), (''deg'', 176), (''plusmn'', 177), (''sup2'', 178), (''sup3'', 179),
    (''acute'', 180), (''micro'', 181), (''para'', 182), (''middot'', 183), (''cedil'', 184),
    (''sup1'', 185), (''ordm'', 186), (''raquo'', 187), (''frac14'', 188), (''frac12'', 189),
    (''frac34'', 190), (''iquest'', 191), (''Agrave'', 192), (''Aacute'', 193), (''Acirc'', 194),
    (''Atilde'', 195), (''Auml'', 196), (''Aring'', 197), (''AElig'', 198), (''Ccedil'', 199),
    (''Egrave'', 200), (''Eacute'', 201), (''Ecirc'', 202), (''Euml'', 203), (''Igrave'', 204),
    (''Iacute'', 205), (''Icirc'', 206), (''Iuml'', 207), (''ETH'', 208), (''Ntilde'', 209),
    (''Ograve'', 210), (''Oacute'', 211), (''Ocirc'', 212), (''Otilde'', 213), (''Ouml'', 214),
    (''times'', 215), (''Oslash'', 216), (''Ugrave'', 217), (''Uacute'', 218), (''Ucirc'', 219),
    (''Uuml'', 220), (''Yacute'', 221), (''THORN'', 222), (''szlig'', 223), (''agrave'', 224),
    (''aacute'', 225), (''acirc'', 226), (''atilde'', 227), (''auml'', 228), (''aring'', 229),
    (''aelig'', 230), (''ccedil'', 231), (''egrave'', 232), (''eacute'', 233), (''ecirc'', 234),
    (''euml'', 235), (''igrave'', 236), (''iacute'', 237), (''icirc'', 238), (''iuml'', 239),
    (''eth'', 240), (''ntilde'', 241), (''ograve'', 242), (''oacute'', 243), (''ocirc'', 244),
    (''otilde'', 245), (''ouml'', 246), (''divide'', 247), (''oslash'', 248), (''ugrave'', 249),
    (''uacute'', 250), (''ucirc'', 251), (''uuml'', 252), (''yacute'', 253), (''thorn'', 254),
    (''yuml'', 255), (''fnof'', 402), (''Alpha'', 913), (''Beta'', 914), (''Gamma'', 915),
    (''Delta'', 916), (''Epsilon'', 917), (''Zeta'', 918), (''Eta'', 919), (''Theta'', 920),
    (''Iota'', 921), (''Kappa'', 922), (''Lambda'', 923), (''Mu'', 924), (''Nu'', 925),
    (''Xi'', 926), (''Omicron'', 927), (''Pi'', 928), (''Rho'', 929), (''Sigma'', 931),
    (''Tau'', 932), (''Upsilon'', 933), (''Phi'', 934), (''Chi'', 935), (''Psi'', 936),
    (''Omega'', 937), (''alpha'', 945), (''beta'', 946), (''gamma'', 947), (''delta'', 948),
    (''epsilon'', 949), (''zeta'', 950), (''eta'', 951), (''theta'', 952), (''iota'', 953),
    (''kappa'', 954), (''lambda'', 955), (''mu'', 956), (''nu'', 957), (''xi'', 958),
    (''omicron'', 959), (''pi'', 960), (''rho'', 961), (''sigmaf'', 962), (''sigma'', 963),
    (''tau'', 964), (''upsilon'', 965), (''phi'', 966), (''chi'', 967), (''psi'', 968),
    (''omega'', 969), (''thetasym'', 977), (''upsih'', 978), (''piv'', 982), (''bull'', 8226),
    (''hellip'', 8230), (''prime'', 8242), (''Prime'', 8243), (''oline'', 8254),
    (''frasl'', 8260), (''weierp'', 8472), (''image'', 8465), (''real'', 8476),
    (''trade'', 8482), (''alefsym'', 8501), (''larr'', 8592), (''uarr'', 8593), (''rarr'', 8594),
    (''darr'', 8595), (''harr'', 8596), (''crarr'', 8629), (''lArr'', 8656), (''uArr'', 8657),
    (''rArr'', 8658), (''dArr'', 8659), (''hArr'', 8660), (''forall'', 8704), (''part'', 8706),
    (''exist'', 8707), (''empty'', 8709), (''nabla'', 8711), (''isin'', 8712), (''notin'', 8713),
    (''ni'', 8715), (''prod'', 8719), (''sum'', 8721), (''minus'', 8722), (''lowast'', 8727),
    (''radic'', 8730), (''prop'', 8733), (''infin'', 8734), (''ang'', 8736), (''and'', 8743),
    (''or'', 8744), (''cap'', 8745), (''cup'', 8746), (''int'', 8747), (''there4'', 8756),
    (''sim'', 8764), (''cong'', 8773), (''asymp'', 8776), (''ne'', 8800), (''equiv'', 8801),
    (''le'', 8804), (''ge'', 8805), (''sub'', 8834), (''sup'', 8835), (''nsub'', 8836),
    (''sube'', 8838), (''supe'', 8839), (''oplus'', 8853), (''otimes'', 8855), (''perp'', 8869),
    (''sdot'', 8901), (''lceil'', 8968), (''rceil'', 8969), (''lfloor'', 8970),
    (''rfloor'', 8971), (''lang'', 9001), (''rang'', 9002), (''loz'', 9674), (''spades'', 9824),
    (''clubs'', 9827), (''hearts'', 9829), (''diams'', 9830), (''quot'', 34), (''amp'', 38),
    (''lt'', 60), (''gt'', 62), (''OElig'', 338), (''oelig'', 339), (''Scaron'', 352),
    (''scaron'', 353), (''Yuml'', 376), (''circ'', 710), (''tilde'', 732), (''ensp'', 8194),
    (''emsp'', 8195), (''thinsp'', 8201), (''zwnj'', 8204), (''zwj'', 8205), (''lrm'', 8206),
    (''rlm'', 8207), (''ndash'', 8211), (''mdash'', 8212), (''lsquo'', 8216), (''rsquo'', 8217),
    (''sbquo'', 8218), (''ldquo'', 8220), (''rdquo'', 8221), (''bdquo'', 8222),
    (''dagger'', 8224), (''Dagger'', 8225), (''permil'', 8240), (''lsaquo'', 8249),
    (''rsaquo'', 8250), (''euro'', 8364)]"

definition ry :: "string list" where
  "ry = [''cent'', ''copy'', ''divide'', ''gt'', ''lt'', ''not'', ''para'', ''times'']"

text \<open>\<open>ay\<close>: the name of a character; a later entry of \<open>ny\<close> replaces an earlier one.\<close>

definition ay :: "(nat \<times> string) list" where
  "ay = rev (map (\<lambda>(n, c). (c, n)) ny)"

section \<open>Formats\<close>

record reference_options =
  subset :: "nat list option"
  escapeOnly :: bool
  attribute_mode :: bool
  omitOptionalSemicolons :: bool
  useNamedReferences :: bool
  useShortestReferences :: bool

definition no_options :: reference_options where
  "no_options = \<lparr>subset = None, escapeOnly = False, attribute_mode = False, omitOptionalSemicolons = False,
     useNamedReferences = False, useShortestReferences = False\<rparr>"

definition is_digit :: "nat \<Rightarrow> bool" where "is_digit u \<longleftrightarrow> 48 \<le> u \<and> u \<le> 57"

text \<open>\<open>Jb\<close>, \<open>ey\<close> and \<open>sy\<close> are tests on one character.\<close>

definition is_hex_digit :: "nat \<Rightarrow> bool" where
  "is_hex_digit u \<longleftrightarrow> is_digit u \<or> (65 \<le> u \<and> u \<le> 70) \<or> (97 \<le> u \<and> u \<le> 102)"

definition is_alphanumeric :: "nat \<Rightarrow> bool" where
  "is_alphanumeric u \<longleftrightarrow> is_digit u \<or> is_az u \<or> is_AZ u"

definition hex_digit :: "nat \<Rightarrow> nat" where
  "hex_digit d = (if d < 10 then 48 + d else 55 + d)"

text \<open>\<open>e.toString(16).toUpperCase()\<close>.\<close>

fun hex_string :: "nat \<Rightarrow> jsstr" where
  "hex_string n = (if n < 16 then [hex_digit n] else hex_string (n div 16) @ [hex_digit (n mod 16)])"

declare hex_string.simps [simp del]

text \<open>The next character counts when it exists and is not NUL.\<close>

definition truthy :: "nat option \<Rightarrow> bool" where
  "truthy t = (case t of Some u \<Rightarrow> u \<noteq> 0 | None \<Rightarrow> False)"

definition next_is :: "(nat \<Rightarrow> bool) \<Rightarrow> nat option \<Rightarrow> bool" where
  "next_is p t = (case t of Some u \<Rightarrow> p u | None \<Rightarrow> False)"

definition toHexadecimal :: "nat \<Rightarrow> nat option \<Rightarrow> bool \<Rightarrow> jsstr" where
  "toHexadecimal c t omit =
     (let r = js ''&#x'' @ hex_string c in
      if omit \<and> truthy t \<and> \<not> next_is is_hex_digit t then r else r @ [59])"

definition toDecimal :: "nat \<Rightarrow> nat option \<Rightarrow> bool \<Rightarrow> jsstr" where
  "toDecimal c t omit =
     (let r = js ''&#'' @ js (show_nat c) in
      if omit \<and> truthy t \<and> \<not> next_is is_digit t then r else r @ [59])"

text \<open>\<open>String.fromCharCode(e)\<close> keeps the low 16 bits.\<close>

definition toNamed :: "nat \<Rightarrow> nat option \<Rightarrow> bool \<Rightarrow> bool \<Rightarrow> jsstr" where
  "toNamed c t omit attr =
     (case map_of ay (c mod 65536) of
        Some e \<Rightarrow>
          (let a = 38 # js e in
           if omit \<and> e \<in> set ty \<and> e \<notin> set ry \<and>
              (\<not> attr \<or> truthy t \<and> t \<noteq> Some 61 \<and> next_is (\<lambda>u. \<not> is_alphanumeric u) t)
           then a else a @ [59])
      | None \<Rightarrow> [])"

definition ly :: "nat \<Rightarrow> nat option \<Rightarrow> reference_options \<Rightarrow> jsstr" where
  "ly c t n =
     (let o0 = toHexadecimal c t (omitOptionalSemicolons n);
          r = (if useNamedReferences n \<or> useShortestReferences n
               then toNamed c t (omitOptionalSemicolons n) (attribute_mode n) else []);
          d = toDecimal c t (omitOptionalSemicolons n);
          o1 = (if useShortestReferences n \<and> length d < length o0 then d else o0)
      in if r \<noteq> [] \<and> (\<not> useShortestReferences n \<or> length r < length o1) then r else o1)"

section \<open>Replacing\<close>

fun head :: "jsstr \<Rightarrow> nat option" where
  "head [] = None"
| "head (c # s) = Some c"

text \<open>\<open>s.replace(/[...]/g, n)\<close> for a class of characters.\<close>

fun replace_chars_by :: "(nat \<Rightarrow> bool) \<Rightarrow> reference_options \<Rightarrow> jsstr \<Rightarrow> jsstr" where
  "replace_chars_by p n [] = []"
| "replace_chars_by p n (c # s) = (if p c then ly c (head s) n else [c]) @ replace_chars_by p n s"

text \<open>\<open>s.replace(Wb, ...)\<close>: pairs of surrogates.\<close>

fun replace_pairs :: "reference_options \<Rightarrow> jsstr \<Rightarrow> jsstr" where
  "replace_pairs n (a # b # s) =
     (if 55296 \<le> a \<and> a \<le> 56319 \<and> 56320 \<le> b \<and> b \<le> 57343
      then ly (1024 * (a - 55296) + (b - 56320) + 65536) (head s) n @ replace_pairs n s
      else a # replace_pairs n (b # s))"
| "replace_pairs n s = s"

definition Zb :: "nat list" where "Zb = js [CHR 0x22, CHR 0x26, CHR 0x27, CHR 0x3C, CHR 0x3E, CHR 0x60]"

definition Xb :: "nat \<Rightarrow> bool" where
  "Xb u \<longleftrightarrow> (1 \<le> u \<and> u \<le> 9) \<or> u = 11 \<or> u = 12 \<or> (14 \<le> u \<and> u \<le> 31) \<or> u = 127 \<or>
     u \<in> {129, 141, 143, 144, 157} \<or> (160 \<le> u \<and> u \<le> 65535)"

definition Kb :: "jsstr \<Rightarrow> reference_options \<Rightarrow> jsstr" where
  "Kb e t =
     (case subset t of
        Some cs \<Rightarrow> replace_chars_by (\<lambda>u. u \<in> set cs) t e
      | None \<Rightarrow>
          (let e' = replace_chars_by (\<lambda>u. u \<in> set Zb) t e in
           if escapeOnly t then e' else replace_chars_by Xb t (replace_pairs t e')))"

text \<open>\<open>cy\<close> is \<open>Kb\<close> with \<open>ly\<close> as the format.\<close>

definition cy :: "jsstr \<Rightarrow> reference_options \<Rightarrow> jsstr" where
  "cy e t = Kb e t"

section \<open>Reading references back\<close>

definition hex_value_of :: "nat \<Rightarrow> nat" where
  "hex_value_of u = (if is_digit u then u - 48 else if 97 \<le> u then u - 87 else u - 55)"

definition hex_number :: "jsstr \<Rightarrow> nat" where
  "hex_number s = foldl (\<lambda>n u. 16 * n + hex_value_of u) 0 s"

text \<open>
  A decoder of hexadecimal references as the HTML standard reads them: the digits as far as they
  go, and a semicolon behind them when there is one.
\<close>

definition skip_semicolon :: "jsstr \<Rightarrow> jsstr" where
  "skip_semicolon s = (if head s = Some 59 then tl s else s)"

function decode_references :: "jsstr \<Rightarrow> jsstr" where
  "decode_references s =
     (case s of
        [] \<Rightarrow> []
      | c # r \<Rightarrow>
          if take 3 s = js ''&#x'' \<and> next_is is_hex_digit (head (drop 3 s))
          then hex_number (takeWhile is_hex_digit (drop 3 s)) #
               decode_references (skip_semicolon (dropWhile is_hex_digit (drop 3 s)))
          else c # decode_references r)"
  by pat_completeness auto
termination
proof (relation "measure length")
  fix s :: jsstr and c r
  assume s: "s = c # r"
  have "length (skip_semicolon (dropWhile is_hex_digit (drop 3 s))) \<le> length (dropWhile is_hex_digit (drop 3 s))"
    by (simp add: skip_semicolon_def)
  also have "\<dots> \<le> length (drop 3 s)" by (rule length_dropWhile_le)
  also have "\<dots> < length s" using s by simp
  finally show "(skip_semicolon (dropWhile is_hex_digit (drop 3 s)), s) \<in> measure length" by simp
qed auto

declare decode_references.simps [simp del]

lemma hex_digit_facts:
  "d < 16 \<Longrightarrow> is_hex_digit (hex_digit d)" "d < 16 \<Longrightarrow> hex_value_of (hex_digit d) = d"
  by (auto simp: hex_digit_def is_hex_digit_def is_digit_def hex_value_of_def)

lemma hex_string_facts:
  "list_all is_hex_digit (hex_string n)" "hex_string n \<noteq> []" "hex_number (hex_string n) = n"
proof (induction n rule: hex_string.induct)
  case (1 n)
  { case 1 then show ?case using "1.IH"(1) by (simp add: hex_string.simps [of n] hex_digit_facts) }
  { case 2 then show ?case by (simp add: hex_string.simps [of n]) }
  { case 3 then show ?case using "1.IH"(3)
      by (simp add: hex_string.simps [of n] hex_number_def hex_digit_facts) }
qed

lemma takeWhile_hex:
  "\<not> next_is is_hex_digit (head r) \<Longrightarrow> takeWhile is_hex_digit (hex_string c @ r) = hex_string c"
  "\<not> next_is is_hex_digit (head r) \<Longrightarrow> dropWhile is_hex_digit (hex_string c @ r) = r"
  using hex_string_facts(1) [of c]
  by (cases r; auto simp: list_all_iff takeWhile_append dropWhile_append next_is_def)+

lemma head_hex: "next_is is_hex_digit (head (hex_string c @ r))"
  using hex_string_facts(1,2) [of c] by (cases "hex_string c") (auto simp: next_is_def)

lemma decode_reference:
  assumes "\<not> next_is is_hex_digit (head r)"
  shows "decode_references (js ''&#x'' @ hex_string c @ r) = c # decode_references (skip_semicolon r)"
  using takeWhile_hex [OF assms, of c] head_hex [of c r] hex_string_facts(3) [of c]
  by (simp add: decode_references.simps [of "38 # s" for s] js_def)

lemma decode_plain: "c \<noteq> 38 \<Longrightarrow> decode_references (c # s) = c # decode_references s"
  by (simp add: decode_references.simps [of "c # s"] js_def)

text \<open>What stands behind a replaced character starts with the next character, or with a reference.\<close>

lemma ly_starts: "\<exists>r. ly c t n = 38 # r"
proof -
  have d: "\<exists>r. toHexadecimal c t m = 38 # r" "\<exists>r. toDecimal c t m = 38 # r" for m
    by (auto simp: toHexadecimal_def toDecimal_def Let_def js_def)
  have "toNamed c t m a = [] \<or> (\<exists>r. toNamed c t m a = 38 # r)" for m a
    by (auto simp: toNamed_def Let_def split: option.splits)
  then show ?thesis using d by (auto simp: ly_def Let_def)
qed

lemma head_replaced:
  "head (replace_chars_by p n s) = (case head s of None \<Rightarrow> None | Some u \<Rightarrow> Some (if p u then 38 else u))"
proof (cases s)
  case (Cons c r)
  then show ?thesis using ly_starts [of c "head r" n] by auto
qed simp

definition numeric :: "reference_options \<Rightarrow> bool" where
  "numeric n \<longleftrightarrow> \<not> useNamedReferences n \<and> \<not> useShortestReferences n"

lemma ly_numeric: "numeric n \<Longrightarrow> ly c t n = toHexadecimal c t (omitOptionalSemicolons n)"
  by (simp add: numeric_def ly_def Let_def)

lemma decode_replaced:
  assumes "numeric n" and "\<not> omitOptionalSemicolons n" and "p 38"
  shows "decode_references (replace_chars_by p n s) = s"
proof (induction s)
  case Nil
  then show ?case by (simp add: decode_references.simps)
next
  case (Cons c s)
  let ?r = "replace_chars_by p n s"
  show ?case
  proof (cases "p c")
    case False
    then have "c \<noteq> 38" using assms(3) by auto
    then show ?thesis using False Cons.IH by (simp add: decode_plain)
  next
    case True
    have "decode_references (js ''&#x'' @ hex_string c @ 59 # ?r) = c # decode_references ?r"
      using decode_reference [of "59 # ?r" c]
      by (simp add: next_is_def is_hex_digit_def is_digit_def skip_semicolon_def)
    then show ?thesis using True Cons.IH assms(2)
      by (simp add: ly_numeric [OF assms(1)] toHexadecimal_def Let_def)
  qed
qed

lemma reference_chars:
  assumes "numeric n" and "u \<in> set (ly c t n)"
  shows "u = 38 \<or> u = 35 \<or> u = 120 \<or> u = 59 \<or> is_hex_digit u"
  using assms hex_string_facts(1) [of c]
  by (auto simp: ly_numeric toHexadecimal_def Let_def js_def list_all_iff split: if_splits)

lemma replaced_absent:
  assumes "numeric n" and "p u" and "\<not> is_hex_digit u" and "u \<notin> {38, 35, 120, 59}"
  shows "u \<notin> set (replace_chars_by p n s)"
  using assms reference_chars [OF assms(1), of u] by (induction s) auto



text \<open>
  Leaving out optional semicolons loses a semicolon of the text: a less-than sign before a
  semicolon is written as a reference without one, and the semicolon of the text is read as its end.
\<close>

theorem omitted_semicolon_is_lost:
  "let out = cy (js ''<;'') (no_options\<lparr>subset := Some [60, 38], omitOptionalSemicolons := True\<rparr>)
   in out = js ''&#x3C;'' \<and> decode_references out = js ''<''"
proof -
  have c: "cy (js ''<;'') (no_options\<lparr>subset := Some [60, 38], omitOptionalSemicolons := True\<rparr>) = js ''&#x3C;''"
    by (simp add: cy_def Kb_def no_options_def js_def ly_def toHexadecimal_def truthy_def next_is_def
        is_hex_digit_def is_digit_def hex_string.simps hex_digit_def)
  have "js ''&#x3C;'' = js ''&#x'' @ hex_string 60 @ [59]" by (simp add: js_def hex_string.simps hex_digit_def)
  then have "decode_references (js ''&#x3C;'') = [60]"
    using decode_reference [of "[59]" 60]
    by (simp add: next_is_def is_hex_digit_def is_digit_def skip_semicolon_def decode_references.simps [of "[]"])
  then show ?thesis using c by (simp add: js_def)
qed

lemma map_of_rev_last:
  assumes "k \<notin> fst ` set ys"
  shows "map_of (rev (xs @ (k, v) # ys)) k = Some v"
proof -
  have "map_of (rev ys) k = None" using assms by (simp add: map_of_eq_None_iff)
  then show ?thesis by (simp add: map_add_def)
qed

lemma ay_copy: "map_of ay 169 = Some ''copy''"
proof -
  let ?f = "\<lambda>(n, c). (c, n)"
  have "ny = take 9 ny @ (''copy'', 169) # drop 10 ny" by (simp add: ny_def)
  then have "map ?f ny = map ?f (take 9 ny @ (''copy'', 169) # drop 10 ny)" by (rule arg_cong)
  then have ay: "ay = rev (map ?f (take 9 ny) @ (169, ''copy'') # map ?f (drop 10 ny))"
    unfolding ay_def by (simp only: map_append list.map prod.case)
  have "169 \<notin> fst ` set (map ?f (drop 10 ny))" by (simp add: ny_def)
  then show ?thesis unfolding ay by (rule map_of_rev_last)
qed

text \<open>
  A character outside the basic plane can be written as the reference of another character:
  \<open>String.fromCharCode\<close> keeps the low 16 bits, so that U+100A9 is written as \<open>&copy;\<close>.
\<close>

theorem astral_character_is_misnamed:
  "ly 65705 None (no_options\<lparr>useNamedReferences := True\<rparr>) = js ''&copy;''"
  by (simp add: ly_def toNamed_def ay_copy no_options_def truthy_def js_def)

end
