(* ===== verification/Hast_Stringify.thy ===== *)
theory Hast_Stringify
  imports Hast_Values Hast_Tables Entity_Stringify
begin

text \<open>
  Writing a syntax tree as HTML (\<^verbatim>\<open>hast-util-to-html\<close> inside \<^verbatim>\<open>src/api/scalar.standalone.js\<close>: the
  omission of tags \<open>Oy\<close> and \<open>Sy\<close>, attributes \<open>Ey\<close>, text \<open>Cy\<close>, the handlers of \<open>Ay\<close>, \<open>Ny\<close>, \<open>My\<close>). An
  exception is a value of \<open>html_error\<close>; the \<open>lastIndex\<close> of the search for attribute names is
  threaded through.
\<close>

datatype html_error =
  UnknownNode jsstr
| NoDescription jsstr
| InvalidQuote nat

record settings =
  omitOptionalTags :: bool
  allowParseErrors :: bool
  allowDangerousCharacters :: bool
  quoteSmart :: bool
  preferUnquoted :: bool
  tightAttributes :: bool
  upperDoctype :: bool
  tightDoctype :: bool
  bogusComments :: bool
  tightCommaSeparatedLists :: bool
  tightSelfClosing :: bool
  collapseEmptyAttributes :: bool
  allowDangerousHtml :: bool
  voids :: "jsstr list"
  characterReferences :: reference_options
  closeSelfClosing :: bool
  closeEmptyElements :: bool
  quote :: nat
  alternative :: nat
  lowercase :: "jsstr \<Rightarrow> jsstr"

text \<open>\<open>vm\<close>: the void elements.\<close>

definition vm :: "jsstr list" where
  "vm = map js [''area'', ''base'', ''basefont'', ''bgsound'', ''br'', ''col'', ''command'', ''embed'',
     ''frame'', ''hr'', ''image'', ''img'', ''input'', ''keygen'', ''link'', ''meta'', ''param'',
     ''source'', ''track'', ''wbr'']"

text \<open>The settings \<open>My\<close> uses without options; \<open>lowercase\<close> is \<open>toLowerCase\<close> of the engine.\<close>

definition default_settings :: "(jsstr \<Rightarrow> jsstr) \<Rightarrow> settings" where
  "default_settings low = \<lparr>omitOptionalTags = False, allowParseErrors = False,
     allowDangerousCharacters = False, quoteSmart = False, preferUnquoted = False,
     tightAttributes = False, upperDoctype = False, tightDoctype = False, bogusComments = False,
     tightCommaSeparatedLists = False, tightSelfClosing = False, collapseEmptyAttributes = False,
     allowDangerousHtml = False, voids = vm, characterReferences = no_options,
     closeSelfClosing = False, closeEmptyElements = False, quote = 34, alternative = 39,
     lowercase = low\<rparr>"

section \<open>Siblings\<close>

definition hast_children :: "hast \<Rightarrow> hast list" where
  "hast_children h = (case h of HRoot cs \<Rightarrow> cs | HElement n ps cs c \<Rightarrow> cs | HOther t cs \<Rightarrow> cs | _ \<Rightarrow> [])"

text \<open>\<open>vy(1)\<close> and \<open>vy(-1)\<close>: the next sibling that is not white space, or with the flag any.\<close>

definition after :: "hast list \<Rightarrow> int \<Rightarrow> hast list" where
  "after o' n = drop (nat (n + 1)) o'"

definition before :: "hast list \<Rightarrow> int \<Rightarrow> hast list" where
  "before o' n = rev (take (nat n) o')"

definition first_of :: "bool \<Rightarrow> hast list \<Rightarrow> hast option" where
  "first_of includeWhitespace hs =
     (case (if includeWhitespace then hs else dropWhile Bh hs) of h # _ \<Rightarrow> Some h | [] \<Rightarrow> None)"

definition fy :: "hast option \<Rightarrow> int \<Rightarrow> bool \<Rightarrow> hast option" where
  "fy p n ws = first_of ws (after (case p of Some h \<Rightarrow> hast_children h | None \<Rightarrow> []) n)"

definition my :: "hast option \<Rightarrow> int \<Rightarrow> hast option" where
  "my p n = first_of False (before (case p of Some h \<Rightarrow> hast_children h | None \<Rightarrow> []) n)"

definition is_comment :: "hast \<Rightarrow> bool" where
  "is_comment h = (case h of HComment v \<Rightarrow> True | _ \<Rightarrow> False)"

definition is_element :: "string list \<Rightarrow> hast \<Rightarrow> bool" where
  "is_element ns h = (case h of HElement n ps cs c \<Rightarrow> n \<in> set (map js ns) | _ \<Rightarrow> False)"

text \<open>A text that starts with white space; the empty text counts, as \<open>charAt(0)\<close> is empty.\<close>

definition starts_with_space :: "hast \<Rightarrow> bool" where
  "starts_with_space h = (case h of HText v \<Rightarrow> Uh (take 1 v) | _ \<Rightarrow> False)"

definition none_or :: "(hast \<Rightarrow> bool) \<Rightarrow> hast option \<Rightarrow> bool" where
  "none_or p r = (case r of Some h \<Rightarrow> p h | None \<Rightarrow> True)"

definition some_and :: "(hast \<Rightarrow> bool) \<Rightarrow> hast option \<Rightarrow> bool" where
  "some_and p r = (case r of Some h \<Rightarrow> p h | None \<Rightarrow> False)"

section \<open>Omission of closing tags: \<open>Oy\<close>\<close>

definition wy :: "int \<Rightarrow> hast option \<Rightarrow> bool" where
  "wy t n = none_or (\<lambda>r. \<not> is_comment r \<and> \<not> starts_with_space r) (fy n t True)"

definition closing_names :: "string list" where
  "closing_names = [''address'', ''article'', ''aside'', ''blockquote'', ''details'', ''div'', ''dl'',
     ''fieldset'', ''figcaption'', ''figure'', ''footer'', ''form'', ''h1'', ''h2'', ''h3'', ''h4'', ''h5'',
     ''h6'', ''header'', ''hgroup'', ''hr'', ''main'', ''menu'', ''nav'', ''ol'', ''p'', ''pre'', ''section'',
     ''table'', ''ul'']"

definition p_closing :: "int \<Rightarrow> hast option \<Rightarrow> bool" where
  "p_closing t n =
     (case fy n t False of
        Some r \<Rightarrow> is_element closing_names r
      | None \<Rightarrow> \<not> some_and (is_element [''a'', ''audio'', ''del'', ''ins'', ''map'', ''noscript'', ''video'']) n)"

definition Oy :: "jsstr \<Rightarrow> int \<Rightarrow> hast option \<Rightarrow> bool" where
  "Oy tag t n =
     (let r = fy n t False in
      if tag \<in> {js ''body'', js ''html''} then none_or (\<lambda>h. \<not> is_comment h) r
      else if tag \<in> {js ''caption'', js ''colgroup'', js ''head''} then wy t n
      else if tag = js ''dd'' then none_or (is_element [''dt'', ''dd'']) r
      else if tag = js ''dt'' then some_and (is_element [''dt'', ''dd'']) r
      else if tag = js ''li'' then none_or (is_element [''li'']) r
      else if tag = js ''optgroup'' then none_or (is_element [''optgroup'']) r
      else if tag = js ''option'' then none_or (is_element [''option'', ''optgroup'']) r
      else if tag = js ''p'' then p_closing t n
      else if tag \<in> {js ''rp'', js ''rt''} then none_or (is_element [''rp'', ''rt'']) r
      else if tag = js ''tbody'' then none_or (is_element [''tbody'', ''tfoot'']) r
      else if tag \<in> {js ''td'', js ''th''} then none_or (is_element [''td'', ''th'']) r
      else if tag = js ''tfoot'' then r = None
      else if tag = js ''thead'' then some_and (is_element [''tbody'', ''tfoot'']) r
      else if tag = js ''tr'' then none_or (is_element [''tr'']) r
      else False)"

section \<open>Omission of opening tags: \<open>Sy\<close>\<close>

fun repeats_title :: "hast list \<Rightarrow> jsstr list \<Rightarrow> bool" where
  "repeats_title [] seen = False"
| "repeats_title (h # hs) seen =
     (case h of
        HElement n ps cs c \<Rightarrow>
          if n = js ''title'' \<or> n = js ''base'' then n \<in> set seen \<or> repeats_title hs (seen @ [n])
          else repeats_title hs seen
      | _ \<Rightarrow> repeats_title hs seen)"

text \<open>The tag before is omitted: \<open>Oy(r, n.children.indexOf(r), n)\<close> for the sibling \<open>r\<close> found before.\<close>

definition tag_of :: "hast \<Rightarrow> jsstr" where
  "tag_of h = (case h of HElement n ps cs c \<Rightarrow> n | _ \<Rightarrow> [])"

definition index_before :: "hast list \<Rightarrow> int \<Rightarrow> int" where
  "index_before o' n = n - 1 - int (length (takeWhile Bh (before o' n)))"

definition closed_before :: "string list \<Rightarrow> int \<Rightarrow> hast option \<Rightarrow> bool" where
  "closed_before ns t n =
     (case (n, my n t) of
        (Some p, Some r) \<Rightarrow> is_element ns r \<and> Oy (tag_of r) (index_before (hast_children p) t) n
      | _ \<Rightarrow> False)"

definition Sy :: "hast \<Rightarrow> int \<Rightarrow> hast option \<Rightarrow> bool" where
  "Sy e t n =
     (let tag = tag_of e in
      if tag = js ''body'' then
        \<not> some_and (\<lambda>h. is_comment h \<or> starts_with_space h \<or>
            is_element [''meta'', ''link'', ''script'', ''style'', ''template''] h) (fy (Some e) (-1) True)
      else if tag = js ''colgroup'' then
        \<not> closed_before [''colgroup''] t n \<and> some_and (is_element [''col'']) (fy (Some e) (-1) True)
      else if tag = js ''head'' then
        \<not> repeats_title (hast_children e) [] \<and> hast_children e \<noteq> []
      else if tag = js ''html'' then none_or (\<lambda>h. \<not> is_comment h) (fy (Some e) (-1) False)
      else if tag = js ''tbody'' then
        \<not> closed_before [''thead'', ''tbody''] t n \<and> some_and (is_element [''tr'']) (fy (Some e) (-1) False)
      else False)"

section \<open>Attributes: \<open>Ey\<close>\<close>

text \<open>\<open>_y\<close>: the characters to encode, by whether parse errors and dangerous characters are avoided.\<close>

definition name_subset :: "bool \<Rightarrow> bool \<Rightarrow> nat list" where
  "name_subset strict safe =
     (if strict then [0, 9, 10, 12, 13, 32, 34, 38, 39, 47, 60, 61, 62] @ (if safe then [96] else [])
      else if safe then [9, 10, 12, 13, 32, 34, 38, 39, 47, 61, 62, 96]
      else [9, 10, 12, 13, 32, 38, 47, 61, 62])"

definition unquoted_subset :: "bool \<Rightarrow> bool \<Rightarrow> nat list" where
  "unquoted_subset strict safe =
     (if strict \<or> safe then [0, 9, 10, 12, 13, 32, 34, 38, 39, 60, 61, 62, 96]
      else [9, 10, 12, 13, 32, 38, 62])"

definition single_subset :: "bool \<Rightarrow> bool \<Rightarrow> nat list" where
  "single_subset strict safe = (if strict then [0] else []) @ (if safe then [34, 38, 39, 96] else [38, 39])"

definition double_subset :: "bool \<Rightarrow> bool \<Rightarrow> nat list" where
  "double_subset strict safe = (if strict then [0] else []) @ (if safe then [34, 38, 39, 96] else [34, 38])"

fun is_string :: "hvalue \<Rightarrow> bool" where
  "is_string (HStr s) = True"
| "is_string v = False"

definition boolean_value :: "info \<Rightarrow> hvalue \<Rightarrow> hvalue" where
  "boolean_value r n =
     (if overloadedBoolean r \<and> (n = HStr (attribute r) \<or> n = HStr []) then HBool True
      else if boolean r \<or> overloadedBoolean r \<and> \<not> is_string n then HBool (truth n)
      else n)"

text \<open>An element of a joined list: \<open>null\<close> is the empty string.\<close>

definition item_string :: "hvalue \<Rightarrow> jsstr" where
  "item_string v = (if v = HNull then [] else value_string v)"

definition value_text :: "settings \<Rightarrow> info \<Rightarrow> hvalue \<Rightarrow> jsstr" where
  "value_text e r n =
     (case n of
        HArr vs \<Rightarrow> if commaSeparated r then zf (\<not> tightCommaSeparatedLists e) (map item_string vs)
                   else vh (map item_string vs)
      | _ \<Rightarrow> value_string n)"

definition strictness :: "settings \<Rightarrow> schema \<Rightarrow> bool" where
  "strictness e sch \<longleftrightarrow> \<not> (allowParseErrors e \<and> s_space sch = Some (js ''html''))"

text \<open>\<open>hy\<close>: how often a character occurs.\<close>

definition hy :: "jsstr \<Rightarrow> nat \<Rightarrow> nat" where "hy s u = count_list s u"

definition quoted_value :: "settings \<Rightarrow> schema \<Rightarrow> jsstr \<Rightarrow> jsstr" where
  "quoted_value e sch v =
     (let s = (if quoteSmart e \<and> hy v (quote e) > hy v (alternative e) then alternative e else quote e);
          cs = (if s = 39 then single_subset else double_subset) (strictness e sch) (\<not> allowDangerousCharacters e)
      in s # cy v ((characterReferences e)\<lparr>subset := Some cs, attribute_mode := True\<rparr>) @ [s])"

definition unquoted_value :: "settings \<Rightarrow> schema \<Rightarrow> jsstr \<Rightarrow> jsstr" where
  "unquoted_value e sch v =
     cy v ((characterReferences e)\<lparr>subset := Some (unquoted_subset (strictness e sch) (\<not> allowDangerousCharacters e)),
       attribute_mode := True\<rparr>)"

definition attribute_text :: "settings \<Rightarrow> schema \<Rightarrow> info \<Rightarrow> hvalue \<Rightarrow> jsstr" where
  "attribute_text e sch r n0 =
     (let n = boolean_value r n0 in
      if n = HNull \<or> n = HBool False \<or> n = HNum (js ''NaN'') then []
      else
        (let l = cy (attribute r) ((characterReferences e)\<lparr>subset :=
               Some (name_subset (strictness e sch) (\<not> allowDangerousCharacters e))\<rparr>)
         in if n = HBool True then l
            else
              (let v = value_text e r n in
               if collapseEmptyAttributes e \<and> v = [] then l
               else
                 (let i = (if preferUnquoted e \<and> unquoted_value e sch v = v then v
                           else quoted_value e sch v)
                  in l @ (if i = [] then [] else 61 # i)))))"

definition Ey :: "settings \<Rightarrow> schema \<Rightarrow> jsstr \<Rightarrow> hvalue \<Rightarrow> nat \<Rightarrow> html_error + jsstr \<times> nat" where
  "Ey e sch k v li =
     (case Lf (lowercase e) sch k li of
        (None, li') \<Rightarrow> Inl (NoDescription k)
      | (Some r, li') \<Rightarrow> Inr (attribute_text e sch r v, li'))"

text \<open>The texts of the attributes, in order; a missing value is skipped.\<close>

fun attribute_texts :: "settings \<Rightarrow> schema \<Rightarrow> (jsstr \<times> hvalue) list \<Rightarrow> nat \<Rightarrow> html_error + jsstr list \<times> nat" where
  "attribute_texts e sch [] li = Inr ([], li)"
| "attribute_texts e sch ((k, v) # ps) li =
     (if v = HNull then attribute_texts e sch ps li
      else case Ey e sch k v li of
        Inl x \<Rightarrow> Inl x
      | Inr (s, li') \<Rightarrow>
          (case attribute_texts e sch ps li' of
             Inl x \<Rightarrow> Inl x
           | Inr (ss, li'') \<Rightarrow> Inr (if s = [] then ss else s # ss, li'')))"

fun space_attributes :: "settings \<Rightarrow> jsstr list \<Rightarrow> jsstr" where
  "space_attributes e [] = []"
| "space_attributes e [s] = s"
| "space_attributes e (s # t # ss) =
     s @ (if tightAttributes e \<and> (List.last s = 34 \<or> List.last s = 39) then [] else [32]) @
     space_attributes e (t # ss)"

section \<open>Nodes\<close>

definition Cy :: "settings \<Rightarrow> hast option \<Rightarrow> jsstr \<Rightarrow> jsstr" where
  "Cy e n v =
     (if some_and (is_element [''script'', ''style'']) n then v
      else cy v ((characterReferences e)\<lparr>subset := Some [60, 38]\<rparr>))"

text \<open>\<open>value.replace(uy, ...)\<close>: the alternatives in the order of the pattern; the flag tells the start.\<close>

definition comment_match :: "bool \<Rightarrow> jsstr \<Rightarrow> nat" where
  "comment_match start s =
     (if start \<and> startsWith s (js ''>'') then 1
      else if start \<and> startsWith s (js ''->'') then 2
      else if startsWith s (js ''<!--'') then 4
      else if startsWith s (js ''-->'') then 3
      else if startsWith s (js ''--!>'') then 4
      else if s = js ''<!-'' then 3
      else 0)"

fun comment_text :: "settings \<Rightarrow> nat \<Rightarrow> bool \<Rightarrow> jsstr \<Rightarrow> jsstr" where
  "comment_text e 0 start s = s"
| "comment_text e (Suc f) start s =
     (case s of
        [] \<Rightarrow> []
      | c # r \<Rightarrow>
          (let m = comment_match start s in
           if m = 0 then c # comment_text e f False r
           else cy (take m s) ((characterReferences e)\<lparr>subset := Some [60, 62]\<rparr>) @
                comment_text e f False (drop m s)))"

definition comment_html :: "settings \<Rightarrow> jsstr \<Rightarrow> jsstr" where
  "comment_html e v =
     (if bogusComments e
      then js ''<?'' @ cy v ((characterReferences e)\<lparr>subset := Some [62]\<rparr>) @ js ''>''
      else js ''<!--'' @ comment_text e (length v) True v @ js ''-->'')"

definition doctype_html :: "settings \<Rightarrow> jsstr" where
  "doctype_html e = js ''<!'' @ (if upperDoctype e then js ''DOCTYPE'' else js ''doctype'') @
     (if tightDoctype e then [] else [32]) @ js ''html>''"

definition is_svg :: "schema \<Rightarrow> bool" where
  "is_svg sch \<longleftrightarrow> s_space sch = Some (js ''svg'')"

definition inner_schema :: "schema \<Rightarrow> jsstr \<Rightarrow> schema" where
  "inner_schema sch n = (if s_space sch = Some (js ''html'') \<and> n = js ''svg'' then Qf else sch)"

text \<open>The tags around the text of the children.\<close>

definition element_html :: "settings \<Rightarrow> schema \<Rightarrow> hast \<Rightarrow> int \<Rightarrow> hast option \<Rightarrow> jsstr \<Rightarrow> jsstr \<Rightarrow> jsstr" where
  "element_html e sch h t p c u =
     (let n = tag_of h;
          a = (\<not> is_svg sch \<and> omitOptionalTags e);
          i = (u = [] \<and> (if is_svg sch then closeEmptyElements e else lowercase e n \<in> set (voids e)));
          slash = (if i \<and> (is_svg sch \<or> closeSelfClosing e)
            then (if \<not> tightSelfClosing e \<or> c \<noteq> [] \<and> (List.last c = 47 \<or> List.last c \<noteq> 34 \<and> List.last c \<noteq> 39)
                  then [32] else []) @ [47]
            else []);
          open = (if c = [] \<and> a \<and> Sy h t p then []
            else 60 # n @ (if c = [] then [] else 32 # c) @ slash @ [62])
      in open @ u @ (if i \<or> a \<and> Oy n t p then [] else js ''</'' @ n @ [62]))"

text \<open>\<open>Ay\<close> and \<open>Ny\<close>: a node at an index below a parent, and the children of a node from an index on.\<close>

fun one :: "settings \<Rightarrow> schema \<Rightarrow> hast \<Rightarrow> int \<Rightarrow> hast option \<Rightarrow> nat \<Rightarrow> html_error + jsstr \<times> nat"
  and all_from :: "settings \<Rightarrow> schema \<Rightarrow> hast list \<Rightarrow> int \<Rightarrow> hast option \<Rightarrow> nat \<Rightarrow> html_error + jsstr \<times> nat" where
  "one e sch (HComment v) t p li = Inr (comment_html e v, li)"
| "one e sch HDoctype t p li = Inr (doctype_html e, li)"
| "one e sch (HText v) t p li = Inr (Cy e p v, li)"
| "one e sch (HRaw v) t p li = Inr (if allowDangerousHtml e then v else Cy e p v, li)"
| "one e sch (HRoot cs) t p li = all_from e sch cs 0 (Some (HRoot cs)) li"
| "one e sch (HOther y cs) t p li = Inl (UnknownNode y)"
| "one e sch (HElement n ps cs ct) t p li =
     (case attribute_texts e (inner_schema sch n) ps li of
        Inl x \<Rightarrow> Inl x
      | Inr (as, li1) \<Rightarrow>
          (let template = (s_space sch = Some (js ''html'') \<and> n = js ''template'');
               u = (if template
                    then case ct of
                           Some (HRoot ds) \<Rightarrow> all_from e (inner_schema sch n) ds 0 ct li1
                         | _ \<Rightarrow> Inr ([], li1)
                    else all_from e (inner_schema sch n) cs 0 (Some (HElement n ps cs ct)) li1)
           in case u of
                Inl x \<Rightarrow> Inl x
              | Inr (us, li2) \<Rightarrow>
                  Inr (element_html e sch (HElement n ps cs ct) t p (space_attributes e as) us, li2)))"
| "all_from e sch [] t p li = Inr ([], li)"
| "all_from e sch (c # cs) t p li =
     (case one e sch c t p li of
        Inl x \<Rightarrow> Inl x
      | Inr (s, li1) \<Rightarrow>
          (case all_from e sch cs (t + 1) p li1 of
             Inl x \<Rightarrow> Inl x
           | Inr (ss, li2) \<Rightarrow> Inr (s @ ss, li2)))"

text \<open>The function \<open>My\<close> calls, with the settings its options give, and \<open>My\<close> without options.\<close>

definition to_html :: "settings \<Rightarrow> bool \<Rightarrow> hast \<Rightarrow> nat \<Rightarrow> html_error + jsstr \<times> nat" where
  "to_html e svg h li =
     (if quote e \<noteq> 34 \<and> quote e \<noteq> 39 then Inl (InvalidQuote (quote e))
      else one e (if svg then Qf else Uf) h 0 None li)"

definition My :: "(jsstr \<Rightarrow> jsstr) \<Rightarrow> hast \<Rightarrow> nat \<Rightarrow> html_error + jsstr \<times> nat" where
  "My low h li = to_html (default_settings low) False h li"

end
