(* ===== verification/Hast_Parse5.thy ===== *)
theory Hast_Parse5
  imports Hast_Stringify Html_Dom
begin

text \<open>
  Between the tree of the HTML parser and the syntax tree, in \<^verbatim>\<open>src/api/scalar.standalone.js\<close>: the
  element builder (\<^verbatim>\<open>hastscript\<close>: \<open>Zf\<close>, \<open>Wf\<close>, \<open>Xf\<close>, \<open>Gf\<close>), \<^verbatim>\<open>hast-util-from-parse5\<close> (\<open>rm\<close>, \<open>om\<close>, \<open>am\<close>) and
  \<^verbatim>\<open>hast-util-to-parse5\<close> (\<open>hm\<close>, \<open>fm\<close>, \<open>mm\<close>). The parser's tree is read as a value here; \<open>read_node\<close> takes it
  out of the heap the parser works on. Two operations of the engine are arguments: \<open>low\<close> is
  \<open>toLowerCase\<close>, and \<open>num s\<close> is the text of \<open>Number(s)\<close>, or \<open>None\<close> when that is not a number. Positions
  and \<open>data\<close> fields are left out, and the \<open>lastIndex\<close> of the search for names is threaded through.
\<close>

datatype p5 =
  P5Document "p5 list"
| P5Fragment "p5 list"
| P5Element jsstr namespace "dom_attr list" "p5 list" "p5 option"
| P5Text jsstr
| P5Comment jsstr
| P5Doctype jsstr jsstr jsstr

text \<open>The exceptions: a property of \<open>undefined\<close> is read or set.\<close>

datatype p5_error =
  NoInfo jsstr
| NoTemplateContent
| NoHandler jsstr

text \<open>A node of the heap as a value; \<open>n\<close> bounds the depth.\<close>

primrec read_node :: "nat \<Rightarrow> heap \<Rightarrow> addr \<Rightarrow> p5 option" where
  "read_node 0 h a = None"
| "read_node (Suc n) h a =
     (case node_at h a of
        None \<Rightarrow> None
      | Some nd \<Rightarrow>
          (let cs = those (map (read_node n h) (childNodes nd)) in
           case kind_of nd of
             Document \<Rightarrow> map_option P5Document cs
           | DocumentFragment \<Rightarrow> map_option P5Fragment cs
           | Element name ns as None \<Rightarrow> map_option (\<lambda>cs. P5Element name ns as cs None) cs
           | Element name ns as (Some c) \<Rightarrow>
               (case (cs, read_node n h c) of
                  (Some cs, Some t) \<Rightarrow> Some (P5Element name ns as cs (Some t))
                | _ \<Rightarrow> None)
           | Text s \<Rightarrow> Some (P5Text s)
           | CommentNode s \<Rightarrow> Some (P5Comment s)
           | DocumentType a b c \<Rightarrow> Some (P5Doctype a b c)))"

section \<open>Objects\<close>

text \<open>
  An object is the list of its own properties in the order a \<open>for\<close>-\<open>in\<close> loop visits them: array
  indices first, by their value, then the other names by the time they were added.
\<close>

definition array_index :: "jsstr \<Rightarrow> nat option" where
  "array_index s =
     (let n = foldl (\<lambda>n u. n * 10 + (u - 48)) 0 s in
      if s \<noteq> [] \<and> list_all is_digit s \<and> (hd s \<noteq> 48 \<or> s = [48]) \<and> n < 4294967295 then Some n else None)"

definition smaller_index :: "nat \<Rightarrow> jsstr \<times> 'v \<Rightarrow> bool" where
  "smaller_index n p = (case array_index (fst p) of Some m \<Rightarrow> m < n | None \<Rightarrow> False)"

definition obj_put :: "jsstr \<Rightarrow> 'v \<Rightarrow> (jsstr \<times> 'v) list \<Rightarrow> (jsstr \<times> 'v) list" where
  "obj_put k v ps =
     (if k \<in> fst ` set ps then map (\<lambda>p. if fst p = k then (k, v) else p) ps
      else case array_index k of
        Some n \<Rightarrow> takeWhile (smaller_index n) ps @ (k, v) # dropWhile (smaller_index n) ps
      | None \<Rightarrow> ps @ [(k, v)])"

section \<open>The element builder\<close>

type_synonym props = "(jsstr \<times> hvalue) list"

definition class_name :: jsstr where "class_name = js ''className''"

text \<open>
  The selector: a piece without a mark is the tag name, one behind \<open>#\<close> the id, one behind \<open>.\<close> a class.
\<close>

definition is_mark :: "nat \<Rightarrow> bool" where "is_mark u \<longleftrightarrow> u = 35 \<or> u = 46"

definition add_piece :: "nat option \<Rightarrow> jsstr \<Rightarrow> jsstr option \<times> props \<Rightarrow> jsstr option \<times> props" where
  "add_piece mark t r =
     (if t = [] then r
      else case mark of
        None \<Rightarrow> (Some t, snd r)
      | Some m \<Rightarrow> (fst r,
          if m = 35 then obj_put (js ''id'') (HStr t) (snd r)
          else case map_of (snd r) class_name of
            Some (HArr vs) \<Rightarrow> obj_put class_name (HArr (vs @ [HStr t])) (snd r)
          | _ \<Rightarrow> obj_put class_name (HArr [HStr t]) (snd r)))"

function selector :: "nat option \<Rightarrow> jsstr \<Rightarrow> jsstr option \<times> props \<Rightarrow> jsstr option \<times> props" where
  "selector mark s r =
     (if s = [] then r
      else
        (let t = takeWhile (\<lambda>u. \<not> is_mark u) s; r1 = add_piece mark t r in
         case dropWhile (\<lambda>u. \<not> is_mark u) s of
           [] \<Rightarrow> r1
         | m # rest \<Rightarrow> selector (Some m) rest r1))"
  by pat_completeness auto
termination
proof (relation "measure (\<lambda>(mark, s, r). length s)", simp_all)
  fix s :: jsstr and m rest
  assume "dropWhile (\<lambda>u. \<not> is_mark u) s = m # rest"
  then show "length rest < length s" using length_dropWhile_le [of "\<lambda>u. \<not> is_mark u" s] by simp
qed

declare selector.simps [simp del]

text \<open>\<open>Gf\<close>: a value that is a string becomes a number or \<open>true\<close> when the description says so.\<close>

definition parse_primitive :: "(jsstr \<Rightarrow> jsstr) \<Rightarrow> (jsstr \<Rightarrow> jsstr option) \<Rightarrow> info \<Rightarrow> jsstr \<Rightarrow> hvalue" where
  "parse_primitive low num i s =
     (case (if number i \<and> s \<noteq> [] then num s else None) of
        Some n \<Rightarrow> HNum n
      | None \<Rightarrow> if (boolean i \<or> overloadedBoolean i) \<and> (s = [] \<or> low s = low (property i)) then HBool True
                else HStr s)"

text \<open>\<open>Wf\<close> on an attribute value, which is a string; first the value, then the assignment.\<close>

definition parse_value :: "(jsstr \<Rightarrow> jsstr) \<Rightarrow> (jsstr \<Rightarrow> jsstr option) \<Rightarrow> info \<Rightarrow> jsstr \<Rightarrow> hvalue" where
  "parse_value low num i s =
     (if spaceSeparated i then HArr (map (parse_primitive low num i) (gh s))
      else if commaSeparated i then HArr (map (parse_primitive low num i) (Ff s))
      else if commaOrSpaceSeparated i then HArr (map (parse_primitive low num i) (gh (join [32] (Ff s))))
      else parse_primitive low num i s)"

definition add_classes :: "info \<Rightarrow> props \<Rightarrow> hvalue \<Rightarrow> hvalue" where
  "add_classes i ps v =
     (if property i = class_name
      then (case map_of ps class_name of
              Some (HArr cs) \<Rightarrow> HArr (cs @ (case v of HArr vs \<Rightarrow> vs | _ \<Rightarrow> [v]))
            | _ \<Rightarrow> v)
      else v)"

definition Wf ::
  "(jsstr \<Rightarrow> jsstr) \<Rightarrow> (jsstr \<Rightarrow> jsstr option) \<Rightarrow> schema \<Rightarrow> jsstr \<Rightarrow> jsstr \<Rightarrow> props \<Rightarrow> nat \<Rightarrow> p5_error + props \<times> nat" where
  "Wf low num sch k v ps li =
     (case Lf low sch k li of
        (None, li') \<Rightarrow> Inl (NoInfo k)
      | (Some i, li') \<Rightarrow> Inr (obj_put (property i) (add_classes i ps (parse_value low num i v)) ps, li'))"

fun add_properties ::
  "(jsstr \<Rightarrow> jsstr) \<Rightarrow> (jsstr \<Rightarrow> jsstr option) \<Rightarrow> schema \<Rightarrow> (jsstr \<times> jsstr) list \<Rightarrow> props \<Rightarrow> nat \<Rightarrow> p5_error + props \<times> nat" where
  "add_properties low num sch [] ps li = Inr (ps, li)"
| "add_properties low num sch ((k, v) # kvs) ps li =
     (case Wf low num sch k v ps li of
        Inl e \<Rightarrow> Inl e
      | Inr (ps', li') \<Rightarrow> add_properties low num sch kvs ps' li')"

text \<open>Is the second argument, an object of strings, a set of properties or a child?\<close>

definition Hf :: "jsstr list" where
  "Hf = map js [''button'', ''menu'', ''reset'', ''submit'']"

definition isProperties :: "(jsstr \<Rightarrow> jsstr) \<Rightarrow> (jsstr \<times> jsstr) list \<Rightarrow> jsstr \<Rightarrow> bool" where
  "isProperties low o' tag =
     (case map_of o' (js ''type'') of
        None \<Rightarrow> True
      | Some kind \<Rightarrow>
          if tag = js ''input'' \<or> kind = [] then True
          else if tag = js ''button'' then low kind \<in> set Hf
          else map_of o' (js ''value'') = None)"

text \<open>\<open>Xf\<close>: a node is added as a child, a root gives its children.\<close>

fun Xf :: "hast \<Rightarrow> hast list" where
  "Xf (HRoot cs) = concat (map Xf cs)"
| "Xf h = [h]"

text \<open>
  \<open>Xf\<close> on an object of strings: the object itself is the child, and its string \<open>type\<close> says what
  node it is. Its fields other than the value are of no use to a node; an element without a tag name
  has the empty one, and a missing value is the empty text, as the sanitizer reads them.
\<close>

definition object_child :: "(jsstr \<times> jsstr) list \<Rightarrow> hast list" where
  "object_child o' =
     (let kind = (case map_of o' (js ''type'') of Some t \<Rightarrow> t | None \<Rightarrow> []);
          v = (case map_of o' (js ''value'') of Some s \<Rightarrow> s | None \<Rightarrow> [])
      in if kind = js ''root'' then (case map_of o' (js ''children'') of Some s \<Rightarrow> [HText s] | None \<Rightarrow> [])
         else if kind = js ''element'' then [HElement [] [] [] None]
         else if kind = js ''text'' then [HText v]
         else if kind = js ''comment'' then [HComment v]
         else if kind = js ''doctype'' then [HDoctype]
         else if kind = js ''raw'' then [HRaw v]
         else [HOther kind []])"

text \<open>A builder: the schema, the default tag name and the names with capitals.\<close>

record builder =
  b_schema :: schema
  b_default :: jsstr
  b_names :: "(jsstr \<times> jsstr) list"

definition case_names_map :: "string list \<Rightarrow> (jsstr \<times> jsstr) list" where
  "case_names_map ns = map (\<lambda>n. (ascii_lower (js n), js n)) ns"

definition Yf :: builder where
  "Yf = \<lparr>b_schema = Uf, b_default = js ''div'', b_names = []\<rparr>"

definition svg_case_names :: "string list" where
  "svg_case_names = [''altGlyph'', ''altGlyphDef'', ''altGlyphItem'', ''animateColor'', ''animateMotion'',
     ''animateTransform'', ''clipPath'', ''feBlend'', ''feColorMatrix'', ''feComponentTransfer'',
     ''feComposite'', ''feConvolveMatrix'', ''feDiffuseLighting'', ''feDisplacementMap'',
     ''feDistantLight'', ''feDropShadow'', ''feFlood'', ''feFuncA'', ''feFuncB'', ''feFuncG'', ''feFuncR'',
     ''feGaussianBlur'', ''feImage'', ''feMerge'', ''feMergeNode'', ''feMorphology'', ''feOffset'',
     ''fePointLight'', ''feSpecularLighting'', ''feSpotLight'', ''feTile'', ''feTurbulence'',
     ''foreignObject'', ''glyphRef'', ''linearGradient'', ''radialGradient'', ''solidColor'', ''textArea'',
     ''textPath'']"

definition Kf :: builder where
  "Kf = \<lparr>b_schema = Qf, b_default = js ''g'', b_names = case_names_map svg_case_names\<rparr>"

definition cased_tag :: "(jsstr \<Rightarrow> jsstr) \<Rightarrow> builder \<Rightarrow> jsstr \<Rightarrow> jsstr" where
  "cased_tag low b t = (case map_of (b_names b) (low t) of Some n \<Rightarrow> n | None \<Rightarrow> low t)"

text \<open>The function \<open>Zf\<close> returns, called with a selector, an object of strings and an array of nodes.\<close>

definition Zf ::
  "(jsstr \<Rightarrow> jsstr) \<Rightarrow> (jsstr \<Rightarrow> jsstr option) \<Rightarrow> builder \<Rightarrow> jsstr \<Rightarrow> (jsstr \<times> jsstr) list \<Rightarrow> hast list \<Rightarrow> nat \<Rightarrow>
     p5_error + hast \<times> nat" where
  "Zf low num b sel o' cs li =
     (case selector None sel (None, []) of (a, ps0) \<Rightarrow>
        let tag = cased_tag low b (case a of Some t \<Rightarrow> t | None \<Rightarrow> b_default b);
            kids = concat (map Xf cs);
            finish = (\<lambda>ps kids li'. Inr (if tag = js ''template'' then HElement tag ps [] (Some (HRoot kids))
                                         else HElement tag ps kids None, li'))
        in if isProperties low o' tag
           then (case add_properties low num (b_schema b) o' ps0 li of
                   Inl e \<Rightarrow> Inl e
                 | Inr (ps, li') \<Rightarrow> finish ps kids li')
           else finish ps0 (object_child o' @ kids) li)"

section \<open>From the parser's tree: \<open>om\<close> and \<open>am\<close>\<close>

definition qualified_name :: "dom_attr \<Rightarrow> jsstr" where
  "qualified_name a = (case a_prefix a of Some p \<Rightarrow> (if p = [] then [] else p @ [58]) | None \<Rightarrow> []) @ a_name a"

definition attr_object :: "dom_attr list \<Rightarrow> (jsstr \<times> jsstr) list" where
  "attr_object as = foldl (\<lambda>o' a.
     if qualified_name a \<in> set object_prototype then o' else obj_put (qualified_name a) (a_value a) o') [] as"

definition builder_of :: "namespace \<Rightarrow> builder" where
  "builder_of ns = (if ns = NS_SVG then Kf else Yf)"

fun om :: "(jsstr \<Rightarrow> jsstr) \<Rightarrow> (jsstr \<Rightarrow> jsstr option) \<Rightarrow> p5 \<Rightarrow> nat \<Rightarrow> p5_error + hast \<times> nat"
and am :: "(jsstr \<Rightarrow> jsstr) \<Rightarrow> (jsstr \<Rightarrow> jsstr option) \<Rightarrow> p5 list \<Rightarrow> nat \<Rightarrow> p5_error + hast list \<times> nat" where
  "om low num (P5Comment s) li = Inr (HComment s, li)"
| "om low num (P5Document cs) li = map_sum id (\<lambda>(hs, l). (HRoot hs, l)) (am low num cs li)"
| "om low num (P5Fragment cs) li = map_sum id (\<lambda>(hs, l). (HRoot hs, l)) (am low num cs li)"
| "om low num (P5Doctype a b c) li = Inr (HDoctype, li)"
| "om low num (P5Text s) li = Inr (HText s, li)"
| "om low num (P5Element name ns as cs content) li =
     (case am low num cs li of
        Inl e \<Rightarrow> Inl e
      | Inr (hs, l1) \<Rightarrow>
          case Zf low num (builder_of ns) name (attr_object as) hs l1 of
            Inl e \<Rightarrow> Inl e
          | Inr (h, l2) \<Rightarrow>
              if tag_of h = js ''template''
              then (case content of
                      None \<Rightarrow> Inl NoTemplateContent
                    | Some t \<Rightarrow>
                        case om low num t l2 of
                          Inl e \<Rightarrow> Inl e
                        | Inr (c, l3) \<Rightarrow>
                            Inr (case h of HElement n ps ks _ \<Rightarrow> HElement n ps ks (Some c) | _ \<Rightarrow> h, l3))
              else Inr (h, l2))"
| "am low num [] li = Inr ([], li)"
| "am low num (t # ts) li =
     (case om low num t li of
        Inl e \<Rightarrow> Inl e
      | Inr (h, l1) \<Rightarrow>
          case am low num ts l1 of
            Inl e \<Rightarrow> Inl e
          | Inr (hs, l2) \<Rightarrow> Inr (h # hs, l2))"

definition rm :: "(jsstr \<Rightarrow> jsstr) \<Rightarrow> (jsstr \<Rightarrow> jsstr option) \<Rightarrow> p5 \<Rightarrow> nat \<Rightarrow> p5_error + hast \<times> nat" where
  "rm low num t li = om low num t li"

section \<open>To the parser's tree: \<open>hm\<close>, \<open>fm\<close> and \<open>mm\<close>\<close>

text \<open>\<open>em\<close>: the namespace of a space of names.\<close>

definition em :: "jsstr \<Rightarrow> namespace option" where
  "em s = map_of [(js ''html'', NS_HTML), (js ''mathml'', NS_MATHML), (js ''svg'', NS_SVG),
     (js ''xlink'', NS_XLINK), (js ''xml'', NS_XML), (js ''xmlns'', NS_XMLNS)] s"

definition attr_text :: "info \<Rightarrow> hvalue \<Rightarrow> jsstr" where
  "attr_text i v =
     (case v of
        HArr vs \<Rightarrow> if commaSeparated i then zf True (map item_string vs) else vh (map item_string vs)
      | HBool True \<Rightarrow> []
      | _ \<Rightarrow> value_string v)"

definition spaced_attr :: "info \<Rightarrow> jsstr \<Rightarrow> dom_attr" where
  "spaced_attr i v =
     (let plain = \<lparr>a_name = attribute i, a_value = v, a_prefix = None, a_namespace = None\<rparr> in
      case info_space i of
        None \<Rightarrow> plain
      | Some s \<Rightarrow>
          if s = [] \<or> s = js ''html'' \<or> s = js ''svg'' then plain
          else case index_of [58] (attribute i) of
            None \<Rightarrow> plain\<lparr>a_prefix := Some [], a_namespace := em s\<rparr>
          | Some n \<Rightarrow> plain\<lparr>a_name := drop (n + 1) (attribute i), a_prefix := Some (take n (attribute i)),
              a_namespace := em s\<rparr>)"

definition fm :: "(jsstr \<Rightarrow> jsstr) \<Rightarrow> schema \<Rightarrow> jsstr \<Rightarrow> hvalue \<Rightarrow> nat \<Rightarrow> p5_error + dom_attr option \<times> nat" where
  "fm low sch k v li =
     (case Lf low sch k li of
        (i, li') \<Rightarrow>
          if v = HBool False \<or> v = HNull \<or> v = HNum (js ''NaN'') then Inr (None, li')
          else case i of
            None \<Rightarrow> Inl (NoInfo k)
          | Some i \<Rightarrow> Inr (if \<not> truth v \<and> boolean i then None else Some (spaced_attr i (attr_text i v)), li'))"

fun element_attrs :: "(jsstr \<Rightarrow> jsstr) \<Rightarrow> schema \<Rightarrow> props \<Rightarrow> nat \<Rightarrow> p5_error + dom_attr list \<times> nat" where
  "element_attrs low sch [] li = Inr ([], li)"
| "element_attrs low sch ((k, v) # ps) li =
     (if k = js ''children'' then element_attrs low sch ps li
      else case fm low sch k v li of
        Inl e \<Rightarrow> Inl e
      | Inr (a, l1) \<Rightarrow>
          map_sum id (\<lambda>(as, l2). ((case a of Some a \<Rightarrow> a # as | None \<Rightarrow> as), l2)) (element_attrs low sch ps l1))"

definition element_schema :: "(jsstr \<Rightarrow> jsstr) \<Rightarrow> jsstr \<Rightarrow> schema \<Rightarrow> schema" where
  "element_schema low tag sch = (if low tag = js ''svg'' \<and> s_space sch = Some (js ''html'') then Qf else sch)"

definition schema_namespace :: "schema \<Rightarrow> namespace" where
  "schema_namespace sch =
     (case (case s_space sch of Some s \<Rightarrow> em s | None \<Rightarrow> None) of Some ns \<Rightarrow> ns | None \<Rightarrow> NS_HTML)"

text \<open>
  A node of another type has no handler: the result is \<open>undefined\<close>, and setting its parent throws. The
  content of a template is a root.
\<close>

fun hm :: "(jsstr \<Rightarrow> jsstr) \<Rightarrow> schema \<Rightarrow> hast \<Rightarrow> nat \<Rightarrow> p5_error + p5 \<times> nat"
and mm :: "(jsstr \<Rightarrow> jsstr) \<Rightarrow> schema \<Rightarrow> hast list \<Rightarrow> nat \<Rightarrow> p5_error + p5 list \<times> nat" where
  "hm low sch (HRoot cs) li = map_sum id (\<lambda>(ts, l). (P5Document ts, l)) (mm low sch cs li)"
| "hm low sch (HElement tag ps cs content) li =
     (let r = element_schema low tag sch in
      case element_attrs low r ps li of
        Inl e \<Rightarrow> Inl e
      | Inr (as, l1) \<Rightarrow>
          case mm low r cs l1 of
            Inl e \<Rightarrow> Inl e
          | Inr (ts, l2) \<Rightarrow>
              if tag = js ''template''
              then (case content of
                      Some (HRoot ks) \<Rightarrow>
                        map_sum id (\<lambda>(us, l3). (P5Element tag (schema_namespace r) as ts (Some (P5Fragment us)), l3))
                          (mm low r ks l2)
                    | _ \<Rightarrow> Inr (P5Element tag (schema_namespace r) as ts None, l2))
              else Inr (P5Element tag (schema_namespace r) as ts None, l2))"
| "hm low sch (HText s) li = Inr (P5Text s, li)"
| "hm low sch (HComment s) li = Inr (P5Comment s, li)"
| "hm low sch HDoctype li = Inr (P5Doctype (js ''html'') [] [], li)"
| "hm low sch (HRaw s) li = Inl (NoHandler (js ''raw''))"
| "hm low sch (HOther t cs) li = Inl (NoHandler t)"
| "mm low sch [] li = Inr ([], li)"
| "mm low sch (c # cs) li =
     (case hm low sch c li of
        Inl e \<Rightarrow> Inl e
      | Inr (t, l1) \<Rightarrow> map_sum id (\<lambda>(ts, l2). (t # ts, l2)) (mm low sch cs l1))"

end
