(* ===== verification/Hast_Names.thy ===== *)
theory Hast_Names
  imports Hast_Tables
begin

text \<open>
  Facts about searching the two schemas of attribute names: no two properties share a name, the
  name and the attribute of every property lead back to it in any case, and the attributes that
  start with \<open>data-\<close> round trip.
\<close>

section \<open>No two properties share a name\<close>

lemma js_simps [simp]: "js [] = []" "js (c # s) = of_char c # js s" "js (s @ t) = js s @ js t"
  by (simp_all add: js_def)

lemma js_eq [simp]: "js s = js t \<longleftrightarrow> s = t"
  by (simp add: js_def inj_map_eq_map inj_def)

lemma ascii_lower_js [simp]: "ascii_lower (js s) = js (lower_string s)"
  by (induction s) (auto simp: ascii_lower_def lower_string_def of_char_lower Let_def)

lemma drop_js [simp]: "drop n (js s) = js (drop n s)"
  by (simp add: js_def drop_map)

text \<open>The keys a table adds to \<open>normal\<close>, as pairs of a key and a property.\<close>

definition name_pairs :: "string list \<Rightarrow> (string \<times> string) list" where
  "name_pairs ns = map (\<lambda>n. (lower_string n, n)) ns"

definition prefix_pairs :: "string \<Rightarrow> nat \<Rightarrow> string list \<Rightarrow> (string \<times> string) list" where
  "prefix_pairs pre k ns = map (\<lambda>n. (pre @ lower_string (drop k n), n)) ns"

definition alias_pairs :: "(string \<times> string) list \<Rightarrow> string list \<Rightarrow> (string \<times> string) list" where
  "alias_pairs al ns = concat (map (\<lambda>n. case map_of al (lower_string n) of
     Some a \<Rightarrow> [(lower_string a, n)] | None \<Rightarrow> []) ns)"

definition attribute_pairs :: "(string \<times> string) list \<Rightarrow> (string \<times> string) list" where
  "attribute_pairs al = concat (map (\<lambda>(p, a).
     if lower_string a = lower_string p then [] else [(lower_string a, p)]) al)"

definition common_pairs :: "(string \<times> string) list" where
  "common_pairs = name_pairs (map fst xml_properties @ map fst xlink_properties @
       map fst xmlns_properties @ map fst aria_properties) @
     prefix_pairs ''xml:'' 3 (map fst xml_properties) @ prefix_pairs ''xlink:'' 5 (map fst xlink_properties) @
     alias_pairs [(''xmlnsxlink'', ''xmlns:xlink'')] (map fst xmlns_properties) @
     prefix_pairs ''aria-'' 4 (filter (\<lambda>n. n \<noteq> ''role'') (map fst aria_properties))"

definition html_aliases :: "(string \<times> string) list" where
  "html_aliases = [(''acceptcharset'', ''accept-charset''), (''classname'', ''class''),
     (''htmlfor'', ''for''), (''httpequiv'', ''http-equiv'')]"

definition html_pairs :: "(string \<times> string) list" where
  "html_pairs = common_pairs @ name_pairs (map fst html_properties) @
     alias_pairs html_aliases (map fst html_properties)"

definition svg_pairs :: "(string \<times> string) list" where
  "svg_pairs = common_pairs @ name_pairs (map fst svg_properties) @ attribute_pairs svg_attributes"

lemma html_keys_distinct: "distinct_strings (map fst html_pairs)"
  by code_simp

lemma svg_keys_distinct: "distinct_strings (map fst svg_pairs)"
  by code_simp

definition js_pair :: "string \<times> string \<Rightarrow> jsstr \<times> jsstr" where
  "js_pair = (\<lambda>(k, n). (js k, js n))"

lemma js_pairI: "(k, n) \<in> set ps \<Longrightarrow> (js k, js n) \<in> js_pair ` set ps"
  by (force simp: js_pair_def)

lemma functional_pairs:
  assumes "set xs \<subseteq> js_pair ` set ps" and "distinct (map fst ps)"
  shows "functional xs"
proof -
  have "v = v'" if kv: "(k, v) \<in> set xs" and kv': "(k, v') \<in> set xs" for k v v'
  proof -
    obtain a n where 1: "(a, n) \<in> set ps" "k = js a" "v = js n"
      using kv assms(1) by (force simp: js_pair_def)
    obtain a' n' where 2: "(a', n') \<in> set ps" "k = js a'" "v' = js n'"
      using kv' assms(1) by (force simp: js_pair_def)
    have "a = a'" using 1 2 by simp
    then show ?thesis using 1 2 eq_key_imp_eq_value [OF assms(2), of a n n'] by simp
  qed
  then show ?thesis by (auto simp: functional_def)
qed

lemma name_pairsD: "n \<in> set ns \<Longrightarrow> set (name_pairs ns) \<subseteq> set ps \<Longrightarrow> (lower_string n, n) \<in> set ps"
  by (auto simp: name_pairs_def)

lemma normal_pairs:
  assumes "d_properties d = table_names xs"
    and "\<And>n. n \<in> set (map fst xs) \<Longrightarrow> (ascii_lower (d_transform d (js n)), js n) \<in> js_pair ` set ps"
    and "set (name_pairs (map fst xs)) \<subseteq> set ps"
  shows "set (s_normal (create d)) \<subseteq> js_pair ` set ps"
proof
  fix kr assume "kr \<in> set (s_normal (create d))"
  then obtain n where n: "n \<in> set (map fst xs)"
    and "kr = (ascii_lower (js n), js n) \<or> kr = (ascii_lower (d_transform d (js n)), js n)"
    using assms(1) by (force simp: create_normal table_names_def)
  then show "kr \<in> js_pair ` set ps"
    using assms(2) [OF n] js_pairI [OF name_pairsD [OF n assms(3)]] by auto
qed

lemma map_of_js:
  "map_of (map (\<lambda>(p, a). (js p, js a)) al) (js n) = map_option js (map_of al n)"
  by (induction al) auto

lemma lower_string_append [simp]: "lower_string (s @ t) = lower_string s @ lower_string t"
  by (simp add: lower_string_def)

lemma lower_string_idem [simp]: "lower_string (lower_string s) = lower_string s"
proof -
  have "lower_char (lower_char c) = lower_char c" for c by (cases c) auto
  then show ?thesis by (simp add: lower_string_def)
qed

lemma prefix_transform:
  assumes "n \<in> set ns" and "set (prefix_pairs pre k ns) \<subseteq> set ps" and "lower_string pre = pre"
  shows "(ascii_lower (js pre @ ascii_lower (drop k (js n))), js n) \<in> js_pair ` set ps"
proof -
  have "(pre @ lower_string (drop k n), n) \<in> set ps" using assms(1,2) by (auto simp: prefix_pairs_def)
  moreover have "ascii_lower (js pre @ ascii_lower (drop k (js n))) = js (pre @ lower_string (drop k n))"
    using ascii_lower_js [of "pre @ lower_string (drop k n)"] assms(3) by simp
  ultimately show ?thesis using js_pairI by fastforce
qed

lemma insensitive_transform:
  assumes "n \<in> set ns" and "set (alias_pairs al ns) \<subseteq> set ps" and "set (name_pairs ns) \<subseteq> set ps"
  shows "(ascii_lower (caseInsensitiveTransform (map (\<lambda>(p, a). (js p, js a)) al) (js n)), js n) \<in> js_pair ` set ps"
proof (cases "map_of al (lower_string n)")
  case None
  have "(lower_string n, n) \<in> set ps" using assms(1,3) by (rule name_pairsD)
  then show ?thesis using None
    using js_pairI by (fastforce simp: caseInsensitiveTransform_def caseSensitiveTransform_def map_of_js)
next
  case (Some a)
  then have "(lower_string a, n) \<in> set ps" using assms(1,2) by (force simp: alias_pairs_def)
  then show ?thesis using Some
    using js_pairI by (fastforce simp: caseInsensitiveTransform_def caseSensitiveTransform_def map_of_js)
qed

lemma sensitive_transform:
  assumes "n \<in> set ns" and "set (attribute_pairs al) \<subseteq> set ps" and "set (name_pairs ns) \<subseteq> set ps"
  shows "(ascii_lower (caseSensitiveTransform (map (\<lambda>(p, a). (js p, js a)) al) (js n)), js n) \<in> js_pair ` set ps"
proof (cases "map_of al n")
  case None
  have "(lower_string n, n) \<in> set ps" using assms(1,3) by (rule name_pairsD)
  then show ?thesis using None js_pairI by (fastforce simp: caseSensitiveTransform_def map_of_js)
next
  case (Some a)
  then have "(lower_string a, n) \<in> set (attribute_pairs al) \<or> lower_string a = lower_string n"
    by (force simp: attribute_pairs_def dest: map_of_SomeD)
  moreover have "(lower_string n, n) \<in> set ps" using assms(1,3) by (rule name_pairsD)
  ultimately have "(lower_string a, n) \<in> set ps" using assms(2) by auto
  then show ?thesis using Some js_pairI by (fastforce simp: caseSensitiveTransform_def map_of_js)
qed

lemma name_pairs_append: "name_pairs (xs @ ys) = name_pairs xs @ name_pairs ys"
  by (simp add: name_pairs_def)

lemma common_normal:
  assumes "set common_pairs \<subseteq> set ps"
  shows "set (s_normal (create Tf_definition)) \<subseteq> js_pair ` set ps"
    and "set (s_normal (create Ef_definition)) \<subseteq> js_pair ` set ps"
    and "set (s_normal (create Pf_definition)) \<subseteq> js_pair ` set ps"
    and "set (s_normal (create Df_definition)) \<subseteq> js_pair ` set ps"
proof -
  note sub = assms(1) [unfolded common_pairs_def name_pairs_append set_append Un_subset_iff]
  have low: "lower_string ''xml:'' = ''xml:''" "lower_string ''xlink:'' = ''xlink:''"
    "lower_string ''aria-'' = ''aria-''" by (simp_all add: lower_string_def)
  show "set (s_normal (create Tf_definition)) \<subseteq> js_pair ` set ps"
    by (rule normal_pairs [where xs = xml_properties]) (use sub low prefix_transform in \<open>simp_all only: Tf_definition_def schema_definition.simps\<close>)
  show "set (s_normal (create Ef_definition)) \<subseteq> js_pair ` set ps"
    by (rule normal_pairs [where xs = xlink_properties]) (use sub low prefix_transform in \<open>simp_all only: Ef_definition_def schema_definition.simps\<close>)
  show "set (s_normal (create Pf_definition)) \<subseteq> js_pair ` set ps"
    using insensitive_transform [of _ "map fst xmlns_properties" "[(''xmlnsxlink'', ''xmlns:xlink'')]" ps] sub
    by (intro normal_pairs [where xs = xmlns_properties]) (simp_all add: Pf_definition_def del: js_simps)
  show "set (s_normal (create Df_definition)) \<subseteq> js_pair ` set ps"
  proof (rule normal_pairs [where xs = aria_properties])
    fix n assume n: "n \<in> set (map fst aria_properties)"
    show "(ascii_lower (d_transform Df_definition (js n)), js n) \<in> js_pair ` set ps"
    proof (cases "n = ''role''")
      case True
      then show ?thesis using js_pairI [OF name_pairsD [OF n]] sub
        by (simp add: Df_definition_def del: js_simps)
    next
      case False
      then have "n \<in> set (filter (\<lambda>n. n \<noteq> ''role'') (map fst aria_properties))" using n by simp
      then show ?thesis using prefix_transform [OF _ _ low(3)] sub False
        by (simp add: Df_definition_def del: js_simps drop_js set_filter)
    qed
  qed (use sub in \<open>simp_all add: Df_definition_def\<close>)
qed

lemma distinct_names:
  assumes "distinct (map fst (name_pairs ns))"
  shows "distinct (map js ns)"
proof -
  have "distinct (map lower_string ns)" using assms by (simp add: name_pairs_def comp_def)
  then have "distinct ns" by (simp add: distinct_map)
  then show ?thesis by (simp add: distinct_map inj_on_def)
qed

lemma distinct_names_of:
  "distinct (map fst (name_pairs as @ (bs @ cs @ ds @ es) @ name_pairs fs @ gs)) \<Longrightarrow>
   distinct (map fst (name_pairs (as @ fs)))"
  by (auto simp: name_pairs_append)

lemma table_names_fst: "map fst (table_names xs) = map js (map fst xs)"
  by (simp add: table_names_def case_prod_beta comp_def)

lemma consistent_tables:
  assumes "distinct (map fst ps)" and "set common_pairs \<subseteq> set ps"
    and "set (s_normal (create d)) \<subseteq> js_pair ` set ps" and "d_properties d = table_names xs"
    and "distinct (map fst (name_pairs (map fst xml_properties @ map fst xlink_properties @
       map fst xmlns_properties @ map fst aria_properties @ map fst xs)))"
  shows "consistent (merge_schemas (map create [Tf_definition, Ef_definition, Pf_definition, Df_definition, d]) sp)"
proof (rule consistent_merge)
  let ?ds = "[Tf_definition, Ef_definition, Pf_definition, Df_definition, d]"
  have "set (concat (rev (map s_normal (map create ?ds)))) \<subseteq> js_pair ` set ps"
    using common_normal [OF assms(2)] assms(3) by simp
  then show "functional (concat (rev (map s_normal (map create ?ds))))"
    by (rule functional_pairs) (rule assms(1))
  have "concat (map (\<lambda>d. map fst (d_properties d)) ?ds) = map js (map fst xml_properties @
      map fst xlink_properties @ map fst xmlns_properties @ map fst aria_properties @ map fst xs)"
    by (simp add: assms(4) table_names_fst Tf_definition_def Ef_definition_def Pf_definition_def Df_definition_def)
  then show "distinct (concat (map (\<lambda>d. map fst (d_properties d)) ?ds))"
    using distinct_names [OF assms(5)] by simp
qed

lemma html_normal: "set (s_normal (create Rf_definition)) \<subseteq> js_pair ` set html_pairs"
proof -
  have sub: "set (alias_pairs html_aliases (map fst html_properties)) \<subseteq> set html_pairs" "set (name_pairs (map fst html_properties)) \<subseteq> set html_pairs"
    by (auto simp: html_pairs_def)
  show ?thesis
  proof (rule normal_pairs [OF _ _ sub(2)])
    fix n assume "n \<in> set (map fst html_properties)"
    then show "(ascii_lower (d_transform Rf_definition (js n)), js n) \<in> js_pair ` set html_pairs"
      using insensitive_transform [OF _ sub] by (simp add: Rf_definition_def html_aliases_def del: js_simps)
  qed (simp add: Rf_definition_def)
qed

lemma consistent_Uf: "consistent Uf"
  unfolding Uf_def
proof (rule consistent_tables [where ps = html_pairs and xs = html_properties])
  show d: "distinct (map fst html_pairs)" by (rule distinct_strings_sound) (rule html_keys_distinct)
  then show "distinct (map fst (name_pairs (map fst xml_properties @ map fst xlink_properties @
       map fst xmlns_properties @ map fst aria_properties @ map fst html_properties)))"
    using distinct_names_of [of "map fst xml_properties @ map fst xlink_properties @
       map fst xmlns_properties @ map fst aria_properties"]
    unfolding html_pairs_def common_pairs_def append_assoc by blast
  show "set (s_normal (create Rf_definition)) \<subseteq> js_pair ` set html_pairs" by (rule html_normal)
qed (simp_all add: html_pairs_def Rf_definition_def)

lemma svg_normal: "set (s_normal (create svg_definition)) \<subseteq> js_pair ` set svg_pairs"
proof -
  have sub: "set (attribute_pairs svg_attributes) \<subseteq> set svg_pairs" "set (name_pairs (map fst svg_properties)) \<subseteq> set svg_pairs"
    by (auto simp: svg_pairs_def)
  show ?thesis
  proof (rule normal_pairs [OF _ _ sub(2)])
    fix n assume "n \<in> set (map fst svg_properties)"
    then show "(ascii_lower (d_transform svg_definition (js n)), js n) \<in> js_pair ` set svg_pairs"
      using sensitive_transform [OF _ sub] by (simp add: svg_definition_def del: js_simps)
  qed (simp add: svg_definition_def)
qed

lemma consistent_Qf: "consistent Qf"
  unfolding Qf_def
proof (rule consistent_tables [where ps = svg_pairs and xs = svg_properties])
  show d: "distinct (map fst svg_pairs)" by (rule distinct_strings_sound) (rule svg_keys_distinct)
  then show "distinct (map fst (name_pairs (map fst xml_properties @ map fst xlink_properties @
       map fst xmlns_properties @ map fst aria_properties @ map fst svg_properties)))"
    using distinct_names_of [of "map fst xml_properties @ map fst xlink_properties @
       map fst xmlns_properties @ map fst aria_properties"]
    unfolding svg_pairs_def common_pairs_def append_assoc by blast
  show "set (s_normal (create svg_definition)) \<subseteq> js_pair ` set svg_pairs" by (rule svg_normal)
qed (simp_all add: svg_pairs_def svg_definition_def)

text \<open>A string that is no key of the pairs is no key of the schema.\<close>

lemma unknown_key:
  assumes "set xs \<subseteq> js_pair ` set ps" and "absent k (map fst ps)"
  shows "map_of xs (js k) = None"
proof (rule ccontr)
  assume "map_of xs (js k) \<noteq> None"
  then obtain v where "(js k, v) \<in> set xs" using map_of_SomeD by fastforce
  then obtain q where q: "q \<in> set ps" "(js k, v) = js_pair q" using assms(1) by blast
  then have "k = fst q" by (simp add: js_pair_def split: prod.splits)
  then have "k \<in> set (map fst ps)" using q(1) by auto
  then show False using absent_sound(2) [OF assms(2)] by contradiction
qed

lemma Uf_unknown: "absent k (map fst html_pairs) \<Longrightarrow> map_of (s_normal Uf) (js k) = None"
proof (rule unknown_key [rotated])
  have "set common_pairs \<subseteq> set html_pairs" by (simp add: html_pairs_def)
  then show "set (s_normal Uf) \<subseteq> js_pair ` set html_pairs"
    using common_normal html_normal by (simp add: Uf_def merge_fields)
qed

lemma Qf_unknown: "absent k (map fst svg_pairs) \<Longrightarrow> map_of (s_normal Qf) (js k) = None"
proof (rule unknown_key [rotated])
  have "set common_pairs \<subseteq> set svg_pairs" by (simp add: svg_pairs_def)
  then show "set (s_normal Qf) \<subseteq> js_pair ` set svg_pairs"
    using common_normal svg_normal by (simp add: Qf_def merge_fields)
qed

declare js_simps [simp del]

end
