(* ===== verification/Hast_Data.thy ===== *)
theory Hast_Data
  imports Hast_Names
begin

text \<open>
  Searching the two schemas. Every property is found by its name and by its attribute. Attributes
  that start with \<open>data\<close>: when their names round trip through the names of properties,
  and the two ways in which they do not, the clash with \<open>dataType\<close> in SVG and the dependence of a
  search on earlier searches.
\<close>

section \<open>Camel case and back\<close>

definition plain_data_char :: "nat \<Rightarrow> bool" where
  "plain_data_char u \<longleftrightarrow> is_data_char u \<and> \<not> is_AZ u"

lemma replace_Mf_head:
  "a \<noteq> 45 \<Longrightarrow> \<exists>r. replace_Mf (a # s) = a # r" "\<not> is_az a \<Longrightarrow> \<exists>b r. replace_Mf (a # s) = b # r \<and> \<not> is_az b"
  by (cases s; auto simp: Bf_def is_az_def)+

lemma no_match_replaced: "Mf_match i (replace_Mf w) = None"
proof (induction w arbitrary: i rule: replace_Mf.induct)
  case (1 a b s)
  show ?case
  proof (cases "a = 45 \<and> is_az b")
    case True
    have "Bf b \<noteq> 45" using True by (auto simp: Bf_def is_az_def)
    then show ?thesis using True 1(1) [of "i + 1"] 1(1) [of i] by (cases "replace_Mf s") auto
  next
    case False
    then have r: "replace_Mf (a # b # s) = a # replace_Mf (b # s)" by auto
    show ?thesis
    proof (cases "replace_Mf (b # s)")
      case Nil
      then show ?thesis by (simp only: r) simp
    next
      case (Cons c r')
      have "\<not> (a = 45 \<and> is_az c)"
        using False replace_Mf_head(2) [of b s] Cons by auto
      then show ?thesis using 1(2) [OF False, of "i + 1"] Cons by (simp only: r) simp
    qed
  qed
qed auto

lemma replace_If_Cons [simp]:
  "replace_If [] = []" "replace_If (u # s) = (if is_AZ u then jf u else [u]) @ replace_If s"
  by (simp_all add: replace_If_def)

lemma replace_back: "list_all (\<lambda>u. \<not> is_AZ u) w \<Longrightarrow> replace_If (replace_Mf w) = w"
  by (induction w rule: replace_Mf.induct) (auto simp: Bf_def jf_def is_az_def is_AZ_def)

lemma replace_chars: "list_all is_data_char w \<Longrightarrow> list_all is_data_char (replace_Mf w)"
  by (induction w rule: replace_Mf.induct) (auto simp: Bf_def is_az_def is_AZ_def is_data_char_def)

text \<open>The part of the name behind \<open>data\<close>.\<close>

lemma camel_facts:
  assumes "w = u # r" and "u \<noteq> 45" and "list_all plain_data_char w"
  defines "c \<equiv> upper_first (replace_Mf w)"
  shows "Mf_match 0 c = None" and "list_all is_data_char c" and "c \<noteq> []" and "hd c \<noteq> 45"
    and "(if startsWith (replace_If c) [45] then replace_If c else 45 # replace_If c) = 45 # w"
proof -
  obtain s where s: "replace_Mf w = u # s" using assms(1,2) replace_Mf_head(1) by blast
  have c: "c = (if is_az u then u - 32 else u) # s" by (simp add: c_def s upper_first_def)
  have n: "Mf_match 0 (u # s) = None" "list_all is_data_char (u # s)" "replace_If (u # s) = w"
    using no_match_replaced [of 0 w] replace_chars [of w] replace_back [of w] assms(3)
    unfolding s by (auto simp: plain_data_char_def list_all_iff)
  have nu: "\<not> is_AZ u" "is_data_char u" using assms(1,3) by (simp_all add: plain_data_char_def)
  show "Mf_match 0 c = None" using n(1) assms(2) by (cases s) (auto simp: c is_az_def)
  show "list_all is_data_char c" using n(2) by (auto simp: c is_data_char_def is_az_def is_AZ_def)
  show "c \<noteq> []" "hd c \<noteq> 45" using assms(2) by (auto simp: c is_az_def)
  have "replace_If s = r" using n(3) nu(1) assms(1) by simp
  then show "(if startsWith (replace_If c) [45] then replace_If c else 45 # replace_If c) = 45 # w"
    using nu assms(1,2) by (auto simp: c jf_def startsWith_def is_az_def is_AZ_def)
qed

lemma data_chars_ascii: "list_all is_data_char s \<Longrightarrow> ascii s"
  by (auto simp: ascii_def list_all_iff is_data_char_def is_az_def is_AZ_def)

lemma js_data: "js ''data'' = [100, 97, 116, 97]" "js ''data-'' = [100, 97, 116, 97, 45]"
  by (simp_all add: js_def)

lemma js_nil [simp]: "js [] = []"
  by (simp add: js_def)

lemma ascii_lower_append [simp]: "ascii_lower (s @ t) = ascii_lower s @ ascii_lower t"
  by (simp add: ascii_lower_def)

lemma ascii_lower_length [simp]: "length (ascii_lower s) = length s"
  by (simp add: ascii_lower_def)

lemma not_prototype: "n = js ''data'' @ s \<Longrightarrow> n \<notin> set object_prototype"
  by (simp add: object_prototype_def js_def)

text \<open>A search that reaches the branch for data attributes.\<close>

lemma Lf_data:
  assumes "lowers_ascii low" and "list_all is_data_char s" and "s \<noteq> []"
    and "map_of (s_normal sch) (js ''data'' @ ascii_lower s) = None"
  shows "hd s = 45 \<Longrightarrow> Lf low sch (js ''data'' @ s) li =
      (Some (new_xf (data_property (js ''data'' @ s)) (js ''data'' @ s) None None), 0)"
    and "hd s \<noteq> 45 \<Longrightarrow> Mf_test li s = (False, j) \<Longrightarrow> Lf low sch (js ''data'' @ s) li =
      (Some (new_xf (js ''data'' @ s) (data_attribute (js ''data'' @ s)) None None), j)"
    and "hd s \<noteq> 45 \<Longrightarrow> Mf_test li s = (True, j) \<Longrightarrow> Lf low sch (js ''data'' @ s) li =
      (Some (new_xf (js ''data'' @ s) (js ''data'' @ s) None None), j)"
proof -
  have a: "ascii (js ''data'' @ s)" using data_chars_ascii [OF assms(2)] by (simp add: ascii_def js_data)
  have n: "low (js ''data'' @ s) = js ''data'' @ ascii_lower s"
    using assms(1) a by (simp add: lowers_ascii_def js_data) (simp add: ascii_lower_def)
  have t: "Nf_test (js ''data'' @ s)" using assms(2,3) by (simp add: Nf_test_def js_data ascii_lower_def)
  have h: "(js ''data'' @ s) ! 4 = hd s" using assms(3) by (simp add: js_data hd_conv_nth)
  have d: "drop 4 (js ''data'' @ s) = s" "take 4 (js ''data'') = js ''data''" "length (js ''data'') = 4"
    by (simp_all add: js_data)
  have l: "s \<noteq> []" by (rule assms(3))
  note branch = Lf_def Let_def n assms(4) t h d l not_prototype [OF refl]
  show "hd s = 45 \<Longrightarrow> Lf low sch (js ''data'' @ s) li =
      (Some (new_xf (data_property (js ''data'' @ s)) (js ''data'' @ s) None None), 0)"
    by (simp add: branch)
  show "hd s \<noteq> 45 \<Longrightarrow> Mf_test li s = (False, j) \<Longrightarrow> Lf low sch (js ''data'' @ s) li =
      (Some (new_xf (js ''data'' @ s) (data_attribute (js ''data'' @ s)) None None), j)"
    by (simp add: branch)
  show "hd s \<noteq> 45 \<Longrightarrow> Mf_test li s = (True, j) \<Longrightarrow> Lf low sch (js ''data'' @ s) li =
      (Some (new_xf (js ''data'' @ s) (js ''data'' @ s) None None), j)"
    by (simp add: branch)
qed

text \<open>
  A data attribute of lower-case letters, digits and the characters \<open>- _ . :\<close> survives the way
  into the tree and back: where no table entry has its name or the name of its property, the
  search for the attribute gives a property, and the search for that property gives the attribute.
  The character behind \<open>data-\<close> must not be another hyphen.
\<close>

theorem data_round_trip:
  assumes "lowers_ascii low" and "list_all plain_data_char w" and "w \<noteq> []" and "hd w \<noteq> 45"
    and "map_of (s_normal sch) (js ''data-'' @ w) = None"
    and "map_of (s_normal sch) (ascii_lower (data_property (js ''data-'' @ w))) = None"
  shows "\<exists>i j. Lf low sch (js ''data-'' @ w) li = (Some i, 0) \<and> attribute i = js ''data-'' @ w \<and>
     Lf low sch (property i) 0 = (Some j, 0) \<and> property j = property i \<and> attribute j = attribute i"
proof -
  obtain u r where w: "w = u # r" using assms(3) by (cases w) auto
  let ?c = "upper_first (replace_Mf w)" and ?t = "js ''data'' @ 45 # w"
  have t: "js ''data-'' @ w = ?t" by (simp add: js_data)
  note c = camel_facts [OF w _ assms(2)]
  have u: "u \<noteq> 45" using w assms(4) by simp
  have p: "data_property ?t = js ''data'' @ ?c" by (simp add: data_property_def js_data)
  have dw: "list_all is_data_char (45 # w)" "ascii_lower w = w"
    using assms(2) by (auto simp: plain_data_char_def list_all_iff is_data_char_def ascii_lower_def
        is_AZ_def intro!: map_idI)
  have 1: "Lf low sch ?t li = (Some (new_xf (js ''data'' @ ?c) ?t None None), 0)"
    using Lf_data(1) [OF assms(1) dw(1)] assms(5) dw(2) by (simp add: t p) (simp add: ascii_lower_def)
  have "Mf_test 0 ?c = (False, 0)" using c(1) [OF u] by (simp add: Mf_test_def)
  moreover have "map_of (s_normal sch) (js ''data'' @ ascii_lower ?c) = None"
    using assms(6) by (simp add: t p) (simp add: js_def lower_string_def)
  ultimately have 2: "Lf low sch (js ''data'' @ ?c) 0 =
      (Some (new_xf (js ''data'' @ ?c) (data_attribute (js ''data'' @ ?c)) None None), 0)"
    using Lf_data(2) [OF assms(1) c(2) [OF u] c(3) [OF u]] c(4) [OF u] by simp
  have "data_attribute (js ''data'' @ ?c) = ?t"
    using c(5) [OF u] by (simp add: data_attribute_def Let_def js_data)
  then show ?thesis using 1 2 by (simp add: t new_xf_def new_uf_def)
qed

theorem data_round_trip_witness:
  "\<exists>i j. Lf ascii_lower (create Tf_definition) (js ''data-'' @ js ''foo-bar'') 7 = (Some i, 0) \<and>
     attribute i = js ''data-'' @ js ''foo-bar'' \<and>
     Lf ascii_lower (create Tf_definition) (property i) 0 = (Some j, 0) \<and>
     property j = property i \<and> attribute j = attribute i"
  by (rule data_round_trip) (simp_all add: lowers_ascii_def js_def plain_data_char_def is_data_char_def
      is_az_def is_AZ_def create_def create_step_def Let_def Tf_definition_def xml_properties_def
      table_names_def table_info_def new_xf_def new_uf_def ascii_lower_def data_property_def upper_first_def)

text \<open>An entry of a table is in the merged schema.\<close>

lemma merged_entry:
  assumes "d \<in> set ds" and "d_properties d = table_names xs" and "(n, k) \<in> set xs"
    and "consistent (merge_schemas (map create ds) sp)"
  shows "map_of (s_property (merge_schemas (map create ds) sp)) (js n) = Some (table_info d (js n, k))"
proof -
  have "(js n, k) \<in> set (d_properties d)" using assms(2,3) by (force simp: table_names_def)
  then have "(js n, table_info d (js n, k)) \<in> set (s_property (create d))" by (force simp: create_property)
  then have "(js n, table_info d (js n, k)) \<in> set (s_property (merge_schemas (map create ds) sp))"
    using assms(1) by (auto simp: merge_fields)
  then show ?thesis using assms(4) by (simp add: consistent_def map_of_functional)
qed

section \<open>Two searches for one name that differ\<close>

text \<open>
  The result of a search depends on the searches before it: \<open>Mf\<close> is a global regular
  expression, and \<open>Mf.test\<close> leaves its \<open>lastIndex\<close> behind the match it found. Searching the HTML
  schema twice for \<open>dataa-b\<close> describes the attribute \<open>dataa-b\<close> the first time and the attribute
  \<open>data-a-b\<close> the second time.
\<close>

theorem search_depends_on_history:
  assumes "lowers_ascii low"
  shows "\<exists>i j k. Lf low Uf (js ''dataa-b'') 0 = (Some i, k) \<and> attribute i = js ''dataa-b'' \<and>
     Lf low Uf (js ''dataa-b'') k = (Some j, 0) \<and> attribute j = js ''data-a-b''"
proof -
  have t: "js ''dataa-b'' = js ''data'' @ js ''a-b''" by (simp add: js_def)
  have d: "list_all is_data_char (js ''a-b'')" "js ''a-b'' \<noteq> []" "hd (js ''a-b'') \<noteq> 45"
    "ascii_lower (js ''a-b'') = js ''a-b''"
    by (simp_all add: js_def is_data_char_def is_az_def ascii_lower_def)
  have "map_of (s_normal Uf) (js ''dataa-b'') = None" by (rule Uf_unknown) code_simp
  then have none: "map_of (s_normal Uf) (js ''data'' @ ascii_lower (js ''a-b'')) = None"
    using d(4) t by metis
  have m: "Mf_test 0 (js ''a-b'') = (True, 3)" "Mf_test 3 (js ''a-b'') = (False, 0)"
    by (simp_all add: Mf_test_def js_def is_az_def)
  have a: "data_attribute (js ''data'' @ js ''a-b'') = js ''data-a-b''"
    by (simp add: data_attribute_def js_def startsWith_def is_AZ_def)
  show ?thesis
    using Lf_data(3) [OF assms d(1,2) none d(3) m(1)] Lf_data(2) [OF assms d(1,2) none d(3) m(2)] a
    by (simp add: t [symmetric] new_xf_def new_uf_def)
qed

theorem search_depends_on_history_witness:
  "lowers_ascii ascii_lower \<and>
   (\<exists>i j k. Lf ascii_lower Uf (js ''dataa-b'') 0 = (Some i, k) \<and> attribute i = js ''dataa-b'' \<and>
     Lf ascii_lower Uf (js ''dataa-b'') k = (Some j, 0) \<and> attribute j = js ''data-a-b'')"
proof -
  have "lowers_ascii ascii_lower" by (simp add: lowers_ascii_def)
  then show ?thesis using search_depends_on_history [of ascii_lower] by blast
qed

text \<open>
  In SVG the attribute \<open>data-type\<close> is not kept: its property \<open>dataType\<close> is an entry of the table,
  which stands for the attribute \<open>datatype\<close>.
\<close>

theorem svg_data_type_is_renamed:
  assumes "lowers_ascii low"
  shows "\<exists>i j. Lf low Qf (js ''data-type'') li = (Some i, 0) \<and> attribute i = js ''data-type'' \<and>
     Lf low Qf (property i) 0 = (Some j, 0) \<and> attribute j = js ''datatype''"
proof -
  have t: "js ''data-type'' = js ''data'' @ js ''-type''" by (simp add: js_def)
  have d: "list_all is_data_char (js ''-type'')" "js ''-type'' \<noteq> []" "hd (js ''-type'') = 45"
    "ascii_lower (js ''-type'') = js ''-type''" "data_property (js ''data'' @ js ''-type'') = js ''dataType''"
    by (simp_all add: js_def is_data_char_def is_az_def ascii_lower_def data_property_def upper_first_def Bf_def)
  have "map_of (s_normal Qf) (js ''data-type'') = None" by (rule Qf_unknown) code_simp
  then have none: "map_of (s_normal Qf) (js ''data'' @ ascii_lower (js ''-type'')) = None"
    using d(4) t by metis
  let ?j = "table_info svg_definition (js ''dataType'', None)"
  have "(''dataType'', None) \<in> set svg_properties" by (simp add: svg_properties_def)
  then have j: "map_of (s_property Qf) (js ''dataType'') = Some ?j"
    unfolding Qf_def using consistent_Qf
    by (intro merged_entry) (simp_all add: svg_definition_def Qf_def)
  have "map_of svg_attributes ''dataType'' = Some ''datatype''" by (simp add: svg_attributes_def)
  then have a: "attribute ?j = js ''datatype''"
    by (simp add: svg_definition_def caseSensitiveTransform_def map_of_js)
  have "ascii (js ''dataType'')" by (simp add: ascii_def js_def)
  then have "low (js ''dataType'') = ascii_lower (js ''dataType'')" using assms by (simp add: lowers_ascii_def)
  then have "Lf low Qf (js ''dataType'') 0 = (Some ?j, 0)"
    using Lf_known [OF consistent_Qf j] by blast
  then show ?thesis using Lf_data(1) [OF assms d(1,2) none d(3), of li] d(5) a
    by (simp add: t [symmetric] new_xf_def new_uf_def)
qed

theorem svg_data_type_is_renamed_witness:
  "lowers_ascii ascii_lower \<and>
   (\<exists>i j. Lf ascii_lower Qf (js ''data-type'') 5 = (Some i, 0) \<and> attribute i = js ''data-type'' \<and>
     Lf ascii_lower Qf (property i) 0 = (Some j, 0) \<and> attribute j = js ''datatype'')"
proof -
  have "lowers_ascii ascii_lower" by (simp add: lowers_ascii_def)
  then show ?thesis using svg_data_type_is_renamed [of ascii_lower 5] by blast
qed

section \<open>An entry of the HTML table\<close>

lemma className_entry:
  "map_of (s_property Uf) (js ''className'') = Some (table_info Rf_definition (js ''className'', Some gf))"
proof -
  have "(''className'', Some gf) \<in> set html_properties" by (simp add: html_properties_def)
  then show ?thesis unfolding Uf_def using consistent_Uf
    by (intro merged_entry) (simp_all add: Rf_definition_def Uf_def)
qed

lemma className_attribute: "attribute (table_info Rf_definition (js ''className'', Some gf)) = js ''class''"
  by (simp add: Rf_definition_def caseInsensitiveTransform_def caseSensitiveTransform_def lower_string_def)

text \<open>
  C26. Every property of the HTML and of the SVG schema is found again: searching by its name, by the
  attribute it stands for, or by any string with the same lower-case form gives exactly its
  description and leaves the state of the search alone.
\<close>

theorem schema_round_trip:
  assumes "sch \<in> {Uf, Qf}" and "map_of (s_property sch) r = Some i"
    and "low t = ascii_lower r \<or> low t = ascii_lower (attribute i)"
  shows "Lf low sch t li = (Some i, li) \<and> property i = r"
proof -
  have c: "consistent sch" using assms(1) consistent_Uf consistent_Qf by auto
  moreover have "property i = r" using c map_of_SomeD [OF assms(2)] by (auto simp: consistent_def)
  ultimately show ?thesis using Lf_known [of sch r i low t li, OF c assms(2,3)] by simp
qed

theorem schema_round_trip_witness:
  "Uf \<in> {Uf, Qf} \<and> ascii_lower (js ''CLASS'') = ascii_lower (js ''class'') \<and>
   Lf ascii_lower Uf (js ''CLASS'') 4 = (Some (table_info Rf_definition (js ''className'', Some gf)), 4) \<and>
   property (table_info Rf_definition (js ''className'', Some gf)) = js ''className''"
proof -
  have c: "ascii_lower (js ''CLASS'') = ascii_lower (js ''class'')" by (simp add: lower_string_def)
  show ?thesis
    using schema_round_trip [of Uf "js ''className''" _ ascii_lower "js ''CLASS''" 4] className_entry className_attribute c
    by (metis insertI1)
qed

end
