(* ===== verification/Hast_Parse5_Sound.thy ===== *)
theory Hast_Parse5_Sound
  imports Hast_Parse5 Hast_Data
begin

text \<open>
  The conversions between the two trees are inverse to each other on the trees a document can stand
  for; and what \<open>om\<close> does with tag names and attributes that mean something to the element builder.
\<close>

section \<open>Objects\<close>

lemma obj_put_fresh: "k \<notin> fst ` set ps \<Longrightarrow> array_index k = None \<Longrightarrow> obj_put k v ps = ps @ [(k, v)]"
  by (simp add: obj_put_def)

lemma foldl_put_fresh:
  assumes "distinct (map f as)" and "\<And>a. a \<in> set as \<Longrightarrow> array_index (f a) = None \<and> f a \<notin> set object_prototype"
    and "fst ` set o' \<inter> f ` set as = {}"
  shows "foldl (\<lambda>o' a. if f a \<in> set object_prototype then o' else obj_put (f a) (g a) o') o' as =
     o' @ map (\<lambda>a. (f a, g a)) as"
  using assms
proof (induction as arbitrary: o')
  case (Cons a as)
  have "obj_put (f a) (g a) o' = o' @ [(f a, g a)]" using Cons.prems by (intro obj_put_fresh) auto
  then show ?case using Cons.prems Cons.IH [of "o' @ [(f a, g a)]"] by auto
qed simp

section \<open>Values\<close>

text \<open>A text the element builder leaves a text.\<close>

definition stays_text :: "(jsstr \<Rightarrow> jsstr) \<Rightarrow> (jsstr \<Rightarrow> jsstr option) \<Rightarrow> info \<Rightarrow> jsstr \<Rightarrow> bool" where
  "stays_text low num i s \<longleftrightarrow> \<not> (number i \<and> s \<noteq> [] \<and> num s \<noteq> None) \<and>
     \<not> ((boolean i \<or> overloadedBoolean i) \<and> (s = [] \<or> low s = low (property i)))"

definition list_item :: "(jsstr \<Rightarrow> bool) \<Rightarrow> hvalue \<Rightarrow> bool" where
  "list_item p v = (case v of HStr w \<Rightarrow> p w | _ \<Rightarrow> False)"

definition list_value :: "(jsstr \<Rightarrow> bool) \<Rightarrow> hvalue \<Rightarrow> bool" where
  "list_value p v = (case v of HArr vs \<Rightarrow> list_all (list_item p) vs | _ \<Rightarrow> False)"

text \<open>A value of the kind the description of its property asks for.\<close>

definition fits :: "(jsstr \<Rightarrow> jsstr) \<Rightarrow> (jsstr \<Rightarrow> jsstr option) \<Rightarrow> info \<Rightarrow> hvalue \<Rightarrow> bool" where
  "fits low num i v =
     (if spaceSeparated i then \<not> commaSeparated i \<and> list_value (\<lambda>w. stays_text low num i w \<and> space_token w) v
      else if commaSeparated i then list_value (\<lambda>w. stays_text low num i w \<and> comma_piece w) v
      else if commaOrSpaceSeparated i then list_value (\<lambda>w. stays_text low num i w \<and> space_token w \<and> 44 \<notin> set w) v
      else case v of
        HStr s \<Rightarrow> stays_text low num i s
      | HNum n \<Rightarrow> number i \<and> \<not> boolean i \<and> n \<noteq> [] \<and> n \<noteq> js ''NaN'' \<and> num n = Some n
      | HBool b \<Rightarrow> b \<and> (boolean i \<or> overloadedBoolean i)
      | _ \<Rightarrow> False)"

lemma stays_text_primitive: "stays_text low num i s \<Longrightarrow> parse_primitive low num i s = HStr s"
  by (auto simp: stays_text_def parse_primitive_def split: option.splits)

lemma list_value_items:
  assumes "list_value p v" and "\<And>w. p w \<Longrightarrow> stays_text low num i w"
  obtains ws where "v = HArr (map HStr ws)" and "list_all p ws"
    and "map (parse_primitive low num i) ws = map HStr ws" and "map item_string (map HStr ws) = ws"
proof -
  obtain vs where vs: "v = HArr vs" "list_all (list_item p) vs"
    using assms(1) by (auto simp: list_value_def split: hvalue.splits)
  define ws where "ws = map item_string vs"
  have "x \<in> set vs \<Longrightarrow> HStr (item_string x) = x" for x
    using vs(2) by (cases x) (auto simp: list_all_iff list_item_def item_string_def)
  then have v: "vs = map HStr ws" by (simp add: ws_def map_idI)
  have p: "list_all p ws" using vs(2) by (auto simp: v list_all_iff list_item_def)
  then have m: "map (parse_primitive low num i) ws = map HStr ws"
    using assms(2) by (auto simp: list_all_iff stays_text_primitive)
  show thesis by (rule that [of ws]) (use vs(1) v p m in \<open>auto simp: item_string_def comp_def\<close>)
qed

lemma vh_tokens:
  assumes "list_all space_token ws" and "ws \<noteq> []"
  shows "vh ws = join [32] ws" and "vh ws \<noteq> []" and "trim (vh ws) = vh ws"
proof -
  let ?j = "join [32] ws"
  have t: "space_token (hd ws)" "space_token (List.last ws)" using assms by (simp_all add: list_all_iff)
  have h: "hd ?j = hd (hd ws)" using t(1) assms(2) by (cases "([32 :: nat], ws)" rule: join.cases) (auto simp: space_token_def)
  have l: "?j \<noteq> []" "List.last ?j = List.last (List.last ws)"
    using join_last [of ws "[32]"] assms(2) t(2) by (auto simp: space_token_def)
  have "trim ?j = ?j" using token_ends [OF t(1)] token_ends [OF t(2)] h l by (intro trim_id) simp
  then show "vh ws = ?j" "vh ws \<noteq> []" "trim (vh ws) = vh ws" using l(1) by (simp_all add: vh_def)
qed

lemma join_no_comma: "list_all (\<lambda>w. 44 \<notin> set w) ws \<Longrightarrow> 44 \<notin> set (join [32] ws)"
  by (induction ws rule: induct_list012) auto

lemma comma_or_space_round_trip:
  assumes "list_all space_token ws" and "list_all (\<lambda>w. 44 \<notin> set w) ws"
  shows "gh (join [32] (Ff (vh ws))) = ws"
proof (cases "ws = []")
  case True
  then show ?thesis by (simp add: vh_def trim_def Ff_def gh_def)
next
  case False
  note v = vh_tokens [OF assms(1) False]
  have "split_on (\<lambda>u. u = 44) (vh ws) = [vh ws]"
    using join_no_comma [OF assms(2)] by (intro split_on_plain) (auto simp: v(1) list_all_iff)
  then have "Ff (vh ws) = [vh ws]" using v(2,3) by (simp add: Ff_def)
  then show ?thesis using space_round_trip [OF assms(1)] by simp
qed

lemma parse_written_value:
  assumes "fits low num i v"
  shows "parse_value low num i (attr_text i v) = v"
proof -
  let ?l = "spaceSeparated i \<or> commaSeparated i \<or> commaOrSpaceSeparated i"
  consider (space) "spaceSeparated i" "\<not> commaSeparated i" "list_value (\<lambda>w. stays_text low num i w \<and> space_token w) v"
    | (comma) "\<not> spaceSeparated i" "commaSeparated i" "list_value (\<lambda>w. stays_text low num i w \<and> comma_piece w) v"
    | (either) "\<not> spaceSeparated i" "\<not> commaSeparated i" "commaOrSpaceSeparated i"
        "list_value (\<lambda>w. stays_text low num i w \<and> space_token w \<and> 44 \<notin> set w) v"
    | (scalar) "\<not> ?l"
    using assms by (auto simp: fits_def split: if_splits)
  then show ?thesis
  proof cases
    case space
    obtain ws where w: "v = HArr (map HStr ws)" "list_all (\<lambda>w. stays_text low num i w \<and> space_token w) ws"
        "map (parse_primitive low num i) ws = map HStr ws" "map item_string (map HStr ws) = ws"
      using list_value_items [OF space(3), of low num i] by blast
    have "gh (vh ws) = ws" using w(2) by (intro space_round_trip) (simp add: list_all_iff)
    then show ?thesis using space(1,2) w by (simp add: parse_value_def attr_text_def del: map_map)
  next
    case comma
    obtain ws where w: "v = HArr (map HStr ws)" "list_all (\<lambda>w. stays_text low num i w \<and> comma_piece w) ws"
        "map (parse_primitive low num i) ws = map HStr ws" "map item_string (map HStr ws) = ws"
      using list_value_items [OF comma(3), of low num i] by blast
    have "Ff (zf True ws) = ws" using w(2) by (intro comma_round_trip) (simp add: list_all_iff)
    then show ?thesis using comma(1,2) w by (simp add: parse_value_def attr_text_def del: map_map)
  next
    case either
    obtain ws where w: "v = HArr (map HStr ws)"
        "list_all (\<lambda>w. stays_text low num i w \<and> space_token w \<and> 44 \<notin> set w) ws"
        "map (parse_primitive low num i) ws = map HStr ws" "map item_string (map HStr ws) = ws"
      using list_value_items [OF either(4), of low num i] by blast
    have "gh (join [32] (Ff (vh ws))) = ws" using w(2) by (intro comma_or_space_round_trip) (auto simp: list_all_iff)
    then show ?thesis using either(1-3) w by (simp add: parse_value_def attr_text_def del: map_map)
  next
    case scalar
    have "parse_primitive low num i (attr_text i v) = v"
    proof (cases v)
      case (HStr s)
      then show ?thesis using assms scalar by (simp add: fits_def attr_text_def stays_text_primitive)
    next
      case (HBool b)
      then show ?thesis using assms scalar by (simp add: fits_def attr_text_def parse_primitive_def)
    qed (use assms scalar in \<open>auto simp: fits_def attr_text_def parse_primitive_def\<close>)
    then show ?thesis using scalar by (simp add: parse_value_def)
  qed
qed

section \<open>Attributes\<close>

text \<open>A name that stands for itself as a key of an object and as the name of an attribute.\<close>

definition key_ok :: "jsstr \<Rightarrow> bool" where
  "key_ok s \<longleftrightarrow> ascii s \<and> array_index s = None \<and> s \<notin> set object_prototype \<and> \<not> startsWith s [58]"

definition prop_ok :: "(jsstr \<Rightarrow> jsstr) \<Rightarrow> (jsstr \<Rightarrow> jsstr option) \<Rightarrow> schema \<Rightarrow> jsstr \<times> hvalue \<Rightarrow> bool" where
  "prop_ok low num sch p =
     (case map_of (s_property sch) (fst p) of
        Some i \<Rightarrow> fits low num i (snd p) \<and> key_ok (fst p) \<and> key_ok (attribute i) \<and> fst p \<noteq> js ''children''
      | None \<Rightarrow> False)"

text \<open>What is written for a property.\<close>

definition the_info :: "schema \<Rightarrow> jsstr \<Rightarrow> info" where
  "the_info sch k = (case map_of (s_property sch) k of Some i \<Rightarrow> i | None \<Rightarrow> new_uf k k)"

definition written :: "schema \<Rightarrow> props \<Rightarrow> (jsstr \<times> jsstr) list" where
  "written sch ps = map (\<lambda>(k, v). (attribute (the_info sch k), attr_text (the_info sch k) v)) ps"

definition written_attrs :: "schema \<Rightarrow> props \<Rightarrow> dom_attr list" where
  "written_attrs sch ps = map (\<lambda>(k, v). spaced_attr (the_info sch k) (attr_text (the_info sch k) v)) ps"

lemma prop_ok_info:
  assumes "prop_ok low num sch (k, v)" and "sch \<in> {Uf, Qf}" and "lowers_ascii low"
  shows "map_of (s_property sch) k = Some (the_info sch k)" and "property (the_info sch k) = k"
    and "Lf low sch k li = (Some (the_info sch k), li)"
    and "Lf low sch (attribute (the_info sch k)) li = (Some (the_info sch k), li)"
    and "fits low num (the_info sch k) v" and "key_ok k" and "key_ok (attribute (the_info sch k))"
    and "k \<noteq> js ''children''"
proof -
  show k: "map_of (s_property sch) k = Some (the_info sch k)" and "fits low num (the_info sch k) v"
    and a: "key_ok k" "key_ok (attribute (the_info sch k))" and "k \<noteq> js ''children''"
    using assms(1) by (auto simp: prop_ok_def the_info_def split: option.splits)
  have c: "consistent sch" using assms(2) consistent_Uf consistent_Qf by auto
  have l: "low k = ascii_lower k" "low (attribute (the_info sch k)) = ascii_lower (attribute (the_info sch k))"
    using assms(3) a by (simp_all add: lowers_ascii_def key_ok_def)
  show "property (the_info sch k) = k" using c map_of_SomeD [OF k] by (auto simp: consistent_def)
  show "Lf low sch k li = (Some (the_info sch k), li)"
    and "Lf low sch (attribute (the_info sch k)) li = (Some (the_info sch k), li)"
    using Lf_known [OF c k] l by simp_all
qed

lemma index_of_char_split:
  "index_of [c] s = Some n \<Longrightarrow> s = take n s @ c # drop (Suc n) s"
proof (induction s arbitrary: n)
  case (Cons u s)
  then show ?case by (cases n) (auto simp: startsWith_def split: if_splits)
qed simp

lemma spaced_attr_name: "key_ok (attribute i) \<Longrightarrow> qualified_name (spaced_attr i v) = attribute i"
proof -
  assume a: "key_ok (attribute i)"
  have "take n (attribute i) @ 58 # drop (Suc n) (attribute i) = attribute i \<and> take n (attribute i) \<noteq> []"
    if "index_of [58] (attribute i) = Some n" for n
    using index_of_char_split [OF that] a
    by (cases "attribute i"; cases n) (auto simp: key_ok_def startsWith_def)
  then show ?thesis
    by (auto simp: spaced_attr_def qualified_name_def Let_def split: option.splits)
qed

lemma spaced_attr_value: "a_value (spaced_attr i v) = v"
  by (simp add: spaced_attr_def Let_def split: option.splits)

lemma fits_is_written:
  assumes "fits low num i v"
  shows "v \<noteq> HBool False" and "v \<noteq> HNull" and "v \<noteq> HNum (js ''NaN'')" and "truth v \<or> \<not> boolean i"
  using assms by (auto simp: fits_def list_value_def stays_text_def split: if_splits hvalue.splits)

lemma element_attrs_written:
  assumes "list_all (prop_ok low num sch) ps" and "sch \<in> {Uf, Qf}" and "lowers_ascii low"
  shows "element_attrs low sch ps li = Inr (written_attrs sch ps, li)"
  using assms(1)
proof (induction ps)
  case (Cons p ps)
  obtain k v where p: "p = (k, v)" by force
  then have ok: "prop_ok low num sch (k, v)" using Cons.prems by simp
  note i = prop_ok_info [OF ok assms(2,3)]
  have "fm low sch k v li = Inr (Some (spaced_attr (the_info sch k) (attr_text (the_info sch k) v)), li)"
    using i(3) [of li] fits_is_written [OF i(5)] by (auto simp: fm_def)
  then show ?case using Cons i(8) by (simp add: p written_attrs_def)
qed (simp add: written_attrs_def)

lemma written_distinct:
  assumes "list_all (prop_ok low num sch) ps" and "sch \<in> {Uf, Qf}" and "lowers_ascii low" and "distinct (map fst ps)"
  shows "distinct (map fst (written sch ps))"
proof -
  have "inj_on (\<lambda>k. attribute (the_info sch k)) (fst ` set ps)"
  proof (rule inj_onI)
    fix k l assume k: "k \<in> fst ` set ps" and l: "l \<in> fst ` set ps"
      and e: "attribute (the_info sch k) = attribute (the_info sch l)"
    obtain v w where "(k, v) \<in> set ps" "(l, w) \<in> set ps" using k l by auto
    then have "prop_ok low num sch (k, v)" "prop_ok low num sch (l, w)" using assms(1) by (auto simp: list_all_iff)
    then show "k = l" using prop_ok_info(2,4) [OF _ assms(2,3)] e by (metis option.inject prod.inject)
  qed
  then have "distinct (map (\<lambda>k. attribute (the_info sch k)) (map fst ps))"
    using assms(4) by (simp only: distinct_map) simp
  then show ?thesis by (simp add: written_def comp_def split_def)
qed

lemma attr_object_written:
  assumes "list_all (prop_ok low num sch) ps" and "sch \<in> {Uf, Qf}" and "lowers_ascii low" and "distinct (map fst ps)"
  shows "attr_object (written_attrs sch ps) = written sch ps"
proof -
  have k: "key_ok (attribute (the_info sch (fst p)))" if "p \<in> set ps" for p
    using prop_ok_info(7) [of low num sch "fst p" "snd p"] assms(1-3) that by (auto simp: list_all_iff)
  have n: "map qualified_name (written_attrs sch ps) = map fst (written sch ps)"
    using k spaced_attr_name by (auto simp: written_attrs_def written_def)
  have v: "map (\<lambda>a. (qualified_name a, a_value a)) (written_attrs sch ps) = written sch ps"
    using k spaced_attr_name spaced_attr_value by (auto simp: written_attrs_def written_def)
  have "attr_object (written_attrs sch ps) = [] @ map (\<lambda>a. (qualified_name a, a_value a)) (written_attrs sch ps)"
    unfolding attr_object_def
  proof (rule foldl_put_fresh)
    show "distinct (map qualified_name (written_attrs sch ps))" using n written_distinct [OF assms] by simp
    show "array_index (qualified_name a) = None \<and> qualified_name a \<notin> set object_prototype"
      if "a \<in> set (written_attrs sch ps)" for a
      using that k spaced_attr_name by (auto simp: written_attrs_def key_ok_def)
  qed simp
  then show ?thesis using v by simp
qed

lemma add_properties_written:
  assumes "list_all (prop_ok low num sch) ps" and "sch \<in> {Uf, Qf}" and "lowers_ascii low" and "distinct (map fst (acc @ ps))"
  shows "add_properties low num sch (written sch ps) acc li = Inr (acc @ ps, li)"
  using assms(1,4)
proof (induction ps arbitrary: acc)
  case (Cons p ps)
  obtain k v where p: "p = (k, v)" by force
  then have ok: "prop_ok low num sch (k, v)" using Cons.prems by simp
  note i = prop_ok_info [OF ok assms(2,3)]
  have f: "k \<notin> fst ` set acc" using Cons.prems(2) p by auto
  then have "map_of acc k = None" by (simp add: map_of_eq_None_iff)
  then have "add_classes (the_info sch k) acc v = v" using i(2) by (auto simp: add_classes_def)
  then have "Wf low num sch (attribute (the_info sch k)) (attr_text (the_info sch k) v) acc li = Inr (acc @ [(k, v)], li)"
    using i(2,4,6) parse_written_value [OF i(5)] f by (simp add: Wf_def obj_put_fresh key_ok_def)
  then show ?case using Cons.IH [of "acc @ [(k, v)]"] Cons.prems by (simp add: p written_def)
qed (simp add: written_def)

section \<open>Round trip\<close>

lemma selector_plain: "s \<noteq> [] \<Longrightarrow> list_all (\<lambda>u. \<not> is_mark u) s \<Longrightarrow> selector None s (None, []) = (Some s, [])"
proof -
  assume s: "s \<noteq> []" and m: "list_all (\<lambda>u. \<not> is_mark u) s"
  have "takeWhile (\<lambda>u. \<not> is_mark u) s = s" "dropWhile (\<lambda>u. \<not> is_mark u) s = []"
    using m by (simp_all add: list_all_iff)
  then show ?thesis using s by (simp only: selector.simps [of None s]) (simp add: add_piece_def)
qed

definition builder_tag_ok :: "(jsstr \<Rightarrow> jsstr) \<Rightarrow> schema \<Rightarrow> jsstr \<Rightarrow> bool" where
  "builder_tag_ok low sch tag \<longleftrightarrow> tag \<noteq> [] \<and> list_all (\<lambda>u. \<not> is_mark u) tag \<and>
     cased_tag low (builder_of (schema_namespace sch)) tag = tag"

text \<open>
  Trees as a document gives them: tag names in the case of their language and without marks,
  properties of the schema with values of their kind, a template with its content in a root, and no
  \<open>type\<close> together with a \<open>value\<close> except where the element builder expects both.
\<close>

fun canon :: "(jsstr \<Rightarrow> jsstr) \<Rightarrow> (jsstr \<Rightarrow> jsstr option) \<Rightarrow> schema \<Rightarrow> hast \<Rightarrow> bool"
and canons :: "(jsstr \<Rightarrow> jsstr) \<Rightarrow> (jsstr \<Rightarrow> jsstr option) \<Rightarrow> schema \<Rightarrow> hast list \<Rightarrow> bool" where
  "canon low num sch (HElement tag ps cs content) =
     (let r = element_schema low tag sch in
      builder_tag_ok low r tag \<and> distinct (map fst ps) \<and> list_all (prop_ok low num r) ps \<and>
      isProperties low (written r ps) tag \<and> canons low num r cs \<and>
      (if tag = js ''template''
       then cs = [] \<and> (case content of Some (HRoot ks) \<Rightarrow> canons low num r ks | _ \<Rightarrow> False)
       else content = None))"
| "canon low num sch (HText s) = True"
| "canon low num sch (HComment s) = True"
| "canon low num sch HDoctype = True"
| "canon low num sch (HRoot cs) = False"
| "canon low num sch (HRaw s) = False"
| "canon low num sch (HOther t cs) = False"
| "canons low num sch [] = True"
| "canons low num sch (c # cs) = (canon low num sch c \<and> canons low num sch cs)"

lemma canons_children: "canons low num sch cs \<Longrightarrow> concat (map Xf cs) = cs"
proof (induction cs)
  case (Cons c cs)
  then show ?case by (cases c) auto
qed simp

lemma js_eq_simps: "js ''svg'' \<noteq> js ''html''" "js ''template'' \<noteq> []"
  by (simp_all add: js_def)

lemma schema_spaces: "s_space Uf = Some (js ''html'')" "s_space Qf = Some (js ''svg'')"
  by (simp_all add: Uf_def Qf_def merge_schemas_def)

lemma builder_schema: "sch \<in> {Uf, Qf} \<Longrightarrow> b_schema (builder_of (schema_namespace sch)) = sch"
  using js_eq_simps by (auto simp: schema_namespace_def schema_spaces em_def builder_of_def Yf_def Kf_def)

lemma element_schema_cases: "sch \<in> {Uf, Qf} \<Longrightarrow> element_schema low tag sch \<in> {Uf, Qf}"
  by (auto simp: element_schema_def)

lemma Zf_written:
  assumes "list_all (prop_ok low num sch) ps" and "sch \<in> {Uf, Qf}" and "lowers_ascii low" and "distinct (map fst ps)"
    and "builder_tag_ok low sch tag" and "isProperties low (written sch ps) tag" and "canons low num sch cs"
  shows "Zf low num (builder_of (schema_namespace sch)) tag (attr_object (written_attrs sch ps)) cs li =
     Inr (if tag = js ''template'' then HElement tag ps [] (Some (HRoot cs)) else HElement tag ps cs None, li)"
  using assms selector_plain [of tag] add_properties_written [of low num sch ps "[]" li]
  by (simp add: Zf_def builder_tag_ok_def builder_schema attr_object_written [OF assms(1-4)] canons_children)

lemma parse5_round_trip_tree:
  shows "lowers_ascii low \<Longrightarrow> sch \<in> {Uf, Qf} \<Longrightarrow> canon low num sch h \<Longrightarrow>
      \<exists>t. hm low sch h li = Inr (t, li) \<and> om low num t li' = Inr (h, li')"
    and "lowers_ascii low \<Longrightarrow> sch \<in> {Uf, Qf} \<Longrightarrow> canons low num sch hs \<Longrightarrow>
      \<exists>ts. mm low sch hs li = Inr (ts, li) \<and> am low num ts li' = Inr (hs, li')"
proof (induction low num sch h and low num sch hs arbitrary: li li' and li li' rule: canon_canons.induct)
  case (1 low num sch tag ps cs content)
  define r where "r = element_schema low tag sch"
  have r: "r \<in> {Uf, Qf}" using "1.prems"(2) element_schema_cases by (simp add: r_def)
  have ok: "builder_tag_ok low r tag" "distinct (map fst ps)" "list_all (prop_ok low num r) ps"
      "isProperties low (written r ps) tag" "canons low num r cs"
    using "1.prems"(3) by (simp_all add: r_def Let_def)
  obtain ts where ts: "mm low r cs li = Inr (ts, li)" "am low num ts li' = Inr (cs, li')"
    using "1.IH"(1) [OF r_def "1.prems"(1) r ok(5)] by blast
  have as: "element_attrs low r ps li = Inr (written_attrs r ps, li)"
    by (rule element_attrs_written [OF ok(3) r "1.prems"(1)])
  note z = Zf_written [OF ok(3) r "1.prems"(1) ok(2,1,4,5), of li']
  show ?case
  proof (cases "tag = js ''template''")
    case True
    then obtain ks where c: "content = Some (HRoot ks)" "cs = []" "canons low num r ks"
      using "1.prems"(3) by (auto simp: r_def Let_def split: option.splits hast.splits)
    obtain us where us: "mm low r ks li = Inr (us, li)" "am low num us li' = Inr (ks, li')"
      using "1.IH"(2) [OF r_def True c(1) refl "1.prems"(1) r c(3)] by blast
    have rt: "element_schema low (js ''template'') sch = r" using True by (simp add: r_def)
    have "hm low sch (HElement tag ps cs content) li =
        Inr (P5Element tag (schema_namespace r) (written_attrs r ps) ts (Some (P5Fragment us)), li)"
      using as ts us True c(1,2) by (simp add: rt Let_def)
    moreover have "om low num (P5Element tag (schema_namespace r) (written_attrs r ps) ts (Some (P5Fragment us))) li' =
        Inr (HElement tag ps cs content, li')"
      using ts us z True c(1,2) by (simp add: tag_of_def)
    ultimately show ?thesis by blast
  next
    case False
    then have "content = None" using "1.prems"(3) by (simp add: Let_def)
    then show ?thesis using as ts z False by (simp add: r_def [symmetric] Let_def tag_of_def)
  qed
next
  case (9 low num sch c cs)
  obtain t ts where "hm low sch c li = Inr (t, li)" "om low num t li' = Inr (c, li')"
      "mm low sch cs li = Inr (ts, li)" "am low num ts li' = Inr (cs, li')"
    using 9 by (metis canons.simps(2))
  then show ?case by simp
qed auto


definition sample_tree :: "hast list" where
  "sample_tree = [HDoctype, HElement (js ''p'') [(js ''className'', HArr [HStr (js ''a''), HStr (js ''b'')])]
     [HText (js ''x''), HComment (js ''y'')] None,
     HElement (js ''template'') [] [] (Some (HRoot [HText (js ''z'')]))]"

lemma no_marks_sample: "list_all (\<lambda>u. \<not> is_mark u) (js ''p'')" "list_all (\<lambda>u. \<not> is_mark u) (js ''template'')"
  by (simp_all add: js_def is_mark_def)

lemma className_ok:
  "prop_ok ascii_lower (\<lambda>s. None) Uf (js ''className'', HArr [HStr (js ''a''), HStr (js ''b'')])"
proof -
  have a: "attribute (table_info Rf_definition (js ''className'', Some gf)) = js ''class''"
    using className_attribute by simp
  show ?thesis
    by (simp only: prop_ok_def fst_conv snd_conv className_entry option.case a)
       (simp add: key_ok_def fits_def list_value_def list_item_def stays_text_def space_token_def js_space_def
         table_info_def new_xf_def new_uf_def has_kind_def kind_defs array_index_def is_digit_def object_prototype_def
         startsWith_def ascii_def js_def)
qed


section \<open>Names and attributes that mean something to the element builder\<close>

text \<open>The tag of the element that is built does not depend on the attributes and the children.\<close>

lemma Zf_tag:
  assumes "Zf low num b sel o' cs li = Inr (h, l)"
  shows "tag_of h = cased_tag low b (case fst (selector None sel (None, [])) of Some t \<Rightarrow> t | None \<Rightarrow> b_default b)"
  using assms by (auto simp: Zf_def Let_def tag_of_def split: prod.splits if_splits sum.splits)

lemma no_content_throws:
  assumes "\<And>h l l'. Zf low num (builder_of ns) name (attr_object as) cs' l = Inr (h, l') \<Longrightarrow> tag_of h = js ''template''"
    and "am low num cs li = Inr (cs', l1)"
  shows "\<exists>e. om low num (P5Element name ns as cs None) li = Inl e"
  using assms by (auto split: sum.splits)

lemma template_names: "map_of (b_names (builder_of ns)) (js ''template'') = None"
  by (simp add: builder_of_def Yf_def Kf_def case_names_map_def svg_case_names_def lower_string_def)

text \<open>
  C34. An element of the name \<open>template\<close> in SVG or MathML makes the conversion throw, whatever its
  attributes and children are: the parser gives a \<open>content\<close> only to templates in HTML, and the
  conversion reads it for every element it has named \<open>template\<close>.
\<close>

theorem foreign_template_throws:
  assumes "lowers_ascii low"
  shows "\<exists>e. om low num (P5Element (js ''template'') ns as cs None) li = Inl e"
proof (cases "am low num cs li")
  case (Inr r)
  obtain cs' l1 where r: "r = (cs', l1)" by force
  have l: "low (js ''template'') = js ''template''"
    using assms by (simp add: lowers_ascii_def ascii_def) (simp add: js_def ascii_lower_def)
  have s: "fst (selector None (js ''template'') (None, [])) = Some (js ''template'')"
    using selector_plain [OF _ no_marks_sample(2)] js_eq_simps(2) by simp
  show ?thesis
    by (rule no_content_throws [OF _ Inr [unfolded r]])
       (use Zf_tag s l template_names in \<open>fastforce simp: cased_tag_def\<close>)
qed simp

theorem foreign_template_throws_witness:
  "\<exists>e. om ascii_lower (\<lambda>s. None) (P5Element (js ''template'') NS_SVG [] [P5Text (js ''x'')] None) 0 = Inl e"
  by (rule foreign_template_throws) (simp add: lowers_ascii_def)

text \<open>
  An element other than \<open>input\<close> and \<open>button\<close> that has the two attributes \<open>type\<close> and \<open>value\<close>, such as
  an item \<open><li type="a" value="3">\<close>, loses them: the builder takes the object of its attributes for a
  child, whose \<open>type\<close> is the value of the attribute. The type \<open>raw\<close> makes the value of the
  attribute a piece of raw HTML in the tree.
\<close>

theorem typed_attributes_become_a_child:
  assumes "tag \<noteq> []" and "list_all (\<lambda>u. \<not> is_mark u) tag" and "low tag = tag"
    and "tag \<notin> {js ''input'', js ''button'', js ''template''}" and "kind \<noteq> []"
  shows "om low num (P5Element tag NS_HTML [\<lparr>a_name = js ''type'', a_value = kind, a_prefix = None, a_namespace = None\<rparr>,
           \<lparr>a_name = js ''value'', a_value = v, a_prefix = None, a_namespace = None\<rparr>] [P5Text s] None) li =
     Inr (HElement tag [] (object_child [(js ''type'', kind), (js ''value'', v)] @ [HText s]) None, li)"
proof -
  have k: "js ''type'' \<noteq> js ''value''" "array_index (js ''type'') = None" "array_index (js ''value'') = None"
      "js ''type'' \<notin> set object_prototype" "js ''value'' \<notin> set object_prototype"
    by (simp_all add: js_def array_index_def is_digit_def object_prototype_def)
  have o: "attr_object [\<lparr>a_name = js ''type'', a_value = kind, a_prefix = None, a_namespace = None\<rparr>,
      \<lparr>a_name = js ''value'', a_value = v, a_prefix = None, a_namespace = None\<rparr>] = [(js ''type'', kind), (js ''value'', v)]"
    using k by (simp add: attr_object_def qualified_name_def obj_put_def)
  have c: "cased_tag low Yf tag = tag" using assms(3) by (simp add: cased_tag_def Yf_def)
  have i: "\<not> isProperties low [(js ''type'', kind), (js ''value'', v)] tag"
    using assms(4,5) k(1) by (simp add: isProperties_def)
  show ?thesis using assms(4) i
    by (simp add: o Zf_def builder_of_def selector_plain [OF assms(1,2)] c tag_of_def)
qed

theorem typed_attributes_become_a_child_witness:
  "om ascii_lower (\<lambda>s. None) (P5Element (js ''li'') NS_HTML
      [\<lparr>a_name = js ''type'', a_value = js ''raw'', a_prefix = None, a_namespace = None\<rparr>,
       \<lparr>a_name = js ''value'', a_value = js ''<b>'', a_prefix = None, a_namespace = None\<rparr>] [P5Text (js ''x'')] None) 0 =
     Inr (HElement (js ''li'') [] [HRaw (js ''<b>''), HText (js ''x'')] None, 0)"
proof -
  have c: "object_child [(js ''type'', js ''raw''), (js ''value'', js ''<b>'')] = [HRaw (js ''<b>'')]"
    by (simp add: object_child_def)
  show ?thesis
    by (rule typed_attributes_become_a_child [of "js ''li''" ascii_lower "js ''raw''" "\<lambda>s. None" "js ''<b>''" "js ''x''" 0, unfolded c append_Cons append_Nil])
       (simp_all add: js_def is_mark_def ascii_lower_def)
qed

text \<open>
  A tag name is read as a selector: the element \<open><a.b>\<close> of a document, which has the name
  \<open>a.b\<close> and no attributes, becomes an element \<open>a\<close> of the class \<open>b\<close>.
\<close>

theorem dotted_name_becomes_a_class:
  assumes "a \<noteq> []" and "b \<noteq> []" and "list_all (\<lambda>u. \<not> is_mark u) (a @ b)" and "low a \<noteq> js ''template''"
  shows "om low num (P5Element (a @ 46 # b) NS_HTML [] [] None) li =
     Inr (HElement (low a) [(class_name, HArr [HStr b])] [] None, li)"
proof -
  have m: "is_mark 46" by (simp add: is_mark_def)
  have a: "takeWhile (\<lambda>u. \<not> is_mark u) (a @ 46 # b) = a" "dropWhile (\<lambda>u. \<not> is_mark u) (a @ 46 # b) = 46 # b"
      "takeWhile (\<lambda>u. \<not> is_mark u) b = b" "dropWhile (\<lambda>u. \<not> is_mark u) b = []"
    using assms(3) m by (auto simp: list_all_iff takeWhile_append dropWhile_append)
  have "array_index class_name = None" by (simp add: class_name_def array_index_def is_digit_def js_def)
  then have "selector (Some 46) b (Some a, []) = (Some a, [(class_name, HArr [HStr b])])"
    using assms(2) by (simp only: selector.simps [of "Some 46" b] a) (simp add: add_piece_def obj_put_def)
  then have "selector None (a @ 46 # b) (None, []) = (Some a, [(class_name, HArr [HStr b])])"
    using assms(1) by (simp only: selector.simps [of None "a @ 46 # b"] a) (simp add: add_piece_def)
  then show ?thesis using assms(4)
    by (simp add: attr_object_def Zf_def builder_of_def cased_tag_def Yf_def isProperties_def tag_of_def)
qed

theorem dotted_name_becomes_a_class_witness:
  "om ascii_lower (\<lambda>s. None) (P5Element (js ''a'' @ 46 # js ''b'') NS_HTML [] [] None) 0 =
     Inr (HElement (ascii_lower (js ''a'')) [(class_name, HArr [HStr (js ''b'')])] [] None, 0)"
  by (rule dotted_name_becomes_a_class) (simp_all add: js_def is_mark_def ascii_lower_def)

end
