(* ===== verification/Html_Body_Modes.thy ===== *)
theory Html_Body_Modes
  imports Html_Parser
begin

text \<open>
  Tree construction before, in and after the head and in the body: the functions \<open>Ov\<close> to \<open>Zv\<close> of
  \<^verbatim>\<open>src/api/scalar.standalone.js\<close>, under the names parse5 gives them. Where a function hands the token
  back to \<open>_processToken\<close>, \<open>_processStartTag\<close>, \<open>onEndTag\<close> or \<open>onEof\<close>, it calls its argument \<open>proc\<close>.
\<close>

type_synonym processor = "ptoken \<Rightarrow> parser \<Rightarrow> parser"

section \<open>Any other end tag\<close>

primrec generic_end_tag_from :: "nat \<Rightarrow> tag \<Rightarrow> parser \<Rightarrow> parser" where
  "generic_end_tag_from 0 t p = p"
| "generic_end_tag_from (Suc k) t p =
     (let o1 = Suc k; el = items (openElements p) ! o1; a = tagIDs (openElements p) ! o1 in
      if t_id t = a \<and> (t_id t \<noteq> T_UNKNOWN \<or> getTagName (heap p) el = Some (t_name t))
      then (let p1 = popping (\<lambda>h. generateImpliedEndTagsWithExclusion h (t_id t)) p
            in if stackTop (openElements p1) \<ge> int o1 then popping (\<lambda>h. shortenToLength h o1) p1 else p1)
      else if isSpecialElement el a p then p
      else generic_end_tag_from k t p)"

definition genericEndTagInBody :: "tag \<Rightarrow> parser \<Rightarrow> parser" where
  "genericEndTagInBody t p = generic_end_tag_from (nat (stackTop (openElements p))) t p"

section \<open>The adoption agency\<close>

definition aaObtainFormattingElementEntry :: "tag \<Rightarrow> parser \<Rightarrow> (nat \<times> addr \<times> tag) option \<times> parser" where
  "aaObtainFormattingElementEntry t p =
     (case getElementEntryInScopeWithTagName (heap p) (t_name t) (activeFormattingElements p) of
        Some (Entry i el g) \<Rightarrow>
          if contains el (openElements p)
          then (if hasInScope (heap p) (t_id t) (openElements p) then Some (i, el, g) else None, p)
          else (None, on_formatting (removeEntry i) p)
      | _ \<Rightarrow> (None, genericEndTagInBody t p))"

text \<open>The special element nearest to the formatting element, and the index of the latter.\<close>

primrec furthest_block_from :: "nat \<Rightarrow> addr \<Rightarrow> addr option \<Rightarrow> parser \<Rightarrow> addr option \<times> int" where
  "furthest_block_from 0 el acc p = (acc, -1)"
| "furthest_block_from (Suc i) el acc p =
     (let o1 = items (openElements p) ! i in
      if o1 = el then (acc, int i)
      else furthest_block_from i el
             (if isSpecialElement o1 (tagIDs (openElements p) ! i) p then Some o1 else acc) p)"

definition aaObtainFurthestBlock :: "nat \<Rightarrow> addr \<Rightarrow> parser \<Rightarrow> addr option \<times> parser" where
  "aaObtainFurthestBlock i el p =
     (case furthest_block_from (nat (stackTop (openElements p) + 1)) el None p of
        (Some b, _) \<Rightarrow> (Some b, p)
      | (None, r) \<Rightarrow> (None, on_formatting (removeEntry i) (popping (\<lambda>h. shortenToLength h (nat r)) p)))"

definition aaRecreateElementFromEntry :: "nat \<Rightarrow> addr \<Rightarrow> tag \<Rightarrow> parser \<Rightarrow> addr \<times> parser" where
  "aaRecreateElementFromEntry i el g p =
     (case nodeNamespace p el of
        None \<Rightarrow> (el, p_throw p)
      | Some ns \<Rightarrow> (case createElement (t_name g) ns (t_attrs g) (heap p) of (r, h) \<Rightarrow>
          (r, on_formatting (set_entry_element i r)
                (p\<lparr>heap := h, openElements := replace el r (openElements p)\<rparr>))))"

definition move_node :: "addr \<Rightarrow> addr \<Rightarrow> parser \<Rightarrow> parser" where
  "move_node r parent p = on_heap (\<lambda>h. appendChild parent r (detachNode r h)) p"

text \<open>
  The inner loop: \<open>i\<close> climbs from the furthest block to the formatting element \<open>fe\<close>, \<open>r\<close> is the last
  node, \<open>a\<close> counts the rounds. Every round moves \<open>i\<close> down the stack, so \<open>n\<close> rounds are enough when
  the stack has \<open>n\<close> elements; a loop that misses the formatting element never ends in the source.
\<close>

primrec aa_inner_loop ::
  "nat \<Rightarrow> nat \<Rightarrow> addr option \<Rightarrow> addr \<Rightarrow> addr \<Rightarrow> addr \<Rightarrow> parser \<Rightarrow> addr \<times> parser" where
  "aa_inner_loop 0 a i r fb fe p = (if i = Some fe then (r, p) else (r, p_throw p))"
| "aa_inner_loop (Suc n) a i r fb fe p =
     (case i of
        None \<Rightarrow> (r, p_throw p)
      | Some x \<Rightarrow>
          if x = fe then (r, p)
          else let o1 = getCommonAncestor x (openElements p) in
            (case getElementEntry x (activeFormattingElements p) of
               Some (Entry j el g) \<Rightarrow>
                 if a \<ge> 3
                 then aa_inner_loop n (Suc a) o1 r fb fe (p_remove x (on_formatting (removeEntry j) p))
                 else (case aaRecreateElementFromEntry j el g p of (y, p1) \<Rightarrow>
                   let p2 = (if r = fb then on_formatting (set_bookmark j) p1 else p1)
                   in aa_inner_loop n (Suc a) o1 y fb fe (move_node r y p2))
             | _ \<Rightarrow> aa_inner_loop n (Suc a) o1 r fb fe (p_remove x p)))"

definition aaInnerLoop :: "addr \<Rightarrow> addr \<Rightarrow> parser \<Rightarrow> addr \<times> parser" where
  "aaInnerLoop fb fe p =
     aa_inner_loop (length (items (openElements p))) 0 (getCommonAncestor fb (openElements p)) fb fb fe p"

definition aaInsertLastNodeInCommonAncestor :: "addr \<Rightarrow> addr \<Rightarrow> parser \<Rightarrow> parser" where
  "aaInsertLastNodeInCommonAncestor ca node p =
     (let tid = (case getTagName (heap p) ca of Some s \<Rightarrow> getTagID s | None \<Rightarrow> T_UNKNOWN) in
      if isElementCausesFosterParenting tid then fosterParentElement node p
      else append_to (if tid = T_TEMPLATE \<and> nodeNamespace p ca = Some NS_HTML
                      then getTemplateContent (heap p) ca else Some ca) node p)"

definition aaReplaceFormattingElement :: "addr \<Rightarrow> nat \<Rightarrow> addr \<Rightarrow> tag \<Rightarrow> parser \<Rightarrow> parser" where
  "aaReplaceFormattingElement fb i el g p =
     (case nodeNamespace p el of
        None \<Rightarrow> p_throw p
      | Some ns \<Rightarrow> creating (createElement (t_name g) ns (t_attrs g)) (\<lambda>a p1.
          let p2 = on_heap (\<lambda>h. appendChild fb a (adoptNodes fb a h)) p1;
              p3 = on_formatting (\<lambda>f. removeEntry i (insertElementAfterBookmark a g f)) p2
          in p_insertAfter fb a (t_id g) (p_remove el p3)) p)"

text \<open>One round of the outer loop; the flag says whether it goes on.\<close>

definition aa_round :: "tag \<Rightarrow> parser \<Rightarrow> bool \<times> parser" where
  "aa_round t p =
     (case aaObtainFormattingElementEntry t p of
        (None, p1) \<Rightarrow> (False, p1)
      | (Some (i, el, g), p1) \<Rightarrow>
          (case aaObtainFurthestBlock i el p1 of
             (None, p2) \<Rightarrow> (False, p2)
           | (Some fb, p2) \<Rightarrow>
               (case aaInnerLoop fb el (on_formatting (set_bookmark i) p2) of (node, p3) \<Rightarrow>
                  let ca = getCommonAncestor el (openElements p3);
                      p4 = on_heap (detachNode node) p3;
                      p5 = (case ca of Some c \<Rightarrow> aaInsertLastNodeInCommonAncestor c node p4 | None \<Rightarrow> p4)
                  in (True, aaReplaceFormattingElement fb i el g p5))))"

primrec aa_outer_loop :: "nat \<Rightarrow> tag \<Rightarrow> parser \<Rightarrow> parser" where
  "aa_outer_loop 0 t p = p"
| "aa_outer_loop (Suc n) t p = (case aa_round t p of (go, p1) \<Rightarrow> if go then aa_outer_loop n t p1 else p1)"

definition callAdoptionAgency :: "tag \<Rightarrow> parser \<Rightarrow> parser" where
  "callAdoptionAgency t p = aa_outer_loop 8 t p"

section \<open>Helpers\<close>

definition appendComment :: "jsstr \<Rightarrow> parser \<Rightarrow> parser" where
  "appendComment s p = appendCommentNode s (currentTmplContentOrNode (heap p) (openElements p)) p"

definition stopParsing :: "parser \<Rightarrow> parser" where
  "stopParsing p = p\<lparr>stopped_parsing := True\<rparr>"

definition tokenInInitialMode :: "processor \<Rightarrow> ptoken \<Rightarrow> parser \<Rightarrow> parser" where
  "tokenInInitialMode proc tok p =
     proc tok (set_mode BEFORE_HTML (on_heap (setDocumentMode (document p) QUIRKS) (p_err missingDoctype p)))"

definition tokenBeforeHtml :: "processor \<Rightarrow> ptoken \<Rightarrow> parser \<Rightarrow> parser" where
  "tokenBeforeHtml proc tok p = proc tok (set_mode BEFORE_HEAD (insertFakeRootElement p))"

definition tokenBeforeHead :: "processor \<Rightarrow> ptoken \<Rightarrow> parser \<Rightarrow> parser" where
  "tokenBeforeHead proc tok p =
     (let p1 = insertFakeElement ''head'' T_HEAD p
      in proc tok (set_mode IN_HEAD (p1\<lparr>headElement := current (openElements p1)\<rparr>)))"

definition tokenInHead :: "processor \<Rightarrow> ptoken \<Rightarrow> parser \<Rightarrow> parser" where
  "tokenInHead proc tok p = proc tok (set_mode AFTER_HEAD (p_pop p))"

definition tokenInHeadNoScript :: "processor \<Rightarrow> ptoken \<Rightarrow> parser \<Rightarrow> parser" where
  "tokenInHeadNoScript proc tok p =
     proc tok (set_mode IN_HEAD (p_pop (p_err (if tok = PEof then openElementsLeftAfterEof
                                               else disallowedContentInNoscriptInHead) p)))"

text \<open>The case \<open>HTML\<close> of \<open>startTagInBody\<close>, which the head modes share.\<close>

definition htmlStartTagInBody :: "tag \<Rightarrow> parser \<Rightarrow> parser" where
  "htmlStartTagInBody t p =
     (if tmplCount (openElements p) = 0
      then case array_get (items (openElements p)) 0 of
          Some a \<Rightarrow> on_heap (adoptAttributes a (t_attrs t)) p | None \<Rightarrow> p_throw p
      else p)"

definition startTagInHead :: "processor \<Rightarrow> tag \<Rightarrow> parser \<Rightarrow> parser" where
  "startTagInHead proc t p =
     (let g = t_id t in
      if g = T_HTML then htmlStartTagInBody t p
      else if g \<in> set [T_BASE, T_BASEFONT, T_BGSOUND, T_LINK, T_META]
      then acknowledge (appendElement t NS_HTML p)
      else if g = T_TITLE then switchToTextParsing t Mode_RCDATA p
      else if g = T_NOSCRIPT
      then (if scriptingEnabled p then switchToTextParsing t Mode_RAWTEXT p
            else set_mode IN_HEAD_NO_SCRIPT (insertElement t NS_HTML p))
      else if g = T_NOFRAMES \<or> g = T_STYLE then switchToTextParsing t Mode_RAWTEXT p
      else if g = T_SCRIPT then switchToTextParsing t Mode_SCRIPT_DATA p
      else if g = T_TEMPLATE
      then (let p1 = set_mode IN_TEMPLATE (frameset_not_ok (on_formatting insertMarker (insertTemplate t p)))
            in p1\<lparr>tmplInsertionModeStack := IN_TEMPLATE # tmplInsertionModeStack p1\<rparr>)
      else if g = T_HEAD then p_err misplacedStartTagForHeadElement p
      else tokenInHead proc (PStartTag t) p)"

definition templateEndTagInHead :: "parser \<Rightarrow> parser" where
  "templateEndTagInHead p =
     (if tmplCount (openElements p) > 0
      then (let p1 = popping generateImpliedEndTagsThoroughly p;
                p2 = (if \<not> is_current T_TEMPLATE p1 then p_err closingOfElementWithOpenChildElements p1 else p1);
                p3 = on_formatting clearToLastMarker (popping (\<lambda>h. popUntilTagNamePopped h T_TEMPLATE) p2)
            in resetInsertionMode (p3\<lparr>tmplInsertionModeStack := tl (tmplInsertionModeStack p3)\<rparr>))
      else p_err endTagWithoutMatchingOpenElement p)"

definition whitespaceCharacterInBody :: "jsstr \<Rightarrow> parser \<Rightarrow> parser" where
  "whitespaceCharacterInBody s p = insertCharacters s (reconstructActiveFormattingElements p)"

definition characterInBody :: "jsstr \<Rightarrow> parser \<Rightarrow> parser" where
  "characterInBody s p = frameset_not_ok (insertCharacters s (reconstructActiveFormattingElements p))"

definition areaStartTagInBody :: "tag \<Rightarrow> parser \<Rightarrow> parser" where
  "areaStartTagInBody t p =
     acknowledge (frameset_not_ok (appendElement t NS_HTML (reconstructActiveFormattingElements p)))"

definition isHiddenInput :: "tag \<Rightarrow> parser \<Rightarrow> bool" where
  "isHiddenInput t p = (case attr_map (t_attrs t) (js ''type'') of
     Some v \<Rightarrow> toLowerCase p v = js ''hidden'' | None \<Rightarrow> False)"

definition rawTextStartTagInBody :: "tag \<Rightarrow> parser \<Rightarrow> parser" where
  "rawTextStartTagInBody t p = switchToTextParsing t Mode_RAWTEXT p"

definition genericStartTagInBody :: "tag \<Rightarrow> parser \<Rightarrow> parser" where
  "genericStartTagInBody t p = insertElement t NS_HTML (reconstructActiveFormattingElements p)"

section \<open>Start tags in the body\<close>

definition push_formatting :: "tag \<Rightarrow> parser \<Rightarrow> parser" where
  "push_formatting t p = (case current (openElements p) of
     Some c \<Rightarrow> on_formatting (pushElement (heap p) c t) p | None \<Rightarrow> p_throw p)"

definition bStartTagInBody :: "tag \<Rightarrow> parser \<Rightarrow> parser" where
  "bStartTagInBody t p = push_formatting t (insertElement t NS_HTML (reconstructActiveFormattingElements p))"

definition aStartTagInBody :: "tag \<Rightarrow> parser \<Rightarrow> parser" where
  "aStartTagInBody t p =
     (let p1 = (case getElementEntryInScopeWithTagName (heap p) (js ''a'') (activeFormattingElements p) of
          Some (Entry i el g) \<Rightarrow>
            (let q = callAdoptionAgency t p;
                 el' = (case List.find (is_entry i) (entries (activeFormattingElements q)) of
                          Some (Entry _ x _) \<Rightarrow> x | _ \<Rightarrow> el)
             in on_formatting (removeEntry i) (p_remove el' q))
        | _ \<Rightarrow> p)
      in push_formatting t (insertElement t NS_HTML (reconstructActiveFormattingElements p1)))"

definition numberedHeaderStartTagInBody :: "tag \<Rightarrow> parser \<Rightarrow> parser" where
  "numberedHeaderStartTagInBody t p =
     (let p1 = close_p_in_button_scope p;
          p2 = (case currentTagId (openElements p1) of
                  Some c \<Rightarrow> if isNumberedHeader c then p_pop p1 else p1 | None \<Rightarrow> p1)
      in insertElement t NS_HTML p2)"

definition addressStartTagInBody :: "tag \<Rightarrow> parser \<Rightarrow> parser" where
  "addressStartTagInBody t p = insertElement t NS_HTML (close_p_in_button_scope p)"

primrec close_list_item_from :: "nat \<Rightarrow> nat \<Rightarrow> parser \<Rightarrow> parser" where
  "close_list_item_from 0 n p = p"
| "close_list_item_from (Suc r) n p =
     (let t = tagIDs (openElements p) ! r in
      if n = T_LI \<and> t = T_LI \<or> (n = T_DD \<or> n = T_DT) \<and> (t = T_DD \<or> t = T_DT)
      then popping (\<lambda>h. popUntilTagNamePopped h t) (popping (\<lambda>h. generateImpliedEndTagsWithExclusion h t) p)
      else if t \<noteq> T_ADDRESS \<and> t \<noteq> T_DIV \<and> t \<noteq> T_P \<and> isSpecialElement (items (openElements p) ! r) t p then p
      else close_list_item_from r n p)"

definition listItemStartTagInBody :: "tag \<Rightarrow> parser \<Rightarrow> parser" where
  "listItemStartTagInBody t p =
     (let p1 = frameset_not_ok p;
          p2 = close_list_item_from (nat (stackTop (openElements p1) + 1)) (t_id t) p1
      in insertElement t NS_HTML (close_p_in_button_scope p2))"

definition hrStartTagInBody :: "tag \<Rightarrow> parser \<Rightarrow> parser" where
  "hrStartTagInBody t p =
     acknowledge (frameset_not_ok (appendElement t NS_HTML (close_p_in_button_scope p)))"

definition rbStartTagInBody :: "tag \<Rightarrow> parser \<Rightarrow> parser" where
  "rbStartTagInBody t p =
     insertElement t NS_HTML (if hasInScope (heap p) T_RUBY (openElements p)
                              then popping generateImpliedEndTags p else p)"

definition rtStartTagInBody :: "tag \<Rightarrow> parser \<Rightarrow> parser" where
  "rtStartTagInBody t p =
     insertElement t NS_HTML (if hasInScope (heap p) T_RUBY (openElements p)
                              then popping (\<lambda>h. generateImpliedEndTagsWithExclusion h T_RTC) p else p)"

definition preStartTagInBody :: "tag \<Rightarrow> parser \<Rightarrow> parser" where
  "preStartTagInBody t p =
     frameset_not_ok ((insertElement t NS_HTML (close_p_in_button_scope p))\<lparr>skip_newline := True\<rparr>)"

definition xmpStartTagInBody :: "tag \<Rightarrow> parser \<Rightarrow> parser" where
  "xmpStartTagInBody t p =
     switchToTextParsing t Mode_RAWTEXT (frameset_not_ok
       (reconstructActiveFormattingElements (close_p_in_button_scope p)))"

definition insert_foreign :: "tag \<Rightarrow> namespace \<Rightarrow> parser \<Rightarrow> parser" where
  "insert_foreign t ns p =
     acknowledge (if t_selfClosing t then appendElement t ns p else insertElement t ns p)"

definition svgStartTagInBody :: "tag \<Rightarrow> parser \<Rightarrow> parser" where
  "svgStartTagInBody t p =
     insert_foreign (t\<lparr>t_attrs := adjustTokenXMLAttrs (adjustTokenSVGAttrs (t_attrs t))\<rparr>) NS_SVG
       (reconstructActiveFormattingElements p)"

definition mathStartTagInBody :: "tag \<Rightarrow> parser \<Rightarrow> parser" where
  "mathStartTagInBody t p =
     insert_foreign (t\<lparr>t_attrs := adjustTokenXMLAttrs (adjustTokenMathMLAttrs (t_attrs t))\<rparr>) NS_MATHML
       (reconstructActiveFormattingElements p)"

definition bodyStartTagInBody :: "tag \<Rightarrow> parser \<Rightarrow> parser" where
  "bodyStartTagInBody t p =
     (case tryPeekProperlyNestedBodyElement (openElements p) of
        Some b \<Rightarrow> if tmplCount (openElements p) = 0
                  then on_heap (adoptAttributes b (t_attrs t)) (frameset_not_ok p) else p
      | None \<Rightarrow> p)"

definition formStartTagInBody :: "tag \<Rightarrow> parser \<Rightarrow> parser" where
  "formStartTagInBody t p =
     (let inTemplate = tmplCount (openElements p) > 0 in
      if formElement p = None \<or> inTemplate
      then (let p1 = insertElement t NS_HTML (close_p_in_button_scope p)
            in if inTemplate then p1 else p1\<lparr>formElement := current (openElements p1)\<rparr>)
      else p)"

definition nobrStartTagInBody :: "tag \<Rightarrow> parser \<Rightarrow> parser" where
  "nobrStartTagInBody t p =
     (let p1 = reconstructActiveFormattingElements p;
          p2 = (if hasInScope (heap p1) T_NOBR (openElements p1)
                then reconstructActiveFormattingElements (callAdoptionAgency t p1) else p1)
      in push_formatting t (insertElement t NS_HTML p2))"

definition tableStartTagInBody :: "tag \<Rightarrow> parser \<Rightarrow> parser" where
  "tableStartTagInBody t p =
     (let p1 = (if getDocMode (heap p) (document p) \<noteq> Some QUIRKS then close_p_in_button_scope p else p)
      in set_mode IN_TABLE (frameset_not_ok (insertElement t NS_HTML p1)))"

definition inputStartTagInBody :: "tag \<Rightarrow> parser \<Rightarrow> parser" where
  "inputStartTagInBody t p =
     (let p1 = appendElement t NS_HTML (reconstructActiveFormattingElements p)
      in acknowledge (if isHiddenInput t p1 then p1 else frameset_not_ok p1))"

definition paramStartTagInBody :: "tag \<Rightarrow> parser \<Rightarrow> parser" where
  "paramStartTagInBody t p = acknowledge (appendElement t NS_HTML p)"

definition imageStartTagInBody :: "tag \<Rightarrow> parser \<Rightarrow> parser" where
  "imageStartTagInBody t p = areaStartTagInBody (t\<lparr>t_name := js ''img'', t_id := T_IMG\<rparr>) p"

definition buttonStartTagInBody :: "tag \<Rightarrow> parser \<Rightarrow> parser" where
  "buttonStartTagInBody t p =
     (let p1 = (if hasInScope (heap p) T_BUTTON (openElements p)
                then popping (\<lambda>h. popUntilTagNamePopped h T_BUTTON) (popping generateImpliedEndTags p) else p)
      in frameset_not_ok (insertElement t NS_HTML (reconstructActiveFormattingElements p1)))"

definition appletStartTagInBody :: "tag \<Rightarrow> parser \<Rightarrow> parser" where
  "appletStartTagInBody t p =
     frameset_not_ok (on_formatting insertMarker (insertElement t NS_HTML (reconstructActiveFormattingElements p)))"

definition iframeStartTagInBody :: "tag \<Rightarrow> parser \<Rightarrow> parser" where
  "iframeStartTagInBody t p = switchToTextParsing t Mode_RAWTEXT (frameset_not_ok p)"

definition selectStartTagInBody :: "tag \<Rightarrow> parser \<Rightarrow> parser" where
  "selectStartTagInBody t p =
     (let p1 = frameset_not_ok (insertElement t NS_HTML (reconstructActiveFormattingElements p))
      in set_mode (if insertionMode p1 \<in> {IN_TABLE, IN_CAPTION, IN_TABLE_BODY, IN_ROW, IN_CELL}
                   then IN_SELECT_IN_TABLE else IN_SELECT) p1)"

definition optgroupStartTagInBody :: "tag \<Rightarrow> parser \<Rightarrow> parser" where
  "optgroupStartTagInBody t p =
     insertElement t NS_HTML (reconstructActiveFormattingElements (if is_current T_OPTION p then p_pop p else p))"

definition framesetStartTagInBody :: "tag \<Rightarrow> parser \<Rightarrow> parser" where
  "framesetStartTagInBody t p =
     (case tryPeekProperlyNestedBodyElement (openElements p) of
        Some b \<Rightarrow> if framesetOk p
                  then set_mode IN_FRAMESET (insertElement t NS_HTML
                         (popping popAllUpToHtmlElement (on_heap (detachNode b) p)))
                  else p
      | None \<Rightarrow> p)"

definition textareaStartTagInBody :: "tag \<Rightarrow> parser \<Rightarrow> parser" where
  "textareaStartTagInBody t p =
     (let p1 = set_tokenizer Mode_RCDATA ((insertElement t NS_HTML p)\<lparr>skip_newline := True\<rparr>)
      in set_mode TEXT (frameset_not_ok (p1\<lparr>originalInsertionMode := insertionMode p1\<rparr>)))"

definition plaintextStartTagInBody :: "tag \<Rightarrow> parser \<Rightarrow> parser" where
  "plaintextStartTagInBody t p =
     set_tokenizer Mode_PLAINTEXT (insertElement t NS_HTML (close_p_in_button_scope p))"

definition startTagInBody :: "processor \<Rightarrow> tag \<Rightarrow> parser \<Rightarrow> parser" where
  "startTagInBody proc t p =
     (let g = t_id t in
      if g \<in> set [T_I, T_S, T_B, T_U, T_EM, T_TT, T_BIG, T_CODE, T_FONT, T_SMALL, T_STRIKE, T_STRONG]
      then bStartTagInBody t p
      else if g = T_A then aStartTagInBody t p
      else if g \<in> set [T_H1, T_H2, T_H3, T_H4, T_H5, T_H6] then numberedHeaderStartTagInBody t p
      else if g \<in> set [T_P, T_DL, T_OL, T_UL, T_DIV, T_DIR, T_NAV, T_MAIN, T_MENU, T_ASIDE, T_CENTER,
          T_FIGURE, T_FOOTER, T_HEADER, T_HGROUP, T_DIALOG, T_DETAILS, T_ADDRESS, T_ARTICLE, T_SECTION,
          T_SUMMARY, T_FIELDSET, T_BLOCKQUOTE, T_FIGCAPTION]
      then addressStartTagInBody t p
      else if g \<in> set [T_LI, T_DD, T_DT] then listItemStartTagInBody t p
      else if g \<in> set [T_BR, T_IMG, T_WBR, T_AREA, T_EMBED, T_KEYGEN] then areaStartTagInBody t p
      else if g = T_HR then hrStartTagInBody t p
      else if g = T_RB \<or> g = T_RTC then rbStartTagInBody t p
      else if g = T_RT \<or> g = T_RP then rtStartTagInBody t p
      else if g = T_PRE \<or> g = T_LISTING then preStartTagInBody t p
      else if g = T_XMP then xmpStartTagInBody t p
      else if g = T_SVG then svgStartTagInBody t p
      else if g = T_HTML then htmlStartTagInBody t p
      else if g \<in> set [T_BASE, T_LINK, T_META, T_STYLE, T_TITLE, T_SCRIPT, T_BGSOUND, T_BASEFONT, T_TEMPLATE]
      then startTagInHead proc t p
      else if g = T_BODY then bodyStartTagInBody t p
      else if g = T_FORM then formStartTagInBody t p
      else if g = T_NOBR then nobrStartTagInBody t p
      else if g = T_MATH then mathStartTagInBody t p
      else if g = T_TABLE then tableStartTagInBody t p
      else if g = T_INPUT then inputStartTagInBody t p
      else if g \<in> set [T_PARAM, T_TRACK, T_SOURCE] then paramStartTagInBody t p
      else if g = T_IMAGE then imageStartTagInBody t p
      else if g = T_BUTTON then buttonStartTagInBody t p
      else if g \<in> set [T_APPLET, T_OBJECT, T_MARQUEE] then appletStartTagInBody t p
      else if g = T_IFRAME then iframeStartTagInBody t p
      else if g = T_SELECT then selectStartTagInBody t p
      else if g = T_OPTION \<or> g = T_OPTGROUP then optgroupStartTagInBody t p
      else if g = T_NOEMBED then rawTextStartTagInBody t p
      else if g = T_FRAMESET then framesetStartTagInBody t p
      else if g = T_TEXTAREA then textareaStartTagInBody t p
      else if g = T_NOSCRIPT
      then (if scriptingEnabled p then rawTextStartTagInBody t p else genericStartTagInBody t p)
      else if g = T_PLAINTEXT then plaintextStartTagInBody t p
      else if g \<in> set [T_COL, T_TH, T_TD, T_TR, T_HEAD, T_FRAME, T_TBODY, T_TFOOT, T_THEAD, T_CAPTION, T_COLGROUP]
      then p
      else genericStartTagInBody t p)"

section \<open>End tags in the body\<close>

definition pop_tag_in_scope :: "nat \<Rightarrow> parser \<Rightarrow> parser" where
  "pop_tag_in_scope n p =
     (if hasInScope (heap p) n (openElements p)
      then popping (\<lambda>h. popUntilTagNamePopped h n) (popping generateImpliedEndTags p) else p)"

definition pEndTagInBody :: "parser \<Rightarrow> parser" where
  "pEndTagInBody p =
     closePElement (if hasInButtonScope (heap p) T_P (openElements p) then p else insertFakeElement ''p'' T_P p)"

definition liEndTagInBody :: "parser \<Rightarrow> parser" where
  "liEndTagInBody p =
     (if hasInListItemScope (heap p) T_LI (openElements p)
      then popping (\<lambda>h. popUntilTagNamePopped h T_LI) (popping (\<lambda>h. generateImpliedEndTagsWithExclusion h T_LI) p)
      else p)"

definition ddEndTagInBody :: "nat \<Rightarrow> parser \<Rightarrow> parser" where
  "ddEndTagInBody n p =
     (if hasInScope (heap p) n (openElements p)
      then popping (\<lambda>h. popUntilTagNamePopped h n) (popping (\<lambda>h. generateImpliedEndTagsWithExclusion h n) p)
      else p)"

definition numberedHeaderEndTagInBody :: "parser \<Rightarrow> parser" where
  "numberedHeaderEndTagInBody p =
     (if hasNumberedHeaderInScope (heap p) (openElements p)
      then popping popUntilNumberedHeaderPopped (popping generateImpliedEndTags p) else p)"

definition brEndTagInBody :: "parser \<Rightarrow> parser" where
  "brEndTagInBody p =
     frameset_not_ok (p_pop (insertFakeElement ''br'' T_BR (reconstructActiveFormattingElements p)))"

definition bodyEndTagInBody :: "parser \<Rightarrow> parser" where
  "bodyEndTagInBody p = (if hasInScope (heap p) T_BODY (openElements p) then set_mode AFTER_BODY p else p)"

text \<open>The first branch of \<open>db\<close>: an end tag \<open>html\<close> after the body.\<close>

definition htmlEndTagAfterBody :: "parser \<Rightarrow> parser" where
  "htmlEndTagAfterBody p = (if fragmentContext p = None then set_mode AFTER_AFTER_BODY p else p)"

definition htmlEndTagInBody :: "parser \<Rightarrow> parser" where
  "htmlEndTagInBody p =
     (if hasInScope (heap p) T_BODY (openElements p) then htmlEndTagAfterBody (set_mode AFTER_BODY p) else p)"

definition formEndTagInBody :: "parser \<Rightarrow> parser" where
  "formEndTagInBody p =
     (let inTemplate = tmplCount (openElements p) > 0; fe = formElement p;
          p1 = (if inTemplate then p else p\<lparr>formElement := None\<rparr>) in
      if (fe \<noteq> None \<or> inTemplate) \<and> hasInScope (heap p1) T_FORM (openElements p1)
      then (let p2 = popping generateImpliedEndTags p1
            in if inTemplate then popping (\<lambda>h. popUntilTagNamePopped h T_FORM) p2
               else case fe of Some e \<Rightarrow> p_remove e p2 | None \<Rightarrow> p2)
      else p1)"

definition appletEndTagInBody :: "nat \<Rightarrow> parser \<Rightarrow> parser" where
  "appletEndTagInBody n p =
     (if hasInScope (heap p) n (openElements p)
      then on_formatting clearToLastMarker (pop_tag_in_scope n p) else p)"

definition endTagInBody :: "tag \<Rightarrow> parser \<Rightarrow> parser" where
  "endTagInBody t p =
     (let g = t_id t in
      if g \<in> set [T_A, T_B, T_I, T_S, T_U, T_EM, T_TT, T_BIG, T_CODE, T_FONT, T_NOBR, T_SMALL, T_STRIKE, T_STRONG]
      then callAdoptionAgency t p
      else if g = T_P then pEndTagInBody p
      else if g \<in> set [T_DL, T_UL, T_OL, T_DIR, T_DIV, T_NAV, T_PRE, T_MAIN, T_MENU, T_ASIDE, T_BUTTON,
          T_CENTER, T_FIGURE, T_FOOTER, T_HEADER, T_HGROUP, T_DIALOG, T_ADDRESS, T_ARTICLE, T_DETAILS,
          T_SECTION, T_SUMMARY, T_LISTING, T_FIELDSET, T_BLOCKQUOTE, T_FIGCAPTION]
      then pop_tag_in_scope g p
      else if g = T_LI then liEndTagInBody p
      else if g = T_DD \<or> g = T_DT then ddEndTagInBody g p
      else if g \<in> set [T_H1, T_H2, T_H3, T_H4, T_H5, T_H6] then numberedHeaderEndTagInBody p
      else if g = T_BR then brEndTagInBody p
      else if g = T_BODY then bodyEndTagInBody p
      else if g = T_HTML then htmlEndTagInBody p
      else if g = T_FORM then formEndTagInBody p
      else if g \<in> set [T_APPLET, T_OBJECT, T_MARQUEE] then appletEndTagInBody g p
      else if g = T_TEMPLATE then templateEndTagInHead p
      else genericEndTagInBody t p)"

section \<open>Any token in the body\<close>

definition eofInTemplate :: "processor \<Rightarrow> parser \<Rightarrow> parser" where
  "eofInTemplate proc p =
     (if tmplCount (openElements p) > 0
      then (let p1 = on_formatting clearToLastMarker (popping (\<lambda>h. popUntilTagNamePopped h T_TEMPLATE) p)
            in proc PEof (resetInsertionMode (p1\<lparr>tmplInsertionModeStack := tl (tmplInsertionModeStack p1)\<rparr>)))
      else stopParsing p)"

definition eofInBody :: "processor \<Rightarrow> parser \<Rightarrow> parser" where
  "eofInBody proc p = (if tmplInsertionModeStack p \<noteq> [] then eofInTemplate proc p else stopParsing p)"

definition modeInBody :: "processor \<Rightarrow> ptoken \<Rightarrow> parser \<Rightarrow> parser" where
  "modeInBody proc tok p = (case tok of
     PCharacter s \<Rightarrow> characterInBody s p
   | PWhitespace s \<Rightarrow> whitespaceCharacterInBody s p
   | PComment s \<Rightarrow> appendComment s p
   | PStartTag t \<Rightarrow> startTagInBody proc t p
   | PEndTag t \<Rightarrow> endTagInBody t p
   | PEof \<Rightarrow> eofInBody proc p
   | PNullCharacter _ \<Rightarrow> p
   | PDoctype _ \<Rightarrow> p)"

definition tokenAfterHead :: "processor \<Rightarrow> ptoken \<Rightarrow> parser \<Rightarrow> parser" where
  "tokenAfterHead proc tok p = modeInBody proc tok (set_mode IN_BODY (insertFakeElement ''body'' T_BODY p))"

definition tokenAfterBody :: "processor \<Rightarrow> ptoken \<Rightarrow> parser \<Rightarrow> parser" where
  "tokenAfterBody proc tok p = modeInBody proc tok (set_mode IN_BODY p)"

definition tokenAfterAfterBody :: "processor \<Rightarrow> ptoken \<Rightarrow> parser \<Rightarrow> parser" where
  "tokenAfterAfterBody proc tok p = modeInBody proc tok (set_mode IN_BODY p)"

definition endTagAfterBody :: "processor \<Rightarrow> tag \<Rightarrow> parser \<Rightarrow> parser" where
  "endTagAfterBody proc t p =
     (if t_id t = T_HTML then htmlEndTagAfterBody p else tokenAfterBody proc (PEndTag t) p)"

end
