(* ===== verification/Html_Tree_Builder.thy ===== *)
theory Html_Tree_Builder
  imports Html_Body_Modes Html_Tokenizer
begin

text \<open>
  Tree construction in tables, selects, templates and framesets, foreign content, the dispatch of
  tokens over the insertion modes, and the entry points \<open>parse\<close> and \<open>parseFragment\<close>: the functions
  \<open>Wv\<close> to \<open>gb\<close> and the handlers of class \<open>yv\<close> of \<^verbatim>\<open>src/api/scalar.standalone.js\<close>.
\<close>

section \<open>Tables\<close>

definition tokenInTable :: "processor \<Rightarrow> ptoken \<Rightarrow> parser \<Rightarrow> parser" where
  "tokenInTable proc tok p =
     (let saved = fosterParentingEnabled p
      in (modeInBody proc tok (p\<lparr>fosterParentingEnabled := True\<rparr>))\<lparr>fosterParentingEnabled := saved\<rparr>)"

definition whitespaceCharacterInTableText :: "ptoken \<Rightarrow> parser \<Rightarrow> parser" where
  "whitespaceCharacterInTableText tok p = p\<lparr>pendingCharacterTokens := pendingCharacterTokens p @ [tok]\<rparr>"

definition characterInTableText :: "ptoken \<Rightarrow> parser \<Rightarrow> parser" where
  "characterInTableText tok p =
     p\<lparr>pendingCharacterTokens := pendingCharacterTokens p @ [tok],
       hasNonWhitespacePendingCharacterToken := True\<rparr>"

definition characterInTable :: "processor \<Rightarrow> ptoken \<Rightarrow> parser \<Rightarrow> parser" where
  "characterInTable proc tok p =
     (if (case currentTagId (openElements p) of Some t \<Rightarrow> t \<in> set table_structure_tags | None \<Rightarrow> False)
      then (let p1 = p\<lparr>pendingCharacterTokens := [], hasNonWhitespacePendingCharacterToken := False,
                       originalInsertionMode := insertionMode p, insertionMode := IN_TABLE_TEXT\<rparr>
            in case tok of
                 PCharacter _ \<Rightarrow> characterInTableText tok p1
               | PWhitespace _ \<Rightarrow> whitespaceCharacterInTableText tok p1
               | _ \<Rightarrow> p1)
      else tokenInTable proc tok p)"

fun token_chars :: "ptoken \<Rightarrow> jsstr" where
  "token_chars (PCharacter s) = s"
| "token_chars (PNullCharacter s) = s"
| "token_chars (PWhitespace s) = s"
| "token_chars _ = []"

definition tokenInTableText :: "processor \<Rightarrow> ptoken \<Rightarrow> parser \<Rightarrow> parser" where
  "tokenInTableText proc tok p =
     (let ts = pendingCharacterTokens p;
          p1 = (if hasNonWhitespacePendingCharacterToken p then fold (tokenInTable proc) ts p
                else fold (\<lambda>x. insertCharacters (token_chars x)) ts p)
      in proc tok (set_mode (originalInsertionMode p1) p1))"

text \<open>
  \<open>ob\<close> and \<open>ib\<close> for the start tags of rows and cells, which \<open>Xv\<close> reaches again after it has inserted
  what the table lacks.
\<close>

definition cellStartTagInRow :: "tag \<Rightarrow> parser \<Rightarrow> parser" where
  "cellStartTagInRow t p =
     on_formatting insertMarker (set_mode IN_CELL (insertElement t NS_HTML (popping clearBackToTableRowContext p)))"

definition rowStartTagInTableBody :: "tag \<Rightarrow> parser \<Rightarrow> parser" where
  "rowStartTagInTableBody t p =
     set_mode IN_ROW (insertElement t NS_HTML (popping clearBackToTableBodyContext p))"

definition cellStartTagInTableBody :: "tag \<Rightarrow> parser \<Rightarrow> parser" where
  "cellStartTagInTableBody t p =
     cellStartTagInRow t (set_mode IN_ROW (insertFakeElement ''tr'' T_TR (popping clearBackToTableBodyContext p)))"

definition tokenInColumnGroup :: "processor \<Rightarrow> ptoken \<Rightarrow> parser \<Rightarrow> parser" where
  "tokenInColumnGroup proc tok p =
     (if is_current T_COLGROUP p then proc tok (set_mode IN_TABLE (p_pop p)) else p)"

definition startTagInColumnGroup :: "processor \<Rightarrow> tag \<Rightarrow> parser \<Rightarrow> parser" where
  "startTagInColumnGroup proc t p =
     (if t_id t = T_HTML then startTagInBody proc t p
      else if t_id t = T_COL then acknowledge (appendElement t NS_HTML p)
      else if t_id t = T_TEMPLATE then startTagInHead proc t p
      else tokenInColumnGroup proc (PStartTag t) p)"

definition tdStartTagInTable :: "tag \<Rightarrow> parser \<Rightarrow> parser" where
  "tdStartTagInTable t p =
     (let p1 = set_mode IN_TABLE_BODY (insertFakeElement ''tbody'' T_TBODY (popping clearBackToTableContext p))
      in if t_id t = T_TR then rowStartTagInTableBody t p1 else cellStartTagInTableBody t p1)"

definition colStartTagInTable :: "processor \<Rightarrow> tag \<Rightarrow> parser \<Rightarrow> parser" where
  "colStartTagInTable proc t p =
     startTagInColumnGroup proc t (set_mode IN_COLUMN_GROUP
       (insertFakeElement ''colgroup'' T_COLGROUP (popping clearBackToTableContext p)))"

definition formStartTagInTable :: "tag \<Rightarrow> parser \<Rightarrow> parser" where
  "formStartTagInTable t p =
     (if formElement p = None \<and> tmplCount (openElements p) = 0
      then (let p1 = insertElement t NS_HTML p in p_pop (p1\<lparr>formElement := current (openElements p1)\<rparr>))
      else p)"

definition tableStartTagInTable :: "processor \<Rightarrow> tag \<Rightarrow> parser \<Rightarrow> parser" where
  "tableStartTagInTable proc t p =
     (if hasInTableScope (heap p) T_TABLE (openElements p)
      then proc (PStartTag t) (resetInsertionMode (popping (\<lambda>h. popUntilTagNamePopped h T_TABLE) p)) else p)"

definition startTagInTable :: "processor \<Rightarrow> tag \<Rightarrow> parser \<Rightarrow> parser" where
  "startTagInTable proc t p =
     (let g = t_id t in
      if g \<in> set [T_TD, T_TH, T_TR] then tdStartTagInTable t p
      else if g \<in> set [T_STYLE, T_SCRIPT, T_TEMPLATE] then startTagInHead proc t p
      else if g = T_COL then colStartTagInTable proc t p
      else if g = T_FORM then formStartTagInTable t p
      else if g = T_TABLE then tableStartTagInTable proc t p
      else if g \<in> set [T_TBODY, T_TFOOT, T_THEAD]
      then set_mode IN_TABLE_BODY (insertElement t NS_HTML (popping clearBackToTableContext p))
      else if g = T_INPUT
      then acknowledge (if isHiddenInput t p then appendElement t NS_HTML p else tokenInTable proc (PStartTag t) p)
      else if g = T_CAPTION
      then set_mode IN_CAPTION (insertElement t NS_HTML (on_formatting insertMarker (popping clearBackToTableContext p)))
      else if g = T_COLGROUP
      then set_mode IN_COLUMN_GROUP (insertElement t NS_HTML (popping clearBackToTableContext p))
      else tokenInTable proc (PStartTag t) p)"

definition endTagInTable :: "processor \<Rightarrow> tag \<Rightarrow> parser \<Rightarrow> parser" where
  "endTagInTable proc t p =
     (let g = t_id t in
      if g = T_TABLE
      then (if hasInTableScope (heap p) T_TABLE (openElements p)
            then resetInsertionMode (popping (\<lambda>h. popUntilTagNamePopped h T_TABLE) p) else p)
      else if g = T_TEMPLATE then templateEndTagInHead p
      else if g \<in> set [T_BODY, T_CAPTION, T_COL, T_COLGROUP, T_HTML, T_TBODY, T_TD, T_TFOOT, T_TH, T_THEAD, T_TR]
      then p
      else tokenInTable proc (PEndTag t) p)"

definition startTagInTableBody :: "processor \<Rightarrow> tag \<Rightarrow> parser \<Rightarrow> parser" where
  "startTagInTableBody proc t p =
     (let g = t_id t in
      if g = T_TR then rowStartTagInTableBody t p
      else if g = T_TH \<or> g = T_TD then cellStartTagInTableBody t p
      else if g \<in> set [T_CAPTION, T_COL, T_COLGROUP, T_TBODY, T_TFOOT, T_THEAD]
      then (if hasTableBodyContextInTableScope (heap p) (openElements p)
            then startTagInTable proc t (set_mode IN_TABLE (p_pop (popping clearBackToTableBodyContext p))) else p)
      else startTagInTable proc t p)"

definition endTagInTableBody :: "processor \<Rightarrow> tag \<Rightarrow> parser \<Rightarrow> parser" where
  "endTagInTableBody proc t p =
     (let g = t_id t in
      if g \<in> set [T_TBODY, T_TFOOT, T_THEAD]
      then (if hasInTableScope (heap p) g (openElements p)
            then set_mode IN_TABLE (p_pop (popping clearBackToTableBodyContext p)) else p)
      else if g = T_TABLE
      then (if hasTableBodyContextInTableScope (heap p) (openElements p)
            then endTagInTable proc t (set_mode IN_TABLE (p_pop (popping clearBackToTableBodyContext p))) else p)
      else if g \<in> set [T_BODY, T_CAPTION, T_COL, T_COLGROUP, T_HTML, T_TD, T_TH, T_TR] then p
      else endTagInTable proc t p)"

definition startTagInRow :: "processor \<Rightarrow> tag \<Rightarrow> parser \<Rightarrow> parser" where
  "startTagInRow proc t p =
     (let g = t_id t in
      if g = T_TH \<or> g = T_TD then cellStartTagInRow t p
      else if g \<in> set [T_CAPTION, T_COL, T_COLGROUP, T_TBODY, T_TFOOT, T_THEAD, T_TR]
      then (if hasInTableScope (heap p) T_TR (openElements p)
            then startTagInTableBody proc t (set_mode IN_TABLE_BODY (p_pop (popping clearBackToTableRowContext p)))
            else p)
      else startTagInTable proc t p)"

definition endTagInRow :: "processor \<Rightarrow> tag \<Rightarrow> parser \<Rightarrow> parser" where
  "endTagInRow proc t p =
     (let g = t_id t; close = (\<lambda>p. set_mode IN_TABLE_BODY (p_pop (popping clearBackToTableRowContext p))) in
      if g = T_TR then (if hasInTableScope (heap p) T_TR (openElements p) then close p else p)
      else if g = T_TABLE
      then (if hasInTableScope (heap p) T_TR (openElements p) then endTagInTableBody proc t (close p) else p)
      else if g \<in> set [T_TBODY, T_TFOOT, T_THEAD]
      then (if hasInTableScope (heap p) g (openElements p) \<or> hasInTableScope (heap p) T_TR (openElements p)
            then endTagInTableBody proc t (close p) else p)
      else if g \<in> set [T_BODY, T_CAPTION, T_COL, T_COLGROUP, T_HTML, T_TD, T_TH] then p
      else endTagInTable proc t p)"

definition close_caption :: "parser \<Rightarrow> parser" where
  "close_caption p =
     set_mode IN_TABLE (on_formatting clearToLastMarker
       (popping (\<lambda>h. popUntilTagNamePopped h T_CAPTION) (popping generateImpliedEndTags p)))"

definition startTagInCaption :: "processor \<Rightarrow> tag \<Rightarrow> parser \<Rightarrow> parser" where
  "startTagInCaption proc t p =
     (if t_id t \<in> set table_part_tags
      then (if hasInTableScope (heap p) T_CAPTION (openElements p)
            then startTagInTable proc t (close_caption p) else p)
      else startTagInBody proc t p)"

definition endTagInCaption :: "processor \<Rightarrow> tag \<Rightarrow> parser \<Rightarrow> parser" where
  "endTagInCaption proc t p =
     (let g = t_id t in
      if g = T_CAPTION \<or> g = T_TABLE
      then (if hasInTableScope (heap p) T_CAPTION (openElements p)
            then (let p1 = close_caption p in if g = T_TABLE then endTagInTable proc t p1 else p1) else p)
      else if g \<in> set [T_BODY, T_COL, T_COLGROUP, T_HTML, T_TBODY, T_TD, T_TFOOT, T_TH, T_THEAD, T_TR] then p
      else endTagInBody t p)"

definition endTagInColumnGroup :: "processor \<Rightarrow> tag \<Rightarrow> parser \<Rightarrow> parser" where
  "endTagInColumnGroup proc t p =
     (let g = t_id t in
      if g = T_COLGROUP then (if is_current T_COLGROUP p then set_mode IN_TABLE (p_pop p) else p)
      else if g = T_TEMPLATE then templateEndTagInHead p
      else if g = T_COL then p
      else tokenInColumnGroup proc (PEndTag t) p)"

definition startTagInCell :: "processor \<Rightarrow> tag \<Rightarrow> parser \<Rightarrow> parser" where
  "startTagInCell proc t p =
     (if t_id t \<in> set table_part_tags
      then (if hasInTableScope (heap p) T_TD (openElements p) \<or> hasInTableScope (heap p) T_TH (openElements p)
            then startTagInRow proc t (closeTableCell p) else p)
      else startTagInBody proc t p)"

definition endTagInCell :: "processor \<Rightarrow> tag \<Rightarrow> parser \<Rightarrow> parser" where
  "endTagInCell proc t p =
     (let g = t_id t in
      if g = T_TD \<or> g = T_TH
      then (if hasInTableScope (heap p) g (openElements p)
            then set_mode IN_ROW (on_formatting clearToLastMarker
                   (popping (\<lambda>h. popUntilTagNamePopped h g) (popping generateImpliedEndTags p))) else p)
      else if g \<in> set [T_TABLE, T_TBODY, T_TFOOT, T_THEAD, T_TR]
      then (if hasInTableScope (heap p) g (openElements p) then endTagInRow proc t (closeTableCell p) else p)
      else if g \<in> set [T_BODY, T_CAPTION, T_COL, T_COLGROUP, T_HTML] then p
      else endTagInBody t p)"

section \<open>Selects\<close>

definition pop_if_current :: "nat \<Rightarrow> parser \<Rightarrow> parser" where
  "pop_if_current t p = (if is_current t p then p_pop p else p)"

definition startTagInSelect :: "processor \<Rightarrow> tag \<Rightarrow> parser \<Rightarrow> parser" where
  "startTagInSelect proc t p =
     (let g = t_id t in
      if g = T_HTML then startTagInBody proc t p
      else if g = T_OPTION then insertElement t NS_HTML (pop_if_current T_OPTION p)
      else if g = T_OPTGROUP
      then insertElement t NS_HTML (pop_if_current T_OPTGROUP (pop_if_current T_OPTION p))
      else if g \<in> set [T_INPUT, T_KEYGEN, T_TEXTAREA, T_SELECT]
      then (if hasInSelectScope (heap p) T_SELECT (openElements p)
            then (let p1 = resetInsertionMode (popping (\<lambda>h. popUntilTagNamePopped h T_SELECT) p)
                  in if g \<noteq> T_SELECT then proc (PStartTag t) p1 else p1) else p)
      else if g = T_SCRIPT \<or> g = T_TEMPLATE then startTagInHead proc t p
      else p)"

definition endTagInSelect :: "tag \<Rightarrow> parser \<Rightarrow> parser" where
  "endTagInSelect t p =
     (let g = t_id t; s = openElements p in
      if g = T_OPTGROUP
      then pop_if_current T_OPTGROUP
             (if stackTop s > 0 \<and> is_current T_OPTION p \<and>
                 array_get (tagIDs s) (stackTop s - 1) = Some T_OPTGROUP then p_pop p else p)
      else if g = T_OPTION then pop_if_current T_OPTION p
      else if g = T_SELECT
      then (if hasInSelectScope (heap p) T_SELECT s
            then resetInsertionMode (popping (\<lambda>h. popUntilTagNamePopped h T_SELECT) p) else p)
      else if g = T_TEMPLATE then templateEndTagInHead p
      else p)"

definition select_breaking_tags :: "nat list" where
  "select_breaking_tags = [T_CAPTION, T_TABLE, T_TBODY, T_TFOOT, T_THEAD, T_TR, T_TD, T_TH]"

definition startTagInSelectInTable :: "processor \<Rightarrow> tag \<Rightarrow> parser \<Rightarrow> parser" where
  "startTagInSelectInTable proc t p =
     (if t_id t \<in> set select_breaking_tags
      then proc (PStartTag t) (resetInsertionMode (popping (\<lambda>h. popUntilTagNamePopped h T_SELECT) p))
      else startTagInSelect proc t p)"

definition endTagInSelectInTable :: "processor \<Rightarrow> tag \<Rightarrow> parser \<Rightarrow> parser" where
  "endTagInSelectInTable proc t p =
     (if t_id t \<in> set select_breaking_tags
      then (if hasInTableScope (heap p) (t_id t) (openElements p)
            then proc (PEndTag t) (resetInsertionMode (popping (\<lambda>h. popUntilTagNamePopped h T_SELECT) p)) else p)
      else endTagInSelect t p)"

section \<open>Templates and framesets\<close>

definition set_template_mode :: "insertion_mode \<Rightarrow> parser \<Rightarrow> parser" where
  "set_template_mode m p =
     p\<lparr>tmplInsertionModeStack := m # tl (tmplInsertionModeStack p), insertionMode := m\<rparr>"

definition startTagInTemplate :: "processor \<Rightarrow> tag \<Rightarrow> parser \<Rightarrow> parser" where
  "startTagInTemplate proc t p =
     (let g = t_id t in
      if g \<in> set [T_BASE, T_BASEFONT, T_BGSOUND, T_LINK, T_META, T_NOFRAMES, T_SCRIPT, T_STYLE, T_TEMPLATE, T_TITLE]
      then startTagInHead proc t p
      else if g \<in> set [T_CAPTION, T_COLGROUP, T_TBODY, T_TFOOT, T_THEAD]
      then startTagInTable proc t (set_template_mode IN_TABLE p)
      else if g = T_COL then startTagInColumnGroup proc t (set_template_mode IN_COLUMN_GROUP p)
      else if g = T_TR then startTagInTableBody proc t (set_template_mode IN_TABLE_BODY p)
      else if g = T_TD \<or> g = T_TH then startTagInRow proc t (set_template_mode IN_ROW p)
      else startTagInBody proc t (set_template_mode IN_BODY p))"

definition startTagInFrameset :: "processor \<Rightarrow> tag \<Rightarrow> parser \<Rightarrow> parser" where
  "startTagInFrameset proc t p =
     (if t_id t = T_HTML then startTagInBody proc t p
      else if t_id t = T_FRAMESET then insertElement t NS_HTML p
      else if t_id t = T_FRAME then acknowledge (appendElement t NS_HTML p)
      else if t_id t = T_NOFRAMES then startTagInHead proc t p
      else p)"

definition endTagInFrameset :: "tag \<Rightarrow> parser \<Rightarrow> parser" where
  "endTagInFrameset t p =
     (if t_id t = T_FRAMESET \<and> \<not> isRootHtmlElementCurrent (openElements p)
      then (let p1 = p_pop p
            in if fragmentContext p1 = None \<and> \<not> is_current T_FRAMESET p1 then set_mode AFTER_FRAMESET p1 else p1)
      else p)"

definition startTagAfterFrameset :: "processor \<Rightarrow> tag \<Rightarrow> parser \<Rightarrow> parser" where
  "startTagAfterFrameset proc t p =
     (if t_id t = T_HTML then startTagInBody proc t p
      else if t_id t = T_NOFRAMES then startTagInHead proc t p
      else p)"

section \<open>Head modes\<close>

definition startTagBeforeHtml :: "processor \<Rightarrow> tag \<Rightarrow> parser \<Rightarrow> parser" where
  "startTagBeforeHtml proc t p =
     (if t_id t = T_HTML then set_mode BEFORE_HEAD (insertElement t NS_HTML p)
      else tokenBeforeHtml proc (PStartTag t) p)"

definition startTagBeforeHead :: "processor \<Rightarrow> tag \<Rightarrow> parser \<Rightarrow> parser" where
  "startTagBeforeHead proc t p =
     (if t_id t = T_HTML then startTagInBody proc t p
      else if t_id t = T_HEAD
      then (let p1 = insertElement t NS_HTML p
            in set_mode IN_HEAD (p1\<lparr>headElement := current (openElements p1)\<rparr>))
      else tokenBeforeHead proc (PStartTag t) p)"

definition startTagInHeadNoScript :: "processor \<Rightarrow> tag \<Rightarrow> parser \<Rightarrow> parser" where
  "startTagInHeadNoScript proc t p =
     (let g = t_id t in
      if g = T_HTML then startTagInBody proc t p
      else if g \<in> set [T_BASEFONT, T_BGSOUND, T_HEAD, T_LINK, T_META, T_NOFRAMES, T_STYLE]
      then startTagInHead proc t p
      else if g = T_NOSCRIPT then p_err nestedNoscriptInHead p
      else tokenInHeadNoScript proc (PStartTag t) p)"

definition startTagAfterHead :: "processor \<Rightarrow> tag \<Rightarrow> parser \<Rightarrow> parser" where
  "startTagAfterHead proc t p =
     (let g = t_id t in
      if g = T_HTML then startTagInBody proc t p
      else if g = T_BODY then set_mode IN_BODY (frameset_not_ok (insertElement t NS_HTML p))
      else if g = T_FRAMESET then set_mode IN_FRAMESET (insertElement t NS_HTML p)
      else if g \<in> set [T_BASE, T_BASEFONT, T_BGSOUND, T_LINK, T_META, T_NOFRAMES, T_SCRIPT, T_STYLE, T_TEMPLATE, T_TITLE]
      then (case headElement p of
          Some he \<Rightarrow> p_remove he (startTagInHead proc t (p_push he T_HEAD (p_err abandonedHeadElementChild p)))
        | None \<Rightarrow> p_throw p)
      else if g = T_HEAD then p_err misplacedStartTagForHeadElement p
      else tokenAfterHead proc (PStartTag t) p)"

definition endTagInHead :: "processor \<Rightarrow> tag \<Rightarrow> parser \<Rightarrow> parser" where
  "endTagInHead proc t p =
     (if t_id t = T_HEAD then set_mode AFTER_HEAD (p_pop p)
      else if t_id t \<in> set [T_BODY, T_BR, T_HTML] then tokenInHead proc (PEndTag t) p
      else if t_id t = T_TEMPLATE then templateEndTagInHead p
      else p_err endTagWithoutMatchingOpenElement p)"

definition endTagInHeadNoScript :: "processor \<Rightarrow> tag \<Rightarrow> parser \<Rightarrow> parser" where
  "endTagInHeadNoScript proc t p =
     (if t_id t = T_NOSCRIPT then set_mode IN_HEAD (p_pop p)
      else if t_id t = T_BR then tokenInHeadNoScript proc (PEndTag t) p
      else p_err endTagWithoutMatchingOpenElement p)"

definition endTagAfterHead :: "processor \<Rightarrow> tag \<Rightarrow> parser \<Rightarrow> parser" where
  "endTagAfterHead proc t p =
     (if t_id t \<in> set [T_BODY, T_HTML, T_BR] then tokenAfterHead proc (PEndTag t) p
      else if t_id t = T_TEMPLATE then templateEndTagInHead p
      else p_err endTagWithoutMatchingOpenElement p)"

section \<open>Foreign content\<close>

text \<open>\<open>fb\<close>: pop until the current element is HTML or an integration point.\<close>

definition foreign_current :: "parser \<Rightarrow> open_elements \<Rightarrow> bool" where
  "foreign_current p s = (case current s of
     Some c \<Rightarrow> nodeNamespace p c \<noteq> Some NS_HTML \<and> \<not> p_isIntegrationPoint (currentTagId s) c None p
   | None \<Rightarrow> False)"

function pop_foreign :: "parser \<Rightarrow> open_elements \<Rightarrow> open_elements" where
  "pop_foreign p s =
     (if 0 \<le> stackTop s \<and> foreign_current p s then pop_foreign p (pop (heap p) s) else s)"
  by pat_completeness auto
termination
  by (relation "measure (\<lambda>(p, s). nat (stackTop s + 1))") (auto simp: pop_def updateCurrentElement_def Let_def)

declare pop_foreign.simps [simp del]

definition popUntilHtmlOrIntegrationPoint :: "parser \<Rightarrow> parser" where
  "popUntilHtmlOrIntegrationPoint p = popping (\<lambda>h. pop_foreign p) p"

definition causesExit :: "tag \<Rightarrow> bool" where
  "causesExit t \<longleftrightarrow>
     t_id t = T_FONT \<and> list_ex (\<lambda>a. a_name a \<in> {js ''color'', js ''size'', js ''face''}) (t_attrs t) \<or>
     t_id t \<in> set exits_foreign_content"

definition adjustTokenSVGTagName :: "tag \<Rightarrow> tag" where
  "adjustTokenSVGTagName t = (case map_of SVG_TAG_NAMES_ADJUSTMENT_MAP (t_name t) of
     Some n \<Rightarrow> t\<lparr>t_name := n, t_id := getTagID n\<rparr> | None \<Rightarrow> t)"

definition foreign_tag :: "namespace \<Rightarrow> tag \<Rightarrow> tag" where
  "foreign_tag ns t =
     (let t1 = (if ns = NS_MATHML then t\<lparr>t_attrs := adjustTokenMathMLAttrs (t_attrs t)\<rparr>
                else if ns = NS_SVG
                then (let t0 = adjustTokenSVGTagName t in t0\<lparr>t_attrs := adjustTokenSVGAttrs (t_attrs t0)\<rparr>)
                else t)
      in t1\<lparr>t_attrs := adjustTokenXMLAttrs (t_attrs t1)\<rparr>)"

section \<open>Dispatch\<close>

definition startTagOutsideForeignContent :: "processor \<Rightarrow> tag \<Rightarrow> parser \<Rightarrow> parser" where
  "startTagOutsideForeignContent proc t p = (case insertionMode p of
     INITIAL \<Rightarrow> tokenInInitialMode proc (PStartTag t) p
   | BEFORE_HTML \<Rightarrow> startTagBeforeHtml proc t p
   | BEFORE_HEAD \<Rightarrow> startTagBeforeHead proc t p
   | IN_HEAD \<Rightarrow> startTagInHead proc t p
   | IN_HEAD_NO_SCRIPT \<Rightarrow> startTagInHeadNoScript proc t p
   | AFTER_HEAD \<Rightarrow> startTagAfterHead proc t p
   | IN_BODY \<Rightarrow> startTagInBody proc t p
   | TEXT \<Rightarrow> p
   | IN_TABLE \<Rightarrow> startTagInTable proc t p
   | IN_TABLE_TEXT \<Rightarrow> tokenInTableText proc (PStartTag t) p
   | IN_CAPTION \<Rightarrow> startTagInCaption proc t p
   | IN_COLUMN_GROUP \<Rightarrow> startTagInColumnGroup proc t p
   | IN_TABLE_BODY \<Rightarrow> startTagInTableBody proc t p
   | IN_ROW \<Rightarrow> startTagInRow proc t p
   | IN_CELL \<Rightarrow> startTagInCell proc t p
   | IN_SELECT \<Rightarrow> startTagInSelect proc t p
   | IN_SELECT_IN_TABLE \<Rightarrow> startTagInSelectInTable proc t p
   | IN_TEMPLATE \<Rightarrow> startTagInTemplate proc t p
   | AFTER_BODY \<Rightarrow> if t_id t = T_HTML then startTagInBody proc t p else tokenAfterBody proc (PStartTag t) p
   | IN_FRAMESET \<Rightarrow> startTagInFrameset proc t p
   | AFTER_FRAMESET \<Rightarrow> startTagAfterFrameset proc t p
   | AFTER_AFTER_BODY \<Rightarrow>
       if t_id t = T_HTML then startTagInBody proc t p else tokenAfterAfterBody proc (PStartTag t) p
   | AFTER_AFTER_FRAMESET \<Rightarrow> startTagAfterFrameset proc t p)"

definition startTagInForeignContent :: "processor \<Rightarrow> tag \<Rightarrow> parser \<Rightarrow> parser" where
  "startTagInForeignContent proc t p =
     (if causesExit t then startTagOutsideForeignContent proc t (popUntilHtmlOrIntegrationPoint p)
      else case (case fst (adjusted_current p) of Some c \<Rightarrow> nodeNamespace p c | None \<Rightarrow> None) of
          Some ns \<Rightarrow> insert_foreign (foreign_tag ns t) ns p
        | None \<Rightarrow> p_throw p)"

definition processStartTag :: "processor \<Rightarrow> tag \<Rightarrow> parser \<Rightarrow> parser" where
  "processStartTag proc t p =
     (if shouldProcessStartTagTokenInForeignContent t p then startTagInForeignContent proc t p
      else startTagOutsideForeignContent proc t p)"

definition endTagOutsideForeignContent :: "processor \<Rightarrow> tag \<Rightarrow> parser \<Rightarrow> parser" where
  "endTagOutsideForeignContent proc t p = (case insertionMode p of
     INITIAL \<Rightarrow> tokenInInitialMode proc (PEndTag t) p
   | BEFORE_HTML \<Rightarrow> if t_id t \<in> set [T_HTML, T_HEAD, T_BODY, T_BR] then tokenBeforeHtml proc (PEndTag t) p else p
   | BEFORE_HEAD \<Rightarrow> if t_id t \<in> set [T_HEAD, T_BODY, T_HTML, T_BR] then tokenBeforeHead proc (PEndTag t) p
                    else p_err endTagWithoutMatchingOpenElement p
   | IN_HEAD \<Rightarrow> endTagInHead proc t p
   | IN_HEAD_NO_SCRIPT \<Rightarrow> endTagInHeadNoScript proc t p
   | AFTER_HEAD \<Rightarrow> endTagAfterHead proc t p
   | IN_BODY \<Rightarrow> endTagInBody t p
   | TEXT \<Rightarrow> (let p1 = p_pop p in set_mode (originalInsertionMode p1) p1)
   | IN_TABLE \<Rightarrow> endTagInTable proc t p
   | IN_TABLE_TEXT \<Rightarrow> tokenInTableText proc (PEndTag t) p
   | IN_CAPTION \<Rightarrow> endTagInCaption proc t p
   | IN_COLUMN_GROUP \<Rightarrow> endTagInColumnGroup proc t p
   | IN_TABLE_BODY \<Rightarrow> endTagInTableBody proc t p
   | IN_ROW \<Rightarrow> endTagInRow proc t p
   | IN_CELL \<Rightarrow> endTagInCell proc t p
   | IN_SELECT \<Rightarrow> endTagInSelect t p
   | IN_SELECT_IN_TABLE \<Rightarrow> endTagInSelectInTable proc t p
   | IN_TEMPLATE \<Rightarrow> if t_id t = T_TEMPLATE then templateEndTagInHead p else p
   | AFTER_BODY \<Rightarrow> endTagAfterBody proc t p
   | IN_FRAMESET \<Rightarrow> endTagInFrameset t p
   | AFTER_FRAMESET \<Rightarrow> if t_id t = T_HTML then set_mode AFTER_AFTER_FRAMESET p else p
   | AFTER_AFTER_BODY \<Rightarrow> tokenAfterAfterBody proc (PEndTag t) p
   | AFTER_AFTER_FRAMESET \<Rightarrow> p)"

primrec end_tag_in_foreign_from :: "nat \<Rightarrow> processor \<Rightarrow> tag \<Rightarrow> parser \<Rightarrow> parser" where
  "end_tag_in_foreign_from 0 proc t p = p"
| "end_tag_in_foreign_from (Suc k) proc t p =
     (let r = items (openElements p) ! Suc k in
      if nodeNamespace p r = Some NS_HTML then endTagOutsideForeignContent proc t p
      else case getTagName (heap p) r of
          Some name \<Rightarrow> if toLowerCase p name = t_name t then popping (\<lambda>h. shortenToLength h (Suc k)) p
                       else end_tag_in_foreign_from k proc t p
        | None \<Rightarrow> p_throw p)"

definition endTagInForeignContent :: "processor \<Rightarrow> tag \<Rightarrow> parser \<Rightarrow> parser" where
  "endTagInForeignContent proc t p =
     (if t_id t = T_P \<or> t_id t = T_BR
      then endTagOutsideForeignContent proc t (popUntilHtmlOrIntegrationPoint p)
      else end_tag_in_foreign_from (nat (stackTop (openElements p))) proc t p)"

definition no_skip :: "parser \<Rightarrow> parser" where
  "no_skip p = p\<lparr>skip_newline := False\<rparr>"

definition onCharacter :: "processor \<Rightarrow> jsstr \<Rightarrow> parser \<Rightarrow> parser" where
  "onCharacter proc s p0 =
     (let p = no_skip p0; tok = PCharacter s in
      if inForeign p then frameset_not_ok (insertCharacters s p)
      else case insertionMode p of
        INITIAL \<Rightarrow> tokenInInitialMode proc tok p
      | BEFORE_HTML \<Rightarrow> tokenBeforeHtml proc tok p
      | BEFORE_HEAD \<Rightarrow> tokenBeforeHead proc tok p
      | IN_HEAD \<Rightarrow> tokenInHead proc tok p
      | IN_HEAD_NO_SCRIPT \<Rightarrow> tokenInHeadNoScript proc tok p
      | AFTER_HEAD \<Rightarrow> tokenAfterHead proc tok p
      | IN_BODY \<Rightarrow> characterInBody s p
      | IN_CAPTION \<Rightarrow> characterInBody s p
      | IN_CELL \<Rightarrow> characterInBody s p
      | IN_TEMPLATE \<Rightarrow> characterInBody s p
      | TEXT \<Rightarrow> insertCharacters s p
      | IN_SELECT \<Rightarrow> insertCharacters s p
      | IN_SELECT_IN_TABLE \<Rightarrow> insertCharacters s p
      | IN_TABLE \<Rightarrow> characterInTable proc tok p
      | IN_TABLE_BODY \<Rightarrow> characterInTable proc tok p
      | IN_ROW \<Rightarrow> characterInTable proc tok p
      | IN_TABLE_TEXT \<Rightarrow> characterInTableText tok p
      | IN_COLUMN_GROUP \<Rightarrow> tokenInColumnGroup proc tok p
      | AFTER_BODY \<Rightarrow> tokenAfterBody proc tok p
      | AFTER_AFTER_BODY \<Rightarrow> tokenAfterAfterBody proc tok p
      | _ \<Rightarrow> p)"

text \<open>In foreign content a run of NUL characters becomes one replacement character.\<close>

definition onNullCharacter :: "processor \<Rightarrow> jsstr \<Rightarrow> parser \<Rightarrow> parser" where
  "onNullCharacter proc s p0 =
     (let p = no_skip p0; tok = PNullCharacter s in
      if inForeign p then insertCharacters [65533] p
      else case insertionMode p of
        INITIAL \<Rightarrow> tokenInInitialMode proc tok p
      | BEFORE_HTML \<Rightarrow> tokenBeforeHtml proc tok p
      | BEFORE_HEAD \<Rightarrow> tokenBeforeHead proc tok p
      | IN_HEAD \<Rightarrow> tokenInHead proc tok p
      | IN_HEAD_NO_SCRIPT \<Rightarrow> tokenInHeadNoScript proc tok p
      | AFTER_HEAD \<Rightarrow> tokenAfterHead proc tok p
      | TEXT \<Rightarrow> insertCharacters s p
      | IN_TABLE \<Rightarrow> characterInTable proc tok p
      | IN_TABLE_BODY \<Rightarrow> characterInTable proc tok p
      | IN_ROW \<Rightarrow> characterInTable proc tok p
      | IN_COLUMN_GROUP \<Rightarrow> tokenInColumnGroup proc tok p
      | AFTER_BODY \<Rightarrow> tokenAfterBody proc tok p
      | AFTER_AFTER_BODY \<Rightarrow> tokenAfterAfterBody proc tok p
      | _ \<Rightarrow> p)"

definition onComment :: "processor \<Rightarrow> jsstr \<Rightarrow> parser \<Rightarrow> parser" where
  "onComment proc s p0 =
     (let p = no_skip p0 in
      if currentNotInHTML p then appendComment s p
      else case insertionMode p of
        IN_TABLE_TEXT \<Rightarrow> tokenInTableText proc (PComment s) p
      | AFTER_BODY \<Rightarrow> appendCommentNode s (array_get (items (openElements p)) 0) p
      | AFTER_AFTER_BODY \<Rightarrow> appendCommentNode s (Some (document p)) p
      | AFTER_AFTER_FRAMESET \<Rightarrow> appendCommentNode s (Some (document p)) p
      | TEXT \<Rightarrow> p
      | _ \<Rightarrow> appendComment s p)"

definition doctypeInInitialMode :: "doctype_token \<Rightarrow> parser \<Rightarrow> parser" where
  "doctypeInInitialMode d p =
     (let p1 = setDocType d p;
          m = (if forceQuirks d then QUIRKS else getDocumentMode (toLowerCase p1) d);
          p2 = (if isConforming d then p1 else p_err nonConformingDoctype p1)
      in set_mode BEFORE_HTML (on_heap (setDocumentMode (document p2) m) p2))"

definition onDoctype :: "processor \<Rightarrow> doctype_token \<Rightarrow> parser \<Rightarrow> parser" where
  "onDoctype proc d p0 =
     (let p = no_skip p0 in
      case insertionMode p of
        INITIAL \<Rightarrow> doctypeInInitialMode d p
      | BEFORE_HEAD \<Rightarrow> p_err misplacedDoctype p
      | IN_HEAD \<Rightarrow> p_err misplacedDoctype p
      | IN_HEAD_NO_SCRIPT \<Rightarrow> p_err misplacedDoctype p
      | AFTER_HEAD \<Rightarrow> p_err misplacedDoctype p
      | IN_TABLE_TEXT \<Rightarrow> tokenInTableText proc (PDoctype d) p
      | _ \<Rightarrow> p)"

definition onStartTag :: "processor \<Rightarrow> tag \<Rightarrow> parser \<Rightarrow> parser" where
  "onStartTag proc t p =
     (let p1 = processStartTag proc t ((no_skip p)\<lparr>acknowledged := False\<rparr>)
      in if t_selfClosing t \<and> \<not> acknowledged p1 then p_err nonVoidHtmlElementStartTagWithTrailingSolidus p1 else p1)"

definition onEndTag :: "processor \<Rightarrow> tag \<Rightarrow> parser \<Rightarrow> parser" where
  "onEndTag proc t p0 =
     (let p = no_skip p0 in
      if currentNotInHTML p then endTagInForeignContent proc t p else endTagOutsideForeignContent proc t p)"

definition eofInText :: "processor \<Rightarrow> parser \<Rightarrow> parser" where
  "eofInText proc p =
     (let p1 = p_pop (p_err eofInElementThatCanContainOnlyText p)
      in proc PEof (set_mode (originalInsertionMode p1) p1))"

definition onEof :: "processor \<Rightarrow> parser \<Rightarrow> parser" where
  "onEof proc p = (case insertionMode p of
     INITIAL \<Rightarrow> tokenInInitialMode proc PEof p
   | BEFORE_HTML \<Rightarrow> tokenBeforeHtml proc PEof p
   | BEFORE_HEAD \<Rightarrow> tokenBeforeHead proc PEof p
   | IN_HEAD \<Rightarrow> tokenInHead proc PEof p
   | IN_HEAD_NO_SCRIPT \<Rightarrow> tokenInHeadNoScript proc PEof p
   | AFTER_HEAD \<Rightarrow> tokenAfterHead proc PEof p
   | TEXT \<Rightarrow> eofInText proc p
   | IN_TABLE_TEXT \<Rightarrow> tokenInTableText proc PEof p
   | IN_TEMPLATE \<Rightarrow> eofInTemplate proc p
   | AFTER_BODY \<Rightarrow> stopParsing p
   | IN_FRAMESET \<Rightarrow> stopParsing p
   | AFTER_FRAMESET \<Rightarrow> stopParsing p
   | AFTER_AFTER_BODY \<Rightarrow> stopParsing p
   | AFTER_AFTER_FRAMESET \<Rightarrow> stopParsing p
   | _ \<Rightarrow> eofInBody proc p)"

definition whitespace_in_mode :: "processor \<Rightarrow> jsstr \<Rightarrow> parser \<Rightarrow> parser" where
  "whitespace_in_mode proc s p =
     (if inForeign p then insertCharacters s p
      else case insertionMode p of
        IN_HEAD \<Rightarrow> insertCharacters s p
      | IN_HEAD_NO_SCRIPT \<Rightarrow> insertCharacters s p
      | AFTER_HEAD \<Rightarrow> insertCharacters s p
      | TEXT \<Rightarrow> insertCharacters s p
      | IN_COLUMN_GROUP \<Rightarrow> insertCharacters s p
      | IN_SELECT \<Rightarrow> insertCharacters s p
      | IN_SELECT_IN_TABLE \<Rightarrow> insertCharacters s p
      | IN_FRAMESET \<Rightarrow> insertCharacters s p
      | AFTER_FRAMESET \<Rightarrow> insertCharacters s p
      | IN_BODY \<Rightarrow> whitespaceCharacterInBody s p
      | IN_CAPTION \<Rightarrow> whitespaceCharacterInBody s p
      | IN_CELL \<Rightarrow> whitespaceCharacterInBody s p
      | IN_TEMPLATE \<Rightarrow> whitespaceCharacterInBody s p
      | AFTER_BODY \<Rightarrow> whitespaceCharacterInBody s p
      | AFTER_AFTER_BODY \<Rightarrow> whitespaceCharacterInBody s p
      | AFTER_AFTER_FRAMESET \<Rightarrow> whitespaceCharacterInBody s p
      | IN_TABLE \<Rightarrow> characterInTable proc (PWhitespace s) p
      | IN_TABLE_BODY \<Rightarrow> characterInTable proc (PWhitespace s) p
      | IN_ROW \<Rightarrow> characterInTable proc (PWhitespace s) p
      | IN_TABLE_TEXT \<Rightarrow> whitespaceCharacterInTableText (PWhitespace s) p
      | _ \<Rightarrow> p)"

definition onWhitespaceCharacter :: "processor \<Rightarrow> jsstr \<Rightarrow> parser \<Rightarrow> parser" where
  "onWhitespaceCharacter proc s p =
     (if skip_newline p
      then (let p1 = no_skip p in
            case s of
              [] \<Rightarrow> whitespace_in_mode proc s p1
            | c # cs \<Rightarrow> if int c = LINE_FEED then (if cs = [] then p1 else whitespace_in_mode proc cs p1)
                        else whitespace_in_mode proc s p1)
      else whitespace_in_mode proc s p)"

definition process_token :: "processor \<Rightarrow> ptoken \<Rightarrow> parser \<Rightarrow> parser" where
  "process_token proc tok p = (case tok of
     PCharacter s \<Rightarrow> onCharacter proc s p
   | PNullCharacter s \<Rightarrow> onNullCharacter proc s p
   | PComment s \<Rightarrow> onComment proc s p
   | PDoctype d \<Rightarrow> onDoctype proc d p
   | PStartTag t \<Rightarrow> processStartTag proc t p
   | PEndTag t \<Rightarrow> onEndTag proc t p
   | PEof \<Rightarrow> onEof proc p
   | PWhitespace s \<Rightarrow> onWhitespaceCharacter proc s p)"

text \<open>
  \<open>_processToken\<close> ties the knot. \<open>n\<close> bounds how often one token is handed back; a token handed back
  once more sets \<open>thrown\<close>, as an exhausted call stack does in the source.
\<close>

primrec processToken :: "nat \<Rightarrow> ptoken \<Rightarrow> parser \<Rightarrow> parser" where
  "processToken 0 tok p = p_throw p"
| "processToken (Suc n) tok p = process_token (processToken n) tok p"

section \<open>The parser as the handler of the tokenizer\<close>

definition handle_event :: "nat \<Rightarrow> token_event \<Rightarrow> parser \<Rightarrow> parser" where
  "handle_event n ev p = (case ev of
     OnStartTag g \<Rightarrow> onStartTag (processToken n) (tag_of g) p
   | OnEndTag g \<Rightarrow> onEndTag (processToken n) (tag_of g) p
   | OnComment s \<Rightarrow> onComment (processToken n) s p
   | OnDoctype d \<Rightarrow> onDoctype (processToken n) d p
   | OnCharacter s \<Rightarrow> onCharacter (processToken n) s p
   | OnNullCharacter s \<Rightarrow> onNullCharacter (processToken n) s p
   | OnWhitespaceCharacter s \<Rightarrow> onWhitespaceCharacter (processToken n) s p
   | OnEof \<Rightarrow> onEof (processToken n) p)"

text \<open>
  An event, with what the parser asks of the tokenizer. A hand-back pops an element or a template mode
  or goes on to a later insertion mode, so the bound grows with the two stacks.
\<close>

definition handback_bound :: "parser \<Rightarrow> nat" where
  "handback_bound p = 2 * nat (stackTop (openElements p) + 1) + 2 * length (tmplInsertionModeStack p) + 16"

definition parser_handler :: "parser handler" where
  "parser_handler ev p =
     (let p1 = handle_event (handback_bound p) ev (p\<lparr>tok_mode := None\<rparr>)
      in (p1, tok_mode p1, Some (inForeign p1)))"

section \<open>Construction and entry points\<close>

text \<open>
  The constructor, for a heap in which the document and the fragment context already stand.
\<close>

definition new_parser ::
  "(jsstr \<Rightarrow> jsstr) \<Rightarrow> bool \<Rightarrow> bool \<Rightarrow> heap \<Rightarrow> addr \<Rightarrow> addr option \<Rightarrow> parser" where
  "new_parser low scripting rep h doc ctx =
     (let tid = (case ctx of Some c \<Rightarrow> (case getTagName h c of Some s \<Rightarrow> getTagID s | None \<Rightarrow> T_UNKNOWN)
                 | None \<Rightarrow> T_UNKNOWN)
      in setContextModes (Some (case ctx of Some c \<Rightarrow> c | None \<Rightarrow> doc)) (Some tid)
       \<lparr>heap = h, document = doc, fragmentContext = ctx, fragmentContextID = tid,
        stopped_parsing = False, insertionMode = INITIAL, originalInsertionMode = INITIAL,
        headElement = None, formElement = None, currentNotInHTML = False,
        tmplInsertionModeStack = [], pendingCharacterTokens = [],
        hasNonWhitespacePendingCharacterToken = False, framesetOk = True, skip_newline = False,
        fosterParentingEnabled = False, scriptingEnabled = scripting, report_errors = rep,
        parse_errors = [], openElements = new_open_elements doc,
        activeFormattingElements = new_formatting, tok_mode = None, inForeign = False,
        acknowledged = False, toLowerCase = low, thrown = False\<rparr>)"

definition initTokenizerForFragmentParsing :: "parser \<Rightarrow> parser" where
  "initTokenizerForFragmentParsing p =
     (if (case fragmentContext p of Some c \<Rightarrow> nodeNamespace p c = Some NS_HTML | None \<Rightarrow> False)
      then (let g = fragmentContextID p in
            if g = T_TITLE \<or> g = T_TEXTAREA then set_tokenizer Mode_RCDATA p
            else if g \<in> set [T_STYLE, T_XMP, T_IFRAME, T_NOEMBED, T_NOFRAMES, T_NOSCRIPT]
            then set_tokenizer Mode_RAWTEXT p
            else if g = T_SCRIPT then set_tokenizer Mode_SCRIPT_DATA p
            else if g = T_PLAINTEXT then set_tokenizer Mode_PLAINTEXT p else p)
      else p)"

text \<open>\<open>_findFormInFragmentContext\<close> climbs the parents of the context; \<open>n\<close> bounds the climb.\<close>

primrec find_form_from :: "nat \<Rightarrow> addr option \<Rightarrow> parser \<Rightarrow> parser" where
  "find_form_from 0 a p = p"
| "find_form_from (Suc n) a p = (case a of
     None \<Rightarrow> p
   | Some e \<Rightarrow> if getTagName (heap p) e = Some (js ''form'') then p\<lparr>formElement := Some e\<rparr>
               else find_form_from n (getParentNode (heap p) e) p)"

definition findFormInFragmentContext :: "parser \<Rightarrow> parser" where
  "findFormInFragmentContext p = find_form_from (length (nodes (heap p))) (fragmentContext p) p"

definition getFragmentParser ::
  "(jsstr \<Rightarrow> jsstr) \<Rightarrow> bool \<Rightarrow> bool \<Rightarrow> heap \<Rightarrow> addr option \<Rightarrow> parser" where
  "getFragmentParser low scripting rep h0 ctx0 =
     (case (case ctx0 of Some c \<Rightarrow> (c, h0) | None \<Rightarrow> createElement (js ''template'') NS_HTML [] h0) of (c, h1) \<Rightarrow>
      case createElement (js ''documentmock'') NS_HTML [] h1 of (doc, h2) \<Rightarrow>
        let p = new_parser low scripting rep h2 doc (Some c);
            p1 = (if fragmentContextID p = T_TEMPLATE
                  then p\<lparr>tmplInsertionModeStack := IN_TEMPLATE # tmplInsertionModeStack p\<rparr> else p)
        in findFormInFragmentContext (resetInsertionMode (insertFakeRootElement
             (initTokenizerForFragmentParsing p1))))"

definition getFragment :: "parser \<Rightarrow> addr \<times> parser" where
  "getFragment p =
     (case createDocumentFragment (heap p) of (t, h) \<Rightarrow>
        (t, case getFirstChild h (document p) of
              Some root \<Rightarrow> p\<lparr>heap := adoptNodes root t h\<rparr> | None \<Rightarrow> p_throw (p\<lparr>heap := h\<rparr>)))"

text \<open>A tokenizer whose handler is the parser, in the state the parser has asked for.\<close>

definition tokenizer_for :: "parser \<Rightarrow> parser tokenizer" where
  "tokenizer_for p =
     (let t = new_tokenizer (report_errors p) p
      in t\<lparr>tstate := (case tok_mode p of Some m \<Rightarrow> mode_state m | None \<Rightarrow> tstate t), inForeignNode := inForeign p\<rparr>)"

definition parse :: "decode_tree \<Rightarrow> (jsstr \<Rightarrow> jsstr) \<Rightarrow> bool \<Rightarrow> bool \<Rightarrow> jsstr \<Rightarrow> parser tokenizer option" where
  "parse lm low scripting rep source =
     (case createDocument empty_heap of (doc, h) \<Rightarrow>
        tok_write lm parser_handler source True (tokenizer_for (new_parser low scripting rep h doc None)))"

definition parseFragment ::
  "decode_tree \<Rightarrow> (jsstr \<Rightarrow> jsstr) \<Rightarrow> bool \<Rightarrow> bool \<Rightarrow> jsstr \<Rightarrow> (addr \<times> parser) option" where
  "parseFragment lm low scripting rep source =
     map_option (\<lambda>t. getFragment (hstate t))
       (tok_write lm parser_handler source True
         (tokenizer_for (getFragmentParser low scripting rep empty_heap None)))"

end
