(* ===== verification/Hast_Raw.thy ===== *)
theory Hast_Raw
  imports Hast_Parse5 Html_Tree_Builder
begin

text \<open>
  Parsing the raw HTML inside a syntax tree (\<^verbatim>\<open>hast-util-raw\<close> in \<^verbatim>\<open>src/api/scalar.standalone.js\<close>: \<open>kb\<close> and
  its handlers). The tree is walked and fed to one HTML parser: elements, texts, comments and
  doctypes as tokens, raw nodes as text for its tokenizer. What the parser has built is turned
  back into a syntax tree.

  Positions are left out. The source has the parser keep them, and throws away the characters a raw
  node leaves pending when that node has none; raw nodes of a parsed document have positions. The
  option \<open>passThrough\<close>, which the repository does not use, is left out.
\<close>

datatype raw_error =
  CannotCompile jsstr
| RawTypeError
| RawAttributes p5_error
| RawLoops

record raw_state =
  tok :: "parser tokenizer"
  search_index :: nat

type_synonym raw_result = "raw_error + raw_state"

section \<open>Tokens and the tokenizer\<close>

text \<open>An exception in the parser or its tokenizer.\<close>

definition raised :: "parser tokenizer \<Rightarrow> bool" where
  "raised t \<longleftrightarrow> stuck t \<or> thrown (hstate t) \<or> broken (heap (hstate t))"

definition checked :: "raw_state \<Rightarrow> raw_result" where
  "checked s = (if raised (tok s) then Inl RawTypeError else Inr s)"

text \<open>\<open>parser._processToken(token)\<close>, with what the parser writes into its tokenizer.\<close>

definition feed :: "ptoken \<Rightarrow> parser tokenizer \<Rightarrow> parser tokenizer" where
  "feed k t =
     (let p = processToken (Suc (handback_bound (hstate t))) k ((hstate t)\<lparr>tok_mode := None\<rparr>)
      in t\<lparr>hstate := p, tstate := (case tok_mode p of Some m \<Rightarrow> mode_state m | None \<Rightarrow> tstate t),
           inForeignNode := inForeign p\<rparr>)"

fun char_token :: "char_type \<times> jsstr \<Rightarrow> ptoken" where
  "char_token (CHARACTER, s) = PCharacter s"
| "char_token (NULL_CHARACTER, s) = PNullCharacter s"
| "char_token (WHITESPACE_CHARACTER, s) = PWhitespace s"

text \<open>\<open>$b\<close>: the pending characters are processed and the tokenizer starts anew.\<close>

definition resetTokenizer :: "parser tokenizer \<Rightarrow> parser tokenizer" where
  "resetTokenizer t =
     (let t1 = (case currentCharacterToken t of Some k \<Rightarrow> feed (char_token k) t | None \<Rightarrow> t)
      in t1\<lparr>paused := False, inLoop := False, active := False, returnState := DATA, charRefCode := -1,
            consumedAfterSnapshot := -1, currentCharacterToken := None, currentToken := None,
            currentAttr := \<lparr>attr_name = [], attr_value = []\<rparr>, attrLinked := False\<rparr>)"

definition process :: "ptoken \<Rightarrow> raw_state \<Rightarrow> raw_result" where
  "process k s = checked (s\<lparr>tok := feed k (resetTokenizer (tok s))\<rparr>)"

section \<open>Handlers\<close>

definition raw_tag :: "jsstr \<Rightarrow> dom_attr list \<Rightarrow> tag" where
  "raw_tag n as = \<lparr>t_name = n, t_id = getTagID n, t_selfClosing = False, t_attrs = as\<rparr>"

definition current_namespace :: "parser \<Rightarrow> namespace option" where
  "current_namespace p =
     map_option (\<lambda>a. case nodeNamespace p a of Some ns \<Rightarrow> ns | None \<Rightarrow> NS_HTML) (current (openElements p))"

definition start_attrs :: "(jsstr \<Rightarrow> jsstr) \<Rightarrow> namespace \<Rightarrow> hast \<Rightarrow> nat \<Rightarrow> p5_error + dom_attr list \<times> nat" where
  "start_attrs low ns e li =
     map_sum id (\<lambda>(t, l). (case t of P5Element n ns' as cs c \<Rightarrow> as | _ \<Rightarrow> [], l))
       (hm low (if ns = NS_SVG then Qf else Uf) e li)"

definition startTag :: "(jsstr \<Rightarrow> jsstr) \<Rightarrow> jsstr \<Rightarrow> props \<Rightarrow> hast option \<Rightarrow> raw_state \<Rightarrow> raw_result" where
  "startTag low name ps content s =
     (if tstate (tok s) = PLAINTEXT then Inr s
      else
        (let n = low name; t = resetTokenizer (tok s) in
         case current_namespace (hstate t) of
           None \<Rightarrow> Inl RawTypeError
         | Some ns0 \<Rightarrow>
             (let ns = (if ns0 = NS_HTML \<and> n = js ''svg'' then NS_SVG else ns0) in
              case start_attrs low ns (HElement name ps [] content) (search_index s) of
                Inl e \<Rightarrow> Inl (RawAttributes e)
              | Inr (as, l) \<Rightarrow>
                  checked \<lparr>tok = (feed (PStartTag (raw_tag n as)) t)\<lparr>lastStartTagName := n\<rparr>, search_index = l\<rparr>)))"

definition endTag :: "(jsstr \<Rightarrow> jsstr) \<Rightarrow> jsstr \<Rightarrow> raw_state \<Rightarrow> raw_result" where
  "endTag low name s =
     (let n = low name in
      if \<not> inForeignNode (tok s) \<and> n \<in> set vm then Inr s
      else if tstate (tok s) = PLAINTEXT then Inr s
      else
        (let t = feed (PEndTag (raw_tag n [])) (resetTokenizer (tok s));
             t1 = (if n = lastStartTagName t \<and> (tstate t = RCDATA \<or> tstate t = RAWTEXT \<or> tstate t = SCRIPT_DATA)
                   then t\<lparr>tstate := DATA\<rparr> else t)
         in checked (s\<lparr>tok := t1\<rparr>)))"

definition raw_doctype :: doctype_token where
  "raw_doctype = \<lparr>doctype_name = Some (js ''html''), forceQuirks = False, publicId = Some [], systemId = Some []\<rparr>"

text \<open>\<open>Db\<close>: the text of a raw node is written to the tokenizer, whose state stays as it is.\<close>

definition reset_preprocessor :: "preprocessor \<Rightarrow> preprocessor" where
  "reset_preprocessor p = p\<lparr>html := [], pos := -1, lastGapPos := -2, gapStack := [], skipNextNewLine := False,
     lastChunkWritten := False, endOfChunkHit := False, isEol := False\<rparr>"

definition handle_raw :: "decode_tree \<Rightarrow> jsstr \<Rightarrow> raw_state \<Rightarrow> raw_result" where
  "handle_raw lm v s =
     (case tok_write lm parser_handler v False ((tok s)\<lparr>pp := reset_preprocessor (pp (tok s))\<rparr>) of
        None \<Rightarrow> Inl RawLoops
      | Some t \<Rightarrow>
          if raised t then Inl RawTypeError
          else case runParsingLoop lm parser_handler t of
            None \<Rightarrow> Inl RawLoops
          | Some t1 \<Rightarrow>
              checked (s\<lparr>tok := if tstate t1 = NAMED_CHARACTER_REFERENCE \<or> tstate t1 = NUMERIC_CHARACTER_REFERENCE_END
                then (case consume (t1\<lparr>pp := (pp t1)\<lparr>lastChunkWritten := True\<rparr>\<rparr>) of (c, t2) \<Rightarrow>
                        callState lm parser_handler c t2)
                else t1\<rparr>))"

text \<open>The walk over the tree. The content of a template is not walked.\<close>

fun walk :: "decode_tree \<Rightarrow> (jsstr \<Rightarrow> jsstr) \<Rightarrow> hast \<Rightarrow> raw_state \<Rightarrow> raw_result"
and walks :: "decode_tree \<Rightarrow> (jsstr \<Rightarrow> jsstr) \<Rightarrow> hast list \<Rightarrow> raw_state \<Rightarrow> raw_result" where
  "walk lm low (HRoot cs) s = walks lm low cs s"
| "walk lm low (HElement n ps cs content) s =
     (case startTag low n ps content s of
        Inl e \<Rightarrow> Inl e
      | Inr s1 \<Rightarrow> (case walks lm low cs s1 of Inl e \<Rightarrow> Inl e | Inr s2 \<Rightarrow> endTag low n s2))"
| "walk lm low (HText v) s = process (PCharacter v) s"
| "walk lm low (HComment v) s = process (PComment v) s"
| "walk lm low HDoctype s = process (PDoctype raw_doctype) s"
| "walk lm low (HRaw v) s = handle_raw lm v s"
| "walk lm low (HOther t cs) s = Inl (CannotCompile t)"
| "walks lm low [] s = Inr s"
| "walks lm low (c # cs) s = (case walk lm low c s of Inl e \<Rightarrow> Inl e | Inr s1 \<Rightarrow> walks lm low cs s1)"

section \<open>Entry\<close>

text \<open>Is the tree a whole document?\<close>

definition is_document :: "(jsstr \<Rightarrow> jsstr) \<Rightarrow> hast \<Rightarrow> bool" where
  "is_document low e =
     (case (case e of HRoot cs \<Rightarrow> (case cs of c # _ \<Rightarrow> Some c | [] \<Rightarrow> None) | _ \<Rightarrow> Some e) of
        Some HDoctype \<Rightarrow> True
      | Some (HElement n ps cs c) \<Rightarrow> low n = js ''html''
      | _ \<Rightarrow> False)"

definition raw_parser :: "(jsstr \<Rightarrow> jsstr) \<Rightarrow> bool \<Rightarrow> parser" where
  "raw_parser low whole =
     (if whole then (case createDocument empty_heap of (doc, h) \<Rightarrow> new_parser low False False h doc None)
      else getFragmentParser low False False empty_heap None)"

definition same_type :: "hast \<Rightarrow> hast \<Rightarrow> bool" where
  "same_type a b =
     (case (a, b) of
        (HRoot _, HRoot _) \<Rightarrow> True | (HElement _ _ _ _, HElement _ _ _ _) \<Rightarrow> True | (HText _, HText _) \<Rightarrow> True
      | (HComment _, HComment _) \<Rightarrow> True | (HDoctype, HDoctype) \<Rightarrow> True | (HRaw _, HRaw _) \<Rightarrow> True
      | (HOther t _, HOther u _) \<Rightarrow> t = u | _ \<Rightarrow> False)"

definition unwrap :: "hast \<Rightarrow> hast \<Rightarrow> hast" where
  "unwrap e a = (case a of HRoot [c] \<Rightarrow> if same_type c e then c else a | _ \<Rightarrow> a)"

text \<open>The parser's tree, read to the depth its heap can have.\<close>

definition built_tree :: "bool \<Rightarrow> parser \<Rightarrow> p5 option" where
  "built_tree whole p0 =
     (case (if whole then (document p0, p0) else getFragment p0) of (a, p) \<Rightarrow>
        if thrown p \<or> broken (heap p) then None else read_node (Suc (length (nodes (heap p)))) (heap p) a)"

definition kb :: "decode_tree \<Rightarrow> (jsstr \<Rightarrow> jsstr) \<Rightarrow> (jsstr \<Rightarrow> jsstr option) \<Rightarrow> hast \<Rightarrow> nat \<Rightarrow> raw_error + hast \<times> nat" where
  "kb lm low num e li =
     (let whole = is_document low e in
      case walk lm low e \<lparr>tok = tokenizer_for (raw_parser low whole), search_index = li\<rparr> of
        Inl x \<Rightarrow> Inl x
      | Inr s \<Rightarrow>
          (let t = resetTokenizer (tok s) in
           if raised t then Inl RawTypeError
           else case built_tree whole (hstate t) of
             None \<Rightarrow> Inl RawTypeError
           | Some d \<Rightarrow>
               (case rm low num d (search_index s) of
                  Inl x \<Rightarrow> Inl (RawAttributes x)
                | Inr (a, l) \<Rightarrow> Inr (unwrap e a, l))))"

end
