(* ===== verification/Hast_Sanitize.thy ===== *)
theory Hast_Sanitize
  imports Hast_Tree
begin

text \<open>
  The sanitizer of the markdown pipeline (\<^verbatim>\<open>hast-util-sanitize\<close> inside
  \<^verbatim>\<open>src/api/scalar.standalone.js\<close>: \<open>jb\<close>, \<open>Ub\<close>, \<open>Qb\<close>, \<open>Fb\<close>, \<open>zb\<close>, \<open>Hb\<close>, \<open>Vb\<close>) and the schema the component
  \<open>ScalarMarkdown\<close> runs it with. The result \<open>undefined\<close> is the empty list of nodes, a node is a list
  of one node: the callers treat them alike.
\<close>

section \<open>Schemas\<close>

text \<open>An attribute is allowed by its name, or by a name with the values or patterns allowed.\<close>

datatype attr_pattern = AValue hvalue | ARegExp "jsstr \<Rightarrow> bool"
datatype attr_def = AName jsstr | AValues jsstr "attr_pattern list"

record san_schema =
  allowComments :: bool
  allowDoctypes :: bool
  ancestors :: "(jsstr \<times> jsstr list) list option"
  attributes :: "(jsstr \<times> attr_def list) list option"
  clobber :: "jsstr list option"
  clobberPrefix :: "jsstr option"
  protocols :: "(jsstr \<times> jsstr list) list option"
  required :: "(jsstr \<times> (jsstr \<times> hvalue) list) list option"
  strip :: "jsstr list option"
  tagNames :: "jsstr list option"

definition Lb :: "attr_def list" where
  "Lb = map (\<lambda>n. AName (js n)) [''ariaDescribedBy'', ''ariaLabel'', ''ariaLabelledBy'']"

text \<open>\<open>/^language-./\<close>: the dot matches no line terminator.\<close>

definition language_class :: "jsstr \<Rightarrow> bool" where
  "language_class s \<longleftrightarrow> startsWith s (js ''language-'') \<and>
     (case drop 9 s of [] \<Rightarrow> False | c # _ \<Rightarrow> c \<notin> {10, 13, 8232, 8233})"

abbreviation (input) attr_names :: "string list \<Rightarrow> attr_def list" where
  "attr_names ns \<equiv> map (\<lambda>n. AName (js n)) ns"

abbreviation (input) attr_class :: "string \<Rightarrow> attr_def" where
  "attr_class c \<equiv> AValues (js ''className'') [AValue (HStr (js c))]"

definition default_attributes :: "(jsstr \<times> attr_def list) list" where
  "default_attributes = [
    (js ''a'', Lb @ attr_names [''dataFootnoteBackref'', ''dataFootnoteRef''] @
       [attr_class ''data-footnote-backref''] @ attr_names [''href'']),
    (js ''blockquote'', attr_names [''cite'']),
    (js ''code'', [AValues (js ''className'') [ARegExp language_class]]),
    (js ''del'', attr_names [''cite'']),
    (js ''div'', attr_names [''itemScope'', ''itemType'']),
    (js ''dl'', Lb),
    (js ''h2'', [attr_class ''sr-only'']),
    (js ''img'', Lb @ attr_names [''longDesc'', ''src'']),
    (js ''input'', [AValues (js ''disabled'') [AValue (HBool True)],
       AValues (js ''type'') [AValue (HStr (js ''checkbox''))]]),
    (js ''ins'', attr_names [''cite'']),
    (js ''li'', [attr_class ''task-list-item'']),
    (js ''ol'', Lb @ [attr_class ''contains-task-list'']),
    (js ''q'', attr_names [''cite'']),
    (js ''section'', attr_names [''dataFootnotes''] @ [attr_class ''footnotes'']),
    (js ''source'', attr_names [''srcSet'']),
    (js ''summary'', Lb),
    (js ''table'', Lb),
    (js ''ul'', Lb @ [attr_class ''contains-task-list'']),
    (js ''*'', attr_names [
      ''abbr'', ''accept'', ''acceptCharset'', ''accessKey'', ''action'', ''align'', ''alt'',
      ''axis'', ''border'', ''cellPadding'', ''cellSpacing'', ''char'', ''charOff'', ''charSet'',
      ''checked'', ''clear'', ''colSpan'', ''color'', ''cols'', ''compact'', ''coords'',
      ''dateTime'', ''dir'', ''encType'', ''frame'', ''hSpace'', ''headers'', ''height'',
      ''hrefLang'', ''htmlFor'', ''id'', ''isMap'', ''itemProp'', ''label'', ''lang'',
      ''maxLength'', ''media'', ''method'', ''multiple'', ''name'', ''noHref'', ''noShade'',
      ''noWrap'', ''open'', ''prompt'', ''readOnly'', ''rev'', ''rowSpan'', ''rows'', ''rules'',
      ''scope'', ''selected'', ''shape'', ''size'', ''span'', ''start'', ''summary'',
      ''tabIndex'', ''title'', ''useMap'', ''vAlign'', ''value'', ''width''])]"

definition default_tagNames :: "jsstr list" where
  "default_tagNames = map js [
      ''a'', ''b'', ''blockquote'', ''br'', ''code'', ''dd'', ''del'', ''details'', ''div'',
      ''dl'', ''dt'', ''em'', ''h1'', ''h2'', ''h3'', ''h4'', ''h5'', ''h6'', ''hr'', ''i'',
      ''img'', ''input'', ''ins'', ''kbd'', ''li'', ''ol'', ''p'', ''picture'', ''pre'', ''q'',
      ''rp'', ''rt'', ''ruby'', ''s'', ''samp'', ''section'', ''source'', ''span'', ''strike'',
      ''strong'', ''sub'', ''summary'', ''sup'', ''table'', ''tbody'', ''td'', ''tfoot'', ''th'',
      ''thead'', ''tr'', ''tt'', ''ul'', ''var'']"

text \<open>\<open>jb\<close>.\<close>

definition jb :: san_schema where
  "jb = \<lparr>allowComments = False, allowDoctypes = False,
    ancestors = Some (map (\<lambda>n. (js n, [js ''table''])) [''tbody'', ''td'', ''th'', ''thead'', ''tfoot'', ''tr'']),
    attributes = Some default_attributes,
    clobber = Some (map js [''ariaDescribedBy'', ''ariaLabelledBy'', ''id'', ''name'']),
    clobberPrefix = Some (js ''user-content-''),
    protocols = Some [
      (js ''cite'', map js [''http'', ''https'']),
      (js ''href'', map js [''http'', ''https'', ''irc'', ''ircs'', ''mailto'', ''xmpp'']),
      (js ''longDesc'', map js [''http'', ''https'']),
      (js ''src'', map js [''http'', ''https''])],
    required = Some [(js ''input'', [(js ''disabled'', HBool True), (js ''type'', HStr (js ''checkbox''))])],
    strip = Some [js ''script''],
    tagNames = Some default_tagNames\<rparr>"

section \<open>Attributes\<close>

text \<open>\<open>e.schema.f && hasOwnProperty.call(e.schema.f, k) ? e.schema.f[k] : undefined\<close>.\<close>

definition own :: "(jsstr \<times> 'v) list option \<Rightarrow> jsstr \<Rightarrow> 'v option" where
  "own f k = (case f of Some xs \<Rightarrow> map_of xs k | None \<Rightarrow> None)"

fun def_name :: "attr_def \<Rightarrow> jsstr" where
  "def_name (AName n) = n"
| "def_name (AValues n vs) = n"

text \<open>
  \<open>Hb\<close>: the definition of an attribute, or the last one for \<open>data*\<close>. Only ASCII letters have one of
  the letters of \<open>data\<close> as their lower-case form.
\<close>

fun Hb_loop :: "attr_def list \<Rightarrow> jsstr \<Rightarrow> attr_def option \<Rightarrow> attr_def option" where
  "Hb_loop [] t n = (if 4 < length t \<and> ascii_lower (take 4 t) = js ''data'' then n else None)"
| "Hb_loop (d # ds) t n =
     (if def_name d = t then Some d
      else Hb_loop ds t (if def_name d = js ''data*'' then Some d else n))"

definition Hb :: "attr_def list option \<Rightarrow> jsstr \<Rightarrow> attr_def option" where
  "Hb ds t = Hb_loop (case ds of Some xs \<Rightarrow> xs | None \<Rightarrow> []) t None"

text \<open>The test of \<open>zb\<close> on the protocol of a value.\<close>

definition later :: "nat option \<Rightarrow> nat \<Rightarrow> bool" where
  "later p a = (case p of Some l \<Rightarrow> a > l | None \<Rightarrow> False)"

definition safeProtocol :: "san_schema \<Rightarrow> jsstr \<Rightarrow> jsstr \<Rightarrow> bool" where
  "safeProtocol e k v =
     (case own (protocols e) k of
        None \<Rightarrow> True
      | Some ps \<Rightarrow>
          ps = [] \<or>
          (case index_of (js '':'') v of
             None \<Rightarrow> True
           | Some a \<Rightarrow>
               later (index_of (js ''/'') v) a \<or> later (index_of (js ''?'') v) a \<or>
               later (index_of (js ''#'') v) a \<or>
               list_ex (\<lambda>p. a = length p \<and> take (length p) v = p) ps))"

fun pattern_matches :: "attr_pattern \<Rightarrow> hvalue \<Rightarrow> bool" where
  "pattern_matches (AValue w) v = strict_equal w v"
| "pattern_matches (ARegExp f) v = f (value_string v)"

fun def_matches :: "attr_def \<Rightarrow> hvalue \<Rightarrow> bool" where
  "def_matches (AName n) v = True"
| "def_matches (AValues n []) v = True"
| "def_matches (AValues n ps) v = list_ex (\<lambda>p. pattern_matches p v) ps"

text \<open>\<open>e.schema.clobber && e.schema.clobberPrefix && e.schema.clobber.includes(n)\<close>: an empty prefix is falsy.\<close>

definition clobbered :: "san_schema \<Rightarrow> jsstr \<Rightarrow> hvalue \<Rightarrow> hvalue" where
  "clobbered e k v =
     (case (clobber e, clobberPrefix e) of
        (Some cs, Some p) \<Rightarrow> if p \<noteq> [] \<and> k \<in> set cs then HStr (p @ value_string v) else v
      | _ \<Rightarrow> v)"

definition zb :: "san_schema \<Rightarrow> attr_def \<Rightarrow> jsstr \<Rightarrow> hvalue \<Rightarrow> hvalue option" where
  "zb e d k v =
     (if is_primitive v \<and> safeProtocol e k (value_string v) \<and> def_matches d v
      then Some (clobbered e k v) else None)"

text \<open>The elements of a list that are numbers or strings afterwards stay.\<close>

fun zb_list :: "san_schema \<Rightarrow> attr_def \<Rightarrow> jsstr \<Rightarrow> hvalue list \<Rightarrow> hvalue list" where
  "zb_list e d k [] = []"
| "zb_list e d k (v # vs) =
     (case zb e d k v of
        Some (HStr s) \<Rightarrow> HStr s # zb_list e d k vs
      | Some (HNum s) \<Rightarrow> HNum s # zb_list e d k vs
      | _ \<Rightarrow> zb_list e d k vs)"

text \<open>An empty name is falsy.\<close>

fun names_nothing :: "attr_def \<Rightarrow> bool" where
  "names_nothing (AName n) \<longleftrightarrow> n = []"
| "names_nothing (AValues n vs) \<longleftrightarrow> False"

definition Fb :: "san_schema \<Rightarrow> attr_def option \<Rightarrow> jsstr \<Rightarrow> hvalue \<Rightarrow> hvalue option" where
  "Fb e d k v =
     (case d of
        None \<Rightarrow> None
      | Some d' \<Rightarrow> if names_nothing d' then None else (case v of HArr vs \<Rightarrow> Some (HArr (zb_list e d' k vs)) | _ \<Rightarrow> zb e d' k v))"

definition property_value :: "san_schema \<Rightarrow> jsstr \<Rightarrow> jsstr \<Rightarrow> hvalue \<Rightarrow> hvalue option" where
  "property_value e n k v =
     (case Fb e (Hb (own (attributes e) n) k) k v of
        Some w \<Rightarrow> Some w
      | None \<Rightarrow> Fb e (Hb (own (attributes e) (js ''*'')) k) k v)"

fun kept_properties :: "san_schema \<Rightarrow> jsstr \<Rightarrow> (jsstr \<times> hvalue) list \<Rightarrow> (jsstr \<times> hvalue) list" where
  "kept_properties e n [] = []"
| "kept_properties e n ((k, v) # ps) =
     (case property_value e n k v of
        Some w \<Rightarrow> (k, w) # kept_properties e n ps
      | None \<Rightarrow> kept_properties e n ps)"

text \<open>The function of \<open>Ub\<close> that computes the properties of an element.\<close>

definition san_properties :: "san_schema \<Rightarrow> jsstr \<Rightarrow> (jsstr \<times> hvalue) list \<Rightarrow> (jsstr \<times> hvalue) list" where
  "san_properties e n ps =
     (let l = kept_properties e n ps in
      case own (required e) n of
        Some rs \<Rightarrow> l @ filter (\<lambda>(k, v). k \<notin> fst ` set l) rs
      | None \<Rightarrow> l)"

section \<open>Nodes\<close>

text \<open>Whether an element of the name stays below the elements of the stack.\<close>

definition tag_allowed :: "san_schema \<Rightarrow> jsstr list \<Rightarrow> jsstr \<Rightarrow> bool" where
  "tag_allowed e stack n \<longleftrightarrow>
     n \<noteq> [] \<and> n \<noteq> js ''*'' \<and> (case tagNames e of Some ts \<Rightarrow> n \<in> set ts | None \<Rightarrow> True) \<and>
     (case own (ancestors e) n of Some as \<Rightarrow> list_ex (\<lambda>a. a \<in> set stack) as | None \<Rightarrow> True)"

definition comment_value :: "jsstr \<Rightarrow> jsstr" where
  "comment_value v = (case index_of (js ''-->'') v of Some n \<Rightarrow> take n v | None \<Rightarrow> v)"

fun Ub :: "san_schema \<Rightarrow> jsstr list \<Rightarrow> hast \<Rightarrow> hast list"
  and Qb :: "san_schema \<Rightarrow> jsstr list \<Rightarrow> hast list \<Rightarrow> hast list" where
  "Ub e stack (HComment v) = (if allowComments e then [HComment (comment_value v)] else [])"
| "Ub e stack HDoctype = (if allowDoctypes e then [HDoctype] else [])"
| "Ub e stack (HElement n ps cs c) =
     (let r = Qb e (stack @ [n]) cs in
      if tag_allowed e stack n then [HElement n (san_properties e n ps) r None]
      else case strip e of Some st \<Rightarrow> if n \<in> set st then [] else r | None \<Rightarrow> [])"
| "Ub e stack (HRoot cs) = [HRoot (Qb e stack cs)]"
| "Ub e stack (HText v) = [HText v]"
| "Ub e stack (HRaw v) = []"
| "Ub e stack (HOther t cs) = []"
| "Qb e stack [] = []"
| "Qb e stack (c # cs) = Ub e stack c @ Qb e stack cs"

text \<open>\<open>Vb\<close>, with the schema already merged with the default one.\<close>

definition Vb :: "san_schema \<Rightarrow> hast \<Rightarrow> hast" where
  "Vb e t = (case Ub e [] t of [n] \<Rightarrow> n | ns \<Rightarrow> HRoot ns)"

section \<open>The schema of \<open>ScalarMarkdown\<close>\<close>

definition markdown_schema :: "jsstr list \<Rightarrow> jsstr list \<Rightarrow> san_schema" where
  "markdown_schema removeTags allowTags =
     jb\<lparr>clobberPrefix := Some [],
        tagNames := Some (filter (\<lambda>t. t \<notin> set removeTags) (default_tagNames @ allowTags)),
        attributes := Some ((js ''abbr'', [AName (js ''title'')]) # default_attributes)\<rparr>"

end
