(* ===== verification/Hast_Sanitize_Sound.thy ===== *)
theory Hast_Sanitize_Sound
  imports Hast_Sanitize
begin

text \<open>
  What the sanitizer guarantees. Every node it returns is allowed by the schema, every address in
  it has an allowed scheme in the sense of the URL standard, and running it again changes nothing.
\<close>

section \<open>Schemes of addresses\<close>

text \<open>
  The scheme a browser sees: white space and control characters in front, and tabs and line
  breaks anywhere, are ignored; the scheme ends at the first colon and starts with a letter.
\<close>

definition url_clean :: "jsstr \<Rightarrow> jsstr" where
  "url_clean s = filter (\<lambda>u. u \<noteq> 9 \<and> u \<noteq> 10 \<and> u \<noteq> 13) (dropWhile (\<lambda>u. u \<le> 32) s)"

definition scheme_char :: "nat \<Rightarrow> bool" where
  "scheme_char u \<longleftrightarrow> is_az u \<or> is_AZ u \<or> (48 \<le> u \<and> u \<le> 57) \<or> u = 43 \<or> u = 45 \<or> u = 46"

definition url_scheme :: "jsstr \<Rightarrow> jsstr option" where
  "url_scheme s =
     (let t = url_clean s; n = takeWhile (\<lambda>u. u \<noteq> 58) t in
      if n \<noteq> [] \<and> (is_az (hd n) \<or> is_AZ (hd n)) \<and> list_all scheme_char n \<and> 58 \<in> set t
      then Some (ascii_lower n) else None)"

lemma index_of_char:
  "index_of [c] s = (if c \<in> set s then Some (length (takeWhile (\<lambda>u. u \<noteq> c) s)) else None)"
  by (induction s) (auto simp: startsWith_def)

lemma url_clean_colon: "url_clean (b @ 58 # r) = url_clean b @ 58 # filter (\<lambda>u. u \<noteq> 9 \<and> u \<noteq> 10 \<and> u \<noteq> 13) r"
proof -
  have "dropWhile (\<lambda>u. u \<le> 32) (b @ 58 # r) = dropWhile (\<lambda>u. u \<le> 32) b @ 58 # r" for r :: jsstr
    by (induction b) auto
  then show ?thesis by (simp add: url_clean_def)
qed

lemma url_clean_keeps: "u \<in> set b \<Longrightarrow> 32 < u \<Longrightarrow> u \<in> set (url_clean b)"
proof -
  assume "u \<in> set b" "32 < u"
  then have "u \<in> set (dropWhile (\<lambda>u. u \<le> 32) b)" by (induction b) auto
  then show ?thesis using \<open>32 < u\<close> by (simp add: url_clean_def)
qed

lemma url_clean_subset: "set (url_clean s) \<subseteq> set s"
  by (auto simp: url_clean_def dest: set_dropWhileD)

lemma url_clean_scheme: "list_all scheme_char p \<Longrightarrow> url_clean p = p"
proof -
  assume p: "list_all scheme_char p"
  then have gt: "32 < u" if "u \<in> set p" for u using that
    by (auto simp: list_all_iff scheme_char_def is_az_def is_AZ_def)
  then have "dropWhile (\<lambda>u. u \<le> 32) p = p" by (cases p) (auto simp: not_le)
  moreover have "filter (\<lambda>u. u \<noteq> 9 \<and> u \<noteq> 10 \<and> u \<noteq> 13) p = p"
    using gt by (intro filter_True) fastforce
  ultimately show ?thesis by (simp add: url_clean_def)
qed

text \<open>A value the protocol test lets pass has no scheme, or the scheme is one of the list.\<close>

lemma safe_scheme:
  assumes "safeProtocol e k v" and "own (protocols e) k = Some ps" and "ps \<noteq> []"
    and "list_all (list_all scheme_char) ps" and "url_scheme v = Some sc"
  shows "\<exists>p \<in> set ps. sc = ascii_lower p"
proof -
  have c: "58 \<in> set v" using assms(5) url_clean_subset [of v]
    by (auto simp: url_scheme_def Let_def split: if_splits)
  let ?b = "takeWhile (\<lambda>u. u \<noteq> 58) v"
  obtain r where v: "v = ?b @ 58 # r"
    using c by (metis (mono_tags, lifting) dropWhile_eq_Nil_conv hd_dropWhile list.exhaust_sel
        takeWhile_dropWhile_id)
  have nb: "58 \<notin> set (url_clean ?b)" using url_clean_subset [of ?b] by (auto dest: set_takeWhileD)
  then have t: "takeWhile (\<lambda>u. u \<noteq> 58) (url_clean v) = url_clean ?b"
    by (subst v) (auto simp: url_clean_colon takeWhile_tail intro: takeWhile_eq_all_conv [THEN iffD2])
  have sc: "list_all scheme_char (url_clean ?b)" "sc = ascii_lower (url_clean ?b)"
    using assms(5) by (auto simp: url_scheme_def Let_def t split: if_splits)
  have before: "u \<notin> set ?b" if "\<not> scheme_char u" "32 < u" for u
    using url_clean_keeps [of u ?b] that sc(1) by (auto simp: list_all_iff)
  have nl: "\<not> later (index_of [u] v) (length ?b)" if "\<not> scheme_char u" "32 < u" "u \<noteq> 58" for u
  proof -
    have "length ?b \<le> length (takeWhile (\<lambda>w. w \<noteq> u) v)"
      using before [OF that(1,2)] by (subst (2) v) (simp add: takeWhile_append)
    then show ?thesis by (simp add: index_of_char later_def)
  qed
  have "\<not> later (index_of (js ''/'') v) (length ?b)" "\<not> later (index_of (js ''?'') v) (length ?b)"
    "\<not> later (index_of (js ''#'') v) (length ?b)"
    using nl [of 47] nl [of 63] nl [of 35] by (simp_all add: js_def scheme_char_def is_az_def is_AZ_def)
  moreover have "index_of (js '':'') v = Some (length ?b)" using c by (simp add: js_def index_of_char)
  ultimately obtain p where p: "p \<in> set ps" "length ?b = length p" "take (length p) v = p"
    using assms(1-3) by (auto simp: safeProtocol_def list_ex_iff)
  have "p = ?b" using p(2,3) by (metis append_eq_conv_conj v)
  then have "url_clean ?b = p" using assms(4) p(1) url_clean_scheme [of p] by (simp add: list_all_iff)
  then show ?thesis using sc(2) p(1) by auto
qed

section \<open>Nodes a schema allows\<close>

text \<open>The definitions that apply to a property of an element, and the values in a property.\<close>

definition defs_of :: "san_schema \<Rightarrow> jsstr \<Rightarrow> attr_def list" where
  "defs_of e n = (case own (attributes e) n of Some ds \<Rightarrow> ds | None \<Rightarrow> []) @
     (case own (attributes e) (js ''*'') of Some ds \<Rightarrow> ds | None \<Rightarrow> [])"

definition def_fits :: "jsstr \<Rightarrow> attr_def \<Rightarrow> bool" where
  "def_fits k d \<longleftrightarrow> def_name d = k \<or>
     def_name d = js ''data*'' \<and> 4 < length k \<and> ascii_lower (take 4 k) = js ''data''"

fun leaves :: "hvalue \<Rightarrow> hvalue list" where
  "leaves (HArr vs) = vs"
| "leaves v = [v]"

definition scheme_ok :: "san_schema \<Rightarrow> jsstr \<Rightarrow> hvalue \<Rightarrow> bool" where
  "scheme_ok e k v \<longleftrightarrow>
     (case own (protocols e) k of
        Some ps \<Rightarrow> ps = [] \<or>
          (case url_scheme (value_string v) of Some sc \<Rightarrow> sc \<in> set (map ascii_lower ps) | None \<Rightarrow> True)
      | None \<Rightarrow> True)"

text \<open>
  A property is allowed when the schema requires it with this value, or when a definition for it
  admits every value in it, and no value is an address with a foreign scheme.
\<close>

definition property_ok :: "san_schema \<Rightarrow> jsstr \<Rightarrow> jsstr \<times> hvalue \<Rightarrow> bool" where
  "property_ok e n = (\<lambda>(k, w).
     (case own (required e) n of Some rs \<Rightarrow> (k, w) \<in> set rs | None \<Rightarrow> False) \<or>
     list_ex (\<lambda>d. def_fits k d \<and> list_all (def_matches d) (leaves w)) (defs_of e n) \<and>
     list_all is_primitive (leaves w) \<and> list_all (scheme_ok e k) (leaves w))"

fun clean :: "san_schema \<Rightarrow> jsstr list \<Rightarrow> hast \<Rightarrow> bool"
  and cleans :: "san_schema \<Rightarrow> jsstr list \<Rightarrow> hast list \<Rightarrow> bool" where
  "clean e st (HElement n ps cs c) \<longleftrightarrow> tag_allowed e st n \<and> list_all (property_ok e n) ps \<and>
     cleans e (st @ [n]) cs \<and> c = None"
| "clean e st (HRoot cs) \<longleftrightarrow> cleans e st cs"
| "clean e st (HText v) \<longleftrightarrow> True"
| "clean e st (HComment v) \<longleftrightarrow> allowComments e"
| "clean e st HDoctype \<longleftrightarrow> allowDoctypes e"
| "clean e st (HRaw v) \<longleftrightarrow> False"
| "clean e st (HOther t cs) \<longleftrightarrow> False"
| "cleans e st [] \<longleftrightarrow> True"
| "cleans e st (c # cs) \<longleftrightarrow> clean e st c \<and> cleans e st cs"

lemma cleans_append [simp]: "cleans e st (xs @ ys) \<longleftrightarrow> cleans e st xs \<and> cleans e st ys"
  by (induction xs) auto

text \<open>
  What is asked of a schema: no prefix is put before names, the elements another element needs
  above it are never removed, protocols are words of scheme characters, and what the schema
  requires it also allows.
\<close>

definition no_prefix :: "san_schema \<Rightarrow> bool" where
  "no_prefix e \<longleftrightarrow> clobber e = None \<or> clobberPrefix e = None \<or> clobberPrefix e = Some []"

definition values_of :: "(jsstr \<times> 'v) list option \<Rightarrow> (jsstr \<times> 'v) list" where
  "values_of f = (case f of Some xs \<Rightarrow> xs | None \<Rightarrow> [])"

definition schema_ok :: "san_schema \<Rightarrow> bool" where
  "schema_ok e \<longleftrightarrow> no_prefix e \<and>
     list_all (\<lambda>(n, as). list_all (tag_allowed e []) as) (values_of (ancestors e)) \<and>
     list_all (\<lambda>(k, ps). list_all (list_all scheme_char) ps) (values_of (protocols e)) \<and>
     list_all (\<lambda>(n, rs). list_all (\<lambda>(k, v). property_value e n k v = Some v) rs) (values_of (required e))"

lemma own_values: "own f k = Some v \<Longrightarrow> (k, v) \<in> set (values_of f)"
  by (auto simp: own_def values_of_def split: option.splits dest: map_of_SomeD)

lemma clobbered_same: "no_prefix e \<Longrightarrow> clobbered e k v = v"
  by (auto simp: no_prefix_def clobbered_def split: option.splits)

lemma tag_allowed_mono: "tag_allowed e [] a \<Longrightarrow> tag_allowed e st a"
  by (auto simp: tag_allowed_def list_ex_iff split: option.splits)

section \<open>Properties that stay\<close>

lemma Hb_loop_fits:
  "Hb_loop ds t n = Some d \<Longrightarrow> (d \<in> set ds \<and> def_fits t d) \<or> n = Some d \<and> 4 < length t \<and> ascii_lower (take 4 t) = js ''data''"
  by (induction ds arbitrary: n) (auto simp: def_fits_def split: if_splits)

lemma Hb_fits: "Hb ds t = Some d \<Longrightarrow> d \<in> set (case ds of Some xs \<Rightarrow> xs | None \<Rightarrow> []) \<and> def_fits t d"
  using Hb_loop_fits [of "case ds of Some xs \<Rightarrow> xs | None \<Rightarrow> []" t None d] by (simp add: Hb_def)

lemma zb_Some:
  assumes "no_prefix e" and "zb e d k v = Some w"
  shows "w = v \<and> is_primitive v \<and> safeProtocol e k (value_string v) \<and> def_matches d v"
  using assms by (auto simp: zb_def clobbered_same split: if_splits)

lemma zb_list_members:
  assumes "no_prefix e" and "u \<in> set (zb_list e d k vs)"
  shows "zb e d k u = Some u \<and> ((\<exists>s. u = HStr s) \<or> (\<exists>s. u = HNum s))"
  using assms(2) by (induction vs) (auto split: option.splits hvalue.splits dest: zb_Some [OF assms(1)])

lemma zb_list_same:
  "(\<And>u. u \<in> set vs \<Longrightarrow> zb e d k u = Some u \<and> ((\<exists>s. u = HStr s) \<or> (\<exists>s. u = HNum s))) \<Longrightarrow> zb_list e d k vs = vs"
  by (induction vs) force+

lemma Fb_Some:
  assumes "no_prefix e" and "Fb e d k v = Some w"
  shows "\<exists>d'. d = Some d' \<and> (\<forall>u \<in> set (leaves w). zb e d' k u = Some u)"
    and "Fb e d k w = Some w" and "\<nexists>vs. v = HArr vs \<Longrightarrow> w = v"
proof -
  obtain d' where d: "d = Some d'" "\<not> names_nothing d'"
    using assms(2) by (auto simp: Fb_def split: option.splits if_splits)
  have "(\<forall>u \<in> set (leaves w). zb e d' k u = Some u) \<and> Fb e d k w = Some w \<and> ((\<nexists>vs. v = HArr vs) \<longrightarrow> w = v)"
  proof (cases "\<exists>vs. v = HArr vs")
    case True
    then obtain vs where v: "v = HArr vs" by blast
    then have "w = HArr (zb_list e d' k vs)" using assms(2) d by (simp add: Fb_def)
    then show ?thesis using zb_list_members [OF assms(1), of _ d' k vs]
        zb_list_same [of "zb_list e d' k vs" e d' k] d v by (auto simp: Fb_def)
  next
    case False
    then have "zb e d' k v = Some w" using assms(2) d by (auto simp: Fb_def split: hvalue.splits)
    moreover from this have "w = v" "is_primitive v" using zb_Some [OF assms(1)] by blast+
    ultimately show ?thesis using d by (cases v) (auto simp: Fb_def)
  qed
  then show "\<exists>d'. d = Some d' \<and> (\<forall>u \<in> set (leaves w). zb e d' k u = Some u)"
    "Fb e d k w = Some w" "\<nexists>vs. v = HArr vs \<Longrightarrow> w = v"
    using d by auto
qed

text \<open>The value of a kept property is kept unchanged.\<close>

lemma property_value_again:
  assumes "no_prefix e" and "property_value e n k v = Some w"
  shows "property_value e n k w = Some w"
proof (cases "Fb e (Hb (own (attributes e) n) k) k v")
  case (Some w')
  then have "w' = w" using assms(2) by (simp add: property_value_def)
  then show ?thesis using Fb_Some(2) [OF assms(1) Some] by (simp add: property_value_def)
next
  case None
  then have w: "Fb e (Hb (own (attributes e) (js ''*'')) k) k v = Some w"
    using assms(2) by (simp add: property_value_def)
  show ?thesis
  proof (cases "\<exists>vs. v = HArr vs")
    case True
    then have "Fb e (Hb (own (attributes e) n) k) k w = None"
      using None by (auto simp: Fb_def split: option.splits if_splits)
    then show ?thesis using Fb_Some(2) [OF assms(1) w] by (simp add: property_value_def)
  next
    case False
    then have "w = v" using Fb_Some(3) [OF assms(1) w] by blast
    then show ?thesis using assms(2) by simp
  qed
qed

lemma kept_properties_again:
  "no_prefix e \<Longrightarrow> kept_properties e n (kept_properties e n ps) = kept_properties e n ps"
  by (induction ps rule: kept_properties.induct)
    (auto split: option.splits dest: property_value_again)

lemma kept_properties_append:
  "kept_properties e n (ps @ qs) = kept_properties e n ps @ kept_properties e n qs"
  by (induction ps rule: kept_properties.induct) (auto split: option.splits)

lemma kept_properties_required:
  "(\<And>k v. (k, v) \<in> set rs \<Longrightarrow> property_value e n k v = Some v) \<Longrightarrow> kept_properties e n rs = rs"
  by (induction rs rule: kept_properties.induct) (auto split: option.splits)

lemma san_properties_again:
  assumes "schema_ok e"
  shows "san_properties e n (san_properties e n ps) = san_properties e n ps"
proof (cases "own (required e) n")
  case None
  then show ?thesis using kept_properties_again assms by (simp add: san_properties_def schema_ok_def)
next
  case (Some rs)
  let ?l = "kept_properties e n ps"
  let ?r = "filter (\<lambda>(k, v). k \<notin> fst ` set ?l) rs"
  have ok: "property_value e n k v = Some v" if "(k, v) \<in> set rs" for k v
    using own_values [OF Some] assms that by (fastforce simp: schema_ok_def list_all_iff)
  have "kept_properties e n ?r = ?r" by (rule kept_properties_required) (auto intro: ok)
  then have "kept_properties e n (?l @ ?r) = ?l @ ?r"
    using kept_properties_again assms by (simp add: kept_properties_append schema_ok_def)
  moreover have "k \<in> fst ` set (?l @ ?r)" if "(k, v) \<in> set rs" for k v
  proof (cases "k \<in> fst ` set ?l")
    case False
    then have "(k, v) \<in> set (?l @ ?r)" using that by simp
    then show ?thesis using image_eqI [of k fst "(k, v)"] by simp
  qed (simp add: image_Un)
  then have "filter (\<lambda>(k, v). k \<notin> fst ` set (?l @ ?r)) rs = []"
    by (simp only: filter_empty_conv split_beta) (metis prod.collapse)
  ultimately show ?thesis using Some by (simp add: san_properties_def Let_def)
qed

lemma leaf_ok:
  assumes "schema_ok e" and "zb e d k u = Some u"
  shows "is_primitive u \<and> def_matches d u \<and> scheme_ok e k u"
proof -
  have z: "is_primitive u" "safeProtocol e k (value_string u)" "def_matches d u"
    using assms zb_Some [of e d k u u] by (auto simp: schema_ok_def)
  have "sc \<in> set (map ascii_lower ps)"
    if ps: "own (protocols e) k = Some ps" "ps \<noteq> []" "url_scheme (value_string u) = Some sc" for ps sc
  proof -
    have "list_all (list_all scheme_char) ps"
      using own_values [OF ps(1)] assms(1) by (force simp: schema_ok_def list_all_iff)
    then show ?thesis using safe_scheme [OF z(2) ps(1,2) _ ps(3)] by auto
  qed
  then show ?thesis using z by (auto simp: scheme_ok_def split: option.splits)
qed

lemma property_value_ok:
  assumes "schema_ok e" and "property_value e n k v = Some w"
  shows "property_ok e n (k, w)"
proof -
  have np: "no_prefix e" using assms(1) by (simp add: schema_ok_def)
  obtain t where t: "Fb e (Hb (own (attributes e) t) k) k v = Some w" "t = n \<or> t = js ''*''"
    using assms(2) by (auto simp: property_value_def split: option.splits)
  obtain d where d: "Hb (own (attributes e) t) k = Some d" "\<And>u. u \<in> set (leaves w) \<Longrightarrow> zb e d k u = Some u"
    using Fb_Some(1) [OF np t(1)] by blast
  then have "d \<in> set (defs_of e n)" "def_fits k d"
    using Hb_fits [OF d(1)] t(2) by (auto simp: defs_of_def)
  then show ?thesis using leaf_ok [OF assms(1) d(2)]
    by (auto simp: property_ok_def list_all_iff list_ex_iff)
qed

lemma san_properties_ok:
  assumes "schema_ok e"
  shows "list_all (property_ok e n) (san_properties e n ps)"
proof -
  have "list_all (property_ok e n) (kept_properties e n ps)"
    by (induction ps) (auto split: option.splits intro: property_value_ok [OF assms])
  then show ?thesis
    by (auto simp: san_properties_def Let_def list_all_iff property_ok_def split: option.splits)
qed

section \<open>Trees\<close>

text \<open>
  The stack of the elements of the result above a node holds every element of the input above it
  that is never removed.
\<close>

definition stacks :: "san_schema \<Rightarrow> jsstr list \<Rightarrow> jsstr list \<Rightarrow> bool" where
  "stacks e st out \<longleftrightarrow> (\<forall>a \<in> set st. tag_allowed e [] a \<longrightarrow> a \<in> set out)"

lemma stacks_allowed:
  assumes "schema_ok e" and "stacks e st out" and "tag_allowed e st n"
  shows "tag_allowed e out n"
proof (cases "own (ancestors e) n")
  case None
  then show ?thesis using assms(3) by (simp add: tag_allowed_def)
next
  case (Some as)
  obtain a where a: "a \<in> set as" "a \<in> set st"
    using assms(3) Some by (auto simp: tag_allowed_def list_ex_iff)
  have "tag_allowed e [] a"
    using own_values [OF Some] a(1) assms(1) by (auto simp: schema_ok_def list_all_iff)
  then have "a \<in> set out" using a(2) assms(2) by (simp add: stacks_def)
  then show ?thesis using assms(3) Some a(1) by (auto simp: tag_allowed_def list_ex_iff)
qed

lemma Qb_append: "Qb e st (xs @ ys) = Qb e st xs @ Qb e st ys"
  by (induction xs) auto

lemma stacks_simps:
  "stacks e st out \<Longrightarrow> stacks e (st @ [n]) (out @ [n])"
  "stacks e st out \<Longrightarrow> \<not> tag_allowed e st n \<Longrightarrow> stacks e (st @ [n]) out"
  using tag_allowed_mono by (auto simp: stacks_def)

lemma Ub_clean:
  "schema_ok e \<Longrightarrow> stacks e st out \<Longrightarrow> cleans e out (Ub e st t)"
  "schema_ok e \<Longrightarrow> stacks e st out \<Longrightarrow> cleans e out (Qb e st ts)"
proof (induction e st t and e st ts arbitrary: out and out rule: Ub_Qb.induct)
  case (3 e st n ps cs c)
  show ?case
  proof (cases "tag_allowed e st n")
    case True
    then show ?thesis
      using "3.IH" [OF "3.prems"(1) stacks_simps(1) [OF "3.prems"(2)]] stacks_allowed [OF "3.prems" True]
        san_properties_ok [OF "3.prems"(1)] by (simp add: Let_def)
  next
    case False
    then show ?thesis using "3.IH" [OF "3.prems"(1) stacks_simps(2) [OF "3.prems"(2) False]]
      by (auto simp: Let_def split: option.splits)
  qed
qed auto

lemma startsWith_take: "startsWith (take n s) p \<Longrightarrow> startsWith s p"
  by (metis append_assoc append_take_drop_id startsWith_iff)

lemma index_of_take: "index_of p v = Some n \<Longrightarrow> p \<noteq> [] \<Longrightarrow> index_of p (take n v) = None"
proof (induction v arbitrary: n)
  case (Cons c s)
  then show ?case using startsWith_take [of n "c # s" p] by (cases n) (auto split: if_splits)
qed simp

lemma comment_value_again: "comment_value (comment_value v) = comment_value v"
  using index_of_take [of "js ''-->''" v] by (auto simp: comment_value_def js_def split: option.splits)

lemma Ub_again:
  "schema_ok e \<Longrightarrow> stacks e st out \<Longrightarrow> Qb e out (Ub e st t) = Ub e st t"
  "schema_ok e \<Longrightarrow> stacks e st out \<Longrightarrow> Qb e out (Qb e st ts) = Qb e st ts"
proof (induction e st t and e st ts arbitrary: out and out rule: Ub_Qb.induct)
  case (3 e st n ps cs c)
  show ?case
  proof (cases "tag_allowed e st n")
    case True
    then show ?thesis
      using "3.IH" [OF "3.prems"(1) stacks_simps(1) [OF "3.prems"(2)]] stacks_allowed [OF "3.prems" True]
        san_properties_again [OF "3.prems"(1)] by (simp add: Let_def)
  next
    case False
    then show ?thesis using "3.IH" [OF "3.prems"(1) stacks_simps(2) [OF "3.prems"(2) False]]
      by (auto simp: Let_def split: option.splits)
  qed
qed (auto simp: comment_value_again Qb_append)

section \<open>The markdown pipeline\<close>

lemma Vb_clean: "schema_ok e \<Longrightarrow> clean e [] (Vb e t)"
  using Ub_clean(1) [of e "[]" "[]" t] by (auto simp: Vb_def stacks_def split: list.splits)

lemma Vb_again: "schema_ok e \<Longrightarrow> Vb e (Vb e t) = Vb e t"
  using Ub_again(1) [of e "[]" "[]" t] by (auto simp: Vb_def stacks_def split: list.splits)

lemma markdown_tag:
  "own (ancestors (markdown_schema rm al)) n = None \<Longrightarrow> n \<in> set default_tagNames \<Longrightarrow> n \<notin> set rm \<Longrightarrow>
   n \<noteq> [] \<Longrightarrow> n \<noteq> js ''*'' \<Longrightarrow> tag_allowed (markdown_schema rm al) st n"
  by (simp add: tag_allowed_def markdown_schema_def)

lemma schema_ok_markdown:
  assumes "js ''table'' \<notin> set rm"
  shows "schema_ok (markdown_schema rm al)"
proof -
  let ?e = "markdown_schema rm al"
  have "js ''table'' \<in> set default_tagNames" by (simp add: default_tagNames_def)
  moreover have "own (ancestors ?e) (js ''table'') = None"
    by (simp add: markdown_schema_def jb_def own_def js_def)
  ultimately have t: "tag_allowed ?e [] (js ''table'')"
    using markdown_tag assms by (simp add: js_def)
  have r: "property_value ?e (js ''input'') (js ''disabled'') (HBool True) = Some (HBool True)"
    "property_value ?e (js ''input'') (js ''type'') (HStr (js ''checkbox'')) = Some (HStr (js ''checkbox''))"
    by (simp_all add: property_value_def markdown_schema_def default_attributes_def own_def Hb_def Fb_def zb_def
        safeProtocol_def jb_def strict_equal_def clobbered_def js_def)
  show ?thesis using t r
    by (simp add: schema_ok_def no_prefix_def values_of_def markdown_schema_def jb_def)
      (simp add: js_def scheme_char_def is_az_def)
qed


text \<open>A link whose scheme is hidden behind a tab, in a page with a script.\<close>

definition sample_page :: hast where
  "sample_page = HRoot [
     HElement (js ''a'') [(js ''href'', HStr (9 # js ''javascript:alert(1)''))] [HText (js ''x'')] None,
     HElement (js ''script'') [] [HText (js ''alert(1)'')] None]"

lemma sample_page_sanitized:
  "Vb (markdown_schema [] []) sample_page = HRoot [HElement (js ''a'') [] [HText (js ''x'')] None]"
proof -
  let ?e = "markdown_schema [] []"
  have a: "tag_allowed ?e [] (js ''a'')" "\<not> tag_allowed ?e [] (js ''script'')"
    by (simp_all add: tag_allowed_def markdown_schema_def jb_def own_def js_def default_tagNames_def)
  have s: "\<not> safeProtocol ?e (js ''href'') (9 # js ''javascript:alert(1)'')"
    by (simp add: safeProtocol_def markdown_schema_def jb_def own_def js_def startsWith_def later_def)
  have p: "property_value ?e (js ''a'') (js ''href'') (HStr (9 # js ''javascript:alert(1)'')) = None"
    using s by (simp add: property_value_def Fb_def zb_def split: option.splits)
  have "san_properties ?e (js ''a'') [(js ''href'', HStr (9 # js ''javascript:alert(1)''))] = []"
    using p by (simp add: san_properties_def) (simp add: own_def markdown_schema_def jb_def js_def)
  then show ?thesis using a
    by (simp add: sample_page_def Vb_def Let_def) (simp add: markdown_schema_def jb_def)
qed


text \<open>
  C15. The sanitizer of the markdown pipeline is idempotent, where \<open>table\<close> is not among the removed
  tags: running it on its result changes nothing.
\<close>

theorem markdown_sanitizer_idempotent:
  assumes "js ''table'' \<notin> set removeTags"
  shows "Vb (markdown_schema removeTags allowTags) (Vb (markdown_schema removeTags allowTags) t) =
     Vb (markdown_schema removeTags allowTags) t"
  by (rule Vb_again [OF schema_ok_markdown [OF assms]])

theorem markdown_sanitizer_idempotent_witness:
  "js ''table'' \<notin> set [] \<and>
   Vb (markdown_schema [] []) (Vb (markdown_schema [] []) sample_page) = Vb (markdown_schema [] []) sample_page"
  using markdown_sanitizer_idempotent [of "[]" "[]" sample_page] by simp

text \<open>
  A value that passes the protocol test of the sanitizer has, as a browser reads it, no scheme or
  one of the listed ones, although the test looks at the bare text: leading white space, control
  characters, tabs and line breaks that a browser drops do not hide a scheme from it.
\<close>

theorem passing_value_has_listed_scheme:
  assumes "safeProtocol e k v" and "own (protocols e) k = Some ps" and "ps \<noteq> []"
    and "list_all (list_all scheme_char) ps" and "url_scheme v = Some sc"
  shows "sc \<in> set (map ascii_lower ps)"
  using safe_scheme [OF assms] by auto

theorem passing_value_has_listed_scheme_witness:
  "safeProtocol jb (js ''src'') (js ''https://a'') \<and> url_scheme (js ''https://a'') = Some (js ''https'') \<and>
   js ''https'' \<in> set (map ascii_lower (map js [''http'', ''https'']))"
proof -
  have s: "safeProtocol jb (js ''src'') (js ''https://a'')"
    by (simp add: safeProtocol_def jb_def own_def js_def startsWith_def later_def)
  have p: "own (protocols jb) (js ''src'') = Some (map js [''http'', ''https''])"
    by (simp add: jb_def own_def js_def)
  have l: "list_all (list_all scheme_char) (map js [''http'', ''https''])"
    by (simp add: js_def scheme_char_def is_az_def)
  have u: "url_scheme (js ''https://a'') = Some (js ''https'')"
    by (simp add: url_scheme_def url_clean_def js_def Let_def scheme_char_def is_az_def is_AZ_def ascii_lower_def)
  show ?thesis using passing_value_has_listed_scheme [OF s p _ l u] s u by simp
qed

end
