(* ===== verification/Hast_Stringify_Sound.thy ===== *)
theory Hast_Stringify_Sound
  imports Hast_Stringify Hast_Data
begin

text \<open>
  What the HTML writer guarantees with the settings of the markdown pipeline: it throws for no tree
  of known nodes, a scanner that respects quotes finds only the tags of the tree in its output,
  and the values of attributes can be read back.
\<close>

section \<open>Descriptions exist\<close>

lemma normal_described:
  assumes "map_of (s_normal (merge_schemas (map create ds) sp)) k = Some r"
  shows "map_of (s_property (merge_schemas (map create ds) sp)) r \<noteq> None"
proof -
  obtain d where d: "d \<in> set ds" "(k, r) \<in> set (s_normal (create d))"
    using map_of_SomeD [OF assms] by (auto simp: merge_fields)
  then obtain p where "p \<in> set (d_properties d)" "r = fst p" by (auto simp: create_normal)
  then have "r \<in> fst ` set (s_property (create d))" by (force simp: create_property)
  then have "r \<in> fst ` set (s_property (merge_schemas (map create ds) sp))"
    using d(1) by (auto simp: merge_fields image_Union)
  then show ?thesis by (simp add: map_of_eq_None_iff)
qed

text \<open>A name of ASCII characters that no plain object inherits.\<close>

definition plain_name :: "jsstr \<Rightarrow> bool" where
  "plain_name k \<longleftrightarrow> ascii k \<and> ascii_lower k \<notin> set object_prototype"

lemma Lf_described:
  assumes "lowers_ascii low" and "plain_name k" and "sch \<in> {Uf, Qf}"
  shows "\<exists>i li'. Lf low sch k li = (Some i, li')"
proof -
  have n: "low k = ascii_lower k" "ascii_lower k \<notin> set object_prototype"
    using assms(1,2) by (simp_all add: lowers_ascii_def plain_name_def)
  have "map_of (s_property sch) r \<noteq> None" if "map_of (s_normal sch) (ascii_lower k) = Some r" for r
    using assms(3) that normal_described unfolding Uf_def Qf_def by blast
  then show ?thesis using n by (auto simp: Lf_def Let_def split: option.splits prod.splits bool.splits)
qed

section \<open>A scanner that respects quotes\<close>

datatype scan_state = InText | InName jsstr | InTag | InQuote | InError

text \<open>
  Outside quotes a tag ends at the next greater-than sign. A single quote between attributes, which
  a browser could take for the start of a value, is an error.
\<close>

fun scan_step :: "scan_state \<Rightarrow> nat \<Rightarrow> scan_state \<times> jsstr list" where
  "scan_step InText c = (if c = 60 then (InName [], []) else (InText, []))"
| "scan_step (InName n) c =
     (if c = 62 then (InText, [n]) else if html_space c then (InTag, [n])
      else if c = 34 \<or> c = 39 \<or> c = 60 then (InError, []) else (InName (n @ [c]), []))"
| "scan_step InTag c =
     (if c = 62 then (InText, []) else if c = 34 then (InQuote, [])
      else if c = 39 \<or> c = 60 then (InError, []) else (InTag, []))"
| "scan_step InQuote c = (if c = 34 then (InTag, []) else (InQuote, []))"
| "scan_step InError c = (InError, [])"

fun scan :: "scan_state \<Rightarrow> jsstr \<Rightarrow> scan_state \<times> jsstr list" where
  "scan st [] = (st, [])"
| "scan st (c # s) =
     (case scan_step st c of (st', ns) \<Rightarrow> case scan st' s of (st'', ms) \<Rightarrow> (st'', ns @ ms))"

lemma scan_append:
  "scan st (s @ t) = (case scan st s of (st', ns) \<Rightarrow> case scan st' t of (st'', ms) \<Rightarrow> (st'', ns @ ms))"
  by (induction s arbitrary: st) (auto split: prod.splits)

lemma scan_comp: "scan st s = (st', a) \<Longrightarrow> scan st' t = (st'', b) \<Longrightarrow> scan st (s @ t) = (st'', a @ b)"
  by (simp add: scan_append)

lemma scan_text: "60 \<notin> set s \<Longrightarrow> scan InText s = (InText, [])"
  by (induction s) auto

lemma scan_tag: "set s \<inter> {62, 34, 39, 60} = {} \<Longrightarrow> scan InTag s = (InTag, [])"
  by (induction s) auto

lemma scan_quote: "34 \<notin> set s \<Longrightarrow> scan InQuote s = (InQuote, [])"
  by (induction s) auto

definition name_char :: "nat \<Rightarrow> bool" where
  "name_char c \<longleftrightarrow> \<not> html_space c \<and> c \<noteq> 62 \<and> c \<noteq> 34 \<and> c \<noteq> 39 \<and> c \<noteq> 60"

lemma scan_name: "list_all name_char s \<Longrightarrow> scan (InName n) s = (InName (n @ s), [])"
  by (induction s arbitrary: n) (auto simp: name_char_def)

section \<open>Attributes\<close>

lemma default_options [simp]:
  "numeric ((characterReferences (default_settings low))\<lparr>subset := cs\<rparr>)"
  "numeric ((characterReferences (default_settings low))\<lparr>subset := cs, attribute_mode := b\<rparr>)"
  "\<not> omitOptionalSemicolons ((characterReferences (default_settings low))\<lparr>subset := cs\<rparr>)"
  "\<not> omitOptionalSemicolons ((characterReferences (default_settings low))\<lparr>subset := cs, attribute_mode := b\<rparr>)"
  by (simp_all add: default_settings_def no_options_def numeric_def)

lemma cy_absent:
  assumes "numeric n" and "subset n = Some cs" and "u \<in> set cs" and "u \<in> {34, 39, 60, 62}"
  shows "u \<notin> set (cy s n)"
  using replaced_absent [OF assms(1), of "\<lambda>u. u \<in> set cs" u s] assms(2-4)
  by (auto simp: cy_def Kb_def is_hex_digit_def is_digit_def)

lemma quoted_default:
  "quoted_value (default_settings low) sch v =
     34 # cy v ((characterReferences (default_settings low))\<lparr>subset := Some [0, 34, 38, 39, 96], attribute_mode := True\<rparr>) @ [34]"
  by (simp add: quoted_value_def default_settings_def strictness_def double_subset_def Let_def)

lemma scan_attribute: "scan InTag (attribute_text (default_settings low) sch r v) = (InTag, [])"
proof -
  let ?e = "default_settings low"
  let ?l = "cy (attribute r) ((characterReferences ?e)\<lparr>subset :=
      Some (name_subset (strictness ?e sch) (\<not> allowDangerousCharacters ?e))\<rparr>)"
  have "u \<notin> set ?l" if "u \<in> {62, 34, 39, 60}" for u
    using that by (intro cy_absent) (auto simp: default_settings_def strictness_def name_subset_def no_options_def numeric_def)
  then have l: "scan InTag ?l = (InTag, [])" by (intro scan_tag) auto
  have b: "34 \<notin> set (cy w ((characterReferences ?e)\<lparr>subset := Some [0, 34, 38, 39, 96], attribute_mode := True\<rparr>))" for w
    using cy_absent [of "(characterReferences ?e)\<lparr>subset := Some [0, 34, 38, 39, 96], attribute_mode := True\<rparr>"
        "[0, 34, 38, 39, 96]" 34 w] by simp
  have "scan InTag (61 # quoted_value ?e sch w) = (InTag, [])" for w
    using scan_quote [OF b [of w]] by (simp add: quoted_default scan_append)
  moreover have "preferUnquoted ?e = False" "collapseEmptyAttributes ?e = False" by (simp_all add: default_settings_def)
  ultimately show ?thesis using l
    by (simp add: attribute_text_def Let_def scan_append quoted_default)
qed

lemma attributes_written:
  assumes "lowers_ascii low" and "sch \<in> {Uf, Qf}" and "list_all (\<lambda>(k, v). plain_name k) ps"
  shows "\<exists>as li'. attribute_texts (default_settings low) sch ps li = Inr (as, li') \<and>
     list_all (\<lambda>a. scan InTag a = (InTag, [])) as"
  using assms(3)
proof (induction ps arbitrary: li)
  case (Cons p ps)
  obtain k v where p: "p = (k, v)" by fastforce
  show ?case
  proof (cases "v = HNull")
    case True
    then show ?thesis using Cons p by simp
  next
    case False
    have "plain_name k" using Cons.prems p by simp
    then obtain i li1 where i: "Lf low sch k li = (Some i, li1)" using Lf_described [OF assms(1) _ assms(2)] by blast
    moreover obtain as li2 where "attribute_texts (default_settings low) sch ps li1 = Inr (as, li2)"
      "list_all (\<lambda>a. scan InTag a = (InTag, [])) as" using Cons.IH Cons.prems p by fastforce
    moreover have "lowercase (default_settings low) = low" by (simp add: default_settings_def)
    ultimately show ?thesis using False p scan_attribute by (simp add: Ey_def)
  qed
qed simp

lemma scan_spaced:
  "list_all (\<lambda>a. scan InTag a = (InTag, [])) as \<Longrightarrow> scan InTag (space_attributes (default_settings low) as) = (InTag, [])"
  by (induction as rule: induct_list012) (auto simp: scan_append default_settings_def)

section \<open>Trees\<close>

text \<open>Trees of texts and of elements with listed names and plain property names.\<close>

fun tags_ok :: "jsstr list \<Rightarrow> hast \<Rightarrow> bool" and tags_oks :: "jsstr list \<Rightarrow> hast list \<Rightarrow> bool" where
  "tags_ok ns (HElement n ps cs c) \<longleftrightarrow> n \<in> set ns \<and> list_all (\<lambda>(k, v). plain_name k) ps \<and> tags_oks ns cs \<and> c = None"
| "tags_ok ns (HRoot cs) \<longleftrightarrow> tags_oks ns cs"
| "tags_ok ns (HText v) \<longleftrightarrow> True"
| "tags_ok ns h \<longleftrightarrow> False"
| "tags_oks ns [] \<longleftrightarrow> True"
| "tags_oks ns (c # cs) \<longleftrightarrow> tags_ok ns c \<and> tags_oks ns cs"

text \<open>Names that are written as they are, none of which holds raw text.\<close>

definition writable_names :: "jsstr list \<Rightarrow> bool" where
  "writable_names ns \<longleftrightarrow> list_all (\<lambda>n. n \<noteq> [] \<and> list_all name_char n) ns \<and>
     js ''script'' \<notin> set ns \<and> js ''style'' \<notin> set ns"

definition tag_texts :: "jsstr list \<Rightarrow> jsstr set" where
  "tag_texts ns = set ns \<union> (\<lambda>n. 47 # n) ` set ns"

definition plain_parent :: "hast option \<Rightarrow> bool" where
  "plain_parent p \<longleftrightarrow> \<not> some_and (is_element [''script'', ''style'']) p"

lemma scan_text_node: "plain_parent p \<Longrightarrow> scan InText (Cy (default_settings low) p v) = (InText, [])"
proof -
  assume "plain_parent p"
  moreover have "60 \<notin> set (cy v ((characterReferences (default_settings low))\<lparr>subset := Some [60, 38]\<rparr>))"
    using cy_absent [of "(characterReferences (default_settings low))\<lparr>subset := Some [60, 38]\<rparr>" "[60, 38]" 60 v]
    by simp
  ultimately show ?thesis by (simp add: Cy_def plain_parent_def scan_text)
qed

lemma scan_element:
  assumes "list_all name_char n" and "scan InTag c = (InTag, [])" and "scan InText u = (InText, ts)"
    and "set ts \<subseteq> T" and "n \<in> T" and "47 # n \<in> T" and "h = HElement n ps cs ct"
  shows "\<exists>ts'. scan InText (element_html (default_settings low) sch h t p c u) = (InText, ts') \<and> set ts' \<subseteq> T"
proof -
  let ?o = "60 # n @ (if c = [] then [] else 32 # c) @ [62]"
  have o: "scan InText ?o = (InText, [n])"
    using scan_name [OF assms(1), of "[]"] assms(2) by (simp add: scan_append html_space_def)
  have "list_all name_char (47 # n)" using assms(1) by (simp add: name_char_def html_space_def)
  then have c: "scan InText (js ''</'' @ n @ [62]) = (InText, [47 # n])"
    using scan_name [of "47 # n" "[]"] by (simp add: scan_append js_def html_space_def)
  have "\<exists>b. element_html (default_settings low) sch h t p c u = ?o @ u @ (if b then [] else js ''</'' @ n @ [62])"
    by (auto simp: element_html_def Let_def tag_of_def assms(7) default_settings_def)
  then obtain b where "element_html (default_settings low) sch h t p c u = ?o @ u @ (if b then [] else js ''</'' @ n @ [62])" ..
  moreover have "scan InText (?o @ u @ (if b then [] else js ''</'' @ n @ [62])) =
      (InText, [n] @ ts @ (if b then [] else [47 # n]))"
    by (rule scan_comp [OF o scan_comp [OF assms(3)]]) (use c in auto)
  ultimately show ?thesis using assms(4-6) by auto
qed

lemma writer_sound:
  assumes "lowers_ascii low" and "writable_names ns"
  shows "tags_ok ns h \<Longrightarrow> sch \<in> {Uf, Qf} \<Longrightarrow> plain_parent p \<Longrightarrow>
      \<exists>s li' ts. one (default_settings low) sch h t p li = Inr (s, li') \<and> scan InText s = (InText, ts) \<and> set ts \<subseteq> tag_texts ns"
    and "tags_oks ns hs \<Longrightarrow> sch \<in> {Uf, Qf} \<Longrightarrow> plain_parent p \<Longrightarrow>
      \<exists>s li' ts. all_from (default_settings low) sch hs t p li = Inr (s, li') \<and> scan InText s = (InText, ts) \<and> set ts \<subseteq> tag_texts ns"
proof (induction h and hs arbitrary: sch p t li and sch p t li rule: hast_induct)
  case (Root cs)
  then show ?case by (simp add: plain_parent_def some_and_def is_element_def)
next
  case (Element n ps cs ct)
  let ?sch = "inner_schema sch n"
  have n: "n \<in> set ns" "ct = None" "tags_oks ns cs" "list_all (\<lambda>(k, v). plain_name k) ps"
    using Element.prems(1) by auto
  have sch: "?sch \<in> {Uf, Qf}" using Element.prems(2) by (auto simp: inner_schema_def)
  have nm: "list_all name_char n" "n \<noteq> js ''script''" "n \<noteq> js ''style''"
    using assms(2) n(1) by (auto simp: writable_names_def list_all_iff)
  then have pp: "plain_parent (Some (HElement n ps cs ct))"
    by (simp add: plain_parent_def some_and_def is_element_def)
  obtain as li1 where as: "attribute_texts (default_settings low) ?sch ps li = Inr (as, li1)"
    "scan InTag (space_attributes (default_settings low) as) = (InTag, [])"
    using attributes_written [OF assms(1) sch n(4)] scan_spaced by blast
  have T: "n \<in> tag_texts ns" "47 # n \<in> tag_texts ns" using n(1) by (auto simp: tag_texts_def)
  obtain us li2 ts where us: "all_from (default_settings low) ?sch cs 0 (Some (HElement n ps cs ct)) li1 = Inr (us, li2)"
    "scan InText us = (InText, ts)" "set ts \<subseteq> tag_texts ns"
    using Element.IH(1) [OF n(3) sch pp] by blast
  have e: "scan InText [] = (InText, [])" "set [] \<subseteq> tag_texts ns" by simp_all
  show ?case
  proof (cases "s_space sch = Some (js ''html'') \<and> n = js ''template''")
    case True
    then show ?thesis
      using as(1) n(2) scan_element [OF nm(1) as(2) e T refl, where sch = sch and t = t and p = p and ps = ps and cs = cs and ct = ct]
      by (auto simp: Let_def)
  next
    case False
    then show ?thesis
      using as(1) us(1) scan_element [OF nm(1) as(2) us(2,3) T refl, where sch = sch and t = t and p = p and ps = ps and cs = cs and ct = ct]
      by (auto simp: Let_def)
  qed
next
  case (Cons c cs)
  obtain s1 li1 ts1 where 1: "one (default_settings low) sch c t p li = Inr (s1, li1)"
    "scan InText s1 = (InText, ts1)" "set ts1 \<subseteq> tag_texts ns"
    using Cons.IH(1) Cons.prems by fastforce
  obtain s2 li2 ts2 where 2: "all_from (default_settings low) sch cs (t + 1) p li1 = Inr (s2, li2)"
    "scan InText s2 = (InText, ts2)" "set ts2 \<subseteq> tag_texts ns"
    using Cons.IH(2) Cons.prems by fastforce
  show ?case using 1 2 by (simp add: scan_append)
qed (simp_all add: scan_text_node)

text \<open>
  The value of an attribute can be read back. With the settings of the markdown pipeline it is
  written between double quotes; the text between them has no double quote, and its references
  decode to the value.
\<close>

theorem attribute_value_round_trip:
  "\<exists>b. quoted_value (default_settings low) sch v = 34 # b @ [34] \<and> 34 \<notin> set b \<and> decode_references b = v"
proof -
  let ?n = "(characterReferences (default_settings low))\<lparr>subset := Some [0, 34, 38, 39, 96], attribute_mode := True\<rparr>"
  have "34 \<notin> set (cy v ?n)" using cy_absent [of ?n "[0, 34, 38, 39, 96]" 34 v] by simp
  moreover have "decode_references (cy v ?n) = v"
    using decode_replaced [of ?n "\<lambda>u. u \<in> set [0, 34, 38, 39, 96]" v] by (simp add: cy_def Kb_def)
  ultimately show ?thesis by (auto simp: quoted_default)
qed

end
