(* ===== verification/Hast_Format.thy ===== *)
theory Hast_Format
  imports Hast_Values
begin

text \<open>
  Three steps of the markdown pipeline of \<^verbatim>\<open>src/api/scalar.standalone.js\<close> that rewrite the tree:
  external links (\<open>Ph\<close>), white space that does not show (\<open>Zh\<close>) and indentation (\<open>of\<close>). They mutate the
  tree in the source and return the new tree here.
\<close>

section \<open>Tests on elements\<close>

text \<open>\<open>ch(e, names)\<close>.\<close>

definition has_tag :: "string list \<Rightarrow> hast \<Rightarrow> bool" where
  "has_tag ns h = (case h of HElement n ps cs c \<Rightarrow> n \<in> set (map js ns) | _ \<Rightarrow> False)"

definition embedded_names :: "string list" where
  "embedded_names = [''audio'', ''canvas'', ''embed'', ''iframe'', ''img'', ''math'', ''object'', ''picture'', ''svg'', ''video'']"

definition Rh :: "hast \<Rightarrow> bool" where "Rh h = has_tag embedded_names h"

definition phrasing_names :: "string list" where
  "phrasing_names = [''a'', ''abbr'', ''area'', ''b'', ''bdi'', ''bdo'', ''br'', ''button'', ''cite'', ''code'',
     ''data'', ''datalist'', ''del'', ''dfn'', ''em'', ''i'', ''input'', ''ins'', ''kbd'', ''keygen'', ''label'',
     ''map'', ''mark'', ''meter'', ''noscript'', ''output'', ''progress'', ''q'', ''ruby'', ''s'', ''samp'', ''script'',
     ''select'', ''small'', ''span'', ''strong'', ''sub'', ''sup'', ''template'', ''textarea'', ''time'', ''u'', ''var'', ''wbr'']"

definition Mh :: "hast \<Rightarrow> bool" where "Mh h = has_tag phrasing_names h"

definition hast_properties :: "hast \<Rightarrow> (jsstr \<times> hvalue) list" where
  "hast_properties h = (case h of HElement n ps cs c \<Rightarrow> ps | _ \<Rightarrow> [])"

definition truthy_property :: "string \<Rightarrow> hast \<Rightarrow> bool" where
  "truthy_property k h =
     (case map_of (hast_properties h) (js k) of Some v \<Rightarrow> truth v | None \<Rightarrow> False)"

text \<open>A link that may stand in the body: by \<open>itemProp\<close>, or by the values of \<open>rel\<close> (\<open>Nh\<close>).\<close>

definition body_ok_link :: "hast \<Rightarrow> bool" where
  "body_ok_link h \<longleftrightarrow> has_tag [''link''] h \<and>
     (truthy_property ''itemProp'' h \<or>
      (case map_of (hast_properties h) (js ''rel'') of
         Some (HArr vs) \<Rightarrow> vs \<noteq> [] \<and>
           list_all (\<lambda>v. value_string v \<in> set (map js [''pingback'', ''prefetch'', ''stylesheet''])) vs
       | _ \<Rightarrow> False))"

definition has_item_prop :: "hast \<Rightarrow> bool" where
  "has_item_prop h =
     (case map_of (hast_properties h) (js ''itemProp'') of
        Some v \<Rightarrow> v \<noteq> HNull \<and> v \<noteq> HBool False | None \<Rightarrow> False)"

definition is_text :: "hast \<Rightarrow> bool" where
  "is_text h = (case h of HText v \<Rightarrow> True | _ \<Rightarrow> False)"

text \<open>\<open>Lh\<close>: phrasing content.\<close>

definition Lh :: "hast \<Rightarrow> bool" where
  "Lh h \<longleftrightarrow> is_text h \<or> Mh h \<or> Rh h \<or> body_ok_link h \<or> has_tag [''meta''] h \<and> has_item_prop h"

section \<open>External links: \<open>Ph\<close>\<close>

text \<open>\<open>fh\<close>: a scheme and a colon; \<open>mh\<close>: a drive letter.\<close>

definition is_letter :: "nat \<Rightarrow> bool" where "is_letter u \<longleftrightarrow> is_az u \<or> is_AZ u"

definition link_scheme_char :: "nat \<Rightarrow> bool" where
  "link_scheme_char u \<longleftrightarrow> is_letter u \<or> (48 \<le> u \<and> u \<le> 57) \<or> u = 43 \<or> u = 45 \<or> u = 46"

definition fh_test :: "jsstr \<Rightarrow> bool" where
  "fh_test s = (case s of [] \<Rightarrow> False
     | c # r \<Rightarrow> is_letter c \<and> startsWith (dropWhile link_scheme_char r) [58])"

definition mh_test :: "jsstr \<Rightarrow> bool" where
  "mh_test s = (case s of c # d # b # r \<Rightarrow> is_letter c \<and> d = 58 \<and> b = 92 | _ \<Rightarrow> False)"

text \<open>The options that are values, not functions; \<open>content\<close> is not given.\<close>

record link_options =
  link_protocols :: "jsstr list"
  link_rel :: "jsstr list"
  link_target :: "jsstr option"
  link_properties :: "(jsstr \<times> hvalue) list"

text \<open>What the pipeline passes: \<open>{target: "_blank"}\<close>, with the defaults \<open>Th\<close> and \<open>Ch\<close>.\<close>

definition markdown_links :: link_options where
  "markdown_links = \<lparr>link_protocols = [js ''http'', js ''https''], link_rel = [js ''nofollow''],
     link_target = Some (js ''_blank''), link_properties = []\<rparr>"

definition is_external :: "link_options \<Rightarrow> jsstr \<Rightarrow> bool" where
  "is_external t r \<longleftrightarrow>
     (if \<not> mh_test r \<and> fh_test r
      then (case index_of (js '':'') r of Some i \<Rightarrow> take i r \<in> set (link_protocols t) | None \<Rightarrow> False)
      else startsWith r (js ''//''))"

text \<open>\<open>o[k] = v\<close> keeps the place of a key that exists.\<close>

fun set_property :: "jsstr \<Rightarrow> hvalue \<Rightarrow> (jsstr \<times> hvalue) list \<Rightarrow> (jsstr \<times> hvalue) list" where
  "set_property k v [] = [(k, v)]"
| "set_property k v ((k', v') # ps) = (if k' = k then (k, v) # ps else (k', v') # set_property k v ps)"

definition link_update :: "link_options \<Rightarrow> (jsstr \<times> hvalue) list \<Rightarrow> (jsstr \<times> hvalue) list" where
  "link_update t ps =
     (let ps1 = fold (\<lambda>(k, v). set_property k v) (link_properties t) ps;
          ps2 = (if link_rel t = [] then ps1 else set_property (js ''rel'') (HArr (map HStr (link_rel t))) ps1)
      in case link_target t of
           Some i \<Rightarrow> if i = [] then ps2 else set_property (js ''target'') (HStr i) ps2
         | None \<Rightarrow> ps2)"

definition link_properties_of :: "link_options \<Rightarrow> jsstr \<Rightarrow> (jsstr \<times> hvalue) list \<Rightarrow> (jsstr \<times> hvalue) list" where
  "link_properties_of t n ps =
     (case map_of ps (js ''href'') of
        Some (HStr r) \<Rightarrow> if n = js ''a'' \<and> is_external t r then link_update t ps else ps
      | _ \<Rightarrow> ps)"

fun Ph :: "link_options \<Rightarrow> hast \<Rightarrow> hast" and Ph_list :: "link_options \<Rightarrow> hast list \<Rightarrow> hast list" where
  "Ph t (HElement n ps cs c) = HElement n (link_properties_of t n ps) (Ph_list t cs) c"
| "Ph t (HRoot cs) = HRoot (Ph_list t cs)"
| "Ph t (HOther y cs) = HOther y (Ph_list t cs)"
| "Ph t h = h"
| "Ph_list t [] = []"
| "Ph_list t (c # cs) = Ph t c # Ph_list t cs"

section \<open>White space: \<open>Zh\<close>\<close>

definition block_names :: "string list" where
  "block_names = [''address'', ''article'', ''aside'', ''blockquote'', ''body'', ''br'', ''caption'', ''center'',
     ''col'', ''colgroup'', ''dd'', ''dialog'', ''dir'', ''div'', ''dl'', ''dt'', ''figcaption'', ''figure'', ''footer'',
     ''form'', ''h1'', ''h2'', ''h3'', ''h4'', ''h5'', ''h6'', ''head'', ''header'', ''hgroup'', ''hr'', ''html'', ''legend'',
     ''li'', ''li'', ''listing'', ''main'', ''menu'', ''nav'', ''ol'', ''optgroup'', ''option'', ''p'', ''plaintext'', ''pre'',
     ''section'', ''summary'', ''table'', ''tbody'', ''td'', ''td'', ''tfoot'', ''th'', ''th'', ''thead'', ''tr'', ''ul'',
     ''wbr'', ''xmp'']"

definition skippable_names :: "string list" where
  "skippable_names = [''area'', ''base'', ''basefont'', ''dialog'', ''datalist'', ''head'', ''link'', ''meta'',
     ''noembed'', ''noframes'', ''param'', ''rp'', ''script'', ''source'', ''style'', ''template'', ''track'', ''title'']"

text \<open>\<open>Vh\<close>, \<open>Gh\<close>, \<open>Yh\<close>, \<open>Kh\<close>.\<close>

definition Vh :: "hast \<Rightarrow> bool" where
  "Vh h = (case h of HDoctype \<Rightarrow> True | HComment v \<Rightarrow> True | _ \<Rightarrow> False)"

definition Gh :: "hast \<Rightarrow> bool" where
  "Gh h \<longleftrightarrow> Rh h \<or> has_tag [''button'', ''input'', ''select'', ''textarea''] h"

definition Yh :: "hast \<Rightarrow> bool" where "Yh h = has_tag block_names h"

definition Kh :: "hast \<Rightarrow> bool" where
  "Kh h \<longleftrightarrow> truthy_property ''hidden'' h \<or> Vh h \<or> has_tag skippable_names h"

text \<open>\<open>Xh\<close>: whether a node ends the line before it; \<open>None\<close> is \<open>undefined\<close>.\<close>

definition Xh :: "hast \<Rightarrow> bool option" where
  "Xh h =
     (case h of
        HElement n ps cs c \<Rightarrow> if Gh h then Some False else if Yh h then Some True else None
      | HText v \<Rightarrow> if Bh h then None else Some False
      | _ \<Rightarrow> if Vh h then None else Some False)"

fun Wh :: "hast list \<Rightarrow> bool option \<Rightarrow> bool option" and Wh_node :: "hast \<Rightarrow> bool option" where
  "Wh [] n = n"
| "Wh (c # cs) n = (case Wh_node c of Some b \<Rightarrow> Some b | None \<Rightarrow> Wh cs n)"
| "Wh_node (HElement n ps cs c) =
     (case Xh (HElement n ps cs c) of
        Some b \<Rightarrow> Some b
      | None \<Rightarrow> if Kh (HElement n ps cs c) then None else Wh cs None)"
| "Wh_node h = Xh h"

text \<open>\<open>/[\t\n\v\f\r ]+/g\<close> replaced by the first line break in the run, or by a space.\<close>

definition in_run :: "nat \<Rightarrow> bool" where "in_run u \<longleftrightarrow> 9 \<le> u \<and> u \<le> 13 \<or> u = 32"

definition head_is :: "nat \<Rightarrow> jsstr \<Rightarrow> bool" where
  "head_is u s = (case s of [] \<Rightarrow> False | c # _ \<Rightarrow> c = u)"

fun line_break :: "jsstr \<Rightarrow> jsstr" where
  "line_break [] = [32]"
| "line_break (c # s) =
     (if c = 13 \<and> head_is 10 s then [13, 10] else if c = 10 then [10] else if c = 13 then [13] else line_break s)"

function collapse :: "jsstr \<Rightarrow> jsstr" where
  "collapse [] = []"
| "collapse (c # s) =
     (if in_run c then line_break (takeWhile in_run (c # s)) @ collapse (dropWhile in_run s)
      else c # collapse s)"
  by pat_completeness auto
termination
  by (relation "measure length") (auto simp: less_Suc_eq_le length_dropWhile_le)

datatype ws_mode = Normal | Nowrap | Pre | PreWrap

definition mode_of :: "ws_mode \<Rightarrow> hast \<Rightarrow> ws_mode" where
  "mode_of m h =
     (if has_tag [''listing'', ''plaintext'', ''script'', ''style'', ''xmp''] h then Pre
      else if has_tag [''nobr''] h then Nowrap
      else if has_tag [''pre''] h then (if truthy_property ''wrap'' h then PreWrap else Pre)
      else if has_tag [''td'', ''th''] h then (if truthy_property ''noWrap'' h then Nowrap else m)
      else if has_tag [''textarea''] h then PreWrap
      else m)"

definition is_break :: "nat \<Rightarrow> bool" where "is_break u \<longleftrightarrow> u = 32 \<or> u = 10"

text \<open>A text in normal mode: what is left of it (\<open>None\<close> when it is removed), and \<open>stripAtStart\<close>.\<close>

definition minify_text :: "bool \<Rightarrow> bool \<Rightarrow> jsstr \<Rightarrow> jsstr option \<times> bool" where
  "minify_text before_it after_it v =
     (let n = collapse v;
          n1 = (if before_it \<and> n \<noteq> [] \<and> is_break (hd n) then tl n else n);
          ends = (n1 \<noteq> [] \<and> is_break (List.last n1));
          n2 = (if ends \<and> after_it then butlast n1 else n1)
      in (if n2 = [] then None else Some n2, ends \<and> \<not> after_it))"

text \<open>
  \<open>Zh\<close> gives the node (or nothing, when it is to be removed), \<open>ignore\<close> and \<open>stripAtStart\<close>. The loop over
  the children keeps the last child that stayed, as it tests it again after a removal.
\<close>

fun Zh :: "ws_mode \<Rightarrow> bool \<Rightarrow> bool \<Rightarrow> hast \<Rightarrow> hast list \<times> bool \<times> bool"
  and Zh_children :: "ws_mode \<Rightarrow> bool \<Rightarrow> bool \<Rightarrow> hast option \<Rightarrow> hast list \<Rightarrow> hast list \<times> bool" where
  "Zh m b a (HElement n ps cs c) =
     (let h = HElement n ps cs c; b' = (b \<or> Yh h); a' = (a \<or> Yh h) in
      case Zh_children (mode_of m h) b' a' None cs of
        (cs', b'') \<Rightarrow> ([HElement n ps cs' c], False, b'' \<or> a'))"
| "Zh m b a (HRoot cs) =
     (case Zh_children m True True None cs of (cs', b'') \<Rightarrow> ([HRoot cs'], False, True))"
| "Zh m b a (HOther y cs) =
     (case Zh_children m b a None cs of (cs', b'') \<Rightarrow> ([HOther y cs'], False, b'' \<or> a))"
| "Zh m b a (HText v) =
     (case m of
        Normal \<Rightarrow> (case minify_text b a v of
            (Some w, s) \<Rightarrow> ([HText w], False, s) | (None, s) \<Rightarrow> ([], False, s))
      | Nowrap \<Rightarrow> ([HText (collapse v)], False, False)
      | _ \<Rightarrow> ([HText v], False, False))"
| "Zh m b a h = ([h], Vh h, False)"
| "Zh_children m b a prev [] = ([], b)"
| "Zh_children m b a prev (c # cs) =
     (case Zh m b (Wh cs (Some a) = Some True) c of
        ([], ign, s) \<Rightarrow>
          Zh_children m (b \<and> \<not> (case prev of Some p \<Rightarrow> Gh p | None \<Rightarrow> False)) a prev cs
      | (c' # _, ign, s) \<Rightarrow>
          (case Zh_children m ((if ign then b else s) \<and> \<not> Gh c') a (Some c') cs of
             (cs', b') \<Rightarrow> (c' # cs', b')))"

text \<open>\<open>rf\<close>: a text at the root is not removed, as its value is left alone then.\<close>

definition rf :: "hast \<Rightarrow> hast" where
  "rf h = (case Zh Normal False False h of (h' # _, _) \<Rightarrow> h' | ([], _) \<Rightarrow> h)"

section \<open>Indentation: \<open>of\<close>\<close>

record format_options =
  indent :: jsstr
  indentInitial :: bool
  blanks :: "jsstr list"

definition default_format :: format_options where
  "default_format = \<lparr>indent = [32, 32], indentInitial = True, blanks = []\<rparr>"

text \<open>\<open>af\<close>: a node that stands on a line of its own; \<open>in_head\<close> is the variable \<open>t\<close> of the visitor.\<close>

definition af :: "hast \<Rightarrow> bool \<Rightarrow> bool" where
  "af h in_head =
     (case h of
        HRoot cs \<Rightarrow> True
      | HElement n ps cs c \<Rightarrow> in_head \<or> has_tag [''script''] h \<or> Rh h \<or> \<not> Lh h
      | _ \<Rightarrow> False)"

definition blank_node :: "format_options \<Rightarrow> hast option \<Rightarrow> bool" where
  "blank_node f h = (case h of Some (HElement n ps cs c) \<Rightarrow> n \<in> set (blanks f) | _ \<Rightarrow> False)"

definition repeat_indent :: "format_options \<Rightarrow> int \<Rightarrow> jsstr" where
  "repeat_indent f n = concat (replicate (nat n) (indent f))"

text \<open>\<open>value.replace(/ *\n/g, "$&" + ...)\<close>: every line feed is followed by the indentation.\<close>

definition indent_lines :: "format_options \<Rightarrow> int \<Rightarrow> jsstr \<Rightarrow> jsstr" where
  "indent_lines f n v = concat (map (\<lambda>u. if u = 10 then 10 # repeat_indent f n else [u]) v)"

definition last_of :: "'a list \<Rightarrow> 'a option" where
  "last_of xs = (if xs = [] then None else Some (List.last xs))"

text \<open>The inner function \<open>o\<close>: a line break at the end of the children so far.\<close>

definition add_break :: "format_options \<Rightarrow> hast list \<Rightarrow> int \<Rightarrow> hast option \<Rightarrow> hast list" where
  "add_break f e t r =
     (let o1 = last_of e;
          before_it = (case o1 of Some h \<Rightarrow> if Bh h then last_of (butlast e) else o1 | None \<Rightarrow> None);
          i = (if blank_node f before_it \<and> blank_node f r then [10, 10] else [10]) @ repeat_indent f (max t 0)
      in case o1 of
           Some (HText v) \<Rightarrow> butlast e @ [HText (if Uh v then i else v @ i)]
         | _ \<Rightarrow> e @ [HText i])"

definition indent_child :: "format_options \<Rightarrow> int \<Rightarrow> hast \<Rightarrow> hast" where
  "indent_child f c h =
     (case h of HText v \<Rightarrow> HText (indent_lines f c v) | HComment v \<Rightarrow> HComment (indent_lines f c v) | _ \<Rightarrow> h)"

definition has_line_feed :: "hast \<Rightarrow> bool" where
  "has_line_feed h = (case h of HText v \<Rightarrow> 10 \<in> set v | HComment v \<Rightarrow> 10 \<in> set v | _ \<Rightarrow> False)"

text \<open>The second loop: \<open>first\<close> is \<open>!i\<close>.\<close>

fun place :: "format_options \<Rightarrow> int \<Rightarrow> bool \<Rightarrow> hast list \<Rightarrow> bool \<Rightarrow> bool \<Rightarrow> hast list \<Rightarrow> hast list \<times> bool" where
  "place f c in_head u l first [] = (u, l)"
| "place f c in_head u l first (h # hs) =
     (if af h in_head \<or> l \<and> first
      then place f c in_head (add_break f u c (Some h) @ [h]) True False hs
      else place f c in_head (u @ [h]) l False hs)"

definition arrange_at :: "format_options \<Rightarrow> int \<Rightarrow> bool \<Rightarrow> hast list \<Rightarrow> hast list" where
  "arrange_at f c in_head s =
     (let s1 = map (indent_child f c) s; d = List.last s1 in
      case place f c in_head [] (list_ex has_line_feed s) True s1 of
        (u, l) \<Rightarrow>
          if l \<or> af d in_head then add_break f (if Bh d then butlast u else u) (c - 1) None else u)"

definition arrange :: "format_options \<Rightarrow> int \<Rightarrow> bool \<Rightarrow> hast list \<Rightarrow> hast list" where
  "arrange f depth in_head s = arrange_at f (if indentInitial f then depth else depth - 1) in_head s"

text \<open>The new children are texts, and the old ones with their texts and comments indented.\<close>

lemma add_break_all:
  assumes "\<And>v. P (HText v)" and "list_all P e"
  shows "list_all P (add_break f e t r)"
  using assms by (auto simp: add_break_def Let_def list_all_iff last_of_def split: option.splits hast.splits dest: in_set_butlastD)

lemma place_all:
  assumes "\<And>v. P (HText v)"
  shows "list_all P u \<Longrightarrow> list_all P hs \<Longrightarrow> list_all P (fst (place f c b u l first hs))"
proof (induction f c b u l first hs rule: place.induct)
  case (2 f c b u l first h hs)
  then show ?case using add_break_all [OF assms "2.prems"(1)] by simp
qed simp

lemma arrange_all:
  assumes "\<And>v. P (HText v)" and "\<And>c h. P h \<Longrightarrow> P (indent_child f c h)" and "list_all P s"
  shows "list_all P (arrange f depth b s)"
proof -
  have "list_all P (arrange_at f c b s)" for c
  proof -
    let ?s = "map (indent_child f c) s"
    obtain u l where u: "place f c b [] (list_ex has_line_feed s) True ?s = (u, l)" by fastforce
    have "list_all P ?s" using assms(2,3) by (simp add: list_all_iff)
    then have "list_all P (fst (place f c b [] (list_ex has_line_feed s) True ?s))"
      by (intro place_all assms(1)) simp
    then have P: "list_all P u" by (simp add: u)
    then have "list_all P (if Bh (List.last ?s) then butlast u else u)"
      by (auto simp: list_all_iff dest: in_set_butlastD)
    then show ?thesis using add_break_all [where P = P, OF assms(1)] u P
      by (simp add: arrange_at_def Let_def)
  qed
  then show ?thesis by (simp add: arrange_def)
qed

text \<open>Height of a tree in elements, for termination: the visitor goes on with the new children.\<close>

fun height :: "hast \<Rightarrow> nat" and heights :: "hast list \<Rightarrow> nat" where
  "height (HElement n ps cs c) = Suc (heights cs)"
| "height (HRoot cs) = Suc (heights cs)"
| "height (HOther y cs) = Suc (heights cs)"
| "height h = 0"
| "heights [] = 0"
| "heights (c # cs) = max (height c) (heights cs)"

lemma heights_le: "heights hs \<le> k \<longleftrightarrow> (\<forall>h \<in> set hs. height h \<le> k)"
  by (induction hs) auto

lemma height_indent_child [simp]: "height (indent_child f c h) = height h"
  by (cases h) (simp_all add: indent_child_def)

lemma arrange_height: "heights (arrange f depth b s) \<le> heights s"
  using arrange_all [where P = "\<lambda>h. height h \<le> heights s" and s = s]
  by (simp add: heights_le list_all_iff) (use heights_le [of s "heights s"] in blast)

text \<open>The visitor: the node at a depth, with the variable \<open>t\<close> before and after.\<close>

function visit :: "format_options \<Rightarrow> int \<Rightarrow> bool \<Rightarrow> hast \<Rightarrow> hast \<times> bool"
  and visit_list :: "format_options \<Rightarrow> int \<Rightarrow> bool \<Rightarrow> hast list \<Rightarrow> hast list \<times> bool" where
  "visit f depth t (HElement n ps cs c) =
     (let h = HElement n ps cs c;
          t1 = (t \<or> has_tag [''head''] h);
          t2 = (t1 \<and> \<not> has_tag [''body''] h)
      in if has_tag [''pre'', ''script'', ''style'', ''textarea''] h then (h, t2)
         else
           (let cs1 = (if cs = [] \<or> \<not> af h t2 then cs else arrange f depth t2 cs) in
            case visit_list f (depth + 1) t2 cs1 of (cs2, t3) \<Rightarrow> (HElement n ps cs2 c, t3)))"
| "visit f depth t (HRoot cs) =
     (let cs1 = (if cs = [] then cs else arrange f depth t cs) in
      case visit_list f (depth + 1) t cs1 of (cs2, t3) \<Rightarrow> (HRoot cs2, t3))"
| "visit f depth t (HOther y cs) =
     (case visit_list f (depth + 1) t cs of (cs2, t3) \<Rightarrow> (HOther y cs2, t3))"
| "visit f depth t (HText v) = (HText v, t)"
| "visit f depth t (HComment v) = (HComment v, t)"
| "visit f depth t HDoctype = (HDoctype, t)"
| "visit f depth t (HRaw v) = (HRaw v, t)"
| "visit_list f depth t [] = ([], t)"
| "visit_list f depth t (h # hs) =
     (case visit f depth t h of (h', t1) \<Rightarrow>
      case visit_list f depth t1 hs of (hs', t2) \<Rightarrow> (h' # hs', t2))"
  by pat_completeness auto
termination
  by (relation "measures [\<lambda>a. case a of Inl (_, _, _, h) \<Rightarrow> height h | Inr (_, _, _, hs) \<Rightarrow> heights hs,
      \<lambda>a. case a of Inl _ \<Rightarrow> 0 | Inr (_, _, _, hs) \<Rightarrow> Suc (length hs)]")
    (use arrange_height in \<open>auto simp: less_Suc_eq_le max_def\<close>)

text \<open>\<open>of\<close>.\<close>

definition format :: "format_options \<Rightarrow> hast \<Rightarrow> hast" where
  "format f h = fst (visit f 0 False (rf h))"

end
