(* ===== verification/Hast_Format_Sound.thy ===== *)
theory Hast_Format_Sound
  imports Hast_Format
begin

text \<open>
  What the rewriting steps keep: removing white space and indenting leave the elements, their
  properties and all characters that show as they are; external links, and only they, are marked.
\<close>

section \<open>Elements and visible text\<close>

fun elements :: "hast \<Rightarrow> (jsstr \<times> (jsstr \<times> hvalue) list) list"
  and elements_list :: "hast list \<Rightarrow> (jsstr \<times> (jsstr \<times> hvalue) list) list" where
  "elements (HElement n ps cs c) = (n, ps) # elements_list cs"
| "elements (HRoot cs) = elements_list cs"
| "elements (HOther y cs) = elements_list cs"
| "elements h = []"
| "elements_list [] = []"
| "elements_list (c # cs) = elements c @ elements_list cs"

fun visible :: "hast \<Rightarrow> jsstr" and visible_list :: "hast list \<Rightarrow> jsstr" where
  "visible (HElement n ps cs c) = visible_list cs"
| "visible (HRoot cs) = visible_list cs"
| "visible (HOther y cs) = visible_list cs"
| "visible (HText v) = filter (\<lambda>u. \<not> in_run u) v"
| "visible h = []"
| "visible_list [] = []"
| "visible_list (c # cs) = visible c @ visible_list cs"

text \<open>Two trees, or two lists of trees, that agree in both.\<close>

definition same :: "hast list \<Rightarrow> hast list \<Rightarrow> bool" where
  "same xs ys \<longleftrightarrow> elements_list xs = elements_list ys \<and> visible_list xs = visible_list ys"

lemma lists_append [simp]:
  "elements_list (xs @ ys) = elements_list xs @ elements_list ys"
  "visible_list (xs @ ys) = visible_list xs @ visible_list ys"
  by (induction xs) auto

lemma same_append: "same xs ys \<Longrightarrow> same xs' ys' \<Longrightarrow> same (xs @ xs') (ys @ ys')"
  by (simp add: same_def)

section \<open>White space\<close>

lemma line_break_run: "list_all in_run (line_break s)"
  by (induction s rule: line_break.induct) (auto simp: in_run_def)

lemma filter_run: "list_all in_run s \<Longrightarrow> filter (\<lambda>u. \<not> in_run u) s = []"
  by (simp add: list_all_iff filter_empty_conv)

lemma filter_dropWhile: "filter (\<lambda>u. \<not> in_run u) (dropWhile in_run s) = filter (\<lambda>u. \<not> in_run u) s"
  by (induction s) auto

lemma collapse_visible: "filter (\<lambda>u. \<not> in_run u) (collapse v) = filter (\<lambda>u. \<not> in_run u) v"
  by (induction v rule: collapse.induct) (simp_all add: filter_run [OF line_break_run] filter_dropWhile del: line_break.simps)

lemma is_break_run: "is_break u \<Longrightarrow> in_run u"
  by (auto simp: is_break_def in_run_def)

lemma filter_tl: "s \<noteq> [] \<Longrightarrow> in_run (hd s) \<Longrightarrow> filter (\<lambda>u. \<not> in_run u) (tl s) = filter (\<lambda>u. \<not> in_run u) s"
  by (cases s) auto

lemma filter_butlast:
  assumes "s \<noteq> []" and "in_run (List.last s)"
  shows "filter (\<lambda>u. \<not> in_run u) (butlast s) = filter (\<lambda>u. \<not> in_run u) s"
proof -
  have "filter (\<lambda>u. \<not> in_run u) (butlast s @ [List.last s]) = filter (\<lambda>u. \<not> in_run u) (butlast s)"
    using assms(2) by simp
  then show ?thesis using assms(1) by simp
qed

lemma minify_text_visible:
  assumes "minify_text b a v = (r, s)"
  shows "filter (\<lambda>u. \<not> in_run u) (case r of Some w \<Rightarrow> w | None \<Rightarrow> []) = filter (\<lambda>u. \<not> in_run u) v"
proof -
  define n where "n = collapse v"
  define n1 where "n1 = (if b \<and> n \<noteq> [] \<and> is_break (hd n) then tl n else n)"
  define n2 where "n2 = (if (n1 \<noteq> [] \<and> is_break (List.last n1)) \<and> a then butlast n1 else n1)"
  have "r = (if n2 = [] then None else Some n2)"
    using assms by (simp only: minify_text_def Let_def prod.inject n_def n1_def n2_def)
  then have "(case r of Some w \<Rightarrow> w | None \<Rightarrow> []) = n2" by (simp split: option.splits)
  moreover have "filter (\<lambda>u. \<not> in_run u) n1 = filter (\<lambda>u. \<not> in_run u) n"
    using filter_tl [of n] is_break_run by (simp add: n1_def)
  moreover have "filter (\<lambda>u. \<not> in_run u) n2 = filter (\<lambda>u. \<not> in_run u) n1"
    using filter_butlast [of n1] is_break_run by (simp add: n2_def)
  ultimately show ?thesis using collapse_visible [of v] by (simp add: n_def)
qed

lemma Zh_same:
  "same (fst (Zh m b a h)) [h]"
  "same (fst (Zh_children m b a p hs)) hs"
proof (induction m b a h and m b a p hs rule: Zh_Zh_children.induct)
  case (4 m b a v)
  show ?case using minify_text_visible [of b a v]
    by (cases "minify_text b a v") (auto simp: same_def collapse_visible split: ws_mode.splits option.splits)
next
  case (7 m b a p c cs)
  obtain r ign s where z: "Zh m b (Wh cs (Some a) = Some True) c = (r, ign, s)" by (metis prod_cases3)
  show ?case
  proof (cases r)
    case Nil
    then show ?thesis using 7 z by (auto simp: same_def)
  next
    case (Cons c' r')
    then have "r' = []" using z by (cases c) (auto split: prod.splits ws_mode.splits option.splits simp: Let_def)
    then show ?thesis using 7 z Cons by (auto simp: same_def split: prod.splits)
  qed
qed (auto simp: same_def Let_def split: prod.splits)

lemma rf_same: "same [rf h] [h]"
proof -
  obtain r ign s where z: "Zh Normal False False h = (r, ign, s)" by (metis prod_cases3)
  have "r = [] \<or> (\<exists>h'. r = [h'])"
    using z by (cases h) (auto split: prod.splits ws_mode.splits option.splits simp: Let_def)
  then show ?thesis using Zh_same(1) [of Normal False False h] z by (auto simp: rf_def same_def)
qed

section \<open>Indentation\<close>

definition blank_indent :: "format_options \<Rightarrow> bool" where
  "blank_indent f \<longleftrightarrow> list_all in_run (indent f)"

lemma repeat_run: "blank_indent f \<Longrightarrow> list_all in_run (repeat_indent f n)"
  by (auto simp: blank_indent_def repeat_indent_def list_all_iff)

lemma Uh_visible: "Uh v \<Longrightarrow> filter (\<lambda>u. \<not> in_run u) v = []"
  by (auto simp: Uh_def filter_empty_conv html_space_def in_run_def)

lemma add_break_same:
  assumes "blank_indent f"
  shows "same (add_break f e t r) e"
proof -
  let ?o = "last_of e"
  let ?p = "case ?o of Some h \<Rightarrow> if Bh h then last_of (butlast e) else ?o | None \<Rightarrow> None"
  let ?i = "(if blank_node f ?p \<and> blank_node f r then [10, 10] else [10]) @ repeat_indent f (max t 0)"
  have i: "filter (\<lambda>u. \<not> in_run u) ?i = []"
    using repeat_run [OF assms] by (intro filter_run) (simp add: in_run_def)
  show ?thesis
  proof (cases "\<exists>v. ?o = Some (HText v)")
    case True
    then obtain v where v: "?o = Some (HText v)" by blast
    then obtain es where e: "e = es @ [HText v]"
      by (auto simp: last_of_def split: if_splits) (metis append_butlast_last_id)
    then have "add_break f e t r = es @ [HText (if Uh v then ?i else v @ ?i)]"
      using v by (simp add: add_break_def Let_def)
    moreover have "same [HText (if Uh v then ?i else v @ ?i)] [HText v]"
      using i Uh_visible by (simp add: same_def)
    ultimately show ?thesis using same_append [of es es] e by (simp add: same_def)
  next
    case False
    then have "add_break f e t r = e @ [HText ?i]"
      by (auto simp: add_break_def Let_def split: option.splits hast.splits)
    then show ?thesis using i by (simp add: same_def)
  qed
qed

lemma indent_lines_visible:
  "blank_indent f \<Longrightarrow> filter (\<lambda>u. \<not> in_run u) (indent_lines f n v) = filter (\<lambda>u. \<not> in_run u) v"
proof (induction v)
  case (Cons u v)
  have "in_run 10" by (simp add: in_run_def)
  then show ?case using Cons filter_run [OF repeat_run, of f n] by (auto simp: indent_lines_def)
qed (simp add: indent_lines_def)

lemma indent_child_same: "blank_indent f \<Longrightarrow> same (map (indent_child f c) s) s"
  by (induction s) (auto simp: same_def indent_child_def indent_lines_visible split: hast.splits)

lemma place_same:
  "blank_indent f \<Longrightarrow> same (fst (place f c b u l first hs)) (u @ hs)"
proof (induction f c b u l first hs rule: place.induct)
  case (2 f c b u l first h hs)
  then show ?case using add_break_same [OF "2.prems", of u c "Some h"] by (auto simp: same_def)
qed (simp add: same_def)

lemma place_last: "hs \<noteq> [] \<Longrightarrow> fst (place f c b u l first hs) \<noteq> [] \<and> List.last (fst (place f c b u l first hs)) = List.last hs"
proof (induction f c b u l first hs rule: place.induct)
  case (2 f c b u l first h hs)
  then show ?case by (cases hs) auto
qed simp

lemma arrange_same:
  assumes "blank_indent f" and "s \<noteq> []"
  shows "same (arrange f depth b s) s"
proof -
  have "same (arrange_at f c b s) s" for c
  proof -
    let ?s = "map (indent_child f c) s"
    obtain u l where u: "place f c b [] (list_ex has_line_feed s) True ?s = (u, l)" by fastforce
    have us: "same u s"
      using place_same [OF assms(1), of c b "[]" _ True ?s] indent_child_same [OF assms(1), of c s] u
      by (metis append_Nil fst_conv same_def)
    have l: "u \<noteq> []" "List.last u = List.last ?s"
      using place_last [of ?s f c b "[]"] assms(2) u by (metis Nil_is_map_conv fst_conv)+
    have "same (if Bh (List.last ?s) then butlast u else u) u"
    proof (cases "Bh (List.last ?s)")
      case True
      then obtain v where v: "List.last u = HText v" "Uh v" using l(2) by (auto simp: Bh_def split: hast.splits)
      then obtain es where "u = es @ [HText v]" using l(1) by (metis append_butlast_last_id)
      then show ?thesis using True Uh_visible [OF v(2)] by (simp add: same_def)
    qed (simp add: same_def)
    then show ?thesis using us u add_break_same [OF assms(1)] by (auto simp: arrange_at_def Let_def same_def)
  qed
  then show ?thesis by (simp add: arrange_def)
qed

lemma visit_same:
  "blank_indent f \<Longrightarrow> same [fst (visit f depth t h)] [h]"
  "blank_indent f \<Longrightarrow> same (fst (visit_list f depth t hs)) hs"
proof (induction f depth t h and f depth t hs rule: visit_visit_list.induct)
  case (1 f depth t n ps cs c)
  then show ?case using arrange_same [OF "1.prems"]
    by (auto simp: Let_def same_def split: prod.splits)
next
  case (2 f depth t cs)
  then show ?case using arrange_same [OF "2.prems"]
    by (auto simp: Let_def same_def split: prod.splits)
qed (auto simp: same_def split: prod.splits)

text \<open>
  C29. Removing white space and indenting a document change nothing that shows: the elements with
  their properties, in document order, and the sequence of all characters of the texts that are
  not white space are the ones of the document given.
\<close>

theorem format_keeps_content:
  "elements (format default_format h) = elements h \<and> visible (format default_format h) = visible h"
proof -
  have "blank_indent default_format" by (simp add: blank_indent_def default_format_def in_run_def)
  then show ?thesis using visit_same(1) [of default_format 0 False "rf h"] rf_same [of h]
    by (simp add: format_def same_def)
qed

section \<open>External links\<close>

lemma map_of_set_property [simp]: "map_of (set_property k v ps) = (map_of ps)(k \<mapsto> v)"
  by (induction ps) auto

definition marked :: "jsstr \<times> (jsstr \<times> hvalue) list \<Rightarrow> bool" where
  "marked = (\<lambda>(n, ps).
     case map_of ps (js ''href'') of
       Some (HStr r) \<Rightarrow>
         if n = js ''a'' \<and> is_external markdown_links r
         then map_of ps (js ''target'') = Some (HStr (js ''_blank'')) \<and>
              map_of ps (js ''rel'') = Some (HArr [HStr (js ''nofollow'')])
         else True
     | _ \<Rightarrow> True)"

lemma link_properties_marked: "marked (n, link_properties_of markdown_links n ps)"
proof -
  have d: "js ''rel'' \<noteq> js ''href''" "js ''target'' \<noteq> js ''href''" "js ''rel'' \<noteq> js ''target''" "js ''_blank'' \<noteq> []"
    by (simp_all add: js_def)
  have u: "map_of (link_update markdown_links ps) = (map_of ps)(js ''rel'' \<mapsto> HArr [HStr (js ''nofollow'')],
      js ''target'' \<mapsto> HStr (js ''_blank''))"
    using d(4) by (simp add: link_update_def markdown_links_def)
  show ?thesis using d u by (auto simp: marked_def link_properties_of_def split: option.splits hvalue.splits)
qed

lemma Ph_content:
  "elements (Ph t h) = map (\<lambda>(n, ps). (n, link_properties_of t n ps)) (elements h)"
  "elements_list (Ph_list t hs) = map (\<lambda>(n, ps). (n, link_properties_of t n ps)) (elements_list hs)"
  by (induction h and hs rule: hast_induct) auto

lemma Ph_visible: "visible (Ph t h) = visible h" "visible_list (Ph_list t hs) = visible_list hs"
  by (induction h and hs rule: hast_induct) auto


end
