(* ===== verification/Markdown_Pipeline.thy ===== *)
theory Markdown_Pipeline
  imports Hast_Sanitize_Sound Hast_Stringify_Sound Hast_Format_Sound
begin

text \<open>
  The steps of \<open>ScalarMarkdown\<close> (\<^verbatim>\<open>src/api/scalar.standalone.js\<close>) from the sanitizer to the HTML text
  that is assigned to \<open>innerHTML\<close>, composed. The syntax highlighter between the sanitizer and the
  links is an argument.
\<close>

definition markdown_pipeline ::
  "(hast \<Rightarrow> hast) \<Rightarrow> (jsstr \<Rightarrow> jsstr) \<Rightarrow> jsstr list \<Rightarrow> jsstr list \<Rightarrow> hast \<Rightarrow> nat \<Rightarrow> html_error + jsstr \<times> nat" where
  "markdown_pipeline highlight low removeTags allowTags t li =
     My low (format default_format (Ph markdown_links (highlight (Vb (markdown_schema removeTags allowTags) t)))) li"

section \<open>Every step keeps the names in order\<close>

definition kept_tags :: "jsstr list \<Rightarrow> jsstr list \<Rightarrow> jsstr list" where
  "kept_tags removeTags allowTags = filter (\<lambda>t. t \<notin> set removeTags) (default_tagNames @ allowTags)"

lemma tags_oks_all: "tags_oks ns hs \<longleftrightarrow> list_all (tags_ok ns) hs"
  by (induction hs) auto

text \<open>Names of attributes the schema lists.\<close>

lemma listed_names_plain:
  "list_all (\<lambda>(n, ds). list_all (\<lambda>d. plain_name (def_name d) \<and> def_name d \<noteq> js ''data*'') ds)
     ((js ''abbr'', [AName (js ''title'')]) # default_attributes)"
  by (simp add: default_attributes_def Lb_def plain_name_def ascii_def object_prototype_def js_def ascii_lower_def)

lemma own_listed:
  assumes "own (attributes (markdown_schema rm al)) n = Some ds" and "d \<in> set ds"
  shows "plain_name (def_name d) \<and> def_name d \<noteq> js ''data*''"
proof -
  have "(n, ds) \<in> set ((js ''abbr'', [AName (js ''title'')]) # default_attributes)"
    using own_values [OF assms(1)] by (simp add: markdown_schema_def values_of_def)
  then show ?thesis using listed_names_plain assms(2) unfolding list_all_iff by fastforce
qed

lemma property_plain:
  assumes "property_ok (markdown_schema rm al) n (k, w)"
  shows "plain_name k"
proof (cases "case own (required (markdown_schema rm al)) n of Some rs \<Rightarrow> (k, w) \<in> set rs | None \<Rightarrow> False")
  case True
  then have "k = js ''disabled'' \<or> k = js ''type''"
    by (auto simp: markdown_schema_def jb_def own_def split: option.splits if_splits)
  then show ?thesis by (auto simp: plain_name_def ascii_def object_prototype_def js_def ascii_lower_def)
next
  case False
  then obtain d where d: "d \<in> set (defs_of (markdown_schema rm al) n)" "def_fits k d"
    using assms by (auto simp: property_ok_def list_ex_iff)
  then obtain m ds where "own (attributes (markdown_schema rm al)) m = Some ds" "d \<in> set ds"
    by (cases "own (attributes (markdown_schema rm al)) n"; cases "own (attributes (markdown_schema rm al)) (js ''*'')")
      (auto simp: defs_of_def)
  then show ?thesis using own_listed d(2) by (auto simp: def_fits_def)
qed

lemma clean_tags:
  "clean e st h \<Longrightarrow> e = markdown_schema rm al \<Longrightarrow> tags_ok (kept_tags rm al) h"
  "cleans e st hs \<Longrightarrow> e = markdown_schema rm al \<Longrightarrow> tags_oks (kept_tags rm al) hs"
proof (induction e st h and e st hs rule: clean_cleans.induct)
  case (1 e st n ps cs c)
  have "n \<in> set (kept_tags rm al)"
    using 1 by (simp add: tag_allowed_def markdown_schema_def kept_tags_def)
  moreover have "list_all (\<lambda>(k, v). plain_name k) ps"
    using 1 property_plain by (force simp: list_all_iff)
  ultimately show ?case using 1 by simp
qed (auto simp: markdown_schema_def jb_def)

lemma link_properties_plain:
  assumes "list_all (\<lambda>(k, v). plain_name k) ps"
  shows "list_all (\<lambda>(k, v). plain_name k) (link_properties_of markdown_links n ps)"
proof -
  have s: "list_all (\<lambda>(k, v). plain_name k) (set_property k v qs)"
    if "list_all (\<lambda>(k, v). plain_name k) qs" "plain_name k" for k v qs
    using that by (induction qs) auto
  have "plain_name (js ''rel'')" "plain_name (js ''target'')"
    by (simp_all add: plain_name_def ascii_def object_prototype_def js_def ascii_lower_def)
  then show ?thesis using assms s
    by (auto simp: link_properties_of_def link_update_def markdown_links_def Let_def split: option.splits hvalue.splits)
qed

lemma Ph_tags: "tags_ok ns h \<Longrightarrow> tags_ok ns (Ph markdown_links h)"
  "tags_oks ns hs \<Longrightarrow> tags_oks ns (Ph_list markdown_links hs)"
  by (induction h and hs rule: hast_induct) (auto intro: link_properties_plain)

lemma Zh_tags:
  "tags_ok ns h \<Longrightarrow> tags_oks ns (fst (Zh m b a h))"
  "tags_oks ns hs \<Longrightarrow> tags_oks ns (fst (Zh_children m b a p hs))"
proof (induction m b a h and m b a p hs rule: Zh_Zh_children.induct)
  case (4 m b a v)
  then show ?case by (auto split: ws_mode.splits option.splits prod.splits)
next
  case (7 m b a p c cs)
  then show ?case by (auto split: prod.splits list.splits)
qed (auto simp: Let_def split: prod.splits)

lemma rf_tags: "tags_ok ns h \<Longrightarrow> tags_ok ns (rf h)"
  using Zh_tags(1) [of ns h Normal False False] by (auto simp: rf_def split: prod.splits list.splits)

lemma arrange_tags: "tags_oks ns hs \<Longrightarrow> tags_oks ns (arrange f d b hs)"
  unfolding tags_oks_all
proof (rule arrange_all)
  show "tags_ok ns (indent_child f c h)" if "tags_ok ns h" for c h
    using that by (cases h) (simp_all add: indent_child_def)
qed simp

lemma visit_tags:
  "tags_ok ns h \<Longrightarrow> tags_ok ns (fst (visit f d t h))"
  "tags_oks ns hs \<Longrightarrow> tags_oks ns (fst (visit_list f d t hs))"
proof (induction f d t h and f d t hs rule: visit_visit_list.induct)
  case (1 f d t n ps cs c)
  then show ?case using arrange_tags [of ns cs f d] by (auto simp: Let_def split: prod.splits)
next
  case (2 f d t cs)
  then show ?case using arrange_tags [of ns cs f d] by (auto simp: Let_def split: prod.splits)
qed (auto split: prod.splits)

lemma format_tags: "tags_ok ns h \<Longrightarrow> tags_ok ns (format f h)"
  by (simp add: format_def visit_tags(1) rf_tags)

lemma default_names_writable: "list_all (\<lambda>n. n \<noteq> [] \<and> list_all name_char n) default_tagNames \<and>
   js ''script'' \<notin> set default_tagNames \<and> js ''style'' \<notin> set default_tagNames"
  by (simp add: default_tagNames_def js_def name_char_def html_space_def)

lemma kept_tags_writable: "writable_names al \<Longrightarrow> writable_names (kept_tags rm al)"
  using default_names_writable by (auto simp: writable_names_def kept_tags_def list_all_iff)

text \<open>
  The HTML that the steps from the sanitizer on write has only listed tags, and they throw no
  exception: for every tree, every list of removed tags without \<open>table\<close>, every list of additional tags
  that are plain names other than \<open>script\<close> and \<open>style\<close>, and a highlighter that puts in no other elements.
\<close>

lemma pipeline_writes_listed_tags:
  assumes "lowers_ascii low" and "js ''table'' \<notin> set removeTags" and "writable_names allowTags"
    and "\<And>h. tags_ok (kept_tags removeTags allowTags) h \<Longrightarrow> tags_ok (kept_tags removeTags allowTags) (highlight h)"
  shows "\<exists>s li' ts. markdown_pipeline highlight low removeTags allowTags t li = Inr (s, li') \<and>
     scan InText s = (InText, ts) \<and> set ts \<subseteq> tag_texts (kept_tags removeTags allowTags)"
proof -
  let ?h = "format default_format (Ph markdown_links (highlight (Vb (markdown_schema removeTags allowTags) t)))"
  have "clean (markdown_schema removeTags allowTags) [] (Vb (markdown_schema removeTags allowTags) t)"
    by (rule Vb_clean [OF schema_ok_markdown [OF assms(2)]])
  then have "tags_ok (kept_tags removeTags allowTags) ?h"
    by (intro format_tags Ph_tags(1) assms(4) clean_tags(1)) auto
  then show ?thesis
    using writer_sound(1) [OF assms(1) kept_tags_writable [OF assms(3)], of removeTags ?h Uf None 0 li]
    by (simp add: markdown_pipeline_def My_def to_html_def default_settings_def plain_parent_def some_and_def)
qed

text \<open>A highlighter that marks the code it has seen.\<close>

fun mark_code :: "hast \<Rightarrow> hast" and mark_code_list :: "hast list \<Rightarrow> hast list" where
  "mark_code (HElement n ps cs c) =
     HElement n (if n = js ''code'' then set_property (js ''className'') (HArr [HStr (js ''hljs'')]) ps else ps) (mark_code_list cs) c"
| "mark_code (HRoot cs) = HRoot (mark_code_list cs)"
| "mark_code h = h"
| "mark_code_list [] = []"
| "mark_code_list (c # cs) = mark_code c # mark_code_list cs"

lemma mark_code_tags: "tags_ok ns h \<Longrightarrow> tags_ok ns (mark_code h)" "tags_oks ns hs \<Longrightarrow> tags_oks ns (mark_code_list hs)"
proof (induction h and hs rule: hast_induct)
  case (Element n ps cs c)
  have "plain_name (js ''className'')"
    by (simp add: plain_name_def ascii_def object_prototype_def js_def ascii_lower_def)
  then have "list_all (\<lambda>(k, v). plain_name k) (set_property (js ''className'') v qs)"
    if "list_all (\<lambda>(k, v). plain_name k) qs" for v qs
    using that by (induction qs) auto
  then show ?case using Element by simp
qed auto

end
