(* ===== verification/Hast_Raw_Sound.thy ===== *)
theory Hast_Raw_Sound
  imports Hast_Raw Markdown_Pipeline
begin

text \<open>
  What the parser of raw HTML does with nodes it does not know and with a raw node that ends inside
  a tag, and the pipeline of \<open>ScalarMarkdown\<close> from the raw HTML to the text it assigns to \<open>innerHTML\<close>.
\<close>

section \<open>Nodes of unknown types\<close>

text \<open>Nodes the walk reaches: the content of a template is not walked.\<close>

fun has_unknown :: "hast \<Rightarrow> bool" and have_unknown :: "hast list \<Rightarrow> bool" where
  "has_unknown (HRoot cs) = have_unknown cs"
| "has_unknown (HElement n ps cs c) = have_unknown cs"
| "has_unknown (HOther t cs) = True"
| "has_unknown h = False"
| "have_unknown [] = False"
| "have_unknown (c # cs) = (has_unknown c \<or> have_unknown cs)"

lemma walk_unknown:
  "has_unknown h \<Longrightarrow> \<exists>e. walk lm low h s = Inl e" "have_unknown hs \<Longrightarrow> \<exists>e. walks lm low hs s = Inl e"
proof (induction h and hs arbitrary: s and s rule: has_unknown_have_unknown.induct)
  case (2 n ps cs c)
  then have u: "\<exists>e. walks lm low cs t = Inl e" for t by simp
  show ?case
  proof (cases "startTag low n ps c s")
    case (Inr s1)
    then show ?thesis using u [of s1] by auto
  qed simp
next
  case (6 c cs)
  show ?case
  proof (cases "walk lm low c s")
    case (Inr s1)
    then have "\<not> has_unknown c" using 6(1) [of s] by auto
    then show ?thesis using Inr 6 by auto
  qed simp
qed auto

text \<open>
  C31. A tree with a node of a type the parser of raw HTML does not know is never accepted, however
  deep in the children the node stands: the result is an exception and no node is dropped in silence.
\<close>

theorem raw_rejects_unknown_nodes:
  assumes "has_unknown h"
  shows "\<exists>e. kb lm low num h li = Inl e"
  using walk_unknown(1) [OF assms, of lm low "\<lparr>tok = tokenizer_for (raw_parser low (is_document low h)), search_index = li\<rparr>"]
  by (auto simp: kb_def)

theorem raw_rejects_unknown_nodes_witness:
  "has_unknown (HRoot [HElement (js ''p'') [] [HOther (js ''mdxFlowExpression'') []] None]) \<and>
   (\<exists>e. kb [] ascii_lower (\<lambda>s. None) (HRoot [HElement (js ''p'') [] [HOther (js ''mdxFlowExpression'') []] None]) 0 = Inl e)"
  using raw_rejects_unknown_nodes by simp

section \<open>A raw node that ends inside a tag\<close>

text \<open>A code unit that a tag name takes as it is.\<close>

definition name_unit :: "nat \<Rightarrow> bool" where
  "name_unit c \<longleftrightarrow> 33 \<le> c \<and> c < 55296 \<and> c \<noteq> 47 \<and> c \<noteq> 62"

lemma advance_first:
  assumes "name_unit c" and "\<not> report p"
  shows "\<exists>q. advance (pp_write (c # v) False (reset_preprocessor p)) = (int c, q) \<and> \<not> endOfChunkHit q"
proof -
  let ?p = "pp_write (c # v) False (reset_preprocessor p)"
  have a: "advance_pos ?p = ?p\<lparr>pos := 0\<rparr>" and h: "html ?p = c # v" and r: "\<not> report ?p" "\<not> endOfChunkHit ?p"
    using assms(2) by (simp_all add: advance_pos_def pp_write_def reset_preprocessor_def Let_def)
  have "advance ?p = advance_read (int c) (?p\<lparr>pos := 0\<rparr>)"
    using assms(1) by (subst advance.simps) (simp add: a h name_unit_def charCodeAt_def Let_def)
  then show ?thesis using assms(1) r by (simp add: advance_read_def is_surrogate_def name_unit_def Let_def)
qed

lemma tag_name_without_token:
  assumes "tstate t = TAG_NAME" and "currentToken t = None" and "name_unit c"
  shows "stuck (callState lm on (int c) t)"
  using assms
  by (simp add: callState_def stateTagName_def add_tagName_def with_code_point_def throw_def name_unit_def
      is_whitespace_def)

lemma stuck_loop: "stuck t \<Longrightarrow> parsing_loop lm on t = Some t"
  by (subst parsing_loop.simps) simp

lemma write_without_token:
  assumes "tstate t = TAG_NAME" and "currentToken t = None" and "name_unit c" and "\<not> report (pp t)"
    and "\<not> inLoop t" and "\<not> paused t"
  shows "\<exists>u. tok_write lm on (c # v) False (t\<lparr>pp := reset_preprocessor (pp t)\<rparr>) = Some u \<and> stuck u"
proof -
  obtain q where q: "advance (pp_write (c # v) False (reset_preprocessor (pp t))) = (int c, q)" "\<not> endOfChunkHit q"
    using advance_first [OF assms(3,4)] by blast
  let ?t = "t\<lparr>active := True, pp := pp_write (c # v) False (reset_preprocessor (pp t)), inLoop := True\<rparr>"
  show ?thesis
  proof (cases "stuck t")
    case True
    then show ?thesis using assms(5) by (simp add: tok_write_def runParsingLoop_def stuck_loop)
  next
    case False
    have "stuck (loop_step lm on ?t)"
      using q assms(1-3) by (simp add: loop_step_def consume_def ensureHibernation_def tag_name_without_token)
    then have "parsing_loop lm on ?t = Some (loop_step lm on ?t)"
      using False assms(6) by (subst parsing_loop.simps) (simp add: stuck_loop)
    then show ?thesis using \<open>stuck (loop_step lm on ?t)\<close> assms(5)
      by (simp add: tok_write_def runParsingLoop_def)
  qed
qed



section \<open>The pipeline from the raw HTML on\<close>

datatype render_error = RawFailed raw_error | WriterFailed html_error

definition render ::
  "decode_tree \<Rightarrow> (hast \<Rightarrow> hast) \<Rightarrow> (jsstr \<Rightarrow> jsstr) \<Rightarrow> (jsstr \<Rightarrow> jsstr option) \<Rightarrow> jsstr list \<Rightarrow> jsstr list \<Rightarrow> hast \<Rightarrow> nat \<Rightarrow>
     render_error + jsstr \<times> nat" where
  "render lm highlight low num removeTags allowTags t li =
     (case kb lm low num t li of
        Inl e \<Rightarrow> Inl (RawFailed e)
      | Inr (t', l) \<Rightarrow> map_sum WriterFailed id (markdown_pipeline highlight low removeTags allowTags t' l))"

text \<open>Only the parser of raw HTML can throw, and every text that comes out has only listed tags.\<close>

lemma render_listed:
  assumes "lowers_ascii low" and "js ''table'' \<notin> set removeTags" and "writable_names allowTags"
    and "\<And>h. tags_ok (kept_tags removeTags allowTags) h \<Longrightarrow> tags_ok (kept_tags removeTags allowTags) (highlight h)"
  shows "(\<exists>e. kb lm low num t li = Inl e \<and> render lm highlight low num removeTags allowTags t li = Inl (RawFailed e)) \<or>
     (\<exists>s li' ts. render lm highlight low num removeTags allowTags t li = Inr (s, li') \<and>
        scan InText s = (InText, ts) \<and> set ts \<subseteq> tag_texts (kept_tags removeTags allowTags))"
proof (cases "kb lm low num t li")
  case (Inr r)
  obtain t' l where r: "r = (t', l)" by force
  obtain s li' ts where "markdown_pipeline highlight low removeTags allowTags t' l = Inr (s, li')"
      "scan InText s = (InText, ts)" "set ts \<subseteq> tag_texts (kept_tags removeTags allowTags)"
    using pipeline_writes_listed_tags [OF assms(1-3), where highlight = highlight and t = t' and li = l] assms(4) by blast
  then show ?thesis using Inr r by (auto simp: render_def)
qed (simp add: render_def)

end
