(* ===== verification/Mdast_To_Hast.thy ===== *)
theory Mdast_To_Hast
  imports Hast_Values Html_Dom
begin

text \<open>
  From the tree of a markdown document to the syntax tree (\<^verbatim>\<open>mdast-util-to-hast\<close> inside
  \<^verbatim>\<open>src/api/scalar.standalone.js\<close>: \<open>pS\<close>, the handlers of \<open>tS\<close>, \<open>uS\<close>, \<open>Xk\<close>, \<open>Jk\<close>) and the normalization of URLs
  (\<open>ax\<close>). Nodes carry no \<open>data\<close> here, as the parser gives them none, so that \<open>applyData\<close> leaves them alone;
  positions are left out. Of the options only \<open>allowDangerousHtml\<close> and \<open>clobberPrefix\<close> are there: the
  program passes the first. \<open>toUpperCase\<close> and \<open>toLowerCase\<close> are arguments.
\<close>

section \<open>Nodes\<close>

datatype mdast =
  MRoot "mdast list"
| MParagraph "mdast list"
| MHeading nat "mdast list"
| MText jsstr
| MEmphasis "mdast list"
| MStrong "mdast list"
| MDelete "mdast list"
| MInlineCode jsstr
| MCode jsstr "jsstr option"
| MBlockquote "mdast list"
| MBreak
| MThematicBreak
| MHtml jsstr
| MImage jsstr "jsstr option" "jsstr option"
| MImageReference jsstr "jsstr option" jsstr "jsstr option"
| MLink jsstr "jsstr option" "mdast list"
| MLinkReference jsstr "jsstr option" jsstr "mdast list"
| MDefinition jsstr jsstr "jsstr option"
| MFootnoteDefinition jsstr "mdast list"
| MFootnoteReference jsstr
| MList bool "nat option" "bool option" "mdast list"
| MListItem "bool option" "bool option" "mdast list"
| MTable "jsstr option list option" "mdast list"
| MTableRow "mdast list"
| MTableCell "mdast list"
| MToml jsstr
| MYaml jsstr
| MUnknown "jsstr option" "mdast list"

text \<open>
  The fields, in order: the depth of a heading; the language of a code block; URL, alternative text
  and title of an image; identifier, label, kind and alternative text of an image reference; URL
  and title of a link; identifier, label and kind of a link reference; identifier, URL and title of
  a definition; whether a list is ordered, its start, whether it is spread; the check box and the
  spread of an item; the alignment of the columns of a table; the value of an unknown node.
\<close>

fun mdast_children :: "mdast \<Rightarrow> mdast list" where
  "mdast_children (MRoot cs) = cs"
| "mdast_children (MParagraph cs) = cs"
| "mdast_children (MHeading n cs) = cs"
| "mdast_children (MEmphasis cs) = cs"
| "mdast_children (MStrong cs) = cs"
| "mdast_children (MDelete cs) = cs"
| "mdast_children (MBlockquote cs) = cs"
| "mdast_children (MLink u t cs) = cs"
| "mdast_children (MLinkReference i l k cs) = cs"
| "mdast_children (MFootnoteDefinition i cs) = cs"
| "mdast_children (MList ord st sp cs) = cs"
| "mdast_children (MListItem ch sp cs) = cs"
| "mdast_children (MTable al cs) = cs"
| "mdast_children (MTableRow cs) = cs"
| "mdast_children (MTableCell cs) = cs"
| "mdast_children (MUnknown v cs) = cs"
| "mdast_children m = []"

lemma mdast_children_size [termination_simp]: "size_list size (mdast_children m) \<le> size m"
  by (cases m) auto

section \<open>URLs: \<open>ax\<close>\<close>

text \<open>\<open>encodeURIComponent\<close> of one code point that is not unreserved: its bytes in UTF-8.\<close>

definition utf8 :: "nat \<Rightarrow> nat list" where
  "utf8 c = (if c < 128 then [c]
     else if c < 2048 then [192 + c div 64, 128 + c mod 64]
     else if c < 65536 then [224 + c div 4096, 128 + c div 64 mod 64, 128 + c mod 64]
     else [240 + c div 262144, 128 + c div 4096 mod 64, 128 + c div 64 mod 64, 128 + c mod 64])"

definition hex_upper :: "nat \<Rightarrow> nat" where
  "hex_upper d = (if d < 10 then 48 + d else 55 + d)"

definition pct :: "nat \<Rightarrow> jsstr" where
  "pct c = concat (map (\<lambda>b. [37, hex_upper (b div 16), hex_upper (b mod 16)]) (utf8 c))"

text \<open>\<open>Ly = /[\dA-Za-z]/\<close> and the characters \<open>[!#$&-;=?-Z_a-z~]\<close>.\<close>

definition Ly :: "nat \<Rightarrow> bool" where
  "Ly u \<longleftrightarrow> (48 \<le> u \<and> u \<le> 57) \<or> is_AZ u \<or> is_az u"

definition uri_char :: "nat \<Rightarrow> bool" where
  "uri_char u \<longleftrightarrow> u = 33 \<or> u = 35 \<or> u = 36 \<or> (38 \<le> u \<and> u \<le> 59) \<or> u = 61 \<or> (63 \<le> u \<and> u \<le> 90) \<or> u = 95 \<or> is_az u \<or> u = 126"

definition high_surrogate :: "nat \<Rightarrow> bool" where "high_surrogate u \<longleftrightarrow> 55295 < u \<and> u < 56320"
definition low_surrogate :: "nat \<Rightarrow> bool" where "low_surrogate u \<longleftrightarrow> 56319 < u \<and> u < 57344"

definition two_alphanumeric :: "jsstr \<Rightarrow> bool" where
  "two_alphanumeric s = (case s of b # c # r \<Rightarrow> Ly b \<and> Ly c | _ \<Rightarrow> False)"

fun ax :: "jsstr \<Rightarrow> jsstr" where
  "ax [] = []"
| "ax (a # s) =
     (if a = 37 \<and> two_alphanumeric s then a # take 2 s @ ax (drop 2 s)
      else if a < 128 then (if uri_char a then [a] else pct a) @ ax s
      else if high_surrogate a \<or> low_surrogate a then
        (case s of
           t # r \<Rightarrow> if high_surrogate a \<and> low_surrogate t
                    then pct (65536 + (a - 55296) * 1024 + (t - 56320)) @ ax r
                    else pct 65533 @ ax s
         | [] \<Rightarrow> pct 65533 @ ax s)
      else pct a @ ax s)"

section \<open>Text: \<open>Jk\<close>, \<open>eS\<close>, \<open>dS\<close>\<close>

definition is_blank :: "nat \<Rightarrow> bool" where "is_blank u \<longleftrightarrow> u = 9 \<or> u = 32"

definition eS :: "jsstr \<Rightarrow> bool \<Rightarrow> bool \<Rightarrow> jsstr" where
  "eS e start stop =
     (let a = (if start then dropWhile is_blank e else e)
      in if stop then rev (dropWhile is_blank (rev a)) else a)"

text \<open>A text as lines with the line endings between them: \<open>/\r?\n|\r/g\<close>.\<close>

definition end_line :: "jsstr \<Rightarrow> jsstr \<times> (jsstr \<times> jsstr) list \<Rightarrow> jsstr \<times> (jsstr \<times> jsstr) list" where
  "end_line e r = ([], (e, fst r) # snd r)"

fun break_lines :: "jsstr \<Rightarrow> jsstr \<times> (jsstr \<times> jsstr) list" where
  "break_lines [] = ([], [])"
| "break_lines [u] = (if u = 10 \<or> u = 13 then end_line [u] ([], []) else ([u], []))"
| "break_lines (u # v # s) =
     (if u = 13 \<and> v = 10 then end_line [u, v] (break_lines s)
      else if u = 10 \<or> u = 13 then end_line [u] (break_lines (v # s))
      else apfst ((#) u) (break_lines (v # s)))"

fun trim_rest :: "(jsstr \<times> jsstr) list \<Rightarrow> jsstr" where
  "trim_rest [] = []"
| "trim_rest [(e, l)] = e @ eS l True False"
| "trim_rest ((e, l) # ls) = e @ eS l True True @ trim_rest ls"

definition Jk :: "jsstr \<Rightarrow> jsstr" where
  "Jk s = (case break_lines s of (l, ls) \<Rightarrow> eS l False (ls \<noteq> []) @ trim_rest ls)"

definition unbroken :: "jsstr \<Rightarrow> jsstr" where
  "unbroken s = (case break_lines s of (l, ls) \<Rightarrow> l @ concat (map (\<lambda>(e, m). 32 # m) ls))"

definition dS :: "jsstr \<Rightarrow> jsstr" where "dS s = dropWhile is_blank s"

section \<open>Helpers\<close>

abbreviation h_elem :: "string \<Rightarrow> (jsstr \<times> hvalue) list \<Rightarrow> hast list \<Rightarrow> hast" where
  "h_elem n ps cs \<equiv> HElement (js n) ps cs None"

abbreviation h_newline :: hast where "h_newline \<equiv> HText [10]"

text \<open>\<open>uS\<close>: line endings between the nodes, and around them.\<close>

fun separate :: "hast list \<Rightarrow> hast list" where
  "separate [] = []"
| "separate [h] = [h]"
| "separate (h # hs) = h # h_newline # separate hs"

definition uS :: "hast list \<Rightarrow> bool \<Rightarrow> hast list" where
  "uS e loose = (if loose then [h_newline] else []) @ separate e @ (if loose \<and> e \<noteq> [] then [h_newline] else [])"

text \<open>What a handler returns: nothing, a node or an array of nodes.\<close>

datatype mresult = MNone | MOne hast | MMany "hast list"

fun result_nodes :: "mresult \<Rightarrow> hast list" where
  "result_nodes MNone = []"
| "result_nodes (MOne h) = [h]"
| "result_nodes (MMany hs) = hs"

text \<open>Behind a break, white space at the start of a text is dropped, and of a first text in an element.\<close>

fun trim_first :: "mresult \<Rightarrow> mresult" where
  "trim_first (MOne (HText v)) = MOne (HText (dS v))"
| "trim_first (MOne (HElement n ps (HText v # cs) c)) = MOne (HElement n ps (HText (dS v) # cs) c)"
| "trim_first r = r"

record foot_state =
  footnoteOrder :: "jsstr list"
  footnoteCounts :: "(jsstr \<times> nat) list"

text \<open>The fixed part of the state: options, definitions and functions of the engine.\<close>

record to_hast_env =
  allowDangerous :: bool
  clobber_prefix :: "jsstr option"
  definitionById :: "(jsstr \<times> jsstr \<times> jsstr option) list"
  footnoteById :: "(jsstr \<times> jsstr \<times> mdast list) list"
  toUpper :: "jsstr \<Rightarrow> jsstr"
  toLower :: "jsstr \<Rightarrow> jsstr"

definition foot_prefix :: "to_hast_env \<Rightarrow> jsstr" where
  "foot_prefix e = (case clobber_prefix e of Some p \<Rightarrow> p | None \<Rightarrow> js ''user-content-'')"

definition num_text :: "nat \<Rightarrow> jsstr" where "num_text n = js (show_nat n)"

definition again :: "nat \<Rightarrow> jsstr" where "again n = (if n > 1 then 45 # num_text n else [])"

definition title_property :: "jsstr option \<Rightarrow> (jsstr \<times> hvalue) list" where
  "title_property t = (case t of Some s \<Rightarrow> [(js ''title'', HStr s)] | None \<Rightarrow> [])"

text \<open>\<open>Xk\<close>: a reference without a definition is written out.\<close>

definition reference_end :: "jsstr \<Rightarrow> jsstr option \<Rightarrow> jsstr \<Rightarrow> jsstr" where
  "reference_end kind label identifier = 93 # (if kind = js ''collapsed'' then js ''[]''
     else if kind = js ''full'' then [91] @ (case label of Some l \<Rightarrow> if l \<noteq> [] then l else identifier | None \<Rightarrow> identifier) @ [93]
     else [])"

definition bracketed :: "jsstr \<Rightarrow> hast list \<Rightarrow> hast list" where
  "bracketed r o' =
     (let o1 = (case o' of HText v # hs \<Rightarrow> HText (91 # v) # hs | _ \<Rightarrow> HText [91] # o')
      in case List.last o1 of HText v \<Rightarrow> butlast o1 @ [HText (v @ r)] | _ \<Rightarrow> o1 @ [HText r])"

text \<open>\<open>footnoteReference\<close>: a number by the order of first reference, an id that counts the references.\<close>

definition footnote_reference :: "to_hast_env \<Rightarrow> jsstr \<Rightarrow> foot_state \<Rightarrow> hast \<times> foot_state" where
  "footnote_reference e identifier st =
     (let r = toUpper e identifier; o' = ax (toLower e r); n = foot_prefix e;
          old = map_of (footnoteCounts st) r;
          order = (if old = None then footnoteOrder st @ [r] else footnoteOrder st);
          i = (if old = None then int (length order) else indexOf (footnoteOrder st) r + 1);
          s = (case old of Some c \<Rightarrow> c + 1 | None \<Rightarrow> 1)
      in (h_elem ''sup'' [] [h_elem ''a''
            [(js ''href'', HStr (35 # n @ js ''fn-'' @ o')), (js ''id'', HStr (n @ js ''fnref-'' @ o' @ again s)),
             (js ''dataFootnoteRef'', HBool True), (js ''ariaDescribedBy'', HArr [HStr (js ''footnote-label'')])]
            [HText (num_text (nat i))]],
          st\<lparr>footnoteOrder := order, footnoteCounts := (r, s) # footnoteCounts st\<rparr>))"

section \<open>Lists and tables\<close>

text \<open>
  What a handler reads of the parent of its node: whether it is a loose list, and the alignment of a
  table; \<open>index\<close> is the position of the node in it.
\<close>

record parent =
  has_parent :: bool
  loose_list :: bool
  columns :: "jsstr option list option"
  index :: nat

definition no_parent :: parent where
  "no_parent = \<lparr>has_parent = False, loose_list = False, columns = None, index = 0\<rparr>"

text \<open>\<open>Gk\<close>, on the items of a list.\<close>

definition Gk :: "mdast \<Rightarrow> bool" where
  "Gk m = (case (case m of MListItem ch sp cs \<Rightarrow> sp | MList ord st sp cs \<Rightarrow> sp | _ \<Rightarrow> None) of
     Some b \<Rightarrow> b | None \<Rightarrow> length (mdast_children m) > 1)"

definition as_parent :: "mdast \<Rightarrow> parent" where
  "as_parent m = \<lparr>has_parent = True,
     loose_list = (case m of MList ord st sp cs \<Rightarrow> sp = Some True \<or> list_ex Gk cs | _ \<Rightarrow> False),
     columns = (case m of MTable al cs \<Rightarrow> al | _ \<Rightarrow> None), index = 0\<rparr>"

definition is_p :: "hast \<Rightarrow> bool" where
  "is_p h = (case h of HElement n ps cs c \<Rightarrow> n = js ''p'' | _ \<Rightarrow> False)"

definition hast_kids :: "hast \<Rightarrow> hast list" where
  "hast_kids h = (case h of HElement n ps cs c \<Rightarrow> cs | HRoot cs \<Rightarrow> cs | _ \<Rightarrow> [])"

definition check_box :: "bool \<Rightarrow> hast" where
  "check_box b = h_elem ''input'' [(js ''type'', HStr (js ''checkbox'')), (js ''checked'', HBool b), (js ''disabled'', HBool True)] []"

definition add_check_box :: "bool \<Rightarrow> hast list \<Rightarrow> hast list" where
  "add_check_box b r =
     (let put = (\<lambda>cs. check_box b # (if cs \<noteq> [] then HText [32] # cs else [])) in
      case r of
        HElement n ps cs c # hs \<Rightarrow> if n = js ''p'' then HElement n ps (put cs) c # hs else h_elem ''p'' [] (put []) # r
      | _ \<Rightarrow> h_elem ''p'' [] (put []) # r)"

fun item_children :: "bool \<Rightarrow> bool \<Rightarrow> hast list \<Rightarrow> hast list" where
  "item_children loose first [] = []"
| "item_children loose first (h # hs) =
     (if loose \<or> \<not> first \<or> \<not> is_p h then [h_newline] else []) @ (if is_p h \<and> \<not> loose then hast_kids h else [h]) @
     item_children loose False hs"

definition item_element :: "bool \<Rightarrow> bool option \<Rightarrow> hast list \<Rightarrow> hast" where
  "item_element loose checked r0 =
     (let r = (case checked of Some b \<Rightarrow> add_check_box b r0 | None \<Rightarrow> r0);
          cs = item_children loose True r @
            (if r \<noteq> [] \<and> (loose \<or> \<not> is_p (List.last r)) then [h_newline] else [])
      in h_elem ''li'' (if checked = None then [] else [(js ''className'', HArr [HStr (js ''task-list-item'')])]) cs)"

definition is_task :: "hast \<Rightarrow> bool" where
  "is_task h = (case h of
     HElement n ps cs c \<Rightarrow> n = js ''li'' \<and>
       (case map_of ps (js ''className'') of Some (HArr vs) \<Rightarrow> HStr (js ''task-list-item'') \<in> set vs | _ \<Rightarrow> False)
   | _ \<Rightarrow> False)"

definition list_element :: "bool \<Rightarrow> nat option \<Rightarrow> hast list \<Rightarrow> hast" where
  "list_element ordered start r = h_elem (if ordered then ''ol'' else ''ul'')
     ((case start of Some n \<Rightarrow> if n \<noteq> 1 then [(js ''start'', HNum (num_text n))] else [] | None \<Rightarrow> []) @
      (if list_ex is_task r then [(js ''className'', HArr [HStr (js ''contains-task-list'')])] else []))
     (uS r True)"

definition table_element :: "hast list \<Rightarrow> hast" where
  "table_element n = h_elem ''table'' [] (uS (case n of
      [] \<Rightarrow> []
    | r # rest \<Rightarrow> h_elem ''thead'' [] (uS [r] True) # (if rest \<noteq> [] then [h_elem ''tbody'' [] (uS rest True)] else [])) True)"

definition cell_element :: "string \<Rightarrow> jsstr option \<Rightarrow> hast list \<Rightarrow> hast" where
  "cell_element tag al cs =
     h_elem tag (case al of Some a \<Rightarrow> if a \<noteq> [] then [(js ''align'', HStr a)] else [] | None \<Rightarrow> []) cs"

section \<open>The conversion\<close>

text \<open>\<open>one\<close>, \<open>all\<close> and the loop of \<open>tableRow\<close>; \<open>broke\<close> says that the node before is a break.\<close>

definition code_element :: "jsstr \<Rightarrow> jsstr option \<Rightarrow> hast" where
  "code_element v lang = h_elem ''pre'' [] [h_elem ''code''
     (case lang of Some l \<Rightarrow> if l \<noteq> [] then [(js ''className'', HArr [HStr (js ''language-'' @ l)])] else [] | None \<Rightarrow> [])
     [HText (if v \<noteq> [] then v @ [10] else [])]]"

definition image_element :: "jsstr \<Rightarrow> (jsstr \<times> hvalue) list \<Rightarrow> jsstr option \<Rightarrow> hast" where
  "image_element url alt title = h_elem ''img'' ((js ''src'', HStr (ax url)) # alt @ title_property title) []"

definition link_element :: "jsstr \<Rightarrow> jsstr option \<Rightarrow> hast list \<Rightarrow> hast" where
  "link_element url title cs = h_elem ''a'' ((js ''href'', HStr (ax url)) # title_property title) cs"

fun convert_one :: "to_hast_env \<Rightarrow> parent \<Rightarrow> mdast \<Rightarrow> foot_state \<Rightarrow> mresult \<times> foot_state"
and all_nodes :: "to_hast_env \<Rightarrow> parent \<Rightarrow> bool \<Rightarrow> mdast list \<Rightarrow> foot_state \<Rightarrow> hast list \<times> foot_state"
and row_cells :: "to_hast_env \<Rightarrow> string \<Rightarrow> jsstr option list option \<Rightarrow> mdast list \<Rightarrow> foot_state \<Rightarrow> hast list \<times> foot_state" where
  "convert_one e p (MRoot cs) st = apfst (\<lambda>hs. MOne (HRoot (uS hs False))) (all_nodes e (as_parent (MRoot cs)) False cs st)"
| "convert_one e p (MParagraph cs) st = apfst (\<lambda>hs. MOne (h_elem ''p'' [] hs)) (all_nodes e (as_parent (MParagraph cs)) False cs st)"
| "convert_one e p (MHeading d cs) st =
     apfst (\<lambda>hs. MOne (HElement (104 # num_text d) [] hs None)) (all_nodes e (as_parent (MHeading d cs)) False cs st)"
| "convert_one e p (MText v) st = (MOne (HText (Jk v)), st)"
| "convert_one e p (MEmphasis cs) st = apfst (\<lambda>hs. MOne (h_elem ''em'' [] hs)) (all_nodes e (as_parent (MEmphasis cs)) False cs st)"
| "convert_one e p (MStrong cs) st = apfst (\<lambda>hs. MOne (h_elem ''strong'' [] hs)) (all_nodes e (as_parent (MStrong cs)) False cs st)"
| "convert_one e p (MDelete cs) st = apfst (\<lambda>hs. MOne (h_elem ''del'' [] hs)) (all_nodes e (as_parent (MDelete cs)) False cs st)"
| "convert_one e p (MInlineCode v) st = (MOne (h_elem ''code'' [] [HText (unbroken v)]), st)"
| "convert_one e p (MCode v lang) st = (MOne (code_element v lang), st)"
| "convert_one e p (MBlockquote cs) st =
     apfst (\<lambda>hs. MOne (h_elem ''blockquote'' [] (uS hs True))) (all_nodes e (as_parent (MBlockquote cs)) False cs st)"
| "convert_one e p MBreak st = (MMany [h_elem ''br'' [] [], h_newline], st)"
| "convert_one e p MThematicBreak st = (MOne (h_elem ''hr'' [] []), st)"
| "convert_one e p (MHtml v) st = ((if allowDangerous e then MOne (HRaw v) else MNone), st)"
| "convert_one e p (MImage url alt title) st =
     (MOne (image_element url (case alt of Some a \<Rightarrow> [(js ''alt'', HStr a)] | None \<Rightarrow> []) title), st)"
| "convert_one e p (MImageReference i label kind alt) st =
     (case map_of (definitionById e) (toUpper e i) of
        None \<Rightarrow> (MMany [HText (js ''!['' @ (case alt of Some a \<Rightarrow> a | None \<Rightarrow> js ''null'') @ reference_end kind label i)], st)
      | Some (url, title) \<Rightarrow>
          (MOne (image_element url [(js ''alt'', case alt of Some a \<Rightarrow> HStr a | None \<Rightarrow> HNull)] title), st))"
| "convert_one e p (MLink url title cs) st =
     apfst (\<lambda>hs. MOne (link_element url title hs)) (all_nodes e (as_parent (MLink url title cs)) False cs st)"
| "convert_one e p (MLinkReference i label kind cs) st =
     (let r = all_nodes e (as_parent (MLinkReference i label kind cs)) False cs st in
      case map_of (definitionById e) (toUpper e i) of
        None \<Rightarrow> (MMany (bracketed (reference_end kind label i) (fst r)), snd r)
      | Some (url, title) \<Rightarrow> (MOne (link_element url title (fst r)), snd r))"
| "convert_one e p (MDefinition i url title) st = (MNone, st)"
| "convert_one e p (MFootnoteDefinition i cs) st = (MNone, st)"
| "convert_one e p (MFootnoteReference i) st = apfst MOne (footnote_reference e i st)"
| "convert_one e p (MList ord start sp cs) st =
     apfst (\<lambda>hs. MOne (list_element ord start hs)) (all_nodes e (as_parent (MList ord start sp cs)) False cs st)"
| "convert_one e p (MListItem checked sp cs) st =
     apfst (\<lambda>hs. MOne (item_element (if has_parent p then loose_list p else Gk (MListItem checked sp cs)) checked hs))
       (all_nodes e (as_parent (MListItem checked sp cs)) False cs st)"
| "convert_one e p (MTable al cs) st =
     apfst (\<lambda>hs. MOne (table_element hs)) (all_nodes e (as_parent (MTable al cs)) False cs st)"
| "convert_one e p (MTableRow cs) st =
     apfst (\<lambda>hs. MOne (h_elem ''tr'' [] (uS hs True)))
       (row_cells e (if has_parent p \<and> index p = 0 then ''th'' else ''td'') (columns p) cs st)"
| "convert_one e p (MTableCell cs) st = apfst (\<lambda>hs. MOne (h_elem ''td'' [] hs)) (all_nodes e (as_parent (MTableCell cs)) False cs st)"
| "convert_one e p (MToml v) st = (MNone, st)"
| "convert_one e p (MYaml v) st = (MNone, st)"
| "convert_one e p (MUnknown v cs) st =
     (case v of
        Some s \<Rightarrow> (MOne (HText s), st)
      | None \<Rightarrow> apfst (\<lambda>hs. MOne (h_elem ''div'' [] hs)) (all_nodes e (as_parent (MUnknown v cs)) False cs st))"
| "all_nodes e p broke [] st = ([], st)"
| "all_nodes e p broke (m # ms) st =
     (case convert_one e p m st of (r, st1) \<Rightarrow>
      case all_nodes e (p\<lparr>index := Suc (index p)\<rparr>) (m = MBreak) ms st1 of (hs, st2) \<Rightarrow>
        (result_nodes (if broke then trim_first r else r) @ hs, st2))"
| "row_cells e tag al [] st =
     ((case al of Some as \<Rightarrow> map (\<lambda>a. cell_element tag a []) as | None \<Rightarrow> []), st)"
| "row_cells e tag al (m # ms) st =
     (case al of
        Some [] \<Rightarrow> ([], st)
      | _ \<Rightarrow>
          (case all_nodes e (as_parent m) False (mdast_children m) st of (cs, st1) \<Rightarrow>
           case row_cells e tag (map_option tl al) ms st1 of (hs, st2) \<Rightarrow>
             (cell_element tag (case al of Some (a # as) \<Rightarrow> a | _ \<Rightarrow> None) cs # hs, st2)))"

section \<open>Footnotes\<close>

text \<open>\<open>rS\<close> and \<open>oS\<close>; the counters start at 0 and at 1.\<close>

definition rS :: "nat \<Rightarrow> hast list" where
  "rS t = HText [8617] # (if t > 1 then [h_elem ''sup'' [] [HText (num_text t)]] else [])"

definition oS :: "nat \<Rightarrow> nat \<Rightarrow> jsstr" where
  "oS l t = js ''Back to reference '' @ num_text (l + 1) @ again t"

definition back_reference :: "to_hast_env \<Rightarrow> jsstr \<Rightarrow> nat \<Rightarrow> nat \<Rightarrow> hast" where
  "back_reference e c l u = h_elem ''a''
     [(js ''href'', HStr (35 # foot_prefix e @ js ''fnref-'' @ c @ again u)), (js ''dataFootnoteBackref'', HStr []),
      (js ''ariaLabel'', HStr (oS l u)), (js ''className'', HArr [HStr (js ''data-footnote-backref'')])] (rS u)"

fun with_spaces :: "hast list \<Rightarrow> hast list" where
  "with_spaces [] = []"
| "with_spaces [h] = [h]"
| "with_spaces (h # hs) = h # HText [32] # with_spaces hs"

definition back_references :: "to_hast_env \<Rightarrow> jsstr \<Rightarrow> nat \<Rightarrow> nat \<Rightarrow> hast list" where
  "back_references e c l p = with_spaces (map (back_reference e c l) [1..<p + 1])"

definition append_backs :: "hast list \<Rightarrow> hast list \<Rightarrow> hast list" where
  "append_backs a d =
     (if a = [] then d
      else case List.last a of
        HElement n ps cs c \<Rightarrow>
          if n = js ''p'' then
            butlast a @ [HElement n ps
              ((case cs of
                  [] \<Rightarrow> [HText [32]]
                | _ \<Rightarrow> (case List.last cs of HText v \<Rightarrow> butlast cs @ [HText (v @ [32])] | _ \<Rightarrow> cs @ [HText [32]])) @ d) c]
          else a @ d
      | _ \<Rightarrow> a @ d)"

definition foot_id :: "to_hast_env \<Rightarrow> jsstr \<Rightarrow> jsstr" where
  "foot_id e identifier = ax (toLower e (toUpper e identifier))"

text \<open>
  The loop over \<open>footnoteOrder\<close>, which a definition may lengthen while it is converted. \<open>n\<close> bounds the
  rounds and \<open>None\<close> says that they were too few.
\<close>

fun foot_items :: "to_hast_env \<Rightarrow> nat \<Rightarrow> nat \<Rightarrow> foot_state \<Rightarrow> (hast list \<times> foot_state) option" where
  "foot_items e n l st =
     (if l < length (footnoteOrder st)
      then (case n of
              0 \<Rightarrow> None
            | Suc k \<Rightarrow>
                (case map_of (footnoteById e) (footnoteOrder st ! l) of
                   None \<Rightarrow> foot_items e k (Suc l) st
                 | Some (identifier, kids) \<Rightarrow>
                     (case all_nodes e (as_parent (MFootnoteDefinition identifier kids)) False kids st of (a, st1) \<Rightarrow>
                        let c = foot_id e identifier;
                            p = (case map_of (footnoteCounts st1) (toUpper e identifier) of Some m \<Rightarrow> m | None \<Rightarrow> 0);
                            li = h_elem ''li'' [(js ''id'', HStr (foot_prefix e @ js ''fn-'' @ c))]
                              (uS (append_backs a (back_references e c l p)) True)
                        in map_option (apfst ((#) li)) (foot_items e k (Suc l) st1))))
      else Some ([], st))"

declare foot_items.simps [simp del]

definition foot_section :: "hast list \<Rightarrow> hast" where
  "foot_section s = h_elem ''section'' [(js ''dataFootnotes'', HBool True), (js ''className'', HArr [HStr (js ''footnotes'')])]
     [h_elem ''h2'' [(js ''className'', HArr [HStr (js ''sr-only'')]), (js ''id'', HStr (js ''footnote-label''))]
        [HText (js ''Footnotes'')],
      h_newline, h_elem ''ol'' [] (uS s True), h_newline]"

section \<open>Definitions and the entry\<close>

text \<open>The visitor: definitions of the tree in document order, the first of a name counts.\<close>

fun collect :: "mdast \<Rightarrow> mdast list" and collects :: "mdast list \<Rightarrow> mdast list" where
  "collect m = (case m of MDefinition i u t \<Rightarrow> [m] | MFootnoteDefinition i cs \<Rightarrow> [m] | _ \<Rightarrow> []) @ collects (mdast_children m)"
| "collects [] = []"
| "collects (m # ms) = collect m @ collects ms"

definition the_definitions :: "(jsstr \<Rightarrow> jsstr) \<Rightarrow> mdast list \<Rightarrow> (jsstr \<times> jsstr \<times> jsstr option) list" where
  "the_definitions up ms = concat (map (\<lambda>m. case m of MDefinition i u t \<Rightarrow> [(up i, u, t)] | _ \<Rightarrow> []) ms)"

definition the_footnotes :: "(jsstr \<Rightarrow> jsstr) \<Rightarrow> mdast list \<Rightarrow> (jsstr \<times> jsstr \<times> mdast list) list" where
  "the_footnotes up ms = concat (map (\<lambda>m. case m of MFootnoteDefinition i cs \<Rightarrow> [(up i, i, cs)] | _ \<Rightarrow> []) ms)"

definition env_of :: "bool \<Rightarrow> jsstr option \<Rightarrow> (jsstr \<Rightarrow> jsstr) \<Rightarrow> (jsstr \<Rightarrow> jsstr) \<Rightarrow> mdast \<Rightarrow> to_hast_env" where
  "env_of dangerous prefix up low m = \<lparr>allowDangerous = dangerous, clobber_prefix = prefix,
     definitionById = the_definitions up (collect m), footnoteById = the_footnotes up (collect m),
     toUpper = up, toLower = low\<rparr>"

text \<open>How many footnote references a tree has: enough rounds for the loop.\<close>

fun references :: "mdast \<Rightarrow> jsstr list" and references_list :: "mdast list \<Rightarrow> jsstr list" where
  "references m = (case m of MFootnoteReference i \<Rightarrow> [i] | _ \<Rightarrow> []) @ references_list (mdast_children m)"
| "references_list [] = []"
| "references_list (m # ms) = references m @ references_list ms"

definition push_children :: "hast list \<Rightarrow> hast \<Rightarrow> hast" where
  "push_children hs h = (case h of HRoot cs \<Rightarrow> HRoot (cs @ hs) | HElement n ps cs c \<Rightarrow> HElement n ps (cs @ hs) c | _ \<Rightarrow> h)"

definition pS :: "bool \<Rightarrow> jsstr option \<Rightarrow> (jsstr \<Rightarrow> jsstr) \<Rightarrow> (jsstr \<Rightarrow> jsstr) \<Rightarrow> mdast \<Rightarrow> hast option" where
  "pS dangerous prefix up low m =
     (let e = env_of dangerous prefix up low m in
      case convert_one e no_parent m \<lparr>footnoteOrder = [], footnoteCounts = []\<rparr> of (r, st) \<Rightarrow>
      let a = (case r of MNone \<Rightarrow> HRoot [] | MOne h \<Rightarrow> h | MMany hs \<Rightarrow> HRoot hs) in
      map_option (\<lambda>(s, st'). if s = [] then a else push_children [h_newline, foot_section s] a)
        (foot_items e (length (references m)) 0 st))"

end
