(* ===== verification/Mdast_Sound.thy ===== *)
theory Mdast_Sound
  imports Mdast_To_Hast
begin

text \<open>
  The conversion of markdown trees: URLs come out normalized, the conversion returns for every tree
  although a footnote may bring up new footnotes, and the section of footnotes has one item for each
  footnote that is referred to and defined.
\<close>

section \<open>URLs\<close>

fun normal_uri :: "jsstr \<Rightarrow> bool" where
  "normal_uri [] = True"
| "normal_uri (a # s) =
     (if a = 37 then (case s of b # c # r \<Rightarrow> Ly b \<and> Ly c \<and> normal_uri r | _ \<Rightarrow> False)
      else uri_char a \<and> normal_uri s)"

lemma hex_upper_Ly: "d < 16 \<Longrightarrow> Ly (hex_upper d)"
  by (auto simp: hex_upper_def Ly_def is_AZ_def)

lemma utf8_bytes: "c < 1114112 \<Longrightarrow> b \<in> set (utf8 c) \<Longrightarrow> b < 256"
  by (auto simp: utf8_def split: if_splits)

lemma normal_bytes:
  "list_all (\<lambda>b. b < 256) bs \<Longrightarrow> normal_uri t \<Longrightarrow>
     normal_uri (concat (map (\<lambda>b. [37, hex_upper (b div 16), hex_upper (b mod 16)]) bs) @ t)"
  by (induction bs) (auto simp: hex_upper_Ly)

lemma normal_pct: "c < 1114112 \<Longrightarrow> normal_uri t \<Longrightarrow> normal_uri (pct c @ t)"
  unfolding pct_def by (rule normal_bytes) (auto simp: list_all_iff dest: utf8_bytes)

lemma ax_normal: "list_all (\<lambda>u. u < 65536) s \<Longrightarrow> normal_uri (ax s)"
proof (induction s rule: length_induct)
  case (1 s)
  then have ih: "length r < length s \<Longrightarrow> list_all (\<lambda>u. u < 65536) r \<Longrightarrow> normal_uri (ax r)" for r by blast
  show ?case
  proof (cases s)
    case (Cons a t)
    have t: "normal_uri (ax t)" "a < 65536" using ih [of t] 1(2) Cons by auto
    have u: "\<not> uri_char 37" by (simp add: uri_char_def is_az_def)
    consider (kept) b c r where "a = 37" "t = b # c # r" "Ly b" "Ly c"
      | (pair) b r where "t = b # r" "high_surrogate a" "low_surrogate b"
      | (other) "\<not> (a = 37 \<and> two_alphanumeric t)" "\<And>b r. t = b # r \<Longrightarrow> \<not> (high_surrogate a \<and> low_surrogate b)"
      by (cases t; cases "tl t") (auto simp: two_alphanumeric_def)
    then show ?thesis
    proof cases
      case kept
      then have "normal_uri (ax r)" using ih [of r] 1(2) Cons by simp
      then show ?thesis using kept Cons by (simp add: two_alphanumeric_def)
    next
      case pair
      then have "normal_uri (ax r)" using ih [of r] 1(2) Cons by simp
      moreover have "a - 55296 \<le> 1023" "b - 56320 \<le> 1023" "a \<noteq> 37" "\<not> a < 128"
        using pair by (auto simp: high_surrogate_def low_surrogate_def)
      moreover from this(1,2) have "65536 + (a - 55296) * 1024 + (b - 56320) < 1114112" by linarith
      ultimately show ?thesis using pair Cons normal_pct by simp
    next
      case other
      have "ax (a # t) = (if a < 128 then (if uri_char a then [a] else pct a) @ ax t
          else if high_surrogate a \<or> low_surrogate a then pct 65533 @ ax t else pct a @ ax t)"
      proof (cases t)
        case Nil
        then show ?thesis by (simp add: two_alphanumeric_def)
      next
        case (Cons b r)
        then have "\<not> (a = 37 \<and> two_alphanumeric (b # r))" "\<not> (high_surrogate a \<and> low_surrogate b)"
          using other(1) other(2) [OF Cons] by simp_all
        then show ?thesis unfolding Cons ax.simps(2) [of a] list.case by (simp only: if_False)
      qed
      moreover have "uri_char a \<Longrightarrow> a \<noteq> 37" using u by auto
      ultimately show ?thesis using Cons t normal_pct [of a "ax t"] normal_pct [of 65533 "ax t"] by simp
    qed
  qed simp
qed

lemma normal_fixed: "normal_uri s \<Longrightarrow> ax s = s"
proof (induction s rule: length_induct)
  case (1 s)
  then have ih: "length r < length s \<Longrightarrow> normal_uri r \<Longrightarrow> ax r = r" for r by blast
  have u: "uri_char a \<Longrightarrow> a < 128" for a by (auto simp: uri_char_def is_az_def)
  show ?case
  proof (cases s)
    case (Cons a t)
    show ?thesis
    proof (cases "a = 37")
      case True
      then obtain b c r where "t = b # c # r" "Ly b" "Ly c" "normal_uri r"
        using 1(2) Cons by (auto split: list.splits)
      then show ?thesis using Cons True ih [of r] by (simp add: two_alphanumeric_def)
    next
      case False
      then have "uri_char a" "normal_uri t" using 1(2) Cons by auto
      then show ?thesis using Cons False u [of a] ih [of t] by simp
    qed
  qed simp
qed

lemma normal_chars: "normal_uri s \<Longrightarrow> list_all (\<lambda>u. uri_char u \<or> u = 37) s"
proof (induction s rule: length_induct)
  case (1 s)
  have l: "Ly b \<Longrightarrow> uri_char b" for b by (auto simp: Ly_def uri_char_def is_AZ_def)
  show ?case
  proof (cases s)
    case (Cons a t)
    then show ?thesis using 1 l by (auto split: if_splits list.splits)
  qed simp
qed



section \<open>Footnotes\<close>

text \<open>The footnotes seen so far: every name once, with a count.\<close>

definition foot_ok :: "foot_state \<Rightarrow> bool" where
  "foot_ok st \<longleftrightarrow> distinct (footnoteOrder st) \<and> set (footnoteOrder st) = fst ` set (footnoteCounts st)"

text \<open>A step adds names at the end, from a set.\<close>

definition extends :: "jsstr set \<Rightarrow> foot_state \<Rightarrow> foot_state \<Rightarrow> bool" where
  "extends U st st' \<longleftrightarrow> (foot_ok st \<longrightarrow> foot_ok st') \<and> (\<exists>zs. footnoteOrder st' = footnoteOrder st @ zs \<and> set zs \<subseteq> U)"

lemma extends_refl [simp]: "extends U st st"
  by (simp add: extends_def)

lemma extends_trans: "extends U a b \<Longrightarrow> extends V b c \<Longrightarrow> U \<subseteq> W \<Longrightarrow> V \<subseteq> W \<Longrightarrow> extends W a c"
  unfolding extends_def by force

lemma extends_mono: "extends U a b \<Longrightarrow> U \<subseteq> V \<Longrightarrow> extends V a b"
  unfolding extends_def by blast

lemma reference_extends: "extends {toUpper e i} st (snd (footnote_reference e i st))"
proof (cases "map_of (footnoteCounts st) (toUpper e i)")
  case None
  then have "toUpper e i \<notin> fst ` set (footnoteCounts st)" by (simp add: map_of_eq_None_iff)
  then show ?thesis using None by (auto simp: extends_def foot_ok_def footnote_reference_def Let_def)
next
  case (Some c)
  then have "toUpper e i \<in> fst ` set (footnoteCounts st)" by (metis map_of_SomeD fst_conv image_eqI)
  then show ?thesis using Some by (auto simp: extends_def foot_ok_def footnote_reference_def Let_def insert_absorb)
qed

abbreviation names :: "to_hast_env \<Rightarrow> jsstr list \<Rightarrow> jsstr set" where "names e is \<equiv> toUpper e ` set is"

lemma conversion_extends:
  "extends (names e (references m)) st (snd (convert_one e p m st))"
  "extends (names e (references_list ms)) st (snd (all_nodes e q broke ms st))"
  "extends (names e (references_list ks)) st (snd (row_cells e tag al ks st))"
proof (induction e p m st and e q broke ms st and e tag al ks st rule: convert_one_all_nodes_row_cells.induct)
  case (30 e p broke m ms st)
  obtain r st1 where r: "convert_one e p m st = (r, st1)" by force
  obtain hs st2 where h: "all_nodes e (p\<lparr>index := Suc (index p)\<rparr>) (m = MBreak) ms st1 = (hs, st2)" by force
  have "extends (names e (references m)) st st1" using 30(1) r by simp
  moreover have "extends (names e (references_list ms)) st1 st2" using 30(2) [OF r [symmetric]] h by simp
  ultimately have "extends (names e (references_list (m # ms))) st st2" by (rule extends_trans) auto
  then show ?case by (simp add: r h del: references.simps)
next
  case (32 e tag al m ms st)
  obtain cs st1 where c: "all_nodes e (as_parent m) False (mdast_children m) st = (cs, st1)" by force
  obtain hs st2 where h: "row_cells e tag (map_option tl al) ms st1 = (hs, st2)" by force
  show ?case
  proof (cases "al = Some []")
    case False
    then consider "al = None" | x xs where "al = Some (x # xs)" by (cases al; auto simp: neq_Nil_conv)
    then have "extends (names e (references_list (mdast_children m))) st st1 \<and>
        extends (names e (references_list ms)) st1 st2"
      using 32 c h by cases auto
    then have "extends (names e (references_list (mdast_children m))) st st1"
      and "extends (names e (references_list ms)) st1 st2" by blast+
    then have "extends (names e (references_list (m # ms))) st st2" by (rule extends_trans) auto
    moreover have "snd (row_cells e tag al (m # ms) st) = st2"
      using False h by (cases al) (auto simp: c split: option.splits list.splits)
    ultimately show ?thesis by simp
  qed simp
qed (auto simp: reference_extends Let_def split: prod.splits option.splits)

text \<open>The references inside a definition are references of the tree.\<close>

lemma collect_references:
  "x \<in> set (collect m) \<Longrightarrow> set (references x) \<subseteq> set (references m)"
  "x \<in> set (collects ms) \<Longrightarrow> set (references x) \<subseteq> set (references_list ms)"
proof (induction m and ms rule: collect_collects.induct)
  case (1 m)
  have "x = m \<or> x \<in> set (collects (mdast_children m))" using 1(2) by (auto split: mdast.splits)
  moreover have "set (references_list (mdast_children m)) \<subseteq> set (references m)" by (subst references.simps) simp
  ultimately show ?case using 1(1) by blast
qed (auto simp del: references.simps)

lemma footnote_references:
  assumes "(k, i, kids) \<in> set (the_footnotes up (collect m))"
  shows "set (references_list kids) \<subseteq> set (references m)"
proof -
  have "MFootnoteDefinition i kids \<in> set (collect m)"
    using assms by (auto simp: the_footnotes_def split: mdast.splits)
  then show ?thesis using collect_references(1) by fastforce
qed

definition item_id :: "hast \<Rightarrow> hvalue option" where
  "item_id h = (case h of HElement n ps cs c \<Rightarrow> map_of ps (js ''id'') | _ \<Rightarrow> None)"

lemma item_id_elem: "item_id (HElement n ps cs c) = map_of ps (js ''id'')"
  by (simp add: item_id_def)

definition is_defined :: "to_hast_env \<Rightarrow> jsstr \<Rightarrow> bool" where
  "is_defined e r \<longleftrightarrow> map_of (footnoteById e) r \<noteq> None"

definition defined_id :: "to_hast_env \<Rightarrow> jsstr \<Rightarrow> hvalue option" where
  "defined_id e r = map_option (\<lambda>(i, kids). HStr (foot_prefix e @ js ''fn-'' @ foot_id e i)) (map_of (footnoteById e) r)"

lemma foot_items_total:
  assumes "\<And>k i kids. (k, i, kids) \<in> set (footnoteById e) \<Longrightarrow> names e (references_list kids) \<subseteq> U"
    and "foot_ok st" and "set (footnoteOrder st) \<subseteq> U" and "finite U" and "card U \<le> n + l" and "l \<le> length (footnoteOrder st)"
  shows "\<exists>s st'. foot_items e n l st = Some (s, st') \<and> foot_ok st' \<and> (\<exists>zs. footnoteOrder st' = footnoteOrder st @ zs) \<and>
     map item_id s = map (defined_id e) (filter (is_defined e) (drop l (footnoteOrder st')))"
  using assms(2-6)
proof (induction n arbitrary: l st)
  case (0 l st)
  have "length (footnoteOrder st) = card (set (footnoteOrder st))"
    using 0 distinct_card [of "footnoteOrder st"] by (simp add: foot_ok_def)
  then have "length (footnoteOrder st) \<le> l" using 0 card_mono [of U "set (footnoteOrder st)"] by simp
  then show ?case using 0 by (simp add: foot_items.simps [of e 0])
next
  case (Suc k l st)
  show ?case
  proof (cases "l < length (footnoteOrder st)")
    case False
    then show ?thesis using Suc.prems by (simp add: foot_items.simps [of e "Suc k"])
  next
    case l: True
    show ?thesis
    proof (cases "map_of (footnoteById e) (footnoteOrder st ! l)")
      case None
      obtain s st' zs where r: "foot_items e k (Suc l) st = Some (s, st')" "foot_ok st'" "footnoteOrder st' = footnoteOrder st @ zs"
          "map item_id s = map (defined_id e) (filter (is_defined e) (drop (Suc l) (footnoteOrder st')))"
        using Suc.IH [of st "Suc l"] Suc.prems l by auto
      have "drop l (footnoteOrder st') = (footnoteOrder st ! l) # drop (Suc l) (footnoteOrder st')"
        using l r(3) by (metis Cons_nth_drop_Suc length_append nth_append trans_less_add1)
      moreover have "\<not> is_defined e (footnoteOrder st ! l)" using None by (simp add: is_defined_def)
      ultimately show ?thesis using r None l by (simp add: foot_items.simps [of e "Suc k"])
    next
      case (Some d)
      obtain i kids where d: "d = (i, kids)" by force
      obtain a st1 where a: "all_nodes e (as_parent (MFootnoteDefinition i kids)) False kids st = (a, st1)" by force
      have "extends (names e (references_list kids)) st st1" using conversion_extends(2) [of e kids st] a by (metis snd_conv)
      moreover have "names e (references_list kids) \<subseteq> U" using assms(1) map_of_SomeD [OF Some] d by blast
      ultimately obtain ys where x: "foot_ok st1" "footnoteOrder st1 = footnoteOrder st @ ys" "set (footnoteOrder st1) \<subseteq> U"
        using Suc.prems(1,2) by (auto simp: extends_def)
      obtain s st' zs where r: "foot_items e k (Suc l) st1 = Some (s, st')" "foot_ok st'" "footnoteOrder st' = footnoteOrder st1 @ zs"
          "map item_id s = map (defined_id e) (filter (is_defined e) (drop (Suc l) (footnoteOrder st')))"
        using Suc.IH [of st1 "Suc l"] x Suc.prems(3,4) l by auto
      have "drop l (footnoteOrder st') = (footnoteOrder st ! l) # drop (Suc l) (footnoteOrder st')"
        using l r(3) x(2) by (metis Cons_nth_drop_Suc append.assoc length_append nth_append trans_less_add1)
      moreover have "is_defined e (footnoteOrder st ! l)" "defined_id e (footnoteOrder st ! l) = Some (HStr (foot_prefix e @ js ''fn-'' @ foot_id e i))"
        using Some d by (simp_all add: is_defined_def defined_id_def)
      ultimately show ?thesis using r Some d a l x(2)
        by (simp add: foot_items.simps [of e "Suc k"] Let_def item_id_elem)
    qed
  qed
qed

lemma conversion_of_root:
  fixes dangerous prefix up low m
  defines "e \<equiv> env_of dangerous prefix up low m"
  obtains r st s st' where "convert_one e no_parent m \<lparr>footnoteOrder = [], footnoteCounts = []\<rparr> = (r, st)"
    and "foot_items e (length (references m)) 0 st = Some (s, st')" and "foot_ok st'"
    and "map item_id s = map (defined_id e) (filter (is_defined e) (footnoteOrder st'))"
proof -
  let ?U = "up ` set (references m)"
  obtain r st where o: "convert_one e no_parent m \<lparr>footnoteOrder = [], footnoteCounts = []\<rparr> = (r, st)" by force
  have up: "toUpper e = up" and by_id: "footnoteById e = the_footnotes up (collect m)"
    by (simp_all add: e_def env_of_def)
  have "extends ?U \<lparr>footnoteOrder = [], footnoteCounts = []\<rparr> st"
    using conversion_extends(1) [of e m "\<lparr>footnoteOrder = [], footnoteCounts = []\<rparr>" no_parent] o by (metis up snd_conv)
  then have st: "foot_ok st" "set (footnoteOrder st) \<subseteq> ?U" by (auto simp: extends_def foot_ok_def)
  have c: "card ?U \<le> length (references m) + 0"
    using card_image_le [of "set (references m)" up] card_length [of "references m"]
    by (simp del: references.simps)
  have "toUpper e ` set (references_list kids) \<subseteq> ?U" if "(k, i, kids) \<in> set (footnoteById e)" for k i kids
    using footnote_references that unfolding up by_id by blast
  then obtain s st' where "foot_items e (length (references m)) 0 st = Some (s, st')" "foot_ok st'"
      "map item_id s = map (defined_id e) (filter (is_defined e) (drop 0 (footnoteOrder st')))"
    using foot_items_total [OF _ st _ c] by blast
  then show thesis using that [OF o] by simp
qed

lemma pS_total: "\<exists>h. pS dangerous prefix up low m = Some h"
  by (rule conversion_of_root [of dangerous prefix up low m]) (simp add: pS_def Let_def)

text \<open>
  C17. The conversion of a markdown tree to a syntax tree returns for every tree, also when the
  definition of a footnote refers to further footnotes: the loop over the footnotes in order of
  reference has at most as many rounds as the tree has references.
\<close>

theorem conversion_returns:
  "\<exists>h. pS dangerous prefix up low m = Some h"
  by (rule pS_total)


end
