(* ===== verification/Mdast_Autolink.thy ===== *)
theory Mdast_Autolink
  imports Mdast_To_Hast Hast_Stringify
begin

text \<open>
  Links for plain URLs and mail addresses in a markdown tree (\<^verbatim>\<open>mdast-util-gfm-autolink-literal\<close> on
  \<^verbatim>\<open>mdast-util-find-and-replace\<close> inside \<^verbatim>\<open>src/api/scalar.standalone.js\<close>: \<open>iO\<close>, \<open>Xy\<close>, \<open>sO\<close>, \<open>lO\<close>, \<open>cO\<close>), which
  the parser runs on its result, and the text of a tree (\<open>QO\<close>, \<open>FO\<close>, \<open>zO\<close>). The two regular expressions
  need no backtracking: the class of each run excludes the character that has to follow it. The
  argument \<open>ps\<close> is the class \<open>\p{P}|\p{S}\<close> of the Unicode database.
\<close>

section \<open>The text of a tree\<close>

fun QO :: "mdast \<Rightarrow> jsstr" and zO :: "mdast list \<Rightarrow> jsstr" where
  "QO (MText v) = v"
| "QO (MInlineCode v) = v"
| "QO (MCode v l) = v"
| "QO (MHtml v) = v"
| "QO (MToml v) = v"
| "QO (MYaml v) = v"
| "QO (MUnknown (Some v) cs) = v"
| "QO (MUnknown None cs) = zO cs"
| "QO (MImage u alt t) = (case alt of Some a \<Rightarrow> a | None \<Rightarrow> [])"
| "QO (MImageReference i l k alt) = (case alt of Some a \<Rightarrow> a | None \<Rightarrow> [])"
| "QO (MRoot cs) = zO cs"
| "QO (MParagraph cs) = zO cs"
| "QO (MHeading n cs) = zO cs"
| "QO (MEmphasis cs) = zO cs"
| "QO (MStrong cs) = zO cs"
| "QO (MDelete cs) = zO cs"
| "QO (MBlockquote cs) = zO cs"
| "QO (MLink u t cs) = zO cs"
| "QO (MLinkReference i l k cs) = zO cs"
| "QO (MFootnoteDefinition i cs) = zO cs"
| "QO (MList ord st sp cs) = zO cs"
| "QO (MListItem ch sp cs) = zO cs"
| "QO (MTable al cs) = zO cs"
| "QO (MTableRow cs) = zO cs"
| "QO (MTableCell cs) = zO cs"
| "QO MBreak = []"
| "QO MThematicBreak = []"
| "QO (MDefinition i u t) = []"
| "QO (MFootnoteReference i) = []"
| "zO [] = []"
| "zO (c # cs) = QO c @ zO cs"

section \<open>The two regular expressions\<close>

text \<open>\<open>\w\<close>, \<open>[-.\w]\<close>, \<open>[-\w]\<close>, \<open>[-.\w+]\<close> and \<open>[^ \t\r\n]\<close>.\<close>

definition word_char :: "nat \<Rightarrow> bool" where "word_char u \<longleftrightarrow> is_alphanumeric u \<or> u = 95"
definition label_char :: "nat \<Rightarrow> bool" where "label_char u \<longleftrightarrow> word_char u \<or> u = 45"
definition domain_char :: "nat \<Rightarrow> bool" where "domain_char u \<longleftrightarrow> label_char u \<or> u = 46"
definition local_char :: "nat \<Rightarrow> bool" where "local_char u \<longleftrightarrow> domain_char u \<or> u = 43"
definition path_char :: "nat \<Rightarrow> bool" where "path_char u \<longleftrightarrow> u \<noteq> 32 \<and> u \<noteq> 9 \<and> u \<noteq> 13 \<and> u \<noteq> 10"

text \<open>\<open>/(https?:\/\/|www(?=\.))([-.\w]+)([^ \t\r\n]*)/gi\<close> at the start of a text: its three groups.\<close>

definition url_prefix :: "jsstr \<Rightarrow> nat option" where
  "url_prefix s =
     (if ascii_lower (take 8 s) = js ''https://'' then Some 8
      else if ascii_lower (take 7 s) = js ''http://'' then Some 7
      else if ascii_lower (take 3 s) = js ''www'' \<and> take 1 (drop 3 s) = [46] then Some 3
      else None)"

definition match_url :: "jsstr \<Rightarrow> jsstr list option" where
  "match_url s = (case url_prefix s of
     None \<Rightarrow> None
   | Some k \<Rightarrow>
       let d = takeWhile domain_char (drop k s);
           p = takeWhile path_char (drop (k + length d) s)
       in if d = [] then None else Some [take k s, d, p])"

text \<open>\<open>/([-.\w+]+)@([-\w]+(?:\.[-\w]+)+)/g\<close> at the start of a text: \<open>more_labels\<close> is \<open>(?:\.[-\w]+)*\<close>.\<close>

function more_labels :: "jsstr \<Rightarrow> jsstr" where
  "more_labels s =
     (let l = takeWhile label_char (drop 1 s) in
      if take 1 s = [46] \<and> l \<noteq> [] then 46 # l @ more_labels (drop (Suc (length l)) s) else [])"
  by auto
termination
proof (relation "measure length")
  fix s l assume "take 1 s = [46::nat] \<and> (l::jsstr) \<noteq> []"
  then have "s \<noteq> []" by auto
  then show "(drop (Suc (length l)) s, s) \<in> measure length" by simp
qed simp

definition match_email :: "jsstr \<Rightarrow> jsstr list option" where
  "match_email s =
     (let t = takeWhile local_char s; r = drop (length t) s;
          l = takeWhile label_char (drop 1 r); m = more_labels (drop (Suc (length l)) r)
      in if t \<noteq> [] \<and> take 1 r = [64] \<and> l \<noteq> [] \<and> m \<noteq> [] then Some [t, l @ m] else None)"

section \<open>What a match becomes: \<open>sO\<close>, \<open>lO\<close>\<close>

text \<open>\<open>cO\<close>: the character in front of the match.\<close>

definition cO :: "(nat \<Rightarrow> bool) \<Rightarrow> jsstr \<Rightarrow> nat \<Rightarrow> bool \<Rightarrow> bool" where
  "cO ps input i email \<longleftrightarrow>
     (i = 0 \<or> js_space (input ! (i - 1)) \<or> ps (input ! (i - 1))) \<and>
     (\<not> email \<or> i = 0 \<or> input ! (i - 1) \<noteq> 47)"

text \<open>The test of the domain and the punctuation at the end of a URL.\<close>

definition part_ok :: "jsstr \<Rightarrow> bool" where
  "part_ok p \<longleftrightarrow> p = [] \<or> 95 \<notin> set p \<and> list_ex is_alphanumeric p"

definition isCorrectDomain :: "jsstr \<Rightarrow> bool" where
  "isCorrectDomain d =
     (let parts = split_on (\<lambda>u. u = 46) d in
      2 \<le> length parts \<and> part_ok (parts ! (length parts - 1)) \<and> part_ok (parts ! (length parts - 2)))"

definition trail_char :: "nat \<Rightarrow> bool" where
  "trail_char u \<longleftrightarrow> u \<in> set (js ''!&),.:;<>?]}'') \<or> u = 34 \<or> u = 39"

function close_parens :: "nat \<Rightarrow> nat \<Rightarrow> jsstr \<Rightarrow> jsstr \<Rightarrow> jsstr \<times> jsstr" where
  "close_parens opening closing url trail =
     (if 41 \<in> set trail \<and> closing < opening
      then let r = length (takeWhile (\<lambda>u. u \<noteq> 41) trail)
           in close_parens opening (Suc closing) (url @ take (Suc r) trail) (drop (Suc r) trail)
      else (url, trail))"
  by auto
termination by (relation "measure (\<lambda>(a, b, c, d). a - b)") auto

definition splitUrl :: "jsstr \<Rightarrow> jsstr \<times> jsstr" where
  "splitUrl e =
     (let t = rev (takeWhile trail_char (rev e)); u = take (length e - length t) e
      in if t = [] then (e, []) else close_parens (hy u 40) (hy u 41) u t)"

definition sO :: "(nat \<Rightarrow> bool) \<Rightarrow> jsstr \<Rightarrow> nat \<Rightarrow> jsstr \<Rightarrow> jsstr \<Rightarrow> jsstr \<Rightarrow> mdast list option" where
  "sO ps input i protocol domain path =
     (if \<not> cO ps input i False then None
      else let (prefix, protocol', domain') =
             (if ascii_lower (take 1 protocol) = js ''w'' then (js ''http://'', [], protocol @ domain) else ([], protocol, domain))
        in if \<not> isCorrectDomain domain' then None
           else let (url, trail) = splitUrl (domain' @ path)
             in if url = [] then None
                else Some (MLink (prefix @ protocol' @ url) None [MText (protocol' @ url)] #
                       (if trail = [] then [] else [MText trail])))"

definition lO :: "(nat \<Rightarrow> bool) \<Rightarrow> jsstr \<Rightarrow> nat \<Rightarrow> jsstr \<Rightarrow> jsstr \<Rightarrow> mdast list option" where
  "lO ps input i atext label =
     (if \<not> cO ps input i True \<or> (let u = List.last label in u = 45 \<or> is_digit u \<or> u = 95) then None
      else Some [MLink (js ''mailto:'' @ atext @ js ''@'' @ label) None [MText (atext @ js ''@'' @ label)]])"

section \<open>Find and replace: \<open>Xy\<close>\<close>

datatype pattern = Urls | Emails

definition exec_here :: "pattern \<Rightarrow> jsstr \<Rightarrow> (jsstr \<times> jsstr list) option" where
  "exec_here p s = (case p of
     Urls \<Rightarrow> map_option (\<lambda>g. (concat g, g)) (match_url s)
   | Emails \<Rightarrow> map_option (\<lambda>g. (join [64] g, g)) (match_email s))"

definition replacement :: "(nat \<Rightarrow> bool) \<Rightarrow> pattern \<Rightarrow> jsstr \<Rightarrow> nat \<Rightarrow> jsstr list \<Rightarrow> mdast list option" where
  "replacement ps p input i g = (case (p, g) of
     (Urls, [t, n, r]) \<Rightarrow> sO ps input i t n r
   | (Emails, [t, n]) \<Rightarrow> lO ps input i t n
   | _ \<Rightarrow> None)"

text \<open>\<open>exec\<close>: the first match from \<open>lastIndex\<close> on.\<close>

function exec :: "pattern \<Rightarrow> jsstr \<Rightarrow> nat \<Rightarrow> (nat \<times> jsstr \<times> jsstr list) option" where
  "exec p s i =
     (if length s < i then None
      else case exec_here p (drop i s) of
        Some m \<Rightarrow> Some (i, m)
      | None \<Rightarrow> exec p s (Suc i))"
  by auto
termination by (relation "measure (\<lambda>(p, s, i). Suc (length s) - i)") auto

declare more_labels.simps [simp del] close_parens.simps [simp del] exec.simps [simp del]

lemma url_prefix_bounds: "url_prefix s = Some k \<Longrightarrow> 3 \<le> k \<and> k \<le> length s"
  by (auto simp: url_prefix_def js_def ascii_lower_def take_Suc split: if_splits dest!: arg_cong [where f = length])

lemma more_labels_prefix: "\<exists>r. s = more_labels s @ r"
proof (induction s rule: more_labels.induct)
  case (1 s)
  let ?l = "takeWhile label_char (drop 1 s)"
  show ?case
  proof (cases "take 1 s = [46] \<and> ?l \<noteq> []")
    case True
    then obtain r where r: "drop (Suc (length ?l)) s = more_labels (drop (Suc (length ?l)) s) @ r" using 1 by blast
    have "s = 46 # drop 1 s" using True by (cases s) auto
    moreover have "drop 1 s = ?l @ drop (length ?l) (drop 1 s)" by (metis append_take_drop_id takeWhile_eq_take)
    ultimately have "s = 46 # ?l @ drop (Suc (length ?l)) s" by simp
    then show ?thesis using r True by (subst more_labels.simps) (simp add: Let_def, metis append.assoc)
  next
    case False
    then have "more_labels s = []" by (subst more_labels.simps) (simp only: Let_def if_False)
    then show ?thesis by simp
  qed
qed

lemma take_while_prefix: "s = takeWhile P s @ drop (length (takeWhile P s)) s"
  by (metis append_take_drop_id takeWhile_eq_take)

text \<open>A match is a non-empty beginning of the text it is found in.\<close>

lemma match_url_prefix: "match_url s = Some g \<Longrightarrow> concat g \<noteq> [] \<and> (\<exists>r. s = concat g @ r)"
proof -
  assume m: "match_url s = Some g"
  then obtain k where k: "url_prefix s = Some k" by (auto simp: match_url_def split: option.splits)
  define d where "d = takeWhile domain_char (drop k s)"
  define p where "p = takeWhile path_char (drop (k + length d) s)"
  have g: "g = [take k s, d, p]" and "d \<noteq> []" using m k by (auto simp: match_url_def Let_def d_def p_def split: if_splits)
  have "s = take k s @ drop k s" by simp
  also have "drop k s = d @ drop (k + length d) s"
    using take_while_prefix [of "drop k s" domain_char] by (simp add: d_def add.commute)
  also have "drop (k + length d) s = p @ drop (length p) (drop (k + length d) s)"
    unfolding p_def by (rule take_while_prefix)
  finally show ?thesis using g \<open>d \<noteq> []\<close> by (metis append.assoc append_Nil2 append_is_Nil_conv concat.simps)
qed

lemma match_email_prefix: "match_email s = Some g \<Longrightarrow> join [64] g \<noteq> [] \<and> (\<exists>r. s = join [64] g @ r)"
proof -
  assume a: "match_email s = Some g"
  define t where "t = takeWhile local_char s"
  define r where "r = drop (length t) s"
  define l where "l = takeWhile label_char (drop 1 r)"
  define m where "m = more_labels (drop (Suc (length l)) r)"
  have g: "g = [t, l @ m]" "take 1 r = [64]" "t \<noteq> []"
    using a unfolding match_email_def Let_def t_def [symmetric] r_def [symmetric] l_def [symmetric] m_def [symmetric]
    by (auto split: if_splits)
  have "s = t @ r" unfolding t_def r_def by (rule take_while_prefix)
  moreover have "r = 64 # drop 1 r" using g(2) by (cases r) auto
  moreover have "drop 1 r = l @ drop (Suc (length l)) r"
    using take_while_prefix [of "drop 1 r" label_char] by (simp add: l_def)
  moreover obtain q where "drop (Suc (length l)) r = m @ q" unfolding m_def using more_labels_prefix by blast
  ultimately show ?thesis using g by (metis append.assoc append_Cons append_Nil append_is_Nil_conv join.simps(2,3) not_Cons_self2)
qed

lemma exec_here_prefix: "exec_here p s = Some (w, g) \<Longrightarrow> w \<noteq> [] \<and> (\<exists>r. s = w @ r)"
  using match_url_prefix [of s] match_email_prefix [of s] by (auto simp: exec_here_def split: pattern.splits)

lemma exec_found:
  "exec p s i = Some (n, w, g) \<Longrightarrow> i \<le> n \<and> exec_here p (drop n s) = Some (w, g) \<and> n < length s"
proof (induction p s i rule: exec.induct)
  case (1 p s i)
  show ?case
  proof (cases "exec_here p (drop i s)")
    case None
    then show ?thesis using 1 by (subst (asm) (2) exec.simps) (auto split: if_splits)
  next
    case (Some m)
    have "drop i s \<noteq> []" using exec_here_prefix [of p "drop i s"] Some by (cases m) auto
    then show ?thesis using 1(2) Some by (subst (asm) exec.simps) (auto split: if_splits)
  qed
qed

lemma exec_length: "exec p s i = Some (n, w, g) \<Longrightarrow>
   i \<le> n \<and> n + length w \<le> length s \<and> length s - Suc n < length s - i \<and> length s - (n + length w) < length s - i"
proof -
  assume "exec p s i = Some (n, w, g)"
  then have e: "i \<le> n" "exec_here p (drop n s) = Some (w, g)" "n < length s" by (auto dest: exec_found)
  obtain r where "w \<noteq> []" and r: "drop n s = w @ r" using exec_here_prefix [OF e(2)] by blast
  have "length s - n = length w + length r" using arg_cong [OF r, of length] by simp
  then show ?thesis using e \<open>w \<noteq> []\<close> by (cases w) auto
qed

text \<open>
  The loop over the matches of one text: \<open>start\<close> is the end of the last match that was replaced, \<open>li\<close>
  the \<open>lastIndex\<close> of the regular expression.
\<close>

function replace_loop ::
  "(nat \<Rightarrow> bool) \<Rightarrow> pattern \<Rightarrow> jsstr \<Rightarrow> nat \<Rightarrow> nat \<Rightarrow> mdast list \<Rightarrow> bool \<Rightarrow> nat \<times> mdast list \<times> bool" where
  "replace_loop ps p s li start u c = (case exec p s li of
     None \<Rightarrow> (start, u, c)
   | Some (n, w, g) \<Rightarrow> (case replacement ps p s n g of
       None \<Rightarrow> replace_loop ps p s (n + 1) start u c
     | Some a \<Rightarrow> replace_loop ps p s (n + length w) (n + length w)
         (u @ (if start \<noteq> n then [MText (take (n - start) (drop start s))] else []) @ a) True))"
  by auto
termination
  by (relation "measure (\<lambda>(ps, p, s, li, start, u, c). length s - li)") (auto dest!: exec_length)

definition replace_text :: "(nat \<Rightarrow> bool) \<Rightarrow> pattern \<Rightarrow> jsstr \<Rightarrow> mdast list" where
  "replace_text ps p s = (case replace_loop ps p s 0 0 [] False of
     (start, u, c) \<Rightarrow>
       if c then u @ (if start < length s then [MText (drop start s)] else []) else [MText s])"

text \<open>
  The visitor: a text below a link or a link reference stays; the index it returns skips the nodes it
  put in. A text with no parent stays.
\<close>

fun Xy_node :: "(nat \<Rightarrow> bool) \<Rightarrow> pattern \<Rightarrow> mdast \<Rightarrow> mdast" and
    Xy_children :: "(nat \<Rightarrow> bool) \<Rightarrow> pattern \<Rightarrow> mdast list \<Rightarrow> mdast list" where
  "Xy_node ps p (MRoot cs) = MRoot (Xy_children ps p cs)"
| "Xy_node ps p (MParagraph cs) = MParagraph (Xy_children ps p cs)"
| "Xy_node ps p (MHeading n cs) = MHeading n (Xy_children ps p cs)"
| "Xy_node ps p (MEmphasis cs) = MEmphasis (Xy_children ps p cs)"
| "Xy_node ps p (MStrong cs) = MStrong (Xy_children ps p cs)"
| "Xy_node ps p (MDelete cs) = MDelete (Xy_children ps p cs)"
| "Xy_node ps p (MBlockquote cs) = MBlockquote (Xy_children ps p cs)"
| "Xy_node ps p (MFootnoteDefinition i cs) = MFootnoteDefinition i (Xy_children ps p cs)"
| "Xy_node ps p (MList ord st sp cs) = MList ord st sp (Xy_children ps p cs)"
| "Xy_node ps p (MListItem ch sp cs) = MListItem ch sp (Xy_children ps p cs)"
| "Xy_node ps p (MTable al cs) = MTable al (Xy_children ps p cs)"
| "Xy_node ps p (MTableRow cs) = MTableRow (Xy_children ps p cs)"
| "Xy_node ps p (MTableCell cs) = MTableCell (Xy_children ps p cs)"
| "Xy_node ps p (MUnknown v cs) = MUnknown v (Xy_children ps p cs)"
| "Xy_node ps p m = m"
| "Xy_children ps p [] = []"
| "Xy_children ps p (c # cs) =
     (case c of MText v \<Rightarrow> replace_text ps p v | _ \<Rightarrow> [Xy_node ps p c]) @ Xy_children ps p cs"

text \<open>The pairs of \<open>iO\<close>, one pass over the tree each.\<close>

definition iO :: "(nat \<Rightarrow> bool) \<Rightarrow> mdast \<Rightarrow> mdast" where
  "iO ps m = fold (Xy_node ps) [Urls, Emails] m"

declare replace_loop.simps [simp del]

end
