(* ===== verification/Micromark_Util.thy ===== *)
theory Micromark_Util
  imports Mdast_To_Hast Html_Codes Entity_Stringify
begin

text \<open>
  Helpers that the markdown parser and writer inside \<^verbatim>\<open>src/api/scalar.standalone.js\<close> share: splicing of long
  lists (\<open>jw\<close>, \<open>Bw\<close>, \<open>zw\<close>), numeric character references (\<open>lw\<close>), escapes (\<open>uw\<close>, \<open>dw\<close>, \<open>bw\<close>, \<open>pw\<close>), identifiers
  (\<open>uO\<close>) and lines (\<open>gw\<close>). The lookup of named references goes through the DOM (\<open>sw\<close>) and is an argument,
  as are \<open>toUpperCase\<close> and \<open>toLowerCase\<close>.
\<close>

section \<open>Splicing: \<open>jw\<close>\<close>

text \<open>The number of elements to delete: a number or \<open>Number.POSITIVE_INFINITY\<close>.\<close>

datatype delete_count = Count int | All

text \<open>\<open>Array.prototype.splice\<close> at a position inside the list.\<close>

definition array_splice :: "'a list \<Rightarrow> nat \<Rightarrow> delete_count \<Rightarrow> 'a list \<Rightarrow> 'a list" where
  "array_splice e t n r =
     take t e @ r @ drop (case n of Count k \<Rightarrow> t + nat k | All \<Rightarrow> length e) e"

definition splice_start :: "'a list \<Rightarrow> int \<Rightarrow> nat" where
  "splice_start e t =
     (let l = int (length e) in
      nat (if t < 0 then (if - t > l then 0 else l + t) else if t > l then l else t))"

definition at_least_none :: "delete_count \<Rightarrow> delete_count" where
  "at_least_none n = (case n of Count k \<Rightarrow> Count (if k > 0 then k else 0) | All \<Rightarrow> All)"

function insert_chunks :: "'a list \<Rightarrow> nat \<Rightarrow> 'a list \<Rightarrow> 'a list" where
  "insert_chunks e t r =
     (if r = [] then e
      else insert_chunks (array_splice e t (Count 0) (take 10000 r)) (t + 10000) (drop 10000 r))"
  by auto
termination by (relation "measure (\<lambda>(e, t, r). length r)") auto

definition jw :: "'a list \<Rightarrow> int \<Rightarrow> delete_count \<Rightarrow> 'a list \<Rightarrow> 'a list" where
  "jw e t n r =
     (let t' = splice_start e t; n' = at_least_none n in
      if length r < 10000 then array_splice e t' n' r
      else insert_chunks (if n' = Count 0 then e else array_splice e t' n' []) t' r)"

definition Bw :: "'a list \<Rightarrow> 'a list \<Rightarrow> 'a list" where
  "Bw e t = (if length e > 0 then jw e (int (length e)) (Count 0) t else t)"

text \<open>\<open>zw\<close>: constructs that ask for it go behind those that are there, the others in front.\<close>

definition zw :: "('c \<Rightarrow> bool) \<Rightarrow> 'c list \<Rightarrow> 'c list \<Rightarrow> 'c list" where
  "zw add_after e t = jw (e @ filter add_after t) 0 (Count 0) (filter (\<lambda>c. \<not> add_after c) t)"

section \<open>Numeric character references: \<open>lw\<close>\<close>

definition digit_value :: "nat \<Rightarrow> nat \<Rightarrow> nat option" where
  "digit_value base u =
     (let d = (if 48 \<le> u \<and> u \<le> 57 then u - 48 else if is_az u then u - 87 else if is_AZ u then u - 55 else base)
      in if d < base then Some d else None)"

fun digits_value :: "nat \<Rightarrow> nat \<Rightarrow> jsstr \<Rightarrow> nat" where
  "digits_value base n [] = n"
| "digits_value base n (u # s) = (case digit_value base u of
     Some d \<Rightarrow> digits_value base (n * base + d) s
   | None \<Rightarrow> n)"

text \<open>\<open>Number.parseInt\<close>: white space, sign, \<open>0x\<close> in base 16, digits; \<open>None\<close> is \<open>NaN\<close>.\<close>

definition parseInt :: "jsstr \<Rightarrow> nat \<Rightarrow> int option" where
  "parseInt e base =
     (let s = dropWhile js_space e;
          negative = take 1 s = [45];
          s1 = (if negative \<or> take 1 s = [43] then drop 1 s else s);
          s2 = (if base = 16 \<and> (take 2 s1 = [48, 120] \<or> take 2 s1 = [48, 88]) then drop 2 s1 else s1)
      in (case s2 of
            u # r \<Rightarrow> if digit_value base u \<noteq> None
              then Some ((if negative then -1 else 1) * int (digits_value base 0 s2)) else None
          | [] \<Rightarrow> None))"

definition refused_code :: "int \<Rightarrow> bool" where
  "refused_code n \<longleftrightarrow> n < 9 \<or> n = 11 \<or> n > 13 \<and> n < 32 \<or> n > 126 \<and> n < 160 \<or> n > 55295 \<and> n < 57344 \<or>
     n > 64975 \<and> n < 65008 \<or> n mod 65536 = 65535 \<or> n mod 65536 = 65534 \<or> n > 1114111"

text \<open>\<open>None\<close> is the \<open>RangeError\<close> of \<open>String.fromCodePoint(NaN)\<close>.\<close>

definition lw :: "jsstr \<Rightarrow> nat \<Rightarrow> jsstr option" where
  "lw e base = map_option (\<lambda>n. if refused_code n then [65533] else fromCodePoint n) (parseInt e base)"

section \<open>Escapes: \<open>uw\<close>, \<open>bw\<close>\<close>

text \<open>\<open>[!-/:-@[-`{-~]\<close>\<close>

definition Fy :: "nat \<Rightarrow> bool" where
  "Fy u \<longleftrightarrow> (33 \<le> u \<and> u \<le> 47) \<or> (58 \<le> u \<and> u \<le> 64) \<or> (91 \<le> u \<and> u \<le> 96) \<or> (123 \<le> u \<and> u \<le> 126)"

text \<open>\<open>bw\<close>: a backslash in front of punctuation is doubled; \<open>t\<close> is the text behind.\<close>

definition escape_positions :: "jsstr \<Rightarrow> nat list" where
  "escape_positions a = filter (\<lambda>i. a ! i = 92 \<and> Suc i < length a \<and> Fy (a ! Suc i)) [0..<length a]"

fun bw_loop :: "jsstr \<Rightarrow> nat \<Rightarrow> nat list \<Rightarrow> jsstr" where
  "bw_loop e l [] = drop l e"
| "bw_loop e l (r # rs) = take (r - l) (drop l e) @ [92] @ bw_loop e r rs"

definition bw :: "jsstr \<Rightarrow> jsstr \<Rightarrow> jsstr" where
  "bw e t = bw_loop e 0 (escape_positions (e @ t))"

text \<open>
  \<open>cw\<close> behind an ampersand: \<open>(#(?:\d{1,7}|x[\da-f]{1,6})|[\da-z]{1,31});\<close> without regard to case. A run that is
  too long for its bound is not followed by the semicolon, so no shorter run matches either.
\<close>

definition reference_at :: "jsstr \<Rightarrow> jsstr option" where
  "reference_at s =
     (let run = (\<lambda>k P m. let r = takeWhile P (drop k s) in
            if r \<noteq> [] \<and> length r \<le> m \<and> take 1 (drop (k + length r) s) = [59] then Some (take (k + length r) s) else None)
      in if take 1 s = [35]
         then if take 1 (drop 1 s) = [120] \<or> take 1 (drop 1 s) = [88] then run 2 is_hex_digit 6 else run 1 is_digit 7
         else run 0 is_alphanumeric 31)"

text \<open>\<open>dw\<close> for a reference: \<open>sw\<close> answers \<open>None\<close> for a name that the browser does not know.\<close>

definition dw :: "(jsstr \<Rightarrow> jsstr option) \<Rightarrow> jsstr \<Rightarrow> jsstr option" where
  "dw sw n =
     (if take 1 n = [35]
      then let hex = (take 1 (drop 1 n) = [120] \<or> take 1 (drop 1 n) = [88])
           in lw (drop (if hex then 2 else 1) n) (if hex then 16 else 10)
      else case sw n of
        Some t \<Rightarrow> Some (if t = [] then [38] @ n @ [59] else t)
      | None \<Rightarrow> Some ([38] @ n @ [59]))"

function uw :: "(jsstr \<Rightarrow> jsstr option) \<Rightarrow> jsstr \<Rightarrow> jsstr option" where
  "uw sw [] = Some []"
| "uw sw (c # s) =
     (if c = 92 \<and> s \<noteq> [] \<and> Fy (hd s) then map_option ((#) (hd s)) (uw sw (tl s))
      else case (if c = 38 then reference_at s else None) of
        Some n \<Rightarrow> (case (dw sw n, uw sw (drop (Suc (length n)) s)) of
            (Some t, Some r) \<Rightarrow> Some (t @ r)
          | _ \<Rightarrow> None)
      | None \<Rightarrow> map_option ((#) c) (uw sw s))"
  by pat_completeness auto
termination by (relation "measure (length \<circ> snd)") auto

definition pw :: "(jsstr \<Rightarrow> jsstr option) \<Rightarrow> jsstr \<Rightarrow> jsstr \<Rightarrow> jsstr option" where
  "pw sw label identifier = (if label \<noteq> [] \<or> identifier = [] then Some label else uw sw identifier)"

section \<open>Identifiers and lines\<close>

text \<open>\<open>uO\<close>: runs of white space become one space, one space at each end is dropped, case is folded.\<close>

definition md_space :: "nat \<Rightarrow> bool" where "md_space u \<longleftrightarrow> u = 9 \<or> u = 10 \<or> u = 13 \<or> u = 32"

fun collapse_spaces :: "bool \<Rightarrow> jsstr \<Rightarrow> jsstr" where
  "collapse_spaces inside [] = []"
| "collapse_spaces inside (u # s) =
     (if md_space u then (if inside then [] else [32]) @ collapse_spaces True s
      else u # collapse_spaces False s)"

definition drop_end_spaces :: "jsstr \<Rightarrow> jsstr" where
  "drop_end_spaces s =
     (let t = (if take 1 s = [32] then drop 1 s else s)
      in if t \<noteq> [] \<and> List.last t = 32 then butlast t else t)"

definition uO :: "(jsstr \<Rightarrow> jsstr) \<Rightarrow> (jsstr \<Rightarrow> jsstr) \<Rightarrow> jsstr \<Rightarrow> jsstr" where
  "uO up low e = up (low (drop_end_spaces (collapse_spaces False e)))"

text \<open>\<open>gw\<close>: every line through a function of the line, its number and whether it is blank.\<close>

fun gw_lines :: "(jsstr \<Rightarrow> nat \<Rightarrow> bool \<Rightarrow> jsstr) \<Rightarrow> nat \<Rightarrow> (jsstr \<times> jsstr) list \<Rightarrow> jsstr" where
  "gw_lines t a [] = []"
| "gw_lines t a ((eol, l) # ls) = eol @ t l a (l = []) @ gw_lines t (Suc a) ls"

definition gw :: "jsstr \<Rightarrow> (jsstr \<Rightarrow> nat \<Rightarrow> bool \<Rightarrow> jsstr) \<Rightarrow> jsstr" where
  "gw e t = (case break_lines e of (l, ls) \<Rightarrow> t l 0 (l = []) @ gw_lines t 1 ls)"

declare insert_chunks.simps [simp del]

section \<open>Splicing in chunks\<close>

lemma insert_chunks_at: "t \<le> length e \<Longrightarrow> insert_chunks e t r = take t e @ r @ drop t e"
proof (induction e t r rule: insert_chunks.induct)
  case (1 e t r)
  let ?e = "array_splice e t (Count 0) (take 10000 r)"
  have e: "?e = take t e @ take 10000 r @ drop t e" by (simp add: array_splice_def)
  show ?case
  proof (cases "length r \<le> 10000")
    case True
    then show ?thesis using e by (simp add: insert_chunks.simps [of e t r] insert_chunks.simps [of _ _ "[]"])
  next
    case False
    then have r: "r \<noteq> []" and "take (t + 10000) ?e = take t e @ take 10000 r" "drop (t + 10000) ?e = drop t e"
      "t + 10000 \<le> length ?e"
      using 1(2) e by auto
    then show ?thesis using 1(1) [OF r] by (simp add: insert_chunks.simps [of e t r])
  qed
qed

lemma splice_start_le: "splice_start e t \<le> length e"
  by (auto simp: splice_start_def Let_def)

text \<open>
  Long lists are spliced in pieces of ten thousand elements, to stay below the number of
  arguments an engine accepts; the result is that of one call of \<open>splice\<close>, for every position and
  count, negative, past the end or infinite ones included.
\<close>

theorem chunked_splice: "jw e t n r = array_splice e (splice_start e t) (at_least_none n) r"
proof -
  let ?t = "splice_start e t" and ?n = "at_least_none n"
  have l: "?t \<le> length (array_splice e ?t ?n [])" "?t \<le> length e" using splice_start_le [of e t] by (simp_all add: array_splice_def)
  have s: "take ?t (array_splice e ?t ?n []) @ r @ drop ?t (array_splice e ?t ?n []) = array_splice e ?t ?n r"
    using l(2) by (simp add: array_splice_def)
  show ?thesis
    using insert_chunks_at [OF l(1), of r] insert_chunks_at [OF l(2), of r] s
    by (simp add: jw_def Let_def array_splice_def)
qed

section \<open>References and escapes\<close>

text \<open>
  A numeric reference decodes to one character of text: never a surrogate, a noncharacter, a value
  outside Unicode or a control character other than tab, line feed, form feed and carriage return.
\<close>

definition plain_code :: "int \<Rightarrow> bool" where
  "plain_code c \<longleftrightarrow> 0 \<le> c \<and> c \<le> 1114111 \<and> (c < 55296 \<or> 57343 < c) \<and> (c < 64976 \<or> 65007 < c) \<and>
     c mod 65536 < 65534 \<and> (32 \<le> c \<or> c \<in> {9, 10, 12, 13}) \<and> (c < 127 \<or> 159 < c)"

lemma accepted_is_plain: "\<not> refused_code n \<Longrightarrow> plain_code n"
proof -
  assume a: "\<not> refused_code n"
  have "n mod 65536 \<noteq> 65535" "n mod 65536 \<noteq> 65534" using a by (auto simp: refused_code_def)
  moreover have "n mod 65536 < 65536" by (rule pos_mod_bound) simp
  ultimately have m: "n mod 65536 < 65534" by linarith
  have "\<not> n < 9" "n \<noteq> 11" "\<not> (n > 13 \<and> n < 32)" using a by (auto simp: refused_code_def)
  then have "32 \<le> n \<or> n \<in> {9, 10, 12, 13}" by auto
  moreover have "n \<le> 1114111" "n < 55296 \<or> 57343 < n" "n < 64976 \<or> 65007 < n" "n < 127 \<or> 159 < n"
    using a unfolding refused_code_def by linarith+
  ultimately show ?thesis using m \<open>\<not> n < 9\<close> by (simp add: plain_code_def)
qed

lemma numeric_reference_is_plain:
  "case lw e base of None \<Rightarrow> parseInt e base = None | Some s \<Rightarrow> \<exists>c. s = fromCodePoint c \<and> plain_code c"
proof (cases "parseInt e base")
  case (Some n)
  have "plain_code 65533" by (simp add: plain_code_def)
  then show ?thesis using Some accepted_is_plain [of n] by (auto simp: lw_def intro: exI [of _ 65533] simp: fromCodePoint_def)
qed (simp add: lw_def)

text \<open>Escaping by recursion: \<open>t\<close> is the text behind.\<close>

fun esc :: "jsstr \<Rightarrow> jsstr \<Rightarrow> jsstr" where
  "esc t [] = []"
| "esc t (c # s) = (if c = 92 \<and> s @ t \<noteq> [] \<and> Fy (hd (s @ t)) then [92] else []) @ c # esc t s"

lemma bw_loop_esc:
  assumes "l \<le> k" and "k \<le> length e"
  shows "bw_loop e l (filter (\<lambda>i. (e @ t) ! i = 92 \<and> Suc i < length (e @ t) \<and> Fy ((e @ t) ! Suc i)) [k..<length e]) =
    take (k - l) (drop l e) @ esc t (drop k e)"
  using assms
proof (induction "length e - k" arbitrary: k l)
  case 0
  then show ?case by simp
next
  case (Suc n)
  let ?Q = "\<lambda>i. (e @ t) ! i = 92 \<and> Suc i < length (e @ t) \<and> Fy ((e @ t) ! Suc i)"
  have k: "k < length e" and n: "n = length e - Suc k" using Suc by auto
  have d: "drop k e = e ! k # drop (Suc k) e" using k by (simp add: Cons_nth_drop_Suc)
  have u: "[k..<length e] = k # [Suc k..<length e]" using k by (simp add: upt_conv_Cons)
  have t: "take (Suc k - l) (drop l e) = take (k - l) (drop l e) @ [e ! k]"
    using Suc(3) k by (simp add: Suc_diff_le take_Suc_conv_app_nth)
  have h: "drop (Suc k) e @ t = drop (Suc k) (e @ t)" using k by simp
  have q: "?Q k \<longleftrightarrow> e ! k = 92 \<and> drop (Suc k) e @ t \<noteq> [] \<and> Fy (hd (drop (Suc k) e @ t))"
  proof -
    have "drop (Suc k) (e @ t) \<noteq> [] \<longleftrightarrow> Suc k < length (e @ t)" by (simp only: drop_eq_Nil not_le)
    moreover have "(e @ t) ! k = e ! k" using k by (simp add: nth_append)
    ultimately show ?thesis unfolding h using hd_drop_conv_nth [of "Suc k" "e @ t"] by metis
  qed
  show ?case
  proof (cases "?Q k")
    case True
    then have "esc t (drop k e) = 92 # e ! k # esc t (drop (Suc k) e)" unfolding d using q by simp
    then show ?thesis using Suc(1) [OF n, of k] True k d unfolding u by (simp add: take_Suc)
  next
    case False
    then have "\<not> (e ! k = 92 \<and> drop (Suc k) e @ t \<noteq> [] \<and> Fy (hd (drop (Suc k) e @ t)))" using q by blast
    then have "esc t (drop k e) = e ! k # esc t (drop (Suc k) e)" unfolding d by auto
    then show ?thesis using Suc(1) [OF n, of l] False k Suc(3) t unfolding u by auto
  qed
qed

lemma bw_esc: "length t \<le> 1 \<Longrightarrow> bw e t = esc t e"
proof -
  assume t: "length t \<le> 1"
  let ?Q = "\<lambda>i. (e @ t) ! i = 92 \<and> Suc i < length (e @ t) \<and> Fy ((e @ t) ! Suc i)"
  have "filter ?Q [length e..<length (e @ t)] = []" using t by (auto simp: filter_empty_conv)
  moreover have "[0..<length (e @ t)] = [0..<length e] @ [length e..<length (e @ t)]"
    using upt_add_eq_append [of 0 "length e" "length t"] by simp
  ultimately have "escape_positions (e @ t) = filter ?Q [0..<length e]" by (simp add: escape_positions_def)
  then show ?thesis using bw_loop_esc [of 0 0 e t] by (simp add: bw_def)
qed

lemma uw_esc: "38 \<notin> set e \<Longrightarrow> uw sw (esc t e) = Some e"
proof (induction e)
  case (Cons c s)
  have h: "s \<noteq> [] \<Longrightarrow> \<not> Fy (hd s) \<Longrightarrow> hd (esc t s) = hd s" by (cases s) (auto simp: Fy_def)
  have e: "esc t s = [] \<longleftrightarrow> s = []" by (cases s) auto
  have "Fy 92" by (simp add: Fy_def)
  then show ?case using Cons h e by (cases "s = []") auto
qed simp

text \<open>
  A text without ampersand whose backslashes are escaped decodes to itself, whatever character
  follows it.
\<close>

lemma escapes_decode: "38 \<notin> set e \<Longrightarrow> length t \<le> 1 \<Longrightarrow> uw sw (bw e t) = Some e"
  by (simp add: bw_esc uw_esc)

text \<open>Lines that are left alone give the text back.\<close>

lemma gw_identity: "gw e (\<lambda>l i b. l) = e"
proof -
  have g: "gw_lines (\<lambda>l i b. l) a ls = concat (map (\<lambda>(eol, l). eol @ l) ls)" for a ls
    by (induction "\<lambda>(l::jsstr) (i::nat) (b::bool). l" a ls rule: gw_lines.induct) auto
  have "fst (break_lines e) @ concat (map (\<lambda>(eol, l). eol @ l) (snd (break_lines e))) = e"
    by (induction e rule: break_lines.induct) (auto simp: end_line_def)
  then show ?thesis by (cases "break_lines e") (simp add: gw_def g)
qed

end
