(* ===== verification/Mdast_Compile.thy ===== *)
theory Mdast_Compile
  imports Mdast_Autolink Micromark_Util
begin

text \<open>
  From the events of the markdown parser to the tree (\<^verbatim>\<open>mdast-util-from-markdown\<close> with the extensions of
  \<^verbatim>\<open>mdast-util-gfm\<close>, inside \<^verbatim>\<open>src/api/scalar.standalone.js\<close>: the compiler \<open>r\<close> inside \<open>zk\<close>, its handlers, \<open>Zk\<close> and the
  handlers that \<open>vk\<close> adds). Nodes live in a store, because handlers hold on to nodes that are already
  among the children of others; the state has a stack of open nodes and one of open tokens.

  An event carries its token with the text that \<open>sliceSerialize\<close> gives for it. The events are those
  behind the step that puts list items in. Positions are left out; a node without one (a fragment,
  the root) still makes the code that writes to it throw.
\<close>

section \<open>Tokens, nodes, state\<close>

record md_token =
  tok_type :: string
  tok_text :: jsstr
  tok_spread :: bool
  tok_align :: "jsstr list"

datatype event = Enter md_token | Exit md_token

record cnode =
  n_type :: string
  n_children :: "nat list option"
  n_value :: "jsstr option"
  n_url :: "jsstr option"
  n_title :: "jsstr option"
  n_alt :: "jsstr option"
  n_label :: "jsstr option"
  n_identifier :: "jsstr option"
  n_lang :: "jsstr option"
  n_meta :: "jsstr option"
  n_referenceType :: "string option"
  n_depth :: nat
  n_ordered :: bool
  n_start :: "int option"
  n_spread :: "bool option"
  n_checked :: "bool option"
  n_align :: "jsstr option list"

definition plain_node :: "string \<Rightarrow> cnode" where
  "plain_node t = \<lparr>n_type = t, n_children = None, n_value = None, n_url = None, n_title = None, n_alt = None,
     n_label = None, n_identifier = None, n_lang = None, n_meta = None, n_referenceType = None, n_depth = 0,
     n_ordered = False, n_start = None, n_spread = None, n_checked = None, n_align = []\<rparr>"

definition parent_node :: "string \<Rightarrow> cnode" where
  "parent_node t = (plain_node t)\<lparr>n_children := Some []\<rparr>"

definition value_node :: "string \<Rightarrow> cnode" where
  "value_node t = (plain_node t)\<lparr>n_value := Some []\<rparr>"

text \<open>The stacks have their top first; the node at the bottom is the root, at address 0.\<close>

record compiler =
  store :: "cnode list"
  node_stack :: "nat list"
  tokenStack :: "md_token list"
  expectingFirstListItemValue :: bool
  flowCodeInside :: bool
  setextHeadingSlurpLineEnding :: bool
  atHardBreak :: bool
  inReference :: bool
  referenceType :: "string option"
  characterReferenceType :: "string option"
  inTable :: bool

definition new_compiler :: compiler where
  "new_compiler = \<lparr>store = [parent_node ''root''], node_stack = [0], tokenStack = [],
     expectingFirstListItemValue = False, flowCodeInside = False, setextHeadingSlurpLineEnding = False,
     atHardBreak = False, inReference = False, referenceType = None, characterReferenceType = None, inTable = False\<rparr>"

text \<open>
  The errors of \<open>c\<close> and \<open>Zk\<close> about tokens; \<open>Thrown\<close> is a \<open>TypeError\<close> or \<open>RangeError\<close> of the language.
\<close>

datatype compile_error = NotOpen string | DifferentOpen string string | StillOpen string | Thrown

type_synonym step = "compiler \<Rightarrow> compile_error + compiler"

definition and_then :: "compile_error + 'a \<Rightarrow> ('a \<Rightarrow> compile_error + 'b) \<Rightarrow> compile_error + 'b" where
  "and_then r f = (case r of Inl e \<Rightarrow> Inl e | Inr x \<Rightarrow> f x)"

definition top_of :: "compiler \<Rightarrow> nat option" where
  "top_of c = (case node_stack c of a # s \<Rightarrow> Some a | [] \<Rightarrow> None)"

text \<open>Writing to the node on top of the stack, or to the one below it.\<close>

definition update_node :: "nat \<Rightarrow> (cnode \<Rightarrow> cnode) \<Rightarrow> compiler \<Rightarrow> compiler" where
  "update_node a f c = c\<lparr>store := (store c)[a := f (store c ! a)]\<rparr>"

definition on_top :: "(cnode \<Rightarrow> cnode) \<Rightarrow> step" where
  "on_top f c = (case node_stack c of a # s \<Rightarrow> Inr (update_node a f c) | [] \<Rightarrow> Inl Thrown)"

definition on_second :: "(cnode \<Rightarrow> cnode) \<Rightarrow> step" where
  "on_second f c = (case node_stack c of a # b # s \<Rightarrow> Inr (update_node b f c) | _ \<Rightarrow> Inl Thrown)"

section \<open>The text of a node in the store: \<open>QO\<close>\<close>

text \<open>Children have larger addresses than their parents, so as many levels as there are nodes are enough.\<close>

fun node_text :: "nat \<Rightarrow> cnode list \<Rightarrow> nat \<Rightarrow> jsstr" where
  "node_text 0 h a = []"
| "node_text (Suc k) h a =
     (let n = h ! a in
      case n_value n of
        Some v \<Rightarrow> v
      | None \<Rightarrow>
          (case n_alt n of
             Some (u # v) \<Rightarrow> u # v
           | _ \<Rightarrow> (case n_children n of
                      Some cs \<Rightarrow> concat (map (node_text k h) cs)
                    | None \<Rightarrow> [])))"

section \<open>Shared operations: \<open>s\<close>, \<open>c\<close>, \<open>i\<close>, \<open>u\<close>\<close>

definition push_node :: "cnode \<Rightarrow> compiler \<Rightarrow> compiler" where
  "push_node n c = c\<lparr>store := store c @ [n], node_stack := length (store c) # node_stack c\<rparr>"

definition enter_node :: "cnode \<Rightarrow> md_token \<Rightarrow> step" where
  "enter_node n t c = (case top_of c of
     None \<Rightarrow> Inl Thrown
   | Some a \<Rightarrow> (case n_children (store c ! a) of
       None \<Rightarrow> Inl Thrown
     | Some cs \<Rightarrow>
         Inr ((push_node n (update_node a (\<lambda>p. p\<lparr>n_children := Some (cs @ [length (store c)])\<rparr>) c))
              \<lparr>tokenStack := t # tokenStack c\<rparr>)))"

definition has_position :: "cnode \<Rightarrow> bool" where
  "has_position n \<longleftrightarrow> n_type n \<noteq> ''fragment'' \<and> n_type n \<noteq> ''root''"

definition pop_node :: "compiler \<Rightarrow> cnode option \<times> compiler" where
  "pop_node c = (case node_stack c of
     a # s \<Rightarrow> (Some (store c ! a), c\<lparr>node_stack := s\<rparr>)
   | [] \<Rightarrow> (None, c))"

definition exit_node :: "md_token \<Rightarrow> step" where
  "exit_node t c = (case pop_node c of (n, c1) \<Rightarrow>
     (case tokenStack c1 of
        [] \<Rightarrow> Inl (NotOpen (tok_type t))
      | o' # ts \<Rightarrow>
          if tok_type o' \<noteq> tok_type t then Inl (DifferentOpen (tok_type t) (tok_type o'))
          else (case n of
            Some m \<Rightarrow> if has_position m then Inr (c1\<lparr>tokenStack := ts\<rparr>) else Inl Thrown
          | None \<Rightarrow> Inl Thrown)))"

definition buffer :: "compiler \<Rightarrow> compiler" where
  "buffer c = push_node (parent_node ''fragment'') c"

definition resume_text :: "compiler \<Rightarrow> jsstr \<times> compiler" where
  "resume_text c = (case node_stack c of
     a # s \<Rightarrow> (node_text (length (store c)) (store c) a, c\<lparr>node_stack := s\<rparr>)
   | [] \<Rightarrow> ([], c))"

definition resume_to :: "(jsstr \<Rightarrow> cnode \<Rightarrow> cnode) \<Rightarrow> step" where
  "resume_to f c = (case resume_text c of (e, c1) \<Rightarrow> on_top (f e) c1)"

section \<open>Text: \<open>_\<close>, \<open>E\<close>, \<open>T\<close>, \<open>F\<close>, \<open>z\<close>\<close>

definition enter_data :: step where
  "enter_data c = (case top_of c of
     None \<Rightarrow> Inl Thrown
   | Some a \<Rightarrow> (case n_children (store c ! a) of
       None \<Rightarrow> Inl Thrown
     | Some cs \<Rightarrow>
         if cs \<noteq> [] \<and> n_type (store c ! List.last cs) = ''text''
         then Inr (c\<lparr>node_stack := List.last cs # node_stack c\<rparr>)
         else Inr (push_node (value_node ''text'') (update_node a (\<lambda>p. p\<lparr>n_children := Some (cs @ [length (store c)])\<rparr>) c))))"

text \<open>\<open>undefined + text\<close> for a node that has no value.\<close>

definition add_value :: "jsstr \<Rightarrow> cnode \<Rightarrow> cnode" where
  "add_value t n = n\<lparr>n_value := Some ((case n_value n of Some v \<Rightarrow> v | None \<Rightarrow> js ''undefined'') @ t)\<rparr>"

definition exit_data :: "jsstr \<Rightarrow> step" where
  "exit_data t c = (case node_stack c of
     [] \<Rightarrow> Inl Thrown
   | a # s \<Rightarrow> if has_position (store c ! a) then Inr ((update_node a (add_value t) c)\<lparr>node_stack := s\<rparr>) else Inl Thrown)"

definition canContainEols :: "string list" where
  "canContainEols = [''emphasis'', ''fragment'', ''heading'', ''paragraph'', ''strong'', ''delete'']"

definition exit_lineEnding :: "jsstr \<Rightarrow> step" where
  "exit_lineEnding t c = (case top_of c of
     None \<Rightarrow> if \<not> atHardBreak c \<and> setextHeadingSlurpLineEnding c then Inr c else Inl Thrown
   | Some a \<Rightarrow>
       if atHardBreak c then
         (case n_children (store c ! a) of
            Some (b # bs) \<Rightarrow> Inr (c\<lparr>atHardBreak := False\<rparr>)
          | _ \<Rightarrow> Inl Thrown)
       else if \<not> setextHeadingSlurpLineEnding c \<and> n_type (store c ! a) \<in> set canContainEols
       then and_then (enter_data c) (exit_data t)
       else Inr c)"

section \<open>Handlers\<close>

text \<open>What the handlers take from outside: named references (\<open>sw\<close>), \<open>toUpperCase\<close>, \<open>toLowerCase\<close>.\<close>

record compile_env =
  env_sw :: "jsstr \<Rightarrow> jsstr option"
  env_up :: "jsstr \<Rightarrow> jsstr"
  env_low :: "jsstr \<Rightarrow> jsstr"

definition identifier_of :: "compile_env \<Rightarrow> jsstr \<Rightarrow> jsstr" where
  "identifier_of env t = env_low env (uO (env_up env) (env_low env) t)"

text \<open>\<open>/^(\r?\n|\r)|(\r?\n|\r)$/g\<close> and \<open>/(\r?\n|\r)$/g\<close>, replaced by nothing.\<close>

definition drop_first_eol :: "jsstr \<Rightarrow> jsstr" where
  "drop_first_eol s = (if take 2 s = [13, 10] then drop 2 s
     else if take 1 s = [10] \<or> take 1 s = [13] then drop 1 s else s)"

definition drop_last_eol :: "jsstr \<Rightarrow> jsstr" where
  "drop_last_eol s = (let r = rev s in
     if take 2 r = [10, 13] then rev (drop 2 r)
     else if take 1 r = [10] \<or> take 1 r = [13] then rev (drop 1 r) else s)"

text \<open>\<open>/\\([\\|])/g\<close> with \<open>$w\<close>.\<close>

fun unescape_pipes :: "jsstr \<Rightarrow> jsstr" where
  "unescape_pipes (u # v # s) =
     (if u = 92 \<and> v = 124 then 124 # unescape_pipes s
      else if u = 92 \<and> v = 92 then 92 # 92 # unescape_pipes s
      else u # unescape_pipes (v # s))"
| "unescape_pipes s = s"

text \<open>One name for each function of the source that is not \<open>enter\<close> or \<open>exit\<close> alone.\<close>

datatype md_action =
  Buffer | EnterData | ExitData | EndReference | LineEnding | HardBreak
| ListStart | ListValue | Lang | Meta | Fence | FencedCode | IndentedCode
| DefinitionLabel | Title | Url | HeadingSequence | SetextText | SetextSequence | SetextEnd
| Value | CodeText | LinkEnd | LabelText | Label | ResourceEnd | ReferenceStart | ReferenceString
| ReferenceMarker | ReferenceValue | AutolinkProtocol | AutolinkEmail | AutolinkWww
| TableStart | TableEnd | TaskCheck | TaskParagraph

definition link_end :: "compiler \<Rightarrow> cnode \<Rightarrow> cnode" where
  "link_end c n =
     (if inReference c
      then n\<lparr>n_type := n_type n @ ''Reference'', n_url := None, n_title := None,
             n_referenceType := Some (case referenceType c of Some r \<Rightarrow> r | None \<Rightarrow> ''shortcut'')\<rparr>
      else n\<lparr>n_identifier := None, n_label := None\<rparr>)"

text \<open>\<open>M\<close>: the fragment on top is the text of a link, whose children become those of the link, or of an image.\<close>

definition exit_label :: step where
  "exit_label c = (case resume_text c of (t, c1) \<Rightarrow>
     (case (node_stack c, node_stack c1) of
        (e # s, a # s') \<Rightarrow>
          Inr ((if n_type (store c ! a) = ''link''
                then update_node a (\<lambda>n. n\<lparr>n_children := n_children (store c ! e)\<rparr>) c1
                else update_node a (\<lambda>n. n\<lparr>n_alt := Some t\<rparr>) c1)\<lparr>inReference := True\<rparr>)
      | _ \<Rightarrow> Inl Thrown))"

text \<open>\<open>F\<close>: \<open>value += false\<close> for a name that the browser does not know.\<close>

definition reference_value :: "compile_env \<Rightarrow> jsstr \<Rightarrow> step" where
  "reference_value env t c = (case characterReferenceType c of
     Some marker \<Rightarrow>
       (case lw t (if marker = ''characterReferenceMarkerNumeric'' then 10 else 16) of
          Some r \<Rightarrow> on_top (add_value r) (c\<lparr>characterReferenceType := None\<rparr>)
        | None \<Rightarrow> Inl Thrown)
   | None \<Rightarrow> on_top (add_value (case env_sw env t of Some r \<Rightarrow> r | None \<Rightarrow> js ''false'')) c)"

text \<open>\<open>Iw\<close> before the paragraph is closed: the space behind a check box goes away.\<close>

definition first_paragraph :: "cnode list \<Rightarrow> nat list \<Rightarrow> nat option" where
  "first_paragraph h cs = List.find (\<lambda>a. n_type (h ! a) = ''paragraph'') cs"

definition task_paragraph :: step where
  "task_paragraph c = (case node_stack c of
     e # t # s \<Rightarrow>
       if n_type (store c ! t) = ''listItem'' \<and> n_checked (store c ! t) \<noteq> None then
         (case n_children (store c ! e) of
            None \<Rightarrow> Inl Thrown
          | Some [] \<Rightarrow> Inr c
          | Some (n # ns) \<Rightarrow>
              if n_type (store c ! n) = ''text'' \<and>
                 first_paragraph (store c) (case n_children (store c ! t) of Some cs \<Rightarrow> cs | None \<Rightarrow> []) = Some e
              then let v = drop 1 (case n_value (store c ! n) of Some v \<Rightarrow> v | None \<Rightarrow> []);
                       c1 = update_node n (\<lambda>m. m\<lparr>n_value := Some v\<rparr>) c
                   in Inr (if v = [] then update_node e (\<lambda>m. m\<lparr>n_children := Some ns\<rparr>) c1 else c1)
              else Inr c)
       else Inr c
   | _ \<Rightarrow> Inr c)"

fun md_act :: "compile_env \<Rightarrow> md_token \<Rightarrow> md_action \<Rightarrow> step" where
  "md_act env t Buffer c = Inr (buffer c)"
| "md_act env t EnterData c = enter_data c"
| "md_act env t ExitData c = exit_data (tok_text t) c"
| "md_act env t EndReference c = (case pop_node c of
     (Some n, c1) \<Rightarrow> if has_position n then Inr c1 else Inl Thrown
   | (None, c1) \<Rightarrow> Inl Thrown)"
| "md_act env t LineEnding c = exit_lineEnding (tok_text t) c"
| "md_act env t HardBreak c = Inr (c\<lparr>atHardBreak := True\<rparr>)"
| "md_act env t ListStart c = Inr (c\<lparr>expectingFirstListItemValue := True\<rparr>)"
| "md_act env t ListValue c =
     (if expectingFirstListItemValue c
      then and_then (on_second (\<lambda>n. n\<lparr>n_start := parseInt (tok_text t) 10\<rparr>) c)
             (\<lambda>c. Inr (c\<lparr>expectingFirstListItemValue := False\<rparr>))
      else Inr c)"
| "md_act env t Lang c = resume_to (\<lambda>e n. n\<lparr>n_lang := Some e\<rparr>) c"
| "md_act env t Meta c = resume_to (\<lambda>e n. n\<lparr>n_meta := Some e\<rparr>) c"
| "md_act env t Fence c = Inr (if flowCodeInside c then c else (buffer c)\<lparr>flowCodeInside := True\<rparr>)"
| "md_act env t FencedCode c =
     and_then (resume_to (\<lambda>e n. n\<lparr>n_value := Some (drop_last_eol (drop_first_eol e))\<rparr>) c)
       (\<lambda>c. Inr (c\<lparr>flowCodeInside := False\<rparr>))"
| "md_act env t IndentedCode c = resume_to (\<lambda>e n. n\<lparr>n_value := Some (drop_last_eol e)\<rparr>) c"
| "md_act env t DefinitionLabel c =
     resume_to (\<lambda>e n. n\<lparr>n_label := Some e, n_identifier := Some (identifier_of env (tok_text t))\<rparr>) c"
| "md_act env t Title c = resume_to (\<lambda>e n. n\<lparr>n_title := Some e\<rparr>) c"
| "md_act env t Url c = resume_to (\<lambda>e n. n\<lparr>n_url := Some e\<rparr>) c"
| "md_act env t HeadingSequence c =
     on_top (\<lambda>n. if n_depth n = 0 then n\<lparr>n_depth := length (tok_text t)\<rparr> else n) c"
| "md_act env t SetextText c = Inr (c\<lparr>setextHeadingSlurpLineEnding := True\<rparr>)"
| "md_act env t SetextSequence c = on_top (\<lambda>n. n\<lparr>n_depth := (if take 1 (tok_text t) = [61] then 1 else 2)\<rparr>) c"
| "md_act env t SetextEnd c = Inr (c\<lparr>setextHeadingSlurpLineEnding := False\<rparr>)"
| "md_act env t Value c = resume_to (\<lambda>e n. n\<lparr>n_value := Some e\<rparr>) c"
| "md_act env t CodeText c =
     resume_to (\<lambda>e n. n\<lparr>n_value := Some (if inTable c then unescape_pipes e else e)\<rparr>) c"
| "md_act env t LinkEnd c = and_then (on_top (link_end c) c) (\<lambda>c. Inr (c\<lparr>referenceType := None\<rparr>))"
| "md_act env t LabelText c =
     (case uw (env_sw env) (tok_text t) of
        Some l \<Rightarrow> on_second (\<lambda>n. n\<lparr>n_label := Some l, n_identifier := Some (identifier_of env (tok_text t))\<rparr>) c
      | None \<Rightarrow> Inl Thrown)"
| "md_act env t Label c = exit_label c"
| "md_act env t ResourceEnd c = Inr (c\<lparr>inReference := False\<rparr>)"
| "md_act env t ReferenceStart c = Inr (c\<lparr>referenceType := Some ''collapsed''\<rparr>)"
| "md_act env t ReferenceString c =
     and_then (resume_to (\<lambda>e n. n\<lparr>n_label := Some e, n_identifier := Some (identifier_of env (tok_text t))\<rparr>) c)
       (\<lambda>c. Inr (c\<lparr>referenceType := Some ''full''\<rparr>))"
| "md_act env t ReferenceMarker c = Inr (c\<lparr>characterReferenceType := Some (tok_type t)\<rparr>)"
| "md_act env t ReferenceValue c = reference_value env (tok_text t) c"
| "md_act env t AutolinkProtocol c = and_then (exit_data (tok_text t) c) (on_top (\<lambda>n. n\<lparr>n_url := Some (tok_text t)\<rparr>))"
| "md_act env t AutolinkEmail c =
     and_then (exit_data (tok_text t) c) (on_top (\<lambda>n. n\<lparr>n_url := Some (js ''mailto:'' @ tok_text t)\<rparr>))"
| "md_act env t AutolinkWww c =
     and_then (exit_data (tok_text t) c) (on_top (\<lambda>n. n\<lparr>n_url := Some (js ''http://'' @ tok_text t)\<rparr>))"
| "md_act env t TableStart c = Inr (c\<lparr>inTable := True\<rparr>)"
| "md_act env t TableEnd c = Inr (c\<lparr>inTable := False\<rparr>)"
| "md_act env t TaskCheck c = on_second (\<lambda>n. n\<lparr>n_checked := Some (tok_type t = ''taskListCheckValueChecked'')\<rparr>) c"
| "md_act env t TaskParagraph c = task_paragraph c"

section \<open>Nodes that tokens open\<close>

definition link_node :: "md_token \<Rightarrow> cnode" where
  "link_node t = (parent_node ''link'')\<lparr>n_url := Some []\<rparr>"

definition heading_node :: "md_token \<Rightarrow> cnode" where "heading_node t = parent_node ''heading''"

definition code_node :: "md_token \<Rightarrow> cnode" where "code_node t = value_node ''code''"

definition definition_node :: "md_token \<Rightarrow> cnode" where
  "definition_node t = (plain_node ''definition'')\<lparr>n_identifier := Some [], n_url := Some []\<rparr>"

definition image_node :: "md_token \<Rightarrow> cnode" where
  "image_node t = (plain_node ''image'')\<lparr>n_url := Some []\<rparr>"

definition list_node :: "md_token \<Rightarrow> cnode" where
  "list_node t = (parent_node ''list'')\<lparr>n_ordered := (tok_type t = ''listOrdered''), n_spread := Some (tok_spread t)\<rparr>"

definition item_node :: "md_token \<Rightarrow> cnode" where
  "item_node t = (parent_node ''listItem'')\<lparr>n_spread := Some (tok_spread t)\<rparr>"

definition footnote_node :: "md_token \<Rightarrow> cnode" where
  "footnote_node t = (parent_node ''footnoteDefinition'')\<lparr>n_identifier := Some [], n_label := Some []\<rparr>"

definition call_node :: "md_token \<Rightarrow> cnode" where
  "call_node t = (plain_node ''footnoteReference'')\<lparr>n_identifier := Some [], n_label := Some []\<rparr>"

definition table_node :: "md_token \<Rightarrow> cnode" where
  "table_node t = (parent_node ''table'')\<lparr>n_align := map (\<lambda>a. if a = js ''none'' then None else Some a) (tok_align t)\<rparr>"

section \<open>The tables of handlers\<close>

text \<open>
  \<open>a(create, and)\<close> opens a node and goes on; \<open>l(before)\<close> closes one after something else; the others are
  actions alone.
\<close>

datatype md_handler = HOpen "md_token \<Rightarrow> cnode" "md_action list" | HClose "md_action list" "md_action list" | HAct "md_action list"

definition enter_table :: "(string \<times> md_handler) list" where
  "enter_table =
    [(''autolink'', HOpen link_node []), (''autolinkProtocol'', HAct [EnterData]), (''autolinkEmail'', HAct [EnterData]),
     (''atxHeading'', HOpen heading_node []), (''blockQuote'', HOpen (\<lambda>t. parent_node ''blockquote'') []),
     (''characterEscape'', HAct [EnterData]), (''characterReference'', HAct [EnterData]),
     (''codeFenced'', HOpen code_node []), (''codeFencedFenceInfo'', HAct [Buffer]), (''codeFencedFenceMeta'', HAct [Buffer]),
     (''codeIndented'', HOpen code_node [Buffer]), (''codeText'', HOpen (\<lambda>t. value_node ''inlineCode'') [Buffer]),
     (''codeTextData'', HAct [EnterData]), (''data'', HAct [EnterData]), (''codeFlowValue'', HAct [EnterData]),
     (''definition'', HOpen definition_node []), (''definitionDestinationString'', HAct [Buffer]),
     (''definitionLabelString'', HAct [Buffer]), (''definitionTitleString'', HAct [Buffer]),
     (''emphasis'', HOpen (\<lambda>t. parent_node ''emphasis'') []), (''hardBreakEscape'', HOpen (\<lambda>t. plain_node ''break'') []),
     (''hardBreakTrailing'', HOpen (\<lambda>t. plain_node ''break'') []), (''htmlFlow'', HOpen (\<lambda>t. value_node ''html'') [Buffer]),
     (''htmlFlowData'', HAct [EnterData]), (''htmlText'', HOpen (\<lambda>t. value_node ''html'') [Buffer]),
     (''htmlTextData'', HAct [EnterData]), (''image'', HOpen image_node []), (''label'', HAct [Buffer]),
     (''link'', HOpen link_node []), (''listItem'', HOpen item_node []), (''listItemValue'', HAct [ListValue]),
     (''listOrdered'', HOpen list_node [ListStart]), (''listUnordered'', HOpen list_node []),
     (''paragraph'', HOpen (\<lambda>t. parent_node ''paragraph'') []), (''reference'', HAct [ReferenceStart]),
     (''referenceString'', HAct [Buffer]), (''resourceDestinationString'', HAct [Buffer]),
     (''resourceTitleString'', HAct [Buffer]), (''setextHeading'', HOpen heading_node []),
     (''strong'', HOpen (\<lambda>t. parent_node ''strong'') []), (''thematicBreak'', HOpen (\<lambda>t. plain_node ''thematicBreak'') [])]"

definition exit_table :: "(string \<times> md_handler) list" where
  "exit_table =
    [(''atxHeading'', HClose [] []), (''atxHeadingSequence'', HAct [HeadingSequence]), (''autolink'', HClose [] []),
     (''autolinkEmail'', HAct [AutolinkEmail]), (''autolinkProtocol'', HAct [AutolinkProtocol]), (''blockQuote'', HClose [] []),
     (''characterEscapeValue'', HAct [ExitData]), (''characterReferenceMarkerHexadecimal'', HAct [ReferenceMarker]),
     (''characterReferenceMarkerNumeric'', HAct [ReferenceMarker]), (''characterReferenceValue'', HAct [ReferenceValue]),
     (''characterReference'', HAct [EndReference]), (''codeFenced'', HClose [FencedCode] []),
     (''codeFencedFence'', HAct [Fence]), (''codeFencedFenceInfo'', HAct [Lang]), (''codeFencedFenceMeta'', HAct [Meta]),
     (''codeFlowValue'', HAct [ExitData]), (''codeIndented'', HClose [IndentedCode] []), (''codeText'', HClose [Value] []),
     (''codeTextData'', HAct [ExitData]), (''data'', HAct [ExitData]), (''definition'', HClose [] []),
     (''definitionDestinationString'', HAct [Url]), (''definitionLabelString'', HAct [DefinitionLabel]),
     (''definitionTitleString'', HAct [Title]), (''emphasis'', HClose [] []), (''hardBreakEscape'', HClose [HardBreak] []),
     (''hardBreakTrailing'', HClose [HardBreak] []), (''htmlFlow'', HClose [Value] []), (''htmlFlowData'', HAct [ExitData]),
     (''htmlText'', HClose [Value] []), (''htmlTextData'', HAct [ExitData]), (''image'', HClose [LinkEnd] []),
     (''label'', HAct [Label]), (''labelText'', HAct [LabelText]), (''lineEnding'', HAct [LineEnding]),
     (''link'', HClose [LinkEnd] []), (''listItem'', HClose [] []), (''listOrdered'', HClose [] []),
     (''listUnordered'', HClose [] []), (''paragraph'', HClose [] []), (''referenceString'', HAct [ReferenceString]),
     (''resourceDestinationString'', HAct [Url]), (''resourceTitleString'', HAct [Title]), (''resource'', HAct [ResourceEnd]),
     (''setextHeading'', HClose [SetextEnd] []), (''setextHeadingLineSequence'', HAct [SetextSequence]),
     (''setextHeadingText'', HAct [SetextText]), (''strong'', HClose [] []), (''thematicBreak'', HClose [] [])]"

text \<open>What \<open>vk\<close> adds.\<close>

definition gfm_enter :: "(string \<times> md_handler) list" where
  "gfm_enter =
    [(''literalAutolink'', HOpen link_node []), (''literalAutolinkEmail'', HAct [EnterData]),
     (''literalAutolinkHttp'', HAct [EnterData]), (''literalAutolinkWww'', HAct [EnterData]),
     (''gfmFootnoteDefinition'', HOpen footnote_node []), (''gfmFootnoteDefinitionLabelString'', HAct [Buffer]),
     (''gfmFootnoteCall'', HOpen call_node []), (''gfmFootnoteCallString'', HAct [Buffer]),
     (''strikethrough'', HOpen (\<lambda>t. parent_node ''delete'') []), (''table'', HOpen table_node [TableStart]),
     (''tableData'', HOpen (\<lambda>t. parent_node ''tableCell'') []), (''tableHeader'', HOpen (\<lambda>t. parent_node ''tableCell'') []),
     (''tableRow'', HOpen (\<lambda>t. parent_node ''tableRow'') [])]"

definition gfm_exit :: "(string \<times> md_handler) list" where
  "gfm_exit =
    [(''literalAutolink'', HClose [] []), (''literalAutolinkEmail'', HAct [AutolinkEmail]),
     (''literalAutolinkHttp'', HAct [AutolinkProtocol]), (''literalAutolinkWww'', HAct [AutolinkWww]),
     (''gfmFootnoteDefinition'', HClose [] []), (''gfmFootnoteDefinitionLabelString'', HAct [DefinitionLabel]),
     (''gfmFootnoteCall'', HClose [] []), (''gfmFootnoteCallString'', HAct [DefinitionLabel]),
     (''strikethrough'', HClose [] []), (''codeText'', HClose [CodeText] []), (''table'', HClose [] [TableEnd]),
     (''tableData'', HClose [] []), (''tableHeader'', HClose [] []), (''tableRow'', HClose [] []),
     (''taskListCheckValueChecked'', HAct [TaskCheck]), (''taskListCheckValueUnchecked'', HAct [TaskCheck]),
     (''paragraph'', HClose [TaskParagraph] [])]"

text \<open>\<open>Hk\<close>, \<open>Vk\<close>: the extensions are assigned over the handlers that are there.\<close>

definition handler_of :: "event \<Rightarrow> md_handler option" where
  "handler_of ev = (case ev of
     Enter t \<Rightarrow> (map_of enter_table ++ map_of gfm_enter) (tok_type t)
   | Exit t \<Rightarrow> (map_of exit_table ++ map_of gfm_exit) (tok_type t))"

section \<open>The compiler: \<open>r\<close>\<close>

fun act_all :: "compile_env \<Rightarrow> md_token \<Rightarrow> md_action list \<Rightarrow> step" where
  "act_all env t [] c = Inr c"
| "act_all env t (a # as) c = and_then (md_act env t a c) (act_all env t as)"

definition run_handler :: "compile_env \<Rightarrow> md_token \<Rightarrow> md_handler \<Rightarrow> step" where
  "run_handler env t h c = (case h of
     HOpen mk as \<Rightarrow> and_then (enter_node (mk t) t c) (act_all env t as)
   | HClose as bs \<Rightarrow> and_then (act_all env t as c) (\<lambda>c. and_then (exit_node t c) (act_all env t bs))
   | HAct as \<Rightarrow> act_all env t as c)"

definition event_token :: "event \<Rightarrow> md_token" where
  "event_token ev = (case ev of Enter t \<Rightarrow> t | Exit t \<Rightarrow> t)"

definition on_event :: "compile_env \<Rightarrow> event \<Rightarrow> step" where
  "on_event env ev c = (case handler_of ev of
     Some h \<Rightarrow> run_handler env (event_token ev) h c
   | None \<Rightarrow> Inr c)"

fun on_events :: "compile_env \<Rightarrow> event list \<Rightarrow> step" where
  "on_events env [] c = Inr c"
| "on_events env (ev # evs) c = and_then (on_event env ev c) (on_events env evs)"

definition compile_events :: "compile_env \<Rightarrow> event list \<Rightarrow> compile_error + compiler" where
  "compile_events env evs = and_then (on_events env evs new_compiler)
     (\<lambda>c. case tokenStack c of o' # ts \<Rightarrow> Inl (StillOpen (tok_type o')) | [] \<Rightarrow> Inr c)"

section \<open>The tree in the store\<close>

definition given :: "jsstr option \<Rightarrow> jsstr" where
  "given f = (case f of Some s \<Rightarrow> s | None \<Rightarrow> [])"

definition kind_of :: "cnode \<Rightarrow> jsstr" where
  "kind_of n = (case n_referenceType n of Some r \<Rightarrow> js r | None \<Rightarrow> [])"

text \<open>The tree below an address, read to a depth; a node of any other type has the children it has.\<close>

definition node_with :: "cnode \<Rightarrow> mdast list \<Rightarrow> mdast" where
  "node_with n cs =
     (if n_type n = ''root'' then MRoot cs
      else if n_type n = ''paragraph'' then MParagraph cs
      else if n_type n = ''heading'' then MHeading (n_depth n) cs
      else if n_type n = ''text'' then MText (given (n_value n))
      else if n_type n = ''emphasis'' then MEmphasis cs
      else if n_type n = ''strong'' then MStrong cs
      else if n_type n = ''delete'' then MDelete cs
      else if n_type n = ''inlineCode'' then MInlineCode (given (n_value n))
      else if n_type n = ''code'' then MCode (given (n_value n)) (n_lang n)
      else if n_type n = ''blockquote'' then MBlockquote cs
      else if n_type n = ''break'' then MBreak
      else if n_type n = ''thematicBreak'' then MThematicBreak
      else if n_type n = ''html'' then MHtml (given (n_value n))
      else if n_type n = ''image'' then MImage (given (n_url n)) (n_alt n) (n_title n)
      else if n_type n = ''imageReference'' then MImageReference (given (n_identifier n)) (n_label n) (kind_of n) (n_alt n)
      else if n_type n = ''link'' then MLink (given (n_url n)) (n_title n) cs
      else if n_type n = ''linkReference'' then MLinkReference (given (n_identifier n)) (n_label n) (kind_of n) cs
      else if n_type n = ''definition'' then MDefinition (given (n_identifier n)) (given (n_url n)) (n_title n)
      else if n_type n = ''footnoteDefinition'' then MFootnoteDefinition (given (n_identifier n)) cs
      else if n_type n = ''footnoteReference'' then MFootnoteReference (given (n_identifier n))
      else if n_type n = ''list'' then MList (n_ordered n) (map_option nat (n_start n)) (n_spread n) cs
      else if n_type n = ''listItem'' then MListItem (n_checked n) (n_spread n) cs
      else if n_type n = ''table'' then MTable (Some (n_align n)) cs
      else if n_type n = ''tableRow'' then MTableRow cs
      else if n_type n = ''tableCell'' then MTableCell cs
      else MUnknown (n_value n) cs)"

fun read_tree :: "nat \<Rightarrow> cnode list \<Rightarrow> nat \<Rightarrow> mdast" where
  "read_tree 0 h a = node_with (h ! a) []"
| "read_tree (Suc k) h a =
     node_with (h ! a) (case n_children (h ! a) of Some cs \<Rightarrow> map (read_tree k h) cs | None \<Rightarrow> [])"

definition compiled_tree :: "compiler \<Rightarrow> mdast" where
  "compiled_tree c = read_tree (length (store c)) (store c) 0"

end
