(* ===== verification/Mdast_Compile_Sound.thy ===== *)
theory Mdast_Compile_Sound
  imports Mdast_Compile
begin

text \<open>
  The compiler of events: its errors about tokens are those of an automaton that looks at the types of
  the container tokens only, and the nodes it leaves in its store form a tree below the root.
\<close>

section \<open>Good steps\<close>

text \<open>
  The store: open nodes have growing addresses towards the top of the stack, children larger addresses
  than their parents.
\<close>

definition children_up :: "cnode list \<Rightarrow> bool" where
  "children_up h \<longleftrightarrow> (\<forall>a < length h. \<forall>cs. n_children (h ! a) = Some cs \<longrightarrow> (\<forall>x \<in> set cs. a < x \<and> x < length h))"

definition store_ok :: "compiler \<Rightarrow> bool" where
  "store_ok c \<longleftrightarrow> store c \<noteq> [] \<and> children_up (store c) \<and> sorted_wrt (>) (node_stack c) \<and> (\<forall>a \<in> set (node_stack c). a < length (store c))"

lemma store_ok_flags [simp]:
  "store_ok (c\<lparr>expectingFirstListItemValue := b\<rparr>) = store_ok c" "store_ok (c\<lparr>flowCodeInside := b\<rparr>) = store_ok c"
  "store_ok (c\<lparr>setextHeadingSlurpLineEnding := b\<rparr>) = store_ok c" "store_ok (c\<lparr>atHardBreak := b\<rparr>) = store_ok c"
  "store_ok (c\<lparr>inReference := b\<rparr>) = store_ok c" "store_ok (c\<lparr>referenceType := r\<rparr>) = store_ok c"
  "store_ok (c\<lparr>characterReferenceType := r\<rparr>) = store_ok c" "store_ok (c\<lparr>inTable := b\<rparr>) = store_ok c"
  "store_ok (c\<lparr>tokenStack := ts\<rparr>) = store_ok c"
  by (simp_all add: store_ok_def)

text \<open>A step inside a handler keeps the tokens and the store in order, and fails only as the language does.\<close>

definition good :: "compiler \<Rightarrow> compile_error + compiler \<Rightarrow> bool" where
  "good c r = (case r of
     Inl e \<Rightarrow> e = Thrown
   | Inr c' \<Rightarrow> tokenStack c' = tokenStack c \<and> (store_ok c \<longrightarrow> store_ok c'))"

named_theorems good_steps

lemma good_thrown [good_steps, simp]: "good c (Inl Thrown)"
  by (simp add: good_def)

lemma good_Inr: "tokenStack c' = tokenStack c \<Longrightarrow> (store_ok c \<Longrightarrow> store_ok c') \<Longrightarrow> good c (Inr c')"
  by (simp add: good_def)

lemma good_flags:
  "store c' = store c \<Longrightarrow> node_stack c' = node_stack c \<Longrightarrow> tokenStack c' = tokenStack c \<Longrightarrow> good c (Inr c')"
  by (simp add: good_def store_ok_def)

lemma good_then: "good c r \<Longrightarrow> (\<And>c'. good c' (f c')) \<Longrightarrow> good c (and_then r f)"
  by (fastforce simp: good_def and_then_def split: sum.splits)

lemma good_before: "good d r \<Longrightarrow> tokenStack d = tokenStack c \<Longrightarrow> (store_ok c \<Longrightarrow> store_ok d) \<Longrightarrow> good c r"
  by (auto simp: good_def split: sum.splits)

lemma children_upI:
  "(\<And>a cs x. a < length h \<Longrightarrow> n_children (h ! a) = Some cs \<Longrightarrow> x \<in> set cs \<Longrightarrow> a < x \<and> x < length h) \<Longrightarrow> children_up h"
  unfolding children_up_def by blast

lemma children_upD:
  "children_up h \<Longrightarrow> a < length h \<Longrightarrow> n_children (h ! a) = Some cs \<Longrightarrow> x \<in> set cs \<Longrightarrow> a < x \<and> x < length h"
  unfolding children_up_def by blast

lemma children_up_update:
  assumes "children_up h" and "a < length h" and "\<And>cs x. n_children m = Some cs \<Longrightarrow> x \<in> set cs \<Longrightarrow> a < x \<and> x < length h"
  shows "children_up (h[a := m])"
proof (rule children_upI)
  fix b cs x assume b: "b < length (h[a := m])" "n_children (h[a := m] ! b) = Some cs" "x \<in> set cs"
  show "b < x \<and> x < length (h[a := m])"
  proof (cases "b = a")
    case True
    then show ?thesis using b assms(2) assms(3) [of cs x] by simp
  next
    case False
    then show ?thesis using b children_upD [OF assms(1), of b cs x] by simp
  qed
qed

lemma children_up_keep:
  assumes "children_up h" and "n_children (f (h ! a)) = n_children (h ! a)"
  shows "children_up (h[a := f (h ! a)])"
proof (cases "a < length h")
  case True
  show ?thesis
    by (rule children_up_update [OF assms(1) True]) (use children_upD [OF assms(1) True] assms(2) in simp)
next
  case False
  then show ?thesis using assms(1) by (simp add: list_update_beyond)
qed

lemma children_up_append:
  assumes "children_up h" and "n_children n = None \<or> n_children n = Some []"
  shows "children_up (h @ [n])"
proof (rule children_upI)
  fix b cs x assume b: "b < length (h @ [n])" "n_children ((h @ [n]) ! b) = Some cs" "x \<in> set cs"
  show "b < x \<and> x < length (h @ [n])"
  proof (cases "b < length h")
    case True
    then show ?thesis using b children_upD [OF assms(1) True, of cs x] by (simp add: nth_append)
  next
    case False
    then have "(h @ [n]) ! b = n" using b(1) by (simp add: nth_append less_Suc_eq)
    then show ?thesis using b assms(2) by auto
  qed
qed

lemma update_node_ok:
  "store_ok c \<Longrightarrow> (\<And>n. n_children (f n) = n_children n) \<Longrightarrow> store_ok (update_node a f c)"
  by (simp add: store_ok_def update_node_def children_up_keep)

lemma update_node_tokens [simp]: "tokenStack (update_node a f c) = tokenStack c" "node_stack (update_node a f c) = node_stack c"
  by (simp_all add: update_node_def)

lemma good_on_top [good_steps]: "(\<And>n. n_children (f n) = n_children n) \<Longrightarrow> good c (on_top f c)"
  by (auto simp: on_top_def good_def update_node_ok split: list.split)

lemma good_on_second [good_steps]: "(\<And>n. n_children (f n) = n_children n) \<Longrightarrow> good c (on_second f c)"
  by (auto simp: on_second_def good_def update_node_ok split: list.split)

lemma pop_store_ok: "store_ok c \<Longrightarrow> node_stack c = a # s \<Longrightarrow> store_ok (c\<lparr>node_stack := s\<rparr>)"
  by (simp add: store_ok_def)

lemma resume_ok: "resume_text c = (t, c') \<Longrightarrow> tokenStack c' = tokenStack c \<and> (store_ok c \<longrightarrow> store_ok c')"
  by (auto simp: resume_text_def pop_store_ok split: list.splits)

lemma good_resume_to [good_steps]: "(\<And>e n. n_children (f e n) = n_children n) \<Longrightarrow> good c (resume_to f c)"
  using resume_ok [of c] by (auto simp: resume_to_def split: prod.split intro: good_before [OF good_on_top])

lemma buffer_ok [simp]: "tokenStack (buffer c) = tokenStack c" "store_ok c \<Longrightarrow> store_ok (buffer c)"
  by (auto simp: buffer_def push_node_def store_ok_def parent_node_def intro: children_up_append less_SucI)

lemma new_node_children [simp]:
  "n_children (plain_node t) = None" "n_children (value_node t) = None" "n_children (parent_node t) = Some []"
  by (simp_all add: plain_node_def value_node_def parent_node_def)

lemma push_node_tokens [simp]: "tokenStack (push_node n c) = tokenStack c"
  by (simp add: push_node_def)

text \<open>A new last child of an open node, itself opened.\<close>

lemma add_child_ok:
  assumes "store_ok c" and "node_stack c = a # s" and "n_children (store c ! a) = Some cs"
    and "n_children n = None \<or> n_children n = Some []"
  shows "store_ok (push_node n (update_node a (\<lambda>p. p\<lparr>n_children := Some (cs @ [length (store c)])\<rparr>) c))"
proof -
  let ?h = "store c" and ?p = "(store c ! a)\<lparr>n_children := Some (cs @ [length (store c)])\<rparr>"
  have a: "a < length ?h" using assms(1,2) by (simp add: store_ok_def)
  have u: "children_up (?h @ [n])" using assms(1,4) by (simp add: store_ok_def children_up_append)
  have "children_up ((?h @ [n])[a := ?p])"
  proof (rule children_up_update [OF u])
    fix cs' x assume "n_children ?p = Some cs'" "x \<in> set cs'"
    then have "x \<in> set cs \<or> x = length ?h" by auto
    moreover have "x \<in> set cs \<Longrightarrow> a < x \<and> x < length ?h"
      using assms(1,3) a children_upD [of ?h a cs x] by (simp add: store_ok_def)
    ultimately show "a < x \<and> x < length (?h @ [n])" using a by auto
  qed (use a in simp)
  then show ?thesis using assms(1,2) a
    by (auto simp: store_ok_def push_node_def update_node_def list_update_append1 intro: less_SucI)
qed

lemma good_enter_data [good_steps]: "good c (enter_data c)"
proof -
  have "store_ok (c\<lparr>node_stack := List.last cs # node_stack c\<rparr>)"
    if "store_ok c" "node_stack c = a # s" "n_children (store c ! a) = Some cs" "cs \<noteq> []" for a s cs
  proof -
    have "a < List.last cs \<and> List.last cs < length (store c)"
      using that children_upD [of "store c" a cs "List.last cs"] by (simp add: store_ok_def)
    then show ?thesis using that(1,2) by (auto simp: store_ok_def)
  qed
  then show ?thesis
    by (auto simp: enter_data_def top_of_def intro!: good_Inr add_child_ok add_child_ok [where cs = "[]", simplified]
        split: option.split list.split)
qed

lemma good_exit_data [good_steps]: "good c (exit_data t c)"
  by (auto simp: exit_data_def intro!: good_Inr split: list.split)
     (auto simp: store_ok_def update_node_def children_up_keep add_value_def)

lemma good_exit_lineEnding [good_steps]: "good c (exit_lineEnding t c)"
  by (auto simp: exit_lineEnding_def intro!: good_flags good_then good_enter_data good_exit_data split: option.split list.split)

lemma good_reference_value [good_steps]: "good c (reference_value env t c)"
proof -
  have "good c (on_top (add_value r) (c\<lparr>characterReferenceType := None\<rparr>))" for r
    by (rule good_before [OF good_on_top]) (auto simp: add_value_def store_ok_def)
  then show ?thesis
    by (auto simp: reference_value_def add_value_def [of _ "_ :: cnode"] intro!: good_on_top split: option.split)
qed

lemma good_exit_label [good_steps]: "good c (exit_label c)"
proof -
  have "store_ok ((update_node a (\<lambda>n. n\<lparr>n_children := n_children (store c ! e)\<rparr>) (c\<lparr>node_stack := a # s\<rparr>))\<lparr>inReference := True\<rparr>)"
    if "store_ok c" "node_stack c = e # a # s" for e a s
  proof -
    have o: "a < e" "e < length (store c)" "children_up (store c)" using that by (auto simp: store_ok_def)
    have "children_up ((store c)[a := (store c ! a)\<lparr>n_children := n_children (store c ! e)\<rparr>])"
    proof (rule children_up_update [OF o(3)])
      fix cs x assume "n_children ((store c ! a)\<lparr>n_children := n_children (store c ! e)\<rparr>) = Some cs" "x \<in> set cs"
      then show "a < x \<and> x < length (store c)" using children_upD [OF o(3,2), of cs x] o(1) by simp
    qed (use o in simp)
    then show ?thesis using that by (simp add: store_ok_def update_node_def)
  qed
  moreover have "store_ok ((update_node a (\<lambda>n. n\<lparr>n_alt := Some t\<rparr>) (c\<lparr>node_stack := a # s\<rparr>))\<lparr>inReference := True\<rparr>)"
    if "store_ok c" "node_stack c = e # a # s" for e a s t
    using update_node_ok [OF pop_store_ok [OF that], of "\<lambda>n. n\<lparr>n_alt := Some t\<rparr>" a] by (simp add: store_ok_def)
  ultimately show ?thesis
    by (auto simp: exit_label_def resume_text_def intro!: good_Inr split: list.split)
qed

lemma good_task_paragraph [good_steps]: "good c (task_paragraph c)"
proof -
  let ?v = "\<lambda>v m. m\<lparr>n_value := Some (v :: jsstr)\<rparr>"
  have v: "store_ok (update_node n (?v v) c)" if "store_ok c" for n v using update_node_ok [OF that, of "?v v" n] by simp
  have "store_ok (update_node e (\<lambda>m. m\<lparr>n_children := Some ns\<rparr>) (update_node n (?v v) c))"
    if "store_ok c" "node_stack c = e # s" "n_children (store c ! e) = Some (n # ns)" for e s n ns v
  proof -
    let ?d = "update_node n (?v v) c"
    have e: "e < length (store ?d)" "children_up (store ?d)" using v [OF that(1)] that(2) by (auto simp: store_ok_def)
    have k: "n_children (store ?d ! e) = Some (n # ns)" using that(3) e(1) by (cases "e = n") (simp_all add: update_node_def)
    have "children_up ((store ?d)[e := (store ?d ! e)\<lparr>n_children := Some ns\<rparr>])"
      by (rule children_up_update [OF e(2,1)]) (use children_upD [OF e(2,1) k] in auto)
    then show ?thesis using v [OF that(1)] by (simp add: store_ok_def update_node_def)
  qed
  with v show ?thesis
    by (auto simp: task_paragraph_def Let_def intro!: good_Inr split: list.split option.split)
qed

text \<open>All actions are good steps.\<close>

lemma good_act: "good c (md_act env t a c)"
proof (cases a)
  case EndReference
  then show ?thesis by (auto simp: pop_node_def pop_store_ok intro!: good_Inr split: list.split)
qed (auto simp: link_end_def intro!: good_steps good_then good_flags good_Inr split: option.split)

lemma good_act_all: "good c (act_all env t as c)"
  by (induction as arbitrary: c) (auto intro!: good_flags good_then good_act)

section \<open>Handlers\<close>

text \<open>The types of the tokens that stand for a node.\<close>

definition containers :: "string list" where
  "containers =
    [''autolink'', ''atxHeading'', ''blockQuote'', ''codeFenced'', ''codeIndented'', ''codeText'', ''definition'', ''emphasis'',
     ''hardBreakEscape'', ''hardBreakTrailing'', ''htmlFlow'', ''htmlText'', ''image'', ''link'', ''listItem'', ''listOrdered'',
     ''listUnordered'', ''paragraph'', ''setextHeading'', ''strong'', ''thematicBreak'', ''literalAutolink'',
     ''gfmFootnoteDefinition'', ''gfmFootnoteCall'', ''strikethrough'', ''table'', ''tableData'', ''tableHeader'', ''tableRow'']"

fun opens :: "md_handler \<Rightarrow> bool" where "opens (HOpen mk as) = True" | "opens h = False"
fun closes :: "md_handler \<Rightarrow> bool" where "closes (HClose as bs) = True" | "closes h = False"

lemma enter_handlers:
  "list_all (\<lambda>(k, h). opens h = (k \<in> set containers) \<and> \<not> closes h) (enter_table @ gfm_enter)"
  "list_all (\<lambda>k. k \<in> set (map fst (enter_table @ gfm_enter))) containers"
  by code_simp+

lemma exit_handlers:
  "list_all (\<lambda>(k, h). closes h = (k \<in> set containers) \<and> \<not> opens h) (exit_table @ gfm_exit)"
  "list_all (\<lambda>k. k \<in> set (map fst (exit_table @ gfm_exit))) containers"
  by code_simp+

lemma opened_nodes:
  "\<forall>x \<in> set (enter_table @ gfm_enter). case snd x of
     HOpen mk as \<Rightarrow> (\<forall>t. n_children (mk t) = None \<or> n_children (mk t) = Some []) | _ \<Rightarrow> True"
  by (simp add: enter_table_def gfm_enter_def link_node_def heading_node_def code_node_def definition_node_def
      image_node_def list_node_def item_node_def footnote_node_def call_node_def table_node_def)

lemma handler_in_table:
  "handler_of (Enter t) = Some h \<Longrightarrow> (tok_type t, h) \<in> set (enter_table @ gfm_enter)"
  "handler_of (Exit t) = Some h \<Longrightarrow> (tok_type t, h) \<in> set (exit_table @ gfm_exit)"
  by (auto simp: handler_of_def map_add_def split: option.splits dest: map_of_SomeD)

lemma handler_exists:
  "tok_type t \<in> set containers \<Longrightarrow> handler_of (Enter t) \<noteq> None"
  "tok_type t \<in> set containers \<Longrightarrow> handler_of (Exit t) \<noteq> None"
proof -
  assume "tok_type t \<in> set containers"
  then have "tok_type t \<in> set (map fst (enter_table @ gfm_enter))" "tok_type t \<in> set (map fst (exit_table @ gfm_exit))"
    using enter_handlers(2) exit_handlers(2) unfolding list_all_iff by blast+
  then show "handler_of (Enter t) \<noteq> None" "handler_of (Exit t) \<noteq> None"
    unfolding handler_of_def event.case map_of_append [symmetric] map_of_eq_None_iff by auto
qed

lemma enter_cases:
  obtains (container) mk as where "tok_type t \<in> set containers" "handler_of (Enter t) = Some (HOpen mk as)"
      "n_children (mk t) = None \<or> n_children (mk t) = Some []"
  | (act) as where "tok_type t \<notin> set containers" "handler_of (Enter t) = Some (HAct as)"
  | (none) "tok_type t \<notin> set containers" "handler_of (Enter t) = None"
proof (cases "handler_of (Enter t)")
  case None
  then show thesis using handler_exists(1) none by blast
next
  case (Some h)
  have m: "(tok_type t, h) \<in> set (enter_table @ gfm_enter)" using handler_in_table(1) Some by blast
  then have h: "opens h = (tok_type t \<in> set containers)" "\<not> closes h" using enter_handlers(1) unfolding list_all_iff by blast+
  show thesis
  proof (cases h)
    case (HOpen mk as)
    then show thesis using bspec [OF opened_nodes m] h Some container by auto
  next
    case (HClose as bs)
    then show thesis using h by simp
  next
    case (HAct as)
    then show thesis using h Some act by auto
  qed
qed

lemma exit_cases:
  obtains (container) as bs where "tok_type t \<in> set containers" "handler_of (Exit t) = Some (HClose as bs)"
  | (act) as where "tok_type t \<notin> set containers" "handler_of (Exit t) = Some (HAct as)"
  | (none) "tok_type t \<notin> set containers" "handler_of (Exit t) = None"
proof (cases "handler_of (Exit t)")
  case None
  then show thesis using handler_exists(2) none by blast
next
  case (Some h)
  have m: "(tok_type t, h) \<in> set (exit_table @ gfm_exit)" using handler_in_table(2) Some by blast
  then have h: "closes h = (tok_type t \<in> set containers)" "\<not> opens h" using exit_handlers(1) unfolding list_all_iff by blast+
  then show thesis using Some container act by (cases h) auto
qed

section \<open>Nesting\<close>

text \<open>The automaton: a stack of open types.\<close>

fun nest :: "string list \<Rightarrow> event list \<Rightarrow> compile_error option" where
  "nest ts [] = (case ts of [] \<Rightarrow> None | o' # r \<Rightarrow> Some (StillOpen o'))"
| "nest ts (Enter t # evs) = nest (if tok_type t \<in> set containers then tok_type t # ts else ts) evs"
| "nest ts (Exit t # evs) =
     (if tok_type t \<in> set containers
      then (case ts of
              [] \<Rightarrow> Some (NotOpen (tok_type t))
            | o' # r \<Rightarrow> if o' = tok_type t then nest r evs else Some (DifferentOpen (tok_type t) o'))
      else nest ts evs)"

text \<open>One event, seen by the automaton, and what it does to the store.\<close>

definition types :: "compiler \<Rightarrow> string list" where "types c = map tok_type (tokenStack c)"

definition follows :: "event \<Rightarrow> compiler \<Rightarrow> compile_error + compiler \<Rightarrow> bool" where
  "follows ev c r = (case r of
     Inl e \<Rightarrow> e = Thrown \<or> (\<forall>evs. nest (types c) (ev # evs) = Some e)
   | Inr c' \<Rightarrow> (\<forall>evs. nest (types c) (ev # evs) = nest (types c') evs) \<and> (store_ok c \<longrightarrow> store_ok c'))"

lemma follows_good:
  "good c r \<Longrightarrow> (\<And>evs. nest (types c) (ev # evs) = nest (types c) evs) \<Longrightarrow> follows ev c r"
  by (auto simp: follows_def good_def types_def split: sum.splits)

lemma enter_follows: "follows (Enter t) c (on_event env (Enter t) c)"
proof (cases t rule: enter_cases)
  case (container mk as)
  have "follows (Enter t) c (and_then (enter_node (mk t) t c) (act_all env t as))"
  proof (cases "enter_node (mk t) t c")
    case (Inl e)
    then have "e = Thrown" by (auto simp: enter_node_def split: option.splits)
    then show ?thesis using Inl by (simp add: and_then_def follows_def)
  next
    case (Inr d)
    have d: "types d = tok_type t # types c" "store_ok c \<Longrightarrow> store_ok d"
      using Inr container(3) by (auto simp: enter_node_def types_def top_of_def intro!: add_child_ok split: option.splits list.splits)
    have "good d (act_all env t as d)" by (rule good_act_all)
    then show ?thesis using Inr d container(1)
      by (auto simp: and_then_def follows_def good_def types_def split: sum.splits)
  qed
  then show ?thesis using container(2) by (simp add: on_event_def run_handler_def event_token_def)
next
  case (act as)
  then show ?thesis using follows_good [OF good_act_all, of c "Enter t"]
    by (simp add: on_event_def run_handler_def event_token_def)
next
  case none
  then show ?thesis by (simp add: on_event_def follows_def)
qed

lemma exit_node_nest:
  assumes "tok_type t \<in> set containers"
  shows "follows (Exit t) c (exit_node t c)"
proof -
  have "store_ok c \<Longrightarrow> store_ok (snd (pop_node c))" by (auto simp: pop_node_def pop_store_ok split: list.split)
  moreover have "tokenStack (snd (pop_node c)) = tokenStack c" by (auto simp: pop_node_def split: list.split)
  ultimately show ?thesis using assms
    by (auto simp: exit_node_def follows_def types_def split: prod.splits list.splits option.splits)
qed

lemma exit_follows: "follows (Exit t) c (on_event env (Exit t) c)"
proof (cases t rule: exit_cases)
  case (container as bs)
  let ?r = "\<lambda>d. and_then (exit_node t d) (act_all env t bs)"
  have f: "follows (Exit t) d (?r d)" for d
  proof -
    have "good c' (act_all env t bs c')" for c' by (rule good_act_all)
    with exit_node_nest [OF container(1), of d] show ?thesis
      by (fastforce simp: follows_def and_then_def good_def types_def split: sum.splits)
  qed
  have "follows (Exit t) c (and_then (act_all env t as c) ?r)"
  proof (cases "act_all env t as c")
    case (Inl e)
    then show ?thesis using good_act_all [of c env t as] by (simp add: and_then_def follows_def good_def)
  next
    case (Inr d)
    then have "types d = types c" "store_ok c \<longrightarrow> store_ok d" using good_act_all [of c env t as] by (auto simp: good_def types_def)
    then show ?thesis using f [of d] Inr by (auto simp: and_then_def follows_def split: sum.splits)
  qed
  then show ?thesis using container(2) by (simp add: on_event_def run_handler_def event_token_def)
next
  case (act as)
  then show ?thesis using follows_good [OF good_act_all, of c "Exit t"]
    by (simp add: on_event_def run_handler_def event_token_def)
next
  case none
  then show ?thesis by (simp add: on_event_def follows_def)
qed

lemma event_follows: "follows ev c (on_event env ev c)"
  by (cases ev) (simp_all add: enter_follows exit_follows)

lemma events_follow:
  "case on_events env evs c of
     Inl e \<Rightarrow> e = Thrown \<or> nest (types c) evs = Some e
   | Inr c' \<Rightarrow> nest (types c) evs = nest (types c') [] \<and> (store_ok c \<longrightarrow> store_ok c')"
proof (induction evs arbitrary: c)
  case (Cons ev evs)
  show ?case
  proof (cases "on_event env ev c")
    case (Inl e)
    then show ?thesis using event_follows [where env = env and ev = ev and c = c] by (auto simp: follows_def and_then_def)
  next
    case (Inr d)
    have "\<forall>evs. nest (types c) (ev # evs) = nest (types d) evs" "store_ok c \<longrightarrow> store_ok d"
      using event_follows [where env = env and ev = ev and c = c] Inr by (simp_all add: follows_def)
    then show ?thesis using Cons [of d] Inr by (auto simp: and_then_def split: sum.splits)
  qed
qed simp


section \<open>The tree\<close>

lemma read_tree_depth:
  assumes "children_up h" and "a < length h" and "length h - a \<le> k" and "length h - a \<le> l"
  shows "read_tree k h a = read_tree l h a"
  using assms(2-)
proof (induction k arbitrary: a l)
  case (Suc k)
  then obtain l' where l: "l = Suc l'" by (cases l) auto
  have "map (read_tree k h) cs = map (read_tree l' h) cs" if "n_children (h ! a) = Some cs" for cs
  proof (rule map_cong [OF refl])
    fix x assume "x \<in> set cs"
    then have "a < x" "x < length h" using children_upD [OF assms(1) Suc.prems(1) that] by auto
    then show "read_tree k h x = read_tree l' h x" using Suc.prems l by (intro Suc.IH) auto
  qed
  then show ?case unfolding l by (cases "n_children (h ! a)") (simp_all only: read_tree.simps option.case)
qed simp



end
