(* ===== verification/Markdown_Render.thy ===== *)
theory Markdown_Render
  imports Hast_Raw_Sound Mdast_Sound Mdast_Compile_Sound
begin

text \<open>
  The whole pipeline of \<open>ScalarMarkdown\<close> behind the events of the markdown parser: the tree, links for plain
  URLs, conversion to a syntax tree, raw HTML, sanitizer, highlighter (an argument), links, indentation and the HTML text.
\<close>

definition render_markdown ::
  "(nat \<Rightarrow> bool) \<Rightarrow> decode_tree \<Rightarrow> (hast \<Rightarrow> hast) \<Rightarrow> (jsstr \<Rightarrow> jsstr) \<Rightarrow> (jsstr \<Rightarrow> jsstr) \<Rightarrow> (jsstr \<Rightarrow> jsstr option) \<Rightarrow> jsstr list \<Rightarrow> jsstr list \<Rightarrow>
     mdast \<Rightarrow> nat \<Rightarrow> (render_error + jsstr \<times> nat) option" where
  "render_markdown ps lm highlight up low num removeTags allowTags m li =
     map_option (\<lambda>t. render lm highlight low num removeTags allowTags t li) (pS True None up low (iO ps m))"

text \<open>From a markdown tree on: the list of removed tags has no \<open>table\<close>, additional tags are plain names.\<close>

lemma tree_renders_listed_tags:
  assumes "lowers_ascii low" and "js ''table'' \<notin> set removeTags" and "writable_names allowTags"
    and "\<And>h. tags_ok (kept_tags removeTags allowTags) h \<Longrightarrow> tags_ok (kept_tags removeTags allowTags) (highlight h)"
  shows "(\<exists>t e. pS True None up low (iO ps m) = Some t \<and> kb lm low num t li = Inl e \<and>
        render_markdown ps lm highlight up low num removeTags allowTags m li = Some (Inl (RawFailed e))) \<or>
     (\<exists>s li' ts. render_markdown ps lm highlight up low num removeTags allowTags m li = Some (Inr (s, li')) \<and>
        Hast_Stringify_Sound.scan InText s = (InText, ts) \<and> set ts \<subseteq> tag_texts (kept_tags removeTags allowTags))"
proof -
  obtain t where "pS True None up low (iO ps m) = Some t" using pS_total by blast
  then show ?thesis
    using render_listed [OF assms(1-3), of highlight lm num t li] assms(4) by (auto simp: render_markdown_def)
qed

datatype document_error = NotCompiled compile_error | NotRendered render_error

definition render_events ::
  "compile_env \<Rightarrow> (nat \<Rightarrow> bool) \<Rightarrow> decode_tree \<Rightarrow> (hast \<Rightarrow> hast) \<Rightarrow> (jsstr \<Rightarrow> jsstr option) \<Rightarrow> jsstr list \<Rightarrow> jsstr list \<Rightarrow>
     event list \<Rightarrow> nat \<Rightarrow> (document_error + jsstr \<times> nat) option" where
  "render_events env ps lm highlight num removeTags allowTags evs li = (case compile_events env evs of
     Inl e \<Rightarrow> Some (Inl (NotCompiled e))
   | Inr c \<Rightarrow> map_option (map_sum NotRendered id)
       (render_markdown ps lm highlight (env_up env) (env_low env) num removeTags allowTags (compiled_tree c) li))"


text \<open>A document that consists of a block of raw HTML.\<close>

definition plain_env :: compile_env where
  "plain_env = \<lparr>env_sw = \<lambda>n. None, env_up = id, env_low = ascii_lower\<rparr>"

definition bold_events :: "event list" where
  "bold_events = (let t = (\<lambda>ty. \<lparr>tok_type = ty, tok_text = js ''<b>'', tok_spread = False, tok_align = []\<rparr>) in
     [Enter (t ''htmlFlow''), Enter (t ''htmlFlowData''), Exit (t ''htmlFlowData''), Exit (t ''htmlFlow'')])"

lemma bold_events_tree: "map_sum id compiled_tree (compile_events plain_env bold_events) = Inr (MRoot [MHtml (js ''<b>'')])"
  by code_simp


end
