(* ===== verification/Mdast_Autolink_Sound.thy ===== *)
theory Mdast_Autolink_Sound
  imports Mdast_Autolink
begin

text \<open>
  Putting in links changes no text, keeps the links that are there, and a new link leads to what its
  text says.
\<close>

section \<open>Texts\<close>

lemma zO_append [simp]: "zO (cs @ ds) = zO cs @ zO ds"
  by (induction cs) auto

lemma close_parens_text: "close_parens a b u t = (u', t') \<Longrightarrow> u' @ t' = u @ t"
proof (induction a b u t rule: close_parens.induct)
  case (1 a b u t)
  then show ?case by (subst (asm) (2) close_parens.simps) (auto simp: Let_def split: if_splits)
qed

lemma splitUrl_text: "splitUrl e = (u, t) \<Longrightarrow> u @ t = e"
proof -
  assume s: "splitUrl e = (u, t)"
  let ?t = "rev (takeWhile trail_char (rev e))"
  have "e = take (length e - length ?t) e @ ?t"
    by (metis append_take_drop_id length_rev rev_append rev_rev_ident take_rev takeWhile_eq_take rev_take)
  then show ?thesis using s close_parens_text by (fastforce simp: splitUrl_def Let_def split: if_splits)
qed

lemma sO_text: "sO ps s i t d p = Some a \<Longrightarrow> zO a = t @ d @ p"
  by (auto simp: sO_def Let_def split: if_splits prod.splits dest!: splitUrl_text)

lemma lO_text: "lO ps s i t l = Some a \<Longrightarrow> zO a = t @ [64] @ l"
  by (auto simp: lO_def js_def split: if_splits)

lemma replacement_text: "replacement ps p s n g = Some a \<Longrightarrow> exec_here p r = Some (w, g) \<Longrightarrow> zO a = w"
  by (auto simp: replacement_def exec_here_def dest!: sO_text lO_text split: pattern.splits list.splits)

text \<open>An invariant of the loop over the matches: \<open>skip\<close> for a match that stays, \<open>put\<close> for one that is replaced.\<close>

lemma replace_loop_invariant:
  assumes "replace_loop ps p s li start u c = (start', u', c')" and "I li start u"
    and skip: "\<And>li start u n. I li start u \<Longrightarrow> li \<le> n \<Longrightarrow> I (n + 1) start u"
    and put: "\<And>li start u n w g a. I li start u \<Longrightarrow> li \<le> n \<Longrightarrow> exec_here p (drop n s) = Some (w, g) \<Longrightarrow>
      replacement ps p s n g = Some a \<Longrightarrow>
      I (n + length w) (n + length w) (u @ (if start \<noteq> n then [MText (take (n - start) (drop start s))] else []) @ a)"
  shows "\<exists>li'. I li' start' u'"
  using assms(1,2) put
proof (induction ps p s li start u c rule: replace_loop.induct)
  case (1 ps p s li start u c)
  show ?case
  proof (cases "exec p s li")
    case None
    then show ?thesis using 1(3,4) by (auto simp: replace_loop.simps [of ps p s li])
  next
    case (Some e)
    obtain n w g where e: "exec p s li = Some (n, w, g)" using Some by (cases e) simp
    have n: "li \<le> n" "exec_here p (drop n s) = Some (w, g)" using exec_found [OF e] by auto
    show ?thesis
    proof (cases "replacement ps p s n g")
      case None
      have "replace_loop ps p s (n + 1) start u c = (start', u', c')"
        using 1(3) e None by (simp add: replace_loop.simps [of ps p s li])
      then show ?thesis by (rule 1(1) [OF e refl refl None _ skip [OF 1(4) n(1)] 1(5)])
    next
      case (Some a)
      have "replace_loop ps p s (n + length w) (n + length w)
          (u @ (if start \<noteq> n then [MText (take (n - start) (drop start s))] else []) @ a) True = (start', u', c')"
        using 1(3) e Some by (simp add: replace_loop.simps [of ps p s li])
      then show ?thesis by (rule 1(2) [OF e refl refl Some _ 1(5) [OF 1(4) n Some] 1(5)])
    qed
  qed
qed

lemma replace_loop_text:
  assumes "replace_loop ps p s 0 0 [] False = (start', u', c')"
  shows "zO u' = take start' s"
proof -
  have "\<exists>li. start' \<le> li \<and> zO u' = take start' s"
  proof (rule replace_loop_invariant [OF assms, of "\<lambda>li start u. start \<le> li \<and> zO u = take start s"])
    fix li start u n w g a
    assume i: "start \<le> li \<and> zO u = take start s" and n: "li \<le> n" "exec_here p (drop n s) = Some (w, g)"
      and a: "replacement ps p s n g = Some a"
    obtain r where "drop n s = w @ r" using exec_here_prefix [OF n(2)] by blast
    then have "take (n + length w) s = take n s @ w" by (simp add: take_add)
    moreover have "take n s = take start s @ take (n - start) (drop start s)"
      using n(1) i by (metis le_add_diff_inverse order_trans take_add)
    ultimately show "n + length w \<le> n + length w \<and>
        zO (u @ (if start \<noteq> n then [MText (take (n - start) (drop start s))] else []) @ a) = take (n + length w) s"
      using i replacement_text [OF a n(2)] by auto
  qed auto
  then show ?thesis by blast
qed

lemma replace_text_text: "zO (replace_text ps p s) = s"
proof -
  obtain start u c where r: "replace_loop ps p s 0 0 [] False = (start, u, c)" by (cases "replace_loop ps p s 0 0 [] False")
  then have "zO u = take start s" by (rule replace_loop_text)
  then show ?thesis using r by (simp add: replace_text_def)
qed

lemma Xy_text: "QO (Xy_node ps p m) = QO m" "zO (Xy_children ps p cs) = zO cs"
  by (induction m and cs rule: QO_zO.induct) (auto simp: replace_text_text split: mdast.split)

text \<open>
  C19. Putting in links for plain URLs and mail addresses does not change the text of a document,
  whatever its nodes.
\<close>

theorem autolinks_keep_text: "QO (iO ps m) = QO m"
  by (simp add: iO_def Xy_text)

section \<open>Links\<close>

lemma mdast_child_size [termination_simp]: "c \<in> set (mdast_children m) \<Longrightarrow> size c < size m"
  by (cases m) (auto dest: size_list_estimation' [OF _ order_refl] simp: less_Suc_eq_le)

fun links_of :: "mdast \<Rightarrow> (jsstr \<times> jsstr option \<times> mdast list) list" where
  "links_of m = (case m of MLink u t cs \<Rightarrow> [(u, t, cs)] | _ \<Rightarrow> []) @ concat (map links_of (mdast_children m))"

declare links_of.simps [simp del]

definition has_scheme :: "jsstr \<Rightarrow> bool" where
  "has_scheme u \<longleftrightarrow> ascii_lower (take 7 u) = js ''http://'' \<or> ascii_lower (take 8 u) = js ''https://'' \<or>
     take 7 u = js ''mailto:''"

fun autolink :: "jsstr \<times> jsstr option \<times> mdast list \<Rightarrow> bool" where
  "autolink (u, t, [MText w]) \<longleftrightarrow> t = None \<and> w \<noteq> [] \<and> has_scheme u \<and> u \<in> {w, js ''http://'' @ w, js ''mailto:'' @ w}"
| "autolink _ \<longleftrightarrow> False"

definition links_in :: "mdast list \<Rightarrow> (jsstr \<times> jsstr option \<times> mdast list) set" where
  "links_in cs = (\<Union>c \<in> set cs. set (links_of c))"

lemma links_in_simps [simp]:
  "links_in [] = {}" "links_in (c # cs) = set (links_of c) \<union> links_in cs" "links_in (cs @ ds) = links_in cs \<union> links_in ds"
  by (auto simp: links_in_def)

lemma links_of_set: "set (links_of m) = (case m of MLink u t cs \<Rightarrow> {(u, t, cs)} | _ \<Rightarrow> {}) \<union> links_in (mdast_children m)"
  by (subst links_of.simps) (auto simp: links_in_def split: mdast.split)

lemma links_of_text [simp]: "set (links_of (MText v)) = {}"
  by (simp add: links_of_set)

text \<open>The address of a URL keeps its scheme or gets one.\<close>

lemma url_scheme:
  assumes "match_url s = Some [t, d, p]"
  shows "if ascii_lower (take 1 t) = js ''w'' then t \<noteq> [] else has_scheme (t @ u) \<and> t \<noteq> []"
proof -
  obtain k where k: "url_prefix s = Some k" "t = take k s"
    using assms by (auto simp: match_url_def Let_def split: option.splits if_splits)
  have "k \<le> length s" "3 \<le> k" using url_prefix_bounds [OF k(1)] by auto
  then have l: "length t = k" using k(2) by simp
  have c: "k = 8 \<and> ascii_lower t = js ''https://'' \<or> k = 7 \<and> ascii_lower t = js ''http://'' \<or> k = 3 \<and> ascii_lower t = js ''www''"
    using k by (auto simp: url_prefix_def split: if_splits)
  have w: "ascii_lower (take 1 t) = take 1 (ascii_lower t)" by (simp add: ascii_lower_def take_map)
  show ?thesis using c l \<open>3 \<le> k\<close> unfolding w by (auto simp: has_scheme_def js_def)
qed

lemma prefix_scheme [simp]: "has_scheme (js ''http://'' @ w)" "has_scheme (js ''mailto:'' @ w)"
  by (simp_all add: has_scheme_def js_def ascii_lower_def)

lemma sO_links:
  assumes "sO ps s i t d p = Some a" and "match_url r = Some [t, d, p]"
  shows "\<forall>l \<in> links_in a. autolink l"
  using assms(1) url_scheme [OF assms(2)]
  by (auto simp: sO_def Let_def links_of_set split: if_splits prod.splits)

lemma lO_links: "lO ps s i t l = Some a \<Longrightarrow> \<forall>l \<in> links_in a. autolink l"
  by (auto simp: lO_def links_of_set js_def [of "''@''"] split: if_splits)

lemma replacement_links:
  "replacement ps p s n g = Some a \<Longrightarrow> exec_here p r = Some (w, g) \<Longrightarrow> \<forall>l \<in> links_in a. autolink l"
  by (auto simp: replacement_def exec_here_def split: pattern.splits list.splits dest: sO_links lO_links)

lemma replace_loop_links:
  assumes "replace_loop ps p s 0 0 [] False = (start', u', c')"
  shows "\<forall>l \<in> links_in u'. autolink l"
proof -
  have "\<exists>li::nat. \<forall>l \<in> links_in u'. autolink l"
    by (rule replace_loop_invariant [OF assms, of "\<lambda>li start u. \<forall>l \<in> links_in u. autolink l"])
      (auto dest: replacement_links)
  then show ?thesis by blast
qed

lemma replace_text_links: "\<forall>l \<in> links_in (replace_text ps p s). autolink l"
  using replace_loop_links [of ps p s]
  by (cases "replace_loop ps p s 0 0 [] False") (auto simp: replace_text_def)

lemma Xy_links:
  "set (links_of m) \<subseteq> set (links_of (Xy_node ps p m)) \<and> (\<forall>l \<in> set (links_of (Xy_node ps p m)). l \<in> set (links_of m) \<or> autolink l)"
  "links_in cs \<subseteq> links_in (Xy_children ps p cs) \<and> (\<forall>l \<in> links_in (Xy_children ps p cs). l \<in> links_in cs \<or> autolink l)"
proof (induction ps p m and ps p cs rule: Xy_node_Xy_children.induct)
  case (17 ps p c cs)
  then show ?case using replace_text_links [of ps p] by (cases c) auto
qed (auto simp: links_of_set)



end
