(* ===== verification/Markdown_Table.thy ===== *)
theory Markdown_Table
  imports Hast_Values
begin

text \<open>
  Tables as text (\<^verbatim>\<open>markdown-table\<close> inside \<^verbatim>\<open>src/api/scalar.standalone.js\<close>: \<open>TO\<close> and the function inside \<open>Nw\<close>):
  the widths of the columns, the row of delimiters, the cells with their padding. The width of a cell
  is a function of the options (\<open>stringLength\<close>, by default \<open>EO\<close>, the number of code units).
\<close>

section \<open>Options\<close>

record table_options =
  alignDelimiters :: bool
  padding :: bool
  delimiterStart :: bool
  delimiterEnd :: bool

text \<open>Each flag says whether the option is not \<open>false\<close>. One alignment for all columns, or one for each.\<close>

datatype alignment = EachColumn "jsstr option list" | AllColumns "jsstr option"

definition TO :: "jsstr option \<Rightarrow> nat" where
  "TO e = (let t = (case e of Some (u # s) \<Rightarrow> u | _ \<Rightarrow> 0) in
     if t = 67 \<or> t = 99 then 99 else if t = 76 \<or> t = 108 then 108 else if t = 82 \<or> t = 114 then 114 else 0)"

definition align_code :: "alignment \<Rightarrow> nat \<Rightarrow> nat" where
  "align_code al d = (case al of
     EachColumn as \<Rightarrow> TO (if d < length as then as ! d else None)
   | AllColumns a \<Rightarrow> TO a)"

section \<open>Columns\<close>

definition columns :: "jsstr list list \<Rightarrow> nat" where
  "columns rows = fold (\<lambda>row l. if length row > l then length row else l) rows 0"

definition longest_cell :: "(jsstr \<Rightarrow> nat) \<Rightarrow> jsstr list list \<Rightarrow> nat \<Rightarrow> nat" where
  "longest_cell len rows d = fold (\<lambda>row w. if d < length row \<and> len (row ! d) > w then len (row ! d) else w) rows 0"

definition marks :: "nat \<Rightarrow> jsstr \<times> jsstr" where
  "marks c = (if c = 99 then (js '':'', js '':'') else if c = 108 then (js '':'', []) else if c = 114 then ([], js '':'') else ([], []))"

definition dashes :: "table_options \<Rightarrow> nat \<Rightarrow> nat \<Rightarrow> nat" where
  "dashes opt c w = (if alignDelimiters opt then max 1 (w - length (fst (marks c)) - length (snd (marks c))) else 1)"

definition delimiter_cell :: "table_options \<Rightarrow> nat \<Rightarrow> nat \<Rightarrow> jsstr" where
  "delimiter_cell opt c w = fst (marks c) @ replicate (dashes opt c w) 45 @ snd (marks c)"

text \<open>The width of a column, the row of delimiters counted in.\<close>

definition column_width :: "(jsstr \<Rightarrow> nat) \<Rightarrow> table_options \<Rightarrow> alignment \<Rightarrow> jsstr list list \<Rightarrow> nat \<Rightarrow> nat" where
  "column_width len opt al rows d =
     (let w = longest_cell len rows d; a = length (delimiter_cell opt (align_code al d) w)
      in if a > w then a else w)"

definition delimiter_row :: "(jsstr \<Rightarrow> nat) \<Rightarrow> table_options \<Rightarrow> alignment \<Rightarrow> jsstr list list \<Rightarrow> jsstr list" where
  "delimiter_row len opt al rows =
     map (\<lambda>d. delimiter_cell opt (align_code al d) (longest_cell len rows d)) [0..<columns rows]"

section \<open>Lines\<close>

definition cell_padding :: "nat \<Rightarrow> nat \<Rightarrow> jsstr \<times> jsstr" where
  "cell_padding c e =
     (if c = 114 then (replicate e 32, [])
      else if c = 99 then (if e mod 2 = 1 then (replicate (e div 2 + 1) 32, replicate (e div 2) 32)
                           else (replicate (e div 2) 32, replicate (e div 2) 32))
      else ([], replicate e 32))"

definition cell_text :: "table_options \<Rightarrow> nat \<Rightarrow> nat \<Rightarrow> nat \<Rightarrow> nat \<Rightarrow> jsstr \<Rightarrow> nat \<Rightarrow> jsstr" where
  "cell_text opt l d c w a sz =
     (let (i, e) = (if alignDelimiters opt then cell_padding c (w - sz) else ([], [])) in
      (if \<not> delimiterStart opt \<or> d \<noteq> 0 then [] else [124]) @
      (if \<not> padding opt \<or> \<not> alignDelimiters opt \<and> a = [] \<or> \<not> delimiterStart opt \<and> d = 0 then [] else [32]) @
      i @ a @ e @
      (if padding opt then [32] else []) @
      (if \<not> delimiterEnd opt \<and> d = l - 1 then [] else [124]))"

definition cell_at :: "jsstr list \<Rightarrow> nat \<Rightarrow> jsstr" where
  "cell_at row d = (if d < length row then row ! d else [])"

definition size_at :: "nat list \<Rightarrow> nat \<Rightarrow> nat" where
  "size_at sizes d = (if d < length sizes then sizes ! d else 0)"

definition line_text :: "(jsstr \<Rightarrow> nat) \<Rightarrow> table_options \<Rightarrow> alignment \<Rightarrow> jsstr list list \<Rightarrow> jsstr list \<times> nat list \<Rightarrow> jsstr" where
  "line_text len opt al rows r =
     (let t = concat (map (\<lambda>d. cell_text opt (columns rows) d (align_code al d) (column_width len opt al rows d)
                              (cell_at (fst r) d) (size_at (snd r) d)) [0..<columns rows])
      in if delimiterEnd opt then t else rev (dropWhile (\<lambda>u. u = 32) (rev t)))"

text \<open>The rows with the sizes of their cells; the row of delimiters goes behind the first.\<close>

definition sized_rows :: "(jsstr \<Rightarrow> nat) \<Rightarrow> table_options \<Rightarrow> alignment \<Rightarrow> jsstr list list \<Rightarrow> (jsstr list \<times> nat list) list" where
  "sized_rows len opt al rows =
     (let rs = map (\<lambda>row. (row, if alignDelimiters opt then map len row else [])) rows;
          p = delimiter_row len opt al rows
      in take 1 rs @ [(p, if alignDelimiters opt then map length p else [])] @ drop 1 rs)"

definition table_lines :: "(jsstr \<Rightarrow> nat) \<Rightarrow> table_options \<Rightarrow> alignment \<Rightarrow> jsstr list list \<Rightarrow> jsstr list" where
  "table_lines len opt al rows = map (line_text len opt al rows) (sized_rows len opt al rows)"

definition markdownTable :: "(jsstr \<Rightarrow> nat) \<Rightarrow> table_options \<Rightarrow> alignment \<Rightarrow> jsstr list list \<Rightarrow> jsstr" where
  "markdownTable len opt al rows = join [10] (table_lines len opt al rows)"

section \<open>The columns are aligned\<close>

lemma longest_cell_upper:
  "d < length row \<Longrightarrow> row \<in> set rows \<Longrightarrow> len (row ! d) \<le> longest_cell len rows d"
proof -
  let ?f = "\<lambda>row w. if d < length row \<and> len (row ! d) > w then len (row ! d) else w"
  have mono: "w \<le> fold ?f rs w" for rs w
  proof (induction rs arbitrary: w)
    case (Cons r rs)
    have "w \<le> ?f r w" by simp
    then show ?case using Cons [of "?f r w"] by simp
  qed simp
  have "d < length row \<Longrightarrow> row \<in> set rs \<Longrightarrow> len (row ! d) \<le> fold ?f rs w" for rs w
  proof (induction rs arbitrary: w)
    case (Cons r rs)
    then show ?case using mono [of "?f r w" rs] by (cases "row = r") (auto split: if_splits)
  qed simp
  then show "d < length row \<Longrightarrow> row \<in> set rows \<Longrightarrow> len (row ! d) \<le> longest_cell len rows d"
    unfolding longest_cell_def by blast
qed

lemma column_width_upper:
  "longest_cell len rows d \<le> column_width len opt al rows d"
  "length (delimiter_cell opt (align_code al d) (longest_cell len rows d)) \<le> column_width len opt al rows d"
  by (auto simp: column_width_def Let_def)

text \<open>No cell is wider than its column: the padding that the code writes is never negative.\<close>

lemma cells_fit:
  assumes "r \<in> set (sized_rows len opt al rows)" and "d < columns rows"
  shows "size_at (snd r) d \<le> column_width len opt al rows d"
proof -
  have "len (row ! d) \<le> column_width len opt al rows d" if "row \<in> set rows" "d < length row" for row
    using longest_cell_upper [OF that(2,1), of len] column_width_upper(1) [of len rows d opt al] by simp
  then show ?thesis
    using assms column_width_upper(2) [of opt al d len rows]
    by (auto simp: sized_rows_def Let_def size_at_def delimiter_row_def dest!: in_set_takeD in_set_dropD split: if_splits)
qed

lemma sizes_are_lengths:
  "r \<in> set (sized_rows length opt al rows) \<Longrightarrow> alignDelimiters opt \<Longrightarrow> size_at (snd r) d = length (cell_at (fst r) d)"
  by (auto simp: sized_rows_def Let_def size_at_def cell_at_def dest!: in_set_takeD in_set_dropD)

lemma cell_padding_length: "length (fst (cell_padding c e)) + length (snd (cell_padding c e)) = e"
  by (auto simp: cell_padding_def) presburger+

text \<open>What a column adds to a line.\<close>

definition column_span :: "table_options \<Rightarrow> nat \<Rightarrow> nat \<Rightarrow> nat" where
  "column_span opt w d =
     w + 1 + (if padding opt then 1 else 0) + (if delimiterStart opt \<and> d = 0 then 1 else 0) +
     (if padding opt \<and> (delimiterStart opt \<or> d \<noteq> 0) then 1 else 0)"

lemma cell_text_length:
  assumes "alignDelimiters opt" and "delimiterEnd opt" and "length a \<le> w"
  shows "length (cell_text opt l d c w a (length a)) = column_span opt w d"
  using cell_padding_length [of c "w - length a"] assms
  by (auto simp: cell_text_def column_span_def split: prod.split)

text \<open>
  C28. The lines of a table: one for every row and one for the delimiters, and, with delimiters
  aligned and closed, all of one length, however long the cells and however many each row has.
\<close>

theorem table_is_aligned:
  assumes "alignDelimiters opt" and "delimiterEnd opt"
  shows "length (table_lines length opt al rows) = length rows + 1 \<and>
    (\<forall>s \<in> set (table_lines length opt al rows).
       length s = (\<Sum>d \<leftarrow> [0..<columns rows]. column_span opt (column_width length opt al rows d) d))"
proof (intro conjI ballI)
  show "length (table_lines length opt al rows) = length rows + 1"
    by (cases rows) (auto simp: table_lines_def sized_rows_def Let_def)
  fix s assume "s \<in> set (table_lines length opt al rows)"
  then obtain r where r: "r \<in> set (sized_rows length opt al rows)" "s = line_text length opt al rows r"
    by (auto simp: table_lines_def)
  have "length (cell_text opt (columns rows) d (align_code al d) (column_width length opt al rows d)
      (cell_at (fst r) d) (size_at (snd r) d)) = column_span opt (column_width length opt al rows d) d"
    if "d < columns rows" for d
    using cells_fit [OF r(1) that] sizes_are_lengths [OF r(1) assms(1), of d] cell_text_length [OF assms] by simp
  then show "length s = (\<Sum>d \<leftarrow> [0..<columns rows]. column_span opt (column_width length opt al rows d) d)"
    unfolding r(2) line_text_def Let_def using assms(2)
    by (auto simp: length_concat o_def intro!: arg_cong [where f = sum_list])
qed

theorem table_is_aligned_witness:
  "length (table_lines length \<lparr>alignDelimiters = True, padding = True, delimiterStart = True, delimiterEnd = True\<rparr>
      (EachColumn [None, Some (js ''right'')]) [[js ''a'', js ''price''], [js ''long'']]) = 3 \<and>
   list_all (\<lambda>s. length s = 16)
     (table_lines length \<lparr>alignDelimiters = True, padding = True, delimiterStart = True, delimiterEnd = True\<rparr>
      (EachColumn [None, Some (js ''right'')]) [[js ''a'', js ''price''], [js ''long'']])"
proof -
  let ?opt = "\<lparr>alignDelimiters = True, padding = True, delimiterStart = True, delimiterEnd = True\<rparr>"
  let ?al = "EachColumn [None, Some (js ''right'')]"
  let ?rows = "[[js ''a'', js ''price''], [js ''long'']]"
  have "(\<Sum>d \<leftarrow> [0..<columns ?rows]. column_span ?opt (column_width length ?opt ?al ?rows d) d) = 16"
    by code_simp
  then show ?thesis using table_is_aligned [of ?opt ?al ?rows] by (simp add: list_all_iff)
qed

end
