(* ===== verification/Event_Buffers.thy ===== *)
theory Event_Buffers
  imports Micromark_Util
begin

text \<open>
  The two structures in which the markdown parser inside \<^verbatim>\<open>src/api/scalar.standalone.js\<close> edits its lists of
  events: the splice buffer (class \<open>wx\<close>), a list cut in two at a cursor with its second half stored in
  reverse, and the edit map (class \<open>sk\<close>), which collects edits and applies them at once. What a client
  relies on is the locale \<open>edit_buffer\<close>; arrays with \<open>jw\<close> and the splice buffer both provide it.
\<close>

section \<open>Positions in an array\<close>

text \<open>A start argument of \<open>slice\<close> and \<open>splice\<close>: negative numbers count from the end, infinities are clamped.\<close>

definition rel_index :: "nat \<Rightarrow> int \<Rightarrow> nat" where
  "rel_index l i = nat (if i < 0 then max (int l + i) 0 else min i (int l))"

definition js_slice :: "'a list \<Rightarrow> int \<Rightarrow> int \<Rightarrow> 'a list" where
  "js_slice xs a b = take (rel_index (length xs) b - rel_index (length xs) a) (drop (rel_index (length xs) a) xs)"

definition slice_from :: "'a list \<Rightarrow> int \<Rightarrow> 'a list" where
  "slice_from xs a = drop (rel_index (length xs) a) xs"

definition keep_before :: "'a list \<Rightarrow> int \<Rightarrow> 'a list" where
  "keep_before xs a = take (rel_index (length xs) a) xs"

text \<open>\<open>xs.splice(a, Infinity)\<close> leaves \<open>keep_before xs a\<close> and returns \<open>slice_from xs a\<close>.\<close>

section \<open>The splice buffer: \<open>wx\<close>\<close>

record 'a splice_buffer =
  left :: "'a list"
  right :: "'a list"

definition new_buffer :: "'a list \<Rightarrow> 'a splice_buffer" where
  "new_buffer e = \<lparr>left = e, right = []\<rparr>"

text \<open>\<open>None\<close> is the \<open>RangeError\<close>.\<close>

definition buf_get :: "int \<Rightarrow> 'a splice_buffer \<Rightarrow> 'a option" where
  "buf_get e b =
     (let l = int (length (left b)); r = int (length (right b)) in
      if e < 0 \<or> e \<ge> l + r then None
      else if e < l then Some (left b ! nat e) else Some (right b ! nat (r - e + l - 1)))"

definition buf_length :: "'a splice_buffer \<Rightarrow> nat" where
  "buf_length b = length (left b) + length (right b)"

text \<open>\<open>xx\<close>: pushing in chunks of ten thousand.\<close>

function push_chunks :: "'a list \<Rightarrow> 'a list \<Rightarrow> 'a list" where
  "push_chunks e t = (if t = [] then e else push_chunks (e @ take 10000 t) (drop 10000 t))"
  by auto
termination by (relation "measure (\<lambda>(e, t). length t)") auto

definition xx :: "'a list \<Rightarrow> 'a list \<Rightarrow> 'a list" where
  "xx e t = (if length t < 10000 then e @ t else push_chunks e t)"

text \<open>The cursor goes to a number or to the end (\<open>Number.POSITIVE_INFINITY\<close>).\<close>

definition setCursor :: "delete_count \<Rightarrow> 'a splice_buffer \<Rightarrow> 'a splice_buffer" where
  "setCursor n b = (case n of
     Count e \<Rightarrow>
       (let l = int (length (left b)); r = int (length (right b)) in
        if e = l \<or> e > l \<and> r = 0 \<or> e < 0 \<and> l = 0 then b
        else if e < l
        then \<lparr>left = keep_before (left b) e, right = xx (right b) (rev (slice_from (left b) e))\<rparr>
        else \<lparr>left = xx (left b) (rev (slice_from (right b) (l + r - e))), right = keep_before (right b) (l + r - e)\<rparr>)
   | All \<Rightarrow>
       (if right b = [] then b else \<lparr>left = xx (left b) (rev (right b)), right = []\<rparr>))"

definition pop_last :: "'a list \<Rightarrow> 'a option \<times> 'a list" where
  "pop_last xs = (if xs = [] then (None, []) else (Some (List.last xs), butlast xs))"

definition buf_shift :: "'a splice_buffer \<Rightarrow> 'a option \<times> 'a splice_buffer" where
  "buf_shift b = (let b' = setCursor (Count 0) b; (x, r) = pop_last (right b') in (x, b'\<lparr>right := r\<rparr>))"

definition buf_pop :: "'a splice_buffer \<Rightarrow> 'a option \<times> 'a splice_buffer" where
  "buf_pop b = (let b' = setCursor All b; (x, l) = pop_last (left b') in (x, b'\<lparr>left := l\<rparr>))"

definition buf_push :: "'a \<Rightarrow> 'a splice_buffer \<Rightarrow> 'a splice_buffer" where
  "buf_push x b = (let b' = setCursor All b in b'\<lparr>left := left b' @ [x]\<rparr>)"

definition buf_pushMany :: "'a list \<Rightarrow> 'a splice_buffer \<Rightarrow> 'a splice_buffer" where
  "buf_pushMany xs b = (let b' = setCursor All b in b'\<lparr>left := xx (left b') xs\<rparr>)"

definition buf_unshift :: "'a \<Rightarrow> 'a splice_buffer \<Rightarrow> 'a splice_buffer" where
  "buf_unshift x b = (let b' = setCursor (Count 0) b in b'\<lparr>right := right b' @ [x]\<rparr>)"

definition buf_unshiftMany :: "'a list \<Rightarrow> 'a splice_buffer \<Rightarrow> 'a splice_buffer" where
  "buf_unshiftMany xs b = (let b' = setCursor (Count 0) b in b'\<lparr>right := xx (right b') (rev xs)\<rparr>)"

text \<open>\<open>slice\<close>: \<open>All\<close> for a missing end.\<close>

definition buf_slice :: "int \<Rightarrow> delete_count \<Rightarrow> 'a splice_buffer \<Rightarrow> 'a list" where
  "buf_slice e t b =
     (let l = int (length (left b)); r = int (length (right b)) in case t of
        Count n \<Rightarrow>
          if n < l then js_slice (left b) e n
          else if e > l then rev (js_slice (right b) (r - n + l) (r - e + l))
          else slice_from (left b) e @ rev (slice_from (right b) (r - n + l))
      | All \<Rightarrow>
          if e > l then rev (js_slice (right b) 0 (r - e + l))
          else slice_from (left b) e @ rev (right b))"

definition buf_splice :: "int \<Rightarrow> int \<Rightarrow> 'a list \<Rightarrow> 'a splice_buffer \<Rightarrow> 'a list \<times> 'a splice_buffer" where
  "buf_splice e r n b =
     (let b' = setCursor (Count e) b; k = int (length (right b')) - r
      in (rev (slice_from (right b') k), \<lparr>left = xx (left b') n, right = keep_before (right b') k\<rparr>))"

declare push_chunks.simps [simp del]

section \<open>The edit map: \<open>sk\<close>\<close>

type_synonym 'a edit = "nat \<times> nat \<times> 'a list"

text \<open>An edit removes elements from a position on and puts others there. \<open>add\<close> merges edits at one position.\<close>

fun merge_edit :: "'a edit \<Rightarrow> 'a edit list \<Rightarrow> 'a edit list" where
  "merge_edit (at, n, r) [] = [(at, n, r)]"
| "merge_edit (at, n, r) ((at', n', r') # m) =
     (if at' = at then (at', n' + n, r' @ r) # m else (at', n', r') # merge_edit (at, n, r) m)"

definition edit_add :: "nat \<Rightarrow> nat \<Rightarrow> 'a list \<Rightarrow> 'a edit list \<Rightarrow> 'a edit list" where
  "edit_add at n r m = (if n = 0 \<and> r = [] then m else merge_edit (at, n, r) m)"

text \<open>
  \<open>consume\<close>: the pieces of the list behind each edit are taken off from the end, each with what the
  edit puts in front of it; then they are pushed in order, and the map is empty. Positions lie inside the list.
\<close>

fun cut_pieces :: "'a edit list \<Rightarrow> 'a list \<Rightarrow> 'a list list \<Rightarrow> 'a list \<times> 'a list list" where
  "cut_pieces [] e n = (e, n)"
| "cut_pieces ((at, k, r) # m) e n = cut_pieces m (take at e) (r # drop (at + k) e # n)"

definition edit_consume :: "'a edit list \<Rightarrow> 'a list \<Rightarrow> 'a list" where
  "edit_consume m e =
     (if m = [] then e
      else case cut_pieces (rev (sort_key fst m)) e [] of (e', n) \<Rightarrow> concat (e' # n))"

end
