(* ===== verification/Micromark_Stream.thy ===== *)
theory Micromark_Stream
  imports Event_Buffers
begin

text \<open>
  The input of the markdown parser inside \<^verbatim>\<open>src/api/scalar.standalone.js\<close>: the preprocessor that cuts a text
  into chunks (the function written by \<open>zk\<close>), the point that moves over the chunks when a tokenizer
  consumes a code (\<open>Ck\<close>), the slice of the stream between two points and its text (\<open>sliceStream\<close>,
  \<open>sliceSerialize\<close>).
\<close>

section \<open>Chunks\<close>

text \<open>
  A chunk is a string, a code for a character that matters by itself, or \<open>null\<close> for the end. The codes
  below zero: \<open>-5\<close> CR, \<open>-4\<close> LF, \<open>-3\<close> CR LF, \<open>-2\<close> a tab, \<open>-1\<close> a further column of a tab.
\<close>

datatype chunk = Str jsstr | Code int | Eof

record preprocess_state =
  afterCR :: bool
  preColumn :: nat
  preBuffer :: jsstr
  preStart :: bool

definition new_preprocess :: preprocess_state where
  "new_preprocess = \<lparr>afterCR = False, preColumn = 1, preBuffer = [], preStart = True\<rparr>"

definition special_unit :: "nat \<Rightarrow> bool" where "special_unit u \<longleftrightarrow> u = 0 \<or> u = 9 \<or> u = 10 \<or> u = 13"

text \<open>The chunks of one special character behind \<open>w\<close> ordinary ones in column \<open>t\<close>, and the new column.\<close>

definition special_chunks :: "nat \<Rightarrow> nat \<Rightarrow> chunk list \<times> bool \<times> nat" where
  "special_chunks p t =
     (if p = 0 then ([Code 65533], False, t + 1)
      else if p = 9 then (let c = 4 * ((t + 3) div 4) in (Code (-2) # replicate (c - t) (Code (-1)), False, c + 1))
      else if p = 10 then ([Code (-4)], False, 1)
      else ([], True, 1))"

function pre_loop :: "jsstr \<Rightarrow> bool \<Rightarrow> nat \<Rightarrow> chunk list \<times> bool \<times> nat \<times> jsstr" where
  "pre_loop s cr t =
     (let w = takeWhile (\<lambda>u. \<not> special_unit u) s in
      case drop (length w) s of
        [] \<Rightarrow> ([], cr, t, s)
      | p # s' \<Rightarrow>
          if p = 10 \<and> w = [] \<and> cr
          then (case pre_loop s' False t of (cs, r) \<Rightarrow> (Code (-3) # cs, r))
          else (case special_chunks p (t + length w) of (ds, cr', t') \<Rightarrow>
                (case pre_loop s' cr' t' of (cs, r) \<Rightarrow>
                   ((if cr then [Code (-5)] else []) @ (if w \<noteq> [] then [Str w] else []) @ ds @ cs, r))))"
  by auto
termination
proof (relation "measure (\<lambda>(s, cr, t). length s)")
  fix s :: jsstr and w p s' and cr :: bool and t t' :: nat
  assume "w = takeWhile (\<lambda>u. \<not> special_unit u) s" and d: "drop (length w) s = p # s'"
  have "length s' < length s" using arg_cong [OF d, of length] by simp
  then show "((s', False, t), s, cr, t) \<in> measure (\<lambda>(s, cr, t). length s)" by simp
next
  fix s :: jsstr and w p s' ds y and cr cr' :: bool and t t' :: nat
  assume "w = takeWhile (\<lambda>u. \<not> special_unit u) s" and d: "drop (length w) s = p # s'"
  have "length s' < length s" using arg_cong [OF d, of length] by simp
  then show "((s', cr', t'), s, cr, t) \<in> measure (\<lambda>(s, cr, t). length s)" by simp
qed simp

definition preprocess :: "jsstr \<Rightarrow> bool \<Rightarrow> preprocess_state \<Rightarrow> chunk list \<times> preprocess_state" where
  "preprocess v final st =
     (let s = preBuffer st @ v;
          s' = (if preStart st \<and> take 1 s = [65279] then drop 1 s else s)
      in case pre_loop s' (afterCR st) (preColumn st) of (cs, cr, t, n) \<Rightarrow>
         (cs @ (if final then (if cr then [Code (-5)] else []) @ (if n \<noteq> [] then [Str n] else []) @ [Eof] else []),
          \<lparr>afterCR = cr, preColumn = t, preBuffer = n, preStart = False\<rparr>))"

text \<open>A text written in pieces, the last of them announced.\<close>

fun preprocess_all :: "jsstr list \<Rightarrow> jsstr \<Rightarrow> preprocess_state \<Rightarrow> chunk list" where
  "preprocess_all [] v st = fst (preprocess v True st)"
| "preprocess_all (p # ps) v st = (case preprocess p False st of (cs, st') \<Rightarrow> cs @ preprocess_all ps v st')"

section \<open>Texts of chunks: \<open>sliceSerialize\<close>\<close>

fun serialize :: "bool \<Rightarrow> bool \<Rightarrow> chunk list \<Rightarrow> jsstr" where
  "serialize expandTabs atTab [] = []"
| "serialize expandTabs atTab (Str s # cs) = s @ serialize expandTabs False cs"
| "serialize expandTabs atTab (Eof # cs) = 0 # serialize expandTabs False cs"
| "serialize expandTabs atTab (Code c # cs) =
     (if c = -5 then 13 # serialize expandTabs False cs
      else if c = -4 then 10 # serialize expandTabs False cs
      else if c = -3 then 13 # 10 # serialize expandTabs False cs
      else if c = -2 then (if expandTabs then 32 else 9) # serialize expandTabs True cs
      else if c = -1 then (if \<not> expandTabs \<and> atTab then serialize expandTabs atTab cs else 32 # serialize expandTabs False cs)
      else nat c # serialize expandTabs False cs)"

section \<open>Points: \<open>Ck\<close>\<close>

record point =
  p_line :: int
  p_column :: int
  p_offset :: int
  p_index :: nat
  p_bufferIndex :: int

definition document_start :: point where
  "document_start = \<lparr>p_line = 1, p_column = 1, p_offset = 0, p_index = 0, p_bufferIndex = -1\<rparr>"

text \<open>A tokenizer of nested content starts at the point of the token it is for.\<close>

definition start_point :: "point \<Rightarrow> point" where
  "start_point from = from\<lparr>p_index := 0, p_bufferIndex := -1\<rparr>"

text \<open>\<open>b\<close>: a line whose first columns belong to a container (\<open>defineSkip\<close>).\<close>

definition accountForPotentialSkip :: "(int \<rightharpoonup> int) \<Rightarrow> point \<Rightarrow> point" where
  "accountForPotentialSkip skips p = (case skips (p_line p) of
     Some c \<Rightarrow> if p_column p < 2 then p\<lparr>p_column := c, p_offset := p_offset p + c - 1\<rparr> else p
   | None \<Rightarrow> p)"

definition is_line_ending :: "int option \<Rightarrow> bool" where
  "is_line_ending e = (case e of Some c \<Rightarrow> c < -2 | None \<Rightarrow> False)"

definition chunk_length :: "chunk \<Rightarrow> nat" where
  "chunk_length c = (case c of Str s \<Rightarrow> length s | _ \<Rightarrow> 0)"

definition consume_code :: "chunk list \<Rightarrow> (int \<rightharpoonup> int) \<Rightarrow> int option \<Rightarrow> point \<Rightarrow> point" where
  "consume_code cs skips e p =
     (let p1 = (if is_line_ending e
                then accountForPotentialSkip skips (p\<lparr>p_line := p_line p + 1, p_column := 1,
                       p_offset := p_offset p + (if e = Some (-3) then 2 else 1)\<rparr>)
                else if e \<noteq> Some (-1) then p\<lparr>p_column := p_column p + 1, p_offset := p_offset p + 1\<rparr> else p)
      in if p_bufferIndex p1 < 0 then p1\<lparr>p_index := p_index p1 + 1\<rparr>
         else let p2 = p1\<lparr>p_bufferIndex := p_bufferIndex p1 + 1\<rparr>
              in if p_bufferIndex p2 = int (chunk_length (cs ! p_index p2))
                 then p2\<lparr>p_bufferIndex := -1, p_index := p_index p2 + 1\<rparr> else p2)"

text \<open>The main loop \<open>h\<close> enters a string and hands out the code at the point.\<close>

definition enter_chunk :: "chunk list \<Rightarrow> point \<Rightarrow> point" where
  "enter_chunk cs p =
     (if p_index p < length cs \<and> p_bufferIndex p < 0 then
        (case cs ! p_index p of Str s \<Rightarrow> p\<lparr>p_bufferIndex := 0\<rparr> | _ \<Rightarrow> p) else p)"

definition code_at :: "chunk list \<Rightarrow> point \<Rightarrow> int option" where
  "code_at cs p = (case cs ! p_index p of
     Str s \<Rightarrow> Some (int (s ! nat (p_bufferIndex p))) | Code c \<Rightarrow> Some c | Eof \<Rightarrow> None)"

text \<open>The point at which the tokenizer stands after \<open>k\<close> codes, each consumed by the state it is handed to.\<close>

fun walk_codes :: "chunk list \<Rightarrow> (int \<rightharpoonup> int) \<Rightarrow> point \<Rightarrow> nat \<Rightarrow> point" where
  "walk_codes cs skips from 0 = enter_chunk cs (start_point from)"
| "walk_codes cs skips from (Suc k) =
     (let p = walk_codes cs skips from k in enter_chunk cs (consume_code cs skips (code_at cs p) p))"

section \<open>Slices: \<open>sliceStream\<close>\<close>

text \<open>\<open>None\<close> is the \<open>TypeError\<close> of \<open>slice\<close> on something that is not a string.\<close>

definition chunk_slice :: "chunk list \<Rightarrow> nat \<Rightarrow> int \<Rightarrow> int \<Rightarrow> chunk option" where
  "chunk_slice cs i a b =
     (if i < length cs then (case cs ! i of Str s \<Rightarrow> Some (Str (js_slice s a b)) | _ \<Rightarrow> None) else None)"

definition sliceStream :: "chunk list \<Rightarrow> point \<Rightarrow> point \<Rightarrow> chunk list option" where
  "sliceStream cs p q =
     (let n = p_index p; r = p_bufferIndex p; j = p_index q; a = p_bufferIndex q in
      if n = j then map_option (\<lambda>c. [c]) (chunk_slice cs n r a)
      else let i = take (j - n) (drop n cs);
               i' = (if r > -1 then (case i of Str s # is \<Rightarrow> Str (slice_from s r) # is | _ # is \<Rightarrow> is | [] \<Rightarrow> []) else i)
           in if a > 0 then map_option (\<lambda>c. i' @ [c]) (chunk_slice cs j 0 a) else Some i')"

declare pre_loop.simps [simp del]

end
