(* ===== verification/Event_Buffers_Sound.thy ===== *)
theory Event_Buffers_Sound
  imports Event_Buffers
begin

text \<open>
  The splice buffer behaves like the list it stands for, and collected edits give what splicing one
  after the other gives. The interface is the locale \<open>edit_buffer\<close>, which the buffer and plain
  arrays with \<open>jw\<close> implement.
\<close>

section \<open>The interface\<close>

text \<open>Replacing a range of a list, and reading one.\<close>

definition replace_range :: "nat \<Rightarrow> nat \<Rightarrow> 'a list \<Rightarrow> 'a list \<Rightarrow> 'a list" where
  "replace_range at n r xs = take at xs @ r @ drop (at + n) xs"

locale edit_buffer =
  fixes contents :: "'b \<Rightarrow> 'a list"
    and make :: "'a list \<Rightarrow> 'b"
    and put :: "nat \<Rightarrow> nat \<Rightarrow> 'a list \<Rightarrow> 'b \<Rightarrow> 'b"
  assumes contents_make: "contents (make xs) = xs"
    and contents_put: "at + n \<le> length (contents b) \<Longrightarrow> contents (put at n r b) = replace_range at n r (contents b)"

text \<open>Edits that do not overlap, in order, the last inside a list of the given length.\<close>

fun apart :: "nat \<Rightarrow> 'a edit list \<Rightarrow> bool" where
  "apart l [] = True"
| "apart l [(at, n, r)] = (at + n \<le> l)"
| "apart l ((at, n, r) # (at', n', r') # m) = (at + n \<le> at' \<and> apart l ((at', n', r') # m))"

primrec apply_edits :: "'a edit list \<Rightarrow> 'a list \<Rightarrow> 'a list" where
  "apply_edits [] xs = xs"
| "apply_edits (d # ds) xs = replace_range (fst d) (fst (snd d)) (snd (snd d)) (apply_edits ds xs)"

lemma apart_first: "apart l ((at, n, r) # m) \<Longrightarrow> at + n \<le> l"
proof (induction m arbitrary: at n r)
  case (Cons d m)
  then show ?case by (cases d) fastforce
qed simp

lemma apart_tail: "apart l (d # m) \<Longrightarrow> apart l m"
  by (cases d; cases m) auto

text \<open>Edits leave the list in front of the first of them alone.\<close>

lemma apply_edits_front:
  "apart (length xs) m \<Longrightarrow> (case m of d # ds \<Rightarrow> fst d | [] \<Rightarrow> length xs) \<le> length (apply_edits m xs) \<and>
     take (case m of d # ds \<Rightarrow> fst d | [] \<Rightarrow> length xs) (apply_edits m xs) =
     take (case m of d # ds \<Rightarrow> fst d | [] \<Rightarrow> length xs) xs"
proof (induction m)
  case (Cons d m)
  obtain at n r where d: "d = (at, n, r)" by (cases d)
  let ?k = "case m of d # ds \<Rightarrow> fst d | [] \<Rightarrow> length xs"
  have k: "at + n \<le> ?k" using Cons.prems d by (cases m) auto
  have IH: "?k \<le> length (apply_edits m xs)" "take ?k (apply_edits m xs) = take ?k xs"
    using Cons.IH [OF apart_tail [OF Cons.prems]] by auto
  have "take at (apply_edits m xs) = take at (take ?k (apply_edits m xs))" using k by (simp add: min_def)
  also have "\<dots> = take at xs" unfolding IH(2) using k by (simp add: min_def)
  finally have f: "take at (apply_edits m xs) = take at xs" .
  have "length (take at (apply_edits m xs)) = at" using k IH(1) by simp
  then have "at \<le> length (replace_range at n r (apply_edits m xs))"
    "take at (replace_range at n r (apply_edits m xs)) = take at (apply_edits m xs)"
    by (simp_all add: replace_range_def del: length_take)
  then show ?case using d f by simp
qed simp

lemma apart_room: "apart (length xs) ((at, n, r) # m) \<Longrightarrow> at + n \<le> length (apply_edits m xs)"
proof -
  assume a: "apart (length xs) ((at, n, r) # m)"
  then have "at + n \<le> (case m of d # ds \<Rightarrow> fst d | [] \<Rightarrow> length xs)" by (cases m) auto
  then show ?thesis using apply_edits_front [OF apart_tail [OF a]] by linarith
qed

context edit_buffer
begin

text \<open>Edits through the buffer, from the last to the first.\<close>

lemma put_all:
  "apart (length (contents b)) m \<Longrightarrow> contents (foldr (\<lambda>(at, n, r). put at n r) m b) = apply_edits m (contents b)"
proof (induction m)
  case (Cons d m)
  obtain at n r where d: "d = (at, n, r)" by (cases d)
  have "at + n \<le> length (apply_edits m (contents b))" using apart_room Cons.prems unfolding d by blast
  then show ?case using Cons.IH [OF apart_tail [OF Cons.prems]] d contents_put [of at n "foldr (\<lambda>(at, n, r). put at n r) m b" r]
    by simp
qed simp

lemma put_all_make: "apart (length xs) m \<Longrightarrow> contents (foldr (\<lambda>(at, n, r). put at n r) m (make xs)) = apply_edits m xs"
  using put_all [of "make xs" m] by (simp add: contents_make)

end

section \<open>The splice buffer\<close>

definition list_of :: "'a splice_buffer \<Rightarrow> 'a list" where
  "list_of b = left b @ rev (right b)"

lemma rel_index_inside [simp]: "0 \<le> i \<Longrightarrow> i \<le> int l \<Longrightarrow> rel_index l i = nat i"
  by (auto simp: rel_index_def)

lemma keep_slice [simp]: "keep_before xs a @ slice_from xs a = xs"
  by (simp add: keep_before_def slice_from_def)

lemma push_chunks_append: "push_chunks e t = e @ t"
proof (induction e t rule: push_chunks.induct)
  case (1 e t)
  then show ?case by (cases "t = []") (simp_all add: push_chunks.simps [of e t] push_chunks.simps [of e "[]"])
qed

lemma xx_append [simp]: "xx e t = e @ t"
  by (simp add: xx_def push_chunks_append)

text \<open>Wherever the cursor is sent, inside the list or not, the list stays; inside it, the cursor gets there.\<close>

lemma setCursor_list [simp]: "list_of (setCursor n b) = list_of b"
proof -
  have "keep_before xs e @ slice_from xs e @ ys = xs @ ys" for xs ys :: "'a list" and e
    by (metis append_assoc keep_slice)
  moreover have "rev (slice_from xs e) @ rev (keep_before xs e) = rev xs" for xs :: "'a list" and e
    by (metis keep_slice rev_append)
  ultimately show ?thesis
    by (auto simp: setCursor_def list_of_def Let_def split: delete_count.split)
qed

lemma setCursor_inside:
  "0 \<le> e \<Longrightarrow> e \<le> int (length (list_of b)) \<Longrightarrow> left (setCursor (Count e) b) = take (nat e) (list_of b) \<and>
     rev (right (setCursor (Count e) b)) = drop (nat e) (list_of b)"
proof -
  assume e: "0 \<le> e" "e \<le> int (length (list_of b))"
  have l: "length (left (setCursor (Count e) b)) = nat e"
    using e by (auto simp: setCursor_def list_of_def Let_def keep_before_def slice_from_def nat_diff_distrib)
  have "list_of b = left (setCursor (Count e) b) @ rev (right (setCursor (Count e) b))"
    using setCursor_list [of "Count e" b] by (simp add: list_of_def)
  then show ?thesis using l by simp
qed

lemma setCursor_end: "left (setCursor All b) = list_of b \<and> right (setCursor All b) = []"
  by (auto simp: setCursor_def list_of_def)

lemma buf_splice_list:
  assumes "0 \<le> e" and "0 \<le> r" and "e + r \<le> int (length (list_of b))" and "buf_splice e r n b = (o', b')"
  shows "o' = take (nat r) (drop (nat e) (list_of b)) \<and> list_of b' = replace_range (nat e) (nat r) n (list_of b)"
proof -
  let ?b = "setCursor (Count e) b" and ?xs = "list_of b"
  have c: "left ?b = take (nat e) ?xs" "right ?b = rev (drop (nat e) ?xs)"
    using setCursor_inside [of e b] assms(1-3) by (auto simp: rev_swap)
  have k: "rel_index (length (right ?b)) (int (length (right ?b)) - r) = length ?xs - nat e - nat r"
    using assms(1-3) by (simp add: c)
  have t: "rev (slice_from (right ?b) (int (length (right ?b)) - r)) = take (nat r) (drop (nat e) ?xs)"
    "rev (keep_before (right ?b) (int (length (right ?b)) - r)) = drop (nat e + nat r) ?xs"
    using assms(1-3) unfolding slice_from_def keep_before_def k by (simp_all add: c rev_drop rev_take add.commute)
  have "o' = rev (slice_from (right ?b) (int (length (right ?b)) - r))"
    "list_of b' = (left ?b @ n) @ rev (keep_before (right ?b) (int (length (right ?b)) - r))"
    using assms(4) unfolding buf_splice_def Let_def by (auto simp: list_of_def [of "_\<lparr>left := _\<rparr>"] list_of_def [of b'])
  then show ?thesis unfolding t c(1) by (simp add: replace_range_def)
qed

lemma buf_length_list: "buf_length b = length (list_of b)"
  by (simp add: buf_length_def list_of_def)

lemma buf_get_list:
  "buf_get e b = (if 0 \<le> e \<and> e < int (length (list_of b)) then Some (list_of b ! nat e) else None)"
proof -
  have "right b ! nat (int (length (right b)) - e + int (length (left b)) - 1) = rev (right b) ! (nat e - length (left b))"
    if "int (length (left b)) \<le> e" "e < int (length (left b)) + int (length (right b))"
  proof -
    have "nat (int (length (right b)) - e + int (length (left b)) - 1) = length (right b) - Suc (nat e - length (left b))"
      using that by linarith
    then show ?thesis using that by (simp add: rev_nth)
  qed
  then show ?thesis by (auto simp: buf_get_def list_of_def Let_def nth_append)
qed

lemma slice_left: "0 \<le> e \<Longrightarrow> e \<le> n \<Longrightarrow> n \<le> int (length xs) \<Longrightarrow> js_slice xs e n = take (nat n - nat e) (drop (nat e) xs)"
  by (simp add: js_slice_def)

lemma rev_slice:
  "0 \<le> a \<Longrightarrow> a \<le> c \<Longrightarrow> c \<le> int (length xs) \<Longrightarrow>
     rev (js_slice xs a c) = take (nat c - nat a) (drop (length xs - nat c) (rev xs))"
  by (simp add: slice_left rev_take rev_drop take_drop)

lemma buf_slice_all: "0 \<le> e \<Longrightarrow> e \<le> int (length (list_of b)) \<Longrightarrow> buf_slice e All b = drop (nat e) (list_of b)"
proof -
  assume e: "0 \<le> e" "e \<le> int (length (list_of b))"
  let ?l = "length (left b)" and ?r = "length (right b)"
  show ?thesis
  proof (cases "e > int ?l")
    case True
    have n: "e \<le> int ?l + int ?r" using e by (simp add: list_of_def)
    have i: "?r - nat (int ?r - e + int ?l) = nat e - ?l" "nat (int ?r - e + int ?l) - nat 0 = ?r - (nat e - ?l)"
      using True n by linarith+
    have "rev (js_slice (right b) 0 (int ?r - e + int ?l)) = drop (nat e - ?l) (rev (right b))"
      using rev_slice [of 0 "int ?r - e + int ?l" "right b"] True n unfolding i by simp
    then show ?thesis using True by (simp add: buf_slice_def list_of_def)
  next
    case False
    then show ?thesis using e by (simp add: buf_slice_def list_of_def slice_from_def)
  qed
qed

lemma buf_slice_list:
  "0 \<le> e \<Longrightarrow> e \<le> n \<Longrightarrow> n \<le> int (length (list_of b)) \<Longrightarrow> buf_slice e (Count n) b = take (nat n - nat e) (drop (nat e) (list_of b))"
proof -
  assume e: "0 \<le> e" "e \<le> n" "n \<le> int (length (list_of b))"
  let ?l = "length (left b)" and ?r = "length (right b)"
  have n: "n \<le> int ?l + int ?r" using e by (simp add: list_of_def)
  consider "n < int ?l" | "int ?l \<le> n" "int ?l < e" | "int ?l \<le> n" "e \<le> int ?l" by linarith
  then show ?thesis
  proof cases
    case 1
    then show ?thesis using e by (simp add: buf_slice_def list_of_def slice_left)
  next
    case 2
    have i: "nat (int ?r - e + int ?l) - nat (int ?r - n + int ?l) = nat n - nat e"
      "?r - nat (int ?r - e + int ?l) = nat e - ?l" using 2 e n by linarith+
    have "rev (js_slice (right b) (int ?r - n + int ?l) (int ?r - e + int ?l)) = take (nat n - nat e) (drop (nat e - ?l) (rev (right b)))"
      using rev_slice [of "int ?r - n + int ?l" "int ?r - e + int ?l" "right b"] 2 e(2) n unfolding i by simp
    then show ?thesis using 2 by (simp add: buf_slice_def list_of_def)
  next
    case 3
    have i: "?r - nat (int ?r - n + int ?l) = nat n - ?l" using 3 n by linarith
    have "rev (slice_from (right b) (int ?r - n + int ?l)) = take (nat n - ?l) (rev (right b))"
      using 3 n by (simp add: slice_from_def rev_drop i)
    moreover have "nat n - nat e - (?l - nat e) = nat n - ?l" "?l - nat e \<le> nat n - nat e" using 3 e by linarith+
    ultimately show ?thesis using 3 e by (simp add: buf_slice_def list_of_def slice_from_def)
  qed
qed

lemma buf_ends:
  "list_of (buf_push x b) = list_of b @ [x]"
  "list_of (buf_pushMany xs b) = list_of b @ xs"
  "list_of (buf_unshift x b) = x # list_of b"
  "list_of (buf_unshiftMany xs b) = xs @ list_of b"
  using setCursor_end [of b] setCursor_inside [of 0 b]
  by (auto simp: buf_push_def buf_pushMany_def buf_unshift_def buf_unshiftMany_def list_of_def [of "_\<lparr>left := _\<rparr>"] list_of_def [of "_\<lparr>right := _\<rparr>"] Let_def)

lemma buf_pop_list:
  "fst (buf_pop b) = (if list_of b = [] then None else Some (List.last (list_of b)))"
  "list_of (snd (buf_pop b)) = butlast (list_of b)"
proof -
  have e: "left (setCursor All b) = list_of b" "right (setCursor All b) = []" using setCursor_end by auto
  show "fst (buf_pop b) = (if list_of b = [] then None else Some (List.last (list_of b)))"
    "list_of (snd (buf_pop b)) = butlast (list_of b)"
    using e by (simp_all add: buf_pop_def pop_last_def Let_def list_of_def [of "_\<lparr>left := _\<rparr>"])
qed

lemma buf_shift_list:
  "fst (buf_shift b) = (if list_of b = [] then None else Some (hd (list_of b)))"
  "list_of (snd (buf_shift b)) = tl (list_of b)"
proof -
  have f: "left (setCursor (Count 0) b) = []" "right (setCursor (Count 0) b) = rev (list_of b)"
    using setCursor_inside [of 0 b] by (auto simp: rev_swap)
  show "fst (buf_shift b) = (if list_of b = [] then None else Some (hd (list_of b)))"
    "list_of (snd (buf_shift b)) = tl (list_of b)"
    using f by (cases "list_of b"; simp add: buf_shift_def pop_last_def Let_def list_of_def [of "_\<lparr>right := _\<rparr>"])+
qed

text \<open>
  A slice whose end lies behind the last element loses elements: the position in the second half
  becomes negative and counts from its end.
\<close>

lemma slice_past_the_end:
  "list_of (setCursor (Count 0) (new_buffer [1, 2, 3 :: nat])) = [1, 2, 3]"
  "buf_slice 0 (Count 4) (setCursor (Count 0) (new_buffer [1, 2, 3 :: nat])) = [1]"
  by code_simp+

text \<open>Both stores of events provide the interface.\<close>

interpretation sb: edit_buffer list_of new_buffer "\<lambda>at n r b. snd (buf_splice (int at) (int n) r b)"
proof
  fix xs :: "'a list"
  show "list_of (new_buffer xs) = xs" by (simp add: list_of_def new_buffer_def)
next
  fix at n r and b :: "'a splice_buffer"
  assume "at + n \<le> length (list_of b)"
  then show "list_of (snd (buf_splice (int at) (int n) r b)) = replace_range at n r (list_of b)"
    using buf_splice_list [of "int at" "int n" b r] by (cases "buf_splice (int at) (int n) r b") simp
qed

interpretation ar: edit_buffer "\<lambda>e. e" "\<lambda>e. e" "\<lambda>at n r e. jw e (int at) (Count (int n)) r"
proof
  fix at n r and e :: "'a list"
  assume "at + n \<le> length e"
  then show "jw e (int at) (Count (int n)) r = replace_range at n r e"
    by (auto simp: chunked_splice array_splice_def splice_start_def at_least_none_def replace_range_def)
qed simp

text \<open>
  C23. The splice buffer stands for the list of its first half and the reverse of its second: every
  operation does to that list what its name says, for positions inside the list.
\<close>

theorem splice_buffer_implements_list:
  assumes "0 \<le> e" and "0 \<le> r" and "e + r \<le> int (length (list_of b))"
  shows "list_of (new_buffer xs) = xs \<and> buf_length b = length (list_of b) \<and>
    buf_get i b = (if 0 \<le> i \<and> i < int (length (list_of b)) then Some (list_of b ! nat i) else None) \<and>
    buf_slice e (Count (e + r)) b = take (nat r) (drop (nat e) (list_of b)) \<and>
    buf_slice e All b = drop (nat e) (list_of b) \<and>
    fst (buf_splice e r xs b) = take (nat r) (drop (nat e) (list_of b)) \<and>
    list_of (snd (buf_splice e r xs b)) = take (nat e) (list_of b) @ xs @ drop (nat e + nat r) (list_of b) \<and>
    list_of (buf_push x b) = list_of b @ [x] \<and> list_of (buf_pushMany xs b) = list_of b @ xs \<and>
    list_of (buf_unshift x b) = x # list_of b \<and> list_of (buf_unshiftMany xs b) = xs @ list_of b \<and>
    fst (buf_pop b) = (if list_of b = [] then None else Some (List.last (list_of b))) \<and>
    list_of (snd (buf_pop b)) = butlast (list_of b) \<and>
    fst (buf_shift b) = (if list_of b = [] then None else Some (hd (list_of b))) \<and>
    list_of (snd (buf_shift b)) = tl (list_of b)"
proof -
  obtain o' b' where s: "buf_splice e r xs b = (o', b')" by (cases "buf_splice e r xs b")
  note sp = buf_splice_list [OF assms s]
  have "nat (e + r) - nat e = nat r" using assms by linarith
  then have sl: "buf_slice e (Count (e + r)) b = take (nat r) (drop (nat e) (list_of b))"
    using buf_slice_list [of e "e + r" b] assms by simp
  show ?thesis
    using sp sl s assms buf_slice_all [of e b]
    by (simp add: sb.contents_make buf_length_list buf_get_list buf_ends buf_pop_list buf_shift_list replace_range_def)
qed

theorem splice_buffer_implements_list_witness:
  "list_of (setCursor (Count 2) (new_buffer [10, 20, 30, 40 :: nat])) = [10, 20, 30, 40] \<and>
   list_of (snd (buf_splice 1 2 [7] (setCursor (Count 2) (new_buffer [10, 20, 30, 40])))) =
     take (nat 1) [10, 20, 30, 40] @ [7] @ drop (nat 1 + nat 2) [10, 20, 30, 40 :: nat]"
proof -
  have l: "list_of (setCursor (Count 2) (new_buffer [10, 20, 30, 40 :: nat])) = [10, 20, 30, 40]" by code_simp
  then have "1 + 2 \<le> int (length (list_of (setCursor (Count 2) (new_buffer [10, 20, 30, 40 :: nat]))))" by simp
  then have "list_of (snd (buf_splice 1 2 [7] (setCursor (Count 2) (new_buffer [10, 20, 30, 40 :: nat])))) =
      take (nat 1) (list_of (setCursor (Count 2) (new_buffer [10, 20, 30, 40]))) @ [7] @
      drop (nat 1 + nat 2) (list_of (setCursor (Count 2) (new_buffer [10, 20, 30, 40])))"
    using splice_buffer_implements_list [of 1 2 "setCursor (Count 2) (new_buffer [10, 20, 30, 40 :: nat])" "[7]" 0 0]
    by linarith
  then show ?thesis unfolding l by blast
qed

section \<open>Collected edits\<close>

text \<open>A map never has two edits at one position: an edit at a known position joins the one that is there.\<close>

lemma edit_add_positions:
  "fst ` set (edit_add at n r m) \<subseteq> insert at (fst ` set m) \<and> (distinct (map fst m) \<longrightarrow> distinct (map fst (edit_add at n r m)))"
proof -
  have f: "map fst (merge_edit (at, n, r) m) = (if at \<in> fst ` set m then map fst m else map fst m @ [at])"
    by (induction "(at, n, r)" m rule: merge_edit.induct) auto
  then have "set (map fst (merge_edit (at, n, r) m)) \<subseteq> insert at (fst ` set m)" by auto
  then have "fst ` set (merge_edit (at, n, r) m) \<subseteq> insert at (fst ` set m)" unfolding set_map .
  moreover have "distinct (map fst m) \<longrightarrow> distinct (map fst (merge_edit (at, n, r) m))" unfolding f by simp
  ultimately show ?thesis by (simp add: edit_add_def) blast
qed

lemma apply_edits_append: "apart (length xs) m \<Longrightarrow> apply_edits m (xs @ ys) = apply_edits m xs @ ys"
proof (induction m)
  case (Cons d m)
  obtain at n r where d: "d = (at, n, r)" by (cases d)
  have "at + n \<le> length (apply_edits m xs)" using apart_room Cons.prems unfolding d by blast
  then show ?case using Cons.IH [OF apart_tail [OF Cons.prems]] d by (simp add: replace_range_def)
qed simp

lemma apart_snoc: "apart l (m @ [(at, n, r)]) \<Longrightarrow> apart at m \<and> at + n \<le> l"
proof (induction m)
  case (Cons d m)
  then show ?case by (cases d; cases m) (auto split: prod.splits)
qed simp

lemma apply_edits_snoc: "apply_edits (m @ [d]) xs = apply_edits m (apply_edits [d] xs)"
  by (induction m) auto

lemma cut_pieces_edits:
  "apart (length e) m \<Longrightarrow> cut_pieces (rev m) e n = (e', n') \<Longrightarrow> concat (e' # n') = apply_edits m e @ concat n"
proof (induction m arbitrary: e n rule: rev_induct)
  case (snoc d m)
  obtain at k r where d: "d = (at, k, r)" by (cases d)
  have a: "apart at m" "at + k \<le> length e" using apart_snoc snoc.prems(1) unfolding d by blast+
  then have t: "apart (length (take at e)) m" by simp
  have "concat (e' # n') = apply_edits m (take at e) @ concat (r # drop (at + k) e # n)"
    using snoc.IH [OF t] snoc.prems(2) d by simp
  moreover have "apply_edits (m @ [d]) e = apply_edits m (take at e @ r @ drop (at + k) e)"
    unfolding apply_edits_snoc d by (simp add: replace_range_def)
  ultimately show ?case using apply_edits_append [OF t] by simp
qed simp

text \<open>
  C24. The edits collected in an edit map, applied at once, give what the same edits give one by one
  from the last to the first, through the splice buffer or on an array. The edits do not overlap
  and lie inside the list.
\<close>

theorem edit_map_applies_edits:
  assumes "apart (length e) (sort_key fst m)"
  shows "edit_consume m e = foldr (\<lambda>(at, n, r) e. jw e (int at) (Count (int n)) r) (sort_key fst m) e \<and>
    edit_consume m e = list_of (foldr (\<lambda>(at, n, r) b. snd (buf_splice (int at) (int n) r b)) (sort_key fst m) (new_buffer e))"
proof -
  have "edit_consume m e = apply_edits (sort_key fst m) e"
  proof (cases "m = []")
    case False
    obtain e' n' where c: "cut_pieces (rev (sort_key fst m)) e [] = (e', n')" by (cases "cut_pieces (rev (sort_key fst m)) e []")
    then show ?thesis using cut_pieces_edits [OF assms c] False by (simp add: edit_consume_def)
  qed (simp add: edit_consume_def)
  then show ?thesis using ar.put_all_make [OF assms] sb.put_all_make [OF assms] by simp
qed

theorem edit_map_applies_edits_witness:
  "edit_consume (edit_add 3 0 [9] (edit_add 1 2 [7, 8] [])) [10, 20, 30, 40 :: nat] = [10, 7, 8, 9, 40] \<and>
   list_of (foldr (\<lambda>(at, n, r) b. snd (buf_splice (int at) (int n) r b)) (sort_key fst (edit_add 3 0 [9] (edit_add 1 2 [7, 8] [])))
     (new_buffer [10, 20, 30, 40 :: nat])) = [10, 7, 8, 9, 40]"
proof -
  have "apart (length [10, 20, 30, 40 :: nat]) (sort_key fst (edit_add 3 0 [9] (edit_add 1 2 [7, 8] [])))" by code_simp
  moreover have "edit_consume (edit_add 3 0 [9] (edit_add 1 2 [7, 8] [])) [10, 20, 30, 40 :: nat] = [10, 7, 8, 9, 40]"
    by code_simp
  ultimately show ?thesis using edit_map_applies_edits by metis
qed

end
