(* ===== verification/Micromark_Stream_Sound.thy ===== *)
theory Micromark_Stream_Sound
  imports Micromark_Stream Event_Buffers_Sound
begin

text \<open>
  The chunks of a text stand for that text, however it was cut into pieces, and the slice between two
  points of a tokenizer holds exactly the codes consumed between them.
\<close>

section \<open>Reading a text\<close>

text \<open>
  The text as the parser sees it: NUL replaced, and, with \<open>expand\<close>, tabs filled up to the next of the
  columns 1, 5, 9 and so on.
\<close>

definition tab_fill :: "nat \<Rightarrow> nat" where "tab_fill t = 4 - (t - 1) mod 4"

fun seen_text :: "bool \<Rightarrow> nat \<Rightarrow> jsstr \<Rightarrow> jsstr" where
  "seen_text expand t [] = []"
| "seen_text expand t (u # s) =
     (if u = 9 then (if expand then replicate (tab_fill t) 32 else [9]) @ seen_text expand (t + tab_fill t) s
      else if u = 10 \<or> u = 13 then u # seen_text expand 1 s
      else (if u = 0 then 65533 else u) # seen_text expand (t + 1) s)"

lemma seen_ordinary:
  "list_all (\<lambda>u. \<not> special_unit u) w \<Longrightarrow> seen_text x t (w @ s) = w @ seen_text x (t + length w) s"
  by (induction w arbitrary: t) (auto simp: special_unit_def)

lemma serialize_columns_false: "serialize False True (replicate k (Code (-1)) @ cs) = serialize False True cs"
  by (induction k) auto

lemma serialize_columns_true: "serialize True at (replicate k (Code (-1)) @ cs) = replicate k 32 @ serialize True (k = 0 \<and> at) cs"
  by (induction k arbitrary: at) auto

lemma tab_width: "1 \<le> t \<Longrightarrow> tab_fill t = Suc (4 * ((t + 3) div 4) - t) \<and> 4 * ((t + 3) div 4) + 1 = t + tab_fill t"
proof -
  assume "1 \<le> t"
  define q r where "q = (t - 1) div 4" and "r = (t - 1) mod 4"
  have r: "r < 4" and t: "t = 4 * q + r + 1" using \<open>1 \<le> t\<close> by (simp_all add: q_def r_def)
  have "(t + 3) div 4 = q + 1" unfolding t using r by simp
  then show ?thesis using r t by (simp add: tab_fill_def r_def [symmetric])
qed

lemma special_column: "special_chunks p t = (ds, cr, t') \<Longrightarrow> 1 \<le> t \<Longrightarrow> 1 \<le> t' \<and> (cr \<longrightarrow> t' = 1)"
  by (auto simp: special_chunks_def Let_def split: if_splits)

text \<open>What is written for one special character, with any chunks behind it that do not continue a tab.\<close>

lemma special_serialize:
  assumes "special_unit p" and "1 \<le> t" and "special_chunks p t = (ds, cr, t')"
    and "\<And>at. serialize x at cs @ y = (if cr then [13] else []) @ seen_text x t' s"
  shows "serialize x at (ds @ cs) @ y = seen_text x t (p # s)"
proof -
  note w = tab_width [OF assms(2)]
  have c: "serialize x b cs @ y = (if cr then [13] else []) @ seen_text x t' s" for b by (rule assms(4))
  consider "p = 0" | "p = 9" | "p = 10" | "p = 13" using assms(1) by (auto simp: special_unit_def)
  then show ?thesis
  proof cases
    case 2
    have d: "ds = Code (-2) # replicate (4 * ((t + 3) div 4) - t) (Code (-1))" "\<not> cr" "t' = t + tab_fill t"
      using assms(3) 2 w by (auto simp: special_chunks_def Let_def)
    have k: "tab_fill t = Suc (4 * ((t + 3) div 4) - t)" using w by blast
    show ?thesis
      using 2 d c by (cases x) (simp_all add: serialize_columns_false serialize_columns_true k)
  qed (use assms(3) c in \<open>auto simp: special_chunks_def\<close>)
qed

lemma pre_loop_serialize:
  assumes "pre_loop s cr t = (cs, cr', t', n)" and "1 \<le> t" and "cr \<Longrightarrow> t = 1"
  shows "serialize x at cs @ (if cr' then [13] else []) @ seen_text x t' (n @ rest) =
      (if cr then [13] else []) @ seen_text x t (s @ rest) \<and> 1 \<le> t' \<and> (cr' \<longrightarrow> t' = 1) \<and>
      list_all (\<lambda>u. \<not> special_unit u) n"
  using assms
proof (induction s cr t arbitrary: cs at rule: pre_loop.induct)
  case (1 s cr t)
  define w where "w = takeWhile (\<lambda>u. \<not> special_unit u) s"
  have s: "s = w @ drop (length w) s" unfolding w_def by (metis append_take_drop_id takeWhile_eq_take)
  have wo: "list_all (\<lambda>u. \<not> special_unit u) w" unfolding w_def by (auto simp: list_all_iff dest: set_takeWhileD)
  show ?case
  proof (cases "drop (length w) s")
    case Nil
    then show ?thesis using 1(3-5) s wo by (subst (asm) pre_loop.simps) (auto simp: Let_def w_def [symmetric])
  next
    case (Cons p s')
    have p: "special_unit p" using Cons unfolding w_def
      by (metis (no_types, lifting) dropWhile_eq_drop hd_dropWhile list.discI list.sel(1))
    show ?thesis
    proof (cases "p = 10 \<and> w = [] \<and> cr")
      case True
      obtain cs' where r: "pre_loop s' False t = (cs', cr', t', n)" and cs: "cs = Code (-3) # cs'"
        using 1(3) True Cons by (subst (asm) pre_loop.simps) (auto simp: Let_def w_def [symmetric] split: prod.splits)
      have "s = 10 # s'" using s True Cons by simp
      moreover note 1(1) [OF w_def Cons True r 1(4)]
      moreover have "t = 1" using 1(5) True by blast
      ultimately show ?thesis using True cs by simp
    next
      case False
      obtain ds cr1 t1 where sp: "special_chunks p (t + length w) = (ds, cr1, t1)" by (cases "special_chunks p (t + length w)")
      obtain cs' where r: "pre_loop s' cr1 t1 = (cs', cr', t', n)"
        and cs: "cs = (if cr then [Code (-5)] else []) @ (if w \<noteq> [] then [Str w] else []) @ ds @ cs'"
        using 1(3) False Cons sp by (subst (asm) pre_loop.simps) (auto simp: Let_def w_def [symmetric] split: prod.splits)
      have one: "1 \<le> t1" "cr1 \<Longrightarrow> t1 = 1" using special_column [OF sp] 1(4) by auto
      have IH: "serialize x at cs' @ (if cr' then [13] else []) @ seen_text x t' (n @ rest) =
          (if cr1 then [13] else []) @ seen_text x t1 (s' @ rest)" "1 \<le> t'" "cr' \<longrightarrow> t' = 1" "list_all (\<lambda>u. \<not> special_unit u) n" for at
        using 1(2) [OF w_def Cons False sp [symmetric] refl r one] by blast+
      have "serialize x b (ds @ cs') @ (if cr' then [13] else []) @ seen_text x t' (n @ rest) = seen_text x (t + length w) (p # s' @ rest)" for b
        by (rule special_serialize [OF p _ sp]) (use 1(4) IH(1) in auto)
      moreover have "s @ rest = w @ p # s' @ rest" using s Cons by simp
      ultimately show ?thesis using cs IH(2-4) seen_ordinary [OF wo, of x t "p # s' @ rest"] by auto
    qed
  qed
qed

lemma serialize_append: "(\<And>b. serialize x b ds = y) \<Longrightarrow> serialize x at (cs @ ds) = serialize x at cs @ y"
  by (induction x at cs rule: serialize.induct) auto

text \<open>Chunks that make progress: no empty string, no end in the middle.\<close>

fun proper_chunk :: "chunk \<Rightarrow> bool" where
  "proper_chunk (Str s) = (s \<noteq> [])"
| "proper_chunk (Code u) = True"
| "proper_chunk Eof = False"

lemma pre_loop_proper: "pre_loop s cr t = (cs, r) \<Longrightarrow> list_all proper_chunk cs"
proof (induction s cr t arbitrary: cs r rule: pre_loop.induct)
  case (1 s cr t)
  let ?w = "takeWhile (\<lambda>u. \<not> special_unit u) s"
  show ?case
  proof (cases "drop (length ?w) s")
    case Nil
    then show ?thesis using 1(3) by (subst (asm) pre_loop.simps) (auto simp: Let_def)
  next
    case (Cons p s')
    obtain ds cr1 t1 where sp: "special_chunks p (t + length ?w) = (ds, cr1, t1)" by (cases "special_chunks p (t + length ?w)")
    have "list_all proper_chunk ds" using sp by (auto simp: special_chunks_def Let_def list_all_iff split: if_splits)
    then show ?thesis using 1(3) 1(1) [OF refl Cons] 1(2) [OF refl Cons _ sp [symmetric] refl] Cons sp
      by (subst (asm) pre_loop.simps) (auto simp: Let_def split: prod.splits if_splits)
  qed
qed

definition pre_inv :: "preprocess_state \<Rightarrow> bool" where
  "pre_inv st \<longleftrightarrow> \<not> preStart st \<and> 1 \<le> preColumn st \<and> (afterCR st \<longrightarrow> preColumn st = 1)"

lemma preprocess_all_text:
  assumes "pre_inv st"
  shows "\<exists>cs. preprocess_all ps v st = cs @ [Eof] \<and> list_all proper_chunk cs \<and>
    (\<forall>x at. serialize x at cs = (if afterCR st then [13] else []) @ seen_text x (preColumn st) (preBuffer st @ concat ps @ v))"
  using assms
proof (induction ps arbitrary: st)
  case Nil
  obtain cs cr t n where r: "pre_loop (preBuffer st @ v) (afterCR st) (preColumn st) = (cs, cr, t, n)"
    by (cases "pre_loop (preBuffer st @ v) (afterCR st) (preColumn st)")
  have i: "1 \<le> preColumn st" "afterCR st \<Longrightarrow> preColumn st = 1" "\<not> preStart st" using Nil by (auto simp: pre_inv_def)
  let ?e = "(if cr then [Code (-5)] else []) @ (if n \<noteq> [] then [Str n] else [])"
  have n: "list_all (\<lambda>u. \<not> special_unit u) n" using pre_loop_serialize [OF r i(1,2)] by blast
  have e: "serialize x b ?e = (if cr then [13] else []) @ seen_text x t (n @ [])" for x b
    unfolding seen_ordinary [OF n] by auto
  have "serialize x at (cs @ ?e) = (if afterCR st then [13] else []) @ seen_text x (preColumn st) (preBuffer st @ v)" for x at
    using serialize_append [OF e, of x at cs] pre_loop_serialize [OF r i(1,2), of x at "[]"] by simp
  moreover have "preprocess_all [] v st = (cs @ ?e) @ [Eof]" using r i(3) by (simp add: preprocess_def Let_def)
  moreover have "list_all proper_chunk (cs @ ?e)" using pre_loop_proper [OF r] by auto
  ultimately show ?case by auto
next
  case (Cons p ps)
  obtain cs cr t n where r: "pre_loop (preBuffer st @ p) (afterCR st) (preColumn st) = (cs, cr, t, n)"
    by (cases "pre_loop (preBuffer st @ p) (afterCR st) (preColumn st)")
  have i: "1 \<le> preColumn st" "afterCR st \<Longrightarrow> preColumn st = 1" "\<not> preStart st" using Cons.prems by (auto simp: pre_inv_def)
  let ?st = "\<lparr>afterCR = cr, preColumn = t, preBuffer = n, preStart = False\<rparr>"
  have "pre_inv ?st" using pre_loop_serialize [OF r i(1,2)] by (simp add: pre_inv_def)
  then obtain ds where ds: "preprocess_all ps v ?st = ds @ [Eof]" "list_all proper_chunk ds"
    "\<And>x at. serialize x at ds = (if cr then [13] else []) @ seen_text x t (n @ concat ps @ v)"
    using Cons.IH [of ?st] by auto
  have "serialize x at (cs @ ds) = (if afterCR st then [13] else []) @ seen_text x (preColumn st) (preBuffer st @ concat (p # ps) @ v)" for x at
    using serialize_append [OF ds(3), of x at cs] pre_loop_serialize [OF r i(1,2), of x at "concat ps @ v"] by simp
  moreover have "preprocess_all (p # ps) v st = (cs @ ds) @ [Eof]" using r i(3) ds(1) by (simp add: preprocess_def Let_def)
  ultimately show ?case using pre_loop_proper [OF r] ds(2) by (metis list_all_append)
qed

text \<open>A byte order mark at the start of the first piece is not part of the text.\<close>

definition without_bom :: "jsstr list \<Rightarrow> jsstr" where
  "without_bom ps = (if ps \<noteq> [] \<and> take 1 (hd ps) = [65279] then drop 1 (concat ps) else concat ps)"

text \<open>The first write skips the mark: it is a later write of the text behind it.\<close>

lemma first_write:
  "preprocess v final new_preprocess =
     preprocess (if take 1 v = [65279] then drop 1 v else v) final (new_preprocess\<lparr>preStart := False\<rparr>)"
  by (simp add: preprocess_def new_preprocess_def)

lemma first_piece:
  "\<exists>ps' v'. preprocess_all ps v new_preprocess = preprocess_all ps' v' (new_preprocess\<lparr>preStart := False\<rparr>) \<and>
     concat ps' @ v' = without_bom (ps @ [v])"
proof (cases ps)
  case Nil
  then show ?thesis using first_write [of v True]
    by (intro exI [of _ "[]"] exI [of _ "if take 1 v = [65279] then drop 1 v else v"]) (simp add: without_bom_def)
next
  case (Cons p qs)
  let ?p = "if take 1 p = [65279] then drop 1 p else p"
  have "preprocess_all ps v new_preprocess = preprocess_all (?p # qs) v (new_preprocess\<lparr>preStart := False\<rparr>)"
    using first_write [of p False] Cons by simp
  moreover have "concat (?p # qs) @ v = without_bom (ps @ [v])"
    unfolding Cons by (cases p) (auto simp: without_bom_def)
  ultimately show ?thesis by blast
qed

text \<open>
  C21. The chunks made of a text stand for that text, in however many pieces it is written: they end
  with the end marker, hold no empty string, and their text is the one written, without byte order
  mark and with NUL replaced, where each tab reads as itself or, expanded, reaches the next tab stop.
\<close>

theorem chunks_stand_for_the_text:
  "\<exists>cs. preprocess_all ps v new_preprocess = cs @ [Eof] \<and> list_all proper_chunk cs \<and>
     serialize False False cs = map (\<lambda>u. if u = 0 then 65533 else u) (without_bom (ps @ [v])) \<and>
     serialize True False cs = seen_text True 1 (without_bom (ps @ [v]))"
proof -
  obtain ps' v' where f: "preprocess_all ps v new_preprocess = preprocess_all ps' v' (new_preprocess\<lparr>preStart := False\<rparr>)"
    "concat ps' @ v' = without_bom (ps @ [v])" using first_piece by blast
  have plain: "seen_text False t s = map (\<lambda>u. if u = 0 then 65533 else u) s" for t s
    by (induction s arbitrary: t) auto
  have "pre_inv (new_preprocess\<lparr>preStart := False\<rparr>)" by (simp add: pre_inv_def new_preprocess_def)
  from preprocess_all_text [OF this, of ps' v'] show ?thesis
    unfolding f(1) by (auto simp: new_preprocess_def f(2) plain)
qed

end
