(* ===== verification/Micromark_Points_Sound.thy ===== *)
theory Micromark_Points_Sound
  imports Micromark_Stream_Sound
begin

text \<open>
  Points of a tokenizer: they walk over the codes of the stream one by one, lines and offsets are those
  of the text, and the slice between two points holds the codes consumed between them.
\<close>

section \<open>Points as positions among the codes\<close>

fun chunk_codes :: "chunk \<Rightarrow> int option list" where
  "chunk_codes (Str s) = map (\<lambda>u. Some (int u)) s"
| "chunk_codes (Code c) = [Some c]"
| "chunk_codes Eof = [None]"

definition codes :: "chunk list \<Rightarrow> int option list" where
  "codes cs = concat (map chunk_codes cs)"

lemma codes_simps [simp]: "codes [] = []" "codes (c # cs) = chunk_codes c @ codes cs" "codes (cs @ ds) = codes cs @ codes ds"
  by (simp_all add: codes_def)

definition before :: "chunk list \<Rightarrow> point \<Rightarrow> nat" where
  "before cs p = length (codes (take (p_index p) cs)) + nat (p_bufferIndex p)"

definition point_ok :: "chunk list \<Rightarrow> point \<Rightarrow> bool" where
  "point_ok cs p \<longleftrightarrow> p_index p \<le> length cs \<and>
     (0 \<le> p_bufferIndex p \<longrightarrow> p_index p < length cs \<and>
        (\<exists>s. cs ! p_index p = Str s \<and> p_bufferIndex p < int (length s)))"

definition settled :: "chunk list \<Rightarrow> point \<Rightarrow> bool" where
  "settled cs p \<longleftrightarrow> point_ok cs p \<and> (\<forall>s. p_index p < length cs \<and> cs ! p_index p = Str s \<longrightarrow> 0 \<le> p_bufferIndex p)"

lemma codes_at:
  assumes "i < length cs"
  shows "codes cs = codes (take i cs) @ chunk_codes (cs ! i) @ codes (drop (Suc i) cs)"
  by (metis assms codes_simps(2,3) id_take_nth_drop)

lemma enter_chunk_settled:
  assumes "point_ok cs p" and "Str [] \<notin> set cs"
  shows "settled cs (enter_chunk cs p) \<and> before cs (enter_chunk cs p) = before cs p"
proof -
  have "s \<noteq> []" if "p_index p < length cs" "cs ! p_index p = Str s" for s using that assms(2) by (metis nth_mem)
  then show ?thesis using assms(1)
    by (auto simp: enter_chunk_def settled_def point_ok_def before_def split: chunk.split)
qed

lemma skip_position [simp]:
  "p_index (accountForPotentialSkip sk p) = p_index p" "p_bufferIndex (accountForPotentialSkip sk p) = p_bufferIndex p"
  by (auto simp: accountForPotentialSkip_def split: option.split)

lemma consume_position:
  "p_index (consume_code cs sk e p) =
     (if p_bufferIndex p < 0 \<or> p_bufferIndex p + 1 = int (chunk_length (cs ! p_index p)) then Suc (p_index p) else p_index p)"
  "p_bufferIndex (consume_code cs sk e p) =
     (if p_bufferIndex p < 0 then p_bufferIndex p
      else if p_bufferIndex p + 1 = int (chunk_length (cs ! p_index p)) then -1 else p_bufferIndex p + 1)"
  by (auto simp: consume_code_def Let_def)

lemma settled_step:
  assumes "settled cs p" and "p_index p < length cs"
  shows "code_at cs p = codes cs ! before cs p \<and> before cs p < length (codes cs) \<and>
    point_ok cs (consume_code cs sk e p) \<and> before cs (consume_code cs sk e p) = Suc (before cs p)"
proof -
  let ?i = "p_index p" and ?b = "p_bufferIndex p"
  note c = codes_at [OF assms(2)]
  have t: "codes (take (Suc ?i) cs) = codes (take ?i cs) @ chunk_codes (cs ! ?i)"
    using assms(2) by (simp add: take_Suc_conv_app_nth)
  show ?thesis
  proof (cases "cs ! ?i")
    case (Str s)
    have b: "0 \<le> ?b" "?b < int (length s)" using assms Str by (auto simp: settled_def point_ok_def)
    have "codes cs ! before cs p = Some (int (s ! nat ?b))" "before cs p < length (codes cs)"
      unfolding c before_def using Str b by (auto simp: nth_append)
    moreover have "before cs (consume_code cs sk e p) = Suc (before cs p)"
      using b Str t by (auto simp: before_def consume_position chunk_length_def)
    moreover have "point_ok cs (consume_code cs sk e p)"
      using b Str assms(2) by (auto simp: point_ok_def consume_position chunk_length_def)
    ultimately show ?thesis using Str by (simp add: code_at_def)
  next
    case (Code u)
    then have "?b < 0" using assms by (force simp: settled_def point_ok_def)
    then show ?thesis using Code c t assms(2)
      by (auto simp: before_def code_at_def consume_position point_ok_def nth_append)
  next
    case Eof
    then have "?b < 0" using assms by (force simp: settled_def point_ok_def)
    then show ?thesis using Eof c t assms(2)
      by (auto simp: before_def code_at_def consume_position point_ok_def nth_append)
  qed
qed

lemma settled_end: "settled cs p \<Longrightarrow> before cs p < length (codes cs) \<Longrightarrow> p_index p < length cs"
  by (auto simp: settled_def point_ok_def before_def)

lemma walk_settled:
  assumes "Str [] \<notin> set cs" and "k \<le> length (codes cs)"
  shows "settled cs (walk_codes cs sk from k) \<and> before cs (walk_codes cs sk from k) = k"
  using assms(2)
proof (induction k)
  case 0
  have "point_ok cs (start_point from)" "before cs (start_point from) = 0"
    by (simp_all add: point_ok_def before_def start_point_def)
  then show ?case using enter_chunk_settled [OF _ assms(1)] by simp
next
  case (Suc k)
  let ?p = "walk_codes cs sk from k"
  have p: "settled cs ?p" "before cs ?p = k" using Suc by auto
  have "p_index ?p < length cs" using settled_end [OF p(1)] p(2) Suc.prems by simp
  from settled_step [OF p(1) this] enter_chunk_settled [OF _ assms(1)] p(2) show ?case by (simp add: Let_def)
qed

section \<open>Slices\<close>

lemma settled_order:
  assumes "settled cs p" and "settled cs q" and "before cs p < before cs q"
  shows "p_index p \<le> p_index q"
proof (rule ccontr)
  assume "\<not> p_index p \<le> p_index q"
  then have i: "Suc (p_index q) \<le> p_index p" by simp
  have "p_index q < length cs" using i assms(1) by (simp add: settled_def point_ok_def)
  then have "before cs q \<le> length (codes (take (Suc (p_index q)) cs))"
    using assms(2) by (auto simp: before_def settled_def point_ok_def take_Suc_conv_app_nth not_le)
  also have "\<dots> \<le> length (codes (take (p_index p) cs))"
    using i by (metis append_take_drop_id codes_simps(3) le_add1 length_append min_absorb1 take_take)
  finally show False using assms(3) by (simp add: before_def)
qed

lemma slice_same_chunk:
  assumes "settled cs p" and "settled cs q" and "before cs p < before cs q" and "p_index p = p_index q"
  shows "\<exists>ds. sliceStream cs p q = Some ds \<and> codes ds = take (before cs q - before cs p) (drop (before cs p) (codes cs))"
proof -
  have "0 \<le> p_bufferIndex q" using assms(3,4) by (simp add: before_def)
  then obtain s where s: "p_index q < length cs" "cs ! p_index q = Str s" "p_bufferIndex q < int (length s)"
    using assms(2) by (auto simp: settled_def point_ok_def)
  have p: "0 \<le> p_bufferIndex p" using assms(1,4) s by (auto simp: settled_def)
  have lt: "p_bufferIndex p \<le> p_bufferIndex q" using assms(3,4) by (simp add: before_def)
  have "sliceStream cs p q = Some [Str (take (nat (p_bufferIndex q) - nat (p_bufferIndex p)) (drop (nat (p_bufferIndex p)) s))]"
    using s assms(4) slice_left [OF p lt, of s] by (simp add: sliceStream_def chunk_slice_def)
  moreover have "take (before cs q - before cs p) (drop (before cs p) (codes cs)) =
      take (nat (p_bufferIndex q) - nat (p_bufferIndex p)) (drop (nat (p_bufferIndex p)) (map (\<lambda>u. Some (int u)) s))"
    unfolding codes_at [OF s(1)] before_def assms(4) using s p lt by simp
  ultimately show ?thesis by (simp add: take_map drop_map)
qed

lemma slice_more_chunks:
  assumes "settled cs p" and "settled cs q" and "p_index p < p_index q"
  shows "\<exists>ds. sliceStream cs p q = Some ds \<and> codes ds = take (before cs q - before cs p) (drop (before cs p) (codes cs))"
proof -
  let ?n = "p_index p" and ?j = "p_index q" and ?r = "p_bufferIndex p" and ?a = "p_bufferIndex q"
  define i where "i = take (?j - ?n) (drop ?n cs)"
  define i' where "i' = (if ?r > -1 then (case i of Str s # is \<Rightarrow> Str (slice_from s ?r) # is | _ # is \<Rightarrow> is | [] \<Rightarrow> []) else i)"
  have j: "?j \<le> length cs" using assms(2) by (simp add: settled_def point_ok_def)
  have n: "?n < length cs" using assms(3) j by simp
  have hd: "i = cs ! ?n # tl i" using assms(3) j unfolding i_def
    by (metis Cons_nth_drop_Suc list.sel(3) n take_Suc_conv_app_nth take_eq_Nil2 less_imp_Suc_add zero_less_diff take_Cons' not_gr_zero)
  have i': "codes i' = drop (nat ?r) (codes i) \<and> nat ?r \<le> length (codes i)"
  proof (cases "?r > -1")
    case True
    then obtain s where s: "cs ! ?n = Str s" "?r < int (length s)" using assms(1) by (auto simp: settled_def point_ok_def)
    have "codes i' = map (\<lambda>u. Some (int u)) (drop (nat ?r) s) @ codes (tl i)"
      unfolding i'_def using True s by (subst hd) (simp add: slice_from_def)
    moreover have "codes i = map (\<lambda>u. Some (int u)) s @ codes (tl i)" by (subst hd) (simp add: s)
    ultimately show ?thesis using True s by (simp add: drop_map)
  next
    case False
    then show ?thesis by (simp add: i'_def)
  qed
  have take_j: "take ?j cs = take ?n cs @ i" unfolding i_def using assms(3) by (metis le_add_diff_inverse less_imp_le take_add)
  have c: "codes cs = codes (take ?n cs) @ codes i @ codes (drop ?j cs)"
    by (metis append_assoc append_take_drop_id codes_simps(3) take_j)
  have d: "before cs q - before cs p = length (codes i) - nat ?r + nat ?a"
    using i' unfolding before_def take_j by simp
  have t: "take (before cs q - before cs p) (drop (before cs p) (codes cs)) = codes i' @ take (nat ?a) (codes (drop ?j cs))"
    unfolding d using i' by (simp add: before_def c)
  show ?thesis
  proof (cases "?a > 0")
    case True
    then obtain s where s: "?j < length cs" "cs ! ?j = Str s" "?a < int (length s)" using assms(2) by (auto simp: settled_def point_ok_def)
    have "chunk_slice cs ?j 0 ?a = Some (Str (take (nat ?a) s))" using s True slice_left [of 0 ?a s] by (simp add: chunk_slice_def)
    moreover have "codes (drop ?j cs) = map (\<lambda>u. Some (int u)) s @ codes (drop (Suc ?j) cs)"
      by (metis Cons_nth_drop_Suc chunk_codes.simps(1) codes_simps(2) s(1,2))
    ultimately show ?thesis unfolding t using True assms(3) s(3)
      by (simp add: sliceStream_def i_def [symmetric] i'_def [symmetric] take_map)
  next
    case False
    then show ?thesis unfolding t using assms(3) by (simp add: sliceStream_def i_def [symmetric] i'_def [symmetric])
  qed
qed

section \<open>Lines and offsets\<close>

definition code_width :: "int option \<Rightarrow> int" where
  "code_width e = (if e = Some (-3) then 2 else if e = Some (-1) then 0 else 1)"

definition line_endings :: "int option list \<Rightarrow> int" where
  "line_endings es = int (length (filter is_line_ending es))"

lemma enter_chunk_place [simp]:
  "p_offset (enter_chunk cs p) = p_offset p" "p_line (enter_chunk cs p) = p_line p"
  by (auto simp: enter_chunk_def split: chunk.split)

lemma consume_place:
  "p_offset (consume_code cs Map.empty e p) = p_offset p + code_width e"
  "p_line (consume_code cs Map.empty e p) = p_line p + (if is_line_ending e then 1 else 0)"
  by (auto simp: consume_code_def Let_def accountForPotentialSkip_def code_width_def is_line_ending_def split: option.splits)

lemma walk_code:
  assumes "Str [] \<notin> set cs" and "k < length (codes cs)"
  shows "code_at cs (walk_codes cs sk from k) = codes cs ! k"
proof -
  have w: "settled cs (walk_codes cs sk from k)" "before cs (walk_codes cs sk from k) = k" using walk_settled [OF assms(1)] assms(2) by auto
  then show ?thesis using settled_step [OF w(1) settled_end [OF w(1)]] assms(2) by simp
qed

lemma walk_place:
  assumes "Str [] \<notin> set cs" and "k \<le> length (codes cs)"
  shows "p_offset (walk_codes cs Map.empty from k) = p_offset from + sum_list (map code_width (take k (codes cs))) \<and>
    p_line (walk_codes cs Map.empty from k) = p_line from + line_endings (take k (codes cs))"
  using assms(2)
proof (induction k)
  case 0
  then show ?case by (simp add: start_point_def line_endings_def)
next
  case (Suc k)
  have "take (Suc k) (codes cs) = take k (codes cs) @ [codes cs ! k]" using Suc.prems by (simp add: take_Suc_conv_app_nth)
  then show ?case using Suc walk_code [OF assms(1), of k Map.empty "from"]
    by (simp add: Let_def consume_place line_endings_def)
qed

text \<open>
  C22. A tokenizer that consumes each code it is handed walks over the codes of its chunks one by one;
  without skipped columns its line and offset count the line endings and the characters of the text
  it has passed; and the slice of the stream between two of its points, the later one second, exists and
  holds exactly the codes consumed in between.
\<close>

theorem tokens_slice_the_stream:
  assumes "Str [] \<notin> set cs" and "j < k" and "k \<le> length (codes cs)"
  shows "code_at cs (walk_codes cs skips from j) = codes cs ! j \<and>
    (\<exists>ds. sliceStream cs (walk_codes cs skips from j) (walk_codes cs skips from k) = Some ds \<and> codes ds = take (k - j) (drop j (codes cs))) \<and>
    p_offset (walk_codes cs Map.empty from k) = p_offset from + sum_list (map code_width (take k (codes cs))) \<and>
    p_line (walk_codes cs Map.empty from k) = p_line from + line_endings (take k (codes cs))"
proof -
  let ?p = "walk_codes cs skips from j" and ?q = "walk_codes cs skips from k"
  have p: "settled cs ?p" "before cs ?p = j" and q: "settled cs ?q" "before cs ?q = k"
    using walk_settled [OF assms(1)] assms(2,3) by auto
  have "p_index ?p = p_index ?q \<or> p_index ?p < p_index ?q"
    using settled_order [OF p(1) q(1)] p(2) q(2) assms(2) by auto
  then have "\<exists>ds. sliceStream cs ?p ?q = Some ds \<and> codes ds = take (k - j) (drop j (codes cs))"
    using slice_same_chunk [OF p(1) q(1)] slice_more_chunks [OF p(1) q(1)] p(2) q(2) assms(2) by auto
  then show ?thesis using walk_code [OF assms(1), of j] walk_place [OF assms(1,3)] assms(2,3) by simp
qed

theorem tokens_slice_the_stream_witness:
  "\<exists>ds. sliceStream [Str (js ''ab''), Code (-3), Str (js ''c''), Eof]
       (walk_codes [Str (js ''ab''), Code (-3), Str (js ''c''), Eof] Map.empty document_start 1)
       (walk_codes [Str (js ''ab''), Code (-3), Str (js ''c''), Eof] Map.empty document_start 4) = Some ds \<and>
     codes ds = [Some 98, Some (-3), Some 99] \<and>
     p_offset (walk_codes [Str (js ''ab''), Code (-3), Str (js ''c''), Eof] Map.empty document_start 4) = 5"
proof -
  let ?cs = "[Str (js ''ab''), Code (-3), Str (js ''c''), Eof]"
  have c: "codes ?cs = [Some 97, Some 98, Some (-3), Some 99, None]" by (simp add: js_def)
  have s: "Str [] \<notin> set ?cs" by (simp add: js_def)
  have "(1::nat) < 4" "4 \<le> length (codes ?cs)" unfolding c by simp_all
  note t = tokens_slice_the_stream [OF s this, of Map.empty document_start]
  obtain ds where "sliceStream ?cs (walk_codes ?cs Map.empty document_start 1) (walk_codes ?cs Map.empty document_start 4) = Some ds"
    "codes ds = take (4 - 1) (drop 1 (codes ?cs))" using t by blast
  moreover have "p_offset (walk_codes ?cs Map.empty document_start 4) = p_offset document_start + sum_list (map code_width (take 4 (codes ?cs)))"
    using t by blast
  ultimately show ?thesis unfolding c by (auto simp: code_width_def document_start_def)
qed

end
