(* ===== verification/Spec2Isabelle.thy ===== *)
theory Spec2Isabelle
  imports Cdp_Client Capture_Main Html_Reference_Sound Html_Stack_Sound Html_Formatting_Sound Html_Dom_Sound
    Hast_Parse5_Sound Markdown_Render
    Mdast_Autolink_Sound Markdown_Table Micromark_Points_Sound
begin

text \<open>
  \<^bold>\<open>Verification library of the JavaScript of PerGo.\<close>

  PerGo is a messaging server written in Go. Two JavaScript files belong to it:

  \<^item> \<^verbatim>\<open>src/scripts/capture_screenshots.js\<close>, the repository's own script that starts Chrome, drives it over the
    DevTools protocol against a seeded server, takes the screenshots of the documentation and
    converts them;
  \<^item> \<^verbatim>\<open>src/api/scalar.standalone.js\<close>, the bundle that shows the API reference in the browser. It is a vendored
    build of Scalar with all its libraries. The part that matters for safety is the one that turns
    the descriptions of the API, which are markdown with raw HTML in it, into the HTML assigned to
    \<open>innerHTML\<close> (component \<open>ScalarMarkdown\<close>): that path is modelled from the events of the markdown parser to the text.

  \<^bold>\<open>The script.\<close> \<open>PerGo_Prelude\<close> has shared lemmas on strings and the printing of numbers, \<open>Script_Effects\<close> the
  actions of the script and computations over them (every answer of the server, of the browser and of
  the file system is an argument). \<open>Cdp_Client\<close> models \<open>waitHttp\<close>, \<open>getJson\<close> and \<open>createCDPClient\<close>: promises
  are settled by the first reply with their id, ids count up, polling ends after a bounded number
  of attempts. \<open>Capture_Main\<close> models \<open>main\<close>: Chrome is stopped and its profile removed on every path,
  assets appear in order, the process exits once, the password survives the login form.

  \<^bold>\<open>The HTML parser (parse5 in the bundle).\<close>

  \<^item> \<open>Html_Codes\<close>, \<open>Html_Decode\<close>: code points, character classes, error codes, the table of named character
    references and its binary search, which agrees with a linear search.
  \<^item> \<open>Html_Preprocessor\<close>, \<open>Html_Stream\<close>: class \<open>$m\<close>. The contract of a source that can step back is the
    locale \<open>rewindable_source\<close>, interpreted on \<open>advance\<close> and \<open>retreat\<close>. Reading a text gives its code points with
    line endings normalized.
  \<^item> \<open>Html_Token_Core\<close>, \<open>Html_States\<close>, \<open>Html_Doctype_States\<close>, \<open>Html_Tokenizer\<close>: class \<open>Ag\<close> with its 79
    states; the handler of tokens is an argument, the main loop a partial function in which \<open>None\<close> is a
    loop that does not end. \<open>Html_Progress\<close>: it always ends. \<open>Html_Token_Invariant\<close>, \<open>Html_Soundness\<close>,
    \<open>Html_Reference_Sound\<close>: no text of up to 65536 units makes it throw and all tokens are well formed. The
    length keeps the buffer below the mark from which the preprocessor drops what it has read.
  \<^item> \<open>Html_Tags\<close>, \<open>Html_Dom\<close>, \<open>Html_Open_Elements\<close>, \<open>Html_Formatting\<close>: tag ids and tables, the tree as a
    heap with the tree adapter \<open>qg\<close>, the stack \<open>jg\<close>, the list of active formatting elements. \<open>Html_Dom_Sound\<close>:
    the heap stays a forest. \<open>Html_Stack_Sound\<close>: the stack implements a list (locale \<open>pop_stack\<close>, interpreted
    on \<open>push\<close> and \<open>pop\<close>) and the scope tests agree with the definition of a scope.
    \<open>Html_Formatting_Sound\<close>: at most three equal entries behind a marker.
  \<^item> \<open>Html_Parser\<close>, \<open>Html_Body_Modes\<close>, \<open>Html_Tree_Builder\<close>: class \<open>yv\<close> with its 23 insertion modes, the adoption
    agency, foster parenting and foreign content. A token that is handed back to \<open>_processToken\<close> uses up
    one of \<open>handback_bound\<close> rounds, which grow with the stack and the stack of template modes: a hand-back
    pops an element or a template mode or goes on to a later insertion mode. Running out sets
    \<open>thrown\<close>, as an exhausted call stack does; that it never happens is not proved.

  \<^bold>\<open>The syntax tree and its tools.\<close>

  \<^item> \<open>Distinct_Check\<close>, \<open>Hast_Schema\<close>, \<open>Hast_Tables\<close>, \<open>Hast_Names\<close>, \<open>Hast_Data\<close>: property-information; the tables
    of HTML and SVG attributes, how they are merged and searched, round trips of names.
  \<^item> \<open>Hast_Tree\<close>, \<open>Hast_Values\<close>: the syntax tree, property values, lists in attribute values.
  \<^item> \<open>Mdast_To_Hast\<close>, \<open>Mdast_Sound\<close>: mdast-util-to-hast with its handlers and footnotes, URLs. The loop over
    footnotes has as many rounds as the document has references, which is proved to be enough.
  \<^item> \<open>Mdast_Compile\<close>, \<open>Mdast_Compile_Sound\<close>: the compiler of events, with a store of nodes, the two stacks and the
    handlers of markdown and of its GitHub extensions. Its errors are those of a stack of types; its
    nodes form a tree, which is why reading it to the depth of the number of nodes is enough.
  \<^item> \<open>Mdast_Autolink\<close>, \<open>Mdast_Autolink_Sound\<close>: the links that the parser puts in for plain URLs and mail addresses
    (\<open>iO\<close>, \<open>Xy\<close>), with their two regular expressions: they change no text and lead to what they show.
  \<^item> \<open>Micromark_Stream\<close>, \<open>Micromark_Stream_Sound\<close>, \<open>Micromark_Points_Sound\<close>: the input of the markdown parser, its
    chunks, points and slices: chunks stand for the text written, slices hold the codes consumed.
  \<^item> \<open>Event_Buffers\<close>, \<open>Event_Buffers_Sound\<close>: the splice buffer and the edit map in which the parser edits its
    events. The locale \<open>edit_buffer\<close> is what a client of either store of events relies on; it is interpreted on the
    splice buffer and on arrays with \<open>jw\<close>.
  \<^item> \<open>Micromark_Util\<close>, \<open>Markdown_Table\<close>: helpers of the markdown parser and writer (splicing of long lists,
    numeric references, escapes, identifiers, lines) and tables as text, whose columns are aligned.
  \<^item> \<open>Hast_Parse5\<close>, \<open>Hast_Parse5_Sound\<close>: hastscript, hast-util-from-parse5 and hast-util-to-parse5; their round
    trip, and the inputs on which the conversion throws or changes the document.
  \<^item> \<open>Hast_Raw\<close>, \<open>Hast_Raw_Sound\<close>: hast-util-raw, which feeds a tree with raw HTML to the HTML parser above.
    The tree in the heap is read to the depth of its number of nodes.
  \<^item> \<open>Hast_Sanitize\<close>, \<open>Hast_Sanitize_Sound\<close>: hast-util-sanitize with the schema of \<open>ScalarMarkdown\<close>: what comes out
    has listed elements, attributes and URL schemes only, and the sanitizer is idempotent.
  \<^item> \<open>Entity_Stringify\<close>, \<open>Hast_Stringify\<close>, \<open>Hast_Stringify_Sound\<close>: character references and hast-util-to-html;
    a scanner reads what is written back.
  \<^item> \<open>Hast_Format\<close>, \<open>Hast_Format_Sound\<close>: rehype-external-links, rehype-minify-whitespace, rehype-format.
  \<^item> \<open>Markdown_Pipeline\<close>, \<open>Markdown_Render\<close>: the steps composed in the order \<open>ScalarMarkdown\<close> uses them, and the
    property of the whole: only listed tags reach \<open>innerHTML\<close>.

  \<^bold>\<open>How the code is read.\<close> Strings are lists of UTF-16 units (\<open>jsstr\<close>); \<open>None\<close> stands for \<open>undefined\<close> and \<open>null\<close>;
  an exception is a value of a sum type, or a flag (\<open>stuck\<close>, \<open>thrown\<close>, \<open>broken\<close>) where the source mutates
  objects in place; an object with keys in order is an association list. \<open>toLowerCase\<close> and
  \<open>toUpperCase\<close>, which depend on the Unicode tables of the engine, and \<open>Number\<close> are arguments, with the
  hypothesis \<open>lowers_ascii\<close> where ASCII letters matter, as is the Unicode class of punctuation and symbols. State that the source keeps in a global regular
  expression (\<open>lastIndex\<close>) is threaded through.

  \<^bold>\<open>Not modelled.\<close> The Go code (\<^verbatim>\<open>src/cmd\<close>, \<^verbatim>\<open>src/internal\<close>), templates, style sheets and documents. Of
  the bundle: the constructs of the markdown parser and its grouping of list items (the events
  are an argument), the node handlers of the markdown writer, the syntax highlighter (an argument of the
  pipeline with the hypothesis that it puts in listed elements only), the streaming entity decoder,
  Vue and the components of the user interface. Of the parts that are modelled: positions and source
  locations, \<open>data\<close> fields, the script handler and the hooks of custom tree adapters, and options of the
  libraries that \<open>ScalarMarkdown\<close> does not pass.
\<close>

end
